(* ===== verification/Pole_Prelude.thy ===== *)
theory Pole_Prelude
  imports Main "HOL-Library.Word" "HOL-Library.List_Lexorder" "HOL-Library.Product_Lexorder"
    "HOL-Library.Char_ord"
begin

text \<open>
  What every other theory of the development shares: the widths of the machine integers of
  the Rust sources, the saturating operations of the standard library, the \<open>?\<close> operator on
  \<open>Result\<close> values, and the lemmas that move a word computation to the natural numbers.

  The crate sets no profile of its own, so the shipped (release) binaries compute \<open>+\<close>, \<open>-\<close> and
  \<open>*\<close> modulo the width; that is what the operations on words below do. Fixed arrays \<open>[u8; 32]\<close>
  (hashes, node ids, addresses, public keys) are 256-bit words read big-endian, so that the
  lexicographic order Rust puts on such arrays is the numeric order of the words
  (\<open>less_bytes32_iff\<close>).
\<close>

type_synonym u8 = "8 word"
type_synonym u16 = "16 word"
type_synonym u32 = "32 word"
type_synonym u64 = "64 word"
type_synonym u128 = "128 word"
type_synonym bytes32 = "256 word"
type_synonym byte_vec = "u8 list"

named_theorems nat_of_word \<open>equations that turn word arithmetic into arithmetic on \<open>nat\<close>\<close>
named_theorems rust_try \<open>equations and splits for the \<open>?\<close> operator\<close>

subsection \<open>Saturating arithmetic\<close>

definition saturating_add :: "'a::len word \<Rightarrow> 'a word \<Rightarrow> 'a word" where
  "saturating_add a b = (if uint a + uint b < 2 ^ LENGTH('a) then a + b else - 1)"

definition saturating_sub :: "'a::len word \<Rightarrow> 'a word \<Rightarrow> 'a word" where
  "saturating_sub a b = (if b \<le> a then a - b else 0)"

definition saturating_mul :: "'a::len word \<Rightarrow> 'a word \<Rightarrow> 'a word" where
  "saturating_mul a b = (if uint a * uint b < 2 ^ LENGTH('a) then a * b else - 1)"

definition clamp :: "'a::linorder \<Rightarrow> 'a \<Rightarrow> 'a \<Rightarrow> 'a" where
  "clamp x lo hi = (if x < lo then lo else if hi < x then hi else x)"

lemma unat_max_word: "unat (- 1 :: 'a::len word) = 2 ^ LENGTH('a) - 1"
  by (simp add: unsigned_minus_1_eq_mask mask_eq_exp_minus_1)

lemma uint_less_iff_unat_less:
  "uint a + uint b < 2 ^ LENGTH('a) \<longleftrightarrow> unat a + unat b < 2 ^ LENGTH('a)"
  "uint a * uint b < 2 ^ LENGTH('a) \<longleftrightarrow> unat a * unat b < 2 ^ LENGTH('a)"
  for a b :: "'a::len word"
proof -
  have "int n < 2 ^ LENGTH('a) \<longleftrightarrow> n < 2 ^ LENGTH('a)" for n :: nat
    using of_nat_less_iff [of n "2 ^ LENGTH('a)", where 'a = int] by simp
  from this [of "unat a + unat b"] this [of "unat a * unat b"]
  show "uint a + uint b < 2 ^ LENGTH('a) \<longleftrightarrow> unat a + unat b < 2 ^ LENGTH('a)"
    and "uint a * uint b < 2 ^ LENGTH('a) \<longleftrightarrow> unat a * unat b < 2 ^ LENGTH('a)"
    by simp_all
qed

lemma unat_bound: "unat (w :: 'a::len word) < 2 ^ LENGTH('a)"
  by simp

lemma unat_ucast_up: "LENGTH('a) \<le> LENGTH('b) \<Longrightarrow> unat (ucast (w :: 'a::len word) :: 'b::len word) = unat w"
proof -
  assume "LENGTH('a) \<le> LENGTH('b)"
  then have "(2::nat) ^ LENGTH('a) \<le> 2 ^ LENGTH('b)" by (rule power_increasing) simp
  with unat_bound [of w] have "unat w < 2 ^ LENGTH('b)" by (rule less_le_trans)
  then show ?thesis by (simp add: unsigned_ucast_eq take_bit_nat_eq_self)
qed

lemma unat_of_nat_exact: "n < 2 ^ LENGTH('a) \<Longrightarrow> unat (word_of_nat n :: 'a::len word) = n"
  by (simp add: unsigned_of_nat take_bit_nat_eq_self)

lemma unat_add_exact:
  "unat a + unat b < 2 ^ LENGTH('a) \<Longrightarrow> unat (a + b) = unat a + unat b"
  for a b :: "'a::len word"
  by (simp add: unat_word_ariths)

lemma unat_mult_exact:
  "unat a * unat b < 2 ^ LENGTH('a) \<Longrightarrow> unat (a * b) = unat a * unat b"
  for a b :: "'a::len word"
  by (simp add: unat_word_ariths)

lemma unat_diff_exact: "b \<le> a \<Longrightarrow> unat (a - b) = unat a - unat b"
  for a b :: "'a::len word"
  by (simp add: unat_sub)

lemma unat_saturating_add [nat_of_word]:
  "unat (saturating_add a b) = min (unat a + unat b) (2 ^ LENGTH('a) - 1)"
  for a b :: "'a::len word"
  by (auto simp: saturating_add_def uint_less_iff_unat_less unat_add_exact unat_max_word min_def)

lemma unat_saturating_mul [nat_of_word]:
  "unat (saturating_mul a b) = min (unat a * unat b) (2 ^ LENGTH('a) - 1)"
  for a b :: "'a::len word"
proof (cases "unat a * unat b < 2 ^ LENGTH('a)")
  case False
  then have "2 ^ LENGTH('a) - 1 \<le> unat a * unat b" by simp
  with False show ?thesis
    by (simp add: saturating_mul_def uint_less_iff_unat_less unat_max_word)
qed (simp add: saturating_mul_def uint_less_iff_unat_less unat_mult_exact)

lemma unat_saturating_mul_exact:
  "unat a * unat b < 2 ^ LENGTH('a) \<Longrightarrow> unat (saturating_mul a b) = unat a * unat b"
  for a b :: "'a::len word"
  by (simp add: unat_saturating_mul)

lemma unat_saturating_sub [nat_of_word]: "unat (saturating_sub a b) = unat a - unat b"
  for a b :: "'a::len word"
  by (auto simp: saturating_sub_def unat_sub word_le_nat_alt)

lemma clamp_bounds: "lo \<le> hi \<Longrightarrow> lo \<le> clamp x lo hi \<and> clamp x lo hi \<le> hi"
  by (auto simp: clamp_def)


subsection \<open>Byte strings\<close>

fun be_bytes :: "nat \<Rightarrow> int \<Rightarrow> byte_vec" where
  "be_bytes 0 x = []"
| "be_bytes (Suc n) x = word_of_int (x div 256 ^ n) # be_bytes n (x mod 256 ^ n)"

fun le_bytes :: "nat \<Rightarrow> int \<Rightarrow> byte_vec" where
  "le_bytes 0 x = []"
| "le_bytes (Suc n) x = word_of_int (x mod 256) # le_bytes n (x div 256)"

definition of_be_bytes :: "byte_vec \<Rightarrow> int" where
  "of_be_bytes bs = foldl (\<lambda>acc b. acc * 256 + uint b) 0 bs"

definition to_bytes32 :: "bytes32 \<Rightarrow> byte_vec" where
  "to_bytes32 w = be_bytes 32 (uint w)"

definition of_bytes32 :: "byte_vec \<Rightarrow> bytes32" where
  "of_bytes32 bs = word_of_int (of_be_bytes bs)"

lemma length_be_bytes [simp]: "length (be_bytes n x) = n"
  by (induction n x rule: be_bytes.induct) simp_all

lemma length_le_bytes [simp]: "length (le_bytes n x) = n"
  by (induction n x rule: le_bytes.induct) simp_all

lemma uint_byte: "0 \<le> q \<Longrightarrow> q < 256 \<Longrightarrow> uint (word_of_int q :: u8) = q"
  by (simp add: uint_word_of_int)

lemma byte_order:
  assumes "0 \<le> p" "p < 256" "0 \<le> q" "q < 256"
  shows "(word_of_int p :: u8) < word_of_int q \<longleftrightarrow> p < q"
    and "(word_of_int p :: u8) = word_of_int q \<longleftrightarrow> p = q"
  using assms by (simp_all add: word_less_def word_uint_eq_iff uint_byte)

lemma less_by_digit:
  fixes x y b :: int
  assumes "0 < b"
  shows "x < y \<longleftrightarrow> x div b < y div b \<or> x div b = y div b \<and> x mod b < y mod b"
proof -
  have x: "x = b * (x div b) + x mod b" and y: "y = b * (y div b) + y mod b" by simp_all
  have xb: "0 \<le> x mod b" "x mod b < b" and yb: "0 \<le> y mod b" "y mod b < b"
    using assms by simp_all
  consider "x div b < y div b" | "x div b = y div b" | "y div b < x div b" by linarith
  then show ?thesis
  proof cases
    case 1
    then have "b * (x div b) + b \<le> b * (y div b)"
      using assms by (metis mult_left_mono distrib_left mult.right_neutral less_imp_le zless_imp_add1_zle)
    with 1 x y xb yb show ?thesis by linarith
  next
    case 2
    with x y show ?thesis by (metis add_less_cancel_left less_irrefl)
  next
    case 3
    then have "b * (y div b) + b \<le> b * (x div b)"
      using assms by (metis mult_left_mono distrib_left mult.right_neutral less_imp_le zless_imp_add1_zle)
    with 3 x y xb yb show ?thesis by linarith
  qed
qed

lemma div_digit_bounds:
  fixes x :: int
  assumes "0 \<le> x" "x < 256 ^ Suc n"
  shows "0 \<le> x div 256 ^ n" "x div 256 ^ n < 256" "0 \<le> x mod 256 ^ n" "x mod 256 ^ n < 256 ^ n"
proof -
  show "x div 256 ^ n < 256"
  proof -
    have "x div 256 ^ n < 256 \<or> x div 256 ^ n = 256 \<and> x mod 256 ^ n < 0"
      using assms(2) less_by_digit [of "256 ^ n" x "256 ^ Suc n"] by simp
    moreover have "\<not> x mod 256 ^ n < 0" by (simp add: not_less)
    ultimately show ?thesis by blast
  qed
qed (use assms in \<open>simp_all add: pos_imp_zdiv_nonneg_iff\<close>)

lemma be_bytes_less_iff:
  "0 \<le> x \<Longrightarrow> x < 256 ^ n \<Longrightarrow> 0 \<le> y \<Longrightarrow> y < 256 ^ n \<Longrightarrow>
    be_bytes n x < be_bytes n y \<longleftrightarrow> x < y"
proof (induction n arbitrary: x y)
  case (Suc n)
  note bx = div_digit_bounds [OF Suc.prems(1,2)] and by' = div_digit_bounds [OF Suc.prems(3,4)]
  show ?case
    using bx by' Suc.IH [OF bx(3,4) by'(3,4)] less_by_digit [of "256 ^ n" x y]
    by (simp add: byte_order)
qed simp

lemma foldl_be_bytes:
  "0 \<le> x \<Longrightarrow> x < 256 ^ n \<Longrightarrow>
    foldl (\<lambda>acc b. acc * 256 + uint b) a (be_bytes n x) = a * 256 ^ n + x"
proof (induction n arbitrary: x a)
  case (Suc n)
  note b = div_digit_bounds [OF Suc.prems]
  have "a * 256 ^ Suc n + x = (a * 256 + x div 256 ^ n) * 256 ^ n + x mod 256 ^ n"
    by (simp add: distrib_right div_mult_mod_eq)
  with b show ?case
    by (simp add: Suc.IH uint_byte)
qed simp

lemma length_to_bytes32 [simp]: "length (to_bytes32 w) = 32"
  by (simp add: to_bytes32_def)

lemma uint_bytes32_bound: "0 \<le> uint w" "uint w < 256 ^ 32" for w :: bytes32
  using uint_lt2p [of w] by simp_all

lemma of_to_bytes32 [simp]: "of_bytes32 (to_bytes32 w) = w"
  by (simp add: of_bytes32_def to_bytes32_def of_be_bytes_def
      foldl_be_bytes [OF uint_bytes32_bound])

lemma less_bytes32_iff: "to_bytes32 a < to_bytes32 b \<longleftrightarrow> a < b"
  by (simp add: to_bytes32_def word_less_def
      be_bytes_less_iff [OF uint_bytes32_bound uint_bytes32_bound])

subsection \<open>The \<open>?\<close> operator\<close>

text \<open>
  A method on \<open>&mut self\<close> that returns a \<open>Result\<close> is a function to a pair: the result, with
  \<open>Inl\<close> for \<open>Err\<close>, and the state it leaves behind. The state is returned on the error paths
  too, because Rust does not undo the writes made before an early return.
  \<open>try_with r s k\<close> is \<open>let x = r?; k\<close> in state \<open>s\<close>.
\<close>

type_synonym ('e, 'a, 's) outcome = "('e + 'a) \<times> 's"

definition try_with ::
  "'e + 'a \<Rightarrow> 's \<Rightarrow> ('a \<Rightarrow> ('e, 'b, 's) outcome) \<Rightarrow> ('e, 'b, 's) outcome" where
  "try_with r s k = (case r of Inl e \<Rightarrow> (Inl e, s) | Inr x \<Rightarrow> k x)"

definition try_then ::
  "('e, 'a, 's) outcome \<Rightarrow> ('a \<Rightarrow> 's \<Rightarrow> ('e, 'b, 's) outcome) \<Rightarrow> ('e, 'b, 's) outcome" where
  "try_then r k = (case r of (Inl e, s) \<Rightarrow> (Inl e, s) | (Inr x, s) \<Rightarrow> k x s)"

definition ok_or :: "'a option \<Rightarrow> 'e \<Rightarrow> 'e + 'a" where
  "ok_or v e = (case v of None \<Rightarrow> Inl e | Some x \<Rightarrow> Inr x)"

lemma try_with_simps [simp, rust_try]:
  "try_with (Inl e) s k = (Inl e, s)"
  "try_with (Inr x) s k = k x"
  by (simp_all add: try_with_def)

lemma try_then_simps [simp, rust_try]:
  "try_then (Inl e, s) k' = (Inl e, s)"
  "try_then (Inr x, s) k' = k' x s"
  by (simp_all add: try_then_def)

lemma ok_or_simps [simp, rust_try]:
  "ok_or None e = Inl e"
  "ok_or (Some x) e = Inr x"
  by (simp_all add: ok_or_def)

lemma ok_or_Inr_iff [simp]: "ok_or v e = Inr x \<longleftrightarrow> v = Some x"
  by (cases v) simp_all

lemma ok_or_Inl_iff: "ok_or v e = Inl e' \<longleftrightarrow> v = None \<and> e' = e"
  by (cases v) auto

lemma try_with_Inr_iff:
  "try_with r s k = (Inr y, s') \<longleftrightarrow> (\<exists>x. r = Inr x \<and> k x = (Inr y, s'))"
  by (cases r) simp_all

lemma try_with_Inl_iff:
  "try_with r s k = (Inl e, s') \<longleftrightarrow> r = Inl e \<and> s' = s \<or> (\<exists>x. r = Inr x \<and> k x = (Inl e, s'))"
  by (cases r) auto

lemma try_then_Inr_iff:
  "try_then r k = (Inr y, s') \<longleftrightarrow> (\<exists>x t. r = (Inr x, t) \<and> k x t = (Inr y, s'))"
  by (cases "(r, k)" rule: prod.exhaust; cases r; cases "fst r") auto

lemma try_with_split [rust_try]:
  "P (try_with r s k) \<longleftrightarrow> (\<forall>e. r = Inl e \<longrightarrow> P (Inl e, s)) \<and> (\<forall>x. r = Inr x \<longrightarrow> P (k x))"
  by (cases r) simp_all

lemma ok_or_split:
  "P (ok_or v e) \<longleftrightarrow> (v = None \<longrightarrow> P (Inl e)) \<and> (\<forall>x. v = Some x \<longrightarrow> P (Inr x))"
  by (cases v) simp_all

subsection \<open>Iterator methods\<close>

text \<open>\<open>Iterator::max_by_key\<close> returns the last of the elements with the largest key.\<close>

definition max_by_key :: "('a \<Rightarrow> 'k::linorder) \<Rightarrow> 'a list \<Rightarrow> 'a option" where
  "max_by_key key xs =
     (case xs of
        [] \<Rightarrow> None
      | x # rest \<Rightarrow> Some (foldl (\<lambda>best y. if key best \<le> key y then y else best) x rest))"

text \<open>\<open>collect::<Result<Vec<_>, _>>()\<close> stops at the first error.\<close>

fun collect_results :: "('e + 'a) list \<Rightarrow> 'e + 'a list" where
  "collect_results [] = Inr []"
| "collect_results (Inl e # rest) = Inl e"
| "collect_results (Inr x # rest) = map_sum id ((#) x) (collect_results rest)"

lemma foldl_max_key:
  fixes key :: "'a \<Rightarrow> 'k::linorder"
  defines "pick \<equiv> \<lambda>best y. if key best \<le> key y then y else best"
  shows "foldl pick x xs \<in> set (x # xs) \<and> (\<forall>y \<in> set (x # xs). key y \<le> key (foldl pick x xs))"
proof (induction xs arbitrary: x)
  case (Cons y ys)
  have p: "pick x y \<in> {x, y}" "key x \<le> key (pick x y)" "key y \<le> key (pick x y)"
    by (auto simp: pick_def)
  with Cons [of "pick x y"] show ?case by (auto intro: order.trans)
qed simp

lemma max_by_key_None [simp]: "max_by_key key xs = None \<longleftrightarrow> xs = []"
  by (simp add: max_by_key_def split: list.split)

lemma max_by_key_Some: "max_by_key key xs = Some m \<Longrightarrow> m \<in> set xs \<and> (\<forall>y \<in> set xs. key y \<le> key m)"
  using foldl_max_key [of key] by (auto simp: max_by_key_def split: list.splits)

lemma collect_results_Inr_iff: "collect_results rs = Inr xs \<longleftrightarrow> rs = map Inr xs"
proof (induction rs arbitrary: xs rule: collect_results.induct)
  case (3 x rest)
  have "collect_results (Inr x # rest) = Inr xs \<longleftrightarrow> (\<exists>ys. xs = x # ys \<and> collect_results rest = Inr ys)"
    by (cases "collect_results rest") auto
  then show ?case unfolding 3 by (auto simp: Cons_eq_map_conv)
qed (auto simp: Cons_eq_map_conv)

lemma collect_results_total: "(\<And>x. x \<in> set xs \<Longrightarrow> \<exists>y. f x = Inr y) \<Longrightarrow> \<exists>ys. collect_results (map f xs) = Inr ys"
  by (induction xs) (fastforce split: sum.splits)+

lemma sorted_map_fst: "sorted (map h xs) \<Longrightarrow> sorted (map (\<lambda>x. fst (h x)) xs)"
  for h :: "'a \<Rightarrow> 'b::linorder \<times> 'c::linorder"
  unfolding sorted_map by (erule sorted_wrt_mono_rel [rotated]) (auto simp: less_eq_prod_def)

end
