(* ===== verification/BTree_Map.thy ===== *)
theory BTree_Map
  imports Pole_Prelude
begin

text \<open>
  The ordered containers of the Rust standard library, \<open>BTreeMap\<close> and \<open>BTreeSet\<close>, which hold
  all the state of the protocol. A map is its list of entries in strictly increasing key
  order: that list is what every iterator of the container yields, and two maps are equal
  exactly when their entries are. The locale \<open>ordered_map\<close> states what the other components
  rely on (what a lookup returns after an insertion or a removal, the order of the entries)
  and derives the facts about sums over all values that the ledger proofs need.
\<close>

subsection \<open>Entry lists in key order\<close>

fun al_insert :: "'k::linorder \<Rightarrow> 'v \<Rightarrow> ('k \<times> 'v) list \<Rightarrow> ('k \<times> 'v) list" where
  "al_insert k v [] = [(k, v)]"
| "al_insert k v ((l, w) # es) =
     (if k = l then (k, v) # es
      else if k < l then (k, v) # (l, w) # es
      else (l, w) # al_insert k v es)"

fun al_remove :: "'k \<Rightarrow> ('k \<times> 'v) list \<Rightarrow> ('k \<times> 'v) list" where
  "al_remove k [] = []"
| "al_remove k ((l, w) # es) = (if k = l then es else (l, w) # al_remove k es)"

lemma al_insert_elem: "e \<in> set (al_insert k v es) \<Longrightarrow> e = (k, v) \<or> e \<in> set es"
  by (induction k v es rule: al_insert.induct) (auto split: if_splits)

lemma al_remove_elem: "e \<in> set (al_remove k es) \<Longrightarrow> e \<in> set es"
  by (induction k es rule: al_remove.induct) (auto split: if_splits)

lemma sorted_al_insert:
  "sorted_wrt (<) (map fst es) \<Longrightarrow> sorted_wrt (<) (map fst (al_insert k v es))"
  by (induction k v es rule: al_insert.induct) (auto dest!: al_insert_elem)

lemma sorted_al_remove:
  "sorted_wrt (<) (map fst es) \<Longrightarrow> sorted_wrt (<) (map fst (al_remove k es))"
  by (induction k es rule: al_remove.induct) (auto dest!: al_remove_elem)

lemma map_of_al_insert: "map_of (al_insert k v es) = (map_of es)(k \<mapsto> v)"
  by (induction k v es rule: al_insert.induct) (auto simp: fun_eq_iff)

lemma map_of_al_remove:
  "distinct (map fst es) \<Longrightarrow> map_of (al_remove k es) = (map_of es)(k := None)"
  by (induction k es rule: al_remove.induct) (auto simp: fun_eq_iff map_of_eq_None_iff)

subsection \<open>The container type\<close>

typedef (overloaded) ('k, 'v) btree_map =
  "{es :: ('k::linorder \<times> 'v) list. sorted_wrt (<) (map fst es)}"
  morphisms bt_entries Abs_btree_map
  by (rule exI [of _ "[]"]) simp

setup_lifting type_definition_btree_map

lift_definition bt_empty :: "('k::linorder, 'v) btree_map" is "[]"
  by simp

lift_definition bt_get :: "('k::linorder, 'v) btree_map \<Rightarrow> 'k \<Rightarrow> 'v option" is map_of .

lift_definition bt_insert ::
  "'k::linorder \<Rightarrow> 'v \<Rightarrow> ('k, 'v) btree_map \<Rightarrow> ('k, 'v) btree_map" is al_insert
  by (rule sorted_al_insert)

lift_definition bt_remove :: "'k::linorder \<Rightarrow> ('k, 'v) btree_map \<Rightarrow> ('k, 'v) btree_map" is al_remove
  by (rule sorted_al_remove)

lift_definition bt_map :: "('v \<Rightarrow> 'w) \<Rightarrow> ('k::linorder, 'v) btree_map \<Rightarrow> ('k, 'w) btree_map" is
  "\<lambda>f. map (\<lambda>(k, v). (k, f v))"
  by (simp add: case_prod_unfold comp_def)

definition bt_keys :: "('k::linorder, 'v) btree_map \<Rightarrow> 'k list" where
  "bt_keys m = map fst (bt_entries m)"

definition bt_values :: "('k::linorder, 'v) btree_map \<Rightarrow> 'v list" where
  "bt_values m = map snd (bt_entries m)"

instantiation btree_map :: (linorder, equal) equal
begin
definition "HOL.equal m m' \<longleftrightarrow> bt_entries m = bt_entries m'"
instance
  by standard (simp add: equal_btree_map_def bt_entries_inject)
end

subsection \<open>What clients rely on\<close>

locale ordered_map =
  fixes empty :: "'m"
    and get :: "'m \<Rightarrow> 'k::linorder \<Rightarrow> 'v option"
    and ins :: "'k \<Rightarrow> 'v \<Rightarrow> 'm \<Rightarrow> 'm"
    and del :: "'k \<Rightarrow> 'm \<Rightarrow> 'm"
    and ents :: "'m \<Rightarrow> ('k \<times> 'v) list"
  assumes get_empty: "get empty k = None"
    and get_ins: "get (ins k v m) k' = (if k' = k then Some v else get m k')"
    and get_del: "get (del k m) k' = (if k' = k then None else get m k')"
    and sorted_ents: "sorted_wrt (<) (map fst (ents m))"
    and get_ents: "get m = map_of (ents m)"
    and ents_eq: "ents m = ents m' \<Longrightarrow> m = m'"
begin

lemma ents_iff: "(k, v) \<in> set (ents m) \<longleftrightarrow> get m k = Some v"
  using sorted_ents [of m] by (simp add: get_ents strict_sorted_iff)

lemma distinct_ents: "distinct (map fst (ents m))"
  using sorted_ents [of m] by (simp add: strict_sorted_iff)

lemma ents_ext:
  assumes "get m = get m'"
  shows "m = m'"
proof (rule ents_eq)
  have "set (ents m) = set (ents m')"
    using assms by (auto simp: set_eq_iff ents_iff)
  moreover have "inj_on fst (set (ents m))"
    using distinct_ents [of m] by (simp add: distinct_map)
  ultimately show "ents m = ents m'"
    using sorted_ents [of m] sorted_ents [of m']
    by (intro map_sorted_distinct_set_unique [of fst]) (auto simp: strict_sorted_iff)
qed

lemma del_then_ins: "ins k v (del k m) = ins k v m"
  by (rule ents_ext) (simp add: fun_eq_iff get_ins get_del)

lemma ins_overwrites: "ins k v (ins k w m) = ins k v m"
  by (rule ents_ext) (simp add: fun_eq_iff get_ins)

lemma ins_same: "get m k = Some v \<Longrightarrow> ins k v m = m"
  by (rule ents_ext) (auto simp: fun_eq_iff get_ins)

lemma del_absent: "get m k = None \<Longrightarrow> del k m = m"
  by (rule ents_ext) (auto simp: fun_eq_iff get_del)

lemma finite_keys: "finite (dom (get m))"
  by (simp add: get_ents finite_dom_map_of)

text \<open>Sums over the entries, with \<open>f k v\<close> the contribution of one entry.\<close>

lemma total_dom:
  fixes f :: "'k \<Rightarrow> 'v \<Rightarrow> nat"
  shows "(\<Sum>(k, v)\<leftarrow>ents m. f k v) = (\<Sum>k\<in>dom (get m). f k (the (get m k)))"
proof -
  have "distinct (ents m)" and inj: "inj_on fst (set (ents m))"
    using distinct_ents [of m] by (simp_all add: distinct_map)
  then have "(\<Sum>(k, v)\<leftarrow>ents m. f k v) = (\<Sum>e\<in>set (ents m). f (fst e) (snd e))"
    by (simp add: sum_list_distinct_conv_sum_set case_prod_beta)
  also have "\<dots> = (\<Sum>e\<in>set (ents m). f (fst e) (the (get m (fst e))))"
    by (intro sum.cong) (auto simp: ents_iff)
  also have "\<dots> = (\<Sum>k\<in>fst ` set (ents m). f k (the (get m k)))"
    by (simp add: sum.reindex [OF inj])
  finally show ?thesis
    by (simp add: get_ents dom_map_of_conv_image_fst)
qed

lemma dom_minus_absent: "get m l = None \<Longrightarrow> dom (get m) - {l} = dom (get m)"
  by auto

lemma total_ins:
  fixes f :: "'k \<Rightarrow> 'v \<Rightarrow> nat"
  shows "(\<Sum>(k, v)\<leftarrow>ents (ins l w m). f k v) + (case get m l of None \<Rightarrow> 0 | Some u \<Rightarrow> f l u)
    = (\<Sum>(k, v)\<leftarrow>ents m. f k v) + f l w"
proof -
  have dom: "dom (get (ins l w m)) = insert l (dom (get m))"
    by (auto simp: get_ins split: if_splits)
  have rest: "(\<Sum>k\<in>dom (get m) - {l}. f k (the (get (ins l w m) k)))
      = (\<Sum>k\<in>dom (get m) - {l}. f k (the (get m k)))"
    by (intro sum.cong) (auto simp: get_ins)
  show ?thesis
    unfolding total_dom dom
    using rest finite_keys [of m]
    by (cases "get m l")
      (auto simp: dom_minus_absent sum.insert_remove get_ins sum.remove [of _ l "\<lambda>k. f k (the (get m k))"] domI)
qed

lemma total_del:
  fixes f :: "'k \<Rightarrow> 'v \<Rightarrow> nat"
  shows "(\<Sum>(k, v)\<leftarrow>ents (del l m). f k v) + (case get m l of None \<Rightarrow> 0 | Some u \<Rightarrow> f l u)
    = (\<Sum>(k, v)\<leftarrow>ents m. f k v)"
proof -
  have dom: "dom (get (del l m)) = dom (get m) - {l}"
    by (auto simp: get_del split: if_splits)
  have rest: "(\<Sum>k\<in>dom (get m) - {l}. f k (the (get (del l m) k)))
      = (\<Sum>k\<in>dom (get m) - {l}. f k (the (get m k)))"
    by (intro sum.cong) (auto simp: get_del)
  show ?thesis
    unfolding total_dom dom rest
    using finite_keys [of m]
    by (cases "get m l") (auto simp: dom_minus_absent sum.remove [of _ l "\<lambda>k. f k (the (get m k))"] domI)
qed

lemma total_ge_entry:
  fixes f :: "'k \<Rightarrow> 'v \<Rightarrow> nat"
  assumes "get m l = Some u"
  shows "f l u \<le> (\<Sum>(k, v)\<leftarrow>ents m. f k v)"
  using total_del [of f l m] assms by simp

end

interpretation bt: ordered_map bt_empty bt_get bt_insert bt_remove bt_entries
proof
  show "bt_get bt_empty k = None" for k :: "'k::linorder"
    by transfer simp
  show "bt_get (bt_insert k v m) k' = (if k' = k then Some v else bt_get m k')"
    for k k' :: "'k::linorder" and v :: 'v and m
    by transfer (simp add: map_of_al_insert)
  show "bt_get (bt_remove k m) k' = (if k' = k then None else bt_get m k')"
    for k k' :: "'k::linorder" and m :: "('k, 'v) btree_map"
    by transfer (simp add: map_of_al_remove strict_sorted_iff)
  show "sorted_wrt (<) (map fst (bt_entries m))" for m :: "('k::linorder, 'v) btree_map"
    using bt_entries [of m] by simp
  show "bt_get m = map_of (bt_entries m)" for m :: "('k::linorder, 'v) btree_map"
    by transfer simp
  show "bt_entries m = bt_entries m' \<Longrightarrow> m = m'" for m m' :: "('k::linorder, 'v) btree_map"
    by (simp add: bt_entries_inject)
qed

lemmas bt_get_simps [simp] = bt.get_empty bt.get_ins bt.get_del

lemma bt_entries_simps [simp]:
  "bt_entries bt_empty = []"
  "bt_entries (bt_insert k v m) = al_insert k v (bt_entries m)"
  "bt_entries (bt_remove k m) = al_remove k (bt_entries m)"
  by (transfer, simp)+

lemma bt_map_simps [simp]:
  "bt_entries (bt_map f m) = map (\<lambda>(k, v). (k, f v)) (bt_entries m)"
  "bt_get (bt_map f m) k = map_option f (bt_get m k)"
  by (transfer, simp add: map_of_map)+

lemma bt_remove_empty [simp]: "bt_remove k bt_empty = bt_empty"
  by (transfer, simp)

lemma bt_values_set: "v \<in> set (bt_values m) \<longleftrightarrow> (\<exists>k. bt_get m k = Some v)"
  by (force simp: bt_values_def simp flip: bt.ents_iff)

lemma bt_keys_set: "k \<in> set (bt_keys m) \<longleftrightarrow> bt_get m k \<noteq> None"
  by (force simp: bt_keys_def simp flip: bt.ents_iff)

subsection \<open>Sums over the values\<close>

definition bt_total :: "('v \<Rightarrow> nat) \<Rightarrow> ('k::linorder, 'v) btree_map \<Rightarrow> nat" where
  "bt_total f m = (\<Sum>v\<leftarrow>bt_values m. f v)"

lemma bt_total_entries: "bt_total f m = (\<Sum>(k, v)\<leftarrow>bt_entries m. f v)"
  by (simp add: bt_total_def bt_values_def case_prod_unfold comp_def)

lemma bt_total_empty [simp]: "bt_total f bt_empty = 0"
  by (simp add: bt_total_entries)

lemma bt_total_insert:
  "bt_total f (bt_insert k v m) + (case bt_get m k of None \<Rightarrow> 0 | Some w \<Rightarrow> f w)
    = bt_total f m + f v"
  using bt.total_ins [of "\<lambda>_. f" k v m] by (simp add: bt_total_entries)

lemma bt_total_remove:
  "bt_total f (bt_remove k m) + (case bt_get m k of None \<Rightarrow> 0 | Some w \<Rightarrow> f w) = bt_total f m"
  using bt.total_del [of "\<lambda>_. f" k m] by (simp add: bt_total_entries)

lemma bt_total_ge: "bt_get m k = Some v \<Longrightarrow> f v \<le> bt_total f m"
  using bt.total_ge_entry [of m k v "\<lambda>_. f"] by (simp add: bt_total_entries)

subsection \<open>Sets\<close>

type_synonym 'k btree_set = "('k, unit) btree_map"

definition bs_contains :: "'k::linorder btree_set \<Rightarrow> 'k \<Rightarrow> bool" where
  "bs_contains s k = (bt_get s k \<noteq> None)"

definition bs_insert :: "'k::linorder \<Rightarrow> 'k btree_set \<Rightarrow> 'k btree_set" where
  "bs_insert k s = bt_insert k () s"

lemma bs_contains_simps [simp]:
  "bs_contains bt_empty k = False"
  "bs_contains (bs_insert k s) k' = (k' = k \<or> bs_contains s k')"
  by (auto simp: bs_contains_def bs_insert_def)

end
