(* ===== verification/Params.thy ===== *)
theory Params
  imports BTree_Map
begin

text \<open>
  The protocol parameters (\<open>src/src/params.rs\<close>): the parameter structs with the source's fields,
  the reference values of \<open>Default\<close>, and \<open>ProtocolParams::validate\<close>, which every parameter set
  passes before a node starts with it or governance schedules it.
  The error \<open>Err(e)\<close> is \<open>Inl e\<close>, \<open>Ok(())\<close> is \<open>Inr ()\<close>.
\<close>

type_synonym amount = u128

record slashing_params =
  double_sign_bps :: u16
  offline_bps :: u16
  medium_deviation_bps :: u16
  severe_deviation_bps :: u16

record fee_params =
  base_gas_price_nano :: u64
  max_gas_price_nano :: u64
  gas_adjustment_ppm :: u32
  congestion_threshold_ppm :: u32
  fee_burn_bps :: u16

record app_weight_override =
  awo_app_id :: u32
  awo_game_coefficient_ppm :: u32

record reward_params =
  reward_source_is_tokenomics :: bool
  emission_year :: u32
  reward_block_secs :: u64
  initial_emission_rate_bps :: u16
  tail_emission_start_year :: u32
  tail_emission_rate_bps :: u16
  player_reward_allocation_bps :: u16
  service_reward_allocation_bps :: u16
  collect_reward_bps :: u16
  store_reward_bps :: u16
  verify_reward_bps :: u16
  propose_reward_bps :: u16
  configured_player_block_reward :: amount
  effective_player_block_reward :: amount
  target_network_weight_units :: amount
  reward_adjustment_cap_bps :: u16
  tier1_weight_ppm :: u32
  tier2_weight_min_ppm :: u32
  tier2_weight_max_ppm :: u32
  tier3_weight_min_ppm :: u32
  tier3_weight_max_ppm :: u32
  app_weight_overrides :: "app_weight_override list"
  reward_burn_threshold :: amount
  reward_burn_bps :: u16
  governance_burn_bps :: u16

record governance_params =
  params_update_bond :: amount
  params_update_quorum_bps :: u16
  params_update_approval_bps :: u16
  slow_params_update_bond :: amount
  slow_params_update_quorum_bps :: u16
  slow_params_update_approval_bps :: u16

record mutual_proof_params =
  min_witness_count :: u64
  min_witness_observation_tolerance_ppm :: u32
  min_distinct_observations :: u64
  session_slash_bps :: u32
  min_heartbeat_count :: u64
  heartbeat_bucket_seconds :: u64
  min_heartbeat_coverage_bps :: u32
  challenge_bond_burn_bps :: u32

definition default_mutual_proof_params :: mutual_proof_params where
  "default_mutual_proof_params = \<lparr>
     min_witness_count = 2,
     min_witness_observation_tolerance_ppm = 50000,
     min_distinct_observations = 2,
     session_slash_bps = 5000,
     min_heartbeat_count = 2,
     heartbeat_bucket_seconds = 300,
     min_heartbeat_coverage_bps = 5000,
     challenge_bond_burn_bps = 2500 \<rparr>"

record protocol_params =
  slot_seconds :: u32
  epoch_slots :: u32
  committee_size :: u16
  unbonding_blocks :: u32
  min_verify_bond :: amount
  min_propose_bond :: amount
  challenge_window_blocks :: u32
  max_emergency_brake_blocks :: u32
  min_retention_epochs :: u32
  pp_fee :: fee_params
  pp_rewards :: reward_params
  pp_governance :: governance_params
  pp_slashing :: slashing_params
  pp_mutual_proof :: mutual_proof_params

definition default_protocol_params :: protocol_params where
  "default_protocol_params = \<lparr>
     slot_seconds = 300,
     epoch_slots = 12,
     committee_size = 21,
     unbonding_blocks = 5,
     min_verify_bond = 100,
     min_propose_bond = 10000,
     challenge_window_blocks = 20,
     max_emergency_brake_blocks = 100,
     min_retention_epochs = 2,
     pp_fee = \<lparr>
       base_gas_price_nano = 100,
       max_gas_price_nano = 1000,
       gas_adjustment_ppm = 1150000,
       congestion_threshold_ppm = 500000,
       fee_burn_bps = 2500 \<rparr>,
     pp_rewards = \<lparr>
       reward_source_is_tokenomics = True,
       emission_year = 1,
       reward_block_secs = 3600,
       initial_emission_rate_bps = 2000,
       tail_emission_start_year = 4,
       tail_emission_rate_bps = 200,
       player_reward_allocation_bps = 8000,
       service_reward_allocation_bps = 1000,
       collect_reward_bps = 5000,
       store_reward_bps = 2500,
       verify_reward_bps = 1500,
       propose_reward_bps = 1000,
       configured_player_block_reward = 1000,
       effective_player_block_reward = 18264,
       target_network_weight_units = 150000000000000,
       reward_adjustment_cap_bps = 2000,
       tier1_weight_ppm = 1000000,
       tier2_weight_min_ppm = 300000,
       tier2_weight_max_ppm = 600000,
       tier3_weight_min_ppm = 50000,
       tier3_weight_max_ppm = 150000,
       app_weight_overrides = [],
       reward_burn_threshold = 10000,
       reward_burn_bps = 1000,
       governance_burn_bps = 100 \<rparr>,
     pp_governance = \<lparr>
       params_update_bond = 10000,
       params_update_quorum_bps = 2500,
       params_update_approval_bps = 6000,
       slow_params_update_bond = 20000,
       slow_params_update_quorum_bps = 3300,
       slow_params_update_approval_bps = 7500 \<rparr>,
     pp_slashing = \<lparr>
       double_sign_bps = 5000,
       offline_bps = 100,
       medium_deviation_bps = 500,
       severe_deviation_bps = 2000 \<rparr>,
     pp_mutual_proof = \<lparr>
       min_witness_count = 2,
       min_witness_observation_tolerance_ppm = 50000,
       min_distinct_observations = 2,
       session_slash_bps = 5000,
       min_heartbeat_count = 2,
       heartbeat_bucket_seconds = 300,
       min_heartbeat_coverage_bps = 5000,
       challenge_bond_burn_bps = 2500 \<rparr> \<rparr>"

datatype protocol_params_error =
    ZeroSlotSeconds
  | ZeroEpochSlots
  | ZeroChallengeWindowBlocks
  | ZeroMinRetentionEpochs
  | ZeroEmissionYear
  | ZeroTailEmissionStartYear
  | ZeroRewardBlockSecs
  | ServiceRewardSplitInvalid u32
  | AllocationSplitInvalid u32
  | EffectivePlayerBlockRewardZero
  | InvalidAppWeightOverrides
  | GovernanceThresholdInvalid
  | GovernanceBondZero
  | MinWitnessCountZero
  | MinDistinctObservationsZero
  | MinHeartbeatCountZero
  | HeartbeatBucketSecondsZero
  | ObservationToleranceInvalid u32
  | BurnBpsOutOfRange string u32

text \<open>The loop over \<open>app_weight_overrides\<close>, with the previous application id it carries.\<close>

fun validate_app_weight_overrides ::
  "u32 option \<Rightarrow> app_weight_override list \<Rightarrow> protocol_params_error + unit" where
  "validate_app_weight_overrides previous_app_id [] = Inr ()"
| "validate_app_weight_overrides previous_app_id (override_entry # rest) =
     (if awo_game_coefficient_ppm override_entry = 0 then Inl InvalidAppWeightOverrides
      else if (case previous_app_id of None \<Rightarrow> False | Some prev \<Rightarrow> awo_app_id override_entry \<le> prev)
      then Inl InvalidAppWeightOverrides
      else validate_app_weight_overrides (Some (awo_app_id override_entry)) rest)"

text \<open>The loop over the three burn shares at the end of \<open>validate\<close>.\<close>

fun validate_burn_bps :: "(string \<times> u32) list \<Rightarrow> protocol_params_error + unit" where
  "validate_burn_bps [] = Inr ()"
| "validate_burn_bps ((field, bps) # rest) =
     (if bps > 10000 then Inl (BurnBpsOutOfRange field bps) else validate_burn_bps rest)"

definition service_split_total :: "reward_params \<Rightarrow> u32" where
  "service_split_total r = ucast (collect_reward_bps r) + ucast (store_reward_bps r)
     + ucast (verify_reward_bps r) + ucast (propose_reward_bps r)"

definition allocation_total :: "reward_params \<Rightarrow> u32" where
  "allocation_total r =
     ucast (player_reward_allocation_bps r) + ucast (service_reward_allocation_bps r)"

definition validate_mutual_proof :: "mutual_proof_params \<Rightarrow> protocol_params_error + unit" where
  "validate_mutual_proof proof =
     (if min_witness_count proof = 0 then Inl MinWitnessCountZero
      else if min_distinct_observations proof = 0 then Inl MinDistinctObservationsZero
      else if min_heartbeat_count proof = 0 then Inl MinHeartbeatCountZero
      else if heartbeat_bucket_seconds proof = 0 then Inl HeartbeatBucketSecondsZero
      else if min_witness_observation_tolerance_ppm proof = 0
        \<or> min_witness_observation_tolerance_ppm proof > 1000000
      then Inl (ObservationToleranceInvalid (min_witness_observation_tolerance_ppm proof))
      else validate_burn_bps
        [(''session_slash_bps'', session_slash_bps proof),
         (''min_heartbeat_coverage_bps'', min_heartbeat_coverage_bps proof),
         (''challenge_bond_burn_bps'', challenge_bond_burn_bps proof)])"

definition validate_governance :: "governance_params \<Rightarrow> protocol_params_error + unit" where
  "validate_governance g =
     (if params_update_quorum_bps g = 0 \<or> params_update_quorum_bps g > 10000
        \<or> params_update_approval_bps g = 0 \<or> params_update_approval_bps g > 10000
      then Inl GovernanceThresholdInvalid
      else if params_update_bond g = 0 then Inl GovernanceBondZero
      else if slow_params_update_bond g = 0
        \<or> slow_params_update_quorum_bps g = 0 \<or> slow_params_update_quorum_bps g > 10000
        \<or> slow_params_update_approval_bps g = 0 \<or> slow_params_update_approval_bps g > 10000
      then Inl GovernanceThresholdInvalid
      else Inr ())"

definition validate :: "protocol_params \<Rightarrow> protocol_params_error + unit" where
  "validate p =
     (if slot_seconds p = 0 then Inl ZeroSlotSeconds
      else if epoch_slots p = 0 then Inl ZeroEpochSlots
      else if challenge_window_blocks p = 0 then Inl ZeroChallengeWindowBlocks
      else if min_retention_epochs p = 0 then Inl ZeroMinRetentionEpochs
      else if emission_year (pp_rewards p) = 0 then Inl ZeroEmissionYear
      else if tail_emission_start_year (pp_rewards p) = 0 then Inl ZeroTailEmissionStartYear
      else if reward_block_secs (pp_rewards p) = 0 then Inl ZeroRewardBlockSecs
      else if service_split_total (pp_rewards p) \<noteq> 10000
      then Inl (ServiceRewardSplitInvalid (service_split_total (pp_rewards p)))
      else if allocation_total (pp_rewards p) \<noteq> 9000
      then Inl (AllocationSplitInvalid (allocation_total (pp_rewards p)))
      else if effective_player_block_reward (pp_rewards p) = 0
      then Inl EffectivePlayerBlockRewardZero
      else case validate_app_weight_overrides None (app_weight_overrides (pp_rewards p)) of
        Inl e \<Rightarrow> Inl e
      | Inr _ \<Rightarrow>
         (case validate_governance (pp_governance p) of
            Inl e \<Rightarrow> Inl e
          | Inr _ \<Rightarrow> validate_mutual_proof (pp_mutual_proof p)))"

subsection \<open>What the validation accepts\<close>

definition valid_rewards :: "reward_params \<Rightarrow> bool" where
  "valid_rewards r \<longleftrightarrow> emission_year r \<noteq> 0 \<and> tail_emission_start_year r \<noteq> 0 \<and> reward_block_secs r \<noteq> 0
     \<and> unat (collect_reward_bps r) + unat (store_reward_bps r) + unat (verify_reward_bps r)
        + unat (propose_reward_bps r) = 10000
     \<and> unat (player_reward_allocation_bps r) + unat (service_reward_allocation_bps r) = 9000
     \<and> effective_player_block_reward r \<noteq> 0
     \<and> (\<forall>w \<in> set (app_weight_overrides r). awo_game_coefficient_ppm w \<noteq> 0)
     \<and> sorted_wrt (<) (map awo_app_id (app_weight_overrides r))"

definition share_bps :: "u16 \<Rightarrow> bool" where
  "share_bps b \<longleftrightarrow> b \<noteq> 0 \<and> b \<le> 10000"

definition valid_governance :: "governance_params \<Rightarrow> bool" where
  "valid_governance g \<longleftrightarrow> params_update_bond g \<noteq> 0 \<and> slow_params_update_bond g \<noteq> 0
     \<and> share_bps (params_update_quorum_bps g) \<and> share_bps (params_update_approval_bps g)
     \<and> share_bps (slow_params_update_quorum_bps g) \<and> share_bps (slow_params_update_approval_bps g)"

definition valid_mutual_proof :: "mutual_proof_params \<Rightarrow> bool" where
  "valid_mutual_proof m \<longleftrightarrow> min_witness_count m \<noteq> 0 \<and> min_distinct_observations m \<noteq> 0
     \<and> min_heartbeat_count m \<noteq> 0 \<and> heartbeat_bucket_seconds m \<noteq> 0
     \<and> min_witness_observation_tolerance_ppm m \<noteq> 0 \<and> min_witness_observation_tolerance_ppm m \<le> 1000000
     \<and> session_slash_bps m \<le> 10000 \<and> min_heartbeat_coverage_bps m \<le> 10000 \<and> challenge_bond_burn_bps m \<le> 10000"

definition valid_params :: "protocol_params \<Rightarrow> bool" where
  "valid_params p \<longleftrightarrow> slot_seconds p \<noteq> 0 \<and> epoch_slots p \<noteq> 0 \<and> challenge_window_blocks p \<noteq> 0
     \<and> min_retention_epochs p \<noteq> 0 \<and> valid_rewards (pp_rewards p) \<and> valid_governance (pp_governance p)
     \<and> valid_mutual_proof (pp_mutual_proof p)"

lemma u16_in_u32 [simp]: "unat (ucast (b :: u16) :: u32) = unat b"
  by (rule unat_ucast_up) simp

lemma u16_small: "unat (b :: u16) < 65536"
  using unat_bound [of b] by simp

lemma split_totals:
  "service_split_total r = 10000 \<longleftrightarrow> unat (collect_reward_bps r) + unat (store_reward_bps r)
     + unat (verify_reward_bps r) + unat (propose_reward_bps r) = 10000"
  "allocation_total r = 9000 \<longleftrightarrow>
     unat (player_reward_allocation_bps r) + unat (service_reward_allocation_bps r) = 9000"
proof -
  have "unat (service_split_total r) = unat (collect_reward_bps r) + unat (store_reward_bps r)
      + unat (verify_reward_bps r) + unat (propose_reward_bps r)"
    using u16_small [of "collect_reward_bps r"] u16_small [of "store_reward_bps r"]
      u16_small [of "verify_reward_bps r"] u16_small [of "propose_reward_bps r"]
    by (simp add: service_split_total_def unat_add_exact)
  then show "service_split_total r = 10000 \<longleftrightarrow> unat (collect_reward_bps r) + unat (store_reward_bps r)
     + unat (verify_reward_bps r) + unat (propose_reward_bps r) = 10000"
    by (simp add: word_unat_eq_iff)
  have "unat (allocation_total r) = unat (player_reward_allocation_bps r) + unat (service_reward_allocation_bps r)"
    using u16_small [of "player_reward_allocation_bps r"] u16_small [of "service_reward_allocation_bps r"]
    by (simp add: allocation_total_def unat_add_exact)
  then show "allocation_total r = 9000 \<longleftrightarrow>
     unat (player_reward_allocation_bps r) + unat (service_reward_allocation_bps r) = 9000"
    by (simp add: word_unat_eq_iff)
qed

lemma validate_overrides_iff:
  "validate_app_weight_overrides prev ws = Inr () \<longleftrightarrow>
     (\<forall>w \<in> set ws. awo_game_coefficient_ppm w \<noteq> 0) \<and> sorted_wrt (<) (map awo_app_id ws)
     \<and> (case (prev, ws) of (Some i, w # _) \<Rightarrow> i < awo_app_id w | _ \<Rightarrow> True)"
proof (induction prev ws rule: validate_app_weight_overrides.induct)
  case (2 prev w rest)
  have "sorted_wrt (<) (map awo_app_id (w # rest)) \<longleftrightarrow> sorted_wrt (<) (map awo_app_id rest)
      \<and> (case rest of v # _ \<Rightarrow> awo_app_id w < awo_app_id v | _ \<Rightarrow> True)"
    by (cases rest) auto
  with 2 show ?case by (cases prev; cases rest) (auto simp: not_le)
qed (auto split: option.split)

lemma validate_mutual_proof_iff: "validate_mutual_proof m = Inr () \<longleftrightarrow> valid_mutual_proof m"
  by (simp add: validate_mutual_proof_def valid_mutual_proof_def not_less [symmetric])

lemma validate_governance_iff: "validate_governance g = Inr () \<longleftrightarrow> valid_governance g"
  by (auto simp: validate_governance_def valid_governance_def share_bps_def not_less)

lemma validate_iff: "validate p = Inr () \<longleftrightarrow> valid_params p"
proof -
  have seq: "(case r of Inl e \<Rightarrow> Inl e | Inr _ \<Rightarrow> q) = Inr () \<longleftrightarrow> r = Inr () \<and> q = Inr ()"
    for r q :: "protocol_params_error + unit" by (cases r) simp_all
  show ?thesis
    by (simp add: validate_def seq validate_overrides_iff validate_governance_iff validate_mutual_proof_iff
        split_totals valid_params_def valid_rewards_def)
qed

end
