(* ===== verification/Records.thy ===== *)
theory Records
  imports Params
begin

text \<open>
  The data of the protocol: \<open>src/src/primitives.rs\<close>, \<open>src/src/state.rs\<close>, \<open>src/src/records.rs\<close> and
  \<open>src/src/transactions.rs\<close>, one record per struct and one datatype per enum, with the fields and
  the constructors of the source. Record selectors are global names in HOL, so the fields of
  a struct carry a short prefix of it (\<open>acc_\<close> for \<open>AccountState\<close>, \<open>bc_\<close> for \<open>BatchCommit\<close>).
\<close>

subsection \<open>Primitives\<close>

type_synonym epoch_id = u64
type_synonym slot_id = u64
type_synonym height = u64
type_synonym unix_millis = u64
type_synonym app_id = u32
type_synonym content_id = string
type_synonym hash32 = bytes32
type_synonym node_id = bytes32
type_synonym address = bytes32
type_synonym pubkey = bytes32
type_synonym signature_bytes = byte_vec

datatype capability = Collect | Store | Verify | Propose | Archive

datatype node_status = NodePending | NodeActive | NodeJailed | NodeTombstoned

datatype serve_class = BestEffort | ChallengeWindow | ServeArchive

datatype challenge_kind = KBadBatch | KOmission | KBadAggregate | KBadReward | KBadStorage

datatype challenge_state =
  ChallengeOpen | ChallengeRespondedState | ChallengeSucceeded | ChallengeRejected | ChallengeExpired

datatype vote_choice = VoteYes | VoteNo | VoteAbstain

datatype activity_source_kind = Steam | Epic | Ea | Gog | Community

text \<open>The derived order of \<open>ActivitySourceKind\<close> is the order of its variants.\<close>

primrec source_kind_index :: "activity_source_kind \<Rightarrow> nat" where
  "source_kind_index Steam = 0"
| "source_kind_index Epic = 1"
| "source_kind_index Ea = 2"
| "source_kind_index Gog = 3"
| "source_kind_index Community = 4"

lemma source_kind_index_inj: "source_kind_index a = source_kind_index b \<longleftrightarrow> a = b"
  by (cases a; cases b) simp_all

instantiation activity_source_kind :: linorder
begin
definition "a \<le> b \<longleftrightarrow> source_kind_index a \<le> source_kind_index b"
definition "a < b \<longleftrightarrow> source_kind_index a < source_kind_index b"
instance
  by standard (auto simp: less_eq_activity_source_kind_def less_activity_source_kind_def source_kind_index_inj
      intro: source_kind_index_inj [THEN iffD1])
end

record merkle_commitment =
  mc_root :: hash32
  mc_leaf_count :: u32

datatype gvs_tier = Tier1 | Tier2 | Tier3

subsection \<open>State of accounts and nodes\<close>

record account_state =
  acc_address :: address
  acc_balance :: amount
  acc_staked :: amount
  acc_locked :: amount
  acc_nonce :: u64

record reputation_snapshot =
  rep_score_ppm :: u32
  rep_successful_challenges :: u32
  rep_failed_challenges :: u32
  rep_challengeable_faults :: u32
  rep_collection_successes :: u64
  rep_collection_failures :: u64
  rep_storage_proofs_passed :: u64
  rep_storage_proofs_failed :: u64
  rep_last_updated_epoch :: epoch_id

record node_registry =
  nr_node_id :: node_id
  nr_pubkey :: byte_vec
  nr_reward_address :: address
  nr_bond :: amount
  nr_status :: node_status
  nr_enabled_capabilities :: "capability list"
  nr_reputation :: reputation_snapshot
  nr_joined_at_height :: height

record storage_offer =
  so_node_id :: node_id
  so_quota_gb :: u32
  so_min_retention_epochs :: u32
  so_serve_class :: serve_class
  so_valid_from_epoch :: epoch_id
  so_max_response_millis :: u32

subsection \<open>Records\<close>

record observation_record =
  obs_epoch_id :: epoch_id
  obs_slot_id :: slot_id
  obs_app_id :: app_id
  obs_source_kind :: activity_source_kind
  obs_source_confidence_ppm :: u32
  obs_observed_players :: u64
  obs_observed_at_millis :: unix_millis
  obs_collector_id :: node_id
  obs_raw_body_cid :: content_id
  obs_raw_body_hash :: hash32
  obs_collector_signature :: signature_bytes

record batch_commit =
  bc_epoch_id :: epoch_id
  bc_collector_id :: node_id
  bc_slot_start :: slot_id
  bc_slot_end :: slot_id
  bc_batch :: merkle_commitment
  bc_payload_cid :: content_id
  bc_obs_count :: u32
  bc_submitted_at_height :: height

record replica_receipt =
  rr_epoch_id :: epoch_id
  rr_payload_cid :: content_id
  rr_storer_id :: node_id
  rr_retention_until_epoch :: epoch_id
  rr_receipt_signature :: signature_bytes

record aggregate_record =
  ar_epoch_id :: epoch_id
  ar_slot_id :: slot_id
  ar_app_id :: app_id
  ar_gvs_tier :: gvs_tier
  ar_primary_source_kind :: activity_source_kind
  ar_source_confidence_ppm :: u32
  ar_accepted_observations :: u32
  ar_median_players :: u64
  ar_base_glv_microunits :: u64
  ar_tier_weight_ppm :: u32
  ar_time_decay_ppm :: u32
  ar_coverage_bonus_ppm :: u32
  ar_gvs_microunits :: u64
  ar_source_batch_root :: hash32

record reward_record =
  rw_epoch_id :: epoch_id
  rw_node_id :: node_id
  rw_recipient_address :: string
  rw_player_reward :: amount
  rw_collect_reward :: amount
  rw_store_reward :: amount
  rw_verify_reward :: amount
  rw_propose_reward :: amount
  rw_slash_debit :: amount
  rw_net_reward :: amount

record epoch_commit_rec =
  ec_epoch_id :: epoch_id
  ec_accepted_batches :: merkle_commitment
  ec_observations :: merkle_commitment
  ec_aggregates :: merkle_commitment
  ec_rewards :: merkle_commitment
  ec_availability :: merkle_commitment
  ec_randomness_seed :: hash32
  ec_proposer_id :: node_id
  ec_challenge_open_height :: height
  ec_challenge_deadline_height :: height

record challenge_evidence_ref =
  ev_batch_root :: "hash32 option"
  ev_aggregate_root :: "hash32 option"
  ev_reward_root :: "hash32 option"
  ev_payload_cid :: "content_id option"
  ev_merkle_proof :: "hash32 list"

record challenge =
  ch_challenge_id :: hash32
  ch_kind :: challenge_kind
  ch_epoch_id :: epoch_id
  ch_target_node :: "node_id option"
  ch_challenger :: address
  ch_bond :: amount
  ch_opened_at_height :: height
  ch_deadline_height :: height
  ch_state :: challenge_state
  ch_evidence :: challenge_evidence_ref

record delegation_record =
  dl_delegator :: address
  dl_operator :: node_id
  dl_amount :: amount

record play_session =
  ps_session_id :: hash32
  ps_node_address :: address
  ps_app_id :: app_id
  ps_epoch_id :: epoch_id
  ps_slot_id :: slot_id
  ps_play_seconds :: u64
  ps_collector_address :: address
  ps_observation_cid :: content_id
  ps_observed_players :: u64
  ps_submitted_at_height :: height
  ps_session_signature :: signature_bytes

record play_heartbeat =
  hb_session_id :: hash32
  hb_node_address :: address
  hb_bucket_index :: u64
  hb_signed_at_millis :: unix_millis
  hb_heartbeat_signature :: signature_bytes

record witness_attestation =
  wa_session_id :: hash32
  wa_witness_address :: address
  wa_observed_play_seconds :: u64
  wa_witness_observation_cid :: content_id
  wa_observed_players :: u64
  wa_attested_at_height :: height
  wa_witness_signature :: signature_bytes

record session_settlement =
  ss_session_id :: hash32
  ss_epoch_id :: epoch_id
  ss_app_id :: app_id
  ss_node_address :: address
  ss_valid :: bool
  ss_play_seconds :: u64
  ss_game_weight_ppm :: u32
  ss_player_weight_units :: u64
  ss_witness_count :: u64
  ss_distinct_observation_count :: u64
  ss_heartbeat_count :: u64
  ss_heartbeat_coverage_bps :: u32
  ss_settled_at_height :: height
  ss_invalid_reason :: string

record unbonding_record =
  ub_delegator :: address
  ub_operator :: node_id
  ub_amount :: amount
  ub_unlock_height :: height

record governance_vote_record =
  gv_proposal_id :: hash32
  gv_voter :: address
  gv_choice :: vote_choice
  gv_voting_power :: amount
  gv_recorded_height :: height

datatype governance_proposal_state =
  ProposalPending | ProposalScheduled | ProposalActivated | ProposalExpired

datatype governance_proposal_kind = FastParams | SlowParams

record governance_proposal =
  gp_proposal_id :: hash32
  gp_proposer :: address
  gp_kind :: governance_proposal_kind
  gp_effective_epoch :: epoch_id
  gp_submitted_height :: height
  gp_bond_amount :: amount
  gp_params_hash :: hash32
  gp_params :: protocol_params
  gp_state :: governance_proposal_state

record challenge_response_record =
  cr_challenge_id :: hash32
  cr_responder :: node_id
  cr_response_payload_cid :: "content_id option"
  cr_response_hash :: "hash32 option"
  cr_responded_at_height :: height

datatype challenge_resolution_details =
    DetRejected
  | DetBadBatch "hash32 option"
  | DetOmission hash32
  | DetBadAggregate "hash32 option"
  | DetBadReward "hash32 option"
  | DetBadStorage "content_id option"

record challenge_resolution_record =
  rs_challenge_id :: hash32
  rs_kind :: challenge_kind
  rs_slash_amount :: amount
  rs_challenger_reward :: amount
  rs_details :: challenge_resolution_details
  rs_resolved_at_height :: height

subsection \<open>Transactions\<close>

record transfer_tx =
  tt_from :: address
  tt_to :: address
  tt_amount :: amount
  tt_fee :: amount
  tt_nonce :: u64
  tt_pubkey :: pubkey
  tt_signature :: signature_bytes

record stake_tx =
  st_delegator :: address
  st_operator :: node_id
  st_amount :: amount
  st_nonce :: u64
  st_pubkey :: pubkey
  st_signature :: signature_bytes

record unbond_tx =
  ut_delegator :: address
  ut_operator :: node_id
  ut_amount :: amount
  ut_nonce :: u64
  ut_pubkey :: pubkey
  ut_signature :: signature_bytes

record claim_reward_tx =
  ct_claimer :: address
  ct_epoch_id :: epoch_id
  ct_node_id :: node_id
  ct_amount :: amount
  ct_merkle_proof :: "hash32 list"
  ct_nonce :: u64
  ct_pubkey :: pubkey
  ct_signature :: signature_bytes

record submit_batch_tx =
  sb_batch_commit :: batch_commit
  sb_pubkey :: pubkey
  sb_signature :: signature_bytes

record commit_epoch_tx =
  ce_epoch_commit :: epoch_commit_rec
  ce_pubkey :: pubkey
  ce_signature :: signature_bytes

record open_challenge_tx =
  oc_challenge :: challenge
  oc_pubkey :: pubkey
  oc_signature :: signature_bytes

record challenge_response_tx =
  rt_challenge_id :: hash32
  rt_responder :: node_id
  rt_response_payload_cid :: "content_id option"
  rt_response_hash :: "hash32 option"
  rt_pubkey :: pubkey
  rt_signature :: signature_bytes

record vote_tx =
  vt_proposal_id :: hash32
  vt_voter :: address
  vt_choice :: vote_choice
  vt_voting_power :: amount
  vt_nonce :: u64
  vt_pubkey :: pubkey
  vt_signature :: signature_bytes

record propose_params_tx =
  pt_proposal_id :: hash32
  pt_proposer :: address
  pt_effective_epoch :: epoch_id
  pt_params :: protocol_params
  pt_nonce :: u64
  pt_pubkey :: pubkey
  pt_signature :: signature_bytes

datatype transaction =
    Transfer transfer_tx
  | Stake stake_tx
  | Unbond unbond_tx
  | ClaimReward claim_reward_tx
  | SubmitBatch submit_batch_tx
  | CommitEpoch commit_epoch_tx
  | OpenChallenge open_challenge_tx
  | ChallengeResponse challenge_response_tx
  | Vote vote_tx
  | ProposeProtocolParamsUpdate propose_params_tx

text \<open>
  \<open>signing_payload\<close> serialises a copy of the transaction with its signature cleared. The
  serialiser is the Borsh crate: \<open>encode\<close> stands for \<open>borsh::to_vec\<close> on the ten transaction
  structs, each named by its constructor of \<open>transaction\<close>.
\<close>

fun clear_signature :: "transaction \<Rightarrow> transaction" where
  "clear_signature (Transfer tx) = Transfer (tx\<lparr>tt_signature := []\<rparr>)"
| "clear_signature (Stake tx) = Stake (tx\<lparr>st_signature := []\<rparr>)"
| "clear_signature (Unbond tx) = Unbond (tx\<lparr>ut_signature := []\<rparr>)"
| "clear_signature (ClaimReward tx) = ClaimReward (tx\<lparr>ct_signature := []\<rparr>)"
| "clear_signature (SubmitBatch tx) = SubmitBatch (tx\<lparr>sb_signature := []\<rparr>)"
| "clear_signature (CommitEpoch tx) = CommitEpoch (tx\<lparr>ce_signature := []\<rparr>)"
| "clear_signature (OpenChallenge tx) = OpenChallenge (tx\<lparr>oc_signature := []\<rparr>)"
| "clear_signature (ChallengeResponse tx) = ChallengeResponse (tx\<lparr>rt_signature := []\<rparr>)"
| "clear_signature (Vote tx) = Vote (tx\<lparr>vt_signature := []\<rparr>)"
| "clear_signature (ProposeProtocolParamsUpdate tx) =
     ProposeProtocolParamsUpdate (tx\<lparr>pt_signature := []\<rparr>)"

definition signing_payload :: "(transaction \<Rightarrow> byte_vec) \<Rightarrow> transaction \<Rightarrow> byte_vec" where
  "signing_payload encode tx = encode (clear_signature tx)"

end
