(* ===== verification/Store.thy ===== *)
theory Store
  imports Records
begin

text \<open>
  The protocol store (\<open>src/src/store.rs\<close>): the tables of \<open>InMemoryStore\<close> and the methods of the
  \<open>ProtocolStore\<close> trait on it, in the order of the source.

  A shared reference \<open>&T\<close> returned by a lookup is the value; a \<open>&mut T\<close> (\<open>account_mut\<close>, \<open>node_mut\<close>,
  \<open>params_update_proposal_mut\<close>) is the lookup together with the matching \<open>write_\<close> function,
  which puts the value the caller leaves behind the reference back into the same slot.
\<close>

type_synonym batch_key = "epoch_id \<times> node_id \<times> hash32"
type_synonym reward_key = "epoch_id \<times> node_id"
type_synonym delegation_key = "address \<times> node_id"
type_synonym vote_key = "hash32 \<times> address"

record in_memory_store =
  accounts :: "(address, account_state) btree_map"
  nodes :: "(node_id, node_registry) btree_map"
  storage_offers :: "(node_id, storage_offer) btree_map"
  batches :: "(batch_key, batch_commit) btree_map"
  epoch_commits :: "(epoch_id, epoch_commit_rec) btree_map"
  open_challenges :: "(hash32, challenge) btree_map"
  resolved_challenges :: "(hash32, challenge) btree_map"
  challenge_resolutions :: "(hash32, challenge_resolution_record) btree_map"
  reward_records :: "(reward_key, reward_record) btree_map"
  claimed_rewards :: "reward_key btree_set"
  delegations :: "(delegation_key, delegation_record) btree_map"
  unbonding_queue :: "unbonding_record list"
  votes :: "(vote_key, governance_vote_record) btree_map"
  params_update_proposals :: "(hash32, governance_proposal) btree_map"
  challenge_responses :: "(hash32, challenge_response_record) btree_map"
  scheduled_protocol_params :: "(epoch_id, protocol_params) btree_map"
  finalized_epochs :: "epoch_id btree_set"

definition default_store :: in_memory_store where
  "default_store = \<lparr>
     accounts = bt_empty, nodes = bt_empty, storage_offers = bt_empty, batches = bt_empty,
     epoch_commits = bt_empty, open_challenges = bt_empty, resolved_challenges = bt_empty,
     challenge_resolutions = bt_empty, reward_records = bt_empty, claimed_rewards = bt_empty,
     delegations = bt_empty, unbonding_queue = [], votes = bt_empty,
     params_update_proposals = bt_empty, challenge_responses = bt_empty,
     scheduled_protocol_params = bt_empty, finalized_epochs = bt_empty \<rparr>"

subsection \<open>The trait methods on \<open>InMemoryStore\<close>\<close>

definition account :: "in_memory_store \<Rightarrow> address \<Rightarrow> account_state option" where
  "account st addr = bt_get (accounts st) addr"

definition write_account :: "address \<Rightarrow> account_state \<Rightarrow> in_memory_store \<Rightarrow> in_memory_store" where
  "write_account addr a st = st\<lparr>accounts := bt_insert addr a (accounts st)\<rparr>"

definition insert_account :: "account_state \<Rightarrow> in_memory_store \<Rightarrow> in_memory_store" where
  "insert_account a st = st\<lparr>accounts := bt_insert (acc_address a) a (accounts st)\<rparr>"

definition accounts_iter :: "in_memory_store \<Rightarrow> account_state list" where
  "accounts_iter st = bt_values (accounts st)"

definition node :: "in_memory_store \<Rightarrow> node_id \<Rightarrow> node_registry option" where
  "node st nid = bt_get (nodes st) nid"

definition write_node :: "node_id \<Rightarrow> node_registry \<Rightarrow> in_memory_store \<Rightarrow> in_memory_store" where
  "write_node nid n st = st\<lparr>nodes := bt_insert nid n (nodes st)\<rparr>"

definition insert_node :: "node_registry \<Rightarrow> in_memory_store \<Rightarrow> in_memory_store" where
  "insert_node n st = st\<lparr>nodes := bt_insert (nr_node_id n) n (nodes st)\<rparr>"

definition storage_offer_of :: "in_memory_store \<Rightarrow> node_id \<Rightarrow> storage_offer option" where
  "storage_offer_of st nid = bt_get (storage_offers st) nid"

definition insert_storage_offer :: "storage_offer \<Rightarrow> in_memory_store \<Rightarrow> in_memory_store" where
  "insert_storage_offer offer st =
     st\<lparr>storage_offers := bt_insert (so_node_id offer) offer (storage_offers st)\<rparr>"

definition batch :: "in_memory_store \<Rightarrow> batch_key \<Rightarrow> batch_commit option" where
  "batch st key = bt_get (batches st) key"

definition insert_batch :: "batch_key \<Rightarrow> batch_commit \<Rightarrow> in_memory_store \<Rightarrow> in_memory_store" where
  "insert_batch key b st = st\<lparr>batches := bt_insert key b (batches st)\<rparr>"

definition has_any_batch_for_epoch :: "in_memory_store \<Rightarrow> epoch_id \<Rightarrow> bool" where
  "has_any_batch_for_epoch st epoch =
     list_ex (\<lambda>(candidate, _, _). candidate = epoch) (bt_keys (batches st))"

definition epoch_commit :: "in_memory_store \<Rightarrow> epoch_id \<Rightarrow> epoch_commit_rec option" where
  "epoch_commit st epoch = bt_get (epoch_commits st) epoch"

definition insert_epoch_commit :: "epoch_id \<Rightarrow> epoch_commit_rec \<Rightarrow> in_memory_store \<Rightarrow> in_memory_store" where
  "insert_epoch_commit epoch c st = st\<lparr>epoch_commits := bt_insert epoch c (epoch_commits st)\<rparr>"

definition open_challenge :: "in_memory_store \<Rightarrow> hash32 \<Rightarrow> challenge option" where
  "open_challenge st cid = bt_get (open_challenges st) cid"

definition insert_open_challenge :: "hash32 \<Rightarrow> challenge \<Rightarrow> in_memory_store \<Rightarrow> in_memory_store" where
  "insert_open_challenge cid c st = st\<lparr>open_challenges := bt_insert cid c (open_challenges st)\<rparr>"

definition remove_open_challenge :: "hash32 \<Rightarrow> in_memory_store \<Rightarrow> challenge option \<times> in_memory_store" where
  "remove_open_challenge cid st =
     (bt_get (open_challenges st) cid, st\<lparr>open_challenges := bt_remove cid (open_challenges st)\<rparr>)"

definition has_open_challenges_for_epoch :: "in_memory_store \<Rightarrow> epoch_id \<Rightarrow> bool" where
  "has_open_challenges_for_epoch st epoch =
     list_ex (\<lambda>c. ch_epoch_id c = epoch) (bt_values (open_challenges st))"

definition insert_resolved_challenge :: "hash32 \<Rightarrow> challenge \<Rightarrow> in_memory_store \<Rightarrow> in_memory_store" where
  "insert_resolved_challenge cid c st =
     st\<lparr>resolved_challenges := bt_insert cid c (resolved_challenges st)\<rparr>"

definition challenge_resolution :: "in_memory_store \<Rightarrow> hash32 \<Rightarrow> challenge_resolution_record option" where
  "challenge_resolution st cid = bt_get (challenge_resolutions st) cid"

definition insert_challenge_resolution ::
  "hash32 \<Rightarrow> challenge_resolution_record \<Rightarrow> in_memory_store \<Rightarrow> in_memory_store" where
  "insert_challenge_resolution cid r st =
     st\<lparr>challenge_resolutions := bt_insert cid r (challenge_resolutions st)\<rparr>"

definition reward_record_of :: "in_memory_store \<Rightarrow> reward_key \<Rightarrow> reward_record option" where
  "reward_record_of st key = bt_get (reward_records st) key"

definition insert_reward_record :: "reward_key \<Rightarrow> reward_record \<Rightarrow> in_memory_store \<Rightarrow> in_memory_store" where
  "insert_reward_record key r st = st\<lparr>reward_records := bt_insert key r (reward_records st)\<rparr>"

definition is_reward_claimed :: "in_memory_store \<Rightarrow> reward_key \<Rightarrow> bool" where
  "is_reward_claimed st key = bs_contains (claimed_rewards st) key"

definition mark_reward_claimed :: "reward_key \<Rightarrow> in_memory_store \<Rightarrow> in_memory_store" where
  "mark_reward_claimed key st = st\<lparr>claimed_rewards := bs_insert key (claimed_rewards st)\<rparr>"

definition delegation :: "in_memory_store \<Rightarrow> delegation_key \<Rightarrow> delegation_record option" where
  "delegation st key = bt_get (delegations st) key"

definition insert_delegation :: "delegation_key \<Rightarrow> delegation_record \<Rightarrow> in_memory_store \<Rightarrow> in_memory_store" where
  "insert_delegation key d st = st\<lparr>delegations := bt_insert key d (delegations st)\<rparr>"

definition remove_delegation :: "delegation_key \<Rightarrow> in_memory_store \<Rightarrow> delegation_record option \<times> in_memory_store" where
  "remove_delegation key st =
     (bt_get (delegations st) key, st\<lparr>delegations := bt_remove key (delegations st)\<rparr>)"

definition queue_unbonding :: "unbonding_record \<Rightarrow> in_memory_store \<Rightarrow> in_memory_store" where
  "queue_unbonding request st = st\<lparr>unbonding_queue := unbonding_queue st @ [request]\<rparr>"

text \<open>The loop of \<open>drain_mature_unbondings\<close> with its two output vectors.\<close>

fun drain_loop ::
  "height \<Rightarrow> unbonding_record list \<Rightarrow> unbonding_record list \<Rightarrow> unbonding_record list
    \<Rightarrow> unbonding_record list \<times> unbonding_record list" where
  "drain_loop current_height [] matured remaining = (matured, remaining)"
| "drain_loop current_height (request # pending) matured remaining =
     (if ub_unlock_height request \<le> current_height
      then drain_loop current_height pending (matured @ [request]) remaining
      else drain_loop current_height pending matured (remaining @ [request]))"

definition drain_mature_unbondings ::
  "height \<Rightarrow> in_memory_store \<Rightarrow> unbonding_record list \<times> in_memory_store" where
  "drain_mature_unbondings current_height st =
     (let (matured, remaining) = drain_loop current_height (unbonding_queue st) [] []
      in (matured, st\<lparr>unbonding_queue := remaining\<rparr>))"

definition vote_record :: "in_memory_store \<Rightarrow> vote_key \<Rightarrow> governance_vote_record option" where
  "vote_record st key = bt_get (votes st) key"

definition insert_vote_record :: "vote_key \<Rightarrow> governance_vote_record \<Rightarrow> in_memory_store \<Rightarrow> in_memory_store" where
  "insert_vote_record key v st = st\<lparr>votes := bt_insert key v (votes st)\<rparr>"

definition vote_records_for_proposal :: "in_memory_store \<Rightarrow> hash32 \<Rightarrow> governance_vote_record list" where
  "vote_records_for_proposal st pid =
     map snd (filter (\<lambda>((candidate, _), _). candidate = pid) (bt_entries (votes st)))"

definition params_update_proposal :: "in_memory_store \<Rightarrow> hash32 \<Rightarrow> governance_proposal option" where
  "params_update_proposal st pid = bt_get (params_update_proposals st) pid"

definition params_update_proposals_iter :: "in_memory_store \<Rightarrow> governance_proposal list" where
  "params_update_proposals_iter st = bt_values (params_update_proposals st)"

definition write_params_update_proposal :: "hash32 \<Rightarrow> governance_proposal \<Rightarrow> in_memory_store \<Rightarrow> in_memory_store" where
  "write_params_update_proposal pid p st =
     st\<lparr>params_update_proposals := bt_insert pid p (params_update_proposals st)\<rparr>"

definition insert_params_update_proposal :: "hash32 \<Rightarrow> governance_proposal \<Rightarrow> in_memory_store \<Rightarrow> in_memory_store" where
  "insert_params_update_proposal pid p st =
     st\<lparr>params_update_proposals := bt_insert pid p (params_update_proposals st)\<rparr>"

definition challenge_response :: "in_memory_store \<Rightarrow> hash32 \<Rightarrow> challenge_response_record option" where
  "challenge_response st cid = bt_get (challenge_responses st) cid"

definition insert_challenge_response ::
  "hash32 \<Rightarrow> challenge_response_record \<Rightarrow> in_memory_store \<Rightarrow> in_memory_store" where
  "insert_challenge_response cid r st =
     st\<lparr>challenge_responses := bt_insert cid r (challenge_responses st)\<rparr>"

definition scheduled_params_for :: "in_memory_store \<Rightarrow> epoch_id \<Rightarrow> protocol_params option" where
  "scheduled_params_for st epoch = bt_get (scheduled_protocol_params st) epoch"

definition insert_scheduled_protocol_params :: "epoch_id \<Rightarrow> protocol_params \<Rightarrow> in_memory_store \<Rightarrow> in_memory_store" where
  "insert_scheduled_protocol_params epoch p st =
     st\<lparr>scheduled_protocol_params := bt_insert epoch p (scheduled_protocol_params st)\<rparr>"

definition take_scheduled_protocol_params ::
  "epoch_id \<Rightarrow> in_memory_store \<Rightarrow> protocol_params option \<times> in_memory_store" where
  "take_scheduled_protocol_params epoch st =
     (bt_get (scheduled_protocol_params st) epoch,
      st\<lparr>scheduled_protocol_params := bt_remove epoch (scheduled_protocol_params st)\<rparr>)"

definition is_epoch_finalized :: "in_memory_store \<Rightarrow> epoch_id \<Rightarrow> bool" where
  "is_epoch_finalized st epoch = bs_contains (finalized_epochs st) epoch"

definition mark_epoch_finalized :: "epoch_id \<Rightarrow> in_memory_store \<Rightarrow> in_memory_store" where
  "mark_epoch_finalized epoch st = st\<lparr>finalized_epochs := bs_insert epoch (finalized_epochs st)\<rparr>"

lemma drain_loop_eq:
  "drain_loop h pending matured remaining =
    (matured @ filter (\<lambda>r. ub_unlock_height r \<le> h) pending,
     remaining @ filter (\<lambda>r. \<not> ub_unlock_height r \<le> h) pending)"
  by (induction h pending matured remaining rule: drain_loop.induct) simp_all

lemma drain_mature_unbondings_eq:
  "drain_mature_unbondings h st =
    (filter (\<lambda>r. ub_unlock_height r \<le> h) (unbonding_queue st),
     st\<lparr>unbonding_queue := filter (\<lambda>r. \<not> ub_unlock_height r \<le> h) (unbonding_queue st)\<rparr>)"
  by (simp add: drain_mature_unbondings_def drain_loop_eq)

end
