(* ===== verification/Hashing.thy ===== *)
theory Hashing
  imports Pole_Prelude
begin

unbundle bit_operations_syntax

text \<open>
  \<open>stable_hash32\<close>, \<open>merkle_root\<close> and \<open>merkle_leaf_sha256\<close> of \<open>src/src/node_pipeline.rs\<close>. The first
  is the repository's own four-lane mixing function, modelled in full: it names accounts and
  nodes after their public keys. SHA-256 is the \<open>sha2\<close> crate and is the parameter \<open>sha256\<close>.
\<close>

subsection \<open>The four-lane hash\<close>

definition hash_prime :: u64 where
  "hash_prime = 0x100000001B3"

definition hash_seeds :: "u64 list" where
  "hash_seeds = [0xcbf29ce484222325, 0x84222325cbf29ce4, 0x9e3779b185ebca87, 0x517cc1b727220a95]"

definition hash_step :: "u64 \<Rightarrow> u64 \<Rightarrow> u8 \<Rightarrow> u64" where
  "hash_step index acc byte =
     word_rotl 5 (((acc XOR ucast byte) * hash_prime) XOR ((index + 1) * 0x9e3779b9))"

definition hash_lane :: "u64 \<Rightarrow> u64 \<Rightarrow> byte_vec \<Rightarrow> u64" where
  "hash_lane index seed bytes = foldl (hash_step index) seed bytes"

definition stable_hash32 :: "byte_vec \<Rightarrow> bytes32" where
  "stable_hash32 bytes =
     of_bytes32 (concat (map (\<lambda>(index, seed). le_bytes 8 (uint (hash_lane index seed bytes)))
       (zip [0, 1, 2, 3] hash_seeds)))"

text \<open>A content id names a hash in a namespace; \<open>hex\<close> is \<open>hex::encode\<close>.\<close>

definition cid_from_hash :: "(byte_vec \<Rightarrow> string) \<Rightarrow> bytes32 \<Rightarrow> string \<Rightarrow> string" where
  "cid_from_hash hex hash namespace = ''cid://'' @ namespace @ ''/'' @ hex (to_bytes32 hash)"

text \<open>
  Every operation of one step is invertible: the multiplication because the multiplier is odd.
\<close>

lemma hash_prime_cancel: "a * hash_prime = b * hash_prime \<longleftrightarrow> a = b"
proof
  assume "a * hash_prime = b * hash_prime"
  then have "a * (hash_prime * 0xce965057aff6957b) = b * (hash_prime * 0xce965057aff6957b)"
    by (simp flip: mult.assoc)
  moreover have "hash_prime * 0xce965057aff6957b = 1"
    by (simp add: hash_prime_def)
  ultimately show "a = b" by simp
qed simp

lemma word_rotl_cancel: "word_rotl n a = word_rotl n b \<longleftrightarrow> a = b"
  by (metis word_rot_lr)

lemma xor_right_cancel: "a XOR c = b XOR c \<longleftrightarrow> a = b" for a b c :: "'a::len word"
  by (metis xor.assoc xor_self_eq xor.right_neutral)

lemma xor_left_cancel: "c XOR a = c XOR b \<longleftrightarrow> a = b" for a b c :: "'a::len word"
  by (metis xor.commute xor_right_cancel)

lemma hash_step_acc_inj: "hash_step i a c = hash_step i b c \<longleftrightarrow> a = b"
  by (simp add: hash_step_def word_rotl_cancel xor_right_cancel hash_prime_cancel)

lemma hash_step_byte_inj: "hash_step i a b = hash_step i a c \<longleftrightarrow> b = c"
proof -
  have "ucast (ucast d :: u64) = d" for d :: u8
    by (rule bit_word_eqI) (simp add: bit_ucast_iff)
  then have "ucast b = (ucast c :: u64) \<longleftrightarrow> b = c" by metis
  then show ?thesis
    by (simp add: hash_step_def word_rotl_cancel xor_right_cancel xor_left_cancel hash_prime_cancel)
qed

lemma hash_lane_seed_inj: "hash_lane i a bs = hash_lane i b bs \<longleftrightarrow> a = b"
  unfolding hash_lane_def
  by (induction bs arbitrary: a b) (simp_all add: hash_step_acc_inj)

lemma hash_lane_append: "hash_lane i a (xs @ ys) = hash_lane i (hash_lane i a xs) ys"
  by (simp add: hash_lane_def)

lemma hash_lane_byte_inj:
  "hash_lane i a (xs @ b # ys) = hash_lane i a (xs @ c # ys) \<longleftrightarrow> b = c"
proof -
  have "hash_lane i a (xs @ d # ys) = hash_lane i (hash_step i (hash_lane i a xs) d) ys" for d
    by (simp add: hash_lane_def)
  then show ?thesis
    by (simp add: hash_lane_seed_inj hash_step_byte_inj)
qed

lemma digit_split:
  fixes a b x y :: int
  assumes "a * 256 + x = b * 256 + y" "0 \<le> x" "x < 256" "0 \<le> y" "y < 256"
  shows "a = b" "x = y"
proof -
  have "(a * 256 + x) mod 256 = x" "(b * 256 + y) mod 256 = y"
    using assms(2-) by simp_all
  with assms(1) show "x = y" by simp
  with assms(1) show "a = b" by simp
qed

lemma of_be_bytes_bounds: "0 \<le> of_be_bytes bs \<and> of_be_bytes bs < 256 ^ length bs"
proof (induction bs rule: rev_induct)
  case (snoc b bs)
  have "of_be_bytes (bs @ [b]) = of_be_bytes bs * 256 + uint b"
    by (simp add: of_be_bytes_def)
  moreover have "0 \<le> uint b" "uint b < 256"
    using uint_lt2p [of b] by simp_all
  ultimately show ?case using snoc by (simp add: algebra_simps)
qed (simp add: of_be_bytes_def)

lemma of_be_bytes_inj:
  "length xs = length ys \<Longrightarrow> of_be_bytes xs = of_be_bytes ys \<Longrightarrow> xs = ys"
proof (induction xs ys rule: rev_induct2)
  case (4 x xs y ys)
  have eq: "of_be_bytes xs * 256 + uint x = of_be_bytes ys * 256 + uint y"
    using "4.prems"(2) by (simp add: of_be_bytes_def)
  have "0 \<le> uint x" "uint x < 256" "0 \<le> uint y" "uint y < 256"
    using uint_lt2p [of x] uint_lt2p [of y] by simp_all
  from digit_split [OF eq this] 4 show ?case by (simp add: word_uint_eq_iff)
qed simp_all

lemma le_bytes_inj:
  "0 \<le> x \<Longrightarrow> x < 256 ^ n \<Longrightarrow> 0 \<le> y \<Longrightarrow> y < 256 ^ n \<Longrightarrow> le_bytes n x = le_bytes n y \<Longrightarrow> x = y"
proof (induction n arbitrary: x y)
  case (Suc n)
  have "x mod 256 = y mod 256"
    using Suc.prems(5) by (simp add: byte_order)
  moreover have "x div 256 = y div 256"
    using Suc.prems by (intro Suc.IH) simp_all
  ultimately show ?case by (metis div_mult_mod_eq)
qed simp

lemma of_bytes32_inj:
  assumes "length xs = 32" "length ys = 32" "of_bytes32 xs = of_bytes32 ys"
  shows "xs = ys"
proof -
  have "of_be_bytes xs < 2 ^ 256" "of_be_bytes ys < 2 ^ 256" "0 \<le> of_be_bytes xs" "0 \<le> of_be_bytes ys"
    using of_be_bytes_bounds [of xs] of_be_bytes_bounds [of ys] assms(1,2) by simp_all
  then have "uint (of_bytes32 xs) = of_be_bytes xs" "uint (of_bytes32 ys) = of_be_bytes ys"
    by (simp_all add: of_bytes32_def uint_word_of_int)
  with assms have "of_be_bytes xs = of_be_bytes ys" by simp
  with assms show ?thesis by (intro of_be_bytes_inj) simp_all
qed

lemma stable_hash32_first_lane:
  assumes "stable_hash32 xs = stable_hash32 ys"
  shows "hash_lane 0 (hd hash_seeds) xs = hash_lane 0 (hd hash_seeds) ys"
proof -
  let ?lane = "\<lambda>bs. le_bytes 8 (uint (hash_lane 0 (hd hash_seeds) bs))"
  have "\<exists>rest. length (concat rest) = 24 \<and> stable_hash32 bs = of_bytes32 (?lane bs @ concat rest)" for bs
    unfolding stable_hash32_def hash_seeds_def
    by (intro exI [of _ "map (\<lambda>(index, seed). le_bytes 8 (uint (hash_lane index seed bs)))
        (zip [1, 2, 3] (tl hash_seeds))"]) (simp add: hash_seeds_def)
  then obtain r s where "length (concat r) = 24" "length (concat s) = 24"
    "stable_hash32 xs = of_bytes32 (?lane xs @ concat r)"
    "stable_hash32 ys = of_bytes32 (?lane ys @ concat s)"
    by metis
  with assms have "?lane xs @ concat r = ?lane ys @ concat s"
    by (intro of_bytes32_inj) simp_all
  then have "?lane xs = ?lane ys" by simp
  then have "uint (hash_lane 0 (hd hash_seeds) xs) = uint (hash_lane 0 (hd hash_seeds) ys)"
    using uint_lt2p [of "hash_lane 0 (hd hash_seeds) xs"] uint_lt2p [of "hash_lane 0 (hd hash_seeds) ys"]
    by (intro le_bytes_inj [of _ 8]) simp_all
  then show ?thesis by (simp add: word_uint_eq_iff)
qed

end
