(* ===== verification/Transitions.thy ===== *)
theory Transitions
  imports Store Hashing
begin

text \<open>
  The state transitions of the protocol (\<open>src/src/transitions.rs\<close>), one function per method of
  \<open>ProtocolState\<close> and one per helper, in the order of the source.

  The state is \<open>ProtocolState<InMemoryStore>\<close>. A method returns its \<open>Result\<close> together with the
  state it leaves (\<open>outcome\<close>): where the source returns early with \<open>?\<close> after a write, the model
  returns the written state, as the Rust code does.

  Code outside the repository is the parameter \<open>env\<close>: \<open>encode_tx\<close> and \<open>encode_params\<close> are
  \<open>borsh::to_vec\<close>, \<open>verifying_key_ok\<close> and \<open>ed25519_verify\<close> are \<open>VerifyingKey::from_bytes\<close> and
  \<open>VerifyingKey::verify\<close> of \<open>ed25519_dalek\<close>.
\<close>

record crypto_env =
  encode_tx :: "transaction \<Rightarrow> byte_vec"
  encode_params :: "protocol_params \<Rightarrow> string + byte_vec"
  verifying_key_ok :: "pubkey \<Rightarrow> bool"
  ed25519_verify :: "pubkey \<Rightarrow> byte_vec \<Rightarrow> byte_vec \<Rightarrow> bool"

subsection \<open>Types\<close>

datatype challenge_resolution_in =
    ResBadBatch amount amount "hash32 option"
  | ResOmission amount amount hash32
  | ResBadAggregate amount amount "hash32 option"
  | ResBadReward amount amount "hash32 option"
  | ResBadStorage amount amount "string option"
  | ResRejected

record protocol_state =
  height :: height
  current_epoch :: epoch_id
  params :: protocol_params
  store :: in_memory_store

datatype transition_effect =
    BatchAccepted batch_key
  | EpochCommitted epoch_id height
  | ChallengeOpened hash32 amount
  | ChallengeResolved hash32 challenge_kind amount amount
  | EpochFinalized epoch_id
  | RewardClaimed epoch_id node_id address amount
  | TransferApplied address address amount amount
  | StakeApplied address node_id amount
  | UnbondQueued address node_id amount height
  | UnbondMatured address node_id amount
  | VoteRecorded hash32 address amount
  | ProtocolParamsUpdateProposed hash32 address epoch_id
  | ChallengeResponded hash32 node_id

datatype transition_error =
    InvalidSignature
  | InvalidSigner
  | EmptyPayloadCid
  | EmptyBatch
  | InvalidSlotRange
  | StaleEpoch epoch_id epoch_id
  | UnknownNode node_id
  | UnknownAccount address
  | NodeNotActive node_id
  | MissingCapability node_id capability
  | InsufficientBond node_id amount amount
  | DuplicateBatch batch_key
  | DuplicateEpochCommit epoch_id
  | MissingBatchForEpoch epoch_id
  | ChallengeWindowInvalid height height u32
  | EpochCommitNotFound epoch_id
  | ChallengeAlreadyExists hash32
  | ChallengeNotFound hash32
  | InvalidChallengeBond
  | MissingChallengeTarget hash32
  | InvalidChallengeReward amount amount
  | ResolutionKindMismatch hash32 challenge_kind
  | ChallengeStillOpen epoch_id
  | ChallengeWindowNotElapsed height height
  | EpochAlreadyFinalized epoch_id
  | EpochNotFinalized epoch_id
  | RewardNotFound reward_key
  | RewardAlreadyClaimed reward_key
  | ClaimAmountMismatch amount amount
  | InvalidRewardClaimer address address
  | InvalidAmount
  | DelegationNotFound delegation_key
  | InsufficientDelegation delegation_key amount amount
  | InsufficientVotingPower address amount amount
  | DuplicateVote vote_key
  | ChallengeAlreadyResponded hash32
  | ChallengeResponseWindowElapsed hash32 height height
  | DuplicateParamsUpdateProposal hash32
  | ParamsUpdateProposalNotFound hash32
  | ParamsUpdateMustTargetFutureEpoch epoch_id epoch_id
  | InvalidChallengeResponder hash32 node_id node_id
  | EmptyChallengeResponse
  | NonceMismatch address u64 u64
  | InsufficientBalance address amount amount
  | ParamsSerialization string
  | InvalidProtocolParams protocol_params_error

type_synonym 'a check = "transition_error + 'a"
type_synonym 'a transition = "protocol_state \<Rightarrow> (transition_error, 'a, protocol_state) outcome"

subsection \<open>Helpers\<close>

definition verify_signature :: "crypto_env \<Rightarrow> pubkey \<Rightarrow> byte_vec \<Rightarrow> byte_vec \<Rightarrow> bool" where
  "verify_signature env public_key message signature =
     (if \<not> verifying_key_ok env public_key then False
      else if length signature \<noteq> 64 then False
      else ed25519_verify env public_key message signature)"

definition ensure_signature ::
  "crypto_env \<Rightarrow> pubkey \<Rightarrow> bytes32 \<Rightarrow> byte_vec \<Rightarrow> byte_vec \<Rightarrow> unit check" where
  "ensure_signature env public_key expected_signer message signature =
     (if stable_hash32 (to_bytes32 public_key) \<noteq> expected_signer then Inl InvalidSigner
      else if \<not> verify_signature env public_key message signature then Inl InvalidSignature
      else Inr ())"

definition ensure_non_empty_payload :: "content_id \<Rightarrow> unit check" where
  "ensure_non_empty_payload payload_cid = (if payload_cid = [] then Inl EmptyPayloadCid else Inr ())"

definition ensure_epoch_not_stale :: "epoch_id \<Rightarrow> epoch_id \<Rightarrow> unit check" where
  "ensure_epoch_not_stale epoch current =
     (if epoch < current then Inl (StaleEpoch epoch current) else Inr ())"

definition ensure_positive_amount :: "amount \<Rightarrow> unit check" where
  "ensure_positive_amount a = (if a = 0 then Inl InvalidAmount else Inr ())"

definition ensure_nonce :: "address \<Rightarrow> u64 \<Rightarrow> u64 \<Rightarrow> unit check" where
  "ensure_nonce addr expected actual =
     (if expected \<noteq> actual then Inl (NonceMismatch addr expected actual) else Inr ())"

definition ensure_bond :: "node_id \<Rightarrow> amount \<Rightarrow> amount \<Rightarrow> unit check" where
  "ensure_bond nid actual required =
     (if actual < required then Inl (InsufficientBond nid required actual) else Inr ())"

definition lock_bond :: "account_state \<Rightarrow> amount \<Rightarrow> account_state check" where
  "lock_bond a amt =
     (if acc_balance a < amt
      then Inl (InsufficientBalance (acc_address a) amt (acc_balance a))
      else Inr (a\<lparr>acc_balance := acc_balance a - amt, acc_locked := acc_locked a + amt\<rparr>))"

definition unlock_bond_to_balance :: "account_state \<Rightarrow> amount \<Rightarrow> amount \<Rightarrow> account_state check" where
  "unlock_bond_to_balance a locked_amount credit_amount =
     (if acc_locked a < locked_amount
      then Inl (InsufficientBalance (acc_address a) locked_amount (acc_locked a))
      else Inr (a\<lparr>acc_locked := acc_locked a - locked_amount,
                 acc_balance := acc_balance a + credit_amount\<rparr>))"

definition burn_locked_bond :: "account_state \<Rightarrow> amount \<Rightarrow> account_state check" where
  "burn_locked_bond a amt =
     (if acc_locked a < amt
      then Inl (InsufficientBalance (acc_address a) amt (acc_locked a))
      else Inr (a\<lparr>acc_locked := acc_locked a - amt\<rparr>))"

definition classify_protocol_params_update :: "protocol_params \<Rightarrow> protocol_params \<Rightarrow> governance_proposal_kind" where
  "classify_protocol_params_update current proposed =
     (if reward_block_secs (pp_rewards current) \<noteq> reward_block_secs (pp_rewards proposed)
      then SlowParams else FastParams)"

fun resolution_details ::
  "hash32 \<Rightarrow> challenge_kind \<Rightarrow> challenge_resolution_in \<Rightarrow> challenge_resolution_details check" where
  "resolution_details cid KBadBatch (ResBadBatch _ _ root) = Inr (DetBadBatch root)"
| "resolution_details cid KOmission (ResOmission _ _ root) = Inr (DetOmission root)"
| "resolution_details cid KBadAggregate (ResBadAggregate _ _ root) = Inr (DetBadAggregate root)"
| "resolution_details cid KBadReward (ResBadReward _ _ root) = Inr (DetBadReward root)"
| "resolution_details cid KBadStorage (ResBadStorage _ _ cidopt) = Inr (DetBadStorage cidopt)"
| "resolution_details cid _ ResRejected = Inr DetRejected"
| "resolution_details cid expected _ = Inl (ResolutionKindMismatch cid expected)"

fun resolution_amounts :: "challenge_resolution_in \<Rightarrow> amount \<times> amount" where
  "resolution_amounts (ResBadBatch slash reward _) = (slash, reward)"
| "resolution_amounts (ResOmission slash reward _) = (slash, reward)"
| "resolution_amounts (ResBadAggregate slash reward _) = (slash, reward)"
| "resolution_amounts (ResBadReward slash reward _) = (slash, reward)"
| "resolution_amounts (ResBadStorage slash reward _) = (slash, reward)"
| "resolution_amounts ResRejected = (0, 0)"

definition require_active_node :: "protocol_state \<Rightarrow> node_id \<Rightarrow> node_registry check" where
  "require_active_node s nid =
     (case node (store s) nid of
        None \<Rightarrow> Inl (UnknownNode nid)
      | Some n \<Rightarrow> if nr_status n \<noteq> NodeActive then Inl (NodeNotActive nid) else Inr n)"

definition require_active_node_with_capability ::
  "protocol_state \<Rightarrow> node_id \<Rightarrow> capability \<Rightarrow> node_registry check" where
  "require_active_node_with_capability s nid cap =
     (case require_active_node s nid of
        Inl e \<Rightarrow> Inl e
      | Inr n \<Rightarrow> if cap \<notin> set (nr_enabled_capabilities n) then Inl (MissingCapability nid cap) else Inr n)"

text \<open>Writes through \<open>self.store\<close>.\<close>

definition on_store :: "(in_memory_store \<Rightarrow> in_memory_store) \<Rightarrow> protocol_state \<Rightarrow> protocol_state" where
  "on_store f s = s\<lparr>store := f (store s)\<rparr>"

text \<open>
  \<open>ProtocolState::new\<close> and \<open>with_store\<close> panic (\<open>expect\<close>) on parameters that fail validation; \<open>None\<close>
  is the panic.
\<close>

definition with_store :: "protocol_params \<Rightarrow> height \<Rightarrow> epoch_id \<Rightarrow> in_memory_store \<Rightarrow> protocol_state option" where
  "with_store p h epoch st =
     (case validate p of
        Inl _ \<Rightarrow> None
      | Inr _ \<Rightarrow> Some \<lparr>height = h, current_epoch = epoch, params = p, store = st\<rparr>)"

definition new_state :: "protocol_params \<Rightarrow> height \<Rightarrow> epoch_id \<Rightarrow> protocol_state option" where
  "new_state p h epoch =
     (case validate p of
        Inl _ \<Rightarrow> None
      | Inr _ \<Rightarrow> Some \<lparr>height = h, current_epoch = epoch, params = p, store = default_store\<rparr>)"

subsection \<open>Batches and epoch commits\<close>

definition apply_submit_batch :: "crypto_env \<Rightarrow> submit_batch_tx \<Rightarrow> transition_effect transition" where
  "apply_submit_batch env tx s =
     (let b = sb_batch_commit tx in
      try_with (ensure_signature env (sb_pubkey tx) (bc_collector_id b)
          (signing_payload (encode_tx env) (SubmitBatch tx)) (sb_signature tx)) s (\<lambda>_.
      try_with (ensure_epoch_not_stale (bc_epoch_id b) (current_epoch s)) s (\<lambda>_.
      try_with (ensure_non_empty_payload (bc_payload_cid b)) s (\<lambda>_.
      if bc_obs_count b = 0 then (Inl EmptyBatch, s)
      else if bc_slot_start b > bc_slot_end b then (Inl InvalidSlotRange, s)
      else
      try_with (require_active_node_with_capability s (bc_collector_id b) Collect) s (\<lambda>n.
        let key = (bc_epoch_id b, nr_node_id n, mc_root (bc_batch b)) in
        if batch (store s) key \<noteq> None then (Inl (DuplicateBatch key), s)
        else (Inr (BatchAccepted key),
              on_store (insert_batch key (b\<lparr>bc_submitted_at_height := height s\<rparr>)) s))))))"

definition apply_commit_epoch :: "crypto_env \<Rightarrow> commit_epoch_tx \<Rightarrow> transition_effect transition" where
  "apply_commit_epoch env tx s =
     (let c = ce_epoch_commit tx in
      try_with (ensure_signature env (ce_pubkey tx) (ec_proposer_id c)
          (signing_payload (encode_tx env) (CommitEpoch tx)) (ce_signature tx)) s (\<lambda>_.
      try_with (ensure_epoch_not_stale (ec_epoch_id c) (current_epoch s)) s (\<lambda>_.
      try_with (require_active_node_with_capability s (ec_proposer_id c) Propose) s (\<lambda>proposer.
      try_with (ensure_bond (nr_node_id proposer) (nr_bond proposer) (min_propose_bond (params s))) s (\<lambda>_.
        if epoch_commit (store s) (ec_epoch_id c) \<noteq> None
        then (Inl (DuplicateEpochCommit (ec_epoch_id c)), s)
        else if \<not> has_any_batch_for_epoch (store s) (ec_epoch_id c)
        then (Inl (MissingBatchForEpoch (ec_epoch_id c)), s)
        else
          let open_height = height s in
          if ec_challenge_deadline_height c \<le> open_height
            \<or> ec_challenge_deadline_height c - open_height > ucast (challenge_window_blocks (params s))
          then (Inl (ChallengeWindowInvalid open_height (ec_challenge_deadline_height c)
                  (challenge_window_blocks (params s))), s)
          else (Inr (EpochCommitted (ec_epoch_id c) (ec_challenge_deadline_height c)),
                on_store (insert_epoch_commit (ec_epoch_id c)
                  (c\<lparr>ec_challenge_open_height := open_height\<rparr>)) s))))))"

subsection \<open>Challenges\<close>

definition apply_open_challenge :: "crypto_env \<Rightarrow> open_challenge_tx \<Rightarrow> transition_effect transition" where
  "apply_open_challenge env tx s =
     (let c = oc_challenge tx in
      try_with (ensure_signature env (oc_pubkey tx) (ch_challenger c)
          (signing_payload (encode_tx env) (OpenChallenge tx)) (oc_signature tx)) s (\<lambda>_.
      if ch_bond c = 0 then (Inl InvalidChallengeBond, s)
      else if open_challenge (store s) (ch_challenge_id c) \<noteq> None
      then (Inl (ChallengeAlreadyExists (ch_challenge_id c)), s)
      else
      try_with (ok_or (epoch_commit (store s) (ch_epoch_id c)) (EpochCommitNotFound (ch_epoch_id c))) s (\<lambda>commit.
        if ch_deadline_height c \<le> height s
          \<or> ch_deadline_height c > ec_challenge_deadline_height commit
        then (Inl (ChallengeWindowInvalid (height s) (ch_deadline_height c)
                (challenge_window_blocks (params s))), s)
        else
        try_with (case ch_target_node c of
                    None \<Rightarrow> Inr ()
                  | Some target \<Rightarrow> map_sum id (\<lambda>_. ()) (require_active_node s target)) s (\<lambda>_.
        try_with (ok_or (account (store s) (ch_challenger c)) (UnknownAccount (ch_challenger c))) s (\<lambda>challenger.
        try_with (lock_bond challenger (ch_bond c)) s (\<lambda>challenger'.
          (Inr (ChallengeOpened (ch_challenge_id c) (ch_bond c)),
           on_store (insert_open_challenge (ch_challenge_id c) (c\<lparr>ch_opened_at_height := height s\<rparr>))
             (on_store (write_account (ch_challenger c) challenger') s))))))))"

definition resolve_rejected :: "challenge \<Rightarrow> transition_effect transition" where
  "resolve_rejected c s =
     try_with (ok_or (account (store s) (ch_challenger c)) (UnknownAccount (ch_challenger c))) s (\<lambda>challenger.
     try_with (burn_locked_bond challenger (ch_bond c)) s (\<lambda>challenger'.
       let c' = c\<lparr>ch_state := ChallengeRejected\<rparr> in
       (Inr (ChallengeResolved (ch_challenge_id c) (ch_kind c) 0 0),
        on_store (insert_challenge_resolution (ch_challenge_id c)
            \<lparr>rs_challenge_id = ch_challenge_id c, rs_kind = ch_kind c, rs_slash_amount = 0,
             rs_challenger_reward = 0, rs_details = DetRejected, rs_resolved_at_height = height s\<rparr>)
          (on_store (insert_resolved_challenge (ch_challenge_id c) c')
            (on_store (write_account (ch_challenger c) challenger') s)))))"

definition resolve_upheld :: "challenge \<Rightarrow> challenge_resolution_in \<Rightarrow> transition_effect transition" where
  "resolve_upheld c resolution s =
     (let (slash_amount, challenger_reward) = resolution_amounts resolution in
      try_with (resolution_details (ch_challenge_id c) (ch_kind c) resolution) s (\<lambda>details.
      if challenger_reward > slash_amount
      then (Inl (InvalidChallengeReward slash_amount challenger_reward), s)
      else
      try_with (ok_or (ch_target_node c) (MissingChallengeTarget (ch_challenge_id c))) s (\<lambda>target.
      try_with (ok_or (node (store s) target) (UnknownNode target)) s (\<lambda>n.
      try_with (ensure_bond (nr_node_id n) (nr_bond n) slash_amount) s (\<lambda>_.
        let n' = n\<lparr>nr_bond := nr_bond n - slash_amount,
                   nr_reputation := (nr_reputation n)\<lparr>rep_challengeable_faults :=
                     rep_challengeable_faults (nr_reputation n) + 1\<rparr>\<rparr>;
            s1 = on_store (write_node target n') s in
        try_with (ok_or (account (store s1) (ch_challenger c)) (UnknownAccount (ch_challenger c))) s1 (\<lambda>challenger.
        try_with (unlock_bond_to_balance challenger (ch_bond c) (ch_bond c + challenger_reward)) s1 (\<lambda>challenger'.
          let c' = c\<lparr>ch_state := ChallengeSucceeded\<rparr> in
          (Inr (ChallengeResolved (ch_challenge_id c) (ch_kind c) slash_amount challenger_reward),
           on_store (insert_challenge_resolution (ch_challenge_id c)
               \<lparr>rs_challenge_id = ch_challenge_id c, rs_kind = ch_kind c, rs_slash_amount = slash_amount,
                rs_challenger_reward = challenger_reward, rs_details = details,
                rs_resolved_at_height = height s\<rparr>)
             (on_store (insert_resolved_challenge (ch_challenge_id c) c')
               (on_store (write_account (ch_challenger c) challenger') s1))))))))))"

definition resolve_challenge :: "hash32 \<Rightarrow> challenge_resolution_in \<Rightarrow> transition_effect transition" where
  "resolve_challenge cid resolution s =
     (let (removed, st) = remove_open_challenge cid (store s); s1 = s\<lparr>store := st\<rparr> in
      try_with (ok_or removed (ChallengeNotFound cid)) s1 (\<lambda>c.
        if resolution = ResRejected then resolve_rejected c s1 else resolve_upheld c resolution s1))"

definition apply_challenge_response :: "crypto_env \<Rightarrow> challenge_response_tx \<Rightarrow> transition_effect transition" where
  "apply_challenge_response env tx s =
     try_with (ensure_signature env (rt_pubkey tx) (rt_responder tx)
         (signing_payload (encode_tx env) (ChallengeResponse tx)) (rt_signature tx)) s (\<lambda>_.
     if rt_response_payload_cid tx = None \<and> rt_response_hash tx = None
     then (Inl EmptyChallengeResponse, s)
     else if challenge_response (store s) (rt_challenge_id tx) \<noteq> None
     then (Inl (ChallengeAlreadyResponded (rt_challenge_id tx)), s)
     else
     try_with (ok_or (open_challenge (store s) (rt_challenge_id tx)) (ChallengeNotFound (rt_challenge_id tx))) s (\<lambda>c.
       if height s > ch_deadline_height c
       then (Inl (ChallengeResponseWindowElapsed (rt_challenge_id tx) (height s) (ch_deadline_height c)), s)
       else
       try_with (case ch_target_node c of
                   Some expected \<Rightarrow>
                     if expected \<noteq> rt_responder tx
                     then Inl (InvalidChallengeResponder (rt_challenge_id tx) expected (rt_responder tx))
                     else Inr ()
                 | None \<Rightarrow> Inl (MissingChallengeTarget (rt_challenge_id tx))) s (\<lambda>_.
         (Inr (ChallengeResponded (rt_challenge_id tx) (rt_responder tx)),
          on_store (insert_challenge_response (rt_challenge_id tx)
              \<lparr>cr_challenge_id = rt_challenge_id tx, cr_responder = rt_responder tx,
               cr_response_payload_cid = rt_response_payload_cid tx,
               cr_response_hash = rt_response_hash tx, cr_responded_at_height = height s\<rparr>)
            (on_store (insert_open_challenge (rt_challenge_id tx) (c\<lparr>ch_state := ChallengeRespondedState\<rparr>))
              (on_store (snd \<circ> remove_open_challenge (rt_challenge_id tx)) s))))))"

subsection \<open>Parameter updates\<close>

definition schedule_protocol_params_update :: "epoch_id \<Rightarrow> protocol_params \<Rightarrow> unit transition" where
  "schedule_protocol_params_update effective_epoch p s =
     try_with (map_sum InvalidProtocolParams id (validate p)) s (\<lambda>_.
     if effective_epoch \<le> current_epoch s
     then (Inl (ParamsUpdateMustTargetFutureEpoch (current_epoch s) effective_epoch), s)
     else (Inr (), on_store (insert_scheduled_protocol_params effective_epoch p) s))"

text \<open>The loop over the proposals in \<open>activate_scheduled_protocol_params\<close>.\<close>

fun activate_proposals :: "governance_proposal list \<Rightarrow> protocol_state \<Rightarrow> protocol_state" where
  "activate_proposals [] s = s"
| "activate_proposals (p # ps) s =
     activate_proposals ps
       (if gp_state p = ProposalScheduled \<and> gp_effective_epoch p = current_epoch s
        then (case params_update_proposal (store s) (gp_proposal_id p) of
                None \<Rightarrow> s
              | Some rec \<Rightarrow> on_store (write_params_update_proposal (gp_proposal_id p)
                                 (rec\<lparr>gp_state := ProposalActivated\<rparr>)) s)
        else s)"

definition activate_scheduled_protocol_params :: "protocol_state \<Rightarrow> protocol_state" where
  "activate_scheduled_protocol_params s =
     (let (taken, st) = take_scheduled_protocol_params (current_epoch s) (store s);
          s1 = s\<lparr>store := st\<rparr> in
      case taken of
        None \<Rightarrow> s1
      | Some p \<Rightarrow> activate_proposals (params_update_proposals_iter (store s1)) (s1\<lparr>params := p\<rparr>))"

text \<open>The loop of \<open>expire_stale_params_update_proposals\<close>.\<close>

fun expire_proposals :: "governance_proposal list \<Rightarrow> unit transition" where
  "expire_proposals [] s = (Inr (), s)"
| "expire_proposals (p # ps) s =
     (if gp_state p \<noteq> ProposalPending \<or> gp_effective_epoch p > current_epoch s
      then expire_proposals ps s
      else
      try_with (ok_or (account (store s) (gp_proposer p)) (UnknownAccount (gp_proposer p))) s (\<lambda>proposer.
      try_with (burn_locked_bond proposer (gp_bond_amount p)) s (\<lambda>proposer'.
        let s1 = on_store (write_account (gp_proposer p) proposer') s in
        try_with (ok_or (params_update_proposal (store s1) (gp_proposal_id p))
            (ParamsUpdateProposalNotFound (gp_proposal_id p))) s1 (\<lambda>rec.
          expire_proposals ps
            (on_store (write_params_update_proposal (gp_proposal_id p)
              (rec\<lparr>gp_state := ProposalExpired\<rparr>)) s1)))))"

definition expire_stale_params_update_proposals :: "unit transition" where
  "expire_stale_params_update_proposals s =
     expire_proposals (params_update_proposals_iter (store s)) s"

definition finalize_epoch :: "epoch_id \<Rightarrow> transition_effect transition" where
  "finalize_epoch epoch s =
     (if is_epoch_finalized (store s) epoch then (Inl (EpochAlreadyFinalized epoch), s)
      else
      try_with (ok_or (epoch_commit (store s) epoch) (EpochCommitNotFound epoch)) s (\<lambda>commit.
        let deadline_height = ec_challenge_deadline_height commit in
        if height s \<le> deadline_height
        then (Inl (ChallengeWindowNotElapsed (height s) deadline_height), s)
        else if has_open_challenges_for_epoch (store s) epoch
        then (Inl (ChallengeStillOpen epoch), s)
        else
          let s1 = on_store (mark_epoch_finalized epoch) s in
          if current_epoch s1 \<le> epoch
          then try_then
            (expire_stale_params_update_proposals
              (activate_scheduled_protocol_params (s1\<lparr>current_epoch := epoch + 1\<rparr>)))
            (\<lambda>_ s2. (Inr (EpochFinalized epoch), s2))
          else (Inr (EpochFinalized epoch), s1)))"

subsection \<open>Rewards and funds\<close>

definition apply_claim_reward :: "crypto_env \<Rightarrow> claim_reward_tx \<Rightarrow> transition_effect transition" where
  "apply_claim_reward env tx s =
     try_with (ensure_signature env (ct_pubkey tx) (ct_claimer tx)
         (signing_payload (encode_tx env) (ClaimReward tx)) (ct_signature tx)) s (\<lambda>_.
     if \<not> is_epoch_finalized (store s) (ct_epoch_id tx)
     then (Inl (EpochNotFinalized (ct_epoch_id tx)), s)
     else
       let key = (ct_epoch_id tx, ct_node_id tx) in
       if is_reward_claimed (store s) key then (Inl (RewardAlreadyClaimed key), s)
       else
       try_with (ok_or (reward_record_of (store s) key) (RewardNotFound key)) s (\<lambda>reward.
       try_with (ok_or (node (store s) (ct_node_id tx)) (UnknownNode (ct_node_id tx))) s (\<lambda>n.
         let reward_address = nr_reward_address n in
         if reward_address \<noteq> ct_claimer tx
         then (Inl (InvalidRewardClaimer reward_address (ct_claimer tx)), s)
         else if rw_net_reward reward \<noteq> ct_amount tx
         then (Inl (ClaimAmountMismatch (rw_net_reward reward) (ct_amount tx)), s)
         else
         try_with (ok_or (account (store s) (ct_claimer tx)) (UnknownAccount (ct_claimer tx))) s (\<lambda>a.
           (Inr (RewardClaimed (ct_epoch_id tx) (ct_node_id tx) (ct_claimer tx) (ct_amount tx)),
            on_store (mark_reward_claimed key)
              (on_store (write_account (ct_claimer tx) (a\<lparr>acc_balance := acc_balance a + ct_amount tx\<rparr>)) s))))))"

definition apply_transfer :: "crypto_env \<Rightarrow> transfer_tx \<Rightarrow> transition_effect transition" where
  "apply_transfer env tx s =
     try_with (ensure_signature env (tt_pubkey tx) (tt_from tx)
         (signing_payload (encode_tx env) (Transfer tx)) (tt_signature tx)) s (\<lambda>_.
     try_with (ok_or (account (store s) (tt_from tx)) (UnknownAccount (tt_from tx))) s (\<lambda>sender.
     try_with (ensure_nonce (acc_address sender) (acc_nonce sender) (tt_nonce tx)) s (\<lambda>_.
       let total = saturating_add (tt_amount tx) (tt_fee tx) in
       if acc_balance sender < total
       then (Inl (InsufficientBalance (acc_address sender) total (acc_balance sender)), s)
       else
         let s1 = on_store (write_account (tt_from tx)
                    (sender\<lparr>acc_balance := acc_balance sender - total, acc_nonce := acc_nonce sender + 1\<rparr>)) s in
         try_with (ok_or (account (store s1) (tt_to tx)) (UnknownAccount (tt_to tx))) s1 (\<lambda>recipient.
           (Inr (TransferApplied (tt_from tx) (tt_to tx) (tt_amount tx) (tt_fee tx)),
            on_store (write_account (tt_to tx)
              (recipient\<lparr>acc_balance := acc_balance recipient + tt_amount tx\<rparr>)) s1)))))"

definition apply_stake :: "crypto_env \<Rightarrow> stake_tx \<Rightarrow> transition_effect transition" where
  "apply_stake env tx s =
     try_with (ensure_signature env (st_pubkey tx) (st_delegator tx)
         (signing_payload (encode_tx env) (Stake tx)) (st_signature tx)) s (\<lambda>_.
     try_with (ensure_positive_amount (st_amount tx)) s (\<lambda>_.
     try_with (require_active_node s (st_operator tx)) s (\<lambda>_.
     try_with (ok_or (account (store s) (st_delegator tx)) (UnknownAccount (st_delegator tx))) s (\<lambda>delegator.
     try_with (ensure_nonce (acc_address delegator) (acc_nonce delegator) (st_nonce tx)) s (\<lambda>_.
       if acc_balance delegator < st_amount tx
       then (Inl (InsufficientBalance (acc_address delegator) (st_amount tx) (acc_balance delegator)), s)
       else
         let s1 = on_store (write_account (st_delegator tx)
                    (delegator\<lparr>acc_balance := acc_balance delegator - st_amount tx,
                               acc_staked := acc_staked delegator + st_amount tx,
                               acc_nonce := acc_nonce delegator + 1\<rparr>)) s in
         try_with (ok_or (node (store s1) (st_operator tx)) (UnknownNode (st_operator tx))) s1 (\<lambda>operator.
           let s2 = on_store (write_node (st_operator tx)
                      (operator\<lparr>nr_bond := nr_bond operator + st_amount tx\<rparr>)) s1;
               key = (st_delegator tx, st_operator tx);
               next_amount = (case delegation (store s2) key of None \<Rightarrow> 0 | Some d \<Rightarrow> dl_amount d) + st_amount tx in
           (Inr (StakeApplied (st_delegator tx) (st_operator tx) (st_amount tx)),
            on_store (insert_delegation key
              \<lparr>dl_delegator = st_delegator tx, dl_operator = st_operator tx, dl_amount = next_amount\<rparr>) s2)))))))"

definition apply_unbond :: "crypto_env \<Rightarrow> unbond_tx \<Rightarrow> transition_effect transition" where
  "apply_unbond env tx s =
     try_with (ensure_signature env (ut_pubkey tx) (ut_delegator tx)
         (signing_payload (encode_tx env) (Unbond tx)) (ut_signature tx)) s (\<lambda>_.
     try_with (ensure_positive_amount (ut_amount tx)) s (\<lambda>_.
     let key = (ut_delegator tx, ut_operator tx) in
     try_with (ok_or (delegation (store s) key) (DelegationNotFound key)) s (\<lambda>existing.
     if dl_amount existing < ut_amount tx
     then (Inl (InsufficientDelegation key (ut_amount tx) (dl_amount existing)), s)
     else
     try_with (ok_or (account (store s) (ut_delegator tx)) (UnknownAccount (ut_delegator tx))) s (\<lambda>delegator.
     try_with (ensure_nonce (acc_address delegator) (acc_nonce delegator) (ut_nonce tx)) s (\<lambda>_.
       if acc_staked delegator < ut_amount tx
       then (Inl (InsufficientBalance (acc_address delegator) (ut_amount tx) (acc_staked delegator)), s)
       else
         let s1 = on_store (write_account (ut_delegator tx)
                    (delegator\<lparr>acc_staked := acc_staked delegator - ut_amount tx,
                               acc_locked := acc_locked delegator + ut_amount tx,
                               acc_nonce := acc_nonce delegator + 1\<rparr>)) s in
         try_with (ok_or (node (store s1) (ut_operator tx)) (UnknownNode (ut_operator tx))) s1 (\<lambda>operator.
         try_with (ensure_bond (nr_node_id operator) (nr_bond operator) (ut_amount tx)) s1 (\<lambda>_.
           let s2 = on_store (write_node (ut_operator tx)
                      (operator\<lparr>nr_bond := nr_bond operator - ut_amount tx\<rparr>)) s1;
               remaining = dl_amount existing - ut_amount tx;
               s3 = (if remaining = 0 then on_store (snd \<circ> remove_delegation key) s2
                     else on_store (insert_delegation key
                       \<lparr>dl_delegator = ut_delegator tx, dl_operator = ut_operator tx, dl_amount = remaining\<rparr>) s2);
               unlock_height = height s3 + ucast (unbonding_blocks (params s3)) in
           (Inr (UnbondQueued (ut_delegator tx) (ut_operator tx) (ut_amount tx) unlock_height),
            on_store (queue_unbonding
              \<lparr>ub_delegator = ut_delegator tx, ub_operator = ut_operator tx, ub_amount = ut_amount tx,
               ub_unlock_height = unlock_height\<rparr>) s3))))))))"

text \<open>The loop of \<open>process_mature_unbonds\<close> over the drained requests.\<close>

fun release_matured ::
  "unbonding_record list \<Rightarrow> transition_effect list \<Rightarrow> transition_effect list transition" where
  "release_matured [] effects s = (Inr effects, s)"
| "release_matured (request # rest) effects s =
     try_with (ok_or (account (store s) (ub_delegator request)) (UnknownAccount (ub_delegator request))) s (\<lambda>delegator.
     try_with (unlock_bond_to_balance delegator (ub_amount request) (ub_amount request)) s (\<lambda>delegator'.
       release_matured rest
         (effects @ [UnbondMatured (ub_delegator request) (ub_operator request) (ub_amount request)])
         (on_store (write_account (ub_delegator request) delegator') s)))"

definition process_mature_unbonds :: "transition_effect list transition" where
  "process_mature_unbonds s =
     (let (matured, st) = drain_mature_unbondings (height s) (store s)
      in release_matured matured [] (s\<lparr>store := st\<rparr>))"

subsection \<open>Governance\<close>

record vote_tally =
  tally_yes :: amount
  tally_no :: amount
  tally_abstain :: amount
  tally_total_votes :: u32

fun tally_vote :: "vote_tally \<Rightarrow> governance_vote_record \<Rightarrow> vote_tally" where
  "tally_vote t v =
     (let t1 = t\<lparr>tally_total_votes := tally_total_votes t + 1\<rparr> in
      case gv_choice v of
        VoteYes \<Rightarrow> t1\<lparr>tally_yes := tally_yes t1 + gv_voting_power v\<rparr>
      | VoteNo \<Rightarrow> t1\<lparr>tally_no := tally_no t1 + gv_voting_power v\<rparr>
      | VoteAbstain \<Rightarrow> t1\<lparr>tally_abstain := tally_abstain t1 + gv_voting_power v\<rparr>)"

definition tally_votes :: "governance_vote_record list \<Rightarrow> vote_tally" where
  "tally_votes vs =
     foldl tally_vote \<lparr>tally_yes = 0, tally_no = 0, tally_abstain = 0, tally_total_votes = 0\<rparr> vs"

definition total_voting_power :: "in_memory_store \<Rightarrow> amount" where
  "total_voting_power st =
     sum_list (map (\<lambda>a. acc_balance a + acc_staked a + acc_locked a) (accounts_iter st))"

definition required_quorum_bps :: "governance_params \<Rightarrow> governance_proposal_kind \<Rightarrow> u16" where
  "required_quorum_bps g kind =
     (case kind of FastParams \<Rightarrow> params_update_quorum_bps g | SlowParams \<Rightarrow> slow_params_update_quorum_bps g)"

definition required_approval_bps :: "governance_params \<Rightarrow> governance_proposal_kind \<Rightarrow> u16" where
  "required_approval_bps g kind =
     (case kind of FastParams \<Rightarrow> params_update_approval_bps g | SlowParams \<Rightarrow> slow_params_update_approval_bps g)"

text \<open>
  The checks of \<open>try_schedule_params_update_after_vote\<close> that return \<open>Ok(())\<close> early: \<open>True\<close> when the
  code goes on to schedule the proposal.
\<close>

definition proposal_passes :: "protocol_state \<Rightarrow> hash32 \<Rightarrow> governance_proposal \<Rightarrow> bool" where
  "proposal_passes s pid proposal =
     (let t = tally_votes (vote_records_for_proposal (store s) pid) in
      if tally_total_votes t = 0 then False
      else
        let participating_power = tally_yes t + tally_no t + tally_abstain t;
            power = total_voting_power (store s) in
        if power = 0 then False
        else
          let quorum_bps = saturating_mul participating_power 10000 div power in
          if quorum_bps < ucast (required_quorum_bps (pp_governance (params s)) (gp_kind proposal)) then False
          else
            let decisive_power = tally_yes t + tally_no t in
            if decisive_power = 0 then False
            else
              let approval_bps = saturating_mul (tally_yes t) 10000 div decisive_power in
              \<not> approval_bps < ucast (required_approval_bps (pp_governance (params s)) (gp_kind proposal)))"

definition try_schedule_params_update_after_vote :: "hash32 \<Rightarrow> unit transition" where
  "try_schedule_params_update_after_vote pid s =
     (case params_update_proposal (store s) pid of
        None \<Rightarrow> (Inr (), s)
      | Some proposal \<Rightarrow>
          if gp_state proposal \<noteq> ProposalPending then (Inr (), s)
          else if \<not> proposal_passes s pid proposal then (Inr (), s)
          else
          try_then (schedule_protocol_params_update (gp_effective_epoch proposal) (gp_params proposal) s) (\<lambda>_ s1.
          try_with (ok_or (account (store s1) (gp_proposer proposal)) (UnknownAccount (gp_proposer proposal))) s1 (\<lambda>proposer.
          try_with (unlock_bond_to_balance proposer (gp_bond_amount proposal) (gp_bond_amount proposal)) s1 (\<lambda>proposer'.
            let s2 = on_store (write_account (gp_proposer proposal) proposer') s1 in
            try_with (ok_or (params_update_proposal (store s2) pid) (ParamsUpdateProposalNotFound pid)) s2 (\<lambda>rec.
              (Inr (), on_store (write_params_update_proposal pid (rec\<lparr>gp_state := ProposalScheduled\<rparr>)) s2))))))"

definition apply_vote :: "crypto_env \<Rightarrow> vote_tx \<Rightarrow> transition_effect transition" where
  "apply_vote env tx s =
     try_with (ensure_signature env (vt_pubkey tx) (vt_voter tx)
         (signing_payload (encode_tx env) (Vote tx)) (vt_signature tx)) s (\<lambda>_.
     try_with (ensure_positive_amount (vt_voting_power tx)) s (\<lambda>_.
     let key = (vt_proposal_id tx, vt_voter tx) in
     if vote_record (store s) key \<noteq> None then (Inl (DuplicateVote key), s)
     else
     try_with (ok_or (account (store s) (vt_voter tx)) (UnknownAccount (vt_voter tx))) s (\<lambda>voter.
     try_with (ensure_nonce (acc_address voter) (acc_nonce voter) (vt_nonce tx)) s (\<lambda>_.
       let available = acc_balance voter + acc_staked voter + acc_locked voter in
       if vt_voting_power tx > available
       then (Inl (InsufficientVotingPower (acc_address voter) (vt_voting_power tx) available), s)
       else
         let s1 = on_store (write_account (vt_voter tx) (voter\<lparr>acc_nonce := acc_nonce voter + 1\<rparr>)) s;
             s2 = on_store (insert_vote_record key
                    \<lparr>gv_proposal_id = vt_proposal_id tx, gv_voter = vt_voter tx, gv_choice = vt_choice tx,
                     gv_voting_power = vt_voting_power tx, gv_recorded_height = height s1\<rparr>) s1 in
         try_then (try_schedule_params_update_after_vote (vt_proposal_id tx) s2) (\<lambda>_ s3.
           (Inr (VoteRecorded (vt_proposal_id tx) (vt_voter tx) (vt_voting_power tx)), s3))))))"

definition required_bond :: "governance_params \<Rightarrow> governance_proposal_kind \<Rightarrow> amount" where
  "required_bond g kind =
     (case kind of FastParams \<Rightarrow> params_update_bond g | SlowParams \<Rightarrow> slow_params_update_bond g)"

definition apply_propose_protocol_params_update :: "crypto_env \<Rightarrow> propose_params_tx \<Rightarrow> transition_effect transition" where
  "apply_propose_protocol_params_update env tx s =
     try_with (ensure_signature env (pt_pubkey tx) (pt_proposer tx)
         (signing_payload (encode_tx env) (ProposeProtocolParamsUpdate tx)) (pt_signature tx)) s (\<lambda>_.
     if params_update_proposal (store s) (pt_proposal_id tx) \<noteq> None
     then (Inl (DuplicateParamsUpdateProposal (pt_proposal_id tx)), s)
     else
     try_with (ok_or (account (store s) (pt_proposer tx)) (UnknownAccount (pt_proposer tx))) s (\<lambda>proposer.
     try_with (ensure_nonce (acc_address proposer) (acc_nonce proposer) (pt_nonce tx)) s (\<lambda>_.
       let kind = classify_protocol_params_update (params s) (pt_params tx);
           bond = required_bond (pp_governance (params s)) kind in
       try_with (lock_bond proposer bond) s (\<lambda>proposer'.
         let s1 = on_store (write_account (pt_proposer tx) (proposer'\<lparr>acc_nonce := acc_nonce proposer' + 1\<rparr>)) s in
         try_with (map_sum ParamsSerialization id (encode_params env (pt_params tx))) s1 (\<lambda>encoded.
           (Inr (ProtocolParamsUpdateProposed (pt_proposal_id tx) (pt_proposer tx) (pt_effective_epoch tx)),
            on_store (insert_params_update_proposal (pt_proposal_id tx)
              \<lparr>gp_proposal_id = pt_proposal_id tx, gp_proposer = pt_proposer tx, gp_kind = kind,
               gp_effective_epoch = pt_effective_epoch tx, gp_submitted_height = height s1,
               gp_bond_amount = bond, gp_params_hash = stable_hash32 encoded, gp_params = pt_params tx,
               gp_state = ProposalPending\<rparr>) s1))))))"

subsection \<open>Administrative writes\<close>

definition upsert_account :: "account_state \<Rightarrow> protocol_state \<Rightarrow> protocol_state" where
  "upsert_account a s = on_store (insert_account a) s"

definition upsert_node :: "node_registry \<Rightarrow> protocol_state \<Rightarrow> protocol_state" where
  "upsert_node n s = on_store (insert_node n) s"

definition upsert_reward_record :: "reward_record \<Rightarrow> protocol_state \<Rightarrow> protocol_state" where
  "upsert_reward_record r s = on_store (insert_reward_record (rw_epoch_id r, rw_node_id r) r) s"

end
