(* ===== verification/Executor.thy ===== *)
theory Executor
  imports Transitions
begin

text \<open>
  The block executor (\<open>src/src/executor.rs\<close>): a block advances the height, releases the matured
  unbonding requests and applies its transactions in order. A failing transaction stops the
  block; the writes of the transactions before it stay in the state the caller passed in.
\<close>

record block =
  blk_height :: u64
  blk_transactions :: "transaction list"

datatype block_execution_error =
    HeightRegression u64 u64
  | UnsupportedTransaction string
  | Transition transition_error

text \<open>The \<open>match\<close> on the transaction in the body of the loop.\<close>

fun apply_transaction :: "crypto_env \<Rightarrow> transaction \<Rightarrow> transition_effect transition" where
  "apply_transaction env (Transfer tx) s = apply_transfer env tx s"
| "apply_transaction env (Stake tx) s = apply_stake env tx s"
| "apply_transaction env (Unbond tx) s = apply_unbond env tx s"
| "apply_transaction env (SubmitBatch tx) s = apply_submit_batch env tx s"
| "apply_transaction env (CommitEpoch tx) s = apply_commit_epoch env tx s"
| "apply_transaction env (OpenChallenge tx) s = apply_open_challenge env tx s"
| "apply_transaction env (ChallengeResponse tx) s = apply_challenge_response env tx s"
| "apply_transaction env (ClaimReward tx) s = apply_claim_reward env tx s"
| "apply_transaction env (Vote tx) s = apply_vote env tx s"
| "apply_transaction env (ProposeProtocolParamsUpdate tx) s = apply_propose_protocol_params_update env tx s"

fun execute_transactions ::
  "crypto_env \<Rightarrow> transaction list \<Rightarrow> transition_effect list \<Rightarrow> transition_effect list transition" where
  "execute_transactions env [] effects s = (Inr effects, s)"
| "execute_transactions env (tx # txs) effects s =
     try_then (apply_transaction env tx s) (\<lambda>effect s1.
       execute_transactions env txs (effects @ [effect]) s1)"

definition from_transition_error ::
  "(transition_error, 'a, protocol_state) outcome \<Rightarrow> (block_execution_error, 'a, protocol_state) outcome" where
  "from_transition_error = map_prod (map_sum Transition id) id"

definition execute_block ::
  "crypto_env \<Rightarrow> block \<Rightarrow> protocol_state
    \<Rightarrow> (block_execution_error, transition_effect list, protocol_state) outcome" where
  "execute_block env blk s =
     (if blk_height blk \<le> height s then (Inl (HeightRegression (height s) (blk_height blk)), s)
      else
        from_transition_error
          (try_then (process_mature_unbonds (s\<lparr>height := blk_height blk\<rparr>)) (\<lambda>effects s1.
             execute_transactions env (blk_transactions blk) effects s1)))"

end
