(* ===== verification/Transition_Rules.thy ===== *)
theory Transition_Rules
  imports Executor
begin

text \<open>
  One rule per transition, in the style of an inversion rule: to show that a property \<open>Q\<close> of the
  outcome holds, it is enough to show it for every way in which the method can return. Each
  premise is one exit of the Rust method with the conditions under which it is taken and the
  state it leaves; every early return that leaves the state alone is the one premise
  \<open>Q (Inl e, s)\<close>. The invariants of the later theories are proved through these rules and never
  unfold a transition again.
\<close>

subsection \<open>Guards and helpers\<close>

lemma ensure_signature_Inr [simp]:
  "ensure_signature env pk signer msg sig = Inr u \<longleftrightarrow>
     stable_hash32 (to_bytes32 pk) = signer \<and> verify_signature env pk msg sig"
  by (auto simp: ensure_signature_def)

lemma ensure_Inr [simp]:
  "ensure_epoch_not_stale epoch cur = Inr u \<longleftrightarrow> cur \<le> epoch"
  "ensure_non_empty_payload cid = Inr u \<longleftrightarrow> cid \<noteq> []"
  "ensure_positive_amount a = Inr u \<longleftrightarrow> 0 < a"
  "ensure_nonce addr n n' = Inr u \<longleftrightarrow> n' = n"
  "ensure_bond nid b r = Inr u \<longleftrightarrow> r \<le> b"
  by (auto simp: ensure_epoch_not_stale_def ensure_non_empty_payload_def ensure_positive_amount_def
      ensure_nonce_def ensure_bond_def word_gt_0 not_less)

lemma ensure_Inl [simp]:
  "ensure_nonce addr n n' = Inl e \<longleftrightarrow> n' \<noteq> n \<and> e = NonceMismatch addr n n'"
  "ensure_bond nid b r = Inl e \<longleftrightarrow> b < r \<and> e = InsufficientBond nid r b"
  by (auto simp: ensure_nonce_def ensure_bond_def)

lemma on_store_simps [simp]:
  "store (on_store f s) = f (store s)"
  "height (on_store f s) = height s"
  "current_epoch (on_store f s) = current_epoch s"
  "params (on_store f s) = params s"
  by (simp_all add: on_store_def)

lemma try_with_intro:
  "(\<And>e. r = Inl e \<Longrightarrow> Q (Inl e, s)) \<Longrightarrow> (\<And>x. r = Inr x \<Longrightarrow> Q (k x)) \<Longrightarrow> Q (try_with r s k)"
  by (cases r) simp_all

lemma try_then_try_with: "try_then (try_with r s k) k' = try_with r s (\<lambda>x. try_then (k x) k')"
  by (cases r) simp_all

lemma try_then_if: "try_then (if c then x else y) k = (if c then try_then x k else try_then y k)"
  by simp

lemma if_intro: "(c \<Longrightarrow> Q x) \<Longrightarrow> (\<not> c \<Longrightarrow> Q y) \<Longrightarrow> Q (if c then x else y)"
  by simp

lemma bond_Inr [simp]:
  "lock_bond x v = Inr y \<longleftrightarrow> v \<le> acc_balance x \<and>
     y = x\<lparr>acc_balance := acc_balance x - v, acc_locked := acc_locked x + v\<rparr>"
  "unlock_bond_to_balance x v c = Inr y \<longleftrightarrow> v \<le> acc_locked x \<and>
     y = x\<lparr>acc_locked := acc_locked x - v, acc_balance := acc_balance x + c\<rparr>"
  "burn_locked_bond x v = Inr y \<longleftrightarrow> v \<le> acc_locked x \<and> y = x\<lparr>acc_locked := acc_locked x - v\<rparr>"
  by (auto simp: lock_bond_def unlock_bond_to_balance_def burn_locked_bond_def not_less)

lemma map_sum_check_iff:
  "map_sum id (\<lambda>_. ()) r = Inr u \<longleftrightarrow> (\<exists>x. r = Inr x)"
  "map_sum id (\<lambda>_. ()) r = Inl e \<longleftrightarrow> r = Inl e"
  by (cases r; simp)+

lemma require_active_node_Inr [simp]:
  "require_active_node s nid = Inr n \<longleftrightarrow> node (store s) nid = Some n \<and> nr_status n = NodeActive"
  by (auto simp: require_active_node_def split: option.splits)

lemma require_capability_Inr [simp]:
  "require_active_node_with_capability s nid cap = Inr n \<longleftrightarrow>
     node (store s) nid = Some n \<and> nr_status n = NodeActive \<and> cap \<in> set (nr_enabled_capabilities n)"
  by (auto simp: require_active_node_with_capability_def require_active_node_def split: option.splits)

subsection \<open>Transactions\<close>

lemma apply_transfer_rule:
  assumes "\<And>e. Q (Inl e, s)"
    and "\<And>sender s1. \<lbrakk>stable_hash32 (to_bytes32 (tt_pubkey tx)) = tt_from tx;
        verify_signature env (tt_pubkey tx) (signing_payload (encode_tx env) (Transfer tx)) (tt_signature tx);
        account (store s) (tt_from tx) = Some sender;
        saturating_add (tt_amount tx) (tt_fee tx) \<le> acc_balance sender;
        s1 = on_store (write_account (tt_from tx)
          (sender\<lparr>acc_balance := acc_balance sender - saturating_add (tt_amount tx) (tt_fee tx),
                  acc_nonce := acc_nonce sender + 1\<rparr>)) s;
        account (store s1) (tt_to tx) = None\<rbrakk> \<Longrightarrow> Q (Inl (UnknownAccount (tt_to tx)), s1)"
    and "\<And>sender s1 recipient. \<lbrakk>stable_hash32 (to_bytes32 (tt_pubkey tx)) = tt_from tx;
        verify_signature env (tt_pubkey tx) (signing_payload (encode_tx env) (Transfer tx)) (tt_signature tx);
        account (store s) (tt_from tx) = Some sender; tt_nonce tx = acc_nonce sender;
        saturating_add (tt_amount tx) (tt_fee tx) \<le> acc_balance sender;
        s1 = on_store (write_account (tt_from tx)
          (sender\<lparr>acc_balance := acc_balance sender - saturating_add (tt_amount tx) (tt_fee tx),
                  acc_nonce := acc_nonce sender + 1\<rparr>)) s;
        account (store s1) (tt_to tx) = Some recipient\<rbrakk> \<Longrightarrow>
        Q (Inr (TransferApplied (tt_from tx) (tt_to tx) (tt_amount tx) (tt_fee tx)),
           on_store (write_account (tt_to tx)
             (recipient\<lparr>acc_balance := acc_balance recipient + tt_amount tx\<rparr>)) s1)"
  shows "Q (apply_transfer env tx s)"
  unfolding apply_transfer_def Let_def
  by (intro try_with_intro [of _ Q] if_intro [of _ Q] assms(1)) (auto simp: ok_or_Inl_iff not_less intro!: assms)

lemma apply_stake_rule:
  assumes "\<And>e. Q (Inl e, s)"
    and "\<And>delegator operator s2. \<lbrakk>stable_hash32 (to_bytes32 (st_pubkey tx)) = st_delegator tx;
        verify_signature env (st_pubkey tx) (signing_payload (encode_tx env) (Stake tx)) (st_signature tx);
        0 < st_amount tx;
        node (store s) (st_operator tx) = Some operator; nr_status operator = NodeActive;
        account (store s) (st_delegator tx) = Some delegator; st_nonce tx = acc_nonce delegator;
        st_amount tx \<le> acc_balance delegator;
        s2 = on_store (write_node (st_operator tx) (operator\<lparr>nr_bond := nr_bond operator + st_amount tx\<rparr>))
          (on_store (write_account (st_delegator tx)
            (delegator\<lparr>acc_balance := acc_balance delegator - st_amount tx,
                       acc_staked := acc_staked delegator + st_amount tx,
                       acc_nonce := acc_nonce delegator + 1\<rparr>)) s)\<rbrakk> \<Longrightarrow>
        Q (Inr (StakeApplied (st_delegator tx) (st_operator tx) (st_amount tx)),
           on_store (insert_delegation (st_delegator tx, st_operator tx)
             \<lparr>dl_delegator = st_delegator tx, dl_operator = st_operator tx,
              dl_amount = (case delegation (store s) (st_delegator tx, st_operator tx) of
                             None \<Rightarrow> 0 | Some d \<Rightarrow> dl_amount d) + st_amount tx\<rparr>) s2)"
  shows "Q (apply_stake env tx s)"
proof -
  have frame: "node (write_account a x st) = node st" "delegation (write_node b y st) = delegation st"
    "delegation (write_account a x st) = delegation st" for a x b y st
    by (auto simp: node_def delegation_def write_account_def write_node_def fun_eq_iff)
  show ?thesis
    unfolding apply_stake_def Let_def
    by (intro try_with_intro [of _ Q] if_intro [of _ Q] assms(1)) (auto simp: ok_or_Inl_iff not_less frame intro!: assms)
qed

lemma apply_unbond_rule:
  assumes "\<And>e. Q (Inl e, s)"
    and "\<And>e delegator. \<lbrakk>stable_hash32 (to_bytes32 (ut_pubkey tx)) = ut_delegator tx;
        verify_signature env (ut_pubkey tx) (signing_payload (encode_tx env) (Unbond tx)) (ut_signature tx);
        account (store s) (ut_delegator tx) = Some delegator;
        ut_amount tx \<le> acc_staked delegator\<rbrakk> \<Longrightarrow>
        Q (Inl e, on_store (write_account (ut_delegator tx)
            (delegator\<lparr>acc_staked := acc_staked delegator - ut_amount tx,
                       acc_locked := acc_locked delegator + ut_amount tx,
                       acc_nonce := acc_nonce delegator + 1\<rparr>)) s)"
    and "\<And>delegator operator existing s2 s3. \<lbrakk>stable_hash32 (to_bytes32 (ut_pubkey tx)) = ut_delegator tx;
        verify_signature env (ut_pubkey tx) (signing_payload (encode_tx env) (Unbond tx)) (ut_signature tx);
        0 < ut_amount tx;
        delegation (store s) (ut_delegator tx, ut_operator tx) = Some existing;
        ut_amount tx \<le> dl_amount existing;
        account (store s) (ut_delegator tx) = Some delegator; ut_nonce tx = acc_nonce delegator;
        ut_amount tx \<le> acc_staked delegator;
        node (store s) (ut_operator tx) = Some operator; ut_amount tx \<le> nr_bond operator;
        s2 = on_store (write_node (ut_operator tx) (operator\<lparr>nr_bond := nr_bond operator - ut_amount tx\<rparr>))
          (on_store (write_account (ut_delegator tx)
            (delegator\<lparr>acc_staked := acc_staked delegator - ut_amount tx,
                       acc_locked := acc_locked delegator + ut_amount tx,
                       acc_nonce := acc_nonce delegator + 1\<rparr>)) s);
        s3 = (if dl_amount existing - ut_amount tx = 0
              then on_store (snd \<circ> remove_delegation (ut_delegator tx, ut_operator tx)) s2
              else on_store (insert_delegation (ut_delegator tx, ut_operator tx)
                \<lparr>dl_delegator = ut_delegator tx, dl_operator = ut_operator tx,
                 dl_amount = dl_amount existing - ut_amount tx\<rparr>) s2)\<rbrakk> \<Longrightarrow>
        Q (Inr (UnbondQueued (ut_delegator tx) (ut_operator tx) (ut_amount tx)
             (height s + ucast (unbonding_blocks (params s)))),
           on_store (queue_unbonding
             \<lparr>ub_delegator = ut_delegator tx, ub_operator = ut_operator tx, ub_amount = ut_amount tx,
              ub_unlock_height = height s + ucast (unbonding_blocks (params s))\<rparr>) s3)"
  shows "Q (apply_unbond env tx s)"
proof -
  have frame: "node (write_account a x st) = node st" for a x st
    by (auto simp: node_def write_account_def fun_eq_iff)
  show ?thesis
    unfolding apply_unbond_def Let_def
    by (intro try_with_intro [of _ Q] if_intro [of _ Q] assms(1)) (auto simp: ok_or_Inl_iff not_less frame intro!: assms)
qed

lemma apply_claim_reward_rule:
  assumes "\<And>e. Q (Inl e, s)"
    and "\<And>reward n a. \<lbrakk>stable_hash32 (to_bytes32 (ct_pubkey tx)) = ct_claimer tx;
        verify_signature env (ct_pubkey tx) (signing_payload (encode_tx env) (ClaimReward tx)) (ct_signature tx);
        is_epoch_finalized (store s) (ct_epoch_id tx);
        \<not> is_reward_claimed (store s) (ct_epoch_id tx, ct_node_id tx);
        reward_record_of (store s) (ct_epoch_id tx, ct_node_id tx) = Some reward;
        node (store s) (ct_node_id tx) = Some n; nr_reward_address n = ct_claimer tx;
        rw_net_reward reward = ct_amount tx;
        account (store s) (ct_claimer tx) = Some a\<rbrakk> \<Longrightarrow>
        Q (Inr (RewardClaimed (ct_epoch_id tx) (ct_node_id tx) (ct_claimer tx) (ct_amount tx)),
           on_store (mark_reward_claimed (ct_epoch_id tx, ct_node_id tx))
             (on_store (write_account (ct_claimer tx) (a\<lparr>acc_balance := acc_balance a + ct_amount tx\<rparr>)) s))"
  shows "Q (apply_claim_reward env tx s)"
  unfolding apply_claim_reward_def Let_def
  by (intro try_with_intro [of _ Q] if_intro [of _ Q] assms(1)) (auto simp: ok_or_Inl_iff intro!: assms)

lemma apply_submit_batch_rule:
  assumes "\<And>e. Q (Inl e, s)"
    and "\<And>n b. \<lbrakk>b = sb_batch_commit tx; stable_hash32 (to_bytes32 (sb_pubkey tx)) = bc_collector_id b;
        verify_signature env (sb_pubkey tx) (signing_payload (encode_tx env) (SubmitBatch tx)) (sb_signature tx);
        current_epoch s \<le> bc_epoch_id b; bc_payload_cid b \<noteq> []; bc_obs_count b \<noteq> 0;
        bc_slot_start b \<le> bc_slot_end b;
        node (store s) (bc_collector_id b) = Some n; nr_status n = NodeActive;
        Collect \<in> set (nr_enabled_capabilities n);
        batch (store s) (bc_epoch_id b, nr_node_id n, mc_root (bc_batch b)) = None\<rbrakk> \<Longrightarrow>
        Q (Inr (BatchAccepted (bc_epoch_id b, nr_node_id n, mc_root (bc_batch b))),
           on_store (insert_batch (bc_epoch_id b, nr_node_id n, mc_root (bc_batch b))
             (b\<lparr>bc_submitted_at_height := height s\<rparr>)) s)"
  shows "Q (apply_submit_batch env tx s)"
  unfolding apply_submit_batch_def Let_def
  by (intro try_with_intro [of _ Q] if_intro [of _ Q] assms(1)) (auto simp: not_less intro!: assms)

lemma apply_commit_epoch_rule:
  assumes "\<And>e. Q (Inl e, s)"
    and "\<And>proposer c. \<lbrakk>c = ce_epoch_commit tx; stable_hash32 (to_bytes32 (ce_pubkey tx)) = ec_proposer_id c;
        verify_signature env (ce_pubkey tx) (signing_payload (encode_tx env) (CommitEpoch tx)) (ce_signature tx);
        current_epoch s \<le> ec_epoch_id c;
        node (store s) (ec_proposer_id c) = Some proposer; nr_status proposer = NodeActive;
        Propose \<in> set (nr_enabled_capabilities proposer);
        min_propose_bond (params s) \<le> nr_bond proposer;
        epoch_commit (store s) (ec_epoch_id c) = None;
        has_any_batch_for_epoch (store s) (ec_epoch_id c);
        height s < ec_challenge_deadline_height c;
        ec_challenge_deadline_height c - height s \<le> ucast (challenge_window_blocks (params s))\<rbrakk> \<Longrightarrow>
        Q (Inr (EpochCommitted (ec_epoch_id c) (ec_challenge_deadline_height c)),
           on_store (insert_epoch_commit (ec_epoch_id c) (c\<lparr>ec_challenge_open_height := height s\<rparr>)) s)"
  shows "Q (apply_commit_epoch env tx s)"
  unfolding apply_commit_epoch_def Let_def
  by (intro try_with_intro [of _ Q] if_intro [of _ Q] assms(1)) (auto simp: not_less not_le intro!: assms)

lemma apply_open_challenge_rule:
  assumes "\<And>e. Q (Inl e, s)"
    and "\<And>c commit challenger. \<lbrakk>c = oc_challenge tx; stable_hash32 (to_bytes32 (oc_pubkey tx)) = ch_challenger c;
        verify_signature env (oc_pubkey tx) (signing_payload (encode_tx env) (OpenChallenge tx)) (oc_signature tx);
        ch_bond c \<noteq> 0; open_challenge (store s) (ch_challenge_id c) = None;
        epoch_commit (store s) (ch_epoch_id c) = Some commit;
        height s < ch_deadline_height c; ch_deadline_height c \<le> ec_challenge_deadline_height commit;
        \<And>t. ch_target_node c = Some t \<Longrightarrow> \<exists>n. node (store s) t = Some n \<and> nr_status n = NodeActive;
        account (store s) (ch_challenger c) = Some challenger; ch_bond c \<le> acc_balance challenger\<rbrakk> \<Longrightarrow>
        Q (Inr (ChallengeOpened (ch_challenge_id c) (ch_bond c)),
           on_store (insert_open_challenge (ch_challenge_id c) (c\<lparr>ch_opened_at_height := height s\<rparr>))
             (on_store (write_account (ch_challenger c)
               (challenger\<lparr>acc_balance := acc_balance challenger - ch_bond c,
                           acc_locked := acc_locked challenger + ch_bond c\<rparr>)) s))"
  shows "Q (apply_open_challenge env tx s)"
  unfolding apply_open_challenge_def Let_def
  by (intro try_with_intro [of _ Q] if_intro [of _ Q] assms(1)) (auto simp: ok_or_Inl_iff not_less not_le map_sum_check_iff intro!: assms)

lemma apply_challenge_response_rule:
  assumes "\<And>e. Q (Inl e, s)"
    and "\<And>c. \<lbrakk>stable_hash32 (to_bytes32 (rt_pubkey tx)) = rt_responder tx;
        verify_signature env (rt_pubkey tx) (signing_payload (encode_tx env) (ChallengeResponse tx)) (rt_signature tx);
        rt_response_payload_cid tx \<noteq> None \<or> rt_response_hash tx \<noteq> None;
        challenge_response (store s) (rt_challenge_id tx) = None;
        open_challenge (store s) (rt_challenge_id tx) = Some c; height s \<le> ch_deadline_height c;
        ch_target_node c = Some (rt_responder tx)\<rbrakk> \<Longrightarrow>
        Q (Inr (ChallengeResponded (rt_challenge_id tx) (rt_responder tx)),
           on_store (insert_challenge_response (rt_challenge_id tx)
               \<lparr>cr_challenge_id = rt_challenge_id tx, cr_responder = rt_responder tx,
                cr_response_payload_cid = rt_response_payload_cid tx,
                cr_response_hash = rt_response_hash tx, cr_responded_at_height = height s\<rparr>)
             (on_store (insert_open_challenge (rt_challenge_id tx) (c\<lparr>ch_state := ChallengeRespondedState\<rparr>))
               (on_store (snd \<circ> remove_open_challenge (rt_challenge_id tx)) s)))"
  shows "Q (apply_challenge_response env tx s)"
  unfolding apply_challenge_response_def Let_def
  by (intro try_with_intro [of _ Q] if_intro [of _ Q] assms(1)) (auto simp: ok_or_Inl_iff not_less split: option.splits if_splits intro!: assms)

lemma apply_propose_rule:
  assumes "\<And>e. Q (Inl e, s)"
    and "\<And>e proposer bond. \<lbrakk>stable_hash32 (to_bytes32 (pt_pubkey tx)) = pt_proposer tx;
        verify_signature env (pt_pubkey tx) (signing_payload (encode_tx env) (ProposeProtocolParamsUpdate tx)) (pt_signature tx);
        account (store s) (pt_proposer tx) = Some proposer;
        bond = required_bond (pp_governance (params s))
          (classify_protocol_params_update (params s) (pt_params tx));
        bond \<le> acc_balance proposer\<rbrakk> \<Longrightarrow>
        Q (Inl e, on_store (write_account (pt_proposer tx)
             (proposer\<lparr>acc_balance := acc_balance proposer - bond, acc_locked := acc_locked proposer + bond,
                       acc_nonce := acc_nonce proposer + 1\<rparr>)) s)"
    and "\<And>proposer kind bond encoded. \<lbrakk>stable_hash32 (to_bytes32 (pt_pubkey tx)) = pt_proposer tx;
        verify_signature env (pt_pubkey tx) (signing_payload (encode_tx env) (ProposeProtocolParamsUpdate tx)) (pt_signature tx);
        params_update_proposal (store s) (pt_proposal_id tx) = None;
        account (store s) (pt_proposer tx) = Some proposer; pt_nonce tx = acc_nonce proposer;
        kind = classify_protocol_params_update (params s) (pt_params tx);
        bond = required_bond (pp_governance (params s)) kind; bond \<le> acc_balance proposer;
        encode_params env (pt_params tx) = Inr encoded\<rbrakk> \<Longrightarrow>
        Q (Inr (ProtocolParamsUpdateProposed (pt_proposal_id tx) (pt_proposer tx) (pt_effective_epoch tx)),
           on_store (insert_params_update_proposal (pt_proposal_id tx)
             \<lparr>gp_proposal_id = pt_proposal_id tx, gp_proposer = pt_proposer tx, gp_kind = kind,
              gp_effective_epoch = pt_effective_epoch tx, gp_submitted_height = height s,
              gp_bond_amount = bond, gp_params_hash = stable_hash32 encoded, gp_params = pt_params tx,
              gp_state = ProposalPending\<rparr>)
             (on_store (write_account (pt_proposer tx)
               (proposer\<lparr>acc_balance := acc_balance proposer - bond, acc_locked := acc_locked proposer + bond,
                         acc_nonce := acc_nonce proposer + 1\<rparr>)) s))"
  shows "Q (apply_propose_protocol_params_update env tx s)"
proof (cases "encode_params env (pt_params tx)")
  case (Inl e)
  show ?thesis
    unfolding apply_propose_protocol_params_update_def Let_def
    by (intro try_with_intro [of _ Q] if_intro [of _ Q] assms(1)) (auto simp: Inl intro!: assms(1,2))
next
  case (Inr encoded)
  show ?thesis
    unfolding apply_propose_protocol_params_update_def Let_def
    by (intro try_with_intro [of _ Q] if_intro [of _ Q] assms(1)) (auto simp: Inr intro!: assms(3))
qed


subsection \<open>Resolution, parameter updates and votes\<close>

lemma resolve_challenge_rule:
  assumes "\<And>e. Q (Inl e, s1)"
    and "\<And>e c target n. \<lbrakk>open_challenge (store s) cid = Some c; ch_target_node c = Some target;
        node (store s) target = Some n; account (store s) (ch_challenger c) = None
          \<or> (\<exists>a. account (store s) (ch_challenger c) = Some a \<and> acc_locked a < ch_bond c)\<rbrakk> \<Longrightarrow>
        Q (Inl e, on_store (write_node target
            (n\<lparr>nr_bond := nr_bond n - fst (resolution_amounts res),
               nr_reputation := (nr_reputation n)\<lparr>rep_challengeable_faults :=
                 rep_challengeable_faults (nr_reputation n) + 1\<rparr>\<rparr>)) s1)"
    and "\<And>c a. \<lbrakk>res = ResRejected; open_challenge (store s) cid = Some c;
        account (store s) (ch_challenger c) = Some a; ch_bond c \<le> acc_locked a\<rbrakk> \<Longrightarrow>
        Q (Inr (ChallengeResolved (ch_challenge_id c) (ch_kind c) 0 0),
           on_store (insert_challenge_resolution (ch_challenge_id c)
             \<lparr>rs_challenge_id = ch_challenge_id c, rs_kind = ch_kind c, rs_slash_amount = 0,
              rs_challenger_reward = 0, rs_details = DetRejected, rs_resolved_at_height = height s\<rparr>)
           (on_store (insert_resolved_challenge (ch_challenge_id c) (c\<lparr>ch_state := ChallengeRejected\<rparr>))
             (on_store (write_account (ch_challenger c) (a\<lparr>acc_locked := acc_locked a - ch_bond c\<rparr>)) s1)))"
    and "\<And>c slash reward details target n a. \<lbrakk>res \<noteq> ResRejected; open_challenge (store s) cid = Some c;
        resolution_amounts res = (slash, reward); reward \<le> slash;
        resolution_details (ch_challenge_id c) (ch_kind c) res = Inr details;
        ch_target_node c = Some target; node (store s) target = Some n; slash \<le> nr_bond n;
        account (store s) (ch_challenger c) = Some a; ch_bond c \<le> acc_locked a\<rbrakk> \<Longrightarrow>
        Q (Inr (ChallengeResolved (ch_challenge_id c) (ch_kind c) slash reward),
           on_store (insert_challenge_resolution (ch_challenge_id c)
             \<lparr>rs_challenge_id = ch_challenge_id c, rs_kind = ch_kind c, rs_slash_amount = slash,
              rs_challenger_reward = reward, rs_details = details, rs_resolved_at_height = height s\<rparr>)
           (on_store (insert_resolved_challenge (ch_challenge_id c) (c\<lparr>ch_state := ChallengeSucceeded\<rparr>))
             (on_store (write_account (ch_challenger c)
               (a\<lparr>acc_locked := acc_locked a - ch_bond c,
                  acc_balance := acc_balance a + (ch_bond c + reward)\<rparr>))
               (on_store (write_node target
                 (n\<lparr>nr_bond := nr_bond n - slash,
                    nr_reputation := (nr_reputation n)\<lparr>rep_challengeable_faults :=
                      rep_challengeable_faults (nr_reputation n) + 1\<rparr>\<rparr>)) s1))))"
    and s1: "s1 = on_store (snd \<circ> remove_open_challenge cid) s"
  shows "Q (resolve_challenge cid res s)"
proof -
  have frame: "account (snd (remove_open_challenge i st)) = account st"
    "node (snd (remove_open_challenge i st)) = node st"
    "account (write_node t y st) = account st" for i st t y
    by (auto simp: account_def node_def remove_open_challenge_def write_node_def fun_eq_iff)
  have s1': "s\<lparr>store := snd (remove_open_challenge cid (store s))\<rparr> = s1"
    by (simp add: s1 on_store_def)
  have fst_rm: "fst (remove_open_challenge i st) = open_challenge st i" for i st
    by (simp add: remove_open_challenge_def open_challenge_def)
  have s1_simps: "store s1 = snd (remove_open_challenge cid (store s))" "height s1 = height s"
    by (simp_all add: s1)
  show ?thesis
    unfolding resolve_challenge_def resolve_rejected_def resolve_upheld_def Let_def case_prod_beta s1' fst_rm
    by (intro try_with_intro [of _ Q] if_intro [of _ Q] assms(1))
      (auto simp: ok_or_Inl_iff not_less frame s1_simps unlock_bond_to_balance_def split: if_splits
        intro!: assms)
qed

lemma map_sum_Inr_iff: "map_sum f id r = Inr x \<longleftrightarrow> r = Inr x"
  by (cases r) simp_all

lemma schedule_rule:
  assumes "\<And>e. Q (Inl e, s)"
    and "\<lbrakk>validate p = Inr (); current_epoch s < epoch\<rbrakk> \<Longrightarrow>
        Q (Inr (), on_store (insert_scheduled_protocol_params epoch p) s)"
  shows "Q (schedule_protocol_params_update epoch p s)"
  unfolding schedule_protocol_params_update_def
  by (intro try_with_intro [of _ Q] if_intro [of _ Q] assms(1)) (auto simp: map_sum_Inr_iff not_le intro!: assms)

lemma try_schedule_rule:
  assumes "Q (Inr (), s)" and "\<And>e. Q (Inl e, s)"
    and "\<And>e proposal. \<lbrakk>params_update_proposal (store s) pid = Some proposal;
        gp_state proposal = ProposalPending; proposal_passes s pid proposal;
        validate (gp_params proposal) = Inr (); current_epoch s < gp_effective_epoch proposal;
        account (store s) (gp_proposer proposal) = None \<or> (\<exists>a. account (store s) (gp_proposer proposal) = Some a
          \<and> acc_locked a < gp_bond_amount proposal)\<rbrakk> \<Longrightarrow>
        Q (Inl e, on_store (insert_scheduled_protocol_params (gp_effective_epoch proposal) (gp_params proposal)) s)"
    and "\<And>proposal a. \<lbrakk>params_update_proposal (store s) pid = Some proposal;
        gp_state proposal = ProposalPending; proposal_passes s pid proposal;
        validate (gp_params proposal) = Inr (); current_epoch s < gp_effective_epoch proposal;
        account (store s) (gp_proposer proposal) = Some a; gp_bond_amount proposal \<le> acc_locked a\<rbrakk> \<Longrightarrow>
        Q (Inr (), on_store (write_params_update_proposal pid (proposal\<lparr>gp_state := ProposalScheduled\<rparr>))
          (on_store (write_account (gp_proposer proposal)
            (a\<lparr>acc_locked := acc_locked a - gp_bond_amount proposal,
               acc_balance := acc_balance a + gp_bond_amount proposal\<rparr>))
            (on_store (insert_scheduled_protocol_params (gp_effective_epoch proposal) (gp_params proposal)) s)))"
  shows "Q (try_schedule_params_update_after_vote pid s)"
proof (cases "params_update_proposal (store s) pid")
  case None
  then show ?thesis
    by (simp add: try_schedule_params_update_after_vote_def assms(1))
next
  case (Some proposal)
  let ?p = "gp_params proposal" and ?epoch = "gp_effective_epoch proposal"
  let ?s1 = "on_store (insert_scheduled_protocol_params ?epoch ?p) s"
  have frame: "account (insert_scheduled_protocol_params d p st) = account st"
    "params_update_proposal (write_account b x st) = params_update_proposal st"
    "params_update_proposal (insert_scheduled_protocol_params d p st) = params_update_proposal st" for d p b x st
    by (auto simp: account_def params_update_proposal_def write_account_def
        insert_scheduled_protocol_params_def fun_eq_iff)
  show ?thesis
    unfolding try_schedule_params_update_after_vote_def schedule_protocol_params_update_def Some
      option.case Let_def try_then_try_with try_then_if try_then_simps
    by (intro try_with_intro [of _ Q] if_intro [of _ Q] assms(1,2))
      (auto simp: ok_or_Inl_iff not_le frame map_sum_Inr_iff Some unlock_bond_to_balance_def
        intro!: assms(3-) split: if_splits)
qed

lemma apply_vote_rule:
  assumes "\<And>e. Q (Inl e, s)"
    and "\<And>voter s2 r s3. \<lbrakk>stable_hash32 (to_bytes32 (vt_pubkey tx)) = vt_voter tx;
        verify_signature env (vt_pubkey tx) (signing_payload (encode_tx env) (Vote tx)) (vt_signature tx);
        0 < vt_voting_power tx; vote_record (store s) (vt_proposal_id tx, vt_voter tx) = None;
        account (store s) (vt_voter tx) = Some voter; vt_nonce tx = acc_nonce voter;
        vt_voting_power tx \<le> acc_balance voter + acc_staked voter + acc_locked voter;
        s2 = on_store (insert_vote_record (vt_proposal_id tx, vt_voter tx)
               \<lparr>gv_proposal_id = vt_proposal_id tx, gv_voter = vt_voter tx, gv_choice = vt_choice tx,
                gv_voting_power = vt_voting_power tx, gv_recorded_height = height s\<rparr>)
             (on_store (write_account (vt_voter tx) (voter\<lparr>acc_nonce := acc_nonce voter + 1\<rparr>)) s);
        try_schedule_params_update_after_vote (vt_proposal_id tx) s2 = (r, s3)\<rbrakk> \<Longrightarrow>
        Q (map_sum id (\<lambda>_. VoteRecorded (vt_proposal_id tx) (vt_voter tx) (vt_voting_power tx)) r, s3)"
  shows "Q (apply_vote env tx s)"
proof -
  have fin: "try_then (r, t) (\<lambda>_ s3. (Inr v, s3)) = (map_sum id (\<lambda>_. v) r, t)"
    for r :: "transition_error + unit" and t :: protocol_state and v :: transition_effect
    by (cases r) simp_all
  have fin': "Q (try_then (try_schedule_params_update_after_vote pid t) (\<lambda>_ s3. (Inr v, s3)))"
    if "\<And>r s3. try_schedule_params_update_after_vote pid t = (r, s3) \<Longrightarrow> Q (map_sum id (\<lambda>_. v) r, s3)"
    for pid t v
    using that by (cases "try_schedule_params_update_after_vote pid t") (simp add: fin)
  show ?thesis
    unfolding apply_vote_def Let_def
    by (intro try_with_intro [of _ Q] if_intro [of _ Q] assms(1) fin') (auto simp: not_less intro!: assms(2))
qed

end
