(* ===== verification/Ledger.thy ===== *)
theory Ledger
  imports Transition_Rules
begin

text \<open>
  What the accounts hold and how every transaction moves it. The balances, stakes and locked
  amounts of all accounts add up to \<open>total_supply\<close>; rewards that are recorded and not yet
  claimed add up to \<open>outstanding\<close>. A store is \<open>funded\<close> when the two together stay below
  \<open>u128::MAX\<close>, which is what keeps the unchecked additions of the code from wrapping.
  The lemmas of the form \<open>..._accounted\<close> say, for each transaction and for each of its outcomes,
  how the two sums change; they need no other invariant.
\<close>

definition acc_total :: "account_state \<Rightarrow> nat" where
  "acc_total a = unat (acc_balance a) + unat (acc_staked a) + unat (acc_locked a)"

definition total_supply :: "in_memory_store \<Rightarrow> nat" where
  "total_supply st = bt_total acc_total (accounts st)"

definition outstanding :: "in_memory_store \<Rightarrow> nat" where
  "outstanding st =
     (\<Sum>(k, r)\<leftarrow>bt_entries (reward_records st).
        if bs_contains (claimed_rewards st) k then 0 else unat (rw_net_reward r))"

definition funded :: "in_memory_store \<Rightarrow> bool" where
  "funded st \<longleftrightarrow> total_supply st + outstanding st < 2 ^ 128 - 1"

lemmas store_writes =
  write_account_def insert_account_def write_node_def insert_node_def insert_batch_def
  insert_epoch_commit_def insert_open_challenge_def remove_open_challenge_def
  insert_resolved_challenge_def insert_challenge_resolution_def insert_reward_record_def
  mark_reward_claimed_def insert_delegation_def remove_delegation_def queue_unbonding_def
  insert_vote_record_def write_params_update_proposal_def insert_params_update_proposal_def
  insert_challenge_response_def insert_scheduled_protocol_params_def mark_epoch_finalized_def

lemmas store_reads =
  account_def node_def batch_def epoch_commit_def open_challenge_def challenge_resolution_def
  reward_record_of_def is_reward_claimed_def delegation_def vote_record_def params_update_proposal_def
  challenge_response_def scheduled_params_for_def is_epoch_finalized_def

subsection \<open>Frame\<close>

text \<open>How each quantity moves under a write to a table it depends on.\<close>

lemma total_supply_write:
  assumes "account st a = Some x"
  shows "total_supply (write_account a y st) + acc_total x = total_supply st + acc_total y"
  using bt_total_insert [of acc_total a y "accounts st"] assms
  by (simp add: total_supply_def store_writes account_def)

lemma total_supply_ge: "account st a = Some x \<Longrightarrow> acc_total x \<le> total_supply st"
  by (simp add: total_supply_def account_def bt_total_ge)

lemma outstanding_mark:
  assumes "reward_record_of st k = Some r" "\<not> is_reward_claimed st k"
  shows "outstanding (mark_reward_claimed k st) + unat (rw_net_reward r) = outstanding st"
proof -
  let ?f = "\<lambda>c k r. if bs_contains c k then 0 else unat (rw_net_reward r)"
  let ?m = "reward_records st" and ?c = "claimed_rewards st"
  have split: "(\<Sum>(l, v)\<leftarrow>bt_entries ?m. f l v) = f k r + (\<Sum>(l, v)\<leftarrow>bt_entries (bt_remove k ?m). f l v)"
    for f :: "reward_key \<Rightarrow> reward_record \<Rightarrow> nat"
    using bt.total_del [of f k ?m] assms(1) by (simp add: reward_record_of_def)
  have absent: "k \<notin> fst ` set (bt_entries (bt_remove k ?m))"
    using bt.ents_iff [of k _ "bt_remove k ?m"] by force
  have eq: "(\<Sum>(l, v)\<leftarrow>bt_entries (bt_remove k ?m). ?f (bs_insert k ?c) l v)
      = (\<Sum>(l, v)\<leftarrow>bt_entries (bt_remove k ?m). ?f ?c l v)"
    by (rule arg_cong [where f = sum_list], rule map_cong) (use absent in \<open>force simp del: bt_entries_simps\<close>)+
  show ?thesis
    using split [of "?f (bs_insert k ?c)"] split [of "?f ?c"] eq assms(2)
    by (simp add: outstanding_def store_writes is_reward_claimed_def del: bt_entries_simps)
qed


subsection \<open>Value moved by one transition\<close>

fun effect_fee :: "transition_effect \<Rightarrow> nat" where
  "effect_fee (TransferApplied _ _ _ fee) = unat fee"
| "effect_fee _ = 0"

fun effect_minted :: "transition_effect \<Rightarrow> nat" where
  "effect_minted (RewardClaimed _ _ _ amt) = unat amt"
| "effect_minted _ = 0"

definition accounted :: "in_memory_store \<Rightarrow> (transition_error, transition_effect, protocol_state) outcome \<Rightarrow> bool" where
  "accounted st r \<longleftrightarrow> (let st' = store (snd r) in
     case fst r of
       Inl _ \<Rightarrow> total_supply st' \<le> total_supply st \<and> outstanding st' = outstanding st
     | Inr e \<Rightarrow> total_supply st' + effect_fee e = total_supply st + effect_minted e
         \<and> outstanding st' + effect_minted e = outstanding st)"

lemma accounted_simps [simp]:
  "accounted st (Inl e, s) \<longleftrightarrow>
     total_supply (store s) \<le> total_supply st \<and> outstanding (store s) = outstanding st"
  "accounted st (Inr v, s) \<longleftrightarrow>
     total_supply (store s) + effect_fee v = total_supply st + effect_minted v
       \<and> outstanding (store s) + effect_minted v = outstanding st"
  by (simp_all add: accounted_def Let_def)

lemma funded_room:
  assumes "funded st" "account st a = Some x"
  shows "acc_total x + outstanding st < 2 ^ 128 - 1"
  using assms total_supply_ge [of st a x] by (simp add: funded_def)

lemma unat_saturating_add_le:
  fixes a b c :: u128
  assumes "saturating_add a b \<le> c" "unat c < 2 ^ 128 - 1"
  shows "unat (saturating_add a b) = unat a + unat b" "unat a + unat b \<le> unat c"
  using assms by (auto simp: word_le_nat_alt unat_saturating_add min_def split: if_splits)

lemma transfer_accounted: "funded (store s) \<Longrightarrow> accounted (store s) (apply_transfer env tx s)"
proof (rule apply_transfer_rule)
  assume fd: "funded (store s)"
  fix sender s1
  assume acc: "account (store s) (tt_from tx) = Some sender"
    and le: "saturating_add (tt_amount tx) (tt_fee tx) \<le> acc_balance sender"
    and s1: "s1 = on_store (write_account (tt_from tx)
        (sender\<lparr>acc_balance := acc_balance sender - saturating_add (tt_amount tx) (tt_fee tx),
                acc_nonce := acc_nonce sender + 1\<rparr>)) s"
  have room: "unat (acc_balance sender) < 2 ^ 128 - 1"
    using funded_room [OF fd acc] by (simp add: acc_total_def)
  note sum = unat_saturating_add_le [OF le room]
  have debit: "total_supply (store s1) + unat (tt_amount tx) + unat (tt_fee tx) = total_supply (store s)"
    using total_supply_write [OF acc, of "sender\<lparr>acc_balance := acc_balance sender
        - saturating_add (tt_amount tx) (tt_fee tx), acc_nonce := acc_nonce sender + 1\<rparr>"] sum
    by (simp add: s1 acc_total_def unat_diff_exact [OF le])
  have out: "outstanding (store s1) = outstanding (store s)"
    by (simp add: s1 outstanding_def store_writes)
  show "accounted (store s) (Inl (UnknownAccount (tt_to tx)), s1)"
    using debit out by simp
  fix recipient
  assume rec: "account (store s1) (tt_to tx) = Some recipient"
  have "unat (acc_balance recipient) + unat (tt_amount tx) < 2 ^ LENGTH(128)"
    using total_supply_ge [OF rec] debit fd by (simp add: acc_total_def funded_def)
  then have credit: "unat (acc_balance recipient + tt_amount tx) = unat (acc_balance recipient) + unat (tt_amount tx)"
    by (rule unat_add_exact)
  show "accounted (store s) (Inr (TransferApplied (tt_from tx) (tt_to tx) (tt_amount tx) (tt_fee tx)),
      on_store (write_account (tt_to tx) (recipient\<lparr>acc_balance := acc_balance recipient + tt_amount tx\<rparr>)) s1)"
    using debit out total_supply_write [OF rec, of "recipient\<lparr>acc_balance := acc_balance recipient + tt_amount tx\<rparr>"] credit
    by (simp add: acc_total_def outstanding_def store_writes)
qed simp


lemma unat_move:
  fixes a b v :: u128
  assumes "v \<le> a" "unat a + unat b < 2 ^ 128"
  shows "unat (a - v) + unat (b + v) = unat a + unat b"
proof -
  have "unat v \<le> unat a" using assms(1) by (simp add: word_le_nat_alt)
  then show ?thesis
    using assms unat_add_exact [of b v] by (simp add: unat_diff_exact)
qed

lemma total_supply_swap:
  assumes "account st a = Some x" "accounts st' = bt_insert a y (accounts st)" "acc_total y = acc_total x"
  shows "total_supply st' = total_supply st"
  using total_supply_write [OF assms(1), of y] assms(2,3) by (simp add: total_supply_def store_writes)

lemma total_supply_same: "accounts st' = accounts st \<Longrightarrow> total_supply st' = total_supply st"
  by (simp add: total_supply_def)

lemma outstanding_same:
  "reward_records st' = reward_records st \<Longrightarrow> claimed_rewards st' = claimed_rewards st \<Longrightarrow>
    outstanding st' = outstanding st"
  by (simp add: outstanding_def)

lemma acc_total_moves:
  assumes "acc_total x < 2 ^ 128"
  shows "v \<le> acc_balance x \<Longrightarrow> unat (acc_balance x - v) + unat (acc_locked x + v) = unat (acc_balance x) + unat (acc_locked x)"
    and "v \<le> acc_balance x \<Longrightarrow> unat (acc_balance x - v) + unat (acc_staked x + v) = unat (acc_balance x) + unat (acc_staked x)"
    and "v \<le> acc_staked x \<Longrightarrow> unat (acc_staked x - v) + unat (acc_locked x + v) = unat (acc_staked x) + unat (acc_locked x)"
    and "v \<le> acc_locked x \<Longrightarrow> unat (acc_locked x - v) + unat (acc_balance x + v) = unat (acc_locked x) + unat (acc_balance x)"
  using assms by (auto intro!: unat_move simp: acc_total_def)

text \<open>
  An outcome whose store differs from \<open>st\<close>, as far as money is concerned, by one account that
  keeps its total.
\<close>

lemma accounted_swap:
  assumes "account st a = Some x" "accounts (store s') = bt_insert a (the (account (store s') a)) (accounts st)"
    and "acc_total (the (account (store s') a)) = acc_total x" "reward_records (store s') = reward_records st"
    and "claimed_rewards (store s') = claimed_rewards st"
  shows "accounted st (Inl e, s')" and "effect_fee v = 0 \<Longrightarrow> effect_minted v = 0 \<Longrightarrow> accounted st (Inr v, s')"
  using total_supply_swap [OF assms(1-3)] outstanding_same [OF assms(4,5)] by simp_all

lemma accounted_same:
  assumes "accounts (store s') = accounts st" "reward_records (store s') = reward_records st"
    and "claimed_rewards (store s') = claimed_rewards st"
  shows "accounted st (Inl e, s')" and "effect_fee v = 0 \<Longrightarrow> effect_minted v = 0 \<Longrightarrow> accounted st (Inr v, s')"
  using total_supply_same [OF assms(1)] outstanding_same [OF assms(2,3)] by simp_all

lemma funded_acc_total: "funded st \<Longrightarrow> account st a = Some x \<Longrightarrow> acc_total x < 2 ^ 128"
  using funded_room [of st a x] by simp

lemma stake_accounted: "funded (store s) \<Longrightarrow> accounted (store s) (apply_stake env tx s)"
proof (rule apply_stake_rule, goal_cases)
  case (2 delegator operator s2)
  note moves = acc_total_moves [OF funded_acc_total [OF 2(1,7)]]
  from 2 moves(2) [of "st_amount tx"] show ?case
    by (intro accounted_swap [OF 2(7)]) (simp_all add: store_writes acc_total_def account_def)
qed simp

lemma unbond_accounted: "funded (store s) \<Longrightarrow> accounted (store s) (apply_unbond env tx s)"
proof (rule apply_unbond_rule, goal_cases)
  case (2 e delegator)
  note moves = acc_total_moves [OF funded_acc_total [OF 2(1,4)]]
  from 2 moves(3) [of "ut_amount tx"] show ?case
    by (intro accounted_swap [OF 2(4)]) (simp_all add: store_writes acc_total_def account_def)
next
  case (3 delegator operator existing s2 s3)
  note moves = acc_total_moves [OF funded_acc_total [OF 3(1,7)]]
  from 3 moves(3) [of "ut_amount tx"] show ?case
    by (intro accounted_swap [OF 3(7)]) (simp_all add: store_writes acc_total_def account_def)
qed simp

lemma open_challenge_accounted: "funded (store s) \<Longrightarrow> accounted (store s) (apply_open_challenge env tx s)"
proof (rule apply_open_challenge_rule, goal_cases)
  case (2 c commit challenger)
  note moves = acc_total_moves [OF funded_acc_total [OF 2(1,11)]]
  from 2 moves(1) [of "ch_bond c"] show ?case
    by (intro accounted_swap [OF 2(11)]) (simp_all add: store_writes acc_total_def account_def)
qed simp

lemma propose_accounted: "funded (store s) \<Longrightarrow> accounted (store s) (apply_propose_protocol_params_update env tx s)"
proof (rule apply_propose_rule, goal_cases)
  case (2 e proposer bond)
  note moves = acc_total_moves [OF funded_acc_total [OF 2(1,4)]]
  from 2 moves(1) [of bond] show ?case
    by (intro accounted_swap [OF 2(4)]) (simp_all add: store_writes acc_total_def account_def)
next
  case (3 proposer kind bond encoded)
  note moves = acc_total_moves [OF funded_acc_total [OF 3(1,5)]]
  from 3 moves(1) [of bond] show ?case
    by (intro accounted_swap [OF 3(5)]) (simp_all add: store_writes acc_total_def account_def)
qed simp

lemma submit_batch_accounted: "accounted (store s) (apply_submit_batch env tx s)"
  by (rule apply_submit_batch_rule; rule accounted_same) (simp_all add: store_writes)

lemma commit_epoch_accounted: "accounted (store s) (apply_commit_epoch env tx s)"
  by (rule apply_commit_epoch_rule; rule accounted_same) (simp_all add: store_writes)

lemma challenge_response_accounted: "accounted (store s) (apply_challenge_response env tx s)"
  by (rule apply_challenge_response_rule; rule accounted_same) (simp_all add: store_writes)

lemma claim_reward_accounted: "funded (store s) \<Longrightarrow> accounted (store s) (apply_claim_reward env tx s)"
proof (rule apply_claim_reward_rule, goal_cases)
  case (2 reward n a)
  let ?key = "(ct_epoch_id tx, ct_node_id tx)" and ?b = "a\<lparr>acc_balance := acc_balance a + ct_amount tx\<rparr>"
  let ?st = "write_account (ct_claimer tx) ?b (store s)"
  have same: "outstanding ?st = outstanding (store s)" "reward_record_of ?st = reward_record_of (store s)"
    "is_reward_claimed ?st = is_reward_claimed (store s)"
    by (simp_all add: outstanding_def store_writes reward_record_of_def is_reward_claimed_def fun_eq_iff)
  have mark: "outstanding (mark_reward_claimed ?key ?st) + unat (ct_amount tx) = outstanding (store s)"
    using outstanding_mark [of ?st ?key reward] 2 by (simp add: same)
  have "unat (acc_balance a) + unat (ct_amount tx) < 2 ^ LENGTH(128)"
    using funded_room [OF 2(1,10)] mark by (simp add: acc_total_def)
  then have "unat (acc_balance a + ct_amount tx) = unat (acc_balance a) + unat (ct_amount tx)"
    by (rule unat_add_exact)
  with mark total_supply_write [OF 2(10), of ?b] total_supply_same [of "mark_reward_claimed ?key ?st" ?st]
  show ?case
    by (simp add: acc_total_def) (simp add: store_writes)
qed simp


lemma accounted_funded: "funded st \<Longrightarrow> accounted st r \<Longrightarrow> funded (store (snd r))"
  by (cases r; cases "fst r") (auto simp: funded_def)

end
