(* ===== verification/Solvency.thy ===== *)
theory Solvency
  imports Ledger
begin

text \<open>
  What the protocol owes out of the locked amounts. A challenger's bond, an unbonding request
  in the queue and the bond of a pending proposal are each owed to one account; \<open>backed\<close> says
  that the account has at least that much locked, \<open>anchored\<close> that the account exists and that
  challenges and proposals are stored under their own ids. A \<open>solvent\<close> store is funded, backed
  and anchored. Every transaction keeps it solvent on every outcome, so the releases that
  run outside transactions (matured requests, rejected or upheld challenges, expired
  proposals) never fail for lack of funds.
\<close>

definition locked_of :: "in_memory_store \<Rightarrow> address \<Rightarrow> nat" where
  "locked_of st a = (case account st a of None \<Rightarrow> 0 | Some x \<Rightarrow> unat (acc_locked x))"

definition owed_challenges :: "in_memory_store \<Rightarrow> address \<Rightarrow> nat" where
  "owed_challenges st a =
     bt_total (\<lambda>c. if ch_challenger c = a then unat (ch_bond c) else 0) (open_challenges st)"

definition owed_requests :: "unbonding_record list \<Rightarrow> address \<Rightarrow> nat" where
  "owed_requests q a = (\<Sum>r\<leftarrow>q. if ub_delegator r = a then unat (ub_amount r) else 0)"

definition owed_proposals :: "in_memory_store \<Rightarrow> address \<Rightarrow> nat" where
  "owed_proposals st a =
     bt_total (\<lambda>p. if gp_proposer p = a \<and> gp_state p = ProposalPending then unat (gp_bond_amount p) else 0)
       (params_update_proposals st)"

definition owed :: "in_memory_store \<Rightarrow> address \<Rightarrow> nat" where
  "owed st a = owed_challenges st a + owed_requests (unbonding_queue st) a + owed_proposals st a"

definition backed :: "in_memory_store \<Rightarrow> bool" where
  "backed st \<longleftrightarrow> (\<forall>a. owed st a \<le> locked_of st a)"

definition anchored :: "in_memory_store \<Rightarrow> bool" where
  "anchored st \<longleftrightarrow>
     (\<forall>pid p. params_update_proposal st pid = Some p \<longrightarrow>
        gp_proposal_id p = pid \<and> account st (gp_proposer p) \<noteq> None)
   \<and> (\<forall>cid c. open_challenge st cid = Some c \<longrightarrow>
        ch_challenge_id c = cid \<and> account st (ch_challenger c) \<noteq> None)
   \<and> (\<forall>r \<in> set (unbonding_queue st). account st (ub_delegator r) \<noteq> None)"

subsection \<open>Obligations\<close>

lemma locked_of_write:
  "locked_of (write_account b x st) a = (if a = b then unat (acc_locked x) else locked_of st a)"
  by (simp add: locked_of_def account_def store_writes)

lemma owed_requests_simps [simp]:
  "owed_requests [] a = 0"
  "owed_requests (r # q) a = (if ub_delegator r = a then unat (ub_amount r) else 0) + owed_requests q a"
  "owed_requests (q @ q') a = owed_requests q a + owed_requests q' a"
  by (simp_all add: owed_requests_def)

lemma owed_requests_filter:
  "owed_requests (filter P q) a + owed_requests (filter (\<lambda>r. \<not> P r) q) a = owed_requests q a"
  by (induction q) auto

lemma owed_challenges_insert:
  "owed_challenges (insert_open_challenge cid c st) a
     + (case open_challenge st cid of None \<Rightarrow> 0 | Some d \<Rightarrow> if ch_challenger d = a then unat (ch_bond d) else 0)
   = owed_challenges st a + (if ch_challenger c = a then unat (ch_bond c) else 0)"
  using bt_total_insert [of "\<lambda>c. if ch_challenger c = a then unat (ch_bond c) else 0" cid c "open_challenges st"]
  by (simp add: owed_challenges_def store_writes open_challenge_def)

lemma owed_challenges_remove:
  "owed_challenges (snd (remove_open_challenge cid st)) a
     + (case open_challenge st cid of None \<Rightarrow> 0 | Some d \<Rightarrow> if ch_challenger d = a then unat (ch_bond d) else 0)
   = owed_challenges st a"
  using bt_total_remove [of "\<lambda>c. if ch_challenger c = a then unat (ch_bond c) else 0" cid "open_challenges st"]
  by (simp add: owed_challenges_def store_writes open_challenge_def)

definition proposal_debt :: "governance_proposal \<Rightarrow> address \<Rightarrow> nat" where
  "proposal_debt p a =
     (if gp_proposer p = a \<and> gp_state p = ProposalPending then unat (gp_bond_amount p) else 0)"

lemma owed_proposals_insert:
  "owed_proposals (write_params_update_proposal pid p st) a
     + (case params_update_proposal st pid of None \<Rightarrow> 0 | Some q \<Rightarrow> proposal_debt q a)
   = owed_proposals st a + proposal_debt p a"
  using bt_total_insert [of "\<lambda>p. proposal_debt p a" pid p "params_update_proposals st"]
  by (simp add: owed_proposals_def store_writes params_update_proposal_def proposal_debt_def)

lemma owed_proposals_ge:
  "params_update_proposal st pid = Some p \<Longrightarrow> proposal_debt p a \<le> owed_proposals st a"
  unfolding owed_proposals_def params_update_proposal_def proposal_debt_def by (rule bt_total_ge)

lemma owed_challenges_ge:
  "open_challenge st cid = Some c \<Longrightarrow> unat (ch_bond c) \<le> owed_challenges st (ch_challenger c)"
  unfolding owed_challenges_def open_challenge_def
  by (drule bt_total_ge [where f = "\<lambda>d. if ch_challenger d = ch_challenger c then unat (ch_bond d) else 0"]) simp

lemma backed_step:
  assumes "backed st" "\<And>a. owed st' a + locked_of st a \<le> locked_of st' a + owed st a"
  shows "backed st'"
  unfolding backed_def
proof
  fix a
  from assms(1) have "owed st a \<le> locked_of st a" by (simp add: backed_def)
  with assms(2) [of a] show "owed st' a \<le> locked_of st' a" by linarith
qed

lemma owed_same:
  assumes "open_challenges st' = open_challenges st" "unbonding_queue st' = unbonding_queue st"
    and "params_update_proposals st' = params_update_proposals st"
  shows "owed st' a = owed st a"
  using assms by (simp add: owed_def owed_challenges_def owed_proposals_def)

lemma backed_same_owed:
  assumes "backed st" "open_challenges st' = open_challenges st" "unbonding_queue st' = unbonding_queue st"
    and "params_update_proposals st' = params_update_proposals st"
    and "\<And>a. locked_of st a \<le> locked_of st' a"
  shows "backed st'"
  using assms(1) by (rule backed_step) (simp add: owed_same [OF assms(2-4)] assms(5))

lemma unat_locked_add:
  assumes "acc_total x < 2 ^ 128"
  shows "v \<le> acc_balance x \<or> v \<le> acc_staked x \<Longrightarrow> unat (acc_locked x + v) = unat (acc_locked x) + unat v"
  using assms by (intro unat_add_exact) (auto simp: acc_total_def word_le_nat_alt)

lemma transfer_backed: "backed (store s) \<Longrightarrow> backed (store (snd (apply_transfer env tx s)))"
proof (rule apply_transfer_rule, goal_cases)
  case 1
  then show ?case by simp
next
  case (2 sender s1)
  then show ?case
    by (intro backed_same_owed [OF 2(1)]) (simp_all add: store_writes locked_of_def account_def)
next
  case (3 sender s1 recipient)
  then show ?case
    by (intro backed_same_owed [OF 3(1)]) (auto simp: store_writes locked_of_def account_def split: if_splits)
qed

lemma stake_backed: "backed (store s) \<Longrightarrow> backed (store (snd (apply_stake env tx s)))"
  apply (rule apply_stake_rule, simp)
  apply (erule backed_same_owed; auto simp: store_writes locked_of_def account_def)
  done

lemma claim_backed: "backed (store s) \<Longrightarrow> backed (store (snd (apply_claim_reward env tx s)))"
  apply (rule apply_claim_reward_rule, simp)
  apply (erule backed_same_owed; auto simp: store_writes locked_of_def account_def)
  done

lemma submit_batch_backed: "backed (store s) \<Longrightarrow> backed (store (snd (apply_submit_batch env tx s)))"
  apply (rule apply_submit_batch_rule, simp)
  apply (erule backed_same_owed; auto simp: store_writes locked_of_def account_def)
  done

lemma commit_epoch_backed: "backed (store s) \<Longrightarrow> backed (store (snd (apply_commit_epoch env tx s)))"
  apply (rule apply_commit_epoch_rule, simp)
  apply (erule backed_same_owed; auto simp: store_writes locked_of_def account_def)
  done

lemma unbond_backed:
  "funded (store s) \<Longrightarrow> backed (store s) \<Longrightarrow> backed (store (snd (apply_unbond env tx s)))"
proof (rule apply_unbond_rule, goal_cases)
  case (2 e delegator)
  note add = unat_locked_add [OF funded_acc_total [OF 2(1,5)], of "ut_amount tx"]
  from 2 add show ?case
    by (intro backed_same_owed [OF 2(2)]) (auto simp: store_writes locked_of_def account_def)
next
  case (3 delegator operator existing s2 s3)
  note add = unat_locked_add [OF funded_acc_total [OF 3(1,8)], of "ut_amount tx"]
  from 3 add show ?case
    by (intro backed_step [OF 3(2)])
      (auto simp: owed_def owed_challenges_def owed_proposals_def store_writes locked_of_def account_def)
qed simp

lemma open_challenge_backed:
  "funded (store s) \<Longrightarrow> backed (store s) \<Longrightarrow> backed (store (snd (apply_open_challenge env tx s)))"
proof (rule apply_open_challenge_rule, goal_cases)
  case (2 c commit challenger)
  note add = unat_locked_add [OF funded_acc_total [OF 2(1,12)], of "ch_bond c"]
  let ?st = "write_account (ch_challenger c) (challenger\<lparr>acc_balance := acc_balance challenger - ch_bond c,
                           acc_locked := acc_locked challenger + ch_bond c\<rparr>) (store s)"
  have none: "open_challenge ?st (ch_challenge_id c) = None"
    using 2 by (simp add: store_writes open_challenge_def)
  from 2 add owed_challenges_insert [of "ch_challenge_id c" "c\<lparr>ch_opened_at_height := height s\<rparr>" ?st] none
  show ?case
    apply (intro backed_step [OF 2(2)])
    apply (auto simp: owed_def owed_challenges_def owed_proposals_def store_writes locked_of_def account_def)
    done
qed simp


lemma challenge_response_backed:
  "backed (store s) \<Longrightarrow> backed (store (snd (apply_challenge_response env tx s)))"
proof (rule apply_challenge_response_rule, goal_cases)
  case (2 c)
  let ?st = "snd (remove_open_challenge (rt_challenge_id tx) (store s))"
  have "owed_challenges (insert_open_challenge (rt_challenge_id tx) (c\<lparr>ch_state := ChallengeRespondedState\<rparr>) ?st) a
      = owed_challenges (store s) a" for a
    using owed_challenges_insert [of "rt_challenge_id tx" "c\<lparr>ch_state := ChallengeRespondedState\<rparr>" ?st a]
      owed_challenges_remove [of "rt_challenge_id tx" "store s" a] 2
    by (simp add: open_challenge_def store_writes split: if_splits)
  then show ?case
    by (intro backed_step [OF 2(1)])
      (simp add: owed_def owed_challenges_def owed_proposals_def store_writes locked_of_def account_def)
qed simp

lemma propose_backed:
  "funded (store s) \<Longrightarrow> backed (store s) \<Longrightarrow>
    backed (store (snd (apply_propose_protocol_params_update env tx s)))"
proof (rule apply_propose_rule, goal_cases)
  case (2 e proposer bond)
  note add = unat_locked_add [OF funded_acc_total [OF 2(1,5)], of bond]
  from 2 add show ?case
    by (intro backed_same_owed [OF 2(2)]) (auto simp: store_writes locked_of_def account_def)
next
  case (3 proposer kind bond encoded)
  note add = unat_locked_add [OF funded_acc_total [OF 3(1,6)], of bond]
  let ?p = "\<lparr>gp_proposal_id = pt_proposal_id tx, gp_proposer = pt_proposer tx, gp_kind = kind,
              gp_effective_epoch = pt_effective_epoch tx, gp_submitted_height = height s,
              gp_bond_amount = bond, gp_params_hash = stable_hash32 encoded, gp_params = pt_params tx,
              gp_state = ProposalPending\<rparr>"
  have ins: "owed_proposals (write_params_update_proposal (pt_proposal_id tx) ?p (store s)) a
      = owed_proposals (store s) a + (if pt_proposer tx = a then unat bond else 0)" for a
    using owed_proposals_insert [of "pt_proposal_id tx" ?p "store s" a] 3(5) by (simp add: proposal_debt_def)
  from 3 add ins show ?case
    apply (intro backed_step [OF 3(2)])
    apply (auto simp: owed_def owed_challenges_def owed_proposals_def store_writes locked_of_def account_def)
    done
qed simp

text \<open>
  Every proposal and every open challenge is stored under its own id, and whoever locked a
  bond or waits for an unbonding request has an account.
\<close>

lemma anchored_step:
  assumes "anchored st" "\<And>a. account st a \<noteq> None \<Longrightarrow> account st' a \<noteq> None"
    and "\<And>pid p. params_update_proposal st' pid = Some p \<Longrightarrow> params_update_proposal st pid = Some p
      \<or> gp_proposal_id p = pid \<and> account st' (gp_proposer p) \<noteq> None"
    and "\<And>cid c. open_challenge st' cid = Some c \<Longrightarrow> open_challenge st cid = Some c
      \<or> ch_challenge_id c = cid \<and> account st' (ch_challenger c) \<noteq> None"
    and "\<And>r. r \<in> set (unbonding_queue st') \<Longrightarrow> r \<in> set (unbonding_queue st) \<or> account st' (ub_delegator r) \<noteq> None"
  shows "anchored st'"
  unfolding anchored_def
proof (intro conjI allI ballI impI)
  fix pid p assume p: "params_update_proposal st' pid = Some p"
  from assms(1,2) assms(3) [OF p] show "gp_proposal_id p = pid" "account st' (gp_proposer p) \<noteq> None"
    by (auto simp: anchored_def)
next
  fix cid c assume c: "open_challenge st' cid = Some c"
  from assms(1,2) assms(4) [OF c] show "ch_challenge_id c = cid" "account st' (ch_challenger c) \<noteq> None"
    by (auto simp: anchored_def)
next
  fix r assume r: "r \<in> set (unbonding_queue st')"
  from assms(1,2) assms(5) [OF r] show "account st' (ub_delegator r) \<noteq> None"
    by (auto simp: anchored_def)
qed

lemma anchored_proposal:
  "anchored st \<Longrightarrow> params_update_proposal st pid = Some p \<Longrightarrow>
    gp_proposal_id p = pid \<and> (\<exists>x. account st (gp_proposer p) = Some x)"
  by (auto simp: anchored_def)

lemma anchored_challenge:
  "anchored st \<Longrightarrow> open_challenge st cid = Some c \<Longrightarrow>
    ch_challenge_id c = cid \<and> (\<exists>x. account st (ch_challenger c) = Some x)"
  by (auto simp: anchored_def)

lemmas anchored_reads = account_def params_update_proposal_def open_challenge_def

lemma transfer_anchored: "anchored (store s) \<Longrightarrow> anchored (store (snd (apply_transfer env tx s)))"
  by (rule apply_transfer_rule [where Q = "\<lambda>r. anchored (store (snd r))"]; erule anchored_step)
    (auto simp: store_writes anchored_reads anchored_def split: if_splits)

lemma stake_anchored: "anchored (store s) \<Longrightarrow> anchored (store (snd (apply_stake env tx s)))"
  by (rule apply_stake_rule [where Q = "\<lambda>r. anchored (store (snd r))"]; erule anchored_step)
    (auto simp: store_writes anchored_reads anchored_def split: if_splits)

lemma unbond_anchored: "anchored (store s) \<Longrightarrow> anchored (store (snd (apply_unbond env tx s)))"
  by (rule apply_unbond_rule [where Q = "\<lambda>r. anchored (store (snd r))"]; erule anchored_step)
    (auto simp: store_writes anchored_reads anchored_def split: if_splits)

lemma claim_anchored: "anchored (store s) \<Longrightarrow> anchored (store (snd (apply_claim_reward env tx s)))"
  by (rule apply_claim_reward_rule [where Q = "\<lambda>r. anchored (store (snd r))"]; erule anchored_step)
    (auto simp: store_writes anchored_reads anchored_def split: if_splits)

lemma submit_batch_anchored: "anchored (store s) \<Longrightarrow> anchored (store (snd (apply_submit_batch env tx s)))"
  by (rule apply_submit_batch_rule [where Q = "\<lambda>r. anchored (store (snd r))"]; erule anchored_step)
    (auto simp: store_writes anchored_reads anchored_def split: if_splits)

lemma commit_epoch_anchored: "anchored (store s) \<Longrightarrow> anchored (store (snd (apply_commit_epoch env tx s)))"
  by (rule apply_commit_epoch_rule [where Q = "\<lambda>r. anchored (store (snd r))"]; erule anchored_step)
    (auto simp: store_writes anchored_reads anchored_def split: if_splits)

lemma open_challenge_anchored: "anchored (store s) \<Longrightarrow> anchored (store (snd (apply_open_challenge env tx s)))"
  by (rule apply_open_challenge_rule [where Q = "\<lambda>r. anchored (store (snd r))"]; erule anchored_step)
    (auto simp: store_writes anchored_reads anchored_def split: if_splits)

lemma challenge_response_anchored:
  "anchored (store s) \<Longrightarrow> anchored (store (snd (apply_challenge_response env tx s)))"
proof (rule apply_challenge_response_rule [where Q = "\<lambda>r. anchored (store (snd r))"], goal_cases)
  case (2 c)
  from 2(1) show ?case
    by (rule anchored_step)
      (use anchored_challenge [OF 2(1,6)] in \<open>auto simp: store_writes anchored_reads split: if_splits\<close>)
qed simp

lemma propose_anchored: "anchored (store s) \<Longrightarrow> anchored (store (snd (apply_propose_protocol_params_update env tx s)))"
  by (rule apply_propose_rule [where Q = "\<lambda>r. anchored (store (snd r))"]; erule anchored_step)
    (auto simp: store_writes anchored_reads anchored_def split: if_splits)

subsection \<open>Scheduling after a vote\<close>

definition solvent :: "in_memory_store \<Rightarrow> bool" where
  "solvent st \<longleftrightarrow> funded st \<and> backed st \<and> anchored st"

lemma solvent_parts:
  assumes "solvent st"
  shows "funded st" "backed st" "anchored st"
  using assms by (simp_all add: solvent_def)

lemma pending_bond_locked:
  assumes "solvent st" "params_update_proposal st pid = Some p" "gp_state p = ProposalPending"
  obtains a where "account st (gp_proposer p) = Some a" "gp_bond_amount p \<le> acc_locked a"
proof -
  from assms(1,2) obtain a where a: "account st (gp_proposer p) = Some a"
    using anchored_proposal [OF _ assms(2)] by (auto simp: solvent_def)
  have "unat (gp_bond_amount p) \<le> owed st (gp_proposer p)"
    using owed_proposals_ge [OF assms(2), of "gp_proposer p"] assms(3) by (simp add: owed_def proposal_debt_def)
  also have "\<dots> \<le> unat (acc_locked a)"
    using assms(1) a by (auto simp: solvent_def backed_def locked_of_def dest!: spec [of _ "gp_proposer p"])
  finally show ?thesis
    using that a by (simp add: word_le_nat_alt)
qed

lemma try_schedule_solvent:
  assumes "solvent (store s)" "try_schedule_params_update_after_vote pid s = (r, s')"
  shows "solvent (store s') \<and> total_supply (store s') = total_supply (store s)
    \<and> outstanding (store s') = outstanding (store s)"
proof -
  have "(\<lambda>(r, s'). solvent (store s') \<and> total_supply (store s') = total_supply (store s)
    \<and> outstanding (store s') = outstanding (store s)) (try_schedule_params_update_after_vote pid s)"
  proof (rule try_schedule_rule, goal_cases)
    case (3 e proposal)
    from pending_bond_locked [OF assms(1) 3(1,2)] 3(6) show ?case by (metis not_le option.distinct(1) option.inject)
  next
    case (4 proposal a)
    let ?st' = "store (on_store (write_params_update_proposal pid (proposal\<lparr>gp_state := ProposalScheduled\<rparr>))
          (on_store (write_account (gp_proposer proposal)
            (a\<lparr>acc_locked := acc_locked a - gp_bond_amount proposal,
               acc_balance := acc_balance a + gp_bond_amount proposal\<rparr>))
            (on_store (insert_scheduled_protocol_params (gp_effective_epoch proposal) (gp_params proposal)) s)))"
    from assms(1) have fd: "funded (store s)" and bk: "backed (store s)" and an: "anchored (store s)"
      by (simp_all add: solvent_def)
    note moves = acc_total_moves(4) [OF funded_acc_total [OF fd 4(6)] 4(7)]
    have sup: "total_supply ?st' = total_supply (store s)"
      using moves by (intro total_supply_swap [OF 4(6), where y = "the (account ?st' (gp_proposer proposal))"])
        (auto simp: store_writes acc_total_def account_def)
    have out: "outstanding ?st' = outstanding (store s)"
      by (intro outstanding_same) (simp_all add: store_writes)
    have ow: "owed_proposals (write_params_update_proposal pid (proposal\<lparr>gp_state := ProposalScheduled\<rparr>) (store s)) b
        + (if gp_proposer proposal = b then unat (gp_bond_amount proposal) else 0) = owed_proposals (store s) b" for b
      using owed_proposals_insert [of pid "proposal\<lparr>gp_state := ProposalScheduled\<rparr>" "store s" b] 4(1,2)
      by (simp add: proposal_debt_def split: if_splits)
    have "backed ?st'"
      using bk
    proof (rule backed_step)
      fix b
      show "owed ?st' b + locked_of (store s) b \<le> locked_of ?st' b + owed (store s) b"
        using ow [of b] 4(6,7)
        by (auto simp: owed_def owed_challenges_def owed_proposals_def store_writes locked_of_def account_def
            unat_diff_exact word_le_nat_alt)
    qed
    moreover have "anchored ?st'"
      using an by (rule anchored_step) (use 4(1,6) an in
        \<open>auto simp: store_writes anchored_reads anchored_def split: if_splits\<close>)
    ultimately show ?case
      using sup out fd by (simp add: solvent_def funded_def)
  qed (use assms(1) in simp_all)
  with assms(2) show ?thesis by simp
qed


lemma record_vote_solvent:
  assumes sol: "solvent (store s)" and acc: "account (store s) a = Some voter"
    and s2: "s2 = on_store (insert_vote_record key v) (on_store (write_account a (voter\<lparr>acc_nonce := n\<rparr>)) s)"
  shows "solvent (store s2)" "total_supply (store s2) = total_supply (store s)"
    "outstanding (store s2) = outstanding (store s)"
proof -
  show sup: "total_supply (store s2) = total_supply (store s)"
    by (rule total_supply_swap [OF acc, where y = "voter\<lparr>acc_nonce := n\<rparr>"])
      (simp_all add: s2 store_writes acc_total_def)
  show out: "outstanding (store s2) = outstanding (store s)"
    by (rule outstanding_same) (simp_all add: s2 store_writes)
  have "backed (store s2)"
    using solvent_parts(2) [OF sol]
    by (rule backed_same_owed) (use acc in \<open>auto simp: s2 store_writes locked_of_def account_def\<close>)
  moreover have "anchored (store s2)"
    using solvent_parts(3) [OF sol] by (rule anchored_step) (auto simp: s2 store_writes anchored_reads)
  ultimately show "solvent (store s2)"
    using solvent_parts(1) [OF sol] sup out by (simp add: solvent_def funded_def)
qed

lemma vote_solvent:
  "solvent (store s) \<Longrightarrow>
    solvent (store (snd (apply_vote env tx s))) \<and> accounted (store s) (apply_vote env tx s)"
proof (rule apply_vote_rule, goal_cases)
  case (2 voter s2 r s3)
  note s2 = record_vote_solvent [OF 2(1,6,9)]
  from try_schedule_solvent [OF s2(1) 2(10)] s2(2,3) show ?case
    by (cases r) simp_all
qed simp

subsection \<open>Matured unbonding requests\<close>

text \<open>
  While the drained requests are being paid out, they are still owed: \<open>covers pending st\<close> adds
  them to the obligations of the store.
\<close>

definition covers :: "unbonding_record list \<Rightarrow> in_memory_store \<Rightarrow> bool" where
  "covers pending st \<longleftrightarrow> (\<forall>a. owed st a + owed_requests pending a \<le> locked_of st a)"

lemma release_step:
  assumes cov: "covers (r # rest) (store s)" and fd: "funded (store s)"
    and acc: "account (store s) (ub_delegator r) \<noteq> None"
  obtains x s1 where "account (store s) (ub_delegator r) = Some x" "ub_amount r \<le> acc_locked x"
    and "s1 = on_store (write_account (ub_delegator r) (x\<lparr>acc_locked := acc_locked x - ub_amount r,
          acc_balance := acc_balance x + ub_amount r\<rparr>)) s"
    and "covers rest (store s1)" "total_supply (store s1) = total_supply (store s)"
proof -
  have due: "owed (store s) a + (if ub_delegator r = a then unat (ub_amount r) else 0) + owed_requests rest a
      \<le> locked_of (store s) a" for a
    using cov by (simp add: covers_def add.assoc)
  from acc obtain x where x: "account (store s) (ub_delegator r) = Some x" by blast
  then have le: "ub_amount r \<le> acc_locked x"
    using due [of "ub_delegator r"] by (simp add: locked_of_def word_le_nat_alt)
  let ?y = "x\<lparr>acc_locked := acc_locked x - ub_amount r, acc_balance := acc_balance x + ub_amount r\<rparr>"
  let ?st = "write_account (ub_delegator r) ?y (store s)"
  have same: "owed ?st a = owed (store s) a" for a
    by (rule owed_same) (simp_all add: store_writes)
  have less: "locked_of ?st a + (if ub_delegator r = a then unat (ub_amount r) else 0) = locked_of (store s) a" for a
    using x le by (auto simp: locked_of_def account_def store_writes unat_diff_exact word_le_nat_alt)
  have "owed ?st a + owed_requests rest a \<le> locked_of ?st a" for a
    using due [of a] same [of a] less [of a] by linarith
  then have "covers rest ?st"
    by (simp add: covers_def)
  moreover have "total_supply ?st = total_supply (store s)"
    using acc_total_moves(4) [OF funded_acc_total [OF fd x] le]
    by (intro total_supply_swap [OF x, of _ ?y]) (simp_all add: store_writes acc_total_def)
  ultimately show ?thesis
    using that [OF x le refl] by simp
qed


definition matured_effect :: "unbonding_record \<Rightarrow> transition_effect" where
  "matured_effect r = UnbondMatured (ub_delegator r) (ub_operator r) (ub_amount r)"

definition pay_out :: "nat \<Rightarrow> account_state \<Rightarrow> account_state" where
  "pay_out v x = x\<lparr>acc_locked := acc_locked x - word_of_nat v, acc_balance := acc_balance x + word_of_nat v\<rparr>"

lemma pay_out_simps: "pay_out 0 x = x" "pay_out v (pay_out w x) = pay_out (w + v) x"
  by (simp_all add: pay_out_def algebra_simps)

lemma release_matured_ok:
  assumes "covers pending (store s)" "funded (store s)"
    and "\<And>r. r \<in> set pending \<Longrightarrow> account (store s) (ub_delegator r) \<noteq> None"
  shows "\<exists>accs. let s' = s\<lparr>store := (store s)\<lparr>accounts := accs\<rparr>\<rparr> in
    release_matured pending effects s = (Inr (effects @ map matured_effect pending), s')
    \<and> backed (store s') \<and> total_supply (store s') = total_supply (store s)
    \<and> account (store s') = (\<lambda>a. map_option (pay_out (owed_requests pending a)) (account (store s) a))"
  using assms
proof (induction pending arbitrary: effects s)
  case Nil
  then show ?case
    by (intro exI [of _ "accounts (store s)"])
      (simp add: covers_def backed_def pay_out_simps option.map_id0 [unfolded id_def] Let_def)
next
  case (Cons r rest)
  from release_step [OF Cons.prems(1,2)] Cons.prems(3) [of r] obtain x s1 where
    x: "account (store s) (ub_delegator r) = Some x" "ub_amount r \<le> acc_locked x"
    and s1: "s1 = on_store (write_account (ub_delegator r) (x\<lparr>acc_locked := acc_locked x - ub_amount r,
          acc_balance := acc_balance x + ub_amount r\<rparr>)) s"
    and cov: "covers rest (store s1)" and sup: "total_supply (store s1) = total_supply (store s)"
    by auto
  have out: "outstanding (store s1) = outstanding (store s)"
    by (rule outstanding_same) (simp_all add: s1 store_writes)
  have fd: "funded (store s1)" using Cons.prems(2) sup out by (simp add: funded_def)
  have acc: "account (store s1) a = (if a = ub_delegator r then Some (pay_out (unat (ub_amount r)) x)
      else account (store s) a)" for a
    by (simp add: s1 store_writes account_def pay_out_def)
  have run: "release_matured (r # rest) effects s = release_matured rest (effects @ [matured_effect r]) s1"
    using x by (simp add: s1 matured_effect_def unlock_bond_to_balance_def not_less [symmetric])
  have "account (store s1) (ub_delegator q) \<noteq> None" if "q \<in> set rest" for q
    using Cons.prems(3) [of q] that by (simp add: acc)
  from Cons.IH [OF cov fd this, of "effects @ [matured_effect r]"] obtain accs where
    IH: "release_matured rest (effects @ [matured_effect r]) s1 =
        (Inr ((effects @ [matured_effect r]) @ map matured_effect rest), s1\<lparr>store := (store s1)\<lparr>accounts := accs\<rparr>\<rparr>)"
      "backed ((store s1)\<lparr>accounts := accs\<rparr>)"
      "total_supply ((store s1)\<lparr>accounts := accs\<rparr>) = total_supply (store s1)"
      "account ((store s1)\<lparr>accounts := accs\<rparr>)
        = (\<lambda>a. map_option (pay_out (owed_requests rest a)) (account (store s1) a))"
    by (auto simp: Let_def)
  have st: "(store s1)\<lparr>accounts := accs\<rparr> = (store s)\<lparr>accounts := accs\<rparr>"
    "s1\<lparr>store := v\<rparr> = s\<lparr>store := v\<rparr>" for v
    by (simp_all add: s1 store_writes on_store_def)
  show ?case
    using IH x(1) unfolding st sup
    by (intro exI [of _ accs])
      (auto simp: run st acc fun_eq_iff pay_out_simps Let_def simp del: release_matured.simps)
qed

lemma process_mature_unbonds_ok:
  assumes "solvent (store s)"
  shows "\<exists>s'. process_mature_unbonds s
        = (Inr (map matured_effect (filter (\<lambda>r. ub_unlock_height r \<le> height s) (unbonding_queue (store s)))), s')
    \<and> solvent (store s') \<and> total_supply (store s') = total_supply (store s)
    \<and> outstanding (store s') = outstanding (store s)
    \<and> unbonding_queue (store s') = filter (\<lambda>r. \<not> ub_unlock_height r \<le> height s) (unbonding_queue (store s))
    \<and> (\<exists>accs. s' = s\<lparr>store := (store s)\<lparr>accounts := accs, unbonding_queue := unbonding_queue (store s')\<rparr>\<rparr>)
    \<and> account (store s') = (\<lambda>a. map_option (pay_out (owed_requests
          (filter (\<lambda>r. ub_unlock_height r \<le> height s) (unbonding_queue (store s))) a)) (account (store s) a))"
proof -
  let ?q = "unbonding_queue (store s)" and ?P = "\<lambda>r. ub_unlock_height r \<le> height s"
  let ?st = "(store s)\<lparr>unbonding_queue := filter (\<lambda>r. \<not> ?P r) ?q\<rparr>"
  let ?s1 = "s\<lparr>store := ?st\<rparr>"
  have st: "total_supply ?st = total_supply (store s)" "outstanding ?st = outstanding (store s)"
      "account ?st = account (store s)" "locked_of ?st = locked_of (store s)"
    by (simp_all add: total_supply_def outstanding_def account_def locked_of_def fun_eq_iff)
  have "owed ?st a + owed_requests (filter ?P ?q) a = owed (store s) a" for a
    using owed_requests_filter [of ?P ?q a] by (simp add: owed_def owed_challenges_def owed_proposals_def)
  then have cov: "covers (filter ?P ?q) ?st"
    using assms by (simp add: covers_def solvent_def backed_def st)
  have fd: "funded (store ?s1)" using assms by (simp add: solvent_def funded_def st)
  have an: "account (store ?s1) (ub_delegator r) \<noteq> None" if "r \<in> set (filter ?P ?q)" for r
    using assms that by (auto simp: solvent_def anchored_def st)
  from release_matured_ok [of "filter ?P ?q" ?s1 "[]"] cov fd an obtain accs where
    ok: "release_matured (filter ?P ?q) [] ?s1 = (Inr (map matured_effect (filter ?P ?q)),
          ?s1\<lparr>store := ?st\<lparr>accounts := accs\<rparr>\<rparr>)"
      "backed (?st\<lparr>accounts := accs\<rparr>)" "total_supply (?st\<lparr>accounts := accs\<rparr>) = total_supply ?st"
      "account (?st\<lparr>accounts := accs\<rparr>) = (\<lambda>a. map_option (pay_out (owed_requests (filter ?P ?q) a)) (account ?st a))"
    by (auto simp: Let_def)
  have out: "outstanding (?st\<lparr>accounts := accs\<rparr>) = outstanding ?st" by (simp add: outstanding_def)
  have "anchored (?st\<lparr>accounts := accs\<rparr>)"
  proof (rule anchored_step)
    show "anchored (store s)" using assms by (simp add: solvent_def)
    show "account (?st\<lparr>accounts := accs\<rparr>) a \<noteq> None" if "account (store s) a \<noteq> None" for a
      using that by (simp add: ok(4) st)
  qed (simp_all add: params_update_proposal_def open_challenge_def)
  with ok out fd have "solvent (?st\<lparr>accounts := accs\<rparr>)"
    by (simp add: solvent_def funded_def)
  moreover have "process_mature_unbonds s
      = (Inr (map matured_effect (filter ?P ?q)), ?s1\<lparr>store := ?st\<lparr>accounts := accs\<rparr>\<rparr>)"
    using ok(1) by (simp add: process_mature_unbonds_def drain_mature_unbondings_eq)
  moreover have "?s1\<lparr>store := ?st\<lparr>accounts := accs\<rparr>\<rparr>
      = s\<lparr>store := (store s)\<lparr>accounts := accs, unbonding_queue := filter (\<lambda>r. \<not> ?P r) ?q\<rparr>\<rparr>"
    by simp
  ultimately show ?thesis
    using ok(3,4) out unfolding st
    by (intro exI [of _ "?s1\<lparr>store := ?st\<lparr>accounts := accs\<rparr>\<rparr>"] conjI exI [of _ accs]; simp)
qed


subsection \<open>Every transaction\<close>

lemma apply_transaction_accounted:
  "solvent (store s) \<Longrightarrow> accounted (store s) (apply_transaction env tx s)"
  by (cases tx) (simp_all add: solvent_def transfer_accounted stake_accounted unbond_accounted
      claim_reward_accounted submit_batch_accounted commit_epoch_accounted open_challenge_accounted
      challenge_response_accounted propose_accounted vote_solvent [unfolded solvent_def])

lemma apply_transaction_solvent:
  assumes "solvent (store s)"
  shows "solvent (store (snd (apply_transaction env tx s)))"
proof -
  have fd: "funded (store (snd (apply_transaction env tx s)))"
    using assms apply_transaction_accounted [OF assms] by (auto simp: solvent_def intro: accounted_funded)
  show ?thesis
  proof (cases tx)
    case (Vote v)
    then show ?thesis using vote_solvent [OF assms] by simp
  qed (use assms fd in \<open>simp_all add: solvent_def transfer_backed stake_backed unbond_backed claim_backed
      submit_batch_backed commit_epoch_backed open_challenge_backed challenge_response_backed propose_backed
      transfer_anchored stake_anchored unbond_anchored claim_anchored submit_batch_anchored
      commit_epoch_anchored open_challenge_anchored challenge_response_anchored propose_anchored\<close>)
qed

subsection \<open>Challenge resolution\<close>

lemma open_bond_locked:
  assumes "solvent st" "open_challenge st cid = Some c"
  obtains a where "account st (ch_challenger c) = Some a" "ch_bond c \<le> acc_locked a"
proof -
  from assms obtain a where a: "account st (ch_challenger c) = Some a"
    using anchored_challenge [OF _ assms(2)] by (auto simp: solvent_def)
  have "unat (ch_bond c) \<le> owed st (ch_challenger c)"
    using owed_challenges_ge [OF assms(2)] by (simp add: owed_def)
  also have "\<dots> \<le> unat (acc_locked a)"
    using assms(1) a by (auto simp: solvent_def backed_def locked_of_def dest!: spec [of _ "ch_challenger c"])
  finally show ?thesis
    using that a by (simp add: word_le_nat_alt)
qed

definition resolution_ledger ::
  "in_memory_store \<Rightarrow> hash32 \<Rightarrow> challenge_resolution_in
    \<Rightarrow> (transition_error, transition_effect, protocol_state) outcome \<Rightarrow> bool" where
  "resolution_ledger st cid res r \<longleftrightarrow> (let st' = store (snd r) in
     solvent st' \<and> outstanding st' = outstanding st \<and> open_challenge st' cid = None \<and>
     (case fst r of
        Inl _ \<Rightarrow> total_supply st' = total_supply st
      | Inr _ \<Rightarrow>
          if res = ResRejected
          then (\<exists>c. open_challenge st cid = Some c \<and> total_supply st' + unat (ch_bond c) = total_supply st)
          else total_supply st' = total_supply st + unat (snd (resolution_amounts res))))"

lemma removed_backed:
  assumes "backed st" "open_challenge st cid = Some c" "account st (ch_challenger c) = Some a"
    and "ch_bond c \<le> acc_locked a"
    and "accounts st' = bt_insert (ch_challenger c) y (accounts st)"
    and "acc_locked y = acc_locked a - ch_bond c"
    and "open_challenges st' = bt_remove cid (open_challenges st)"
    and "unbonding_queue st' = unbonding_queue st" "params_update_proposals st' = params_update_proposals st"
  shows "backed st'"
  using assms(1)
proof (rule backed_step)
  fix b
  have "owed_challenges st' b + (if ch_challenger c = b then unat (ch_bond c) else 0) = owed_challenges st b"
    using owed_challenges_remove [of cid st b] assms(2,7) by (simp add: owed_challenges_def store_writes)
  moreover have "locked_of st' b + (if ch_challenger c = b then unat (ch_bond c) else 0) = locked_of st b"
    using assms(3-6) by (auto simp: locked_of_def account_def unat_diff_exact word_le_nat_alt)
  ultimately show "owed st' b + locked_of st b \<le> locked_of st' b + owed st b"
    using assms(8,9) by (simp add: owed_def owed_proposals_def)
qed

lemma settle_bond:
  assumes sol: "solvent st" and c: "open_challenge st cid = Some c"
    and a: "account st (ch_challenger c) = Some a" "ch_bond c \<le> acc_locked a"
    and st': "accounts st' = bt_insert (ch_challenger c) y (accounts st)"
      "acc_locked y = acc_locked a - ch_bond c"
      "open_challenges st' = bt_remove cid (open_challenges st)"
      "unbonding_queue st' = unbonding_queue st" "params_update_proposals st' = params_update_proposals st"
      "reward_records st' = reward_records st" "claimed_rewards st' = claimed_rewards st"
    and bal: "acc_total y + burned = acc_total a + minted"
    and room: "total_supply st + outstanding st + minted < 2 ^ 128 - 1"
  shows "solvent st'" "total_supply st' + burned = total_supply st + minted"
    "outstanding st' = outstanding st" "open_challenge st' cid = None"
proof -
  show sup: "total_supply st' + burned = total_supply st + minted"
    using total_supply_write [OF a(1), of y] bal st'(1) by (simp add: total_supply_def store_writes)
  show out: "outstanding st' = outstanding st" using st'(6,7) by (rule outstanding_same)
  show "open_challenge st' cid = None" using st'(3) by (simp add: open_challenge_def)
  have "backed st'"
    using sol by (intro removed_backed [OF _ c a st'(1-5)]) (simp add: solvent_def)
  moreover have "anchored st'"
    using solvent_parts(3) [OF sol]
    by (rule anchored_step) (use st' in \<open>auto simp: anchored_reads split: if_splits\<close>)
  ultimately show "solvent st'"
    using sup out room by (simp add: solvent_def funded_def)
qed

lemma remove_open_challenge_solvent:
  fixes cid
  assumes "solvent st"
  defines "st' \<equiv> snd (remove_open_challenge cid st)"
  shows "solvent st'" "total_supply st' = total_supply st" "outstanding st' = outstanding st"
    "open_challenge st' cid = None"
proof -
  show sup: "total_supply st' = total_supply st" "outstanding st' = outstanding st" "open_challenge st' cid = None"
    by (simp_all add: st'_def store_writes total_supply_def outstanding_def open_challenge_def)
  have "owed st' a + locked_of st a \<le> locked_of st' a + owed st a" for a
    using owed_challenges_remove [of cid st a]
    by (simp add: st'_def owed_def owed_proposals_def locked_of_def account_def) (simp add: store_writes)
  then have "backed st'"
    by (rule backed_step [OF solvent_parts(2) [OF assms(1)]])
  moreover have "anchored st'"
    using solvent_parts(3) [OF assms(1)]
    by (rule anchored_step) (auto simp: st'_def store_writes anchored_reads split: if_splits)
  ultimately show "solvent st'"
    using assms(1) sup by (simp add: solvent_def funded_def)
qed

lemma resolve_challenge_ledger:
  assumes sol: "solvent (store s)"
    and room: "total_supply (store s) + outstanding (store s) + unat (snd (resolution_amounts res)) < 2 ^ 128 - 1"
  shows "resolution_ledger (store s) cid res (resolve_challenge cid res s)"
proof (rule resolve_challenge_rule [OF _ _ _ _ refl], goal_cases)
  case (1 e)
  show ?case
    using remove_open_challenge_solvent [OF sol] by (simp add: resolution_ledger_def Let_def)
next
  case (2 e c target n)
  from open_bond_locked [OF sol 2(1)] 2(4) show ?case by (metis not_le option.distinct(1) option.inject)
next
  case (3 c a)
  let ?st' = "store (on_store (insert_challenge_resolution (ch_challenge_id c)
       \<lparr>rs_challenge_id = ch_challenge_id c, rs_kind = ch_kind c, rs_slash_amount = 0,
        rs_challenger_reward = 0, rs_details = DetRejected, rs_resolved_at_height = height s\<rparr>)
     (on_store (insert_resolved_challenge (ch_challenge_id c) (c\<lparr>ch_state := ChallengeRejected\<rparr>))
       (on_store (write_account (ch_challenger c) (a\<lparr>acc_locked := acc_locked a - ch_bond c\<rparr>))
         (on_store (snd \<circ> remove_open_challenge cid) s))))"
  have "acc_total (a\<lparr>acc_locked := acc_locked a - ch_bond c\<rparr>) + unat (ch_bond c) = acc_total a + 0"
    using 3(4) by (simp add: acc_total_def unat_diff_exact word_le_nat_alt)
  from settle_bond [OF sol 3(2-4) _ _ _ _ _ _ _ this, of ?st'] room 3(1,2) show ?case
    by (simp add: resolution_ledger_def Let_def) (simp add: store_writes)
next
  case (4 c slash reward details target n a)
  let ?y = "a\<lparr>acc_locked := acc_locked a - ch_bond c, acc_balance := acc_balance a + (ch_bond c + reward)\<rparr>"
  let ?n = "n\<lparr>nr_bond := nr_bond n - slash, nr_reputation := (nr_reputation n)\<lparr>rep_challengeable_faults :=
      rep_challengeable_faults (nr_reputation n) + 1\<rparr>\<rparr>"
  let ?st' = "store (on_store (insert_challenge_resolution (ch_challenge_id c)
       \<lparr>rs_challenge_id = ch_challenge_id c, rs_kind = ch_kind c, rs_slash_amount = slash,
        rs_challenger_reward = reward, rs_details = details, rs_resolved_at_height = height s\<rparr>)
     (on_store (insert_resolved_challenge (ch_challenge_id c) (c\<lparr>ch_state := ChallengeSucceeded\<rparr>))
       (on_store (write_account (ch_challenger c) ?y) (on_store (write_node target ?n)
         (on_store (snd \<circ> remove_open_challenge cid) s)))))"
  have reward: "unat (snd (resolution_amounts res)) = unat reward" using 4(3) by simp
  have le: "unat (ch_bond c) \<le> unat (acc_locked a)" using 4(10) by (simp add: word_le_nat_alt)
  have lim: "acc_total a + unat reward < 2 ^ 128 - 1"
    using room total_supply_ge [OF 4(9)] unfolding reward by linarith
  have "unat (ch_bond c + reward) = unat (ch_bond c) + unat reward"
    using lim le by (intro unat_add_exact) (simp add: acc_total_def)
  moreover have "unat (acc_balance a + (ch_bond c + reward)) = unat (acc_balance a) + unat (ch_bond c + reward)"
    using lim le calculation by (intro unat_add_exact) (simp add: acc_total_def)
  ultimately have "acc_total ?y + 0 = acc_total a + unat reward"
    using le by (simp add: acc_total_def unat_diff_exact [OF 4(10)])
  from settle_bond [OF sol 4(2,9,10) _ _ _ _ _ _ _ this, of ?st'] room 4(1) show ?case
    unfolding reward by (simp add: resolution_ledger_def Let_def 4(3)) (simp add: store_writes)
qed

end
