(* ===== verification/Epochs.thy ===== *)
theory Epochs
  imports Solvency
begin

text \<open>
  Closing an epoch: the loops that activate and expire parameter proposals, and
  \<open>finalize_epoch\<close> as a whole.
\<close>

subsection \<open>Closing an epoch\<close>

definition stale :: "epoch_id \<Rightarrow> governance_proposal \<Rightarrow> bool" where
  "stale epoch p \<longleftrightarrow> gp_state p = ProposalPending \<and> gp_effective_epoch p \<le> epoch"

definition expired_bonds :: "epoch_id \<Rightarrow> governance_proposal list \<Rightarrow> nat" where
  "expired_bonds epoch ps = (\<Sum>p\<leftarrow>filter (stale epoch) ps. unat (gp_bond_amount p))"

lemma write_proposal_solvent:
  assumes sol: "solvent st" and q: "params_update_proposal st pid = Some q"
    and p: "gp_proposal_id p = pid" "gp_proposer p = gp_proposer q" "gp_state p \<noteq> ProposalPending"
  shows "solvent (write_params_update_proposal pid p st)"
proof -
  let ?st = "write_params_update_proposal pid p st"
  have "owed_proposals ?st a \<le> owed_proposals st a" for a
    using owed_proposals_insert [of pid p st a] q p(3) by (simp add: proposal_debt_def)
  then have "owed ?st a + locked_of st a \<le> locked_of ?st a + owed st a" for a
    by (simp add: owed_def owed_challenges_def locked_of_def account_def store_writes)
  then have "backed ?st" by (rule backed_step [OF solvent_parts(2) [OF sol]])
  moreover have "anchored ?st"
    using solvent_parts(3) [OF sol]
    by (rule anchored_step) (use anchored_proposal [OF solvent_parts(3) [OF sol] q] p in
        \<open>auto simp: store_writes anchored_reads split: if_splits\<close>)
  moreover have "funded ?st"
    using sol by (simp add: solvent_def funded_def total_supply_def outstanding_def store_writes)
  ultimately show ?thesis by (simp add: solvent_def)
qed

lemma activate_proposals_solvent:
  "solvent (store s) \<Longrightarrow> solvent (store (activate_proposals ps s))"
proof (induction ps arbitrary: s)
  case (Cons p ps)
  have "solvent (store (if gp_state p = ProposalScheduled \<and> gp_effective_epoch p = current_epoch s
      then (case params_update_proposal (store s) (gp_proposal_id p) of None \<Rightarrow> s
            | Some rec \<Rightarrow> on_store (write_params_update_proposal (gp_proposal_id p)
                               (rec\<lparr>gp_state := ProposalActivated\<rparr>)) s)
      else s))"
    using Cons.prems anchored_proposal [OF solvent_parts(3) [OF Cons.prems]]
    by (auto split: option.splits intro!: write_proposal_solvent)
  from Cons.IH [OF this] show ?case by simp
qed simp

lemma activate_proposals_frame:
  "\<exists>props. activate_proposals ps s = s\<lparr>store := (store s)\<lparr>params_update_proposals := props\<rparr>\<rparr>"
proof (induction ps arbitrary: s)
  case Nil
  show ?case by (intro exI [of _ "params_update_proposals (store s)"]) simp
next
  case (Cons p ps)
  let ?s1 = "if gp_state p = ProposalScheduled \<and> gp_effective_epoch p = current_epoch s
      then (case params_update_proposal (store s) (gp_proposal_id p) of None \<Rightarrow> s
            | Some rec \<Rightarrow> on_store (write_params_update_proposal (gp_proposal_id p)
                               (rec\<lparr>gp_state := ProposalActivated\<rparr>)) s)
      else s"
  have "\<exists>v. ?s1 = s\<lparr>store := (store s)\<lparr>params_update_proposals := v\<rparr>\<rparr>"
  proof (cases "gp_state p = ProposalScheduled \<and> gp_effective_epoch p = current_epoch s
      \<and> params_update_proposal (store s) (gp_proposal_id p) \<noteq> None")
    case True
    then show ?thesis by (auto simp: on_store_def store_writes)
  next
    case False
    then show ?thesis by (intro exI [of _ "params_update_proposals (store s)"]) auto
  qed
  then obtain v where v: "?s1 = s\<lparr>store := (store s)\<lparr>params_update_proposals := v\<rparr>\<rparr>" ..
  obtain props where "activate_proposals ps ?s1 = ?s1\<lparr>store := (store ?s1)\<lparr>params_update_proposals := props\<rparr>\<rparr>"
    using Cons.IH by blast
  then have "activate_proposals (p # ps) s = s\<lparr>store := (store s)\<lparr>params_update_proposals := props\<rparr>\<rparr>"
    unfolding v by (simp only: activate_proposals.simps v) simp
  then show ?case ..
qed

definition expire_one :: "epoch_id \<Rightarrow> governance_proposal \<Rightarrow> governance_proposal" where
  "expire_one epoch p = (if stale epoch p then p\<lparr>gp_state := ProposalExpired\<rparr> else p)"

lemma expire_step:
  assumes sol: "solvent (store s)" and p: "params_update_proposal (store s) (gp_proposal_id p) = Some p"
    and st: "stale (current_epoch s) p"
  obtains s1 where "expire_proposals (p # ps) s = expire_proposals ps s1" "solvent (store s1)"
    and "total_supply (store s1) + unat (gp_bond_amount p) = total_supply (store s)"
    and "\<exists>accs props. s1 = s\<lparr>store := (store s)\<lparr>accounts := accs, params_update_proposals := props\<rparr>\<rparr>"
    and "params_update_proposal (store s1) = (params_update_proposal (store s))
      (gp_proposal_id p \<mapsto> expire_one (current_epoch s) p)"
proof -
  let ?pid = "gp_proposal_id p" and ?q = "p\<lparr>gp_state := ProposalExpired\<rparr>"
  from st have pend: "gp_state p = ProposalPending" by (simp add: stale_def)
  from pending_bond_locked [OF sol p pend] obtain x where
    x: "account (store s) (gp_proposer p) = Some x" "gp_bond_amount p \<le> acc_locked x" .
  let ?y = "x\<lparr>acc_locked := acc_locked x - gp_bond_amount p\<rparr>"
  let ?s1 = "on_store (write_params_update_proposal ?pid ?q) (on_store (write_account (gp_proposer p) ?y) s)"
  have run: "expire_proposals (p # ps) s = expire_proposals ps ?s1"
    using st x p by (simp add: stale_def burn_locked_bond_def not_less [symmetric] params_update_proposal_def store_writes)
  have ow: "owed_proposals (write_params_update_proposal ?pid ?q (store s)) a
      + (if gp_proposer p = a then unat (gp_bond_amount p) else 0) = owed_proposals (store s) a" for a
    using owed_proposals_insert [of ?pid ?q "store s" a] p pend by (simp add: proposal_debt_def split: if_splits)
  have "owed (store ?s1) a + locked_of (store s) a \<le> locked_of (store ?s1) a + owed (store s) a" for a
    using ow [of a] x
    by (auto simp: owed_def owed_challenges_def owed_proposals_def store_writes locked_of_def account_def
        unat_diff_exact word_le_nat_alt)
  then have "backed (store ?s1)" by (rule backed_step [OF solvent_parts(2) [OF sol]])
  moreover have "anchored (store ?s1)"
    using solvent_parts(3) [OF sol]
    by (rule anchored_step) (use x in \<open>auto simp: store_writes anchored_reads split: if_splits\<close>)
  moreover have sup: "total_supply (store ?s1) + unat (gp_bond_amount p) = total_supply (store s)"
    using total_supply_write [OF x(1), of ?y] x(2)
    by (simp add: total_supply_def store_writes acc_total_def unat_diff_exact word_le_nat_alt)
  moreover have "outstanding (store ?s1) = outstanding (store s)"
    by (rule outstanding_same) (simp_all add: store_writes)
  ultimately have "solvent (store ?s1)"
    using solvent_parts(1) [OF sol] by (simp add: solvent_def funded_def)
  moreover have "\<exists>accs props. ?s1 = s\<lparr>store := (store s)\<lparr>accounts := accs, params_update_proposals := props\<rparr>\<rparr>"
    by (simp add: on_store_def store_writes) blast
  moreover have "params_update_proposal (store ?s1) = (params_update_proposal (store s))
      (?pid \<mapsto> expire_one (current_epoch s) p)"
    using st by (simp add: fun_eq_iff params_update_proposal_def store_writes expire_one_def)
  ultimately show ?thesis using that run sup by blast
qed

lemma expire_proposals_ok:
  assumes "solvent (store s)" "distinct (map gp_proposal_id ps)"
    and "\<And>p. p \<in> set ps \<Longrightarrow> params_update_proposal (store s) (gp_proposal_id p) = Some p"
  shows "\<exists>s'. expire_proposals ps s = (Inr (), s') \<and> solvent (store s')
    \<and> total_supply (store s') + expired_bonds (current_epoch s) ps = total_supply (store s)
    \<and> (\<exists>accs props. s' = s\<lparr>store := (store s)\<lparr>accounts := accs, params_update_proposals := props\<rparr>\<rparr>)
    \<and> (\<forall>pid. params_update_proposal (store s') pid =
         map_option (\<lambda>p. if p \<in> set ps then expire_one (current_epoch s) p else p)
           (params_update_proposal (store s) pid))"
  using assms
proof (induction ps arbitrary: s)
  case Nil
  then show ?case
    by (auto simp: expired_bonds_def option.map_ident
        intro!: exI [of _ "accounts (store s)"] exI [of _ "params_update_proposals (store s)"])
next
  case (Cons p ps)
  note prem = Cons.prems
  have ids: "q \<in> set ps \<Longrightarrow> gp_proposal_id q \<noteq> gp_proposal_id p" for q
    using prem(2) by (metis distinct.simps(2) image_eqI list.set_map list.simps(9))
  show ?case
  proof (cases "stale (current_epoch s) p")
    case False
    then have run: "expire_proposals (p # ps) s = expire_proposals ps s"
      and bonds: "expired_bonds (current_epoch s) (p # ps) = expired_bonds (current_epoch s) ps"
      and same: "(if q \<in> set (p # ps) then expire_one (current_epoch s) q else q)
        = (if q \<in> set ps then expire_one (current_epoch s) q else q)" for q
      by (auto simp: stale_def expired_bonds_def expire_one_def not_le)
    show ?thesis
      unfolding run bonds same using prem by (intro Cons.IH) auto
  next
    case True
    from expire_step [OF prem(1) prem(3) True] obtain s1 where
      s1: "expire_proposals (p # ps) s = expire_proposals ps s1" "solvent (store s1)"
        "total_supply (store s1) + unat (gp_bond_amount p) = total_supply (store s)"
        "\<exists>accs props. s1 = s\<lparr>store := (store s)\<lparr>accounts := accs, params_update_proposals := props\<rparr>\<rparr>"
        "params_update_proposal (store s1) = (params_update_proposal (store s))
          (gp_proposal_id p \<mapsto> expire_one (current_epoch s) p)"
      by auto
    from s1(4) have ep: "current_epoch s1 = current_epoch s" by auto
    have "params_update_proposal (store s1) (gp_proposal_id q) = Some q" if "q \<in> set ps" for q
      using prem(3) [of q] that ids [OF that] by (simp add: s1(5))
    moreover have "distinct (map gp_proposal_id ps)" using prem(2) by simp
    ultimately have "\<exists>s'. expire_proposals ps s1 = (Inr (), s') \<and> solvent (store s')
        \<and> total_supply (store s') + expired_bonds (current_epoch s) ps = total_supply (store s1)
        \<and> (\<exists>accs props. s' = s1\<lparr>store := (store s1)\<lparr>accounts := accs, params_update_proposals := props\<rparr>\<rparr>)
        \<and> (\<forall>pid. params_update_proposal (store s') pid =
             map_option (\<lambda>p. if p \<in> set ps then expire_one (current_epoch s) p else p)
               (params_update_proposal (store s1) pid))"
      unfolding ep [symmetric] by (intro Cons.IH s1(2))
    then obtain s' where
      s': "expire_proposals ps s1 = (Inr (), s')" "solvent (store s')"
        "total_supply (store s') + expired_bonds (current_epoch s) ps = total_supply (store s1)"
        "\<exists>accs props. s' = s1\<lparr>store := (store s1)\<lparr>accounts := accs, params_update_proposals := props\<rparr>\<rparr>"
        "\<And>pid. params_update_proposal (store s') pid =
          map_option (\<lambda>p. if p \<in> set ps then expire_one (current_epoch s) p else p)
            (params_update_proposal (store s1) pid)"
      by blast
    have "expire_one (current_epoch s) p \<notin> set ps"
      using ids [of "expire_one (current_epoch s) p"] by (auto simp: expire_one_def)
    moreover have "q \<noteq> p" if "params_update_proposal (store s) pid = Some q" "pid \<noteq> gp_proposal_id p" for pid q
      using that anchored_proposal [OF solvent_parts(3) [OF prem(1)]] by blast
    ultimately have "params_update_proposal (store s') pid =
        map_option (\<lambda>q. if q \<in> set (p # ps) then expire_one (current_epoch s) q else q)
          (params_update_proposal (store s) pid)" for pid
      using prem(3) [of p] by (cases "params_update_proposal (store s) pid") (auto simp: s'(5) s1(5))
    moreover have "\<exists>accs props. s' = s\<lparr>store := (store s)\<lparr>accounts := accs, params_update_proposals := props\<rparr>\<rparr>"
      using s1(4) s'(4) by (elim exE) (simp, blast)
    moreover have "total_supply (store s') + expired_bonds (current_epoch s) (p # ps) = total_supply (store s)"
      using s1(3) s'(3) True by (simp add: expired_bonds_def)
    ultimately show ?thesis
      unfolding s1(1) s'(1) using s'(2) by blast
  qed
qed


definition activate_one :: "epoch_id \<Rightarrow> governance_proposal \<Rightarrow> governance_proposal" where
  "activate_one epoch p =
     (if gp_state p = ProposalScheduled \<and> gp_effective_epoch p = epoch
      then p\<lparr>gp_state := ProposalActivated\<rparr> else p)"

lemma activate_proposals_spec:
  assumes "distinct (map gp_proposal_id ps)" "\<And>pid p. params_update_proposal (store s) pid = Some p \<Longrightarrow> gp_proposal_id p = pid"
    and "\<And>p. p \<in> set ps \<Longrightarrow> params_update_proposal (store s) (gp_proposal_id p) = Some p"
  shows "params_update_proposal (store (activate_proposals ps s)) pid =
    map_option (\<lambda>p. if p \<in> set ps then activate_one (current_epoch s) p else p) (params_update_proposal (store s) pid)"
  using assms
proof (induction ps arbitrary: s)
  case (Cons p ps)
  note prem = Cons.prems
  have ids: "q \<in> set ps \<Longrightarrow> gp_proposal_id q \<noteq> gp_proposal_id p" for q
    using prem(1) by (metis distinct.simps(2) image_eqI list.set_map list.simps(9))
  define s1 where "s1 = (if gp_state p = ProposalScheduled \<and> gp_effective_epoch p = current_epoch s
      then on_store (write_params_update_proposal (gp_proposal_id p) (p\<lparr>gp_state := ProposalActivated\<rparr>)) s else s)"
  have run: "activate_proposals (p # ps) s = activate_proposals ps s1"
    using prem(3) [of p] by (simp add: s1_def)
  have ep: "current_epoch s1 = current_epoch s" by (simp add: s1_def)
  have s1: "params_update_proposal (store s1) q =
      (if q = gp_proposal_id p then Some (activate_one (current_epoch s) p) else params_update_proposal (store s) q)" for q
    using prem(3) [of p] by (auto simp: s1_def activate_one_def params_update_proposal_def store_writes)
  have IH: "params_update_proposal (store (activate_proposals ps s1)) pid =
      map_option (\<lambda>p. if p \<in> set ps then activate_one (current_epoch s) p else p) (params_update_proposal (store s1) pid)"
    unfolding ep [symmetric]
  proof (rule Cons.IH)
    show "distinct (map gp_proposal_id ps)" using prem(1) by simp
    show "gp_proposal_id q = pid" if "params_update_proposal (store s1) pid = Some q" for pid q
      using that prem(2) by (auto simp: s1 activate_one_def split: if_splits)
    show "params_update_proposal (store s1) (gp_proposal_id q) = Some q" if "q \<in> set ps" for q
      using that prem(3) [of q] ids [OF that] by (simp add: s1)
  qed
  have "activate_one (current_epoch s) p \<notin> set ps"
    using ids [of "activate_one (current_epoch s) p"] by (auto simp: activate_one_def)
  moreover have "q \<noteq> p" if "params_update_proposal (store s) pid = Some q" "pid \<noteq> gp_proposal_id p" for q
    using that prem(2) by blast
  ultimately show ?case
    unfolding run IH using prem(3) [of p] by (cases "params_update_proposal (store s) pid") (auto simp: s1)
qed (simp add: option.map_ident)

lemma proposals_iter:
  assumes "anchored st"
  shows "distinct (map gp_proposal_id (params_update_proposals_iter st))"
    and "p \<in> set (params_update_proposals_iter st) \<longleftrightarrow> params_update_proposal st (gp_proposal_id p) = Some p"
proof -
  have key: "gp_proposal_id q = k" if "(k, q) \<in> set (bt_entries (params_update_proposals st))" for k q
    using that assms by (auto simp: bt.ents_iff params_update_proposal_def dest: anchored_proposal [unfolded params_update_proposal_def])
  have "map gp_proposal_id (params_update_proposals_iter st) = map fst (bt_entries (params_update_proposals st))"
    using key by (auto simp: params_update_proposals_iter_def bt_values_def)
  then show "distinct (map gp_proposal_id (params_update_proposals_iter st))"
    using bt.distinct_ents by metis
  show "p \<in> set (params_update_proposals_iter st) \<longleftrightarrow> params_update_proposal st (gp_proposal_id p) = Some p"
    using anchored_proposal [OF assms, of _ p]
    by (auto simp: params_update_proposals_iter_def bt_values_set params_update_proposal_def)
qed


lemma bt_total_map:
  assumes "\<And>k. bt_get m' k = map_option (g k) (bt_get m k)"
    and "\<And>k v. bt_get m k = Some v \<Longrightarrow> f (g k v) = f v"
  shows "bt_total f m' = bt_total f m"
proof -
  have total: "bt_total f n = (\<Sum>k\<in>dom (bt_get n). f (the (bt_get n k)))" for n
    using bt.total_dom [of "\<lambda>_. f" n] by (simp add: bt_total_entries)
  have "dom (bt_get m') = dom (bt_get m)"
    using assms(1) by (auto simp: dom_def)
  moreover have "f (the (bt_get m' k)) = f (the (bt_get m k))" if "k \<in> dom (bt_get m)" for k
    using that assms by auto
  ultimately show ?thesis by (simp add: total)
qed

definition stale_bonds :: "epoch_id \<Rightarrow> in_memory_store \<Rightarrow> nat" where
  "stale_bonds epoch st =
     bt_total (\<lambda>p. if stale epoch p then unat (gp_bond_amount p) else 0) (params_update_proposals st)"

lemma expired_bonds_iter: "expired_bonds epoch (params_update_proposals_iter st) = stale_bonds epoch st"
proof -
  have "expired_bonds epoch ps = (\<Sum>p\<leftarrow>ps. if stale epoch p then unat (gp_bond_amount p) else 0)" for ps
    by (induction ps) (simp_all add: expired_bonds_def)
  then show ?thesis
    by (simp add: stale_bonds_def bt_total_def params_update_proposals_iter_def)
qed

text \<open>What \<open>finalize_epoch\<close> does when it moves the state to epoch \<open>epoch\<close>.\<close>

definition scheduled_at :: "epoch_id \<Rightarrow> protocol_state \<Rightarrow> protocol_params" where
  "scheduled_at epoch s =
     (case scheduled_params_for (store s) epoch of None \<Rightarrow> params s | Some p \<Rightarrow> p)"

definition close_proposal :: "epoch_id \<Rightarrow> in_memory_store \<Rightarrow> governance_proposal \<Rightarrow> governance_proposal" where
  "close_proposal epoch st p =
     expire_one epoch (if scheduled_params_for st epoch = None then p else activate_one epoch p)"

lemma activate_scheduled_ok:
  assumes sol: "solvent (store s)"
  shows "\<exists>props. let e = current_epoch s; s' = activate_scheduled_protocol_params s in
    solvent (store s')
    \<and> (\<forall>pid. params_update_proposal (store s') pid =
         map_option (\<lambda>p. if scheduled_params_for (store s) e = None then p else activate_one e p)
           (params_update_proposal (store s) pid))
    \<and> s' = s\<lparr>store := (store s)\<lparr>
         scheduled_protocol_params := bt_remove e (scheduled_protocol_params (store s)),
         params_update_proposals := props\<rparr>, params := scheduled_at e s\<rparr>"
proof -
  let ?e = "current_epoch s"
  let ?st = "(store s)\<lparr>scheduled_protocol_params := bt_remove ?e (scheduled_protocol_params (store s))\<rparr>"
  have sol1: "solvent ?st"
    using sol by (simp add: solvent_def funded_def backed_def anchored_def total_supply_def outstanding_def
        owed_def owed_challenges_def owed_proposals_def locked_of_def account_def open_challenge_def
        params_update_proposal_def)
  have get: "params_update_proposal ?st = params_update_proposal (store s)"
    by (simp add: params_update_proposal_def fun_eq_iff)
  show ?thesis
  proof (cases "scheduled_params_for (store s) ?e")
    case None
    then have "activate_scheduled_protocol_params s = s\<lparr>store := ?st\<rparr>"
      by (simp add: activate_scheduled_protocol_params_def take_scheduled_protocol_params_def scheduled_params_for_def)
    with None sol1 show ?thesis
      by (intro exI [of _ "params_update_proposals (store s)"])
        (simp add: Let_def scheduled_at_def get option.map_ident)
  next
    case (Some p)
    let ?s1 = "s\<lparr>store := ?st, params := p\<rparr>" and ?ps = "params_update_proposals_iter ?st"
    have run: "activate_scheduled_protocol_params s = activate_proposals ?ps ?s1"
      using Some by (simp add: activate_scheduled_protocol_params_def take_scheduled_protocol_params_def
          scheduled_params_for_def)
    note iter = proposals_iter [OF solvent_parts(3) [OF sol1]]
    have all: "q \<in> set ?ps" if "params_update_proposal (store s) pid = Some q" for pid q
      using that iter(2) anchored_proposal [OF solvent_parts(3) [OF sol]] get by metis
    have keyed: "gp_proposal_id q = pid" if "params_update_proposal (store ?s1) pid = Some q" for pid q
      using that anchored_proposal [OF solvent_parts(3) [OF sol1], of pid q] by simp
    have here: "params_update_proposal (store ?s1) (gp_proposal_id q) = Some q" if "q \<in> set ?ps" for q
      using that iter(2) by simp
    have step: "params_update_proposal (store (activate_proposals ?ps ?s1)) pid =
        map_option (\<lambda>p. if p \<in> set ?ps then activate_one ?e p else p) (params_update_proposal ?st pid)" for pid
      using activate_proposals_spec [of ?ps ?s1 pid, OF iter(1) keyed here] by (simp cong: if_cong)
    have spec: "params_update_proposal (store (activate_proposals ?ps ?s1)) pid =
        map_option (activate_one ?e) (params_update_proposal (store s) pid)" for pid
      unfolding step using all by (cases "params_update_proposal (store s) pid") (simp_all add: get)
    obtain props where frame: "activate_proposals ?ps ?s1 = ?s1\<lparr>store := (store ?s1)\<lparr>params_update_proposals := props\<rparr>\<rparr>"
      using activate_proposals_frame by blast
    from sol1 have "solvent (store (activate_proposals ?ps ?s1))"
      by (intro activate_proposals_solvent) simp
    with spec frame Some show ?thesis
      unfolding run by (intro exI [of _ props]) (simp add: Let_def scheduled_at_def protocol_state.equality)
  qed
qed


text \<open>The tables that closing an epoch leaves alone.\<close>

definition untouched_by_closing :: "in_memory_store \<Rightarrow> in_memory_store \<Rightarrow> bool" where
  "untouched_by_closing st st' \<longleftrightarrow>
     nodes st' = nodes st \<and> storage_offers st' = storage_offers st \<and> batches st' = batches st
   \<and> epoch_commits st' = epoch_commits st \<and> open_challenges st' = open_challenges st
   \<and> resolved_challenges st' = resolved_challenges st \<and> challenge_resolutions st' = challenge_resolutions st
   \<and> reward_records st' = reward_records st \<and> claimed_rewards st' = claimed_rewards st
   \<and> delegations st' = delegations st \<and> unbonding_queue st' = unbonding_queue st \<and> votes st' = votes st
   \<and> challenge_responses st' = challenge_responses st"

definition may_close :: "epoch_id \<Rightarrow> protocol_state \<Rightarrow> bool" where
  "may_close epoch s \<longleftrightarrow> \<not> is_epoch_finalized (store s) epoch
     \<and> (\<exists>commit. epoch_commit (store s) epoch = Some commit \<and> ec_challenge_deadline_height commit < height s)
     \<and> \<not> has_open_challenges_for_epoch (store s) epoch"

lemma finalize_epoch_unfold:
  assumes "may_close epoch s"
  shows "finalize_epoch epoch s =
      (if current_epoch s \<le> epoch
       then try_then (expire_stale_params_update_proposals
          (activate_scheduled_protocol_params (on_store (mark_epoch_finalized epoch) s\<lparr>current_epoch := epoch + 1\<rparr>)))
          (\<lambda>_ s2. (Inr (EpochFinalized epoch), s2))
       else (Inr (EpochFinalized epoch), on_store (mark_epoch_finalized epoch) s))"
proof -
  from assms obtain commit where "epoch_commit (store s) epoch = Some commit"
    "\<not> height s \<le> ec_challenge_deadline_height commit" by (auto simp: may_close_def not_le)
  then show ?thesis
    using assms by (simp add: finalize_epoch_def may_close_def)
qed

lemma finalize_epoch_refuses:
  "\<not> may_close epoch s \<Longrightarrow> \<exists>e. finalize_epoch epoch s = (Inl e, s)"
  by (cases "epoch_commit (store s) epoch") (auto simp: finalize_epoch_def may_close_def Let_def not_le)

lemma mark_epoch_finalized_solvent: "solvent st \<Longrightarrow> solvent (mark_epoch_finalized epoch st)"
  by (simp add: solvent_def funded_def backed_def anchored_def total_supply_def outstanding_def
      owed_def owed_challenges_def owed_proposals_def locked_of_def account_def open_challenge_def
      params_update_proposal_def store_writes)

lemma finalize_epoch_past:
  assumes "solvent (store s)" "may_close epoch s" "epoch < current_epoch s"
  shows "finalize_epoch epoch s = (Inr (EpochFinalized epoch), on_store (mark_epoch_finalized epoch) s)"
    and "solvent (store (on_store (mark_epoch_finalized epoch) s))"
  using assms mark_epoch_finalized_solvent by (simp_all add: finalize_epoch_unfold not_le [symmetric])

lemma finalize_epoch_advances:
  assumes sol: "solvent (store s)" and may: "may_close epoch s" and adv: "current_epoch s \<le> epoch"
  shows "\<exists>s'. finalize_epoch epoch s = (Inr (EpochFinalized epoch), s') \<and> solvent (store s')
    \<and> height s' = height s \<and> current_epoch s' = epoch + 1 \<and> params s' = scheduled_at (epoch + 1) s
    \<and> finalized_epochs (store s') = bs_insert epoch (finalized_epochs (store s))
    \<and> scheduled_protocol_params (store s') = bt_remove (epoch + 1) (scheduled_protocol_params (store s))
    \<and> untouched_by_closing (store s) (store s')
    \<and> total_supply (store s') + stale_bonds (epoch + 1) (store s) = total_supply (store s)
    \<and> (\<forall>pid. params_update_proposal (store s') pid =
         map_option (close_proposal (epoch + 1) (store s)) (params_update_proposal (store s) pid))"
proof -
  let ?e = "epoch + 1"
  define s1 where "s1 = on_store (mark_epoch_finalized epoch) s\<lparr>current_epoch := epoch + 1\<rparr>"
  define s2 where "s2 = activate_scheduled_protocol_params s1"
  have s1: "store s1 = mark_epoch_finalized epoch (store s)" "height s1 = height s" "current_epoch s1 = ?e"
    "params s1 = params s" by (simp_all add: s1_def)
  let ?act = "\<lambda>p. if scheduled_params_for (store s) ?e = None then p else activate_one ?e p"
  have same: "scheduled_params_for (store s1) = scheduled_params_for (store s)"
    "params_update_proposal (store s1) = params_update_proposal (store s)" "scheduled_at ?e s1 = scheduled_at ?e s"
    by (simp_all add: s1 scheduled_params_for_def params_update_proposal_def scheduled_at_def store_writes fun_eq_iff
        split: option.split)
  have "solvent (store s1)" using sol mark_epoch_finalized_solvent by (simp add: s1)
  from activate_scheduled_ok [OF this] obtain props where
    s2: "solvent (store s2)"
      "params_update_proposal (store s2) pid = map_option ?act (params_update_proposal (store s) pid)"
      "s2 = s1\<lparr>store := (store s1)\<lparr>
         scheduled_protocol_params := bt_remove ?e (scheduled_protocol_params (store s1)),
         params_update_proposals := props\<rparr>, params := scheduled_at ?e s\<rparr>" for pid
    unfolding Let_def s2_def [symmetric] same s1(3) by blast
  let ?ps = "params_update_proposals_iter (store s2)"
  note iter = proposals_iter [OF solvent_parts(3) [OF s2(1)]]
  from expire_proposals_ok [OF s2(1) iter(1)] iter(2) obtain s' where
    s': "expire_proposals ?ps s2 = (Inr (), s')" "solvent (store s')"
      "total_supply (store s') + expired_bonds (current_epoch s2) ?ps = total_supply (store s2)"
      "\<exists>accs props. s' = s2\<lparr>store := (store s2)\<lparr>accounts := accs, params_update_proposals := props\<rparr>\<rparr>"
      "\<And>pid. params_update_proposal (store s') pid = map_option (\<lambda>p. if p \<in> set ?ps
        then expire_one (current_epoch s2) p else p) (params_update_proposal (store s2) pid)"
    by blast
  have e2: "current_epoch s2 = ?e" by (simp add: s2(3) s1)
  have "q \<in> set ?ps" if "params_update_proposal (store s2) pid = Some q" for pid q
    using that iter(2) anchored_proposal [OF solvent_parts(3) [OF s2(1)]] by blast
  then have "params_update_proposal (store s') pid = map_option (close_proposal ?e (store s))
      (params_update_proposal (store s) pid)" for pid
    using s2(2) [of pid] by (cases "params_update_proposal (store s) pid") (auto simp: s'(5) e2 close_proposal_def)
  moreover have "stale_bonds ?e (store s2) = stale_bonds ?e (store s)"
    unfolding stale_bonds_def
    by (rule bt_total_map [of _ "\<lambda>_. ?act"])
      (use s2(2) in \<open>auto simp: params_update_proposal_def stale_def activate_one_def\<close>)
  then have "total_supply (store s') + stale_bonds ?e (store s) = total_supply (store s)"
    using s'(3) by (simp add: e2 expired_bonds_iter) (simp add: s2(3) s1 total_supply_def store_writes)
  moreover have "finalize_epoch epoch s = (Inr (EpochFinalized epoch), s')"
    using s'(1) adv by (simp add: finalize_epoch_unfold [OF may] expire_stale_params_update_proposals_def
        s2_def [symmetric] s1_def [symmetric])
  moreover have "height s' = height s" "current_epoch s' = ?e" "params s' = scheduled_at ?e s"
    "finalized_epochs (store s') = bs_insert epoch (finalized_epochs (store s))"
    "scheduled_protocol_params (store s') = bt_remove ?e (scheduled_protocol_params (store s))"
    "untouched_by_closing (store s) (store s')"
    using s'(4) by (auto simp: s2(3) s1 store_writes untouched_by_closing_def)
  ultimately show ?thesis using s'(2) by blast
qed

end
