(* ===== verification/Chain.thy ===== *)
theory Chain
  imports Epochs
begin

text \<open>
  Invariants of the protocol state over whole blocks and over every public entry point of
  \<open>ProtocolState\<close> and \<open>execute_block\<close>. A state is \<open>sound\<close> when its funds are \<open>solvent\<close>, its
  finalized epochs are \<open>settled\<close> (committed, past their challenge window, with no challenge left
  open) and it is \<open>governed\<close> (the parameters in force and every scheduled set pass validation).
  The locale \<open>block_invariant\<close> lifts a property of one transaction to a property of blocks; the
  step relation \<open>protocol_step\<close> has one rule per entry point.
\<close>

subsection \<open>What no transaction touches\<close>

text \<open>The outcomes of a transaction that is not a vote, one rule per kind.\<close>

lemmas transition_rules =
  apply_transfer_rule apply_stake_rule apply_unbond_rule apply_claim_reward_rule apply_submit_batch_rule
  apply_commit_epoch_rule apply_open_challenge_rule apply_challenge_response_rule apply_propose_rule

definition steady :: "protocol_state \<Rightarrow> protocol_state \<Rightarrow> bool" where
  "steady s s' \<longleftrightarrow> height s' = height s \<and> current_epoch s' = current_epoch s \<and> params s' = params s
     \<and> finalized_epochs (store s') = finalized_epochs (store s)
     \<and> reward_records (store s') = reward_records (store s)
     \<and> storage_offers (store s') = storage_offers (store s)
     \<and> resolved_challenges (store s') = resolved_challenges (store s)
     \<and> challenge_resolutions (store s') = challenge_resolutions (store s)"

lemma try_schedule_steady: "steady s (snd (try_schedule_params_update_after_vote pid s))"
  by (rule try_schedule_rule) (simp_all add: steady_def store_writes)

lemma vote_steady: "steady s (snd (apply_vote env tx s))"
proof (rule apply_vote_rule, goal_cases)
  case (2 voter s2 r s3)
  then show ?case
    using try_schedule_steady [of s2 "vt_proposal_id tx"] by (simp add: steady_def store_writes)
qed (simp add: steady_def)

lemma apply_transaction_steady: "steady s (snd (apply_transaction env tx s))"
  by (cases tx; simp only: apply_transaction.simps vote_steady;
      rule transition_rules [where Q = "\<lambda>r. steady s (snd r)"]; simp add: steady_def store_writes)

subsection \<open>Finality\<close>

definition settled :: "protocol_state \<Rightarrow> bool" where
  "settled s \<longleftrightarrow> (\<forall>epoch. is_epoch_finalized (store s) epoch \<longrightarrow>
     (\<exists>commit. epoch_commit (store s) epoch = Some commit \<and> ec_challenge_deadline_height commit < height s)
     \<and> \<not> has_open_challenges_for_epoch (store s) epoch)"

lemma has_open_challenges_iff:
  "has_open_challenges_for_epoch st epoch \<longleftrightarrow> (\<exists>cid c. open_challenge st cid = Some c \<and> ch_epoch_id c = epoch)"
  by (simp add: has_open_challenges_for_epoch_def list_ex_iff bt_values_set open_challenge_def Bex_def) blast

lemma settled_step:
  assumes "settled s" "height s \<le> height s'"
    and "\<And>epoch. is_epoch_finalized (store s') epoch \<Longrightarrow> is_epoch_finalized (store s) epoch"
    and "\<And>epoch commit. epoch_commit (store s) epoch = Some commit \<Longrightarrow> epoch_commit (store s') epoch = Some commit"
    and "\<And>cid c. open_challenge (store s') cid = Some c \<Longrightarrow>
      (\<exists>d. open_challenge (store s) cid = Some d \<and> ch_epoch_id d = ch_epoch_id c)
      \<or> \<not> is_epoch_finalized (store s) (ch_epoch_id c)"
  shows "settled s'"
  unfolding settled_def
proof (intro allI impI conjI)
  fix epoch assume fin: "is_epoch_finalized (store s') epoch"
  with assms(1,3) obtain commit where "epoch_commit (store s) epoch = Some commit"
    "ec_challenge_deadline_height commit < height s" by (auto simp: settled_def)
  with assms(2,4) show "\<exists>commit. epoch_commit (store s') epoch = Some commit
      \<and> ec_challenge_deadline_height commit < height s'" by force
  show "\<not> has_open_challenges_for_epoch (store s') epoch"
    using assms(1) assms(3) [OF fin] assms(5) by (fastforce simp: settled_def has_open_challenges_iff)
qed

lemmas settled_reads = epoch_commit_def open_challenge_def is_epoch_finalized_def

lemma try_schedule_settled:
  "settled s \<Longrightarrow> settled (snd (try_schedule_params_update_after_vote pid s))"
  by (rule try_schedule_rule [where Q = "\<lambda>r. settled (snd r)"]; erule settled_step)
    (auto simp: store_writes settled_reads)

lemma vote_settled: "settled s \<Longrightarrow> settled (snd (apply_vote env tx s))"
proof (rule apply_vote_rule [where Q = "\<lambda>r. settled (snd r)"], goal_cases)
  case (2 voter s2 r s3)
  have "settled s2"
    using 2(1) by (rule settled_step) (auto simp: 2(9) store_writes settled_reads)
  then show ?case
    using try_schedule_settled [of s2 "vt_proposal_id tx"] 2(10) by simp
qed simp

lemma open_challenge_settled:
  assumes "settled s"
  shows "settled (snd (apply_open_challenge env tx s))"
proof (rule apply_open_challenge_rule [where Q = "\<lambda>r. settled (snd r)"], goal_cases)
  case (2 c commit challenger)
  have "\<not> is_epoch_finalized (store s) (ch_epoch_id c)"
    using assms 2(6-8) by (force simp: settled_def)
  with assms show ?case
    by (elim settled_step) (auto simp: store_writes settled_reads split: if_splits)
qed (simp add: assms)

lemma apply_transaction_settled: "settled s \<Longrightarrow> settled (snd (apply_transaction env tx s))"
proof (cases tx)
  case (OpenChallenge tx')
  then show "settled s \<Longrightarrow> ?thesis" by (simp add: open_challenge_settled)
next
  case (Vote tx')
  then show "settled s \<Longrightarrow> ?thesis" by (simp add: vote_settled)
qed (simp only: apply_transaction.simps, rule transition_rules [where Q = "\<lambda>r. settled (snd r)"];
    erule settled_step; auto simp: store_writes settled_reads split: if_splits)+


subsection \<open>Parameters\<close>

definition governed :: "protocol_state \<Rightarrow> bool" where
  "governed s \<longleftrightarrow> validate (params s) = Inr ()
     \<and> (\<forall>epoch p. scheduled_params_for (store s) epoch = Some p \<longrightarrow> validate p = Inr ())"

lemma governed_step:
  assumes "governed s" "params s' = params s \<or> (\<exists>epoch. scheduled_params_for (store s) epoch = Some (params s'))"
    and "\<And>epoch p. scheduled_params_for (store s') epoch = Some p \<Longrightarrow>
      scheduled_params_for (store s) epoch = Some p \<or> validate p = Inr ()"
  shows "governed s'"
  using assms by (fastforce simp: governed_def)

lemma try_schedule_governed:
  "governed s \<Longrightarrow> governed (snd (try_schedule_params_update_after_vote pid s))"
  by (rule try_schedule_rule [where Q = "\<lambda>r. governed (snd r)"]; erule governed_step)
    (auto simp: store_writes scheduled_params_for_def split: if_splits)

lemma vote_governed: "governed s \<Longrightarrow> governed (snd (apply_vote env tx s))"
proof (rule apply_vote_rule [where Q = "\<lambda>r. governed (snd r)"], goal_cases)
  case (2 voter s2 r s3)
  have "governed s2"
    using 2(1) by (rule governed_step) (auto simp: 2(9) store_writes scheduled_params_for_def)
  then show ?case
    using try_schedule_governed [of s2 "vt_proposal_id tx"] 2(10) by simp
qed simp

lemma apply_transaction_governed: "governed s \<Longrightarrow> governed (snd (apply_transaction env tx s))"
proof (cases tx)
  case (Vote tx')
  then show "governed s \<Longrightarrow> ?thesis" by (simp add: vote_governed)
qed (simp only: apply_transaction.simps, rule transition_rules [where Q = "\<lambda>r. governed (snd r)"];
    erule governed_step; auto simp: store_writes scheduled_params_for_def split: if_splits)+

subsection \<open>Blocks\<close>

definition sound :: "protocol_state \<Rightarrow> bool" where
  "sound s \<longleftrightarrow> solvent (store s) \<and> settled s \<and> governed s"

lemma soundD:
  assumes "sound s"
  shows "solvent (store s)" "settled s" "governed s"
  using assms by (simp_all add: sound_def)

text \<open>
  A property of the state that survives one transaction and one release of matured requests
  survives every block, whatever its result.
\<close>

locale block_invariant =
  fixes env :: crypto_env and inv :: "protocol_state \<Rightarrow> bool"
  assumes transaction_keeps: "inv s \<Longrightarrow> inv (snd (apply_transaction env tx s))"
    and release_keeps: "inv s \<Longrightarrow> height s < h \<Longrightarrow> inv (snd (process_mature_unbonds (s\<lparr>height := h\<rparr>)))"
begin

lemma transactions_keep: "inv s \<Longrightarrow> inv (snd (execute_transactions env txs effects s))"
proof (induction txs arbitrary: effects s)
  case (Cons tx txs)
  show ?case
    using transaction_keeps [OF Cons.prems, of tx] Cons.IH
    by (cases "apply_transaction env tx s"; cases "fst (apply_transaction env tx s)") auto
qed simp

lemma block_keeps:
  assumes "inv s"
  shows "inv (snd (execute_block env blk s))"
proof (cases "blk_height blk \<le> height s")
  case False
  then have "inv (snd (process_mature_unbonds (s\<lparr>height := blk_height blk\<rparr>)))"
    using release_keeps [OF assms] by simp
  with False show ?thesis
    by (cases "process_mature_unbonds (s\<lparr>height := blk_height blk\<rparr>)"; cases "fst (process_mature_unbonds
        (s\<lparr>height := blk_height blk\<rparr>))")
      (auto simp: execute_block_def from_transition_error_def transactions_keep)
qed (simp add: assms execute_block_def)

end

lemma release_sound:
  assumes "sound s" "height s < h"
  shows "sound (snd (process_mature_unbonds (s\<lparr>height := h\<rparr>)))"
proof -
  let ?s = "s\<lparr>height := h\<rparr>"
  have "solvent (store ?s)" using assms(1) by (simp add: sound_def)
  from process_mature_unbonds_ok [OF this] obtain s' where
    run: "process_mature_unbonds ?s = (Inr (map matured_effect (filter (\<lambda>r. ub_unlock_height r \<le> height ?s)
        (unbonding_queue (store ?s)))), s')" "solvent (store s')"
      and frame: "\<exists>accs. s' = ?s\<lparr>store := (store ?s)\<lparr>accounts := accs, unbonding_queue := unbonding_queue (store s')\<rparr>\<rparr>"
    by blast
  from frame obtain accs q where s': "s' = ?s\<lparr>store := (store ?s)\<lparr>accounts := accs, unbonding_queue := q\<rparr>\<rparr>" ..

  have "settled s'"
    using soundD(2) [OF assms(1)] by (rule settled_step) (use assms(2) in \<open>auto simp: s' settled_reads\<close>)
  moreover have "governed s'"
    using soundD(3) [OF assms(1)] by (rule governed_step) (auto simp: s' scheduled_params_for_def)
  ultimately show ?thesis using run by (simp add: sound_def)
qed

interpretation sound_blocks: block_invariant env sound for env
proof
  show "sound (snd (apply_transaction env tx s))" if "sound s" for s tx
    using soundD [OF that] by (simp add: sound_def apply_transaction_solvent apply_transaction_settled
        apply_transaction_governed)
qed (rule release_sound)


subsection \<open>The other entry points\<close>

lemma finalize_epoch_sound:
  assumes "sound s"
  shows "sound (snd (finalize_epoch epoch s))"
proof (cases "may_close epoch s")
  case False
  then show ?thesis using finalize_epoch_refuses [OF False] assms by auto
next
  case True
  then obtain commit where commit: "epoch_commit (store s) epoch = Some commit"
      "ec_challenge_deadline_height commit < height s" and quiet: "\<not> has_open_challenges_for_epoch (store s) epoch"
    by (auto simp: may_close_def)
  have fin: "settled s'" if "height s' = height s" "epoch_commits (store s') = epoch_commits (store s)"
      "open_challenges (store s') = open_challenges (store s)"
      "finalized_epochs (store s') = bs_insert epoch (finalized_epochs (store s))" for s'
    using that commit quiet soundD(2) [OF assms]
    by (auto simp: settled_def settled_reads has_open_challenges_for_epoch_def)
  show ?thesis
  proof (cases "current_epoch s \<le> epoch")
    case True
    from finalize_epoch_advances [OF soundD(1) [OF assms] \<open>may_close epoch s\<close> True] obtain s' where
      s': "finalize_epoch epoch s = (Inr (EpochFinalized epoch), s')" "solvent (store s')" "height s' = height s"
        "params s' = scheduled_at (epoch + 1) s"
        "finalized_epochs (store s') = bs_insert epoch (finalized_epochs (store s))"
        "scheduled_protocol_params (store s') = bt_remove (epoch + 1) (scheduled_protocol_params (store s))"
        "untouched_by_closing (store s) (store s')"
      by blast
    have "settled s'" using s'(3,5,7) by (intro fin) (simp_all add: untouched_by_closing_def)
    moreover have "governed s'"
      using soundD(3) [OF assms]
      by (rule governed_step) (use s'(4,6) in \<open>auto simp: scheduled_at_def scheduled_params_for_def
          split: option.splits if_splits\<close>)
    ultimately show ?thesis using s'(1,2) by (simp add: sound_def)
  next
    case False
    let ?s' = "on_store (mark_epoch_finalized epoch) s"
    have "settled ?s'" by (rule fin) (simp_all add: store_writes)
    moreover have "governed ?s'"
      using soundD(3) [OF assms] by (rule governed_step) (simp_all add: store_writes scheduled_params_for_def)
    ultimately show ?thesis
      using finalize_epoch_past [OF soundD(1) [OF assms] True] False by (simp add: sound_def not_le)
  qed
qed

lemma resolve_challenge_sound:
  assumes "sound s"
    and "total_supply (store s) + outstanding (store s) + unat (snd (resolution_amounts res)) < 2 ^ 128 - 1"
  shows "sound (snd (resolve_challenge cid res s))"
proof -
  have "settled (snd (resolve_challenge cid res s))"
    by (rule resolve_challenge_rule [where Q = "\<lambda>r. settled (snd r)", OF _ _ _ _ refl];
        rule settled_step [OF soundD(2) [OF assms(1)]])
      (auto simp: store_writes settled_reads split: if_splits)
  moreover have "governed (snd (resolve_challenge cid res s))"
    by (rule resolve_challenge_rule [where Q = "\<lambda>r. governed (snd r)", OF _ _ _ _ refl];
        rule governed_step [OF soundD(3) [OF assms(1)]])
      (auto simp: store_writes scheduled_params_for_def)
  ultimately show ?thesis
    using resolve_challenge_ledger [OF soundD(1) [OF assms(1)] assms(2), of cid]
    by (simp add: sound_def resolution_ledger_def Let_def)
qed

lemma schedule_sound: "sound s \<Longrightarrow> sound (snd (schedule_protocol_params_update epoch p s))"
proof (rule schedule_rule [where Q = "\<lambda>r. sound (snd r)"], goal_cases)
  case 2
  have "solvent (insert_scheduled_protocol_params epoch p (store s))"
    using soundD(1) [OF 2(1)] by (simp add: solvent_def funded_def backed_def anchored_def total_supply_def
        outstanding_def owed_def owed_challenges_def owed_proposals_def locked_of_def account_def
        open_challenge_def params_update_proposal_def store_writes)
  moreover have "settled (on_store (insert_scheduled_protocol_params epoch p) s)"
    using soundD(2) [OF 2(1)] by (rule settled_step) (auto simp: store_writes settled_reads)
  moreover have "governed (on_store (insert_scheduled_protocol_params epoch p) s)"
    using soundD(3) [OF 2(1)] by (rule governed_step) (use 2(2) in \<open>auto simp: store_writes scheduled_params_for_def
        split: if_splits\<close>)
  ultimately show ?case by (simp add: sound_def)
qed simp

text \<open>
  The administrative writes: registering a node, opening an account that did not exist with
  nothing locked, and recording a reward. They are sound as long as the amounts fit.
\<close>

lemma upsert_node_sound: "sound s \<Longrightarrow> sound (upsert_node n s)"
  by (simp add: sound_def solvent_def funded_def backed_def anchored_def total_supply_def
      outstanding_def owed_def owed_challenges_def owed_proposals_def locked_of_def account_def
      open_challenge_def params_update_proposal_def upsert_node_def store_writes settled_def
      settled_reads has_open_challenges_for_epoch_def governed_def scheduled_params_for_def)

lemma upsert_reward_sound:
  "sound s \<Longrightarrow> funded (store (upsert_reward_record r s)) \<Longrightarrow> sound (upsert_reward_record r s)"
  by (simp add: sound_def solvent_def backed_def anchored_def
      owed_def owed_challenges_def owed_proposals_def locked_of_def account_def
      open_challenge_def params_update_proposal_def upsert_reward_record_def store_writes settled_def
      settled_reads has_open_challenges_for_epoch_def governed_def scheduled_params_for_def)

lemma upsert_account_sound:
  assumes "sound s" "account (store s) (acc_address a) = None" "funded (store (upsert_account a s))"
  shows "sound (upsert_account a s)"
proof -
  let ?s' = "upsert_account a s"
  have "backed (store ?s')"
    using soundD(1) [OF assms(1), THEN solvent_parts(2)]
    by (rule backed_same_owed) (use assms(2) in \<open>auto simp: upsert_account_def store_writes locked_of_def account_def\<close>)
  moreover have "anchored (store ?s')"
    using soundD(1) [OF assms(1), THEN solvent_parts(3)]
    by (rule anchored_step) (auto simp: upsert_account_def store_writes anchored_reads)
  moreover have "settled ?s'"
    using soundD(2) [OF assms(1)] by (rule settled_step) (auto simp: upsert_account_def store_writes settled_reads)
  moreover have "governed ?s'"
    using soundD(3) [OF assms(1)]
    by (rule governed_step) (auto simp: upsert_account_def store_writes scheduled_params_for_def)
  ultimately show ?thesis using assms(3) by (simp add: sound_def solvent_def)
qed

subsection \<open>Reachable states\<close>

inductive protocol_step :: "crypto_env \<Rightarrow> protocol_state \<Rightarrow> protocol_state \<Rightarrow> bool" for env where
  step_block: "protocol_step env s (snd (execute_block env blk s))"
| step_finalize: "protocol_step env s (snd (finalize_epoch epoch s))"
| step_schedule: "protocol_step env s (snd (schedule_protocol_params_update epoch p s))"
| step_resolve: "total_supply (store s) + outstanding (store s) + unat (snd (resolution_amounts res)) < 2 ^ 128 - 1
    \<Longrightarrow> protocol_step env s (snd (resolve_challenge cid res s))"
| step_node: "protocol_step env s (upsert_node n s)"
| step_account: "account (store s) (acc_address a) = None \<Longrightarrow> funded (store (upsert_account a s))
    \<Longrightarrow> protocol_step env s (upsert_account a s)"
| step_reward: "funded (store (upsert_reward_record r s)) \<Longrightarrow> protocol_step env s (upsert_reward_record r s)"

lemma protocol_step_sound: "protocol_step env s s' \<Longrightarrow> sound s \<Longrightarrow> sound s'"
  by (induction rule: protocol_step.induct)
    (simp_all add: sound_blocks.block_keeps finalize_epoch_sound schedule_sound resolve_challenge_sound
      upsert_node_sound upsert_account_sound upsert_reward_sound)

inductive reachable :: "crypto_env \<Rightarrow> protocol_state \<Rightarrow> protocol_state \<Rightarrow> bool" for env s0 where
  reach_start: "reachable env s0 s0"
| reach_step: "reachable env s0 s \<Longrightarrow> protocol_step env s s' \<Longrightarrow> reachable env s0 s'"

lemma reachable_sound: "reachable env s0 s \<Longrightarrow> sound s0 \<Longrightarrow> sound s"
  by (induction rule: reachable.induct) (auto intro: protocol_step_sound)

lemma new_state_sound:
  assumes "new_state p h epoch = Some s"
  shows "sound s"
proof -
  from assms have "validate p = Inr ()" "s = \<lparr>height = h, current_epoch = epoch, params = p, store = default_store\<rparr>"
    by (auto simp: new_state_def split: sum.splits)
  then show ?thesis
    by (simp add: sound_def solvent_def funded_def backed_def anchored_def settled_def governed_def default_store_def
        total_supply_def outstanding_def owed_def owed_challenges_def owed_proposals_def account_def
        open_challenge_def params_update_proposal_def scheduled_params_for_def is_epoch_finalized_def)
qed

end
