(* ===== verification/Guarantees.thy ===== *)
theory Guarantees
  imports Chain
begin

text \<open>
  What a single account holder can rely on: conservation of funds across a block, replay
  protection by nonces, who can debit whom, and one payment per reward.
\<close>

subsection \<open>Conservation across a block\<close>

definition fees :: "transition_effect list \<Rightarrow> nat" where
  "fees effects = (\<Sum>e\<leftarrow>effects. effect_fee e)"

definition minted :: "transition_effect list \<Rightarrow> nat" where
  "minted effects = (\<Sum>e\<leftarrow>effects. effect_minted e)"

lemma sums_append [simp]:
  "fees (xs @ ys) = fees xs + fees ys" "minted (xs @ ys) = minted xs + minted ys"
  "fees [e] = effect_fee e" "minted [e] = effect_minted e" "fees [] = 0" "minted [] = 0"
  by (simp_all add: fees_def minted_def)

lemma sums_matured [simp]: "fees (map matured_effect rs) = 0" "minted (map matured_effect rs) = 0"
  by (induction rs) (simp_all add: fees_def minted_def matured_effect_def)

lemma execute_transactions_conserve:
  assumes "solvent (store s)" "execute_transactions env txs effects s = (Inr effects', s')"
  shows "total_supply (store s') + fees effects' + minted effects = total_supply (store s) + minted effects' + fees effects"
    and "outstanding (store s') + minted effects' = outstanding (store s) + minted effects"
  using assms
proof (induction txs arbitrary: effects s)
  case (Cons tx txs)
  {
    case 1
    then obtain e s1 where run: "apply_transaction env tx s = (Inr e, s1)"
        "execute_transactions env txs (effects @ [e]) s1 = (Inr effects', s')"
      by (auto simp: try_then_Inr_iff)
    have "solvent (store s1)" "accounted (store s) (Inr e, s1)"
      using apply_transaction_solvent [OF 1(1), of env tx] apply_transaction_accounted [OF 1(1), of env tx] run(1)
      by simp_all
    with Cons.IH(1) [OF _ run(2)] show ?case by simp
  next
    case 2
    then obtain e s1 where run: "apply_transaction env tx s = (Inr e, s1)"
        "execute_transactions env txs (effects @ [e]) s1 = (Inr effects', s')"
      by (auto simp: try_then_Inr_iff)
    have "solvent (store s1)" "accounted (store s) (Inr e, s1)"
      using apply_transaction_solvent [OF 2(1), of env tx] apply_transaction_accounted [OF 2(1), of env tx] run(1)
      by simp_all
    with Cons.IH(2) [OF _ run(2)] show ?case by simp
  }
qed simp_all

lemma from_transition_error_Inr_iff:
  "from_transition_error r = (Inr x, s) \<longleftrightarrow> r = (Inr x, s)"
  by (cases r; cases "fst r") (auto simp: from_transition_error_def)

lemma execute_block_Inr:
  assumes "solvent (store s)" "execute_block env blk s = (Inr effects, s')"
  obtains s1 where "height s < blk_height blk"
    and "process_mature_unbonds (s\<lparr>height := blk_height blk\<rparr>) = (Inr (map matured_effect
      (filter (\<lambda>r. ub_unlock_height r \<le> blk_height blk) (unbonding_queue (store s)))), s1)"
    and "solvent (store s1)" "total_supply (store s1) = total_supply (store s)"
    and "outstanding (store s1) = outstanding (store s)"
    and "execute_transactions env (blk_transactions blk) (map matured_effect
      (filter (\<lambda>r. ub_unlock_height r \<le> blk_height blk) (unbonding_queue (store s)))) s1 = (Inr effects, s')"
proof -
  let ?s = "s\<lparr>height := blk_height blk\<rparr>"
  have h: "height s < blk_height blk"
    using assms(2) by (auto simp: execute_block_def not_le split: if_splits)
  have "solvent (store ?s)" using assms(1) by simp
  from process_mature_unbonds_ok [OF this] obtain s1 where
    "process_mature_unbonds ?s = (Inr (map matured_effect
      (filter (\<lambda>r. ub_unlock_height r \<le> blk_height blk) (unbonding_queue (store s)))), s1)"
    "solvent (store s1)" "total_supply (store s1) = total_supply (store s)"
    "outstanding (store s1) = outstanding (store s)"
    by auto
  with h assms(2) that show ?thesis
    by (simp add: execute_block_def from_transition_error_Inr_iff not_le [symmetric])
qed

lemma execute_block_conserve:
  assumes "solvent (store s)" "execute_block env blk s = (Inr effects, s')"
  shows "total_supply (store s') + fees effects = total_supply (store s) + minted effects"
    and "outstanding (store s') + minted effects = outstanding (store s)"
proof -
  obtain s1 rs where s1: "solvent (store s1)" "total_supply (store s1) = total_supply (store s)"
      "outstanding (store s1) = outstanding (store s)"
      "execute_transactions env (blk_transactions blk) (map matured_effect rs) s1 = (Inr effects, s')"
    using execute_block_Inr [OF assms] by blast
  from execute_transactions_conserve [OF s1(1,4)] s1(2,3)
  show "total_supply (store s') + fees effects = total_supply (store s) + minted effects"
    "outstanding (store s') + minted effects = outstanding (store s)" by simp_all
qed


subsection \<open>Who can change what\<close>

fun tx_signer :: "transaction \<Rightarrow> bytes32" where
  "tx_signer (Transfer tx) = tt_from tx"
| "tx_signer (Stake tx) = st_delegator tx"
| "tx_signer (Unbond tx) = ut_delegator tx"
| "tx_signer (ClaimReward tx) = ct_claimer tx"
| "tx_signer (SubmitBatch tx) = bc_collector_id (sb_batch_commit tx)"
| "tx_signer (CommitEpoch tx) = ec_proposer_id (ce_epoch_commit tx)"
| "tx_signer (OpenChallenge tx) = ch_challenger (oc_challenge tx)"
| "tx_signer (ChallengeResponse tx) = rt_responder tx"
| "tx_signer (Vote tx) = vt_voter tx"
| "tx_signer (ProposeProtocolParamsUpdate tx) = pt_proposer tx"

fun tx_pubkey :: "transaction \<Rightarrow> pubkey" where
  "tx_pubkey (Transfer tx) = tt_pubkey tx"
| "tx_pubkey (Stake tx) = st_pubkey tx"
| "tx_pubkey (Unbond tx) = ut_pubkey tx"
| "tx_pubkey (ClaimReward tx) = ct_pubkey tx"
| "tx_pubkey (SubmitBatch tx) = sb_pubkey tx"
| "tx_pubkey (CommitEpoch tx) = ce_pubkey tx"
| "tx_pubkey (OpenChallenge tx) = oc_pubkey tx"
| "tx_pubkey (ChallengeResponse tx) = rt_pubkey tx"
| "tx_pubkey (Vote tx) = vt_pubkey tx"
| "tx_pubkey (ProposeProtocolParamsUpdate tx) = pt_pubkey tx"

fun tx_signature :: "transaction \<Rightarrow> byte_vec" where
  "tx_signature (Transfer tx) = tt_signature tx"
| "tx_signature (Stake tx) = st_signature tx"
| "tx_signature (Unbond tx) = ut_signature tx"
| "tx_signature (ClaimReward tx) = ct_signature tx"
| "tx_signature (SubmitBatch tx) = sb_signature tx"
| "tx_signature (CommitEpoch tx) = ce_signature tx"
| "tx_signature (OpenChallenge tx) = oc_signature tx"
| "tx_signature (ChallengeResponse tx) = rt_signature tx"
| "tx_signature (Vote tx) = vt_signature tx"
| "tx_signature (ProposeProtocolParamsUpdate tx) = pt_signature tx"

definition authorised :: "crypto_env \<Rightarrow> transaction \<Rightarrow> bool" where
  "authorised env tx \<longleftrightarrow> stable_hash32 (to_bytes32 (tx_pubkey tx)) = tx_signer tx
     \<and> verify_signature env (tx_pubkey tx) (signing_payload (encode_tx env) tx) (tx_signature tx)"

lemma unauthorised_transaction:
  assumes "\<not> authorised env tx"
  shows "snd (apply_transaction env tx s) = s \<and> isl (fst (apply_transaction env tx s))"
proof (cases tx)
  case (Vote tx')
  show ?thesis
    unfolding Vote apply_transaction.simps
    by (rule apply_vote_rule [where Q = "\<lambda>r. snd r = s \<and> isl (fst r)"])
      (use assms in \<open>simp_all add: Vote authorised_def\<close>)
qed (simp only: apply_transaction.simps, rule transition_rules [where Q = "\<lambda>r. snd r = s \<and> isl (fst r)"];
    insert assms; simp add: authorised_def)+

text \<open>
  An account whose key did not sign keeps its stake and its total; its spendable balance can
  only grow (an incoming transfer, a proposal bond coming back).
\<close>

definition not_debited :: "protocol_state \<Rightarrow> address \<Rightarrow> protocol_state \<Rightarrow> bool" where
  "not_debited s a s' \<longleftrightarrow> (\<forall>x. account (store s) a = Some x \<longrightarrow>
     (\<exists>y. account (store s') a = Some y \<and> acc_nonce y = acc_nonce x \<and> acc_staked y = acc_staked x
        \<and> acc_balance x \<le> acc_balance y \<and> acc_total x \<le> acc_total y))"

lemma not_debited_same: "account (store s') a = account (store s) a \<Longrightarrow> not_debited s a s'"
  by (simp add: not_debited_def)

lemma not_debited_trans: "not_debited s a t \<Longrightarrow> not_debited t a u \<Longrightarrow> not_debited s a u"
  unfolding not_debited_def by (fastforce intro: order.trans)

lemma credit_not_debited:
  assumes "account (store s) b = Some x" "unat (acc_balance x) + unat v < 2 ^ 128"
    and "accounts (store s') = bt_insert b (x\<lparr>acc_balance := acc_balance x + v\<rparr>) (accounts (store s))"
  shows "not_debited s a s'"
proof -
  have "unat (acc_balance x + v) = unat (acc_balance x) + unat v"
    using assms(2) by (intro unat_add_exact) simp
  with assms(1,3) show ?thesis
    by (auto simp: not_debited_def account_def acc_total_def word_le_nat_alt)
qed

lemma try_schedule_not_debited:
  assumes "solvent (store s)"
  shows "not_debited s a (snd (try_schedule_params_update_after_vote pid s))"
proof (rule try_schedule_rule, goal_cases)
  case (4 proposal x)
  have fd: "funded (store s)" using assms by (rule solvent_parts)
  note moves = acc_total_moves(4) [OF funded_acc_total [OF fd 4(6)] 4(7)]
  have "unat (acc_balance x + gp_bond_amount proposal) = unat (acc_balance x) + unat (gp_bond_amount proposal)"
    using funded_acc_total [OF fd 4(6)] 4(7)
    by (intro unat_add_exact) (simp add: acc_total_def word_le_nat_alt)
  with moves 4(6) show ?case
    by (auto simp: not_debited_def account_def store_writes acc_total_def word_le_nat_alt)
qed (auto intro!: not_debited_same simp: store_writes account_def)


lemma transfer_not_debited:
  assumes "solvent (store s)" "a \<noteq> tt_from tx"
  shows "not_debited s a (snd (apply_transfer env tx s))"
proof (rule apply_transfer_rule, goal_cases)
  case (3 sender s1 recipient)
  have fd: "funded (store s)" using assms(1) by (rule solvent_parts)
  have bal: "unat (acc_balance sender) < 2 ^ 128 - 1"
    using funded_room [OF fd 3(3)] by (simp add: acc_total_def)
  note sum = unat_saturating_add_le [OF 3(5) bal]
  have "total_supply (store s1) + unat (tt_amount tx) \<le> total_supply (store s)"
    using total_supply_write [OF 3(3), of "sender\<lparr>acc_balance := acc_balance sender - saturating_add (tt_amount tx)
        (tt_fee tx), acc_nonce := acc_nonce sender + 1\<rparr>"] sum
    by (simp add: 3(6) acc_total_def unat_diff_exact [OF 3(5)])
  then have "unat (acc_balance recipient) + unat (tt_amount tx) < 2 ^ 128"
    using total_supply_ge [OF 3(7)] fd by (simp add: funded_def acc_total_def)
  then have "not_debited s1 a (on_store (write_account (tt_to tx)
      (recipient\<lparr>acc_balance := acc_balance recipient + tt_amount tx\<rparr>)) s1)"
    by (intro credit_not_debited [OF 3(7)]) (simp_all add: store_writes)
  moreover have "not_debited s a s1"
    using assms(2) by (intro not_debited_same) (simp add: 3(6) account_def store_writes)
  ultimately show ?case by (simp add: not_debited_trans)
qed (use assms(2) in \<open>auto intro!: not_debited_same simp: account_def store_writes\<close>)

lemma vote_not_debited:
  assumes "solvent (store s)" "a \<noteq> vt_voter tx"
  shows "not_debited s a (snd (apply_vote env tx s))"
proof (rule apply_vote_rule, goal_cases)
  case (2 voter s2 r s3)
  note s2 = record_vote_solvent [OF assms(1) 2(5,8)]
  from try_schedule_not_debited [OF s2(1), of a "vt_proposal_id tx"] 2(9) have "not_debited s2 a s3" by simp
  moreover have "not_debited s a s2"
    using assms(2) by (intro not_debited_same) (simp add: 2(8) account_def store_writes)
  ultimately show ?case by (simp add: not_debited_trans)
qed (simp add: not_debited_same)


lemma other_not_debited:
  assumes "solvent (store s)" "a \<noteq> tx_signer tx"
  shows "not_debited s a (snd (apply_transaction env tx s))"
proof (cases tx)
  case (Transfer tx')
  then show ?thesis using transfer_not_debited assms by simp
next
  case (Vote tx')
  then show ?thesis using vote_not_debited assms by simp
qed (insert assms(2), simp only: apply_transaction.simps,
    rule transition_rules [where Q = "\<lambda>r. not_debited s a (snd r)"];
    rule not_debited_same; simp add: account_def store_writes)+

subsection \<open>Replay protection\<close>

fun tx_nonce :: "transaction \<Rightarrow> u64 option" where
  "tx_nonce (Transfer tx) = Some (tt_nonce tx)"
| "tx_nonce (Stake tx) = Some (st_nonce tx)"
| "tx_nonce (Unbond tx) = Some (ut_nonce tx)"
| "tx_nonce (Vote tx) = Some (vt_nonce tx)"
| "tx_nonce (ProposeProtocolParamsUpdate tx) = Some (pt_nonce tx)"
| "tx_nonce _ = None"

definition nonce_of :: "protocol_state \<Rightarrow> address \<Rightarrow> u64 option" where
  "nonce_of s a = map_option acc_nonce (account (store s) a)"

definition nonce_advances :: "nat \<Rightarrow> protocol_state \<Rightarrow> address \<Rightarrow> protocol_state \<Rightarrow> bool" where
  "nonce_advances n s a s' \<longleftrightarrow> (\<forall>v. nonce_of s a = Some v \<longrightarrow>
     (\<exists>k\<le>n. nonce_of s' a = Some (v + word_of_nat k)))"

lemma try_schedule_nonce: "nonce_of (snd (try_schedule_params_update_after_vote pid s)) a = nonce_of s a"
  by (rule try_schedule_rule) (auto simp: nonce_of_def account_def store_writes)

lemma nonce_step:
  "nonce_of s' a = nonce_of s a \<or> nonce_of s' a = map_option (\<lambda>v. v + 1) (nonce_of s a)
    \<Longrightarrow> nonce_advances 1 s a s'"
  by (auto simp: nonce_advances_def intro: exI [of _ 0] exI [of _ "Suc 0"])

lemma nonce_advances_mono: "nonce_advances m s a s' \<Longrightarrow> m \<le> n \<Longrightarrow> nonce_advances n s a s'"
  unfolding nonce_advances_def by (meson order.trans)

lemma nonce_advances_trans:
  assumes "nonce_advances m s a t" "nonce_advances n t a u"
  shows "nonce_advances (m + n) s a u"
  unfolding nonce_advances_def
proof (intro allI impI)
  fix v assume "nonce_of s a = Some v"
  with assms(1) obtain k where k: "k \<le> m" "nonce_of t a = Some (v + word_of_nat k)"
    by (auto simp: nonce_advances_def)
  with assms(2) obtain l where "l \<le> n" "nonce_of u a = Some (v + word_of_nat k + word_of_nat l)"
    by (auto simp: nonce_advances_def)
  with k(1) show "\<exists>j\<le>m + n. nonce_of u a = Some (v + word_of_nat j)"
    by (intro exI [of _ "k + l"]) (simp add: add.assoc)
qed

lemma vote_nonce: "nonce_advances 1 s a (snd (apply_vote env tx s))"
proof (rule apply_vote_rule, goal_cases)
  case (2 voter s2 r s3)
  have "nonce_of s3 a = nonce_of s2 a"
    using try_schedule_nonce [of "vt_proposal_id tx" s2 a] 2(9) by simp
  moreover have "nonce_of s2 a = (if a = vt_voter tx then map_option (\<lambda>v. v + 1) (nonce_of s a) else nonce_of s a)"
    using 2(5) by (simp add: 2(8) nonce_of_def account_def store_writes)
  ultimately show ?case
    by (intro nonce_step) (simp split: if_splits)
qed (rule nonce_step, simp)

lemma apply_transaction_nonce: "nonce_advances 1 s a (snd (apply_transaction env tx s))"
proof (cases tx)
  case (Vote tx')
  then show ?thesis using vote_nonce by simp
qed (simp only: apply_transaction.simps,
    rule transition_rules [where Q = "\<lambda>r. nonce_advances 1 s a (snd r)"];
    rule nonce_step; auto simp: nonce_of_def account_def store_writes split: if_splits)+

lemma nonce_consumed:
  assumes "apply_transaction env tx s = (Inr e, s')" "tx_nonce tx = Some n"
  shows "nonce_of s (tx_signer tx) = Some n" "nonce_of s' (tx_signer tx) = Some (n + 1)"
proof -
  obtain a where a: "a = tx_signer tx" by blast
  let ?P = "\<lambda>r. isl (fst r) \<or> nonce_of s a = Some n \<and> nonce_of (snd r) a = Some (n + 1)"
  have "?P (apply_transaction env tx s)"
  proof (cases tx)
    case (Vote v)
    show ?thesis
      unfolding Vote apply_transaction.simps
    proof (rule apply_vote_rule, goal_cases)
      case (2 voter s2 r s3)
      have "nonce_of s3 (vt_voter v) = nonce_of s2 (vt_voter v)"
        using try_schedule_nonce [of "vt_proposal_id v" s2 "vt_voter v"] 2(9) by simp
      with assms(2) 2(5,6,8) show ?case
        by (simp add: a Vote nonce_of_def account_def store_writes)
    qed simp
  qed (simp only: apply_transaction.simps, rule transition_rules [where Q = ?P]; insert assms(2);
      auto simp: a nonce_of_def account_def store_writes split: if_splits)+
  with assms(1) show "nonce_of s (tx_signer tx) = Some n" "nonce_of s' (tx_signer tx) = Some (n + 1)"
    by (simp_all add: a)
qed

fun run_chain :: "crypto_env \<Rightarrow> block list \<Rightarrow> protocol_state \<Rightarrow> protocol_state" where
  "run_chain env [] s = s"
| "run_chain env (b # bs) s = run_chain env bs (snd (execute_block env b s))"

definition tx_count :: "block list \<Rightarrow> nat" where
  "tx_count bs = (\<Sum>b\<leftarrow>bs. length (blk_transactions b))"

lemma execute_transactions_nonce:
  "nonce_advances (length txs) s a (snd (execute_transactions env txs effects s))"
proof (induction txs arbitrary: effects s)
  case (Cons tx txs)
  obtain r s1 where r: "apply_transaction env tx s = (r, s1)" by (cases "apply_transaction env tx s")
  have one: "nonce_advances 1 s a s1" using apply_transaction_nonce [of s a env tx] r by simp
  show ?case
  proof (cases r)
    case (Inl e)
    with r nonce_advances_mono [OF one] show ?thesis by simp
  next
    case (Inr e)
    with r nonce_advances_trans [OF one Cons.IH, of "effects @ [e]"] show ?thesis by simp
  qed
qed (simp add: nonce_advances_def)

lemma execute_block_nonce:
  assumes "solvent (store s)"
  shows "nonce_advances (length (blk_transactions blk)) s a (snd (execute_block env blk s))"
proof (cases "blk_height blk \<le> height s")
  case False
  let ?s = "s\<lparr>height := blk_height blk\<rparr>"
  have "solvent (store ?s)" using assms by simp
  from process_mature_unbonds_ok [OF this] obtain effects s1 where
    s1: "process_mature_unbonds ?s = (Inr effects, s1)"
      and acc: "account (store s1) = (\<lambda>a. map_option (pay_out (owed_requests (filter (\<lambda>r. ub_unlock_height r \<le> height ?s)
        (unbonding_queue (store ?s))) a)) (account (store ?s) a))"
    by blast
  have same: "nonce_of s1 a = nonce_of s a"
    by (cases "account (store s) a") (simp_all add: nonce_of_def acc pay_out_def)
  have "nonce_advances (length (blk_transactions blk)) s1 a
      (snd (execute_transactions env (blk_transactions blk) effects s1))"
    by (rule execute_transactions_nonce)
  with False s1 same show ?thesis
    by (simp add: execute_block_def from_transition_error_def nonce_advances_def)
qed (fastforce simp: execute_block_def nonce_advances_def)

lemma run_chain_nonce:
  "sound s \<Longrightarrow> nonce_advances (tx_count bs) s a (run_chain env bs s)"
proof (induction bs arbitrary: s)
  case (Cons b bs)
  have "sound (snd (execute_block env b s))"
    using Cons.prems by (rule sound_blocks.block_keeps)
  from nonce_advances_trans [OF execute_block_nonce [OF soundD(1) [OF Cons.prems]] Cons.IH [OF this]]
  show ?case by (simp add: tx_count_def)
qed (simp add: nonce_advances_def tx_count_def)

lemma replay_fails:
  assumes "sound s" "apply_transaction env tx s = (Inr e, s')" "tx_nonce tx = Some n"
    and "tx_count bs < 2 ^ 64 - 1"
  shows "isl (fst (apply_transaction env tx (run_chain env bs s')))"
proof (rule ccontr)
  let ?t = "run_chain env bs s'"
  assume "\<not> isl (fst (apply_transaction env tx ?t))"
  then obtain e' t' where "apply_transaction env tx ?t = (Inr e', t')"
    by (cases "apply_transaction env tx ?t"; cases "fst (apply_transaction env tx ?t)") auto
  from nonce_consumed(1) [OF this assms(3)] have now: "nonce_of ?t (tx_signer tx) = Some n" .
  have "sound s'"
    using sound_blocks.transaction_keeps [OF assms(1), of env tx] assms(2) by simp
  from run_chain_nonce [OF this, of bs "tx_signer tx" env] nonce_consumed(2) [OF assms(2,3)] now
  obtain k where k: "k \<le> tx_count bs" "n = n + 1 + word_of_nat k"
    by (auto simp: nonce_advances_def)
  then have "(word_of_nat (Suc k) :: u64) = 0" by (simp add: add.assoc)
  then have "2 ^ LENGTH(64) dvd Suc k" by (simp only: word_of_nat_eq_0_iff)
  then show False
    using k(1) assms(4) by (auto dest!: dvd_imp_le)
qed

subsection \<open>Rewards\<close>

lemma claim_room:
  assumes "solvent st" "reward_record_of st k = Some r" "\<not> is_reward_claimed st k" "account st a = Some x"
  shows "unat (acc_balance x) + unat (rw_net_reward r) < 2 ^ 128"
proof -
  have "unat (rw_net_reward r) \<le> outstanding st"
    using outstanding_mark [OF assms(2,3)] by simp
  moreover have "acc_total x \<le> total_supply st"
    using assms(4) by (rule total_supply_ge)
  ultimately show ?thesis
    using solvent_parts(1) [OF assms(1)] by (simp add: funded_def acc_total_def)
qed

lemma claimed_transaction:
  assumes "is_reward_claimed (store s) key"
  shows "is_reward_claimed (store (snd (apply_transaction env tx s))) key"
proof -
  have sched: "is_reward_claimed (store (snd (try_schedule_params_update_after_vote pid s))) key
      \<longleftrightarrow> is_reward_claimed (store s) key" for pid s
    by (rule try_schedule_rule) (simp_all add: store_writes is_reward_claimed_def)
  show ?thesis
  proof (cases tx)
    case (Vote v)
    show ?thesis
      unfolding Vote apply_transaction.simps
    proof (rule apply_vote_rule, goal_cases)
      case (2 voter s2 r s3)
      then show ?case
        using sched [of "vt_proposal_id v" s2] assms by (simp add: store_writes is_reward_claimed_def)
    qed (simp add: assms)
  qed (simp only: apply_transaction.simps,
      rule transition_rules [where Q = "\<lambda>r. is_reward_claimed (store (snd r)) key"];
      insert assms; simp add: store_writes is_reward_claimed_def)+
qed

interpretation claimed_blocks: block_invariant env "\<lambda>s. sound s \<and> is_reward_claimed (store s) key" for env key
proof
  show "sound (snd (apply_transaction env tx s)) \<and> is_reward_claimed (store (snd (apply_transaction env tx s))) key"
    if "sound s \<and> is_reward_claimed (store s) key" for s tx
    using that by (simp add: sound_blocks.transaction_keeps claimed_transaction)
  show "sound (snd (process_mature_unbonds (s\<lparr>height := h\<rparr>)))
      \<and> is_reward_claimed (store (snd (process_mature_unbonds (s\<lparr>height := h\<rparr>)))) key"
    if inv: "sound s \<and> is_reward_claimed (store s) key" and h: "height s < h" for s h
  proof -
    have "solvent (store (s\<lparr>height := h\<rparr>))" using inv by (simp add: sound_def)
    from process_mature_unbonds_ok [OF this] obtain r s' accs q where
      "process_mature_unbonds (s\<lparr>height := h\<rparr>) = (r, s')"
      "s' = s\<lparr>height := h, store := (store s)\<lparr>accounts := accs, unbonding_queue := q\<rparr>\<rparr>" by auto
    with release_sound [of s h] inv h show ?thesis by (simp add: is_reward_claimed_def)
  qed
qed

end
