(* ===== verification/Account_Safety.thy ===== *)
theory Account_Safety
  imports Guarantees
begin

text \<open>
  What the holder of an account can rely on. Accounts whose owner signed nothing in a block: neither
  the transactions of the block nor the release of matured requests takes anything from them,
  whatever the block returns. And every outcome of a transfer, in amounts.
\<close>

subsection \<open>Blocks and the accounts of bystanders\<close>

lemma bystander_transaction:
  assumes "solvent (store s)" "\<not> (authorised env tx \<and> tx_signer tx = a)"
  shows "not_debited s a (snd (apply_transaction env tx s))"
proof (cases "authorised env tx")
  case True
  with assms show ?thesis by (intro other_not_debited) auto
next
  case False
  then show ?thesis using unauthorised_transaction [of env tx s] by (simp add: not_debited_same)
qed

lemma bystander_transactions:
  assumes "solvent (store s)" "\<And>tx. tx \<in> set txs \<Longrightarrow> \<not> (authorised env tx \<and> tx_signer tx = a)"
  shows "not_debited s a (snd (execute_transactions env txs effects s))"
  using assms
proof (induction txs arbitrary: effects s)
  case (Cons tx txs)
  obtain r s1 where r: "apply_transaction env tx s = (r, s1)" by (cases "apply_transaction env tx s")
  have one: "not_debited s a s1" "solvent (store s1)"
    using bystander_transaction [OF Cons.prems(1), of env tx a] Cons.prems(2) [of tx]
      apply_transaction_solvent [OF Cons.prems(1), of env tx] r by simp_all
  show ?case
  proof (cases r)
    case (Inl e)
    with r one show ?thesis by simp
  next
    case (Inr e)
    have "not_debited s1 a (snd (execute_transactions env txs (effects @ [e]) s1))"
      using Cons.prems(2) by (intro Cons.IH one(2)) simp_all
    with r Inr not_debited_trans [OF one(1)] show ?thesis by simp
  qed
qed (simp add: not_debited_same)

text \<open>
  The release of matured requests in terms of amounts: what an account is owed by the matured
  requests leaves its locked amount and reaches its balance, without wrapping.
\<close>

lemma owed_requests_filter_le: "owed_requests (filter P q) a \<le> owed_requests q a"
  by (induction q) (simp_all add: owed_requests_def)

lemma pay_out_amounts:
  assumes "solvent st" "account st a = Some x" "q = filter P (unbonding_queue st)"
  shows "unat (acc_balance (pay_out (owed_requests q a) x)) = unat (acc_balance x) + owed_requests q a"
    and "unat (acc_locked (pay_out (owed_requests q a) x)) + owed_requests q a = unat (acc_locked x)"
proof -
  let ?v = "owed_requests q a"
  have "?v \<le> owed st a"
    using owed_requests_filter_le [of P "unbonding_queue st" a] by (simp add: assms(3) owed_def)
  also have "\<dots> \<le> unat (acc_locked x)"
    using assms(1,2) by (auto simp: solvent_def backed_def locked_of_def dest!: spec [of _ a])
  finally have v: "?v \<le> unat (acc_locked x)" .
  have tot: "unat (acc_balance x) + unat (acc_locked x) < 2 ^ 128"
    using funded_acc_total [OF solvent_parts(1) [OF assms(1)] assms(2)] by (simp add: acc_total_def)
  have w: "unat (word_of_nat ?v :: amount) = ?v"
    using v tot by (intro unat_of_nat_exact) simp
  show "unat (acc_balance (pay_out ?v x)) = unat (acc_balance x) + ?v"
    using v tot w by (simp add: pay_out_def unat_add_exact)
  have "word_of_nat ?v \<le> acc_locked x" using v w by (simp add: word_le_nat_alt)
  then show "unat (acc_locked (pay_out ?v x)) + ?v = unat (acc_locked x)"
    using v w by (simp add: pay_out_def unat_diff_exact)
qed

lemma release_not_debited:
  assumes "solvent (store s)"
  shows "not_debited s a (snd (process_mature_unbonds (s\<lparr>height := h\<rparr>)))"
proof -
  let ?q = "filter (\<lambda>r. ub_unlock_height r \<le> h) (unbonding_queue (store s))"
  have "solvent (store (s\<lparr>height := h\<rparr>))" using assms by simp
  from process_mature_unbonds_ok [OF this] obtain s' where
    s': "process_mature_unbonds (s\<lparr>height := h\<rparr>) = (Inr (map matured_effect ?q), s')"
      "account (store s') = (\<lambda>a. map_option (pay_out (owed_requests ?q a)) (account (store s) a))"
    by auto
  have "not_debited s a s'"
    unfolding not_debited_def
  proof (intro allI impI)
    fix x assume x: "account (store s) a = Some x"
    note amounts = pay_out_amounts [OF assms x refl, of "\<lambda>r. ub_unlock_height r \<le> h"]
    show "\<exists>y. account (store s') a = Some y \<and> acc_nonce y = acc_nonce x \<and> acc_staked y = acc_staked x
        \<and> acc_balance x \<le> acc_balance y \<and> acc_total x \<le> acc_total y"
      using amounts x by (intro exI [of _ "pay_out (owed_requests ?q a) x"])
        (simp add: s'(2) acc_total_def word_le_nat_alt, simp add: pay_out_def)
  qed
  with s'(1) show ?thesis by simp
qed

lemma bystander_block:
  assumes "solvent (store s)" "\<And>tx. tx \<in> set (blk_transactions blk) \<Longrightarrow> \<not> (authorised env tx \<and> tx_signer tx = a)"
  shows "not_debited s a (snd (execute_block env blk s))"
proof (cases "blk_height blk \<le> height s")
  case False
  let ?s = "s\<lparr>height := blk_height blk\<rparr>"
  have "solvent (store ?s)" using assms(1) by simp
  from process_mature_unbonds_ok [OF this] obtain effects s1 where
    s1: "process_mature_unbonds ?s = (Inr effects, s1)" "solvent (store s1)" by blast
  have "not_debited s a s1"
    using release_not_debited [OF assms(1), of a "blk_height blk"] s1(1) by simp
  moreover have "not_debited s1 a (snd (execute_transactions env (blk_transactions blk) effects s1))"
    using s1(2) assms(2) by (rule bystander_transactions)
  ultimately have "not_debited s a (snd (execute_transactions env (blk_transactions blk) effects s1))"
    by (rule not_debited_trans)
  with False s1(1) show ?thesis by (simp add: execute_block_def from_transition_error_def)
qed (simp add: execute_block_def not_debited_same)

subsection \<open>Transfers\<close>

lemma transfer_by_cases:
  assumes "solvent (store s)"
  shows "let payable = authorised env (Transfer tx) \<and> (\<exists>x. account (store s) (tt_from tx) = Some x
        \<and> acc_nonce x = tt_nonce tx \<and> unat (tt_amount tx) + unat (tt_fee tx) \<le> unat (acc_balance x));
      r = apply_transfer env tx s in
    if \<not> payable then isl (fst r) \<and> snd r = s
    else if account (store s) (tt_to tx) = None
    then fst r = Inl (UnknownAccount (tt_to tx))
      \<and> total_supply (store (snd r)) + unat (tt_amount tx) + unat (tt_fee tx) = total_supply (store s)
      \<and> nonce_of (snd r) (tt_from tx) = Some (tt_nonce tx + 1)
    else fst r = Inr (TransferApplied (tt_from tx) (tt_to tx) (tt_amount tx) (tt_fee tx))
      \<and> total_supply (store (snd r)) + unat (tt_fee tx) = total_supply (store s)
      \<and> nonce_of (snd r) (tt_from tx) = Some (tt_nonce tx + 1)"
proof -
  let ?total = "saturating_add (tt_amount tx) (tt_fee tx)"
  have fd: "funded (store s)" using assms by (rule solvent_parts)
  have covered: "?total \<le> acc_balance x \<longleftrightarrow> unat (tt_amount tx) + unat (tt_fee tx) \<le> unat (acc_balance x)"
    if "account (store s) (tt_from tx) = Some x" for x
    using funded_room [OF fd that] by (auto simp: word_le_nat_alt unat_saturating_add acc_total_def)
  show ?thesis
  proof (cases "authorised env (Transfer tx) \<and> (\<exists>x. account (store s) (tt_from tx) = Some x
        \<and> acc_nonce x = tt_nonce tx \<and> unat (tt_amount tx) + unat (tt_fee tx) \<le> unat (acc_balance x))")
    case False
    then have "isl (fst (apply_transfer env tx s)) \<and> snd (apply_transfer env tx s) = s"
      unfolding apply_transfer_def Let_def
      by (intro try_with_intro [where Q = "\<lambda>r. isl (fst r) \<and> snd r = s"] if_intro [where Q = "\<lambda>r. isl (fst r) \<and> snd r = s"])
        (auto simp: authorised_def covered not_less)
    with False show ?thesis by (simp only: Let_def if_True not_False_eq_True simp_thms)
  next
    case True
    then obtain x where x: "account (store s) (tt_from tx) = Some x" "acc_nonce x = tt_nonce tx" "?total \<le> acc_balance x"
      using covered by auto
    let ?y = "x\<lparr>acc_balance := acc_balance x - ?total, acc_nonce := acc_nonce x + 1\<rparr>"
    let ?s1 = "on_store (write_account (tt_from tx) ?y) s"
    have bal: "unat (acc_balance x) < 2 ^ 128 - 1" using funded_room [OF fd x(1)] by (simp add: acc_total_def)
    note sum = unat_saturating_add_le [OF x(3) bal]
    have sup: "total_supply (store ?s1) + unat (tt_amount tx) + unat (tt_fee tx) = total_supply (store s)"
      using total_supply_write [OF x(1), of ?y] sum x(3)
      by (simp add: acc_total_def unat_diff_exact [OF x(3)])
    have run: "apply_transfer env tx s = try_with (ok_or (account (store ?s1) (tt_to tx)) (UnknownAccount (tt_to tx))) ?s1
        (\<lambda>recipient. (Inr (TransferApplied (tt_from tx) (tt_to tx) (tt_amount tx) (tt_fee tx)),
            on_store (write_account (tt_to tx) (recipient\<lparr>acc_balance := acc_balance recipient + tt_amount tx\<rparr>)) ?s1))"
      using True x by (simp add: apply_transfer_def authorised_def ensure_signature_def ok_or_def ensure_nonce_def Let_def not_less [symmetric])
    show ?thesis
    proof (cases "account (store s) (tt_to tx)")
      case None
      then have "account (store ?s1) (tt_to tx) = None" using x(1) by (auto simp: account_def store_writes)
      with None True sup x show ?thesis by (simp add: Let_def run ok_or_def nonce_of_def account_def store_writes)
    next
      case (Some z)
      then have "account (store ?s1) (tt_to tx) \<noteq> None" by (simp add: account_def store_writes)
      then obtain z' where z': "account (store ?s1) (tt_to tx) = Some z'" by blast
      have "unat (acc_balance z') + unat (tt_amount tx) < 2 ^ 128"
        using total_supply_ge [OF z'] sup fd by (simp add: funded_def acc_total_def)
      then have "total_supply (write_account (tt_to tx) (z'\<lparr>acc_balance := acc_balance z' + tt_amount tx\<rparr>) (store ?s1))
          = total_supply (store ?s1) + unat (tt_amount tx)"
        using total_supply_write [OF z', of "z'\<lparr>acc_balance := acc_balance z' + tt_amount tx\<rparr>"]
        by (simp add: acc_total_def unat_add_exact)
      with sup True x Some z' show ?thesis
        by (auto simp: Let_def run ok_or_def nonce_of_def account_def store_writes)
    qed
  qed
qed

subsection \<open>Unbonding\<close>

lemma empty_block_queue:
  assumes "solvent (store s)" "height s < h"
  shows "unbonding_queue (store (snd (execute_block env \<lparr>blk_height = h, blk_transactions = []\<rparr> s)))
    = filter (\<lambda>r. h < ub_unlock_height r) (unbonding_queue (store s))"
proof -
  have "solvent (store (s\<lparr>height := h\<rparr>))" using assms(1) by simp
  from process_mature_unbonds_ok [OF this] obtain es s' where
    "process_mature_unbonds (s\<lparr>height := h\<rparr>) = (Inr es, s')"
    "unbonding_queue (store s') = filter (\<lambda>r. \<not> ub_unlock_height r \<le> h) (unbonding_queue (store s))" by auto
  with assms(2) show ?thesis
    by (simp add: execute_block_def from_transition_error_def not_le [symmetric])
qed

text \<open>
  What a successful unbond does: \<open>x\<close> and \<open>y\<close> are the delegator's account before and after, \<open>d\<close> the
  delegation and \<open>n\<close> the operator before.
\<close>

definition unbond_moved ::
  "protocol_state \<Rightarrow> unbond_tx \<Rightarrow> transition_effect \<Rightarrow> protocol_state
    \<Rightarrow> account_state \<Rightarrow> account_state \<Rightarrow> delegation_record \<Rightarrow> node_registry \<Rightarrow> bool" where
  "unbond_moved s tx e s' x y d n \<longleftrightarrow> (let unlock = height s + ucast (unbonding_blocks (params s));
        request = \<lparr>ub_delegator = ut_delegator tx, ub_operator = ut_operator tx, ub_amount = ut_amount tx,
                   ub_unlock_height = unlock\<rparr> in
      e = UnbondQueued (ut_delegator tx) (ut_operator tx) (ut_amount tx) unlock
    \<and> unbonding_queue (store s') = unbonding_queue (store s) @ [request]
    \<and> account (store s) (ut_delegator tx) = Some x \<and> account (store s') = (account (store s))(ut_delegator tx \<mapsto> y)
    \<and> unat (acc_staked y) + unat (ut_amount tx) = unat (acc_staked x)
    \<and> unat (acc_locked y) = unat (acc_locked x) + unat (ut_amount tx) \<and> acc_balance y = acc_balance x
    \<and> delegation (store s) (ut_delegator tx, ut_operator tx) = Some d
    \<and> (case delegation (store s') (ut_delegator tx, ut_operator tx) of
          None \<Rightarrow> dl_amount d = ut_amount tx
        | Some d' \<Rightarrow> 0 < dl_amount d' \<and> unat (dl_amount d') + unat (ut_amount tx) = unat (dl_amount d))
    \<and> node (store s) (ut_operator tx) = Some n
    \<and> node (store s') (ut_operator tx) = Some (n\<lparr>nr_bond := nr_bond n - ut_amount tx\<rparr>) \<and> ut_amount tx \<le> nr_bond n)"

lemma unbond_effect:
  assumes "solvent (store s)" "apply_unbond env tx s = (Inr e, s')"
  shows "\<exists>x y d n. unbond_moved s tx e s' x y d n"
proof -
  let ?Q = "\<lambda>r. \<forall>e s'. r = (Inr e, s') \<longrightarrow> (\<exists>x y d n. unbond_moved s tx e s' x y d n)"
  have "?Q (apply_unbond env tx s)"
  proof (rule apply_unbond_rule, goal_cases)
    case (3 x n d s2 s3)
    let ?v = "ut_amount tx"
    let ?y = "x\<lparr>acc_staked := acc_staked x - ?v, acc_locked := acc_locked x + ?v, acc_nonce := acc_nonce x + 1\<rparr>"
    have "acc_total x < 2 ^ 128" using funded_acc_total [OF solvent_parts(1) [OF assms(1)] 3(6)] .
    then have "unat (acc_locked x + ?v) = unat (acc_locked x) + unat ?v"
      using 3(8) by (intro unat_add_exact) (simp add: acc_total_def word_le_nat_alt)
    moreover have "unat (acc_staked x - ?v) + unat ?v = unat (acc_staked x)"
      "unat (dl_amount d - ?v) + unat ?v = unat (dl_amount d)"
      using 3(5,8) by (simp_all add: unat_diff_exact word_le_nat_alt)
    moreover have "dl_amount d - ?v = 0 \<longleftrightarrow> dl_amount d = ?v" by simp
    ultimately have "unbond_moved s tx (UnbondQueued (ut_delegator tx) (ut_operator tx) ?v
          (height s + ucast (unbonding_blocks (params s))))
        (on_store (queue_unbonding \<lparr>ub_delegator = ut_delegator tx, ub_operator = ut_operator tx, ub_amount = ?v,
           ub_unlock_height = height s + ucast (unbonding_blocks (params s))\<rparr>) s3) x ?y d n"
      using 3 by (auto simp: unbond_moved_def Let_def account_def node_def delegation_def store_writes fun_eq_iff word_gt_0)
    then show ?case by blast
  qed simp_all
  with assms(2) show ?thesis by blast
qed

end
