(* ===== verification/Voting.thy ===== *)
theory Voting
  imports Account_Safety
begin

text \<open>
  When a parameter proposal passes. The tally of \<open>try_schedule_params_update_after_vote\<close> works on
  wrapping \<open>u128\<close> sums and on quotients scaled to basis points; as long as the recorded voting
  power fits, its verdict is the plain comparison of the recorded powers with the quorum and
  approval shares.
\<close>

definition power_for :: "vote_choice set \<Rightarrow> governance_vote_record list \<Rightarrow> nat" where
  "power_for cs vs = (\<Sum>v\<leftarrow>vs. if gv_choice v \<in> cs then unat (gv_voting_power v) else 0)"

definition majority :: "governance_vote_record list \<Rightarrow> nat \<Rightarrow> nat \<Rightarrow> nat \<Rightarrow> bool" where
  "majority vs supply_total quorum approval \<longleftrightarrow>
     vs \<noteq> [] \<and> 0 < supply_total \<and> quorum * supply_total \<le> 10000 * power_for UNIV vs
     \<and> 0 < power_for {VoteYes, VoteNo} vs
     \<and> approval * power_for {VoteYes, VoteNo} vs \<le> 10000 * power_for {VoteYes} vs"

lemma power_for_simps [simp]:
  "power_for cs [] = 0"
  "power_for cs (vs @ [v]) = power_for cs vs + (if gv_choice v \<in> cs then unat (gv_voting_power v) else 0)"
  by (simp_all add: power_for_def)

lemma power_for_split:
  "power_for UNIV vs = power_for {VoteYes} vs + power_for {VoteNo} vs + power_for {VoteAbstain} vs"
  "power_for {VoteYes, VoteNo} vs = power_for {VoteYes} vs + power_for {VoteNo} vs"
proof (induction vs rule: rev_induct)
  case (snoc v vs)
  case 1 show ?case using snoc by (cases "gv_choice v") simp_all
  case 2 show ?case using snoc by (cases "gv_choice v") simp_all
qed simp_all

text \<open>The running sums of the tally, as residues.\<close>

lemma tally_votes_sums:
  "tally_yes (tally_votes vs) = word_of_nat (power_for {VoteYes} vs)
   \<and> tally_no (tally_votes vs) = word_of_nat (power_for {VoteNo} vs)
   \<and> tally_abstain (tally_votes vs) = word_of_nat (power_for {VoteAbstain} vs)
   \<and> tally_total_votes (tally_votes vs) = word_of_nat (length vs)"
proof (induction vs rule: rev_induct)
  case (snoc v vs)
  then show ?case by (cases "gv_choice v") (simp_all add: tally_votes_def Let_def)
qed (simp add: tally_votes_def)

lemma total_voting_power_eq: "total_voting_power st = word_of_nat (total_supply st)"
proof -
  have "sum_list (map (\<lambda>a. acc_balance a + acc_staked a + acc_locked a) as) = word_of_nat (sum_list (map acc_total as))" for as
    by (induction as) (simp_all add: acc_total_def)
  then show ?thesis
    by (simp add: total_voting_power_def total_supply_def bt_total_def accounts_iter_def)
qed

lemma share_at_least:
  fixes part power share :: u128
  assumes "10000 * unat part < 2 ^ 128" "0 < unat power"
  shows "\<not> saturating_mul part 10000 div power < share \<longleftrightarrow> unat share * unat power \<le> 10000 * unat part"
proof -
  have "unat (saturating_mul part 10000) = 10000 * unat part"
    using assms(1) by (subst unat_saturating_mul_exact) (simp_all add: mult.commute)
  then have "\<not> saturating_mul part 10000 div power < share \<longleftrightarrow> unat share \<le> (10000 * unat part) div unat power"
    by (simp add: word_less_nat_alt unat_div not_less)
  also have "\<dots> \<longleftrightarrow> unat share * unat power \<le> 10000 * unat part"
    using assms(2) by (simp add: less_eq_div_iff_mult_less_eq)
  finally show ?thesis .
qed

lemma proposal_passes_iff:
  fixes s pid p
  defines "vs \<equiv> vote_records_for_proposal (store s) pid"
  assumes "funded (store s)" "10000 * power_for UNIV vs < 2 ^ 128" "length vs < 2 ^ 32"
  shows "proposal_passes s pid p \<longleftrightarrow> majority vs (total_supply (store s))
    (unat (required_quorum_bps (pp_governance (params s)) (gp_kind p)))
    (unat (required_approval_bps (pp_governance (params s)) (gp_kind p)))"
proof -
  let ?t = "tally_votes vs" and ?n = "\<lambda>cs. power_for cs vs"
  note sums = tally_votes_sums [of vs] and split = power_for_split [of vs]
  have nat: "unat (tally_yes ?t) = ?n {VoteYes}" "unat (tally_no ?t) = ?n {VoteNo}"
    "unat (tally_abstain ?t) = ?n {VoteAbstain}"
    using sums split(1) assms(3) by (simp_all add: unat_of_nat_exact)
  have count: "tally_total_votes ?t = 0 \<longleftrightarrow> vs = []"
    using sums assms(4) unat_of_nat_exact [of "length vs", where 'a = 32] by (auto simp: word_unat_eq_iff)
  have part: "unat (tally_yes ?t + tally_no ?t + tally_abstain ?t) = ?n UNIV"
    and dec: "unat (tally_yes ?t + tally_no ?t) = ?n {VoteYes, VoteNo}"
    using nat split assms(3) by (simp_all add: unat_add_exact)
  have supply_total: "unat (total_voting_power (store s)) = total_supply (store s)"
    using assms(2) by (simp add: total_voting_power_eq funded_def unat_of_nat_exact)
  have zero: "w = 0 \<longleftrightarrow> unat w = 0" for w :: u128 by (simp add: unat_eq_zero)
  have up: "unat (ucast w :: u128) = unat w" for w :: u16 by (rule unat_ucast_up) simp
  have fits: "10000 * unat (tally_yes ?t) < 2 ^ 128" using nat split assms(3) by simp
  show ?thesis
    using share_at_least [of "tally_yes ?t + tally_no ?t + tally_abstain ?t" "total_voting_power (store s)"
        "ucast (required_quorum_bps (pp_governance (params s)) (gp_kind p))"]
      share_at_least [OF fits, of "tally_yes ?t + tally_no ?t"
        "ucast (required_approval_bps (pp_governance (params s)) (gp_kind p))"] assms(3)
    unfolding proposal_passes_def Let_def majority_def vs_def [symmetric] count
    by (auto simp: zero part dec supply_total up nat)
qed

subsection \<open>Leaving the pending state\<close>

definition with_vote :: "vote_tx \<Rightarrow> protocol_state \<Rightarrow> protocol_state \<Rightarrow> bool" where
  "with_vote v s s2 \<longleftrightarrow> params s2 = params s \<and> current_epoch s2 = current_epoch s
     \<and> total_supply (store s2) = total_supply (store s)
     \<and> votes (store s2) = bt_insert (vt_proposal_id v, vt_voter v)
         \<lparr>gv_proposal_id = vt_proposal_id v, gv_voter = vt_voter v, gv_choice = vt_choice v,
          gv_voting_power = vt_voting_power v, gv_recorded_height = height s\<rparr> (votes (store s))"

lemma vote_leaves_pending:
  assumes "params_update_proposal (store s) pid = Some p" "gp_state p = ProposalPending"
    and "apply_vote env v s = (r, s')" "params_update_proposal (store s') pid \<noteq> Some p"
  shows "vt_proposal_id v = pid \<and> authorised env (Vote v)
    \<and> r = Inr (VoteRecorded pid (vt_voter v) (vt_voting_power v))
    \<and> params_update_proposal (store s') pid = Some (p\<lparr>gp_state := ProposalScheduled\<rparr>)
    \<and> scheduled_params_for (store s') (gp_effective_epoch p) = Some (gp_params p)
    \<and> validate (gp_params p) = Inr () \<and> current_epoch s < gp_effective_epoch p
    \<and> (\<exists>s2. with_vote v s s2 \<and> proposal_passes s2 pid p)" (is "?left r s'")
proof -
  let ?Q = "\<lambda>(r, s'). params_update_proposal (store s') pid \<noteq> Some p \<longrightarrow> ?left r s'"
  have "?Q (apply_vote env v s)"
  proof (rule apply_vote_rule, goal_cases)
    case (2 voter s2 r s3)
    have sup: "total_supply (store s2) = total_supply (store s)"
      using total_supply_write [OF 2(5), of "voter\<lparr>acc_nonce := acc_nonce voter + 1\<rparr>"]
      by (simp add: 2(8) acc_total_def total_supply_def store_writes)
    have wv: "with_vote v s s2" using sup by (simp add: with_vote_def 2(8) store_writes)
    have same: "params_update_proposals (store s2) = params_update_proposals (store s)" "current_epoch s2 = current_epoch s"
      by (simp_all add: 2(8) store_writes)
    have "(\<lambda>(r, s3). params_update_proposal (store s3) pid \<noteq> Some p \<longrightarrow> vt_proposal_id v = pid \<and> r = Inr ()
        \<and> params_update_proposal (store s3) pid = Some (p\<lparr>gp_state := ProposalScheduled\<rparr>)
        \<and> scheduled_params_for (store s3) (gp_effective_epoch p) = Some (gp_params p)
        \<and> validate (gp_params p) = Inr () \<and> current_epoch s2 < gp_effective_epoch p \<and> proposal_passes s2 pid p)
      (try_schedule_params_update_after_vote (vt_proposal_id v) s2)"
      by (rule try_schedule_rule)
        (use assms(1) same(1) in \<open>auto simp: params_update_proposal_def scheduled_params_for_def store_writes\<close>)
    with 2 wv same show ?case by (auto simp: authorised_def)
  qed (use assms(1) in simp)
  with assms(3,4) show ?thesis by simp
qed

lemma transaction_leaves_pending:
  assumes "params_update_proposal (store s) pid = Some p"
    and "params_update_proposal (store (snd (apply_transaction env tx s))) pid \<noteq> Some p"
  obtains v where "tx = Vote v"
proof (cases tx)
  case (Vote v)
  then show ?thesis by (rule that)
qed (insert assms, simp only: apply_transaction.simps, erule contrapos_np,
    rule transition_rules [where Q = "\<lambda>r. params_update_proposal (store (snd r)) pid = Some p"];
    auto simp: params_update_proposal_def store_writes)+

end
