(* ===== verification/Samples.thy ===== *)
theory Samples
  imports Voting
begin

text \<open>
  A small concrete chain on which the theorems are applied: two key holders, one registered
  operator, and the states that a few blocks lead to. The environment has a verifier that
  accepts exactly one signature per key, so that signed and unsigned transactions can both be
  written down.
\<close>

definition sample_signature :: "pubkey \<Rightarrow> byte_vec" where
  "sample_signature pk = replicate 64 (ucast pk)"

definition sample_env :: crypto_env where
  "sample_env = \<lparr>encode_tx = (\<lambda>_. []), encode_params = (\<lambda>_. Inr []), verifying_key_ok = (\<lambda>_. True),
     ed25519_verify = (\<lambda>pk _ sig. sig = sample_signature pk)\<rparr>"

definition alice :: address where "alice = stable_hash32 (to_bytes32 1)"
definition bob :: address where "bob = stable_hash32 (to_bytes32 2)"
definition carol :: address where "carol = stable_hash32 (to_bytes32 3)"

definition sample_account :: "address \<Rightarrow> amount \<Rightarrow> account_state" where
  "sample_account a v = \<lparr>acc_address = a, acc_balance = v, acc_staked = 0, acc_locked = 0, acc_nonce = 0\<rparr>"

definition sample_node :: node_registry where
  "sample_node = \<lparr>nr_node_id = alice, nr_pubkey = to_bytes32 1, nr_reward_address = alice, nr_bond = 20000,
     nr_status = NodeActive, nr_enabled_capabilities = [Collect, Propose],
     nr_reputation = \<lparr>rep_score_ppm = 0, rep_successful_challenges = 0, rep_failed_challenges = 0,
       rep_challengeable_faults = 0, rep_collection_successes = 0, rep_collection_failures = 0,
       rep_storage_proofs_passed = 0, rep_storage_proofs_failed = 0, rep_last_updated_epoch = 0\<rparr>,
     nr_joined_at_height = 0\<rparr>"

definition sample_reward :: reward_record where
  "sample_reward = \<lparr>rw_epoch_id = 1, rw_node_id = alice, rw_recipient_address = [], rw_player_reward = 70,
     rw_collect_reward = 0, rw_store_reward = 0, rw_verify_reward = 0, rw_propose_reward = 0,
     rw_slash_debit = 0, rw_net_reward = 70\<rparr>"

definition sample_genesis :: protocol_state where
  "sample_genesis = \<lparr>height = 10, current_epoch = 1, params = default_protocol_params, store = default_store\<rparr>"

definition sample_start :: protocol_state where
  "sample_start = upsert_reward_record sample_reward (upsert_node sample_node
     (upsert_account (sample_account bob 50000) (upsert_account (sample_account alice 50000) sample_genesis)))"

definition sample_batch_tx :: submit_batch_tx where
  "sample_batch_tx = \<lparr>sb_batch_commit = \<lparr>bc_epoch_id = 1, bc_collector_id = alice, bc_slot_start = 3,
      bc_slot_end = 5, bc_batch = \<lparr>mc_root = 77, mc_leaf_count = 2\<rparr>, bc_payload_cid = ''cid'',
      bc_obs_count = 2, bc_submitted_at_height = 0\<rparr>, sb_pubkey = 1, sb_signature = sample_signature 1\<rparr>"

definition sample_commit_tx :: commit_epoch_tx where
  "sample_commit_tx = (let root = \<lparr>mc_root = 5, mc_leaf_count = 1\<rparr> in
     \<lparr>ce_epoch_commit = \<lparr>ec_epoch_id = 1, ec_accepted_batches = root, ec_observations = root,
      ec_aggregates = root, ec_rewards = root, ec_availability = root, ec_randomness_seed = 9,
      ec_proposer_id = alice, ec_challenge_open_height = 0, ec_challenge_deadline_height = 15\<rparr>,
      ce_pubkey = 1, ce_signature = sample_signature 1\<rparr>)"

definition sample_stake_tx :: stake_tx where
  "sample_stake_tx = \<lparr>st_delegator = bob, st_operator = alice, st_amount = 500, st_nonce = 0, st_pubkey = 2,
     st_signature = sample_signature 2\<rparr>"

definition sample_unbond_tx :: unbond_tx where
  "sample_unbond_tx = \<lparr>ut_delegator = bob, ut_operator = alice, ut_amount = 200, ut_nonce = 1, ut_pubkey = 2,
     ut_signature = sample_signature 2\<rparr>"

definition sample_transfer_tx :: transfer_tx where
  "sample_transfer_tx = \<lparr>tt_from = bob, tt_to = alice, tt_amount = 30, tt_fee = 1, tt_nonce = 0, tt_pubkey = 2,
     tt_signature = sample_signature 2\<rparr>"

definition sample_claim_tx :: claim_reward_tx where
  "sample_claim_tx = \<lparr>ct_claimer = alice, ct_epoch_id = 1, ct_node_id = alice, ct_amount = 70,
     ct_merkle_proof = [], ct_nonce = 0, ct_pubkey = 1, ct_signature = sample_signature 1\<rparr>"

definition sample_challenge_tx :: open_challenge_tx where
  "sample_challenge_tx = \<lparr>oc_challenge = \<lparr>ch_challenge_id = 900, ch_kind = KBadBatch, ch_epoch_id = 1,
      ch_target_node = Some alice, ch_challenger = bob, ch_bond = 50, ch_opened_at_height = 0,
      ch_deadline_height = 14, ch_state = ChallengeOpen,
      ch_evidence = \<lparr>ev_batch_root = None, ev_aggregate_root = None, ev_reward_root = None,
        ev_payload_cid = None, ev_merkle_proof = []\<rparr>\<rparr>,
     oc_pubkey = 2, oc_signature = sample_signature 2\<rparr>"

definition sample_propose_tx :: propose_params_tx where
  "sample_propose_tx = \<lparr>pt_proposal_id = 800, pt_proposer = alice, pt_effective_epoch = 2,
     pt_params = default_protocol_params, pt_nonce = 0, pt_pubkey = 1, pt_signature = sample_signature 1\<rparr>"

definition sample_vote_tx :: vote_tx where
  "sample_vote_tx = \<lparr>vt_proposal_id = 800, vt_voter = bob, vt_choice = VoteYes, vt_voting_power = 50000,
     vt_nonce = 0, vt_pubkey = 2, vt_signature = sample_signature 2\<rparr>"

definition sample_block :: "u64 \<Rightarrow> transaction list \<Rightarrow> block" where
  "sample_block h txs = \<lparr>blk_height = h, blk_transactions = txs\<rparr>"

text \<open>
  Height 11: a batch for epoch 1, its commit and a stake by Bob on Alice's node. From there,
  Bob challenges the epoch or unbonds part of his stake, or the epoch is finalized. On another
  branch Alice proposes parameters for epoch 2.
\<close>

definition sample_opening :: "transaction list" where
  "sample_opening = [SubmitBatch sample_batch_tx, CommitEpoch sample_commit_tx, Stake sample_stake_tx]"

definition sample_committed :: protocol_state where
  "sample_committed = snd (execute_block sample_env (sample_block 11 sample_opening) sample_start)"

definition sample_challenged :: protocol_state where
  "sample_challenged = snd (apply_transaction sample_env (OpenChallenge sample_challenge_tx) sample_committed)"

definition sample_unbonding :: protocol_state where
  "sample_unbonding = snd (apply_transaction sample_env (Unbond sample_unbond_tx) sample_committed)"

definition sample_elapsed :: protocol_state where
  "sample_elapsed = snd (execute_block sample_env (sample_block 16 []) sample_committed)"

definition sample_finalized :: protocol_state where
  "sample_finalized = snd (finalize_epoch 1 sample_elapsed)"

definition sample_proposed :: protocol_state where
  "sample_proposed = snd (apply_transaction sample_env (ProposeProtocolParamsUpdate sample_propose_tx) sample_start)"

lemma be_bytes_small: "0 \<le> k \<Longrightarrow> k < 256 \<Longrightarrow> be_bytes (Suc n) k = replicate n 0 @ [word_of_int k]"
proof (induction n)
  case (Suc n)
  have "(256::int) \<le> 256 ^ Suc n"
    using power_increasing [of 1 "Suc n" "256::int"] by (simp only: power_one_right)
  with Suc.prems(2) have "k < 256 ^ Suc n" by linarith
  with Suc.prems(1) have "k div 256 ^ Suc n = 0" "k mod 256 ^ Suc n = k" by (simp_all del: power_Suc)
  with Suc show ?case by (subst be_bytes.simps(2)) (simp del: be_bytes.simps power_Suc)
qed simp

lemma sample_holders [simp]:
  "stable_hash32 (to_bytes32 1) = alice" "stable_hash32 (to_bytes32 2) = bob" "stable_hash32 (to_bytes32 3) = carol"
  "alice \<noteq> bob" "bob \<noteq> alice" "alice \<noteq> carol" "carol \<noteq> alice" "bob \<noteq> carol" "carol \<noteq> bob"
proof -
  have bytes: "to_bytes32 1 = replicate 31 0 @ [1]" "to_bytes32 2 = replicate 31 0 @ [2]" "to_bytes32 3 = replicate 31 0 @ [3]"
    using be_bytes_small [of 1 31] be_bytes_small [of 2 31] be_bytes_small [of 3 31] by (simp_all add: to_bytes32_def)
  have differ: "stable_hash32 (replicate 31 0 @ [b]) \<noteq> stable_hash32 (replicate 31 0 @ [c])" if "b \<noteq> c" for b c
    using stable_hash32_first_lane [of "replicate 31 0 @ [b]" "replicate 31 0 @ [c]"] that
    by (auto simp: hash_lane_byte_inj)
  show "alice \<noteq> bob" "bob \<noteq> alice" "alice \<noteq> carol" "carol \<noteq> alice" "bob \<noteq> carol" "carol \<noteq> bob"
    unfolding alice_def bob_def carol_def bytes by (rule differ; simp)+
qed (simp_all add: alice_def bob_def carol_def)

lemma sample_verify [simp]:
  "verify_signature sample_env pk msg sig \<longleftrightarrow> sig = sample_signature pk"
  by (auto simp: verify_signature_def sample_env_def sample_signature_def)

lemma default_params_valid: "validate default_protocol_params = Inr ()"
  by code_simp

lemma sample_params [simp]:
  "challenge_window_blocks default_protocol_params = 20" "min_propose_bond default_protocol_params = 10000"
  "unbonding_blocks default_protocol_params = 5"
  "pp_governance default_protocol_params = \<lparr>
       params_update_bond = 10000,
       params_update_quorum_bps = 2500,
       params_update_approval_bps = 6000,
       slow_params_update_bond = 20000,
       slow_params_update_quorum_bps = 3300,
       slow_params_update_approval_bps = 7500 \<rparr>"
  by (simp_all add: default_protocol_params_def)

lemma sample_genesis_new: "new_state default_protocol_params 10 1 = Some sample_genesis"
  by (simp add: new_state_def default_params_valid sample_genesis_def)

subsection \<open>Soundness of the sample states\<close>

lemma sample_start_reachable: "reachable sample_env sample_genesis sample_start"
proof -
  let ?a = "sample_account alice 50000" and ?b = "sample_account bob 50000"
  let ?s1 = "upsert_account ?a sample_genesis"
  let ?s2 = "upsert_account ?b ?s1"
  let ?s3 = "upsert_node sample_node ?s2"
  note eval = upsert_account_def upsert_node_def upsert_reward_record_def sample_account_def sample_genesis_def
    sample_node_def sample_reward_def default_store_def store_writes account_def total_supply_def outstanding_def
    funded_def bt_total_def bt_values_def acc_total_def bs_contains_def
  have "protocol_step sample_env sample_genesis ?s1"
    by (rule step_account) (simp_all add: eval)
  moreover have "protocol_step sample_env ?s1 ?s2"
    by (rule step_account) (simp_all add: eval)
  moreover have "protocol_step sample_env ?s2 ?s3" by (rule step_node)
  moreover have "protocol_step sample_env ?s3 sample_start"
    unfolding sample_start_def by (rule step_reward) (simp add: eval)
  ultimately show ?thesis by (meson reach_start reach_step)
qed

lemma sample_start_sound: "sound sample_start"
  using sample_start_reachable new_state_sound [OF sample_genesis_new] by (rule reachable_sound)

lemma sample_sound [simp]:
  "sound sample_start" "sound sample_committed" "sound sample_challenged" "sound sample_unbonding" "sound sample_elapsed"
  "sound sample_finalized" "sound sample_proposed"
proof -
  show start: "sound sample_start" by (rule sample_start_sound)
  show committed: "sound sample_committed"
    unfolding sample_committed_def by (rule sound_blocks.block_keeps [OF start])
  show elapsed: "sound sample_elapsed"
    unfolding sample_elapsed_def by (rule sound_blocks.block_keeps [OF committed])
  show "sound sample_challenged" "sound sample_unbonding"
    unfolding sample_challenged_def sample_unbonding_def by (rule sound_blocks.transaction_keeps [OF committed])+
  show "sound sample_proposed"
    unfolding sample_proposed_def by (rule sound_blocks.transaction_keeps [OF start])
  show "sound sample_finalized"
    unfolding sample_finalized_def by (rule finalize_epoch_sound [OF elapsed])
qed

subsection \<open>Evaluation\<close>

lemmas sample_guards =
  ensure_signature_def ensure_epoch_not_stale_def ensure_non_empty_payload_def ensure_positive_amount_def
  ensure_nonce_def ensure_bond_def require_active_node_def require_active_node_with_capability_def
  lock_bond_def unlock_bond_to_balance_def

lemma sample_start_eq:
  "sample_start = \<lparr>height = 10, current_epoch = 1, params = default_protocol_params, store = default_store\<lparr>
     accounts := bt_insert bob (sample_account bob 50000) (bt_insert alice (sample_account alice 50000) bt_empty),
     nodes := bt_insert alice sample_node bt_empty,
     reward_records := bt_insert (1, alice) sample_reward bt_empty\<rparr>\<rparr>"
  by (simp add: sample_start_def sample_genesis_def upsert_account_def upsert_node_def upsert_reward_record_def
      store_writes on_store_def default_store_def) (simp add: sample_node_def sample_account_def sample_reward_def)

lemma sample_opening_run:
  "execute_block sample_env (sample_block 11 sample_opening) sample_start =
     (Inr [BatchAccepted (1, alice, 77), EpochCommitted 1 15, StakeApplied bob alice 500],
      sample_start\<lparr>height := 11, store := (store sample_start)\<lparr>
        accounts := bt_insert bob \<lparr>acc_address = bob, acc_balance = 49500, acc_staked = 500, acc_locked = 0,
            acc_nonce = 1\<rparr> (accounts (store sample_start)),
        nodes := bt_insert alice (sample_node\<lparr>nr_bond := 20500\<rparr>) (nodes (store sample_start)),
        batches := bt_insert (1, alice, 77) ((sb_batch_commit sample_batch_tx)\<lparr>bc_submitted_at_height := 11\<rparr>) bt_empty,
        epoch_commits := bt_insert 1 ((ce_epoch_commit sample_commit_tx)\<lparr>ec_challenge_open_height := 11\<rparr>) bt_empty,
        delegations := bt_insert (bob, alice) \<lparr>dl_delegator = bob, dl_operator = alice, dl_amount = 500\<rparr> bt_empty\<rparr>\<rparr>)"
  by (simp add: sample_start_eq default_store_def execute_block_def process_mature_unbonds_def
      drain_mature_unbondings_def sample_block_def sample_opening_def store_writes store_reads
      sample_batch_tx_def sample_commit_tx_def sample_stake_tx_def sample_node_def sample_account_def
      apply_submit_batch_def apply_commit_epoch_def apply_stake_def sample_guards has_any_batch_for_epoch_def
      bt_keys_def from_transition_error_def on_store_def Let_def)

lemmas sample_eval =
  sample_opening_run sample_start_eq default_store_def store_writes store_reads sample_node_def sample_account_def
  sample_reward_def sample_guards on_store_def Let_def

lemma sample_committed_eq:
  "sample_committed = sample_start\<lparr>height := 11, store := (store sample_start)\<lparr>
        accounts := bt_insert bob \<lparr>acc_address = bob, acc_balance = 49500, acc_staked = 500, acc_locked = 0,
            acc_nonce = 1\<rparr> (accounts (store sample_start)),
        nodes := bt_insert alice (sample_node\<lparr>nr_bond := 20500\<rparr>) (nodes (store sample_start)),
        batches := bt_insert (1, alice, 77) ((sb_batch_commit sample_batch_tx)\<lparr>bc_submitted_at_height := 11\<rparr>) bt_empty,
        epoch_commits := bt_insert 1 ((ce_epoch_commit sample_commit_tx)\<lparr>ec_challenge_open_height := 11\<rparr>) bt_empty,
        delegations := bt_insert (bob, alice) \<lparr>dl_delegator = bob, dl_operator = alice, dl_amount = 500\<rparr> bt_empty\<rparr>\<rparr>"
  by (simp add: sample_committed_def sample_opening_run)

lemma sample_unbonding_run:
  "apply_unbond sample_env sample_unbond_tx sample_committed = (Inr (UnbondQueued bob alice 200 16), sample_unbonding)
    \<and> height sample_unbonding = 11
    \<and> unbonding_queue (store sample_unbonding) = [\<lparr>ub_delegator = bob, ub_operator = alice, ub_amount = 200,
        ub_unlock_height = 16\<rparr>]"
  by (simp add: sample_unbonding_def sample_committed_eq sample_eval apply_unbond_def sample_unbond_tx_def)


lemma sample_elapsed_eq: "sample_elapsed = sample_committed\<lparr>height := 16\<rparr>"
  by (simp add: sample_elapsed_def sample_committed_eq sample_eval execute_block_def sample_block_def
      process_mature_unbonds_def drain_mature_unbondings_def from_transition_error_def)

lemma sample_finalized_run:
  "finalize_epoch 1 sample_elapsed = (Inr (EpochFinalized 1), sample_finalized)
    \<and> sample_finalized = sample_elapsed\<lparr>current_epoch := 2, store := (store sample_elapsed)\<lparr>
        finalized_epochs := bs_insert 1 (finalized_epochs (store sample_elapsed))\<rparr>\<rparr>"
  by (simp add: sample_finalized_def sample_elapsed_eq sample_committed_eq sample_eval finalize_epoch_def
      sample_commit_tx_def has_open_challenges_for_epoch_def bt_values_def activate_scheduled_protocol_params_def
      take_scheduled_protocol_params_def expire_stale_params_update_proposals_def params_update_proposals_iter_def)

lemma sample_claim_run:
  "\<exists>s'. apply_claim_reward sample_env sample_claim_tx sample_finalized = (Inr (RewardClaimed 1 alice alice 70), s')"
  by (simp add: sample_finalized_run sample_elapsed_eq sample_committed_eq sample_eval apply_claim_reward_def
      sample_claim_tx_def)


lemma sample_challenged_eq:
  "apply_open_challenge sample_env sample_challenge_tx sample_committed = (Inr (ChallengeOpened 900 50), sample_challenged)
    \<and> sample_challenged = sample_committed\<lparr>store := (store sample_committed)\<lparr>
        accounts := bt_insert bob \<lparr>acc_address = bob, acc_balance = 49450, acc_staked = 500, acc_locked = 50, acc_nonce = 1\<rparr>
          (accounts (store sample_committed)),
        open_challenges := bt_insert 900 ((oc_challenge sample_challenge_tx)\<lparr>ch_opened_at_height := 11\<rparr>) bt_empty\<rparr>\<rparr>"
  by (simp add: sample_challenged_def sample_committed_eq sample_eval apply_open_challenge_def sample_challenge_tx_def
      sample_commit_tx_def)

lemma sample_challenged_funds:
  "total_supply (store sample_challenged) = 100000" "outstanding (store sample_challenged) = 70"
  by (simp_all add: sample_challenged_eq sample_committed_eq sample_eval total_supply_def outstanding_def
      bt_total_def bt_values_def acc_total_def)

lemma sample_resolve_run:
  "\<exists>s'. resolve_challenge 900 (ResBadBatch 100 40 None) sample_challenged
     = (Inr (ChallengeResolved 900 KBadBatch 100 40), s')"
  by (simp add: sample_challenged_eq sample_committed_eq sample_eval resolve_challenge_def resolve_upheld_def
      sample_challenge_tx_def)


definition sample_pending :: governance_proposal where
  "sample_pending = \<lparr>gp_proposal_id = 800, gp_proposer = alice, gp_kind = FastParams, gp_effective_epoch = 2,
     gp_submitted_height = 10, gp_bond_amount = 10000, gp_params_hash = stable_hash32 [],
     gp_params = default_protocol_params, gp_state = ProposalPending\<rparr>"

lemma sample_proposed_eq:
  "sample_proposed = sample_start\<lparr>store := (store sample_start)\<lparr>
     accounts := bt_insert alice \<lparr>acc_address = alice, acc_balance = 40000, acc_staked = 0, acc_locked = 10000, acc_nonce = 1\<rparr>
       (accounts (store sample_start)),
     params_update_proposals := bt_insert 800 sample_pending bt_empty\<rparr>\<rparr>"
  by (simp add: sample_proposed_def sample_eval apply_propose_protocol_params_update_def sample_propose_tx_def
      classify_protocol_params_update_def required_bond_def sample_pending_def) (simp add: sample_env_def)

lemma sample_proposal:
  "params_update_proposal (store sample_proposed) 800 = Some sample_pending" "gp_state sample_pending = ProposalPending"
  by (simp_all add: sample_proposed_eq params_update_proposal_def sample_pending_def)

lemma sample_no_votes: "vote_records_for_proposal (store sample_proposed) 800 = []"
  by (simp add: sample_proposed_eq sample_eval vote_records_for_proposal_def bt_values_def)

lemma sample_vote_run:
  "\<exists>s'. apply_transaction sample_env (Vote sample_vote_tx) sample_proposed = (Inr (VoteRecorded 800 bob 50000), s')
     \<and> params_update_proposal (store s') 800 \<noteq> Some sample_pending"
  by (simp add: sample_proposed_eq sample_eval apply_vote_def sample_vote_tx_def try_schedule_params_update_after_vote_def
      sample_pending_def proposal_passes_def vote_records_for_proposal_def bt_values_def tally_votes_def total_voting_power_def
      accounts_iter_def required_quorum_bps_def required_approval_bps_def saturating_mul_def schedule_protocol_params_update_def
      default_params_valid not_le)

text \<open>A chain that commits epoch 3 while epoch 1 is current, with an approved proposal for epoch 2.\<close>

definition sample_skip_txs :: "transaction list" where
  "sample_skip_txs =
     [SubmitBatch (sample_batch_tx\<lparr>sb_batch_commit := (sb_batch_commit sample_batch_tx)\<lparr>bc_epoch_id := 3\<rparr>\<rparr>),
      CommitEpoch (sample_commit_tx\<lparr>ce_epoch_commit := (ce_epoch_commit sample_commit_tx)\<lparr>ec_epoch_id := 3\<rparr>\<rparr>),
      Vote sample_vote_tx]"

definition sample_skipping :: protocol_state where
  "sample_skipping = snd (execute_block sample_env (sample_block 16 [])
     (snd (execute_block sample_env (sample_block 11 sample_skip_txs) sample_proposed)))"

lemma sample_skipping_sound: "sound sample_skipping"
  unfolding sample_skipping_def by (intro sound_blocks.block_keeps sample_sound)

lemma sample_skip_block:
  "\<exists>es. execute_block sample_env (sample_block 11 sample_skip_txs) sample_proposed = (Inr es,
    sample_proposed\<lparr>height := 11, store := (store sample_proposed)\<lparr>
      accounts := bt_insert alice (sample_account alice 50000\<lparr>acc_nonce := 1\<rparr>)
        (bt_insert bob (sample_account bob 50000\<lparr>acc_nonce := 1\<rparr>) (accounts (store sample_proposed))),
      batches := bt_insert (3, alice, 77) ((sb_batch_commit sample_batch_tx)\<lparr>bc_epoch_id := 3, bc_submitted_at_height := 11\<rparr>) bt_empty,
      epoch_commits := bt_insert 3 ((ce_epoch_commit sample_commit_tx)\<lparr>ec_epoch_id := 3, ec_challenge_open_height := 11\<rparr>) bt_empty,
      votes := bt_insert (800, bob) \<lparr>gv_proposal_id = 800, gv_voter = bob, gv_choice = VoteYes, gv_voting_power = 50000,
        gv_recorded_height = 11\<rparr> bt_empty,
      params_update_proposals := bt_insert 800 (sample_pending\<lparr>gp_state := ProposalScheduled\<rparr>)
         (params_update_proposals (store sample_proposed)),
      scheduled_protocol_params := bt_insert 2 default_protocol_params bt_empty\<rparr>\<rparr>)"
  by (simp add: sample_proposed_eq sample_eval apply_vote_def sample_vote_tx_def try_schedule_params_update_after_vote_def
      sample_pending_def proposal_passes_def vote_records_for_proposal_def bt_values_def tally_votes_def total_voting_power_def
      accounts_iter_def required_quorum_bps_def required_approval_bps_def saturating_mul_def schedule_protocol_params_update_def
      default_params_valid not_le execute_block_def process_mature_unbonds_def
      drain_mature_unbondings_def sample_block_def sample_skip_txs_def sample_batch_tx_def sample_commit_tx_def
      apply_submit_batch_def apply_commit_epoch_def has_any_batch_for_epoch_def
      bt_keys_def from_transition_error_def)

lemma sample_skipping_run:
  "may_close 3 sample_skipping \<and> current_epoch sample_skipping = 1
    \<and> scheduled_params_for (store sample_skipping) 2 = Some default_protocol_params
    \<and> params_update_proposal (store sample_skipping) 800 = Some (sample_pending\<lparr>gp_state := ProposalScheduled\<rparr>)"
proof -
  from sample_skip_block obtain es s1 where run: "execute_block sample_env (sample_block 11 sample_skip_txs) sample_proposed
      = (Inr es, s1)" and s1: "s1 = sample_proposed\<lparr>height := 11, store := (store sample_proposed)\<lparr>
      accounts := bt_insert alice (sample_account alice 50000\<lparr>acc_nonce := 1\<rparr>)
        (bt_insert bob (sample_account bob 50000\<lparr>acc_nonce := 1\<rparr>) (accounts (store sample_proposed))),
      batches := bt_insert (3, alice, 77) ((sb_batch_commit sample_batch_tx)\<lparr>bc_epoch_id := 3, bc_submitted_at_height := 11\<rparr>) bt_empty,
      epoch_commits := bt_insert 3 ((ce_epoch_commit sample_commit_tx)\<lparr>ec_epoch_id := 3, ec_challenge_open_height := 11\<rparr>) bt_empty,
      votes := bt_insert (800, bob) \<lparr>gv_proposal_id = 800, gv_voter = bob, gv_choice = VoteYes, gv_voting_power = 50000,
        gv_recorded_height = 11\<rparr> bt_empty,
      params_update_proposals := bt_insert 800 (sample_pending\<lparr>gp_state := ProposalScheduled\<rparr>)
         (params_update_proposals (store sample_proposed)),
      scheduled_protocol_params := bt_insert 2 default_protocol_params bt_empty\<rparr>\<rparr>"
    by blast
  have eq: "sample_skipping = s1\<lparr>height := 16\<rparr>"
    unfolding sample_skipping_def run snd_conv
    by (simp add: s1 execute_block_def sample_block_def sample_proposed_eq sample_eval process_mature_unbonds_def
        drain_mature_unbondings_def from_transition_error_def)
  show ?thesis
    by (simp add: eq s1 sample_proposed_eq sample_eval may_close_def has_open_challenges_for_epoch_def bt_values_def
        sample_commit_tx_def)
qed

text \<open>The challenge against Alice's node upheld with a slash that leaves less than Bob's stake behind.\<close>

definition sample_slashed :: protocol_state where
  "sample_slashed = snd (resolve_challenge 900 (ResBadBatch 20400 40 None) sample_challenged)"

lemma sample_slashed_sound: "sound sample_slashed"
  unfolding sample_slashed_def
  by (rule resolve_challenge_sound) (use sample_challenged_funds in simp_all)

lemma sample_slashed_state:
  "account (store sample_slashed) bob = Some \<lparr>acc_address = bob, acc_balance = 49540, acc_staked = 500, acc_locked = 0, acc_nonce = 1\<rparr>
    \<and> delegation (store sample_slashed) (bob, alice) = Some \<lparr>dl_delegator = bob, dl_operator = alice, dl_amount = 500\<rparr>
    \<and> (\<exists>n. node (store sample_slashed) alice = Some n \<and> nr_bond n = 100)"
  by (simp add: sample_slashed_def sample_challenged_eq sample_committed_eq sample_eval resolve_challenge_def resolve_upheld_def
      sample_challenge_tx_def)

end
