(* ===== verification/Merkle.thy ===== *)
theory Merkle
  imports Hashing
begin

text \<open>
  The Merkle commitments of \<open>src/src/node_pipeline.rs\<close>: leaf and parent hashes with their domain
  separators \<open>0x00\<close> and \<open>0x01\<close>, one pass over a level (a level of odd length pairs its last
  node with itself), and the loop that repeats the pass until one node is left.
\<close>

definition merkle_leaf_sha256 :: "(byte_vec \<Rightarrow> bytes32) \<Rightarrow> byte_vec \<Rightarrow> bytes32" where
  "merkle_leaf_sha256 sha256 record_bytes = sha256 (0x00 # record_bytes)"

definition merkle_parent_input :: "bytes32 \<Rightarrow> bytes32 \<Rightarrow> byte_vec" where
  "merkle_parent_input left right = 0x01 # to_bytes32 left @ to_bytes32 right"

fun merkle_next_level :: "(byte_vec \<Rightarrow> bytes32) \<Rightarrow> bytes32 list \<Rightarrow> bytes32 list" where
  "merkle_next_level sha256 [] = []"
| "merkle_next_level sha256 [left] = [sha256 (merkle_parent_input left left)]"
| "merkle_next_level sha256 (left # right # rest) =
     sha256 (merkle_parent_input left right) # merkle_next_level sha256 rest"

lemma length_merkle_next_level [simp]:
  "length (merkle_next_level sha256 level) = (length level + 1) div 2"
  by (induction sha256 level rule: merkle_next_level.induct) simp_all

function merkle_climb :: "(byte_vec \<Rightarrow> bytes32) \<Rightarrow> bytes32 list \<Rightarrow> bytes32" where
  "merkle_climb sha256 level =
     (if length level > 1 then merkle_climb sha256 (merkle_next_level sha256 level)
      else case level of [] \<Rightarrow> 0 | node # _ \<Rightarrow> node)"
  by pat_completeness auto
termination
  by (relation "measure (\<lambda>(sha256, level). length level)") auto

declare merkle_climb.simps [simp del]

definition merkle_root :: "(byte_vec \<Rightarrow> bytes32) \<Rightarrow> bytes32 list \<Rightarrow> bytes32" where
  "merkle_root sha256 leaves = (if leaves = [] then 0 else merkle_climb sha256 leaves)"

lemma merkle_climb_step:
  "length level > 1 \<Longrightarrow> merkle_climb sha256 level = merkle_climb sha256 (merkle_next_level sha256 level)"
  by (simp add: merkle_climb.simps [of sha256 level])

lemma merkle_climb_single [simp]: "merkle_climb sha256 [node] = node"
  by (simp add: merkle_climb.simps)

lemma merkle_root_single: "merkle_root sha256 [leaf] = leaf"
  by (simp add: merkle_root_def)

subsection \<open>The byte strings hashed on the way to the root\<close>

fun level_inputs :: "bytes32 list \<Rightarrow> byte_vec list" where
  "level_inputs [] = []"
| "level_inputs [left] = [merkle_parent_input left left]"
| "level_inputs (left # right # rest) = merkle_parent_input left right # level_inputs rest"

lemma merkle_next_level_map: "merkle_next_level sha256 level = map sha256 (level_inputs level)"
  by (induction level rule: level_inputs.induct) simp_all

function merkle_inputs :: "(byte_vec \<Rightarrow> bytes32) \<Rightarrow> bytes32 list \<Rightarrow> byte_vec list" where
  "merkle_inputs sha256 level =
     (if length level > 1
      then level_inputs level @ merkle_inputs sha256 (merkle_next_level sha256 level) else [])"
  by pat_completeness auto
termination
  by (relation "measure (\<lambda>(sha256, level). length level)") auto

declare merkle_inputs.simps [simp del]

lemma to_bytes32_inj: "to_bytes32 a = to_bytes32 b \<longleftrightarrow> a = b"
  by (metis of_to_bytes32)

lemma merkle_parent_input_inj:
  "merkle_parent_input a b = merkle_parent_input c d \<longleftrightarrow> a = c \<and> b = d"
  by (simp add: merkle_parent_input_def to_bytes32_inj)

lemma length_level_inputs [simp]: "length (level_inputs level) = (length level + 1) div 2"
  by (induction level rule: level_inputs.induct) simp_all

lemma level_inputs_inj:
  "length xs = length ys \<Longrightarrow> level_inputs xs = level_inputs ys \<Longrightarrow> xs = ys"
proof (induction xs arbitrary: ys rule: level_inputs.induct)
  case (2 left)
  then show ?case
    by (cases ys rule: level_inputs.cases) (simp_all add: merkle_parent_input_inj)
next
  case (3 left right rest)
  then show ?case
    by (cases ys rule: level_inputs.cases) (simp_all add: merkle_parent_input_inj)
qed simp

lemma map_inj_on_eq:
  "inj_on f (set xs \<union> set ys) \<Longrightarrow> map f xs = map f ys \<Longrightarrow> xs = ys"
  by (rule map_inj_on) auto

lemma merkle_climb_binding:
  assumes "length xs = length ys" "xs \<noteq> []"
    and "merkle_climb sha256 xs = merkle_climb sha256 ys"
    and "inj_on sha256 (set (merkle_inputs sha256 xs) \<union> set (merkle_inputs sha256 ys))"
  shows "xs = ys"
  using assms
proof (induction sha256 xs arbitrary: ys rule: merkle_climb.induct)
  case (1 sha256 level)
  show ?case
  proof (cases "length level > 1")
    case True
    let ?up = "merkle_next_level sha256"
    have inj: "inj_on sha256 (set (level_inputs level @ merkle_inputs sha256 (?up level))
        \<union> set (level_inputs ys @ merkle_inputs sha256 (?up ys)))"
      using "1.prems" True
      by (simp add: merkle_inputs.simps [of sha256 level] merkle_inputs.simps [of sha256 ys])
    have "?up level = ?up ys"
    proof (rule "1.IH" [OF True])
      show "?up level \<noteq> []" using True by (cases level rule: level_inputs.cases) simp_all
      show "inj_on sha256 (set (merkle_inputs sha256 (?up level)) \<union> set (merkle_inputs sha256 (?up ys)))"
        using inj by (rule inj_on_subset) auto
    qed (use "1.prems" True in \<open>simp_all add: merkle_climb_step\<close>)
    then have "level_inputs level = level_inputs ys"
      using inj by (intro map_inj_on_eq [of sha256]) (auto simp: merkle_next_level_map elim: inj_on_subset)
    with "1.prems"(1) show ?thesis by (rule level_inputs_inj)
  next
    case False
    with "1.prems"(1,2) obtain x y where "level = [x]" "ys = [y]"
      by (cases level; cases ys) auto
    with "1.prems"(3) show ?thesis by simp
  qed
qed

subsection \<open>Shape of the tree\<close>

lemma merkle_next_level_append:
  "even (length xs) \<Longrightarrow>
    merkle_next_level sha256 (xs @ ys) = merkle_next_level sha256 xs @ merkle_next_level sha256 ys"
  by (induction sha256 xs rule: merkle_next_level.induct) simp_all

lemma merkle_climb_split:
  assumes "length xs = 2 ^ k" "length ys \<le> 2 ^ k" "2 ^ k < 2 * length ys"
  shows "merkle_climb sha256 (xs @ ys) =
    sha256 (merkle_parent_input (merkle_climb sha256 xs) (merkle_climb sha256 ys))"
  using assms
proof (induction k arbitrary: xs ys)
  case 0
  then obtain x y where "xs = [x]" "ys = [y]"
    by (cases xs; cases ys) auto
  then show ?case
    by (simp add: merkle_climb_step)
next
  case (Suc k)
  let ?up = "merkle_next_level sha256"
  have long: "length (xs @ ys) > 1" "length xs > 1" "length ys > 1"
    using Suc.prems one_le_power [of 2 k] by auto
  have "merkle_climb sha256 (xs @ ys) = merkle_climb sha256 (?up xs @ ?up ys)"
    using long(1) Suc.prems(1) by (simp add: merkle_climb_step merkle_next_level_append)
  also have "\<dots> = sha256 (merkle_parent_input (merkle_climb sha256 (?up xs)) (merkle_climb sha256 (?up ys)))"
    using Suc.prems by (intro Suc.IH) auto
  finally show ?case using long by (simp add: merkle_climb_step)
qed

lemma merkle_next_level_repeat_last:
  "odd (length xs) \<Longrightarrow> merkle_next_level sha256 (xs @ [last xs]) = merkle_next_level sha256 xs"
proof (induction sha256 xs rule: merkle_next_level.induct)
  case (3 sha256 a b rest)
  then show ?case by (cases rest) auto
qed simp_all

lemma merkle_climb_repeat_last:
  assumes "odd (length xs)" "1 < length xs"
  shows "merkle_climb sha256 (xs @ [last xs]) = merkle_climb sha256 xs"
proof -
  have "merkle_climb sha256 (xs @ [last xs]) = merkle_climb sha256 (merkle_next_level sha256 (xs @ [last xs]))"
    using assms(2) by (intro merkle_climb_step) auto
  also have "\<dots> = merkle_climb sha256 xs"
    using assms by (simp add: merkle_next_level_repeat_last merkle_climb_step [symmetric])
  finally show ?thesis .
qed

end
