(* ===== verification/Tokenomics.thy ===== *)
theory Tokenomics
  imports Params
begin

text \<open>
  Token economics (\<open>src/src/tokenomics.rs\<close>): the emission schedule, its split between players
  and services, and the activity adjustment with its integer square root. Amounts are
  \<open>u128\<close>; where the code can panic (a division by zero inside \<open>integer_sqrt\<close>) the result is an
  option with \<open>None\<close> for the panic.
\<close>

definition TOTAL_SUPPLY :: amount where "TOTAL_SUPPLY = 1000000000"
definition INITIAL_EMISSION_RATE_BPS :: u16 where "INITIAL_EMISSION_RATE_BPS = 2000"
definition LONG_TERM_TAIL_START_YEAR :: u32 where "LONG_TERM_TAIL_START_YEAR = 4"
definition LONG_TERM_TAIL_EMISSION_RATE_BPS :: u16 where "LONG_TERM_TAIL_EMISSION_RATE_BPS = 200"
definition PLAYER_REWARD_ALLOCATION_BPS :: u16 where "PLAYER_REWARD_ALLOCATION_BPS = 8000"
definition SERVICE_REWARD_ALLOCATION_BPS :: u16 where "SERVICE_REWARD_ALLOCATION_BPS = 1000"
definition TREASURY_ALLOCATION_BPS :: u16 where "TREASURY_ALLOCATION_BPS = 500"
definition TEAM_ALLOCATION_BPS :: u16 where "TEAM_ALLOCATION_BPS = 300"
definition EARLY_SUPPORTER_ALLOCATION_BPS :: u16 where "EARLY_SUPPORTER_ALLOCATION_BPS = 200"
definition HOURS_PER_YEAR :: u64 where "HOURS_PER_YEAR = 24 * 365"
definition ANNUAL_EMISSION_ADJUSTMENT_CAP_BPS :: u16 where "ANNUAL_EMISSION_ADJUSTMENT_CAP_BPS = 1000"

record allocation_breakdown_rec =
  ab_player_rewards :: amount
  ab_service_rewards :: amount
  ab_treasury :: amount
  ab_team :: amount
  ab_early_supporters :: amount

record annual_emission_schedule_rec =
  sched_year :: u32
  sched_nominal_rate_bps :: u16
  sched_annual_emission :: amount
  sched_cumulative_emission :: amount

definition proportional_amount :: "amount \<Rightarrow> u16 \<Rightarrow> amount" where
  "proportional_amount whole bps = saturating_mul whole (ucast bps) div 10000"

definition allocation_breakdown :: allocation_breakdown_rec where
  "allocation_breakdown =
     \<lparr>ab_player_rewards = proportional_amount TOTAL_SUPPLY PLAYER_REWARD_ALLOCATION_BPS,
      ab_service_rewards = proportional_amount TOTAL_SUPPLY SERVICE_REWARD_ALLOCATION_BPS,
      ab_treasury = proportional_amount TOTAL_SUPPLY TREASURY_ALLOCATION_BPS,
      ab_team = proportional_amount TOTAL_SUPPLY TEAM_ALLOCATION_BPS,
      ab_early_supporters = proportional_amount TOTAL_SUPPLY EARLY_SUPPORTER_ALLOCATION_BPS\<rparr>"

text \<open>The halving loop, with its early exit.\<close>

fun halve_loop :: "nat \<Rightarrow> u32 \<Rightarrow> u32" where
  "halve_loop 0 rate = rate"
| "halve_loop (Suc n) rate = (let rate' = rate div 2 in if rate' = 0 then rate' else halve_loop n rate')"

definition annual_emission_rate_bps_with_tail :: "u32 \<Rightarrow> u32 \<Rightarrow> u16 \<Rightarrow> u16" where
  "annual_emission_rate_bps_with_tail year tail_start tail_rate =
     (if year \<ge> max tail_start 1 then tail_rate
      else
        let period_index = saturating_sub year 1 div 2
        in ucast (halve_loop (unat period_index) (ucast INITIAL_EMISSION_RATE_BPS)))"

definition annual_emission_rate_bps :: "u32 \<Rightarrow> u16" where
  "annual_emission_rate_bps year =
     annual_emission_rate_bps_with_tail year LONG_TERM_TAIL_START_YEAR LONG_TERM_TAIL_EMISSION_RATE_BPS"

definition annual_emission_amount :: "u32 \<Rightarrow> amount" where
  "annual_emission_amount year = proportional_amount TOTAL_SUPPLY (annual_emission_rate_bps year)"

definition annual_emission_amount_with_tail :: "u32 \<Rightarrow> u32 \<Rightarrow> u16 \<Rightarrow> amount" where
  "annual_emission_amount_with_tail year tail_start tail_rate =
     proportional_amount TOTAL_SUPPLY (annual_emission_rate_bps_with_tail year tail_start tail_rate)"

text \<open>The loop \<open>for year in 1..=years\<close>, over the list of its years.\<close>

fun schedule_loop :: "u32 list \<Rightarrow> u32 \<Rightarrow> u16 \<Rightarrow> amount \<Rightarrow> annual_emission_schedule_rec list" where
  "schedule_loop [] tail_start tail_rate cumulative = []"
| "schedule_loop (year # rest) tail_start tail_rate cumulative =
     (let emission = annual_emission_amount_with_tail year tail_start tail_rate;
          cumulative' = cumulative + emission
      in \<lparr>sched_year = year,
          sched_nominal_rate_bps = annual_emission_rate_bps_with_tail year tail_start tail_rate,
          sched_annual_emission = emission,
          sched_cumulative_emission = cumulative'\<rparr> # schedule_loop rest tail_start tail_rate cumulative')"

definition annual_emission_schedule_with_tail :: "u32 \<Rightarrow> u32 \<Rightarrow> u16 \<Rightarrow> annual_emission_schedule_rec list" where
  "annual_emission_schedule_with_tail years tail_start tail_rate =
     schedule_loop (map word_of_nat [1..<Suc (unat years)]) tail_start tail_rate 0"

definition annual_emission_schedule :: "u32 \<Rightarrow> annual_emission_schedule_rec list" where
  "annual_emission_schedule years =
     annual_emission_schedule_with_tail years LONG_TERM_TAIL_START_YEAR LONG_TERM_TAIL_EMISSION_RATE_BPS"

definition annual_player_rewards_emission :: "u32 \<Rightarrow> amount" where
  "annual_player_rewards_emission year =
     proportional_amount (annual_emission_amount year) PLAYER_REWARD_ALLOCATION_BPS"

definition annual_player_rewards_emission_with_tail :: "u32 \<Rightarrow> u32 \<Rightarrow> u16 \<Rightarrow> amount" where
  "annual_player_rewards_emission_with_tail year tail_start tail_rate =
     proportional_amount (annual_emission_amount_with_tail year tail_start tail_rate) PLAYER_REWARD_ALLOCATION_BPS"

definition annual_service_rewards_emission :: "u32 \<Rightarrow> amount" where
  "annual_service_rewards_emission year =
     proportional_amount (annual_emission_amount year) SERVICE_REWARD_ALLOCATION_BPS"

definition annual_service_rewards_emission_with_tail :: "u32 \<Rightarrow> u32 \<Rightarrow> u16 \<Rightarrow> amount" where
  "annual_service_rewards_emission_with_tail year tail_start tail_rate =
     proportional_amount (annual_emission_amount_with_tail year tail_start tail_rate) SERVICE_REWARD_ALLOCATION_BPS"

definition base_player_reward_per_block_with_tail :: "u32 \<Rightarrow> u64 \<Rightarrow> u32 \<Rightarrow> u16 \<Rightarrow> amount" where
  "base_player_reward_per_block_with_tail year secs tail_start tail_rate =
     (if secs = 0 then 0
      else
        let annual_player_budget = annual_player_rewards_emission_with_tail year tail_start tail_rate;
            blocks_per_year = (ucast HOURS_PER_YEAR * 3600) div ucast secs
        in if blocks_per_year = 0 then 0 else annual_player_budget div blocks_per_year)"

definition base_player_reward_per_block :: "u32 \<Rightarrow> u64 \<Rightarrow> amount" where
  "base_player_reward_per_block year secs =
     base_player_reward_per_block_with_tail year secs LONG_TERM_TAIL_START_YEAR LONG_TERM_TAIL_EMISSION_RATE_BPS"

definition base_service_reward_per_block_with_tail :: "u32 \<Rightarrow> u64 \<Rightarrow> u32 \<Rightarrow> u16 \<Rightarrow> amount" where
  "base_service_reward_per_block_with_tail year secs tail_start tail_rate =
     (if secs = 0 then 0
      else
        let annual_service_budget = annual_service_rewards_emission_with_tail year tail_start tail_rate;
            blocks_per_year = (ucast HOURS_PER_YEAR * 3600) div ucast secs
        in if blocks_per_year = 0 then 0 else annual_service_budget div blocks_per_year)"

definition base_service_reward_per_block :: "u32 \<Rightarrow> u64 \<Rightarrow> amount" where
  "base_service_reward_per_block year secs =
     base_service_reward_per_block_with_tail year secs LONG_TERM_TAIL_START_YEAR LONG_TERM_TAIL_EMISSION_RATE_BPS"

text \<open>
  Newton's iteration. \<open>x0 + value / x0\<close> wraps when it does not fit, and the next division
  panics when the new \<open>x0\<close> is zero.
\<close>

function sqrt_loop :: "amount \<Rightarrow> amount \<Rightarrow> amount \<Rightarrow> amount option" where
  "sqrt_loop value x0 x1 =
     (if x1 < x0
      then if x1 = 0 then None else sqrt_loop value x1 ((x1 + value div x1) div 2)
      else Some x0)"
  by pat_completeness auto
termination
  by (relation "measure (\<lambda>(value, x0, x1). unat x0)") (simp_all add: word_less_nat_alt)

declare sqrt_loop.simps [simp del]

definition integer_sqrt :: "amount \<Rightarrow> amount option" where
  "integer_sqrt value =
     (if value < 2 then Some value
      else sqrt_loop value value ((value + value div value) div 2))"

definition annual_emission_activity_factor :: "amount \<Rightarrow> amount \<Rightarrow> u16 \<Rightarrow> amount option" where
  "annual_emission_activity_factor target current cap_bps =
     (if target = 0 \<or> current = 0 then Some 1000000
      else
        let cap_ppm = ucast (min cap_bps 10000) * 100;
            lower = saturating_sub 1000000 cap_ppm;
            upper = saturating_add 1000000 cap_ppm;
            scaled_ratio = saturating_mul target 1000000000000 div current
        in map_option (\<lambda>r. clamp r lower upper) (integer_sqrt scaled_ratio))"

definition annual_emission :: "u32 \<Rightarrow> amount \<Rightarrow> amount \<Rightarrow> u16 \<Rightarrow> amount option" where
  "annual_emission year target current cap_bps =
     (let base = annual_emission_amount year in
      map_option (\<lambda>factor. saturating_mul base factor div 1000000)
        (annual_emission_activity_factor target current cap_bps))"


subsection \<open>Emission\<close>

lemma unat_proportional_amount:
  assumes "unat whole * unat bps < 2 ^ 128"
  shows "unat (proportional_amount whole bps) = unat whole * unat bps div 10000"
proof -
  have "unat (ucast bps :: amount) = unat bps" by (simp add: unat_ucast_up)
  then show ?thesis
    using assms by (simp add: proportional_amount_def unat_div_distrib unat_saturating_mul min_def)
qed

lemma u16_bound: "unat (b :: u16) < 65536"
  using unat_bound [of b] by simp

lemma TOTAL_SUPPLY_share:
  "unat (proportional_amount TOTAL_SUPPLY bps) = 100000 * unat bps"
  using u16_bound [of bps] by (subst unat_proportional_amount) (simp_all add: TOTAL_SUPPLY_def)

lemma halve_loop_eq: "halve_loop n rate = drop_bit n rate"
proof (induction n rate rule: halve_loop.induct)
  case (2 n rate)
  have "drop_bit (Suc n) rate = drop_bit n (rate div 2)"
    by (simp add: drop_bit_Suc)
  with 2 show ?case by (auto simp: Let_def)
qed simp

lemma blocks_per_year_budget:
  fixes budget blocks :: amount
  shows "unat (budget div blocks) * unat blocks \<le> unat budget"
  by (simp add: unat_div_distrib)

subsection \<open>The integer square root\<close>

lemma newton_lower:
  fixes s v x :: nat
  assumes "s * s \<le> v" "0 < x"
  shows "s \<le> (x + v div x) div 2"
proof -
  have "2 * s \<le> x + v div x"
  proof (cases "2 * s \<le> x")
    case False
    then obtain d where d: "2 * s = x + d" by (metis le_add_diff_inverse linear)
    have "int (2 * s * x) \<le> int (s * s + x * x)"
      using zero_le_power2 [of "int s - int x"] by (simp add: power2_eq_square algebra_simps)
    then have "2 * s * x \<le> s * s + x * x" by (simp only: of_nat_le_iff)
    then have "d * x \<le> s * s"
      unfolding d by (simp add: distrib_right)
    with assms(1) have "d * x \<le> v" by linarith
    then have "d \<le> v div x" using assms(2) by (simp add: less_eq_div_iff_mult_less_eq)
    with d show ?thesis by simp
  qed simp
  then show ?thesis by linarith
qed

lemma newton_no_overflow:
  fixes x v :: nat
  assumes "0 < x" "x \<le> v"
  shows "x + v div x \<le> v + 1"
proof -
  obtain q where q: "v div x = Suc q"
    using assms by (metis div_greater_zero_iff gr0_implies_Suc)
  obtain y where y: "x = Suc y" using assms(1) gr0_implies_Suc by blast
  have "Suc q * x \<le> v" unfolding q [symmetric] by (rule div_times_less_eq_dividend)
  moreover have "x + Suc q \<le> Suc q * x + 1" by (simp add: y)
  ultimately show ?thesis unfolding q by linarith
qed

lemma newton_step:
  fixes v x :: amount
  assumes "0 < x" "x \<le> v" "v \<noteq> - 1"
  shows "unat ((x + v div x) div 2) = (unat x + unat v div unat x) div 2"
proof -
  have "unat v \<noteq> 2 ^ 128 - 1"
    using assms(3) unat_max_word [where 'a = 128] by (auto simp: word_unat_eq_iff)
  moreover have "unat v < 2 ^ 128" using unat_bound [of v] by simp
  moreover have "unat x + unat v div unat x \<le> unat v + 1"
    using assms by (intro newton_no_overflow) (simp_all add: word_le_nat_alt unat_gt_0 word_gt_0)
  ultimately have "unat x + unat (v div x) < 2 ^ LENGTH(128)"
    by (simp add: unat_div_distrib)
  from unat_add_exact [OF this] show ?thesis by (simp add: unat_div_distrib)
qed


lemma sqrt_loop_floor:
  assumes "0 < x0" "x0 \<le> v" "v \<noteq> - 1" "x1 = (x0 + v div x0) div 2"
    and "\<And>s. s * s \<le> unat v \<Longrightarrow> s \<le> unat x0"
  shows "\<exists>r. sqrt_loop v x0 x1 = Some r \<and> unat r * unat r \<le> unat v \<and> unat v < Suc (unat r) * Suc (unat r)"
  using assms
proof (induction v x0 x1 rule: sqrt_loop.induct)
  case (1 v x0 x1)
  have x1: "unat x1 = (unat x0 + unat v div unat x0) div 2"
    using 1 by (simp add: newton_step)
  have pos: "0 < unat x0" using 1(2) by (simp add: unat_gt_0 word_gt_0)
  show ?case
  proof (cases "x1 < x0")
    case True
    have low: "s \<le> unat x1" if "s * s \<le> unat v" for s
      unfolding x1 using that pos by (rule newton_lower)
    have "1 * 1 \<le> unat v" using pos 1(3) by (simp add: word_le_nat_alt)
    then have "0 < unat x1" using low [of 1] by simp
    then have nz: "0 < x1" "x1 \<noteq> 0" by (auto simp: word_gt_0 unat_gt_0)
    have "\<exists>r. sqrt_loop v x1 ((x1 + v div x1) div 2) = Some r \<and> unat r * unat r \<le> unat v
        \<and> unat v < Suc (unat r) * Suc (unat r)"
      using 1(3) 1(4) True nz low by (intro 1(1)) auto
    with True nz show ?thesis by (simp add: sqrt_loop.simps [of v x0])
  next
    case False
    then have "unat x0 \<le> (unat x0 + unat v div unat x0) div 2"
      using x1 by (simp add: not_less word_le_nat_alt)
    then have "unat x0 \<le> unat v div unat x0" by linarith
    then have "unat x0 * unat x0 \<le> unat v" using pos by (simp add: less_eq_div_iff_mult_less_eq)
    moreover have "unat v < Suc (unat x0) * Suc (unat x0)"
      using 1(6) [of "Suc (unat x0)"] by (metis Suc_n_not_le_n not_le)
    ultimately show ?thesis using False by (simp add: sqrt_loop.simps [of v x0])
  qed
qed

lemma integer_sqrt_floor:
  assumes "v \<noteq> - 1"
  shows "\<exists>r. integer_sqrt v = Some r \<and> unat r * unat r \<le> unat v \<and> unat v < Suc (unat r) * Suc (unat r)"
proof (cases "v < 2")
  case True
  then have "unat v < 2" by (simp add: word_less_nat_alt)
  then have "unat v = 0 \<or> unat v = 1" by linarith
  with True show ?thesis by (auto simp: integer_sqrt_def)
next
  case False
  then have "0 < v" by (simp add: word_less_nat_alt)
  moreover have "s \<le> unat v" if "s * s \<le> unat v" for s
    using that by (cases s) auto
  ultimately have "\<exists>r. sqrt_loop v v ((v + v div v) div 2) = Some r \<and> unat r * unat r \<le> unat v
      \<and> unat v < Suc (unat r) * Suc (unat r)"
    by (rule sqrt_loop_floor [OF _ order.refl assms refl])
  with False show ?thesis by (simp add: integer_sqrt_def)
qed

lemma integer_sqrt_max: "integer_sqrt (- 1) = None"
proof -
  have "((- 1 :: amount) + - 1 div - 1) div 2 = 0" by simp
  moreover have "\<not> (- 1 :: amount) < 2" "(0 :: amount) < - 1"
    by (simp_all add: word_less_nat_alt unat_max_word)
  ultimately show ?thesis by (simp add: integer_sqrt_def sqrt_loop.simps)
qed


subsection \<open>The schedule and the activity adjustment\<close>

lemma schedule_cumulative:
  "ys \<noteq> [] \<Longrightarrow> sched_cumulative_emission (last (schedule_loop ys ts tr c))
     = c + sum_list (map (\<lambda>y. annual_emission_amount_with_tail y ts tr) ys)"
proof (induction ys arbitrary: c)
  case (Cons y ys)
  have "schedule_loop ys ts tr d = [] \<longleftrightarrow> ys = []" for d
    by (cases ys) (simp_all add: Let_def)
  with Cons show ?case
    by (cases "ys = []") (simp_all add: Let_def add.assoc)
qed simp

lemma default_rate:
  assumes "0 < k" "k < 2 ^ 32"
  shows "annual_emission_rate_bps (word_of_nat k) = (if k \<le> 2 then 2000 else if k = 3 then 1000 else 200)"
proof -
  have k: "unat (word_of_nat k :: u32) = k" using assms(2) by (simp add: unsigned_of_nat take_bit_nat_eq_self)
  have tail: "max 4 1 \<le> (word_of_nat k :: u32) \<longleftrightarrow> 4 \<le> k"
    by (simp add: max_def word_le_nat_alt k)
  have "unat (saturating_sub (word_of_nat k :: u32) 1 div 2) = (k - 1) div 2"
    by (simp add: unat_div_distrib unat_saturating_sub k)
  moreover have "k \<le> 2 \<Longrightarrow> (k - 1) div 2 = 0" "k = 3 \<Longrightarrow> (k - 1) div 2 = 1" using assms(1) by auto
  ultimately show ?thesis
    using tail by (auto simp: annual_emission_rate_bps_def annual_emission_rate_bps_with_tail_def
        LONG_TERM_TAIL_START_YEAR_def LONG_TERM_TAIL_EMISSION_RATE_BPS_def INITIAL_EMISSION_RATE_BPS_def
        Let_def halve_loop_eq)
qed

definition year_emission :: "nat \<Rightarrow> nat" where
  "year_emission k = (if k \<le> 2 then 200000000 else if k = 3 then 100000000 else 20000000)"

lemma default_emission:
  assumes "0 < k" "k < 2 ^ 32"
  shows "annual_emission_amount (word_of_nat k) = word_of_nat (year_emission k)"
proof -
  have "unat (annual_emission_amount (word_of_nat k)) = year_emission k"
    by (simp add: annual_emission_amount_def TOTAL_SUPPLY_share default_rate [OF assms] year_emission_def)
  then show ?thesis
    by (simp add: word_unat_eq_iff unsigned_of_nat take_bit_nat_eq_self year_emission_def)
qed

lemma cumulative_closed_form:
  "3 \<le> n \<Longrightarrow> sum_list (map year_emission [1..<Suc n]) = 500000000 + (n - 3) * 20000000"
proof (induction n rule: nat_induct_at_least)
  case base
  show ?case by (simp add: year_emission_def upt_rec)
next
  case (Suc n)
  then show ?case by (simp add: year_emission_def Suc_diff_le)
qed

lemma default_cumulative:
  assumes "3 \<le> n" "n < 2 ^ 32"
  shows "unat (sched_cumulative_emission (last (annual_emission_schedule (word_of_nat n))))
    = 500000000 + (n - 3) * 20000000"
proof -
  have n: "unat (word_of_nat n :: u32) = n" using assms(2) by (simp add: unsigned_of_nat take_bit_nat_eq_self)
  have "map (\<lambda>y. annual_emission_amount_with_tail y LONG_TERM_TAIL_START_YEAR LONG_TERM_TAIL_EMISSION_RATE_BPS)
      (map word_of_nat [1..<Suc n]) = map (\<lambda>k. word_of_nat (year_emission k)) [1..<Suc n]"
    using assms(2) default_emission
    by (auto simp: annual_emission_amount_with_tail_def annual_emission_amount_def annual_emission_rate_bps_def)
  moreover have "sum_list (map (\<lambda>k. word_of_nat (year_emission k) :: amount) ks)
      = word_of_nat (sum_list (map year_emission ks))" for ks
    by (induction ks) simp_all
  moreover have "sched_cumulative_emission (last (annual_emission_schedule (word_of_nat n))) = 0 + sum_list
      (map (\<lambda>y. annual_emission_amount_with_tail y LONG_TERM_TAIL_START_YEAR LONG_TERM_TAIL_EMISSION_RATE_BPS)
        (map word_of_nat [1..<Suc n]))"
    unfolding annual_emission_schedule_def annual_emission_schedule_with_tail_def n
    by (rule schedule_cumulative) (use assms(1) in simp)
  ultimately have "sched_cumulative_emission (last (annual_emission_schedule (word_of_nat n)))
      = word_of_nat (500000000 + (n - 3) * 20000000)"
    by (simp only: cumulative_closed_form [OF assms(1)] add_0)
  moreover have "500000000 + (n - 3) * 20000000 < (2::nat) ^ 128"
  proof -
    have "500000000 + (n - 3) * 20000000 < 500000000 + 2 ^ 32 * (20000000::nat)"
      using assms(2) by simp
    then show ?thesis by (rule less_trans) simp
  qed
  then have "unat (word_of_nat (500000000 + (n - 3) * 20000000) :: amount) = 500000000 + (n - 3) * 20000000"
    by (intro unat_of_nat_exact) simp
  ultimately show ?thesis by (simp only:)
qed

lemma activity_factor_band:
  assumes "annual_emission_activity_factor target current cap = Some f"
  shows "1000000 - 100 * unat (min cap 10000) \<le> unat f" "unat f \<le> 1000000 + 100 * unat (min cap 10000)"
proof -
  have m: "unat (min cap 10000) \<le> 10000"
    by (simp add: min_def word_le_nat_alt)
  have cap: "unat (ucast (min cap 10000) * 100 :: amount) = 100 * unat (min cap 10000)"
    using m by (subst unat_mult_exact) (simp_all add: unat_ucast_up)
  have lo: "unat (saturating_sub 1000000 (ucast (min cap 10000) * 100 :: amount)) = 1000000 - 100 * unat (min cap 10000)"
    by (simp add: unat_saturating_sub cap)
  have up: "unat (saturating_add 1000000 (ucast (min cap 10000) * 100 :: amount)) = 1000000 + 100 * unat (min cap 10000)"
    using m by (simp add: unat_saturating_add cap)
  have "(saturating_sub 1000000 (ucast (min cap 10000) * 100) :: amount)
      \<le> saturating_add 1000000 (ucast (min cap 10000) * 100)"
    by (simp add: word_le_nat_alt lo up)
  from clamp_bounds [OF this] have "1000000 - 100 * unat (min cap 10000) \<le> unat f
      \<and> unat f \<le> 1000000 + 100 * unat (min cap 10000)"
    using assms lo up
    by (auto simp: annual_emission_activity_factor_def Let_def word_le_nat_alt split: if_splits)
  then show "1000000 - 100 * unat (min cap 10000) \<le> unat f" "unat f \<le> 1000000 + 100 * unat (min cap 10000)"
    by simp_all
qed

lemma integer_sqrt_None_iff: "integer_sqrt v = None \<longleftrightarrow> v = - 1"
  using integer_sqrt_floor [of v] integer_sqrt_max by force

lemma saturated_ratio_iff:
  fixes m c :: amount
  assumes "c \<noteq> 0" "m \<noteq> 0"
  shows "m div c = - 1 \<longleftrightarrow> m = - 1 \<and> c = 1"
proof
  assume eq: "m div c = - 1"
  have c: "0 < unat c" using assms(1) by (simp add: unat_gt_0)
  have m: "unat m < 2 ^ 128" using unat_bound [of m] by simp
  have q: "unat m div unat c = 2 ^ 128 - 1"
    using arg_cong [OF eq, of unat] by (simp add: unat_div_distrib unat_max_word)
  show "m = - 1 \<and> c = 1"
  proof (cases "unat c = 1")
    case True
    then have "c = 1" by (simp add: word_unat_eq_iff)
    with eq show ?thesis by simp
  next
    case False
    with c have "2 \<le> unat c" by simp
    then have "unat m div unat c \<le> unat m div 2" by (rule div_le_mono2 [rotated]) simp
    with m q show ?thesis by simp
  qed
qed simp

lemma activity_factor_panics_iff:
  "annual_emission_activity_factor target current cap = None \<longleftrightarrow>
    current = 1 \<and> 2 ^ 128 - 1 \<le> unat target * 1000000000000"
proof -
  let ?m = "saturating_mul target 1000000000000"
  have m: "unat ?m = min (unat target * 1000000000000) (2 ^ 128 - 1)"
    by (simp add: unat_saturating_mul)
  have nz: "?m \<noteq> 0" if "target \<noteq> 0"
  proof -
    have "0 < unat target" using that by (simp add: unat_gt_0)
    then have "0 < unat ?m" unfolding m by simp
    then show ?thesis by (simp add: unat_gt_0)
  qed
  have top: "?m = - 1 \<longleftrightarrow> 2 ^ 128 - 1 \<le> unat target * 1000000000000"
    using m unat_max_word [where 'a = 128] by (auto simp: word_unat_eq_iff)
  show ?thesis
    using nz top saturated_ratio_iff [of current ?m]
    by (auto simp: annual_emission_activity_factor_def Let_def integer_sqrt_None_iff)
qed

end
