(* ===== verification/Gvs.thy ===== *)
theory Gvs
  imports Records
begin

text \<open>
  Game value scores (\<open>src/src/node_gvs.rs\<close>). The two things the code reads from the node
  configuration are arguments: \<open>activated\<close> is the result of
  \<open>latest_activated_protocol_params\<close>, \<open>slots_per_epoch\<close> is \<open>config.runtime.slots_per_epoch\<close>.
  The unchecked \<open>u32\<close> and \<open>u64\<close> operations wrap, as in the release build.
\<close>

definition PPM_DENOMINATOR :: u64 where "PPM_DENOMINATOR = 1000000"
definition TIER1_MIN_PLAYERS :: u64 where "TIER1_MIN_PLAYERS = 1000"
definition TIER1_MIN_COLLECTORS :: u32 where "TIER1_MIN_COLLECTORS = 3"

record gvs_factors =
  gf_base_glv_microunits :: u64
  gf_tier :: gvs_tier
  gf_tier_weight_ppm :: u32
  gf_time_decay_ppm :: u32
  gf_coverage_bonus_ppm :: u32
  gf_gvs_microunits :: u64

definition classify_tier :: "protocol_params option \<Rightarrow> u32 \<Rightarrow> u64 \<Rightarrow> gvs_tier \<times> u32" where
  "classify_tier activated unique_collectors median_players =
     (let field = (\<lambda>get default. case activated of None \<Rightarrow> default | Some p \<Rightarrow> get (pp_rewards p));
          tier1_weight = field tier1_weight_ppm 1000000;
          tier2_min = field tier2_weight_min_ppm 300000;
          tier2_max = field tier2_weight_max_ppm 600000;
          tier3_min = field tier3_weight_min_ppm 50000;
          tier3_max = field tier3_weight_max_ppm 150000
      in
      if unique_collectors \<ge> TIER1_MIN_COLLECTORS \<and> median_players \<ge> TIER1_MIN_PLAYERS
      then (Tier1, tier1_weight)
      else if unique_collectors \<ge> TIER1_MIN_COLLECTORS
      then
        let collector_bonus = saturating_sub unique_collectors TIER1_MIN_COLLECTORS * 50000;
            player_bonus = ucast (min (median_players div 500) 3) * 50000
        in (Tier2, min (tier2_min + collector_bonus + player_bonus) tier2_max)
      else
        let collector_bonus = saturating_sub unique_collectors 1 * 25000;
            player_bonus = ucast (min (median_players div 500) 2) * 25000
        in (Tier3, min (tier3_min + collector_bonus + player_bonus) tier3_max))"

definition compute_time_decay_ppm :: "u64 \<Rightarrow> slot_id \<Rightarrow> u32" where
  "compute_time_decay_ppm configured_slots slot =
     (let slots_per_epoch = max configured_slots 1 in
      if slots_per_epoch \<le> 1 then 1000000
      else
        let slot_index = min (saturating_sub slot 1) (slots_per_epoch - 1);
            ramp = (slot_index * 150000) div (slots_per_epoch - 1)
        in min (850000 + ucast ramp) 1000000)"

definition compute_coverage_bonus_ppm :: "u32 \<Rightarrow> u32" where
  "compute_coverage_bonus_ppm unique_collectors =
     (let extra_collectors = saturating_sub unique_collectors 1
      in min (1000000 + saturating_mul extra_collectors 50000) 1250000)"

definition compute_gvs_microunits :: "u64 \<Rightarrow> u32 \<Rightarrow> u32 \<Rightarrow> u32 \<Rightarrow> u64" where
  "compute_gvs_microunits base_glv tier_weight time_decay coverage_bonus =
     (let weighted = saturating_mul (saturating_mul (saturating_mul (ucast base_glv :: u128)
            (ucast tier_weight)) (ucast time_decay)) (ucast coverage_bonus);
          divisor = (ucast PPM_DENOMINATOR :: u128) ^ 3;
          quotient = (if divisor = 0 then 0 else weighted div divisor)
      in ucast (min quotient (ucast (- 1 :: u64))))"

definition compute_gvs_factors :: "protocol_params option \<Rightarrow> u64 \<Rightarrow> slot_id \<Rightarrow> u32 \<Rightarrow> u64 \<Rightarrow> gvs_factors" where
  "compute_gvs_factors activated configured_slots slot unique_collectors median_players =
     (let base_glv = saturating_mul median_players PPM_DENOMINATOR;
          (tier, tier_weight) = classify_tier activated unique_collectors median_players;
          time_decay = compute_time_decay_ppm configured_slots slot;
          coverage_bonus = compute_coverage_bonus_ppm unique_collectors
      in \<lparr>gf_base_glv_microunits = base_glv, gf_tier = tier, gf_tier_weight_ppm = tier_weight,
          gf_time_decay_ppm = time_decay, gf_coverage_bonus_ppm = coverage_bonus,
          gf_gvs_microunits = compute_gvs_microunits base_glv tier_weight time_decay coverage_bonus\<rparr>)"

lemma coverage_bonus_bounds:
  assumes "unat unique_collectors \<le> 85880"
  shows "unat (compute_coverage_bonus_ppm unique_collectors)
    = min (1000000 + 50000 * (unat unique_collectors - 1)) 1250000"
proof -
  have m: "unat (saturating_mul (saturating_sub unique_collectors 1) 50000) = (unat unique_collectors - 1) * 50000"
    using assms by (simp add: unat_saturating_mul unat_saturating_sub)
  then have "unat (1000000 + saturating_mul (saturating_sub unique_collectors 1) 50000 :: u32)
      = 1000000 + (unat unique_collectors - 1) * 50000"
    using assms by (subst unat_add_exact) simp_all
  then show ?thesis
    by (simp add: compute_coverage_bonus_ppm_def Let_def min_def word_le_nat_alt)
qed

lemma time_decay_bounds:
  assumes "unat configured_slots < 2 ^ 46"
  shows "850000 \<le> unat (compute_time_decay_ppm configured_slots slot)"
    "unat (compute_time_decay_ppm configured_slots slot) \<le> 1000000"
proof -
  show "unat (compute_time_decay_ppm configured_slots slot) \<le> 1000000"
    by (simp add: compute_time_decay_ppm_def Let_def min_def word_le_nat_alt)
  show "850000 \<le> unat (compute_time_decay_ppm configured_slots slot)"
  proof (cases "max configured_slots 1 \<le> 1")
    case True
    then show ?thesis by (simp add: compute_time_decay_ppm_def Let_def)
  next
    case False
    let ?n = "max configured_slots 1" and ?i = "min (saturating_sub slot 1) (max configured_slots 1 - 1)"
    have n: "1 < unat ?n" "unat ?n < 2 ^ 46"
      using False assms by (auto simp: max_def word_le_nat_alt not_le split: if_splits)
    have n1: "unat (?n - 1) = unat ?n - 1"
      using n(1) by (simp add: unat_sub word_le_nat_alt)
    have i: "unat ?i \<le> unat ?n - 1"
      using n1 by (simp add: min_def word_le_nat_alt)
    have prod: "unat (?i * 150000) = unat ?i * 150000"
      using i n(2) by (subst unat_mult_exact) simp_all
    have r: "unat (?i * 150000 div (?n - 1)) = unat ?i * 150000 div (unat ?n - 1)"
      by (simp add: unat_div_distrib prod n1)
    also have "\<dots> \<le> 150000"
    proof -
      have "unat ?i * 150000 \<le> (unat ?n - 1) * 150000" using i by simp
      from div_le_mono [OF this, of "unat ?n - 1"] n(1) show ?thesis by simp
    qed
    finally have ramp: "unat (?i * 150000 div (?n - 1)) \<le> 150000" .
    have "unat (ucast (?i * 150000 div (?n - 1)) :: u32) \<le> 150000"
      using ramp by (simp add: unsigned_ucast_eq take_bit_nat_eq_self)
    then have "unat (850000 + ucast (?i * 150000 div (?n - 1)) :: u32)
        = 850000 + unat (ucast (?i * 150000 div (?n - 1)) :: u32)"
      by (subst unat_add_exact) simp_all
    with False show ?thesis
      by (simp add: compute_time_decay_ppm_def Let_def min_def word_le_nat_alt)
  qed
qed

lemma gvs_microunits_exact:
  assumes "unat tw \<le> 1000000" "unat td \<le> 1000000" "unat cb \<le> 1250000"
  shows "unat (compute_gvs_microunits base tw td cb)
    = min (unat base * unat tw * unat td * unat cb div 10 ^ 18) (2 ^ 64 - 1)"
proof -
  have b: "unat base < 2 ^ 64" using unat_bound [of base] by simp
  have s1: "unat base * unat tw \<le> (2 ^ 64 - 1) * 1000000"
    using b assms(1) by (intro mult_le_mono) simp_all
  then have s2: "unat base * unat tw * unat td \<le> (2 ^ 64 - 1) * 1000000 * 1000000"
    using assms(2) by (rule mult_le_mono)
  then have s3: "unat base * unat tw * unat td * unat cb \<le> (2 ^ 64 - 1) * 1000000 * 1000000 * 1250000"
    using assms(3) by (rule mult_le_mono)
  have p1: "unat (saturating_mul (ucast base :: u128) (ucast tw)) = unat base * unat tw"
    using s1 by (subst unat_saturating_mul_exact) (simp_all add: unat_ucast_up)
  have p2: "unat (saturating_mul (saturating_mul (ucast base :: u128) (ucast tw)) (ucast td)) = unat base * unat tw * unat td"
    using s2 by (subst unat_saturating_mul_exact) (simp_all add: p1 unat_ucast_up)
  have p3: "unat (saturating_mul (saturating_mul (saturating_mul (ucast base :: u128) (ucast tw)) (ucast td)) (ucast cb))
      = unat base * unat tw * unat td * unat cb" (is "unat ?w = ?p")
    using s3 by (subst unat_saturating_mul_exact) (simp_all add: p2 unat_ucast_up)
  have d: "(ucast PPM_DENOMINATOR :: u128) ^ 3 = 1000000000000000000"
    by (simp add: PPM_DENOMINATOR_def)
  have m: "unat (min (?w div 1000000000000000000) (ucast (- 1 :: u64))) = min (?p div 10 ^ 18) (2 ^ 64 - 1)"
    by (simp add: min_def word_le_nat_alt unat_div_distrib p3 unat_ucast_up unat_max_word)
  have "unat (ucast (min (?w div 1000000000000000000) (ucast (- 1 :: u64))) :: u64)
      = unat (min (?w div 1000000000000000000) (ucast (- 1 :: u64)))"
    by (simp add: unsigned_ucast_eq take_bit_nat_eq_self m)
  with m d show ?thesis
    by (simp add: compute_gvs_microunits_def Let_def)
qed

end
