(* ===== verification/Allocation.thy ===== *)
theory Allocation
  imports BTree_Map Params "HOL-Library.Multiset"
begin

text \<open>
  The two largest-remainder splits of \<open>src/src/node_rewards.rs\<close>: \<open>allocate_proportional\<close> over
  node ids and \<open>allocate_witness_rewards\<close> over account addresses. Both round every share down
  and hand the rest out one unit at a time in the order of the remainders.
\<close>

definition bump :: "'k::linorder \<Rightarrow> ('k, amount) btree_map \<Rightarrow> ('k, amount) btree_map" where
  "bump k alloc = bt_insert k ((case bt_get alloc k of None \<Rightarrow> 0 | Some v \<Rightarrow> v) + 1) alloc"

text \<open>The loop over the weights: allocations, remainders and the amount distributed so far.\<close>

fun share_loop ::
  "amount \<Rightarrow> amount \<Rightarrow> ('k::linorder \<times> amount) list
    \<Rightarrow> ('k, amount) btree_map \<times> (amount \<times> 'k) list \<times> amount
    \<Rightarrow> ('k, amount) btree_map \<times> (amount \<times> 'k) list \<times> amount" where
  "share_loop pool total_weight [] acc = acc"
| "share_loop pool total_weight ((node_id, weight) # rest) (allocations, remainders, distributed) =
     (let numerator = saturating_mul pool weight;
          share = numerator div total_weight;
          remainder = numerator mod total_weight
      in share_loop pool total_weight rest
           (bt_insert node_id share allocations, remainders @ [(remainder, node_id)],
            saturating_add distributed share))"

text \<open>\<open>while leftover > 0 && !remainders.is_empty()\<close>, going round the list.\<close>

fun leftover_loop :: "nat \<Rightarrow> nat \<Rightarrow> 'k::linorder list \<Rightarrow> ('k, amount) btree_map \<Rightarrow> ('k, amount) btree_map" where
  "leftover_loop 0 index order allocations = allocations"
| "leftover_loop (Suc leftover) index order allocations =
     (if order = [] then allocations
      else leftover_loop leftover (Suc index) order (bump (order ! (index mod length order)) allocations))"

definition allocate_proportional ::
  "(bytes32, amount) btree_map \<Rightarrow> amount \<Rightarrow> (bytes32, amount) btree_map" where
  "allocate_proportional weights pool =
     (if pool = 0 \<or> bt_entries weights = [] then bt_empty
      else
        let total_weight = sum_list (bt_values weights) in
        if total_weight = 0 then bt_empty
        else
          let (allocations, remainders, distributed) =
                share_loop pool total_weight (bt_entries weights) (bt_empty, [], 0);
              order = map snd (rev (sort remainders));
              leftover = saturating_sub pool distributed
          in leftover_loop (unat leftover) 0 order allocations)"

text \<open>The witness split skips zero credits and stops at the end of the list.\<close>

fun witness_share_loop ::
  "amount \<Rightarrow> amount \<Rightarrow> (string \<times> u64) list
    \<Rightarrow> (string, amount) btree_map \<times> (amount \<times> string) list \<times> amount
    \<Rightarrow> (string, amount) btree_map \<times> (amount \<times> string) list \<times> amount" where
  "witness_share_loop pool total_credits [] acc = acc"
| "witness_share_loop pool total_credits ((witness, credit) # rest) (allocation, remainders, distributed) =
     (if credit = 0
      then witness_share_loop pool total_credits rest (bt_insert witness 0 allocation, remainders, distributed)
      else
        let product = saturating_mul pool (ucast credit);
            share = product div total_credits;
            remainder = product mod total_credits
        in witness_share_loop pool total_credits rest
             (bt_insert witness share allocation, remainders @ [(remainder, witness)],
              saturating_add distributed share))"

fun witness_leftover_loop :: "nat \<Rightarrow> string list \<Rightarrow> (string, amount) btree_map \<Rightarrow> (string, amount) btree_map" where
  "witness_leftover_loop (Suc leftover) (witness # rest) allocation =
     witness_leftover_loop leftover rest
       (case bt_get allocation witness of
          None \<Rightarrow> allocation
        | Some entry \<Rightarrow> bt_insert witness (entry + 1) allocation)"
| "witness_leftover_loop leftover order allocation = allocation"

fun zero_loop :: "string list \<Rightarrow> (string, amount) btree_map \<Rightarrow> (string, amount) btree_map" where
  "zero_loop [] allocation = allocation"
| "zero_loop (witness # rest) allocation = zero_loop rest (bt_insert witness 0 allocation)"

definition allocate_witness_rewards :: "(string, u64) btree_map \<Rightarrow> amount \<Rightarrow> (string, amount) btree_map" where
  "allocate_witness_rewards credits pool =
     (let total_credits = foldl saturating_add 0 (bt_values credits) in
      if pool = 0 \<or> total_credits = 0 then zero_loop (bt_keys credits) bt_empty
      else
        let (allocation, remainders, distributed) =
              witness_share_loop pool (ucast total_credits) (bt_entries credits) (bt_empty, [], 0);
            order = map snd (sort_key (\<lambda>(remainder, witness). (- uint remainder, witness)) remainders);
            leftover = saturating_sub pool distributed
        in witness_leftover_loop (unat leftover) order allocation)"

subsection \<open>Handing out single units\<close>

lemma bump_get:
  "bt_get (bump k a) l = (if l = k then Some ((case bt_get a k of None \<Rightarrow> 0 | Some v \<Rightarrow> v) + 1) else bt_get a l)"
  by (simp add: bump_def)

lemma fold_bump_get:
  assumes "distinct ks" "\<And>k. k \<in> set ks \<Longrightarrow> bt_get a k \<noteq> None"
  shows "bt_get (fold bump ks a) l = map_option (\<lambda>v. if l \<in> set ks then v + 1 else v) (bt_get a l)"
  using assms
proof (induction ks arbitrary: a)
  case (Cons k ks)
  have "bt_get (bump k a) j \<noteq> None" if "j \<in> set ks" for j
    using Cons.prems(2) that by (simp add: bump_get)
  note IH = Cons.IH [OF _ this]
  obtain v where "bt_get a k = Some v" using Cons.prems(2) [of k] by auto
  with IH Cons.prems(1) show ?case
    by (cases "bt_get a l") (auto simp: bump_get)
qed (simp add: option.map_ident)

lemma leftover_loop_fold:
  assumes "index + n \<le> length order"
  shows "leftover_loop n index order a = fold bump (take n (drop index order)) a"
  using assms
proof (induction n arbitrary: index a)
  case (Suc n)
  then have i: "index < length order" "order \<noteq> []" by auto
  with Suc show ?case
    by (simp add: take_Suc_conv_app_nth Cons_nth_drop_Suc [symmetric])
qed simp

lemma witness_leftover_loop_fold:
  assumes "\<And>k. k \<in> set order \<Longrightarrow> bt_get a k \<noteq> None"
  shows "witness_leftover_loop n order a = fold bump (take n order) a"
  using assms
proof (induction n order a rule: witness_leftover_loop.induct)
  case (1 n w rest a)
  then obtain v where v: "bt_get a w = Some v" by fastforce
  have "bt_get (bt_insert w (v + 1) a) k \<noteq> None" if "k \<in> set rest" for k
    using 1(2) [of k] that by simp
  with 1(1) v show ?case by (simp add: bump_def)
qed auto

lemma total_bump:
  assumes "bt_get a k = Some v" "unat v < 2 ^ 128 - 1"
  shows "bt_total unat (bump k a) = Suc (bt_total unat a)"
proof -
  have "unat (v + 1) = unat v + 1"
    using assms(2) by (subst unat_add_exact) simp_all
  with bt_total_insert [of unat k "v + 1" a] assms(1) show ?thesis by (simp add: bump_def)
qed

lemma total_fold_bump:
  assumes "\<And>k. k \<in> set ks \<Longrightarrow> bt_get a k \<noteq> None" "bt_total unat a + length ks < 2 ^ 128"
  shows "bt_total unat (fold bump ks a) = bt_total unat a + length ks"
  using assms
proof (induction ks arbitrary: a)
  case (Cons k ks)
  then obtain v where v: "bt_get a k = Some v" by fastforce
  have "unat v < 2 ^ 128 - 1"
    using bt_total_ge [OF v, of unat] Cons.prems(2) by simp
  note step = total_bump [OF v this]
  have "bt_get (bump k a) j \<noteq> None" if "j \<in> set ks" for j
    using Cons.prems(1) that by (simp add: bump_get)
  from Cons.IH [OF this] Cons.prems(2) step show ?case by simp
qed simp


subsection \<open>Rounding down\<close>

lemma floors_sum:
  fixes pool :: nat and ws :: "nat list"
  defines "total_weight \<equiv> sum_list ws"
  assumes "0 < total_weight"
  shows "(\<Sum>w\<leftarrow>ws. pool * w div total_weight) * total_weight + (\<Sum>w\<leftarrow>ws. pool * w mod total_weight)
    = pool * total_weight"
proof -
  have "(\<Sum>w\<leftarrow>vs. pool * w div t) * t + (\<Sum>w\<leftarrow>vs. pool * w mod t) = pool * sum_list vs" for vs and t :: nat
    by (induction vs) (simp_all add: distrib_left distrib_right)
  then show ?thesis by (simp add: total_weight_def)
qed

lemma remainders_bound:
  fixes t :: nat
  assumes "0 < t"
  shows "(\<Sum>w\<leftarrow>ws. pool * w mod t) \<le> length (filter (\<lambda>w. w \<noteq> 0) ws) * (t - 1)"
proof (induction ws)
  case (Cons w ws)
  have "pool * w mod t \<le> t - 1" using assms by (simp add: less_Suc_eq_le [symmetric])
  with Cons show ?case by (cases "w = 0") (simp_all add: add_mono)
qed simp

lemma leftover_bounds:
  fixes pool :: nat and ws :: "nat list"
  defines "total_weight \<equiv> sum_list ws"
  assumes pos: "0 < total_weight"
  shows "(\<Sum>w\<leftarrow>ws. pool * w div total_weight) \<le> pool"
    and "pool - (\<Sum>w\<leftarrow>ws. pool * w div total_weight) < length (filter (\<lambda>w. w \<noteq> 0) ws)"
proof -
  let ?q = "\<Sum>w\<leftarrow>ws. pool * w div total_weight" and ?r = "\<Sum>w\<leftarrow>ws. pool * w mod total_weight"
  let ?n = "length (filter (\<lambda>w. w \<noteq> 0) ws)"
  have eq: "?q * total_weight + ?r = pool * total_weight"
    using floors_sum [of ws pool] pos by (simp add: total_weight_def)
  then have "?q * total_weight \<le> pool * total_weight" by linarith
  then show le: "?q \<le> pool" using pos by simp
  have "0 < ?n"
    using pos unfolding total_weight_def by (induction ws) auto
  have "(pool - ?q) * total_weight = ?r"
    using eq by (simp add: diff_mult_distrib)
  also have "\<dots> \<le> ?n * (total_weight - 1)" using remainders_bound [OF pos] .
  also have "\<dots> < ?n * total_weight" using \<open>0 < ?n\<close> pos by simp
  finally show "pool - ?q < ?n" by simp
qed


subsection \<open>The proportional split\<close>

definition floor_share :: "amount \<Rightarrow> amount \<Rightarrow> amount \<Rightarrow> nat" where
  "floor_share pool total_weight w = unat pool * unat w div unat total_weight"

lemma share_exact:
  fixes pool w t :: amount
  assumes "unat pool * unat w < 2 ^ 128"
  shows "unat (saturating_mul pool w div t) = floor_share pool t w"
    "unat (saturating_mul pool w mod t) = unat pool * unat w mod unat t"
  using assms by (simp_all add: floor_share_def unat_div_distrib unat_mod_distrib unat_saturating_mul_exact)

lemma share_loop_spec:
  assumes "distinct (map fst es)" "\<And>k w. (k, w) \<in> set es \<Longrightarrow> unat pool * unat w < 2 ^ 128"
    and "\<And>k. k \<in> fst ` set es \<Longrightarrow> bt_get a k = None"
    and "unat d + (\<Sum>(k, w)\<leftarrow>es. floor_share pool t w) < 2 ^ 128"
  shows "case share_loop pool t es (a, rs, d) of (a', rs', d') \<Rightarrow>
    rs' = rs @ map (\<lambda>(k, w). (saturating_mul pool w mod t, k)) es
    \<and> unat d' = unat d + (\<Sum>(k, w)\<leftarrow>es. floor_share pool t w)
    \<and> bt_total unat a' = bt_total unat a + (\<Sum>(k, w)\<leftarrow>es. floor_share pool t w)
    \<and> (\<forall>k. bt_get a' k = (case map_of es k of None \<Rightarrow> bt_get a k | Some w \<Rightarrow> Some (saturating_mul pool w div t)))"
  using assms
proof (induction es arbitrary: a rs d)
  case (Cons e es)
  obtain k w where e: "e = (k, w)" by (cases e)
  let ?share = "saturating_mul pool w div t"
  have share: "unat ?share = floor_share pool t w"
    using Cons.prems(2) [of k w] by (simp add: e share_exact)
  have d: "unat (saturating_add d ?share) = unat d + floor_share pool t w"
    using Cons.prems(4) by (simp add: unat_saturating_add share e)
  have fresh: "k \<notin> fst ` set es" using Cons.prems(1) by (simp add: e)
  have tot: "bt_total unat (bt_insert k ?share a) = bt_total unat a + floor_share pool t w"
    using bt_total_insert [of unat k ?share a] Cons.prems(3) [of k] share by (simp add: e)
  have "case share_loop pool t es (bt_insert k ?share a, rs @ [(saturating_mul pool w mod t, k)], saturating_add d ?share)
      of (a', rs', d') \<Rightarrow>
    rs' = (rs @ [(saturating_mul pool w mod t, k)]) @ map (\<lambda>(k, w). (saturating_mul pool w mod t, k)) es
    \<and> unat d' = unat (saturating_add d ?share) + (\<Sum>(k, w)\<leftarrow>es. floor_share pool t w)
    \<and> bt_total unat a' = bt_total unat (bt_insert k ?share a) + (\<Sum>(k, w)\<leftarrow>es. floor_share pool t w)
    \<and> (\<forall>j. bt_get a' j = (case map_of es j of None \<Rightarrow> bt_get (bt_insert k ?share a) j
         | Some w \<Rightarrow> Some (saturating_mul pool w div t)))"
  proof (rule Cons.IH)
    show "bt_get (bt_insert k ?share a) j = None" if "j \<in> fst ` set es" for j
      using that fresh Cons.prems(3) [of j] by auto
    show "unat (saturating_add d ?share) + (\<Sum>(k, w)\<leftarrow>es. floor_share pool t w) < 2 ^ 128"
      using Cons.prems(4) by (simp add: d e)
  qed (use Cons.prems(1,2) in auto)
  moreover obtain a' rs' d' where loop: "share_loop pool t es (bt_insert k ?share a,
      rs @ [(saturating_mul pool w mod t, k)], saturating_add d ?share) = (a', rs', d')"
    by (metis prod_cases3)
  moreover have "map_of es k = None" using fresh by (simp add: map_of_eq_None_iff)
  ultimately show ?case
    by (simp add: e Let_def d tot split: option.split)
qed simp


lemma unat_sum_list:
  fixes ws :: "'a::len word list"
  shows "(\<Sum>w\<leftarrow>ws. unat w) < 2 ^ LENGTH('a) \<Longrightarrow> unat (sum_list ws) = (\<Sum>w\<leftarrow>ws. unat w)"
  by (induction ws) (simp_all add: unat_add_exact)

lemma remainder_order:
  fixes es :: "('k::linorder \<times> amount) list" and pool t :: amount
  assumes "distinct (map fst es)"
  defines "order \<equiv> map snd (rev (sort (map (\<lambda>(k, w). (saturating_mul pool w mod t, k)) es)))"
  shows "distinct order" "set order = fst ` set es" "length order = length es"
proof -
  let ?rs = "map (\<lambda>(k, w). (saturating_mul pool w mod t, k)) es"
  have "mset order = mset (map snd ?rs)"
    by (simp only: order_def mset_map mset_rev mset_sort)
  also have "map snd ?rs = map fst es" by (simp add: case_prod_beta comp_def)
  finally have m: "mset order = mset (map fst es)" .
  then show "distinct order" using assms(1) by (metis distinct_count_atmost_1 mset_eq_imp_distinct_iff)
  show "set order = fst ` set es" using mset_eq_setD [OF m] by simp
  show "length order = length es" using mset_eq_length [OF m] by simp
qed

definition fitting :: "amount \<Rightarrow> ('k::linorder, amount) btree_map \<Rightarrow> bool" where
  "fitting pool weights \<longleftrightarrow> pool \<noteq> 0 \<and> 0 < bt_total unat weights \<and> bt_total unat weights < 2 ^ 128
     \<and> (\<forall>k w. bt_get weights k = Some w \<longrightarrow> unat pool * unat w < 2 ^ 128)"

definition share_floors :: "amount \<Rightarrow> ('k::linorder, amount) btree_map \<Rightarrow> nat" where
  "share_floors pool weights = bt_total (floor_share pool (sum_list (bt_values weights))) weights"

lemma share_floors_bounds:
  assumes "fitting pool weights"
  shows "share_floors pool weights \<le> unat pool"
    and "unat pool - share_floors pool weights < length (bt_entries weights)"
proof -
  let ?ws = "map unat (bt_values weights)" and ?t = "sum_list (bt_values weights)"
  have t: "unat ?t = sum_list ?ws"
    using assms by (intro unat_sum_list) (simp add: fitting_def bt_total_def)
  have q: "share_floors pool weights = (\<Sum>w\<leftarrow>?ws. unat pool * w div sum_list ?ws)"
    by (simp add: share_floors_def bt_total_def floor_share_def t comp_def)
  have pos: "0 < sum_list ?ws" using assms by (simp add: fitting_def bt_total_def)
  show "share_floors pool weights \<le> unat pool"
    unfolding q by (rule leftover_bounds(1) [OF pos])
  have "unat pool - share_floors pool weights < length (filter (\<lambda>w. w \<noteq> 0) ?ws)"
    unfolding q by (rule leftover_bounds(2) [OF pos])
  also have "\<dots> \<le> length (bt_entries weights)"
    using length_filter_le [of _ ?ws] by (simp add: bt_values_def)
  finally show "unat pool - share_floors pool weights < length (bt_entries weights)" .
qed

text \<open>
  The whole pool is handed out; every share is the exact quotient rounded down, plus one unit
  for each of the \<open>pool - share_floors\<close> keys with the largest remainders.
\<close>

lemma allocate_proportional_fold:
  assumes fit: "fitting pool weights"
  obtains a where "allocate_proportional weights pool = fold bump (take (unat pool - share_floors pool weights)
      (map snd (rev (sort (map (\<lambda>(k, w). (saturating_mul pool w mod sum_list (bt_values weights), k))
        (bt_entries weights)))))) a"
    and "bt_total unat a = share_floors pool weights"
    and "\<And>k. bt_get a k = map_option (\<lambda>w. saturating_mul pool w div sum_list (bt_values weights)) (bt_get weights k)"
proof -
  let ?t = "sum_list (bt_values weights)" and ?es = "bt_entries weights"
  let ?rs = "map (\<lambda>(k, w). (saturating_mul pool w mod ?t, k)) ?es"
  have sum: "(\<Sum>(k, w)\<leftarrow>?es. floor_share pool ?t w) = share_floors pool weights"
    by (simp add: share_floors_def bt_total_entries)
  have small: "share_floors pool weights < 2 ^ 128"
    using share_floors_bounds(1) [OF fit] unat_bound [of pool] by simp
  obtain a rs d where loop: "share_loop pool ?t ?es (bt_empty, [], 0) = (a, rs, d)"
    by (metis prod_cases3)
  have "case share_loop pool ?t ?es (bt_empty, [], 0) of (a', rs', d') \<Rightarrow>
      rs' = [] @ ?rs \<and> unat d' = unat (0 :: amount) + (\<Sum>(k, w)\<leftarrow>?es. floor_share pool ?t w)
      \<and> bt_total unat a' = bt_total unat (bt_empty :: (bytes32, amount) btree_map) + (\<Sum>(k, w)\<leftarrow>?es. floor_share pool ?t w)
      \<and> (\<forall>k. bt_get a' k = (case map_of ?es k of None \<Rightarrow> bt_get bt_empty k | Some w \<Rightarrow> Some (saturating_mul pool w div ?t)))"
    using fit small sum by (intro share_loop_spec) (auto simp: bt.distinct_ents bt.ents_iff fitting_def)
  then have spec: "rs = ?rs" "unat d = share_floors pool weights" "bt_total unat a = share_floors pool weights"
      "bt_get a k = map_option (\<lambda>w. saturating_mul pool w div ?t) (bt_get weights k)" for k
    by (simp_all add: loop sum bt.get_ents split: option.split)
  have t: "?t \<noteq> 0" "?es \<noteq> []"
  proof -
    have "unat ?t = bt_total unat weights"
      using fit unat_sum_list [of "bt_values weights"] by (simp add: fitting_def bt_total_def)
    then show "?t \<noteq> 0" using fit by (auto simp: fitting_def)
    then show "?es \<noteq> []" by (auto simp: bt_values_def)
  qed
  have left: "unat (saturating_sub pool d) = unat pool - share_floors pool weights"
    by (simp add: unat_saturating_sub spec(2))
  have "allocate_proportional weights pool
      = leftover_loop (unat pool - share_floors pool weights) 0 (map snd (rev (sort ?rs))) a"
    using fit t by (simp add: allocate_proportional_def Let_def loop spec(1) left fitting_def)
  also have "\<dots> = fold bump (take (unat pool - share_floors pool weights) (drop 0 (map snd (rev (sort ?rs))))) a"
    using share_floors_bounds(2) [OF fit] by (intro leftover_loop_fold) simp
  finally show ?thesis using that spec(3,4) by simp
qed

lemma allocate_proportional_total:
  assumes "fitting pool weights"
  shows "bt_total unat (allocate_proportional weights pool) = unat pool"
proof (rule allocate_proportional_fold [OF assms], goal_cases)
  case (1 a)
  let ?order = "map snd (rev (sort (map (\<lambda>(k, w). (saturating_mul pool w mod sum_list (bt_values weights), k))
        (bt_entries weights))))" and ?n = "unat pool - share_floors pool weights"
  note order = remainder_order [OF bt.distinct_ents [of weights], of pool "sum_list (bt_values weights)"]
  have len: "length (take ?n ?order) = ?n"
    using share_floors_bounds(2) [OF assms] order(3) by simp
  have "bt_get a k \<noteq> None" if "k \<in> set (take ?n ?order)" for k
  proof -
    have "k \<in> fst ` set (bt_entries weights)" using in_set_takeD [OF that] unfolding order(2) .
    then have "bt_get weights k \<noteq> None" unfolding bt.get_ents map_of_eq_None_iff by simp
    then show ?thesis by (simp add: 1(3))
  qed
  from total_fold_bump [OF this] show ?case
    using share_floors_bounds(1) [OF assms] unat_bound [of pool] len by (simp add: 1(1,2))
qed


lemma allocate_proportional_share:
  assumes "fitting pool weights"
  shows "bt_get weights k = None \<Longrightarrow> bt_get (allocate_proportional weights pool) k = None"
    and "bt_get weights k = Some w \<Longrightarrow> \<exists>v. bt_get (allocate_proportional weights pool) k = Some v
      \<and> floor_share pool (sum_list (bt_values weights)) w \<le> unat v
      \<and> unat v \<le> floor_share pool (sum_list (bt_values weights)) w + 1"
proof -
  let ?t = "sum_list (bt_values weights)" and ?n = "unat pool - share_floors pool weights"
  let ?order = "map snd (rev (sort (map (\<lambda>(k, w). (saturating_mul pool w mod ?t, k)) (bt_entries weights))))"
  note order = remainder_order [OF bt.distinct_ents [of weights], of pool ?t]
  obtain a where a: "allocate_proportional weights pool = fold bump (take ?n ?order) a"
      "\<And>k. bt_get a k = map_option (\<lambda>w. saturating_mul pool w div ?t) (bt_get weights k)"
    using allocate_proportional_fold [OF assms] by metis
  have "bt_get a j \<noteq> None" if "j \<in> set (take ?n ?order)" for j
  proof -
    have "j \<in> fst ` set (bt_entries weights)" using in_set_takeD [OF that] unfolding order(2) .
    then have "bt_get weights j \<noteq> None" unfolding bt.get_ents map_of_eq_None_iff by simp
    then show ?thesis by (simp add: a(2))
  qed
  then have get: "bt_get (allocate_proportional weights pool) k
      = map_option (\<lambda>v. if k \<in> set (take ?n ?order) then v + 1 else v) (bt_get a k)"
    unfolding a(1) by (intro fold_bump_get distinct_take order(1))
  show "bt_get (allocate_proportional weights pool) k = None" if "bt_get weights k = None"
    using that get a(2) [of k] by simp
  show "\<exists>v. bt_get (allocate_proportional weights pool) k = Some v \<and> floor_share pool ?t w \<le> unat v
      \<and> unat v \<le> floor_share pool ?t w + 1" if w: "bt_get weights k = Some w"
  proof -
    let ?v = "saturating_mul pool w div ?t"
    have v: "unat ?v = floor_share pool ?t w"
      using assms w by (simp add: share_exact fitting_def)
    have "floor_share pool ?t w \<le> share_floors pool weights"
      unfolding share_floors_def using w by (rule bt_total_ge)
    then have le: "unat ?v \<le> unat pool" using share_floors_bounds(1) [OF assms] v by simp
    have "unat (?v + 1) = unat ?v + 1" if "k \<in> set (take ?n ?order)"
    proof -
      have "0 < ?n" using that by (cases ?n) auto
      then have "unat ?v < unat pool"
        using \<open>floor_share pool ?t w \<le> share_floors pool weights\<close> v by simp
      then show ?thesis using unat_bound [of pool] by (subst unat_add_exact) simp_all
    qed
    then show ?thesis using get a(2) [of k] w v by (auto split: if_splits)
  qed
qed

subsection \<open>The witness split\<close>

lemma witness_share_loop_spec:
  assumes "distinct (map fst es)" "\<And>k c. (k, c) \<in> set es \<Longrightarrow> unat pool * unat c < 2 ^ 128"
    and "\<And>k. k \<in> fst ` set es \<Longrightarrow> bt_get a k = None"
    and "unat d + (\<Sum>(k, c)\<leftarrow>es. unat pool * unat c div unat t) < 2 ^ 128"
  shows "case witness_share_loop pool t es (a, rs, d) of (a', rs', d') \<Rightarrow>
    map snd rs' = map snd rs @ map fst (filter (\<lambda>(k, c). c \<noteq> 0) es)
    \<and> unat d' = unat d + (\<Sum>(k, c)\<leftarrow>es. unat pool * unat c div unat t)
    \<and> bt_total unat a' = bt_total unat a + (\<Sum>(k, c)\<leftarrow>es. unat pool * unat c div unat t)
    \<and> (\<forall>k. bt_get a' k \<noteq> None \<longleftrightarrow> bt_get a k \<noteq> None \<or> k \<in> fst ` set es)"
  using assms
proof (induction es arbitrary: a rs d)
  case (Cons e es)
  obtain k c where e: "e = (k, c)" by (cases e)
  have fresh: "k \<notin> fst ` set es" using Cons.prems(1) by (simp add: e)
  define share where "share = (if c = 0 then 0 else saturating_mul pool (ucast c) div t)"
  define rs1 where "rs1 = (if c = 0 then rs else rs @ [(saturating_mul pool (ucast c) mod t, k)])"
  define d1 where "d1 = (if c = 0 then d else saturating_add d share)"
  have share: "unat share = unat pool * unat c div unat t"
    using Cons.prems(2) [of k c]
    by (simp add: share_def e share_exact unat_ucast_up floor_share_def)
  have d: "unat d1 = unat d + unat pool * unat c div unat t"
    using Cons.prems(4) share by (auto simp: d1_def unat_saturating_add e)
  have tot: "bt_total unat (bt_insert k share a) = bt_total unat a + unat pool * unat c div unat t"
    using bt_total_insert [of unat k share a] Cons.prems(3) [of k] share by (simp add: e)
  have step: "witness_share_loop pool t (e # es) (a, rs, d)
      = witness_share_loop pool t es (bt_insert k share a, rs1, d1)"
    by (simp add: e Let_def share_def rs1_def d1_def)
  have "case witness_share_loop pool t es (bt_insert k share a, rs1, d1) of (a', rs', d') \<Rightarrow>
      map snd rs' = map snd rs1 @ map fst (filter (\<lambda>(k, c). c \<noteq> 0) es)
      \<and> unat d' = unat d1 + (\<Sum>(k, c)\<leftarrow>es. unat pool * unat c div unat t)
      \<and> bt_total unat a' = bt_total unat (bt_insert k share a) + (\<Sum>(k, c)\<leftarrow>es. unat pool * unat c div unat t)
      \<and> (\<forall>j. bt_get a' j \<noteq> None \<longleftrightarrow> bt_get (bt_insert k share a) j \<noteq> None \<or> j \<in> fst ` set es)"
  proof (rule Cons.IH)
    show "bt_get (bt_insert k share a) j = None" if "j \<in> fst ` set es" for j
      using that fresh Cons.prems(3) [of j] by auto
    show "unat d1 + (\<Sum>(k, c)\<leftarrow>es. unat pool * unat c div unat t) < 2 ^ 128"
      using Cons.prems(4) unfolding d by (simp add: e)
  qed (use Cons.prems(1,2) in auto)
  moreover obtain a' rs' d' where "witness_share_loop pool t es (bt_insert k share a, rs1, d1) = (a', rs', d')"
    by (metis prod_cases3)
  moreover have "map snd rs1 = map snd rs @ map fst (filter (\<lambda>(k, c). c \<noteq> 0) [e])"
    by (simp add: rs1_def e)
  ultimately show ?case
    unfolding step d tot by (auto simp: e split: if_splits)
qed simp

definition witness_fitting :: "amount \<Rightarrow> (string, u64) btree_map \<Rightarrow> bool" where
  "witness_fitting pool credits \<longleftrightarrow> pool \<noteq> 0 \<and> 0 < bt_total unat credits \<and> bt_total unat credits < 2 ^ 64
     \<and> (\<forall>k c. bt_get credits k = Some c \<longrightarrow> unat pool * unat c < 2 ^ 128)"

lemma foldl_saturating_add:
  fixes cs :: "'a::len word list"
  assumes "unat d + (\<Sum>c\<leftarrow>cs. unat c) < 2 ^ LENGTH('a)"
  shows "unat (foldl saturating_add d cs) = unat d + (\<Sum>c\<leftarrow>cs. unat c)"
  using assms
proof (induction cs arbitrary: d)
  case (Cons c cs)
  have "unat (saturating_add d c) = unat d + unat c"
    using Cons.prems by (simp add: unat_saturating_add)
  with Cons show ?case by simp
qed simp

lemma allocate_witness_rewards_total:
  assumes fit: "witness_fitting pool credits"
  shows "bt_total unat (allocate_witness_rewards credits pool) = unat pool"
proof -
  let ?es = "bt_entries credits" and ?cs = "map unat (bt_values credits)"
  define t where "t = foldl saturating_add 0 (bt_values credits)"
  have t: "unat t = sum_list ?cs"
    unfolding t_def using fit by (subst foldl_saturating_add) (simp_all add: witness_fitting_def bt_total_def)
  have t128: "unat (ucast t :: amount) = sum_list ?cs" by (simp add: unat_ucast_up t)
  have pos: "0 < sum_list ?cs" using fit by (simp add: witness_fitting_def bt_total_def)
  define q where "q = (\<Sum>(k, c)\<leftarrow>?es. unat pool * unat c div sum_list ?cs)"
  have q: "q = (\<Sum>c\<leftarrow>?cs. unat pool * c div sum_list ?cs)"
    by (simp add: q_def bt_values_def case_prod_unfold comp_def)
  have small: "q \<le> unat pool" unfolding q by (rule leftover_bounds(1) [OF pos])
  have left: "unat pool - q < length (filter (\<lambda>c. c \<noteq> 0) ?cs)" unfolding q by (rule leftover_bounds(2) [OF pos])
  obtain a rs d where loop: "witness_share_loop pool (ucast t) ?es (bt_empty, [], 0) = (a, rs, d)"
    by (metis prod_cases3)
  have "case witness_share_loop pool (ucast t) ?es (bt_empty, [], 0) of (a', rs', d') \<Rightarrow>
      map snd rs' = map snd ([] :: (amount \<times> string) list) @ map fst (filter (\<lambda>(k, c). c \<noteq> 0) ?es)
      \<and> unat d' = unat (0 :: amount) + (\<Sum>(k, c)\<leftarrow>?es. unat pool * unat c div unat (ucast t :: amount))
      \<and> bt_total unat a' = bt_total unat (bt_empty :: (string, amount) btree_map)
          + (\<Sum>(k, c)\<leftarrow>?es. unat pool * unat c div unat (ucast t :: amount))
      \<and> (\<forall>k. bt_get a' k \<noteq> None \<longleftrightarrow> bt_get (bt_empty :: (string, amount) btree_map) k \<noteq> None \<or> k \<in> fst ` set ?es)"
    using fit small unat_bound [of pool]
    by (intro witness_share_loop_spec) (auto simp: bt.distinct_ents bt.ents_iff witness_fitting_def t128 q_def)
  then have spec: "map snd rs = map fst (filter (\<lambda>(k, c). c \<noteq> 0) ?es)" "unat d = q" "bt_total unat a = q"
      "\<And>k. bt_get a k \<noteq> None \<longleftrightarrow> k \<in> fst ` set ?es"
    by (simp_all add: loop t128 q_def)
  let ?order = "map snd (sort_key (\<lambda>(remainder, witness). (- uint remainder, witness)) rs)"
  have perm: "mset ?order = mset (map snd rs)" by (simp only: mset_map mset_sort)
  have known: "bt_get a k \<noteq> None" if "k \<in> set ?order" for k
    using that mset_eq_setD [OF perm] spec(1,4) by (auto simp del: list.set_map)
  have "length ?order = length (map fst (filter (\<lambda>(k, c). c \<noteq> 0) ?es))"
    using mset_eq_length [OF perm] unfolding spec(1) .
  also have "\<dots> = length (filter (\<lambda>c. c \<noteq> 0) ?cs)"
    by (simp add: bt_values_def filter_map comp_def case_prod_unfold unat_gt_0)
  finally have len: "length (take (unat pool - q) ?order) = unat pool - q" using left by simp
  have "t \<noteq> 0" using pos unfolding t [symmetric] by (simp add: unat_gt_0)
  then have "allocate_witness_rewards credits pool = witness_leftover_loop (unat pool - q) ?order a"
    using fit by (simp add: allocate_witness_rewards_def t_def [symmetric] loop Let_def witness_fitting_def
        unat_saturating_sub spec(2))
  also have "\<dots> = fold bump (take (unat pool - q) ?order) a"
    using known by (rule witness_leftover_loop_fold)
  finally show ?thesis
    using total_fold_bump [of "take (unat pool - q) ?order" a] known [OF in_set_takeD] spec(3) small len
      unat_bound [of pool] by simp
qed

end
