(* ===== verification/Retention_Book.thy ===== *)
theory Retention_Book
  imports Records Hashing
begin

text \<open>
  The book of stored payloads a storer keeps (\<open>src/src/storage_book.rs\<close>), with its quota.
  The serialisers are parameters (\<open>book_env\<close>): \<open>receipt_encode\<close> is \<open>borsh::to_vec\<close> on the tuple of
  \<open>development_receipt_signature\<close>, \<open>book_parse\<close> is \<open>serde_json::from_str\<close> and \<open>hex_encode\<close> is
  \<open>hex::encode\<close>; reading the file is an argument of \<open>load_or_default_json\<close>, \<open>None\<close> when the path
  does not exist.
\<close>

record stored_payload_record =
  sp_epoch_id :: epoch_id
  sp_payload_cid :: content_id
  sp_payload_hash :: hash32
  sp_size_bytes :: u64
  sp_retention_until_epoch :: epoch_id
  sp_receipt :: replica_receipt

record local_retention_book =
  rb_quota_bytes :: u64
  rb_used_bytes :: u64
  rb_payloads :: "(content_id, stored_payload_record) btree_map"

record stored_payload_receipt_validation =
  payload_matches :: bool
  epoch_matches :: bool
  retention_matches :: bool
  signature_matches :: bool

datatype storage_book_error =
    BookIo string
  | BookJson string
  | BookBorsh string
  | QuotaExceeded u64 u64 u64

record book_env =
  hex_encode :: "byte_vec \<Rightarrow> string"
  receipt_encode :: "node_id \<Rightarrow> epoch_id \<Rightarrow> epoch_id \<Rightarrow> string \<Rightarrow> hash32 \<Rightarrow> u64 \<Rightarrow> string + byte_vec"
  book_parse :: "string \<Rightarrow> string + local_retention_book"

definition gigabytes :: "u32 \<Rightarrow> u64" where
  "gigabytes quota_gb = ucast quota_gb * 1024 * 1024 * 1024"

definition with_quota_gb :: "u32 \<Rightarrow> local_retention_book" where
  "with_quota_gb quota_gb = \<lparr>rb_quota_bytes = gigabytes quota_gb, rb_used_bytes = 0, rb_payloads = bt_empty\<rparr>"

definition recalculate_used_bytes :: "local_retention_book \<Rightarrow> local_retention_book" where
  "recalculate_used_bytes book =
     book\<lparr>rb_used_bytes := sum_list (map sp_size_bytes (bt_values (rb_payloads book)))\<rparr>"

definition load_or_default_json ::
  "book_env \<Rightarrow> (string + string) option \<Rightarrow> u32 \<Rightarrow> storage_book_error + local_retention_book" where
  "load_or_default_json env file quota_gb =
     (case file of
        None \<Rightarrow> Inr (with_quota_gb quota_gb)
      | Some (Inl err) \<Rightarrow> Inl (BookIo err)
      | Some (Inr content) \<Rightarrow>
          (case book_parse env content of
             Inl err \<Rightarrow> Inl (BookJson err)
           | Inr book \<Rightarrow>
               Inr (recalculate_used_bytes
                 (if rb_quota_bytes book = 0 then book\<lparr>rb_quota_bytes := gigabytes quota_gb\<rparr> else book))))"

definition development_receipt_signature ::
  "book_env \<Rightarrow> node_id \<Rightarrow> epoch_id \<Rightarrow> epoch_id \<Rightarrow> string \<Rightarrow> hash32 \<Rightarrow> u64 \<Rightarrow> storage_book_error + signature_bytes" where
  "development_receipt_signature env storer epoch retention_until cid hash size_bytes =
     map_sum BookBorsh (\<lambda>encoded. to_bytes32 (stable_hash32 encoded))
       (receipt_encode env storer epoch retention_until cid hash size_bytes)"

definition record_payload ::
  "book_env \<Rightarrow> node_id \<Rightarrow> epoch_id \<Rightarrow> u32 \<Rightarrow> content_id \<Rightarrow> hash32 \<Rightarrow> u64 \<Rightarrow> local_retention_book
    \<Rightarrow> (storage_book_error, stored_payload_record, local_retention_book) outcome" where
  "record_payload env storer epoch retention_epochs cid hash size_bytes book =
     (case bt_get (rb_payloads book) cid of
        Some existing \<Rightarrow> (Inr existing, book)
      | None \<Rightarrow>
          if saturating_add (rb_used_bytes book) size_bytes > rb_quota_bytes book
          then (Inl (QuotaExceeded (rb_quota_bytes book) (rb_used_bytes book) size_bytes), book)
          else
            let retention_until = epoch + ucast retention_epochs in
            try_with (development_receipt_signature env storer epoch retention_until cid hash size_bytes) book
              (\<lambda>sig.
                let receipt = \<lparr>rr_epoch_id = epoch, rr_payload_cid = cid, rr_storer_id = storer,
                      rr_retention_until_epoch = retention_until, rr_receipt_signature = sig\<rparr>;
                    rec = \<lparr>sp_epoch_id = epoch, sp_payload_cid = cid, sp_payload_hash = hash,
                      sp_size_bytes = size_bytes, sp_retention_until_epoch = retention_until,
                      sp_receipt = receipt\<rparr>
                in (Inr rec,
                    book\<lparr>rb_payloads := bt_insert cid rec (rb_payloads book),
                         rb_used_bytes := rb_used_bytes book + size_bytes\<rparr>)))"

definition record_batch_payload ::
  "book_env \<Rightarrow> node_id \<Rightarrow> epoch_id \<Rightarrow> u32 \<Rightarrow> byte_vec \<Rightarrow> local_retention_book
    \<Rightarrow> (storage_book_error, stored_payload_record, local_retention_book) outcome" where
  "record_batch_payload env storer epoch retention_epochs payload book =
     (let hash = stable_hash32 payload;
          cid = cid_from_hash (hex_encode env) hash ''batch-payload''
      in record_payload env storer epoch retention_epochs cid hash (word_of_nat (length payload)) book)"

fun prune_loop ::
  "content_id list \<Rightarrow> stored_payload_record list \<Rightarrow> local_retention_book
    \<Rightarrow> stored_payload_record list \<times> local_retention_book" where
  "prune_loop [] removed book = (removed, book)"
| "prune_loop (key # keys) removed book =
     (case bt_get (rb_payloads book) key of
        None \<Rightarrow> prune_loop keys removed book
      | Some rec \<Rightarrow>
          prune_loop keys (removed @ [rec])
            (book\<lparr>rb_payloads := bt_remove key (rb_payloads book),
                  rb_used_bytes := saturating_sub (rb_used_bytes book) (sp_size_bytes rec)\<rparr>))"

definition prune_expired ::
  "epoch_id \<Rightarrow> local_retention_book \<Rightarrow> stored_payload_record list \<times> local_retention_book" where
  "prune_expired current book =
     (let expired_keys = map fst (filter (\<lambda>(_, rec). current > sp_retention_until_epoch rec)
            (bt_entries (rb_payloads book)))
      in prune_loop expired_keys [] book)"

definition validate_stored_payload_record ::
  "book_env \<Rightarrow> stored_payload_record \<Rightarrow> storage_book_error + stored_payload_receipt_validation" where
  "validate_stored_payload_record env rec =
     map_sum id (\<lambda>expected. \<lparr>
         payload_matches = (rr_payload_cid (sp_receipt rec) = sp_payload_cid rec),
         epoch_matches = (rr_epoch_id (sp_receipt rec) = sp_epoch_id rec),
         retention_matches = (rr_retention_until_epoch (sp_receipt rec) = sp_retention_until_epoch rec),
         signature_matches = (rr_receipt_signature (sp_receipt rec) = expected)\<rparr>)
       (development_receipt_signature env (rr_storer_id (sp_receipt rec)) (sp_epoch_id rec)
         (sp_retention_until_epoch rec) (sp_payload_cid rec) (sp_payload_hash rec) (sp_size_bytes rec))"

subsection \<open>The quota\<close>

definition stored_bytes :: "local_retention_book \<Rightarrow> nat" where
  "stored_bytes book = bt_total (\<lambda>r. unat (sp_size_bytes r)) (rb_payloads book)"

definition within_quota :: "local_retention_book \<Rightarrow> bool" where
  "within_quota book \<longleftrightarrow> rb_quota_bytes book \<noteq> - 1
     \<and> unat (rb_used_bytes book) = stored_bytes book \<and> rb_used_bytes book \<le> rb_quota_bytes book"

lemma record_payload_rule:
  assumes "\<And>e. Q (Inl e, book)"
    and "\<And>existing. bt_get (rb_payloads book) cid = Some existing \<Longrightarrow> Q (Inr existing, book)"
    and "\<And>sig rec. \<lbrakk>bt_get (rb_payloads book) cid = None;
        saturating_add (rb_used_bytes book) size_bytes \<le> rb_quota_bytes book;
        development_receipt_signature env storer epoch (epoch + ucast n) cid hash size_bytes = Inr sig;
        rec = \<lparr>sp_epoch_id = epoch, sp_payload_cid = cid, sp_payload_hash = hash,
          sp_size_bytes = size_bytes, sp_retention_until_epoch = epoch + ucast n,
          sp_receipt = \<lparr>rr_epoch_id = epoch, rr_payload_cid = cid, rr_storer_id = storer,
            rr_retention_until_epoch = epoch + ucast n, rr_receipt_signature = sig\<rparr>\<rparr>\<rbrakk> \<Longrightarrow>
        Q (Inr rec, book\<lparr>rb_payloads := bt_insert cid rec (rb_payloads book),
             rb_used_bytes := rb_used_bytes book + size_bytes\<rparr>)"
  shows "Q (record_payload env storer epoch n cid hash size_bytes book)"
  using assms by (auto simp: record_payload_def Let_def not_less split: option.split try_with_split)

lemma record_payload_quota:
  assumes ok: "within_quota book"
  shows "within_quota (snd (record_payload env storer epoch n cid hash size_bytes book))"
proof (rule record_payload_rule, goal_cases)
  case (3 sig rec)
  have q: "unat (rb_quota_bytes book) < 2 ^ 64 - 1"
  proof -
    have "unat (rb_quota_bytes book) \<noteq> unat (- 1 :: u64)"
      using ok by (simp add: within_quota_def word_unat_eq_iff [symmetric])
    then show ?thesis using unat_bound [of "rb_quota_bytes book"] by (simp add: unat_max_word)
  qed
  have "min (unat (rb_used_bytes book) + unat size_bytes) (2 ^ 64 - 1) \<le> unat (rb_quota_bytes book)"
    using 3(2) by (simp add: word_le_nat_alt unat_saturating_add)
  with q have fits: "unat (rb_used_bytes book) + unat size_bytes \<le> unat (rb_quota_bytes book)" by simp
  then have "unat (rb_used_bytes book + size_bytes) = unat (rb_used_bytes book) + unat size_bytes"
    using q by (intro unat_add_exact) simp
  moreover have "bt_total (\<lambda>r. unat (sp_size_bytes r)) (bt_insert cid rec (rb_payloads book))
      = stored_bytes book + unat size_bytes"
    using bt_total_insert [of "\<lambda>r. unat (sp_size_bytes r)" cid rec "rb_payloads book"] 3(1,4)
    by (simp add: stored_bytes_def)
  ultimately show ?case
    using ok fits by (simp add: within_quota_def stored_bytes_def word_le_nat_alt)
qed (use ok in simp_all)

lemma record_payload_validates:
  assumes "record_payload env storer epoch n cid hash size_bytes book = (Inr rec, book')"
    and "bt_get (rb_payloads book) cid = None"
  shows "validate_stored_payload_record env rec = Inr \<lparr>payload_matches = True, epoch_matches = True,
    retention_matches = True, signature_matches = True\<rparr>"
proof -
  let ?Q = "\<lambda>r. r = (Inr rec, book') \<longrightarrow> validate_stored_payload_record env rec = Inr \<lparr>payload_matches = True,
    epoch_matches = True, retention_matches = True, signature_matches = True\<rparr>"
  have "?Q (record_payload env storer epoch n cid hash size_bytes book)"
    by (rule record_payload_rule [where Q = ?Q]) (use assms(2) in \<open>auto simp: validate_stored_payload_record_def\<close>)
  with assms(1) show ?thesis by simp
qed

lemma prune_loop_spec:
  assumes "distinct keys" "within_quota book" "\<And>k. k \<in> set keys \<Longrightarrow> bt_get (rb_payloads book) k \<noteq> None"
    and "prune_loop keys removed book = (removed', book')"
    and "recs = map (\<lambda>k. the (bt_get (rb_payloads book) k)) keys"
  shows "removed' = removed @ recs \<and> within_quota book'
    \<and> stored_bytes book' + (\<Sum>r\<leftarrow>recs. unat (sp_size_bytes r)) = stored_bytes book
    \<and> (\<forall>k. bt_get (rb_payloads book') k = (if k \<in> set keys then None else bt_get (rb_payloads book) k))"
  using assms
proof (induction keys arbitrary: removed book recs)
  case (Cons k keys)
  then obtain r where r: "bt_get (rb_payloads book) k = Some r" by fastforce
  define book1 where "book1 = book\<lparr>rb_payloads := bt_remove k (rb_payloads book),
    rb_used_bytes := saturating_sub (rb_used_bytes book) (sp_size_bytes r)\<rparr>"
  have tot: "stored_bytes book1 + unat (sp_size_bytes r) = stored_bytes book"
    using bt_total_remove [of "\<lambda>r. unat (sp_size_bytes r)" k "rb_payloads book"] r
    by (simp add: stored_bytes_def book1_def)
  have ok1: "within_quota book1"
    using Cons.prems(2) tot by (auto simp: within_quota_def book1_def unat_saturating_sub word_le_nat_alt stored_bytes_def)
  have get1: "bt_get (rb_payloads book1) j = (if j = k then None else bt_get (rb_payloads book) j)" for j
    by (simp add: book1_def)
  obtain recs1 where recs1: "recs1 = map (\<lambda>k. the (bt_get (rb_payloads book1) k)) keys" by blast
  have recs: "recs = r # recs1"
    using Cons.prems(1,5) r by (auto simp: recs1 get1)
  have "prune_loop keys (removed @ [r]) book1 = (removed', book')"
    using Cons.prems(4) by (simp add: r book1_def)
  moreover have "bt_get (rb_payloads book1) j \<noteq> None" if "j \<in> set keys" for j
    using Cons.prems(1,3) that by (auto simp: get1)
  ultimately have "removed' = (removed @ [r]) @ recs1 \<and> within_quota book'
    \<and> stored_bytes book' + (\<Sum>r\<leftarrow>recs1. unat (sp_size_bytes r)) = stored_bytes book1
    \<and> (\<forall>j. bt_get (rb_payloads book') j = (if j \<in> set keys then None else bt_get (rb_payloads book1) j))"
    using Cons.prems(1) ok1 recs1 by (intro Cons.IH) auto
  with tot show ?case by (auto simp: recs get1)
qed simp

lemma prune_expired_spec:
  assumes "within_quota book" "prune_expired current book = (removed, book')"
  shows "within_quota book'"
    "removed = filter (\<lambda>r. current > sp_retention_until_epoch r) (bt_values (rb_payloads book))"
    "bt_get (rb_payloads book') k = (case bt_get (rb_payloads book) k of None \<Rightarrow> None
      | Some r \<Rightarrow> if current > sp_retention_until_epoch r then None else Some r)"
    "stored_bytes book' + (\<Sum>r\<leftarrow>removed. unat (sp_size_bytes r)) = stored_bytes book"
proof -
  let ?es = "filter (\<lambda>(_, r). current > sp_retention_until_epoch r) (bt_entries (rb_payloads book))"
  have d: "distinct (map fst ?es)"
    using bt.distinct_ents [of "rb_payloads book"] by (simp add: distinct_map_filter)
  have keys: "k \<in> set (map fst ?es) \<longleftrightarrow>
      (\<exists>r. bt_get (rb_payloads book) k = Some r \<and> current > sp_retention_until_epoch r)" for k
    by (force simp: bt.ents_iff [symmetric])
  have vals: "map snd ?es = map (\<lambda>k. the (bt_get (rb_payloads book) k)) (map fst ?es)"
  proof -
    have "the (bt_get (rb_payloads book) (fst e)) = snd e" if "e \<in> set ?es" for e
      using that bt.ents_iff [of "fst e" "snd e" "rb_payloads book"] by simp
    then show ?thesis by simp
  qed
  have run: "prune_loop (map fst ?es) [] book = (removed, book')"
    using assms(2) by (simp add: prune_expired_def)
  have known: "bt_get (rb_payloads book) k \<noteq> None" if "k \<in> set (map fst ?es)" for k
    using that unfolding keys by auto
  note spec = prune_loop_spec [OF d assms(1) known run vals]
  show "within_quota book'" using spec by simp
  show "removed = filter (\<lambda>r. current > sp_retention_until_epoch r) (bt_values (rb_payloads book))"
    using spec by (simp add: bt_values_def filter_map comp_def case_prod_unfold)
  show "stored_bytes book' + (\<Sum>r\<leftarrow>removed. unat (sp_size_bytes r)) = stored_bytes book"
    using spec by simp
  have "bt_get (rb_payloads book') k = (if k \<in> set (map fst ?es) then None else bt_get (rb_payloads book) k)"
    using spec by blast
  then show "bt_get (rb_payloads book') k = (case bt_get (rb_payloads book) k of None \<Rightarrow> None
      | Some r \<Rightarrow> if current > sp_retention_until_epoch r then None else Some r)"
    unfolding keys by (auto split: option.split)
qed

end
