(* ===== verification/Rust_Text.thy ===== *)
theory Rust_Text
  imports Hashing
begin

text \<open>
  Rust strings and the hexadecimal text of 32-byte values (\<open>hex_32\<close>, \<open>decode_hex_32\<close> and
  \<open>decode_nibble\<close> of \<open>src/src/node_config.rs\<close>).

  A string is the list of its UTF-8 bytes, each written as the character with that code. The
  length of a string is therefore its number of bytes, as \<open>str::len\<close> has it, and \<open>str::trim\<close>
  removes the byte sequences of the characters with the Unicode property \<open>White_Space\<close>.
\<close>

definition as_bytes :: "string \<Rightarrow> byte_vec" where
  "as_bytes s = map (\<lambda>c. of_char c) s"

subsection \<open>Trimming\<close>

definition utf8 :: "nat list \<Rightarrow> string" where
  "utf8 codes = map char_of codes"

definition white_space :: "string list" where
  "white_space = map utf8
     ([[9], [10], [11], [12], [13], [32], [0xC2, 0x85], [0xC2, 0xA0], [0xE1, 0x9A, 0x80]]
      @ map (\<lambda>n. [0xE2, 0x80, n]) ([0x80..<0x8B] @ [0xA8, 0xA9, 0xAF])
      @ [[0xE2, 0x81, 0x9F], [0xE3, 0x80, 0x80]])"

fun strip_prefix :: "'a list \<Rightarrow> 'a list \<Rightarrow> 'a list option" where
  "strip_prefix [] s = Some s"
| "strip_prefix (_ # _) [] = None"
| "strip_prefix (p # ps) (c # s) = (if p = c then strip_prefix ps s else None)"

fun strip_any :: "'a list list \<Rightarrow> 'a list \<Rightarrow> 'a list option" where
  "strip_any [] s = None"
| "strip_any (p # ps) s = (case strip_prefix p s of None \<Rightarrow> strip_any ps s | Some r \<Rightarrow> Some r)"

lemma strip_prefix_length: "strip_prefix p s = Some r \<Longrightarrow> length s = length p + length r"
  by (induction p s rule: strip_prefix.induct) (auto split: if_splits)

lemma strip_any_length:
  "strip_any ps s = Some r \<Longrightarrow> [] \<notin> set ps \<Longrightarrow> length r < length s"
  by (induction ps s rule: strip_any.induct) (auto dest: strip_prefix_length split: option.splits)

function strip_while :: "'a list list \<Rightarrow> 'a list \<Rightarrow> 'a list" where
  "strip_while ps s =
     (case strip_any (filter (\<lambda>p. p \<noteq> []) ps) s of None \<Rightarrow> s | Some r \<Rightarrow> strip_while ps r)"
  by pat_completeness auto
termination
  by (relation "measure (\<lambda>(ps, s). length s)") (auto dest: strip_any_length)

declare strip_while.simps [simp del]

definition trim :: "string \<Rightarrow> string" where
  "trim s = rev (strip_while (map rev white_space) (rev (strip_while white_space s)))"

lemma strip_while_suffix: "\<exists>p. s = p @ strip_while ps s"
proof (induction ps s rule: strip_while.induct)
  case (1 ps s)
  have prefix: "strip_prefix q u = Some r \<Longrightarrow> u = q @ r" for q u r :: "'a list"
    by (induction q u rule: strip_prefix.induct) (auto split: if_splits)
  have any: "strip_any qs u = Some r \<Longrightarrow> \<exists>p. u = p @ r" for qs and u r :: "'a list"
    by (induction qs u rule: strip_any.induct) (auto split: option.splits dest: prefix)
  show ?case
  proof (cases "strip_any (filter (\<lambda>p. p \<noteq> []) ps) s")
    case None
    then show ?thesis by (simp add: strip_while.simps)
  next
    case (Some r)
    with any 1 obtain p q where "s = p @ r" "r = q @ strip_while ps r" by blast
    moreover have "strip_while ps s = strip_while ps r" using Some by (simp add: strip_while.simps [of ps s])
    ultimately have "s = (p @ q) @ strip_while ps s" by (metis append_assoc)
    then show ?thesis by blast
  qed
qed

lemma set_trim: "set (trim s) \<subseteq> set s"
proof -
  have "set (strip_while ps u) \<subseteq> set u" for ps and u :: string
    using strip_while_suffix [of u ps] by (metis Un_upper2 set_append)
  then show ?thesis unfolding trim_def by (metis set_rev subset_trans)
qed

text \<open>A string that starts and ends with a visible ASCII character has nothing to trim.\<close>

definition visible :: "char \<Rightarrow> bool" where
  "visible c \<longleftrightarrow> of_char c \<in> {33..127 :: nat}"

lemma strip_while_none:
  assumes "\<And>p. p \<in> set ps \<Longrightarrow> p \<noteq> [] \<Longrightarrow> hd p \<noteq> c"
  shows "strip_while ps (c # s) = c # s"
proof -
  have "strip_any qs (c # s) = None" if "\<forall>p \<in> set qs. p \<noteq> [] \<and> hd p \<noteq> c" for qs
    using that by (induction qs) (auto simp: neq_Nil_conv)
  with assms show ?thesis by (simp add: strip_while.simps)
qed

lemma white_space_invisible: "w \<in> set white_space \<Longrightarrow> w \<noteq> [] \<and> \<not> visible (hd w) \<and> \<not> visible (last w)"
proof -
  have "list_all (\<lambda>w. w \<noteq> [] \<and> \<not> visible (hd w) \<and> \<not> visible (last w)) white_space"
    by (simp add: white_space_def utf8_def visible_def upt_rec)
  then show "w \<in> set white_space \<Longrightarrow> w \<noteq> [] \<and> \<not> visible (hd w) \<and> \<not> visible (last w)"
    by (simp add: list_all_iff)
qed

lemma trim_visible:
  assumes "s \<noteq> []" "visible (hd s)" "visible (last s)"
  shows "trim s = s"
proof -
  obtain c t where s: "s = c # t" using assms(1) by (cases s) auto
  have "strip_while white_space s = s"
    unfolding s using assms(2) white_space_invisible by (intro strip_while_none) (auto simp: s)
  moreover obtain d u where r: "rev s = d # u" using assms(1) by (cases "rev s") auto
  then have "d = last s" by (metis last_rev list.sel(1) rev_rev_ident hd_rev)
  then have "strip_while (map rev white_space) (rev s) = rev s"
    unfolding r using assms(3) white_space_invisible by (intro strip_while_none) (auto simp: hd_rev dest!: white_space_invisible)
  ultimately show ?thesis by (simp add: trim_def)
qed

subsection \<open>Numbers and hexadecimal digits\<close>

fun decimal :: "nat \<Rightarrow> string" where
  "decimal n = (if n < 10 then [char_of (48 + n)] else decimal (n div 10) @ [char_of (48 + n mod 10)])"

declare decimal.simps [simp del]

datatype node_config_error =
    ConfigIo string
  | ConfigJson string
  | ConfigWallet string
  | InvalidHexLength string nat nat
  | InvalidHexCharacter string nat u8
  | InvalidValue string string

definition hex_digits :: string where
  "hex_digits = ''0123456789abcdef''"

definition hex_byte :: "u8 \<Rightarrow> string" where
  "hex_byte byte = [hex_digits ! unat (drop_bit 4 byte), hex_digits ! unat (and byte 0x0f)]"

definition hex_32 :: "bytes32 \<Rightarrow> string" where
  "hex_32 bytes = concat (map hex_byte (to_bytes32 bytes))"

definition decode_nibble :: "u8 \<Rightarrow> string \<Rightarrow> nat \<Rightarrow> node_config_error + u8" where
  "decode_nibble byte field index =
     (if of_char CHR ''0'' \<le> byte \<and> byte \<le> of_char CHR ''9'' then Inr (byte - of_char CHR ''0'')
      else if of_char CHR ''a'' \<le> byte \<and> byte \<le> of_char CHR ''f'' then Inr (byte - of_char CHR ''a'' + 10)
      else if of_char CHR ''A'' \<le> byte \<and> byte \<le> of_char CHR ''F'' then Inr (byte - of_char CHR ''A'' + 10)
      else Inl (InvalidHexCharacter field index byte))"

text \<open>The loop of \<open>decode_hex_32\<close> from byte \<open>index\<close> of the output on.\<close>

fun decode_pairs :: "string \<Rightarrow> nat \<Rightarrow> byte_vec \<Rightarrow> node_config_error + byte_vec" where
  "decode_pairs field index (h # l # rest) =
     (case decode_nibble h field (index * 2) of
        Inl e \<Rightarrow> Inl e
      | Inr hi \<Rightarrow>
          (case decode_nibble l field (index * 2 + 1) of
             Inl e \<Rightarrow> Inl e
           | Inr lo \<Rightarrow> map_sum id ((#) (or (push_bit 4 hi) lo)) (decode_pairs field (Suc index) rest)))"
| "decode_pairs field index _ = Inr []"

definition decode_hex_32 :: "string \<Rightarrow> string \<Rightarrow> node_config_error + bytes32" where
  "decode_hex_32 input field =
     (if length input \<noteq> 64 then Inl (InvalidHexLength field 64 (length input))
      else map_sum id of_bytes32 (decode_pairs field 0 (as_bytes input)))"

subsection \<open>The text determines the bytes\<close>

definition hex_char :: "char \<Rightarrow> bool" where
  "hex_char c \<longleftrightarrow> c \<in> set ''0123456789abcdefABCDEF''"

definition lower_hex :: "char \<Rightarrow> char" where
  "lower_hex c = (if c \<in> set ''ABCDEF'' then char_of (of_char c + 32 :: nat) else c)"

lemma decode_nibble_field:
  "decode_nibble byte field index = Inr v \<longleftrightarrow> decode_nibble byte [] 0 = Inr v"
  by (auto simp: decode_nibble_def)

lemma digit_table:
  "list_all (\<lambda>n. decode_nibble (of_char (hex_digits ! n)) [] 0 = Inr (word_of_nat n)) [0..<16]"
  by code_simp

lemma decode_digit:
  "n < 16 \<Longrightarrow> decode_nibble (of_char (hex_digits ! n)) field index = Inr (word_of_nat n)"
  using digit_table by (simp add: decode_nibble_field [of _ field] list_all_iff)

lemma hex_char_table:
  "list_all (\<lambda>c. case decode_nibble (of_char c) [] 0 of
      Inl _ \<Rightarrow> False
    | Inr v \<Rightarrow> unat v < 16 \<and> hex_digits ! unat v = lower_hex c) ''0123456789abcdefABCDEF''"
  by code_simp

lemma hex_range_table: "list_all (\<lambda>n. hex_char (char_of n)) ([48..<58] @ [97..<103] @ [65..<71])"
  by code_simp

lemma unat_of_char: "unat (of_char c :: u8) = of_char c"
proof -
  have "(of_char c :: nat) < 2 ^ LENGTH(8)" by simp
  from unat_of_nat_exact [OF this] show ?thesis by (simp only: of_nat_of_char)
qed

lemma decode_nibble_hex_char: "decode_nibble (of_char c) field index = Inr v \<Longrightarrow> hex_char c"
proof -
  assume "decode_nibble (of_char c) field index = Inr v"
  then have "of_char c \<in> {48..<58} \<union> {97..<103} \<union> {65..<71 :: nat}"
    by (auto simp: decode_nibble_def word_le_nat_alt unat_of_char split: if_splits)
  with hex_range_table have "hex_char (char_of (of_char c :: nat))"
    unfolding list_all_iff set_append set_upt by blast
  then show ?thesis by simp
qed

lemma decode_nibble_cases:
  obtains (valid) v where "decode_nibble (of_char c) field index = Inr v" "hex_char c" "unat v < 16"
    "hex_digits ! unat v = lower_hex c"
  | (invalid) e where "decode_nibble (of_char c) field index = Inl e" "\<not> hex_char c"
proof (cases "hex_char c")
  case True
  with hex_char_table obtain v where "decode_nibble (of_char c) [] 0 = Inr v" "unat v < 16" "hex_digits ! unat v = lower_hex c"
    by (auto simp: hex_char_def list_all_iff split: sum.splits)
  with True valid show thesis by (simp add: decode_nibble_field [of _ field])
next
  case False
  with decode_nibble_hex_char invalid show thesis by (cases "decode_nibble (of_char c) field index") blast+
qed

text \<open>Splitting a byte into its halves and joining two halves.\<close>

lemma split_byte:
  "unat (drop_bit 4 byte) < 16" "unat (and byte 0x0f) < 16"
  "or (push_bit 4 (drop_bit 4 byte)) (and byte 0x0f) = byte" for byte :: u8
proof -
  have m: "0x0f = (mask 4 :: u8)" by (simp add: mask_eq_exp_minus_1)
  have "unat (drop_bit 4 byte) = unat byte div 16" by (simp add: drop_bit_eq_div unat_div_distrib)
  with unat_bound [of byte] show "unat (drop_bit 4 byte) < 16" by simp
  have "unat (and byte (mask 4)) = unat byte mod 16"
    by (simp add: take_bit_eq_mod unat_mod_distrib flip: take_bit_eq_mask)
  then show "unat (and byte 0x0f) < 16" by (simp add: m)
  show "or (push_bit 4 (drop_bit 4 byte)) (and byte 0x0f) = byte"
    unfolding m take_bit_eq_mask [symmetric] by (rule bit_eqI) (auto simp: bit_simps)
qed

lemma join_halves:
  fixes hi lo :: u8
  assumes "unat hi < 16" "unat lo < 16"
  shows "drop_bit 4 (or (push_bit 4 hi) lo) = hi" "and (or (push_bit 4 hi) lo) 0x0f = lo"
proof -
  have m: "0x0f = (mask 4 :: u8)" by (simp add: mask_eq_exp_minus_1)
  have small: "take_bit 4 w = w" if "unat w < 16" for w :: u8
    using that by (simp add: word_unat_eq_iff unsigned_take_bit_eq take_bit_nat_eq_self)
  have bits: "bit w n \<Longrightarrow> n < 4" if "unat w < 16" for w :: u8 and n
    using small [OF that] by (metis bit_take_bit_iff)
  show "drop_bit 4 (or (push_bit 4 hi) lo) = hi"
    by (rule bit_eqI) (use bits [OF assms(1)] bits [OF assms(2)] in \<open>force simp: bit_simps\<close>)
  show "and (or (push_bit 4 hi) lo) 0x0f = lo"
    unfolding m by (rule bit_eqI) (use bits [OF assms(2)] in \<open>force simp: bit_simps\<close>)
qed

lemma hex_byte_join:
  "unat hi < 16 \<Longrightarrow> unat lo < 16 \<Longrightarrow>
     hex_byte (or (push_bit 4 hi) lo) = [hex_digits ! unat hi, hex_digits ! unat lo]"
  by (simp only: hex_byte_def join_halves)

lemma decode_pairs_hex:
  "decode_pairs field index (as_bytes (concat (map hex_byte bs))) = Inr bs"
  by (induction bs arbitrary: index)
    (simp_all add: as_bytes_def hex_byte_def decode_digit split_byte)

lemma decode_pairs_spec:
  "even (length s) \<Longrightarrow> case decode_pairs field index (as_bytes s) of
      Inl _ \<Rightarrow> \<not> list_all hex_char s
    | Inr bs \<Rightarrow> list_all hex_char s \<and> concat (map hex_byte bs) = map lower_hex s"
proof (induction s arbitrary: index rule: induct_list012)
  case (3 c d s)
  show ?case
  proof (cases rule: decode_nibble_cases [of c field "index * 2"])
    case hi: (valid hi)
    show ?thesis
    proof (cases rule: decode_nibble_cases [of d field "index * 2 + 1"])
      case (valid lo)
      with hi 3(1) [of "Suc index"] 3(3) show ?thesis
        by (auto simp: as_bytes_def hex_byte_join split: sum.splits)
    qed (use hi in \<open>simp add: as_bytes_def\<close>)
  qed (simp add: as_bytes_def)
qed (simp_all add: as_bytes_def)

lemma length_concat_hex: "length (concat (map hex_byte bs)) = 2 * length bs"
  by (induction bs) (simp_all add: hex_byte_def)

lemma length_hex_32: "length (hex_32 w) = 64"
  by (simp add: hex_32_def length_concat_hex)

lemma decode_hex_32_hex_32: "decode_hex_32 (hex_32 w) field = Inr w"
  using length_hex_32 [of w] decode_pairs_hex [of field 0 "to_bytes32 w"] by (simp add: decode_hex_32_def hex_32_def)

lemma to_bytes32_of_bytes32: "length bs = 32 \<Longrightarrow> to_bytes32 (of_bytes32 bs) = bs"
  by (rule of_bytes32_inj) simp_all

lemma decode_hex_32_spec:
  "case decode_hex_32 s field of
     Inl _ \<Rightarrow> \<not> (length s = 64 \<and> list_all hex_char s)
   | Inr v \<Rightarrow> length s = 64 \<and> list_all hex_char s \<and> hex_32 v = map lower_hex s"
proof (cases "length s = 64")
  case True
  with decode_pairs_spec [of s field 0] show ?thesis
  proof (cases "decode_pairs field 0 (as_bytes s)")
    case (Inr bs)
    with True decode_pairs_spec [of s field 0] have hex: "list_all hex_char s" "concat (map hex_byte bs) = map lower_hex s"
      by simp_all
    then have "length bs = 32"
      using True length_concat_hex [of bs] by simp
    with True Inr hex show ?thesis by (simp add: decode_hex_32_def hex_32_def to_bytes32_of_bytes32)
  qed (simp add: decode_hex_32_def)
qed (simp add: decode_hex_32_def)

end
