(* ===== verification/Pipeline.thy ===== *)
theory Pipeline
  imports Transition_Rules Merkle Rust_Text
begin

text \<open>
  From activity samples to batch commits (\<open>src/src/node_pipeline.rs\<close>): a sample becomes an
  observation, observations are signed and checked, and a batch builder collects the
  observations of one collector and epoch and seals them into a commit.

  A Rust string is the list of its UTF-8 bytes. The environment holds what comes from other
  crates: \<open>sha256\<close>, \<open>hex::encode\<close>, Borsh on one observation and on a vector of observations, and
  the Ed25519 functions of \<open>crypto_env\<close>. The check of the collector signature is that of the release
  build, without the branch for the 32-byte development placeholder.
\<close>

record pipeline_env = crypto_env +
  pe_sha256 :: "byte_vec \<Rightarrow> bytes32"
  pe_hex :: "byte_vec \<Rightarrow> string"
  encode_observation :: "observation_record \<Rightarrow> byte_vec"
  encode_observations :: "observation_record list \<Rightarrow> byte_vec"

subsection \<open>Types\<close>

record activity_sample =
  as_app_id :: app_id
  as_observed_players :: u64
  as_observed_at_millis :: unix_millis
  as_source_kind :: activity_source_kind
  as_source_confidence_ppm :: u32
  as_raw_body :: string

record assembled_batch =
  ab_batch_commit :: batch_commit
  ab_payload_hash :: hash32
  ab_payload_cid :: content_id
  ab_payload_bytes :: byte_vec
  ab_observations :: "observation_record list"

datatype node_pipeline_error =
    EmptySignature
  | EmptyRawBody
  | PipelineEmptyBatch
  | MismatchedEpoch epoch_id epoch_id
  | MismatchedCollector node_id node_id

record batch_builder =
  bb_epoch_id :: epoch_id
  bb_collector_id :: node_id
  bb_observations :: "observation_record list"

datatype signature_status = SigEmpty | SigDevPlaceholder | SigValid | SigInvalid | SigUnverifiable

subsection \<open>Samples and observations\<close>

definition new_sample ::
  "app_id \<Rightarrow> u64 \<Rightarrow> unix_millis \<Rightarrow> string \<Rightarrow> activity_source_kind \<Rightarrow> u32 \<Rightarrow> activity_sample" where
  "new_sample app players at_millis raw kind confidence =
     \<lparr>as_app_id = app, as_observed_players = players, as_observed_at_millis = at_millis,
      as_source_kind = kind, as_source_confidence_ppm = confidence, as_raw_body = raw\<rparr>"

definition steam_current_players :: "app_id \<Rightarrow> u64 \<Rightarrow> unix_millis \<Rightarrow> string \<Rightarrow> activity_sample" where
  "steam_current_players app players at_millis raw = new_sample app players at_millis raw Steam 1000000"

fun source_namespace :: "activity_source_kind \<Rightarrow> string" where
  "source_namespace Steam = ''steam-observation''"
| "source_namespace Epic = ''epic-observation''"
| "source_namespace Ea = ''ea-observation''"
| "source_namespace Gog = ''gog-observation''"
| "source_namespace Community = ''community-observation''"

definition into_observation ::
  "'a pipeline_env_scheme \<Rightarrow> activity_sample \<Rightarrow> epoch_id \<Rightarrow> slot_id \<Rightarrow> node_id \<Rightarrow> signature_bytes
    \<Rightarrow> node_pipeline_error + observation_record" where
  "into_observation env sample epoch slot collector sig =
     (if sig = [] then Inl EmptySignature
      else if as_raw_body sample = [] then Inl EmptyRawBody
      else
        let raw_body_hash = stable_hash32 (as_bytes (as_raw_body sample));
            raw_body_cid = cid_from_hash (pe_hex env) raw_body_hash (source_namespace (as_source_kind sample))
        in Inr \<lparr>obs_epoch_id = epoch, obs_slot_id = slot, obs_app_id = as_app_id sample,
             obs_source_kind = as_source_kind sample,
             obs_source_confidence_ppm = as_source_confidence_ppm sample,
             obs_observed_players = as_observed_players sample,
             obs_observed_at_millis = as_observed_at_millis sample, obs_collector_id = collector,
             obs_raw_body_cid = raw_body_cid, obs_raw_body_hash = raw_body_hash,
             obs_collector_signature = sig\<rparr>)"

definition observation_signing_payload :: "'a pipeline_env_scheme \<Rightarrow> observation_record \<Rightarrow> byte_vec" where
  "observation_signing_payload env obs = encode_observation env (obs\<lparr>obs_collector_signature := []\<rparr>)"

definition verify_collector_signature ::
  "'a pipeline_env_scheme \<Rightarrow> observation_record \<Rightarrow> pubkey option \<Rightarrow> signature_status" where
  "verify_collector_signature env obs key =
     (if obs_collector_signature obs = [] then SigEmpty
      else case key of
        None \<Rightarrow> SigUnverifiable
      | Some public_key \<Rightarrow>
          if stable_hash32 (to_bytes32 public_key) \<noteq> obs_collector_id obs then SigInvalid
          else if verify_signature (crypto_env.truncate env) public_key (observation_signing_payload env obs)
              (obs_collector_signature obs)
          then SigValid else SigInvalid)"

subsection \<open>The batch builder\<close>

definition new_builder :: "epoch_id \<Rightarrow> node_id \<Rightarrow> batch_builder" where
  "new_builder epoch collector =
     \<lparr>bb_epoch_id = epoch, bb_collector_id = collector, bb_observations = []\<rparr>"

definition push_observation ::
  "observation_record \<Rightarrow> batch_builder \<Rightarrow> (node_pipeline_error, unit, batch_builder) outcome" where
  "push_observation obs b =
     (if obs_epoch_id obs \<noteq> bb_epoch_id b
      then (Inl (MismatchedEpoch (bb_epoch_id b) (obs_epoch_id obs)), b)
      else if obs_collector_id obs \<noteq> bb_collector_id b
      then (Inl (MismatchedCollector (bb_collector_id b) (obs_collector_id obs)), b)
      else (Inr (), b\<lparr>bb_observations := bb_observations b @ [obs]\<rparr>))"

definition observation_order :: "observation_record \<Rightarrow> slot_id \<times> app_id \<times> unix_millis" where
  "observation_order obs = (obs_slot_id obs, obs_app_id obs, obs_observed_at_millis obs)"

definition finalize_batch ::
  "'a pipeline_env_scheme \<Rightarrow> batch_builder \<Rightarrow> height \<Rightarrow> node_pipeline_error + assembled_batch" where
  "finalize_batch env b submitted_at_height =
     (if bb_observations b = [] then Inl PipelineEmptyBatch
      else
        let observations = sort_key observation_order (bb_observations b);
            slot_start = (case observations of [] \<Rightarrow> 0 | obs # _ \<Rightarrow> obs_slot_id obs);
            slot_end = (case observations of [] \<Rightarrow> 0 | _ \<Rightarrow> obs_slot_id (last observations));
            payload_bytes = encode_observations env observations;
            payload_hash = stable_hash32 payload_bytes;
            payload_cid = cid_from_hash (pe_hex env) payload_hash ''batch-payload'';
            leaf_hashes = map (\<lambda>obs. merkle_leaf_sha256 (pe_sha256 env) (encode_observation env obs)) observations;
            batch_root = merkle_root (pe_sha256 env) leaf_hashes;
            batch_commit = \<lparr>bc_epoch_id = bb_epoch_id b, bc_collector_id = bb_collector_id b,
              bc_slot_start = slot_start, bc_slot_end = slot_end,
              bc_batch = \<lparr>mc_root = batch_root, mc_leaf_count = word_of_nat (length observations)\<rparr>,
              bc_payload_cid = payload_cid, bc_obs_count = word_of_nat (length observations),
              bc_submitted_at_height = submitted_at_height\<rparr>
        in Inr \<lparr>ab_batch_commit = batch_commit, ab_payload_hash = payload_hash, ab_payload_cid = payload_cid,
             ab_payload_bytes = payload_bytes, ab_observations = observations\<rparr>)"

subsection \<open>Building a batch\<close>

text \<open>The observations a builder holds all belong to its epoch and collector.\<close>

definition coherent :: "batch_builder \<Rightarrow> bool" where
  "coherent b \<longleftrightarrow> (\<forall>obs \<in> set (bb_observations b). obs_epoch_id obs = bb_epoch_id b
     \<and> obs_collector_id obs = bb_collector_id b)"

inductive built :: "epoch_id \<Rightarrow> node_id \<Rightarrow> batch_builder \<Rightarrow> bool" for epoch collector where
  built_new: "built epoch collector (new_builder epoch collector)"
| built_push: "built epoch collector b \<Longrightarrow> built epoch collector (snd (push_observation obs b))"

lemma built_coherent:
  "built epoch collector b \<Longrightarrow> coherent b \<and> bb_epoch_id b = epoch \<and> bb_collector_id b = collector"
  by (induction rule: built.induct) (auto simp: coherent_def new_builder_def push_observation_def)

lemma sorted_by_slot:
  assumes "sorted (map observation_order xs)"
  shows "sorted (map obs_slot_id xs)"
  using sorted_map_fst [OF assms] by (simp add: observation_order_def)

lemma sorted_hd_last:
  "sorted (map f xs) \<Longrightarrow> x \<in> set xs \<Longrightarrow> f (hd xs) \<le> f x \<and> f x \<le> f (last xs)"
proof (induction xs rule: rev_induct)
  case (snoc y ys)
  then show ?case by (cases ys) (auto simp: sorted_append)
qed simp

lemma sort_key_eq_Nil_iff: "sort_key f xs = [] \<longleftrightarrow> xs = []"
  by (metis length_0_conv length_sort)

lemma finalize_batch_Inr:
  assumes "finalize_batch env b h = Inr a"
  shows "ab_observations a = sort_key observation_order (bb_observations b)" "bb_observations b \<noteq> []"
    and "bc_epoch_id (ab_batch_commit a) = bb_epoch_id b" "bc_collector_id (ab_batch_commit a) = bb_collector_id b"
    and "bc_slot_start (ab_batch_commit a) = obs_slot_id (hd (ab_observations a))"
    and "bc_slot_end (ab_batch_commit a) = obs_slot_id (last (ab_observations a))"
    and "bc_obs_count (ab_batch_commit a) = word_of_nat (length (ab_observations a))"
    and "mc_leaf_count (bc_batch (ab_batch_commit a)) = word_of_nat (length (ab_observations a))"
    and "mc_root (bc_batch (ab_batch_commit a)) = merkle_root (pe_sha256 env)
      (map (\<lambda>obs. merkle_leaf_sha256 (pe_sha256 env) (encode_observation env obs)) (ab_observations a))"
    and "bc_payload_cid (ab_batch_commit a) = cid_from_hash (pe_hex env) (stable_hash32 (ab_payload_bytes a)) ''batch-payload''"
    and "ab_payload_bytes a = encode_observations env (ab_observations a)"
  using assms by (auto simp: finalize_batch_def Let_def hd_def sort_key_eq_Nil_iff split: if_splits list.split)

lemma finalize_batch_slots:
  assumes "finalize_batch env b h = Inr a" "obs \<in> set (bb_observations b)"
  shows "bc_slot_start (ab_batch_commit a) \<le> obs_slot_id obs" "obs_slot_id obs \<le> bc_slot_end (ab_batch_commit a)"
proof -
  let ?xs = "ab_observations a"
  note f = finalize_batch_Inr [OF assms(1)]
  have "sorted (map obs_slot_id ?xs)" unfolding f(1) by (rule sorted_by_slot) simp
  moreover have "obs \<in> set ?xs" using assms(2) by (simp add: f(1))
  ultimately have "obs_slot_id (hd ?xs) \<le> obs_slot_id obs" "obs_slot_id obs \<le> obs_slot_id (last ?xs)"
    using sorted_hd_last [of obs_slot_id ?xs obs] by simp_all
  with f show "bc_slot_start (ab_batch_commit a) \<le> obs_slot_id obs" "obs_slot_id obs \<le> bc_slot_end (ab_batch_commit a)"
    by simp_all
qed

text \<open>What \<open>apply_submit_batch\<close> asks of a commit holds for every commit a builder seals.\<close>

lemma sealed_batch_accepted:
  assumes "built epoch collector b" "finalize_batch env b h = Inr a" "length (bb_observations b) < 2 ^ 32"
    and "sb_batch_commit tx = ab_batch_commit a" "stable_hash32 (to_bytes32 (sb_pubkey tx)) = collector"
    and "verify_signature cenv (sb_pubkey tx) (signing_payload (encode_tx cenv) (SubmitBatch tx)) (sb_signature tx)"
    and "current_epoch s \<le> epoch"
    and "node (store s) collector = Some n" "nr_status n = NodeActive" "Collect \<in> set (nr_enabled_capabilities n)"
    and "batch (store s) (epoch, nr_node_id n, mc_root (bc_batch (ab_batch_commit a))) = None"
  shows "fst (apply_submit_batch cenv tx s) = Inr (BatchAccepted (epoch, nr_node_id n, mc_root (bc_batch (ab_batch_commit a))))"
proof -
  note f = finalize_batch_Inr [OF assms(2)] and b = built_coherent [OF assms(1)]
  have "length (ab_observations a) = length (bb_observations b)" by (simp add: f(1))
  then have "unat (bc_obs_count (ab_batch_commit a)) = length (bb_observations b)"
    using assms(3) by (simp add: f(7) unat_of_nat_exact)
  then have count: "bc_obs_count (ab_batch_commit a) \<noteq> 0" using f(2) by auto
  obtain obs where "obs \<in> set (bb_observations b)" using f(2) by (cases "bb_observations b") auto
  from order.trans [OF finalize_batch_slots [OF assms(2) this]]
  have slots: "\<not> bc_slot_end (ab_batch_commit a) < bc_slot_start (ab_batch_commit a)" by (simp add: not_less)
  have cid: "bc_payload_cid (ab_batch_commit a) \<noteq> []" by (simp add: f(10) cid_from_hash_def)
  show ?thesis
    using assms(4-) b count slots cid f(3,4)
    by (simp add: apply_submit_batch_def ensure_signature_def ensure_epoch_not_stale_def
        ensure_non_empty_payload_def require_active_node_with_capability_def require_active_node_def Let_def not_less)
qed

end
