(* ===== verification/Persistence.thy ===== *)
theory Persistence
  imports Store
begin

text \<open>
  Loading and saving a store (\<open>PersistentStoreStub::open\<close> and \<open>flush\<close> of \<open>src/src/store.rs\<close>).

  The disk is a map from paths to file contents with the set of existing directories. A path has
  its parent directory, its file stem and its extension; \<open>with_extension\<close> replaces the last. The
  calls of \<open>std::fs\<close> can fail for reasons the program does not control: the argument \<open>faults\<close> says
  which calls fail, and what a failing \<open>fs::write\<close> leaves behind. The Borsh codec of the store is the
  parameter \<open>codec\<close>.
\<close>

record path_buf =
  pb_parent :: "string list"
  pb_stem :: string
  pb_extension :: "string option"

record disk =
  files :: "path_buf \<Rightarrow> byte_vec option"
  directories :: "string list set"

datatype io_error = IoFault string | NotFound | InvalidData string

record io_faults =
  create_fault :: "io_error option"
  read_fault :: "io_error option"
  write_fault :: "(io_error \<times> byte_vec option) option"
  rename_fault :: "io_error option"

record store_codec =
  encode_store :: "in_memory_store \<Rightarrow> string + byte_vec"
  decode_store :: "byte_vec \<Rightarrow> string + in_memory_store"

record persistent_store =
  ps_path :: path_buf
  ps_inner :: in_memory_store

subsection \<open>The calls of \<open>std::fs\<close>\<close>

definition with_extension :: "path_buf \<Rightarrow> string \<Rightarrow> path_buf" where
  "with_extension p ext = p\<lparr>pb_extension := Some ext\<rparr>"

definition fs_exists :: "path_buf \<Rightarrow> disk \<Rightarrow> bool" where
  "fs_exists p d \<longleftrightarrow> files d p \<noteq> None"

definition fs_read :: "io_faults \<Rightarrow> path_buf \<Rightarrow> disk \<Rightarrow> io_error + byte_vec" where
  "fs_read faults p d =
     (case read_fault faults of
        Some e \<Rightarrow> Inl e
      | None \<Rightarrow> ok_or (files d p) NotFound)"

definition fs_create_dir_all :: "io_faults \<Rightarrow> string list \<Rightarrow> disk \<Rightarrow> (io_error, unit, disk) outcome" where
  "fs_create_dir_all faults dir d =
     (case create_fault faults of
        Some e \<Rightarrow> (Inl e, d)
      | None \<Rightarrow> (Inr (), d\<lparr>directories := directories d \<union> set (map (\<lambda>n. take n dir) [0..<Suc (length dir)])\<rparr>))"

definition fs_write :: "io_faults \<Rightarrow> path_buf \<Rightarrow> byte_vec \<Rightarrow> disk \<Rightarrow> (io_error, unit, disk) outcome" where
  "fs_write faults p bytes d =
     (if pb_parent p \<noteq> [] \<and> pb_parent p \<notin> directories d then (Inl NotFound, d)
      else case write_fault faults of
        Some (e, left) \<Rightarrow> (Inl e, d\<lparr>files := (files d)(p := (if left = None then files d p else left))\<rparr>)
      | None \<Rightarrow> (Inr (), d\<lparr>files := (files d)(p \<mapsto> bytes)\<rparr>))"

definition fs_rename :: "io_faults \<Rightarrow> path_buf \<Rightarrow> path_buf \<Rightarrow> disk \<Rightarrow> (io_error, unit, disk) outcome" where
  "fs_rename faults from target d =
     (case rename_fault faults of
        Some e \<Rightarrow> (Inl e, d)
      | None \<Rightarrow>
          (case files d from of
             None \<Rightarrow> (Inl NotFound, d)
           | Some bytes \<Rightarrow>
               (Inr (), d\<lparr>files := if from = target then files d else (files d)(from := None, target \<mapsto> bytes)\<rparr>)))"

subsection \<open>Opening and flushing\<close>

definition open_store :: "store_codec \<Rightarrow> io_faults \<Rightarrow> path_buf \<Rightarrow> disk \<Rightarrow> io_error + persistent_store" where
  "open_store codec faults p d =
     (if fs_exists p d
      then
        (case fs_read faults p d of
           Inl e \<Rightarrow> Inl e
         | Inr bytes \<Rightarrow>
             (case decode_store codec bytes of
                Inl err \<Rightarrow> Inl (InvalidData (''failed to decode store snapshot: '' @ err))
              | Inr st \<Rightarrow> Inr \<lparr>ps_path = p, ps_inner = st\<rparr>))
      else Inr \<lparr>ps_path = p, ps_inner = default_store\<rparr>)"

definition flush :: "store_codec \<Rightarrow> io_faults \<Rightarrow> persistent_store \<Rightarrow> disk \<Rightarrow> (io_error, unit, disk) outcome" where
  "flush codec faults ps d =
     (let p = ps_path ps in
      try_then (if pb_parent p \<noteq> [] then fs_create_dir_all faults (pb_parent p) d else (Inr (), d)) (\<lambda>_ d1.
      try_with (map_sum (\<lambda>err. InvalidData (''failed to encode store snapshot: '' @ err)) id
          (encode_store codec (ps_inner ps))) d1 (\<lambda>bytes.
        let tmp_path = with_extension p ''tmp'' in
        try_then (fs_write faults tmp_path bytes d1) (\<lambda>_ d2. fs_rename faults tmp_path p d2))))"

subsection \<open>Atomicity\<close>

definition no_faults :: io_faults where
  "no_faults = \<lparr>create_fault = None, read_fault = None, write_fault = None, rename_fault = None\<rparr>"

definition decodes_back :: "store_codec \<Rightarrow> bool" where
  "decodes_back codec \<longleftrightarrow> (\<forall>st bytes. encode_store codec st = Inr bytes \<longrightarrow> decode_store codec bytes = Inr st)"

lemma with_extension_neq: "pb_extension p \<noteq> Some ext \<Longrightarrow> with_extension p ext \<noteq> p"
  by (metis path_buf.select_convs(3) path_buf.surjective path_buf.update_convs(3) with_extension_def)

lemma with_extension_parent [simp]: "pb_parent (with_extension p ext) = pb_parent p"
  by (simp add: with_extension_def)

text \<open>
  Whatever fails, the file at the path of the store is the old one when \<open>flush\<close> reports an error
  and the new snapshot when it reports success; besides it only the temporary file changes.
\<close>

lemma flush_files:
  assumes "pb_extension (ps_path ps) \<noteq> Some ''tmp''" "flush codec faults ps d = (r, d')"
  shows "case r of
      Inl _ \<Rightarrow> files d' (ps_path ps) = files d (ps_path ps)
    | Inr _ \<Rightarrow> \<exists>bytes. encode_store codec (ps_inner ps) = Inr bytes \<and> files d' (ps_path ps) = Some bytes
        \<and> files d' (with_extension (ps_path ps) ''tmp'') = None"
    and "p \<noteq> ps_path ps \<Longrightarrow> p \<noteq> with_extension (ps_path ps) ''tmp'' \<Longrightarrow> files d' p = files d p"
proof -
  note neq = with_extension_neq [OF assms(1)]
  define d1 where "d1 = snd (if pb_parent (ps_path ps) \<noteq> [] then fs_create_dir_all faults (pb_parent (ps_path ps)) d else (Inr (), d))"
  have d1: "files d1 = files d" by (simp add: d1_def fs_create_dir_all_def split: option.split)
  let ?Q = "\<lambda>(r, d'). (case r of
      Inl _ \<Rightarrow> files d' (ps_path ps) = files d (ps_path ps)
    | Inr _ \<Rightarrow> \<exists>bytes. encode_store codec (ps_inner ps) = Inr bytes \<and> files d' (ps_path ps) = Some bytes
        \<and> files d' (with_extension (ps_path ps) ''tmp'') = None)
    \<and> (\<forall>p. p \<noteq> ps_path ps \<longrightarrow> p \<noteq> with_extension (ps_path ps) ''tmp'' \<longrightarrow> files d' p = files d p)"
  have "?Q (flush codec faults ps d)"
    using neq d1 unfolding flush_def Let_def d1_def
    by (cases "create_fault faults"; cases "encode_store codec (ps_inner ps)"; cases "write_fault faults"; cases "rename_fault faults")
      (auto simp: fs_create_dir_all_def fs_write_def fs_rename_def split: if_splits option.splits prod.splits)
  with assms(2) show "case r of
      Inl _ \<Rightarrow> files d' (ps_path ps) = files d (ps_path ps)
    | Inr _ \<Rightarrow> \<exists>bytes. encode_store codec (ps_inner ps) = Inr bytes \<and> files d' (ps_path ps) = Some bytes
        \<and> files d' (with_extension (ps_path ps) ''tmp'') = None"
    and "p \<noteq> ps_path ps \<Longrightarrow> p \<noteq> with_extension (ps_path ps) ''tmp'' \<Longrightarrow> files d' p = files d p"
    by simp_all
qed

lemma flush_succeeds:
  assumes "encode_store codec (ps_inner ps) = Inr bytes"
  shows "fst (flush codec no_faults ps d) = Inr ()"
proof -
  have "dir \<in> set (map (\<lambda>n. take n dir) [0..<Suc (length dir)])" for dir :: "string list"
    by (auto intro: image_eqI [of _ _ "length dir"])
  then show ?thesis
    using assms by (simp add: flush_def Let_def no_faults_def fs_create_dir_all_def fs_write_def fs_rename_def)
qed

lemma reopen_after_flush:
  assumes "decodes_back codec" "pb_extension (ps_path ps) \<noteq> Some ''tmp''" "flush codec faults ps d = (r, d')"
  shows "open_store codec no_faults (ps_path ps) d' =
    (case r of Inl _ \<Rightarrow> open_store codec no_faults (ps_path ps) d | Inr _ \<Rightarrow> Inr ps)"
  using flush_files(1) [OF assms(2,3)] assms(1)
  by (auto simp: open_store_def fs_exists_def fs_read_def no_faults_def ok_or_def decodes_back_def split: sum.splits)

end
