(* ===== verification/Node_Config.thy ===== *)
theory Node_Config
  imports Rust_Text Tokenomics Records
begin

text \<open>
  The configuration of a node (\<open>src/src/node_config.rs\<close>): its sections, the default values, the
  validation that loading and saving run, and the choice of the reward address. Reading and
  writing the JSON file and the identity keystore are not modelled; the constructors of
  \<open>NodeConfigError\<close> that wrap such failures carry their message. \<open>usize\<close> values are natural
  numbers.
\<close>

subsection \<open>Sections\<close>

record capability_config =
  cc_collect :: bool
  cc_store :: bool
  cc_verify :: bool
  cc_propose :: bool
  cc_archive :: bool

record collect_config =
  co_enabled :: bool
  co_default_epoch_id :: u64
  co_default_slot_id :: u64

record p2p_simulation_config =
  ps_batch_listener_count :: nat
  ps_receipt_listener_count :: nat
  ps_dual_listener_count :: nat

record p2p_socket_peer_config =
  pc_peer_id_hex :: string
  pc_addr :: string
  pc_topics :: "string list"

record p2p_socket_config =
  sc_bind_addr :: string
  sc_peers :: "p2p_socket_peer_config list"

record activity_source_config =
  ac_app_id :: app_id
  ac_source_kind :: activity_source_kind
  ac_endpoint_url :: "string option"
  ac_inline_json :: "string option"
  ac_retries :: u32

record runtime_config =
  rt_data_dir :: string
  rt_poll_interval_secs :: u64
  rt_slots_per_epoch :: u64
  rt_challenge_window_blocks :: u32
  rt_low_impact_mode :: bool
  rt_os_background_priority :: bool
  rt_game_active_poll_interval_secs :: u64
  rt_game_process_names :: "string list"
  rt_target_app_ids :: "app_id list"
  rt_p2p_simulation :: p2p_simulation_config
  rt_p2p_socket :: p2p_socket_config
  rt_activity_sources :: "activity_source_config list"

datatype reward_source_mode = Static | TokenomicsSource

record reward_game_mapping =
  gm_process_name :: string
  gm_app_id :: app_id
  gm_game_coefficient_ppm :: u32

record reward_config =
  rc_reward_source :: reward_source_mode
  rc_emission_year :: u32
  rc_reward_block_secs :: u64
  rc_player_block_reward :: amount
  rc_reward_adjustment_period_blocks :: u64
  rc_target_network_weight_units :: amount
  rc_reward_adjustment_cap_bps :: u16
  rc_collect_reward_bps :: u16
  rc_store_reward_bps :: u16
  rc_verify_reward_bps :: u16
  rc_propose_reward_bps :: u16
  rc_tail_emission_start_year :: u32
  rc_tail_emission_rate_bps :: u16
  rc_game_mappings :: "reward_game_mapping list"

record storage_config =
  sg_quota_gb :: u32
  sg_retention_epochs :: u32

record node_config =
  nc_chain_id :: string
  nc_node_id_hex :: string
  nc_reward_address_hex :: string
  nc_capabilities :: capability_config
  nc_collect :: collect_config
  nc_runtime :: runtime_config
  nc_storage :: storage_config
  nc_reward :: reward_config

subsection \<open>Defaults\<close>

definition default_p2p_simulation_config :: p2p_simulation_config where
  "default_p2p_simulation_config =
     \<lparr>ps_batch_listener_count = 1, ps_receipt_listener_count = 1, ps_dual_listener_count = 1\<rparr>"

definition default_p2p_socket_config :: p2p_socket_config where
  "default_p2p_socket_config = \<lparr>sc_bind_addr = ''127.0.0.1:0'', sc_peers = []\<rparr>"

definition default_reward_config :: reward_config where
  "default_reward_config =
     \<lparr>rc_reward_source = Static, rc_emission_year = 1, rc_reward_block_secs = 3600,
      rc_player_block_reward = 1000, rc_reward_adjustment_period_blocks = 288,
      rc_target_network_weight_units = 150000000000000, rc_reward_adjustment_cap_bps = 2000,
      rc_collect_reward_bps = 5000, rc_store_reward_bps = 2500, rc_verify_reward_bps = 1500,
      rc_propose_reward_bps = 1000, rc_tail_emission_start_year = LONG_TERM_TAIL_START_YEAR,
      rc_tail_emission_rate_bps = LONG_TERM_TAIL_EMISSION_RATE_BPS, rc_game_mappings = []\<rparr>"

definition repeated_byte :: "u8 \<Rightarrow> bytes32" where
  "repeated_byte b = of_bytes32 (replicate 32 b)"

definition default_node_config :: node_config where
  "default_node_config =
     \<lparr>nc_chain_id = ''pole-local'', nc_node_id_hex = hex_32 (repeated_byte 0x11),
      nc_reward_address_hex = hex_32 (repeated_byte 0x22),
      nc_capabilities = \<lparr>cc_collect = True, cc_store = False, cc_verify = False, cc_propose = False,
        cc_archive = False\<rparr>,
      nc_collect = \<lparr>co_enabled = True, co_default_epoch_id = 1, co_default_slot_id = 1\<rparr>,
      nc_runtime = \<lparr>rt_data_dir = ''./pole-node-data'', rt_poll_interval_secs = 300, rt_slots_per_epoch = 288,
        rt_challenge_window_blocks = 20, rt_low_impact_mode = True, rt_os_background_priority = True,
        rt_game_active_poll_interval_secs = 900, rt_game_process_names = [], rt_target_app_ids = [730],
        rt_p2p_simulation = default_p2p_simulation_config, rt_p2p_socket = default_p2p_socket_config,
        rt_activity_sources = []\<rparr>,
      nc_storage = \<lparr>sg_quota_gb = 10, sg_retention_epochs = 2\<rparr>,
      nc_reward = default_reward_config\<rparr>"

subsection \<open>Identifiers\<close>

definition config_node_id :: "node_config \<Rightarrow> node_config_error + node_id" where
  "config_node_id c = decode_hex_32 (nc_node_id_hex c) ''node_id_hex''"

definition is_placeholder_reward_address :: "string \<Rightarrow> bool" where
  "is_placeholder_reward_address addr =
     (let trimmed = trim addr in
      trimmed = [] \<or> trimmed = hex_32 (repeated_byte 0x00) \<or> trimmed = hex_32 (repeated_byte 0x11)
      \<or> trimmed = hex_32 (repeated_byte 0x22) \<or> trimmed = hex_32 (repeated_byte 0x31)
      \<or> trimmed = hex_32 (repeated_byte 0x41))"

definition has_placeholder_reward_address :: "node_config \<Rightarrow> bool" where
  "has_placeholder_reward_address c = is_placeholder_reward_address (nc_reward_address_hex c)"

definition effective_reward_address_hex :: "node_config \<Rightarrow> string" where
  "effective_reward_address_hex c =
     (if has_placeholder_reward_address c \<and> trim (nc_node_id_hex c) \<noteq> []
        \<and> nc_node_id_hex c \<noteq> hex_32 (repeated_byte 0x11) \<and> nc_node_id_hex c \<noteq> hex_32 (repeated_byte 0x31)
      then nc_node_id_hex c else nc_reward_address_hex c)"

definition config_reward_address :: "node_config \<Rightarrow> node_config_error + address" where
  "config_reward_address c = decode_hex_32 (effective_reward_address_hex c) ''reward_address_hex''"

subsection \<open>Validation\<close>

fun validate_game_mappings :: "reward_game_mapping list \<Rightarrow> node_config_error + unit" where
  "validate_game_mappings [] = Inr ()"
| "validate_game_mappings (m # ms) =
     (if trim (gm_process_name m) = []
      then Inl (InvalidValue ''reward.game_mappings[].process_name'' ''must not be empty'')
      else if gm_game_coefficient_ppm m = 0
      then Inl (InvalidValue ''reward.game_mappings[].game_coefficient_ppm'' ''must be greater than 0'')
      else validate_game_mappings ms)"

definition total_service_reward_bps :: "reward_config \<Rightarrow> u32" where
  "total_service_reward_bps r =
     ucast (rc_collect_reward_bps r) + ucast (rc_store_reward_bps r) + ucast (rc_verify_reward_bps r)
     + ucast (rc_propose_reward_bps r)"

definition validate_reward_config :: "u64 \<Rightarrow> reward_config \<Rightarrow> node_config_error + unit" where
  "validate_reward_config poll_interval_secs r =
     (let greater = ''must be greater than 0'' in
      if rc_reward_block_secs r = 0 then Inl (InvalidValue ''reward.reward_block_secs'' greater)
      else if rc_emission_year r = 0 then Inl (InvalidValue ''reward.emission_year'' greater)
      else if rc_tail_emission_start_year r = 0 then Inl (InvalidValue ''reward.tail_emission_start_year'' greater)
      else if rc_tail_emission_rate_bps r > 10000
      then Inl (InvalidValue ''reward.tail_emission_rate_bps'' ''must be less than or equal to 10000 bps'')
      else if poll_interval_secs > 0 \<and> rc_reward_block_secs r mod poll_interval_secs \<noteq> 0
      then Inl (InvalidValue ''reward.reward_block_secs''
        (''must be an exact multiple of runtime.poll_interval_secs ('' @ decimal (unat poll_interval_secs) @ '')''))
      else if rc_player_block_reward r = 0 then Inl (InvalidValue ''reward.player_block_reward'' greater)
      else if rc_reward_adjustment_period_blocks r = 0
      then Inl (InvalidValue ''reward.reward_adjustment_period_blocks'' greater)
      else if rc_target_network_weight_units r = 0
      then Inl (InvalidValue ''reward.target_network_weight_units'' greater)
      else if rc_reward_adjustment_cap_bps r > 10000
      then Inl (InvalidValue ''reward.reward_adjustment_cap_bps'' ''must be less than or equal to 10000 bps'')
      else if total_service_reward_bps r \<noteq> 10000
      then Inl (InvalidValue ''reward.*_reward_bps''
        (''service reward split must sum to 10000 bps, got '' @ decimal (unat (total_service_reward_bps r))))
      else validate_game_mappings (rc_game_mappings r))"

definition validate_config :: "node_config \<Rightarrow> node_config_error + unit" where
  "validate_config c =
     (case config_node_id c of Inl e \<Rightarrow> Inl e | Inr _ \<Rightarrow>
      case config_reward_address c of Inl e \<Rightarrow> Inl e | Inr _ \<Rightarrow>
      let empty = ''must not be empty''; greater = ''must be greater than 0'' in
      if trim (nc_chain_id c) = [] then Inl (InvalidValue ''chain_id'' empty)
      else if trim (rt_data_dir (nc_runtime c)) = [] then Inl (InvalidValue ''runtime.data_dir'' empty)
      else if rt_slots_per_epoch (nc_runtime c) = 0 then Inl (InvalidValue ''runtime.slots_per_epoch'' greater)
      else if rt_challenge_window_blocks (nc_runtime c) = 0
      then Inl (InvalidValue ''runtime.challenge_window_blocks'' greater)
      else if co_enabled (nc_collect c) \<and> \<not> cc_collect (nc_capabilities c)
      then Inl (InvalidValue ''collect.enabled'' ''cannot be true when capabilities.collect is false'')
      else if rt_target_app_ids (nc_runtime c) = []
      then Inl (InvalidValue ''runtime.target_app_ids'' ''must contain at least one app id'')
      else if sg_quota_gb (nc_storage c) = 0 then Inl (InvalidValue ''storage.quota_gb'' greater)
      else if sg_retention_epochs (nc_storage c) = 0 then Inl (InvalidValue ''storage.retention_epochs'' greater)
      else validate_reward_config (rt_poll_interval_secs (nc_runtime c)) (nc_reward c))"

definition inline_verify_enabled :: "node_config \<Rightarrow> bool" where
  "inline_verify_enabled c = (cc_verify (nc_capabilities c) \<and> \<not> rt_low_impact_mode (nc_runtime c))"

definition inline_propose_enabled :: "node_config \<Rightarrow> bool" where
  "inline_propose_enabled c = (cc_propose (nc_capabilities c) \<and> \<not> rt_low_impact_mode (nc_runtime c))"

definition base_player_block_reward :: "reward_config \<Rightarrow> amount" where
  "base_player_block_reward r =
     (case rc_reward_source r of
        Static \<Rightarrow> rc_player_block_reward r
      | TokenomicsSource \<Rightarrow> max (base_player_reward_per_block_with_tail (rc_emission_year r) (rc_reward_block_secs r)
          (rc_tail_emission_start_year r) (rc_tail_emission_rate_bps r)) 1)"

fun reward_source_label :: "reward_source_mode \<Rightarrow> string" where
  "reward_source_label Static = ''static''"
| "reward_source_label TokenomicsSource = ''tokenomics''"

subsection \<open>What a validated configuration guarantees\<close>

text \<open>The conditions as one predicate, over natural numbers where the code adds \<open>u16\<close> shares in \<open>u32\<close>.\<close>

definition valid_reward_config :: "u64 \<Rightarrow> reward_config \<Rightarrow> bool" where
  "valid_reward_config poll r \<longleftrightarrow>
     rc_reward_block_secs r \<noteq> 0 \<and> rc_emission_year r \<noteq> 0 \<and> rc_tail_emission_start_year r \<noteq> 0
     \<and> unat (rc_tail_emission_rate_bps r) \<le> 10000
     \<and> (poll = 0 \<or> unat poll dvd unat (rc_reward_block_secs r))
     \<and> rc_player_block_reward r \<noteq> 0 \<and> rc_reward_adjustment_period_blocks r \<noteq> 0
     \<and> rc_target_network_weight_units r \<noteq> 0 \<and> unat (rc_reward_adjustment_cap_bps r) \<le> 10000
     \<and> unat (rc_collect_reward_bps r) + unat (rc_store_reward_bps r) + unat (rc_verify_reward_bps r)
       + unat (rc_propose_reward_bps r) = 10000
     \<and> (\<forall>m \<in> set (rc_game_mappings r). trim (gm_process_name m) \<noteq> [] \<and> gm_game_coefficient_ppm m \<noteq> 0)"

definition valid_config :: "node_config \<Rightarrow> bool" where
  "valid_config c \<longleftrightarrow>
     (\<exists>v. config_node_id c = Inr v) \<and> (\<exists>v. config_reward_address c = Inr v)
     \<and> trim (nc_chain_id c) \<noteq> [] \<and> trim (rt_data_dir (nc_runtime c)) \<noteq> []
     \<and> rt_slots_per_epoch (nc_runtime c) \<noteq> 0 \<and> rt_challenge_window_blocks (nc_runtime c) \<noteq> 0
     \<and> (co_enabled (nc_collect c) \<longrightarrow> cc_collect (nc_capabilities c))
     \<and> rt_target_app_ids (nc_runtime c) \<noteq> [] \<and> sg_quota_gb (nc_storage c) \<noteq> 0
     \<and> sg_retention_epochs (nc_storage c) \<noteq> 0
     \<and> valid_reward_config (rt_poll_interval_secs (nc_runtime c)) (nc_reward c)"

lemma validate_game_mappings_iff:
  "validate_game_mappings ms = Inr () \<longleftrightarrow>
     (\<forall>m \<in> set ms. trim (gm_process_name m) \<noteq> [] \<and> gm_game_coefficient_ppm m \<noteq> 0)"
  by (induction ms) auto

lemma unat_total_service_reward_bps:
  "unat (total_service_reward_bps r) = unat (rc_collect_reward_bps r) + unat (rc_store_reward_bps r)
     + unat (rc_verify_reward_bps r) + unat (rc_propose_reward_bps r)"
  using u16_small [of "rc_collect_reward_bps r"] u16_small [of "rc_store_reward_bps r"]
    u16_small [of "rc_verify_reward_bps r"] u16_small [of "rc_propose_reward_bps r"]
  by (simp add: total_service_reward_bps_def unat_add_exact)

lemma word_mod_eq_0_iff: "a mod b = 0 \<longleftrightarrow> unat b dvd unat a" for a b :: "'a::len word"
  by (simp add: word_unat_eq_iff unat_mod_distrib mod_eq_0_iff_dvd)

lemma validate_reward_config_iff:
  "validate_reward_config poll r = Inr () \<longleftrightarrow> valid_reward_config poll r"
proof -
  have [simp]: "total_service_reward_bps r = 10000 \<longleftrightarrow> unat (total_service_reward_bps r) = 10000"
    by (simp add: word_unat_eq_iff)
  show ?thesis
    by (auto simp: validate_reward_config_def valid_reward_config_def Let_def validate_game_mappings_iff
        unat_total_service_reward_bps word_mod_eq_0_iff word_le_nat_alt word_less_nat_alt not_less word_neq_0_conv unat_eq_0)
qed

lemma validate_config_iff: "validate_config c = Inr () \<longleftrightarrow> valid_config c"
  by (auto simp: validate_config_def valid_config_def Let_def validate_reward_config_iff split: sum.splits)

end
