(* ===== verification/Chain_Json.thy ===== *)
theory Chain_Json
  imports Records
begin

text \<open>
  The records in the form in which the chain hashes them (\<open>reward_record_to_chain_json\<close> and
  \<open>aggregate_record_to_chain_json\<close> of \<open>src/src/node_pipeline.rs\<close>): the fields of the chain's structs in
  their order, without the ones that are zero or empty, as \<open>skip_serializing_if\<close> has it. The JSON
  text of such a list of fields is the parameter \<open>to_vec\<close> (\<open>serde_json::to_vec\<close>).
\<close>

datatype json_value = JsonNumber nat | JsonString string

type_synonym json_fields = "(string \<times> json_value) list"
type_synonym json_writer = "json_fields \<Rightarrow> string + byte_vec"

definition number_field :: "string \<Rightarrow> 'a::len word \<Rightarrow> json_fields" where
  "number_field name v = (if v = 0 then [] else [(name, JsonNumber (unat v))])"

definition string_field :: "string \<Rightarrow> string \<Rightarrow> json_fields" where
  "string_field name v = (if v = [] then [] else [(name, JsonString v)])"

definition chain_reward_record_json :: "reward_record \<Rightarrow> string \<Rightarrow> json_fields" where
  "chain_reward_record_json r recipient =
     number_field ''epoch_id'' (rw_epoch_id r) @ string_field ''recipient'' recipient
     @ number_field ''player_reward'' (rw_player_reward r) @ number_field ''collect_reward'' (rw_collect_reward r)
     @ number_field ''store_reward'' (rw_store_reward r) @ number_field ''verify_reward'' (rw_verify_reward r)
     @ number_field ''propose_reward'' (rw_propose_reward r) @ number_field ''slash_debit'' (rw_slash_debit r)
     @ number_field ''net_reward'' (rw_net_reward r)"

definition chain_aggregate_record_json :: "aggregate_record \<Rightarrow> json_fields" where
  "chain_aggregate_record_json r =
     number_field ''epoch_id'' (ar_epoch_id r) @ number_field ''app_id'' (ar_app_id r)
     @ number_field ''total_weight_units'' (ar_gvs_microunits r)
     @ number_field ''player_count'' (ar_median_players r)"

definition reward_record_to_chain_json :: "json_writer \<Rightarrow> reward_record \<Rightarrow> string \<Rightarrow> string + byte_vec" where
  "reward_record_to_chain_json to_vec r recipient = to_vec (chain_reward_record_json r recipient)"

definition aggregate_record_to_chain_json :: "json_writer \<Rightarrow> aggregate_record \<Rightarrow> string + byte_vec" where
  "aggregate_record_to_chain_json to_vec r = to_vec (chain_aggregate_record_json r)"

subsection \<open>Leaving out zero fields loses nothing\<close>

text \<open>A field that is left out reads as zero or as the empty string.\<close>

definition read_number :: "json_fields \<Rightarrow> string \<Rightarrow> nat" where
  "read_number fs name = (case map_of fs name of Some (JsonNumber n) \<Rightarrow> n | _ \<Rightarrow> 0)"

definition read_string :: "json_fields \<Rightarrow> string \<Rightarrow> string" where
  "read_string fs name = (case map_of fs name of Some (JsonString s) \<Rightarrow> s | _ \<Rightarrow> [])"

lemma map_of_number_field:
  "map_of (number_field n v @ rest) = (if v = 0 then map_of rest else (map_of rest)(n \<mapsto> JsonNumber (unat v)))"
  by (simp add: number_field_def)

lemma map_of_string_field:
  "map_of (string_field n v @ rest) = (if v = [] then map_of rest else (map_of rest)(n \<mapsto> JsonString v))"
  by (simp add: string_field_def)

lemma read_aggregate_fields:
  "read_number (chain_aggregate_record_json r) ''epoch_id'' = unat (ar_epoch_id r)"
  "read_number (chain_aggregate_record_json r) ''app_id'' = unat (ar_app_id r)"
  "read_number (chain_aggregate_record_json r) ''total_weight_units'' = unat (ar_gvs_microunits r)"
  "read_number (chain_aggregate_record_json r) ''player_count'' = unat (ar_median_players r)"
  by (simp_all add: read_number_def chain_aggregate_record_json_def number_field_def)

lemma read_reward_fields:
  "read_number (chain_reward_record_json r recipient) ''epoch_id'' = unat (rw_epoch_id r)"
  "read_string (chain_reward_record_json r recipient) ''recipient'' = recipient"
  "read_number (chain_reward_record_json r recipient) ''player_reward'' = unat (rw_player_reward r)"
  "read_number (chain_reward_record_json r recipient) ''collect_reward'' = unat (rw_collect_reward r)"
  "read_number (chain_reward_record_json r recipient) ''store_reward'' = unat (rw_store_reward r)"
  "read_number (chain_reward_record_json r recipient) ''verify_reward'' = unat (rw_verify_reward r)"
  "read_number (chain_reward_record_json r recipient) ''propose_reward'' = unat (rw_propose_reward r)"
  "read_number (chain_reward_record_json r recipient) ''slash_debit'' = unat (rw_slash_debit r)"
  "read_number (chain_reward_record_json r recipient) ''net_reward'' = unat (rw_net_reward r)"
  unfolding read_number_def read_string_def chain_reward_record_json_def map_of_number_field map_of_string_field
  by (simp_all add: number_field_def)

lemma chain_reward_record_json_inject:
  assumes "chain_reward_record_json r recipient = chain_reward_record_json r' recipient'"
  shows "recipient = recipient'" "rw_epoch_id r = rw_epoch_id r'" "rw_net_reward r = rw_net_reward r'"
    "rw_player_reward r = rw_player_reward r'" "rw_collect_reward r = rw_collect_reward r'"
    "rw_store_reward r = rw_store_reward r'" "rw_verify_reward r = rw_verify_reward r'"
    "rw_propose_reward r = rw_propose_reward r'" "rw_slash_debit r = rw_slash_debit r'"
  using read_reward_fields [of r recipient] read_reward_fields [of r' recipient']
  unfolding assms by (simp_all add: word_unat_eq_iff)

lemma chain_aggregate_record_json_inject:
  assumes "chain_aggregate_record_json r = chain_aggregate_record_json r'"
  shows "ar_epoch_id r = ar_epoch_id r'" "ar_app_id r = ar_app_id r'"
    "ar_gvs_microunits r = ar_gvs_microunits r'" "ar_median_players r = ar_median_players r'"
  using read_aggregate_fields [of r] read_aggregate_fields [of r']
  unfolding assms by (simp_all add: word_unat_eq_iff)

end
