(* ===== verification/Aggregator.thy ===== *)
theory Aggregator
  imports Pipeline Gvs Chain_Json Node_Config "HOL-Library.Multiset"
begin

text \<open>
  Aggregation of an epoch (\<open>src/src/node_aggregator.rs\<close>): the observations of all batches are
  grouped by slot and app, each collector keeps one observation per group, the two extreme ones
  are dropped from groups of five or more, and the rest yields one aggregate record.

  What \<open>compute_local_epoch_aggregation\<close> reads from the disk is an argument: the batches that
  \<open>load_batches_for_epoch\<close> returned and, in the environment, the parameters that
  \<open>latest_activated_protocol_params\<close> found. The environment also holds \<open>sha256\<close>, Borsh on batch
  commits and the JSON writer. Saving the artifact is not modelled.
\<close>

record aggregation_env =
  ae_sha256 :: "byte_vec \<Rightarrow> bytes32"
  ae_encode_batch_commit :: "batch_commit \<Rightarrow> string + byte_vec"
  ae_json :: json_writer
  ae_activated :: "protocol_params option"

subsection \<open>Types\<close>

record epoch_aggregation_group =
  eg_slot_id :: slot_id
  eg_app_id :: app_id
  eg_total_observations :: u32
  eg_unique_collectors :: u32
  eg_trimmed_observations :: u32
  eg_accepted_observations :: "observation_record list"
  eg_aggregate :: aggregate_record

record epoch_aggregate_entry =
  ee_slot_id :: slot_id
  ee_app_id :: app_id
  ee_total_observations :: u32
  ee_unique_collectors :: u32
  ee_trimmed_observations :: u32
  ee_aggregate :: aggregate_record

record epoch_aggregation_artifact =
  ea_epoch_id :: epoch_id
  ea_aggregate_count :: nat
  ea_total_observation_count :: u32
  ea_deduped_observation_count :: u32
  ea_accepted_observation_count :: u32
  ea_aggregate_root_hex :: string
  ea_records :: "epoch_aggregate_entry list"

record epoch_aggregation_computation =
  ec_artifact :: epoch_aggregation_artifact
  ec_groups :: "epoch_aggregation_group list"

datatype node_aggregation_error =
    AggregationUpstream string
  | AggregationIo string
  | AggregationJson string
  | AggregationBorsh string

record aggregate_input =
  ai_observation :: observation_record
  ai_batch_commit_hash :: hash32

type_synonym group_key = "slot_id \<times> app_id"
type_synonym input_groups = "(group_key, aggregate_input list) btree_map"

subsection \<open>One observation per collector\<close>

definition candidate_rank :: "aggregate_input \<Rightarrow> u64 \<times> u64 \<times> hash32 \<times> hash32 \<times> byte_vec" where
  "candidate_rank i =
     (obs_observed_at_millis (ai_observation i), obs_observed_players (ai_observation i),
      obs_raw_body_hash (ai_observation i), ai_batch_commit_hash i, obs_collector_signature (ai_observation i))"

definition prefers_candidate :: "aggregate_input \<Rightarrow> aggregate_input \<Rightarrow> bool" where
  "prefers_candidate candidate current = (candidate_rank candidate < candidate_rank current)"

abbreviation collector_of :: "aggregate_input \<Rightarrow> node_id" where
  "collector_of i \<equiv> obs_collector_id (ai_observation i)"

abbreviation players_of :: "aggregate_input \<Rightarrow> u64" where
  "players_of i \<equiv> obs_observed_players (ai_observation i)"

definition select_input ::
  "(node_id, aggregate_input) btree_map \<Rightarrow> aggregate_input \<Rightarrow> (node_id, aggregate_input) btree_map" where
  "select_input selected i =
     (case bt_get selected (collector_of i) of
        Some existing \<Rightarrow> if \<not> prefers_candidate i existing then selected else bt_insert (collector_of i) i selected
      | None \<Rightarrow> bt_insert (collector_of i) i selected)"

definition deduplicate_by_collector :: "aggregate_input list \<Rightarrow> aggregate_input list" where
  "deduplicate_by_collector inputs = bt_values (foldl select_input bt_empty inputs)"

subsection \<open>Trimming, roots, medians\<close>

definition trimmed_rank :: "aggregate_input \<Rightarrow> u64 \<times> node_id \<times> u64 \<times> hash32 \<times> hash32" where
  "trimmed_rank i =
     (obs_observed_players (ai_observation i), obs_collector_id (ai_observation i),
      obs_observed_at_millis (ai_observation i), obs_raw_body_hash (ai_observation i), ai_batch_commit_hash i)"

definition trim_extreme_observations :: "aggregate_input list \<Rightarrow> aggregate_input list" where
  "trim_extreme_observations inputs =
     (if length inputs < 5 then inputs
      else let sorted = sort_key trimmed_rank inputs in drop 1 (take (length sorted - 1) sorted))"

definition aggregate_source_batch_root :: "(byte_vec \<Rightarrow> bytes32) \<Rightarrow> aggregate_input list \<Rightarrow> hash32" where
  "aggregate_source_batch_root sha256 inputs =
     (let leaves = bt_keys (foldl (\<lambda>s i. bs_insert (ai_batch_commit_hash i) s) bt_empty inputs)
      in merkle_root sha256 leaves)"

definition dominant_source_kind :: "observation_record list \<Rightarrow> activity_source_kind" where
  "dominant_source_kind observations =
     (let counts = foldl (\<lambda>m obs. bt_insert (obs_source_kind obs)
            ((case bt_get m (obs_source_kind obs) of None \<Rightarrow> 0 | Some n \<Rightarrow> n) + 1) m) bt_empty observations
      in case max_by_key (\<lambda>(kind, n :: nat). (n, kind)) (bt_entries counts) of
           None \<Rightarrow> Steam
         | Some (kind, _) \<Rightarrow> kind)"

definition average_source_confidence_ppm :: "observation_record list \<Rightarrow> u32" where
  "average_source_confidence_ppm observations =
     (if observations = [] then 1000000
      else let total = (\<Sum>obs\<leftarrow>observations. (ucast (obs_source_confidence_ppm obs) :: u64))
           in ucast (total div word_of_nat (length observations)))"

definition median_players :: "aggregate_input list \<Rightarrow> u64" where
  "median_players inputs =
     (if inputs = [] then 0
      else
        let players = sort (map (\<lambda>i. obs_observed_players (ai_observation i)) inputs);
            middle = length players div 2
        in if length players mod 2 = 1 then players ! middle
           else saturating_add (players ! (middle - 1)) (players ! middle) div 2)"

subsection \<open>The epoch\<close>

definition hash_batch_commit :: "aggregation_env \<Rightarrow> batch_commit \<Rightarrow> node_aggregation_error + hash32" where
  "hash_batch_commit env b =
     map_sum AggregationBorsh (merkle_leaf_sha256 (ae_sha256 env)) (ae_encode_batch_commit env b)"

definition aggregate_record_root ::
  "aggregation_env \<Rightarrow> aggregate_record list \<Rightarrow> node_aggregation_error + hash32" where
  "aggregate_record_root env records =
     (let sorted = sort_key (\<lambda>r. (ar_epoch_id r, ar_app_id r)) records;
          leaf_hashes = map (\<lambda>r. map_sum AggregationJson (merkle_leaf_sha256 (ae_sha256 env))
            (aggregate_record_to_chain_json (ae_json env) r)) sorted
      in map_sum id (merkle_root (ae_sha256 env)) (collect_results leaf_hashes))"

definition push_input :: "group_key \<Rightarrow> aggregate_input \<Rightarrow> input_groups \<Rightarrow> input_groups" where
  "push_input key i groups =
     bt_insert key ((case bt_get groups key of None \<Rightarrow> [] | Some inputs \<Rightarrow> inputs) @ [i]) groups"

text \<open>The two nested loops over the batches and their observations.\<close>

fun group_observations ::
  "epoch_id \<Rightarrow> hash32 \<Rightarrow> observation_record list \<Rightarrow> u32 \<times> input_groups \<Rightarrow> u32 \<times> input_groups" where
  "group_observations epoch h [] acc = acc"
| "group_observations epoch h (obs # rest) (seen, groups) =
     (if obs_epoch_id obs \<noteq> epoch then group_observations epoch h rest (seen, groups)
      else group_observations epoch h rest
        (saturating_add seen 1,
         push_input (obs_slot_id obs, obs_app_id obs)
           \<lparr>ai_observation = obs, ai_batch_commit_hash = h\<rparr> groups))"

fun group_batches ::
  "aggregation_env \<Rightarrow> epoch_id \<Rightarrow> assembled_batch list \<Rightarrow> u32 \<times> input_groups
    \<Rightarrow> node_aggregation_error + (u32 \<times> input_groups)" where
  "group_batches env epoch [] acc = Inr acc"
| "group_batches env epoch (b # bs) acc =
     (case hash_batch_commit env (ab_batch_commit b) of
        Inl e \<Rightarrow> Inl e
      | Inr h \<Rightarrow> group_batches env epoch bs (group_observations epoch h (ab_observations b) acc))"

definition aggregate_group ::
  "aggregation_env \<Rightarrow> node_config \<Rightarrow> epoch_id \<Rightarrow> group_key \<Rightarrow> aggregate_input list \<Rightarrow> epoch_aggregation_group" where
  "aggregate_group env config epoch key inputs =
     (let (slot, app) = key;
          deduped = deduplicate_by_collector inputs;
          unique_collectors = (word_of_nat (length deduped) :: u32);
          accepted = trim_extreme_observations deduped;
          accepted_count = (word_of_nat (length accepted) :: u32);
          median = median_players accepted;
          accepted_observations = map ai_observation accepted;
          gvs = compute_gvs_factors (ae_activated env) (rt_slots_per_epoch (nc_runtime config)) slot
            unique_collectors median
      in \<lparr>eg_slot_id = slot, eg_app_id = app, eg_total_observations = word_of_nat (length inputs),
          eg_unique_collectors = unique_collectors,
          eg_trimmed_observations = saturating_sub unique_collectors accepted_count,
          eg_accepted_observations = accepted_observations,
          eg_aggregate = \<lparr>ar_epoch_id = epoch, ar_slot_id = slot, ar_app_id = app, ar_gvs_tier = gf_tier gvs,
            ar_primary_source_kind = dominant_source_kind accepted_observations,
            ar_source_confidence_ppm = average_source_confidence_ppm accepted_observations,
            ar_accepted_observations = accepted_count, ar_median_players = median,
            ar_base_glv_microunits = gf_base_glv_microunits gvs, ar_tier_weight_ppm = gf_tier_weight_ppm gvs,
            ar_time_decay_ppm = gf_time_decay_ppm gvs, ar_coverage_bonus_ppm = gf_coverage_bonus_ppm gvs,
            ar_gvs_microunits = gf_gvs_microunits gvs,
            ar_source_batch_root = aggregate_source_batch_root (ae_sha256 env) accepted\<rparr>\<rparr>)"

definition entry_of_group :: "epoch_aggregation_group \<Rightarrow> epoch_aggregate_entry" where
  "entry_of_group g =
     \<lparr>ee_slot_id = eg_slot_id g, ee_app_id = eg_app_id g, ee_total_observations = eg_total_observations g,
      ee_unique_collectors = eg_unique_collectors g, ee_trimmed_observations = eg_trimmed_observations g,
      ee_aggregate = eg_aggregate g\<rparr>"

definition compute_local_epoch_aggregation ::
  "aggregation_env \<Rightarrow> node_config \<Rightarrow> epoch_id \<Rightarrow> assembled_batch list
    \<Rightarrow> node_aggregation_error + epoch_aggregation_computation" where
  "compute_local_epoch_aggregation env config epoch loaded =
     (case group_batches env epoch loaded (0, bt_empty) of
        Inl e \<Rightarrow> Inl e
      | Inr (total_observation_count, groups) \<Rightarrow>
          let group_results = map (\<lambda>(key, inputs). aggregate_group env config epoch key inputs) (bt_entries groups);
              deduped_observation_count = foldl (\<lambda>n g. saturating_add n (eg_unique_collectors g)) 0 group_results;
              accepted_observation_count =
                foldl (\<lambda>n g. saturating_add n (ar_accepted_observations (eg_aggregate g))) 0 group_results
          in (case aggregate_record_root env (map eg_aggregate group_results) of
                Inl e \<Rightarrow> Inl e
              | Inr aggregate_root \<Rightarrow>
                  Inr \<lparr>ec_artifact =
                    \<lparr>ea_epoch_id = epoch, ea_aggregate_count = length group_results,
                     ea_total_observation_count = total_observation_count,
                     ea_deduped_observation_count = deduped_observation_count,
                     ea_accepted_observation_count = accepted_observation_count,
                     ea_aggregate_root_hex = hex_32 aggregate_root,
                     ea_records = map entry_of_group group_results\<rparr>,
                   ec_groups = group_results\<rparr>))"

subsection \<open>Deduplication\<close>

lemma select_inputs_spec:
  "case bt_get (foldl select_input bt_empty inputs) c of
     None \<Rightarrow> \<forall>i \<in> set inputs. collector_of i \<noteq> c
   | Some i \<Rightarrow> i \<in> set inputs \<and> collector_of i = c
       \<and> (\<forall>j \<in> set inputs. collector_of j = c \<longrightarrow> candidate_rank i \<le> candidate_rank j)"
proof (induction inputs rule: rev_induct)
  case (snoc x xs)
  then show ?case
    by (cases "collector_of x = c")
      (auto simp: select_input_def prefers_candidate_def not_less split: option.splits intro: order.trans less_imp_le)
qed simp

lemma deduplicate_by_collector_spec:
  shows "set (deduplicate_by_collector inputs) \<subseteq> set inputs"
    and "collector_of ` set (deduplicate_by_collector inputs) = collector_of ` set inputs"
    and "i \<in> set (deduplicate_by_collector inputs) \<Longrightarrow> j \<in> set inputs \<Longrightarrow> collector_of j = collector_of i
      \<Longrightarrow> candidate_rank i \<le> candidate_rank j"
    and "sorted_wrt (<) (map collector_of (deduplicate_by_collector inputs))"
proof -
  let ?m = "foldl select_input bt_empty inputs"
  note spec = select_inputs_spec [of inputs]
  have mem: "i \<in> set (deduplicate_by_collector inputs) \<longleftrightarrow> bt_get ?m (collector_of i) = Some i" for i
    using spec by (fastforce simp: deduplicate_by_collector_def bt_values_set split: option.splits)
  show sub: "set (deduplicate_by_collector inputs) \<subseteq> set inputs"
    using spec by (fastforce simp: mem split: option.splits)
  have "\<exists>i \<in> set (deduplicate_by_collector inputs). collector_of i = collector_of j" if "j \<in> set inputs" for j
    using spec [of "collector_of j"] that by (auto simp: mem split: option.splits)
  with sub show "collector_of ` set (deduplicate_by_collector inputs) = collector_of ` set inputs"
    by (auto simp: image_iff) metis
  show "i \<in> set (deduplicate_by_collector inputs) \<Longrightarrow> j \<in> set inputs \<Longrightarrow> collector_of j = collector_of i
      \<Longrightarrow> candidate_rank i \<le> candidate_rank j"
    using spec [of "collector_of i"] by (auto simp: mem)
  have "map collector_of (bt_values ?m) = map fst (bt_entries ?m)"
    using spec by (force simp: bt_values_def simp flip: bt.ents_iff split: option.splits)
  then show "sorted_wrt (<) (map collector_of (deduplicate_by_collector inputs))"
    using bt.sorted_ents [of ?m] by (simp add: deduplicate_by_collector_def)
qed

text \<open>The selection does not depend on the order of the inputs, unless ranks tie.\<close>

lemma deduplicate_order_independent:
  assumes "mset xs = mset ys"
    and "\<forall>i \<in> set xs. \<forall>j \<in> set xs. collector_of i = collector_of j \<longrightarrow> candidate_rank i = candidate_rank j \<longrightarrow> i = j"
  shows "deduplicate_by_collector xs = deduplicate_by_collector ys"
proof -
  have set_eq: "set xs = set ys" using assms(1) by (metis set_mset_mset)
  have "bt_get (foldl select_input bt_empty xs) c = bt_get (foldl select_input bt_empty ys) c" for c
  proof -
    have same: "i = j" if "i \<in> set ys" "j \<in> set ys" "collector_of i = c" "collector_of j = c"
      "candidate_rank i \<le> candidate_rank j" "candidate_rank j \<le> candidate_rank i" for i j
      using assms(2) that order.antisym [OF that(5,6)] by (simp add: set_eq)
    show ?thesis
      using select_inputs_spec [of xs c] select_inputs_spec [of ys c] unfolding set_eq
      by (auto split: option.splits intro!: same)
  qed
  then have "foldl select_input bt_empty xs = foldl select_input bt_empty ys"
    by (intro bt.ents_ext ext)
  then show ?thesis by (simp add: deduplicate_by_collector_def)
qed

subsection \<open>Trimming and the median\<close>

lemma sorted_players: "sorted (map players_of (sort_key trimmed_rank xs))"
  using sorted_map_fst [OF sorted_sort_key [of trimmed_rank xs]] by (simp add: trimmed_rank_def)

lemma sort_players: "sort (map players_of xs) = map players_of (sort_key trimmed_rank xs)"
  by (rule properties_for_sort) (simp_all add: sorted_players)

definition middle_value :: "u64 list \<Rightarrow> u64" where
  "middle_value ps = (let middle = length ps div 2 in
     if length ps mod 2 = 1 then ps ! middle else saturating_add (ps ! (middle - 1)) (ps ! middle) div 2)"

lemma median_players_eq:
  "xs \<noteq> [] \<Longrightarrow> median_players xs = middle_value (map players_of (sort_key trimmed_rank xs))"
  by (simp add: median_players_def middle_value_def sort_players Let_def)

lemma inner_length: "length (drop 1 (take (length ps - 1) ps)) = length ps - 2"
  by simp

lemma middle_value_inner: "3 \<le> length ps \<Longrightarrow> middle_value (drop 1 (take (length ps - 1) ps)) = middle_value ps"
proof -
  assume "3 \<le> length ps"
  define m where "m = length ps - 2"
  then have n: "length ps = Suc (Suc m)" "0 < m" using \<open>3 \<le> length ps\<close> by linarith+
  have inner: "drop 1 (take (length ps - 1) ps) ! j = ps ! Suc j" if "j < m" for j
    using that n by simp
  have k: "m div 2 < m" "m mod 2 \<noteq> 1 \<Longrightarrow> Suc (m div 2 - 1) = m div 2" using n(2) by presburger+
  show ?thesis
    using k n inner [of "m div 2"] inner [of "m div 2 - 1"]
    by (cases "m mod 2 = 1") (simp_all add: middle_value_def Let_def)
qed

lemma median_unaffected_by_trimming: "median_players (trim_extreme_observations xs) = median_players xs"
proof (cases "length xs < 5")
  case False
  let ?s = "sort_key trimmed_rank xs"
  let ?t = "drop 1 (take (length ?s - 1) ?s)"
  have t: "trim_extreme_observations xs = ?t" using False by (simp add: trim_extreme_observations_def Let_def)
  have "sorted (map trimmed_rank ?t)" by (simp add: sorted_wrt_drop sorted_wrt_take drop_map [symmetric] take_map [symmetric])
  then have "sort_key trimmed_rank ?t = ?t" by (rule sort_key_id_if_sorted)
  moreover have "?t \<noteq> []" "xs \<noteq> []" using False by auto
  ultimately show ?thesis
    using False middle_value_inner [of "map players_of ?s"]
    by (simp add: t median_players_eq drop_map take_map)
qed (simp add: trim_extreme_observations_def)

text \<open>
  With fewer than half of the values outside an interval, the middle of the sorted list lies in
  it.
\<close>

lemma sorted_below:
  fixes ps :: "'a::linorder list"
  assumes "sorted ps" "k < length ps"
  shows "ps ! k < a \<Longrightarrow> Suc k \<le> length (filter (\<lambda>x. x < a) ps)"
    and "b < ps ! k \<Longrightarrow> length ps - k \<le> length (filter (\<lambda>x. b < x) ps)"
proof -
  have sub: "card I \<le> length (filter P ps)" if "\<forall>i \<in> I. i < length ps \<and> P (ps ! i)" for P and I :: "nat set"
    using that by (auto simp: length_filter_conv_card intro!: card_mono)
  show "ps ! k < a \<Longrightarrow> Suc k \<le> length (filter (\<lambda>x. x < a) ps)"
    using sub [of "{..k}" "\<lambda>x. x < a"] assms by (force dest: sorted_nth_mono simp: le_less_trans)
  show "b < ps ! k \<Longrightarrow> length ps - k \<le> length (filter (\<lambda>x. b < x) ps)"
    using sub [of "{k..<length ps}" "\<lambda>x. b < x"] assms by (force dest: sorted_nth_mono simp: less_le_trans)
qed

lemma sorted_middle:
  fixes ps :: "'a::linorder list"
  assumes "sorted ps" "k < length ps" "length ps \<le> 2 * Suc k" "2 * k \<le> length ps"
    and "2 * length (filter (\<lambda>x. \<not> (a \<le> x \<and> x \<le> b)) ps) < length ps"
  shows "a \<le> ps ! k" "ps ! k \<le> b"
proof -
  have le: "length (filter P ps) \<le> length (filter Q ps)" if "\<And>x. P x \<Longrightarrow> Q x" for P Q :: "'a \<Rightarrow> bool"
    using that by (induction ps) auto
  let ?out = "\<lambda>x. \<not> (a \<le> x \<and> x \<le> b)"
  have "length (filter (\<lambda>x. x < a) ps) \<le> length (filter ?out ps)"
    and "length (filter (\<lambda>x. b < x) ps) \<le> length (filter ?out ps)" by (rule le, auto)+
  note bounds = this assms(2-5)
  have "\<not> ps ! k < a"
    using sorted_below(1) [OF assms(1,2), of a] bounds by (metis (no_types) leD le_trans mult_le_mono2)
  moreover have "\<not> b < ps ! k"
  proof
    assume "b < ps ! k"
    from sorted_below(2) [OF assms(1,2) this] bounds show False by linarith
  qed
  ultimately show "a \<le> ps ! k" "ps ! k \<le> b" by simp_all
qed

lemma nat_average: "a \<le> x \<Longrightarrow> x \<le> b \<Longrightarrow> a \<le> y \<Longrightarrow> y \<le> b \<Longrightarrow> a \<le> (x + y) div 2 \<and> (x + y) div 2 \<le> b"
  for a b x y :: nat
  using div_le_mono [of "2 * a" "x + y" 2] div_le_mono [of "x + y" "2 * b" 2] by simp

lemma average_between:
  fixes x y :: u64
  assumes "a \<le> x" "x \<le> b" "a \<le> y" "y \<le> b" "b < 2 ^ 63"
  shows "a \<le> saturating_add x y div 2 \<and> saturating_add x y div 2 \<le> b"
proof -
  have "unat b < 2 ^ 63" using assms(5) by (simp add: word_less_nat_alt)
  then have "unat (saturating_add x y div 2) = (unat x + unat y) div 2"
    using assms(2,4) by (simp add: unat_div_distrib unat_saturating_add word_le_nat_alt)
  with assms(1-4) nat_average [of "unat a" "unat x" "unat b" "unat y"] show ?thesis
    by (simp add: word_le_nat_alt)
qed

lemma middle_value_majority:
  assumes "sorted ps" "2 * length (filter (\<lambda>x. \<not> (a \<le> x \<and> x \<le> b)) ps) < length ps" "b < 2 ^ 63"
  shows "a \<le> middle_value ps \<and> middle_value ps \<le> b"
proof -
  have "0 < length ps" using assms(2) by linarith
  then have pos: "length ps div 2 < length ps" "length ps div 2 - 1 < length ps" by (simp_all add: less_imp_diff_less)
  note mid = sorted_middle [OF assms(1) _ _ _ assms(2)]
  have "a \<le> ps ! (length ps div 2)" "ps ! (length ps div 2) \<le> b"
    using pos by (auto intro!: mid)
  moreover have "a \<le> ps ! (length ps div 2 - 1)" "ps ! (length ps div 2 - 1) \<le> b" if "length ps mod 2 \<noteq> 1"
    using pos that by (auto intro!: mid)
  ultimately show ?thesis
    using average_between [OF _ _ _ _ assms(3), of a "ps ! (length ps div 2 - 1)" "ps ! (length ps div 2)"]
    by (auto simp: middle_value_def Let_def)
qed

lemma honest_majority_median:
  assumes "2 * length (filter (\<lambda>i. \<not> (a \<le> players_of i \<and> players_of i \<le> b)) xs) < length xs" "b < 2 ^ 63"
  shows "a \<le> median_players (trim_extreme_observations xs) \<and> median_players (trim_extreme_observations xs) \<le> b"
proof -
  let ?ps = "map players_of (sort_key trimmed_rank xs)"
  have "mset (sort_key trimmed_rank xs) = mset xs" by simp
  then have "length (filter P (sort_key trimmed_rank xs)) = length (filter P xs)" for P
    by (metis mset_filter size_mset)
  with assms have "2 * length (filter (\<lambda>x. \<not> (a \<le> x \<and> x \<le> b)) ?ps) < length ?ps"
    by (simp add: filter_map comp_def)
  from middle_value_majority [OF sorted_players this assms(2)] assms(1) show ?thesis
    by (subst (1 2) median_unaffected_by_trimming, subst (1 2) median_players_eq) auto
qed

subsection \<open>The groups of an epoch\<close>

text \<open>
  All observations of the epoch in the order in which they are read, each with the hash of the
  commit it came with, and the ones of one slot and app.
\<close>

definition input_key :: "aggregate_input \<Rightarrow> group_key" where
  "input_key i = (obs_slot_id (ai_observation i), obs_app_id (ai_observation i))"

definition commit_hash :: "aggregation_env \<Rightarrow> assembled_batch \<Rightarrow> hash32" where
  "commit_hash env b = (case hash_batch_commit env (ab_batch_commit b) of Inl _ \<Rightarrow> 0 | Inr h \<Rightarrow> h)"

definition batch_inputs :: "epoch_id \<Rightarrow> hash32 \<Rightarrow> observation_record list \<Rightarrow> aggregate_input list" where
  "batch_inputs epoch h obs =
     map (\<lambda>ob. \<lparr>ai_observation = ob, ai_batch_commit_hash = h\<rparr>) (filter (\<lambda>ob. obs_epoch_id ob = epoch) obs)"

definition epoch_inputs :: "aggregation_env \<Rightarrow> epoch_id \<Rightarrow> assembled_batch list \<Rightarrow> aggregate_input list" where
  "epoch_inputs env epoch loaded =
     concat (map (\<lambda>b. batch_inputs epoch (commit_hash env b) (ab_observations b)) loaded)"

definition group_of :: "group_key \<Rightarrow> aggregate_input list \<Rightarrow> aggregate_input list" where
  "group_of key inputs = filter (\<lambda>i. input_key i = key) inputs"

definition add_input :: "u32 \<times> input_groups \<Rightarrow> aggregate_input \<Rightarrow> u32 \<times> input_groups" where
  "add_input acc i = (saturating_add (fst acc) 1, push_input (input_key i) i (snd acc))"

lemma group_observations_eq:
  "group_observations epoch h obs acc = foldl add_input acc (batch_inputs epoch h obs)"
  by (induction epoch h obs acc rule: group_observations.induct)
    (simp_all add: batch_inputs_def add_input_def input_key_def)

lemma group_batches_eq:
  "group_batches env epoch loaded acc = Inr r \<longleftrightarrow>
     (\<forall>b \<in> set loaded. \<exists>h. hash_batch_commit env (ab_batch_commit b) = Inr h)
     \<and> r = foldl add_input acc (epoch_inputs env epoch loaded)"
proof (induction loaded arbitrary: acc)
  case (Cons b bs)
  then show ?case
    by (cases "hash_batch_commit env (ab_batch_commit b)")
      (auto simp: epoch_inputs_def commit_hash_def group_observations_eq)
qed (auto simp: epoch_inputs_def)

lemma fst_add_inputs: "unat (fst (foldl add_input acc inputs)) = min (unat (fst acc) + length inputs) (2 ^ 32 - 1)"
proof (induction inputs arbitrary: acc)
  case Nil
  then show ?case using unat_bound [of "fst acc"] by simp
qed (simp add: add_input_def unat_saturating_add)

lemma get_add_inputs:
  "bt_get (snd (foldl add_input (n, bt_empty) inputs)) key = (if group_of key inputs = [] then None else Some (group_of key inputs))"
  by (induction inputs rule: rev_induct) (auto simp: add_input_def push_input_def group_of_def)

definition group_keys :: "aggregate_input list \<Rightarrow> group_key list" where
  "group_keys inputs = sorted_list_of_set (input_key ` set inputs)"

lemma entries_add_inputs:
  "bt_entries (snd (foldl add_input (n, bt_empty) inputs)) = map (\<lambda>key. (key, group_of key inputs)) (group_keys inputs)"
proof -
  let ?m = "snd (foldl add_input (n, bt_empty) inputs)"
  have "key \<in> set (bt_keys ?m) \<longleftrightarrow> key \<in> input_key ` set inputs" for key
    unfolding bt_keys_set by (auto simp: get_add_inputs group_of_def filter_empty_conv)
  then have set_keys: "set (map fst (bt_entries ?m)) = input_key ` set inputs"
    by (simp add: bt_keys_def set_eq_iff)
  have keys: "map fst (bt_entries ?m) = group_keys inputs"
    unfolding group_keys_def set_keys [symmetric] using bt.sorted_ents [of ?m]
    by (intro sorted_distinct_set_unique) (simp_all add: strict_sorted_iff)
  have "snd e = group_of (fst e) inputs" if "e \<in> set (bt_entries ?m)" for e
    using that bt.ents_iff [of "fst e" "snd e" ?m] by (auto simp: get_add_inputs split: if_splits)
  then have "bt_entries ?m = map (\<lambda>e. (fst e, group_of (fst e) inputs)) (bt_entries ?m)"
    by (intro map_idI [symmetric]) (simp add: prod_eq_iff)
  also have "\<dots> = map (\<lambda>key. (key, group_of key inputs)) (map fst (bt_entries ?m))" by simp
  finally show ?thesis unfolding keys .
qed

lemma compute_local_epoch_aggregation_Inr:
  assumes "compute_local_epoch_aggregation env config epoch loaded = Inr result"
  defines "inputs \<equiv> epoch_inputs env epoch loaded"
  shows "ec_groups result = map (\<lambda>key. aggregate_group env config epoch key (group_of key inputs)) (group_keys inputs)"
    and "unat (ea_total_observation_count (ec_artifact result)) = min (length inputs) (2 ^ 32 - 1)"
    and "map_sum id hex_32 (aggregate_record_root env (map eg_aggregate (ec_groups result))) =
      Inr (ea_aggregate_root_hex (ec_artifact result))"
    and "ea_records (ec_artifact result) = map entry_of_group (ec_groups result)"
    and "ea_aggregate_count (ec_artifact result) = length (ec_groups result)"
proof -
  let ?r = "foldl add_input (0, bt_empty) inputs"
  have r: "group_batches env epoch loaded (0, bt_empty) = Inr ?r"
    using assms(1) group_batches_eq [of env epoch loaded "(0, bt_empty)"]
    by (auto simp: compute_local_epoch_aggregation_def inputs_def split: sum.splits)
  have groups: "map (\<lambda>(key, xs). aggregate_group env config epoch key xs) (bt_entries (snd ?r))
      = map (\<lambda>key. aggregate_group env config epoch key (group_of key inputs)) (group_keys inputs)"
    by (simp add: entries_add_inputs)
  from assms(1) obtain root where
    root: "aggregate_record_root env (map eg_aggregate (map (\<lambda>key. aggregate_group env config epoch key (group_of key inputs)) (group_keys inputs))) = Inr root"
    and parts: "ec_groups result = map (\<lambda>key. aggregate_group env config epoch key (group_of key inputs)) (group_keys inputs)"
      "ea_total_observation_count (ec_artifact result) = fst ?r" "ea_aggregate_root_hex (ec_artifact result) = hex_32 root"
      "ea_records (ec_artifact result) = map entry_of_group (ec_groups result)"
      "ea_aggregate_count (ec_artifact result) = length (ec_groups result)"
    unfolding compute_local_epoch_aggregation_def r groups [symmetric]
    by (auto simp: Let_def case_prod_unfold split: sum.splits)
  show "ec_groups result = map (\<lambda>key. aggregate_group env config epoch key (group_of key inputs)) (group_keys inputs)"
    by (rule parts)
  show "unat (ea_total_observation_count (ec_artifact result)) = min (length inputs) (2 ^ 32 - 1)"
    using fst_add_inputs [of "(0, bt_empty)" inputs] by (simp add: parts(2))
  show "map_sum id hex_32 (aggregate_record_root env (map eg_aggregate (ec_groups result))) =
      Inr (ea_aggregate_root_hex (ec_artifact result))"
    using root by (simp add: parts(1,3))
  show "ea_records (ec_artifact result) = map entry_of_group (ec_groups result)"
    and "ea_aggregate_count (ec_artifact result) = length (ec_groups result)"
    by (rule parts)+
qed

text \<open>Every observation of the epoch is counted in exactly one group.\<close>

lemma sum_filter_by_key:
  "finite K \<Longrightarrow> f ` set xs \<subseteq> K \<Longrightarrow> (\<Sum>key\<in>K. length (filter (\<lambda>x. f x = key) xs)) = length xs"
proof (induction xs)
  case (Cons x xs)
  have "(\<Sum>key\<in>K. length (filter (\<lambda>x. f x = key) (x # xs)))
      = (\<Sum>key\<in>K. (if f x = key then 1 else 0) + length (filter (\<lambda>x. f x = key) xs))"
    by (intro sum.cong) auto
  also have "\<dots> = length (x # xs)"
    using Cons by (simp add: sum.distrib sum.delta)
  finally show ?case .
qed simp

lemma sum_group_lengths: "(\<Sum>key\<leftarrow>group_keys inputs. length (group_of key inputs)) = length inputs"
  by (simp add: group_keys_def group_of_def sum_list_distinct_conv_sum_set sum_filter_by_key)

text \<open>The aggregation does not depend on the order in which the batches were read.\<close>

lemma mset_epoch_inputs:
  assumes "mset loaded = mset loaded'"
  shows "mset (epoch_inputs env epoch loaded) = mset (epoch_inputs env epoch loaded')"
proof -
  have "sum_list (map f bs) = sum_mset (image_mset f (mset bs))" for f :: "assembled_batch \<Rightarrow> aggregate_input multiset" and bs
    by (metis mset_map sum_mset_sum_list)
  then show ?thesis by (simp add: epoch_inputs_def mset_concat assms)
qed

lemma aggregate_group_cong:
  assumes "mset xs = mset ys"
    and "\<forall>i \<in> set xs. \<forall>j \<in> set xs. collector_of i = collector_of j \<longrightarrow> candidate_rank i = candidate_rank j \<longrightarrow> i = j"
  shows "aggregate_group env config epoch key xs = aggregate_group env config epoch key ys"
  using deduplicate_order_independent [OF assms] mset_eq_length [OF assms(1)]
  by (simp add: aggregate_group_def)

lemma aggregation_order_independent:
  assumes "mset loaded = mset loaded'"
    and "\<forall>i \<in> set (epoch_inputs env epoch loaded). \<forall>j \<in> set (epoch_inputs env epoch loaded).
      collector_of i = collector_of j \<longrightarrow> candidate_rank i = candidate_rank j \<longrightarrow> i = j"
    and "compute_local_epoch_aggregation env config epoch loaded = Inr result"
  shows "compute_local_epoch_aggregation env config epoch loaded' = Inr result"
proof -
  let ?is = "epoch_inputs env epoch loaded" and ?is' = "epoch_inputs env epoch loaded'"
  have inputs: "mset ?is = mset ?is'" by (rule mset_epoch_inputs [OF assms(1)])
  then have set_eq: "set ?is = set ?is'" by (metis set_mset_mset)
  have keys: "group_keys ?is = group_keys ?is'" by (simp add: group_keys_def set_eq)
  have "aggregate_group env config epoch key (group_of key ?is) = aggregate_group env config epoch key (group_of key ?is')" for key
    by (rule aggregate_group_cong) (use inputs assms(2) in \<open>auto simp: group_of_def mset_filter\<close>)
  then have groups: "map (\<lambda>p. aggregate_group env config epoch (fst p) (snd p)) (bt_entries (snd (foldl add_input (0, bt_empty) ?is)))
      = map (\<lambda>p. aggregate_group env config epoch (fst p) (snd p)) (bt_entries (snd (foldl add_input (0, bt_empty) ?is')))"
    by (simp add: entries_add_inputs keys)
  have count: "fst (foldl add_input (0, bt_empty) ?is) = fst (foldl add_input (0, bt_empty) ?is')"
    using mset_eq_length [OF inputs] by (simp add: word_unat_eq_iff fst_add_inputs)
  have ok: "\<forall>b \<in> set loaded. \<exists>h. hash_batch_commit env (ab_batch_commit b) = Inr h"
    using assms(3) group_batches_eq [of env epoch loaded "(0, bt_empty)"]
    by (auto simp: compute_local_epoch_aggregation_def split: sum.splits)
  moreover from ok have "\<forall>b \<in> set loaded'. \<exists>h. hash_batch_commit env (ab_batch_commit b) = Inr h"
    using assms(1) by (metis set_mset_mset)
  ultimately have "group_batches env epoch loaded (0, bt_empty) = Inr (foldl add_input (0, bt_empty) ?is)"
    "group_batches env epoch loaded' (0, bt_empty) = Inr (foldl add_input (0, bt_empty) ?is')"
    by (simp_all add: group_batches_eq)
  then show ?thesis
    using assms(3) by (simp only: compute_local_epoch_aggregation_def sum.case case_prod_unfold groups count)
qed

text \<open>The computation only fails when an encoder does.\<close>

lemma aggregate_record_root_total:
  assumes "\<And>fs. \<exists>b. ae_json env fs = Inr b"
  shows "\<exists>root. aggregate_record_root env rs = Inr root"
proof -
  have "\<exists>y. map_sum AggregationJson (merkle_leaf_sha256 (ae_sha256 env)) (aggregate_record_to_chain_json (ae_json env) r) = Inr y" for r
    using assms by (metis aggregate_record_to_chain_json_def map_sum.simps(2))
  then have "\<exists>ys. collect_results (map (\<lambda>r. map_sum AggregationJson (merkle_leaf_sha256 (ae_sha256 env))
      (aggregate_record_to_chain_json (ae_json env) r)) (sort_key (\<lambda>r. (ar_epoch_id r, ar_app_id r)) rs)) = Inr ys"
    by (rule collect_results_total)
  then show ?thesis by (auto simp: aggregate_record_root_def Let_def)
qed

lemma compute_local_epoch_aggregation_total:
  assumes "\<And>b. \<exists>x. ae_encode_batch_commit env b = Inr x" "\<And>fs. \<exists>b. ae_json env fs = Inr b"
  shows "\<exists>result. compute_local_epoch_aggregation env config epoch loaded = Inr result"
proof -
  have "\<exists>h. hash_batch_commit env (ab_batch_commit b) = Inr h" for b :: assembled_batch
    using assms(1) by (metis hash_batch_commit_def map_sum.simps(2))
  then have "group_batches env epoch loaded (0, bt_empty) = Inr (foldl add_input (0, bt_empty) (epoch_inputs env epoch loaded))"
    by (simp add: group_batches_eq)
  moreover obtain root where "aggregate_record_root env (map eg_aggregate (map (\<lambda>(key, inputs).
      aggregate_group env config epoch key inputs) (bt_entries (snd (foldl add_input (0, bt_empty) (epoch_inputs env epoch loaded)))))) = Inr root"
    using aggregate_record_root_total [OF assms(2)] by blast
  ultimately show ?thesis
    unfolding compute_local_epoch_aggregation_def Let_def by (simp add: case_prod_unfold)
qed

subsection \<open>The accepted observations\<close>

lemma trim_subset:
  "set (trim_extreme_observations xs) \<subseteq> set xs"
  "distinct (map collector_of xs) \<Longrightarrow> distinct (map collector_of (trim_extreme_observations xs))"
proof -
  show "set (trim_extreme_observations xs) \<subseteq> set xs"
    by (auto simp: trim_extreme_observations_def Let_def dest!: in_set_dropD in_set_takeD)
  assume "distinct (map collector_of xs)"
  then have "distinct (map collector_of (sort_key trimmed_rank xs))"
    by (simp add: distinct_map)
  then show "distinct (map collector_of (trim_extreme_observations xs))"
    using \<open>distinct (map collector_of xs)\<close>
    by (auto simp: trim_extreme_observations_def Let_def take_map [symmetric] drop_map [symmetric] simp del: drop_take)
qed

lemma aggregate_group_accepted:
  assumes "ob \<in> set (eg_accepted_observations (aggregate_group env config epoch key inputs))"
  shows "\<exists>i \<in> set inputs. ai_observation i = ob
      \<and> (\<forall>j \<in> set inputs. obs_collector_id (ai_observation j) = obs_collector_id ob \<longrightarrow> candidate_rank i \<le> candidate_rank j)"
proof -
  from assms obtain i where i: "i \<in> set (deduplicate_by_collector inputs)" "ai_observation i = ob"
    using trim_subset(1) [of "deduplicate_by_collector inputs"]
    by (auto simp: aggregate_group_def Let_def case_prod_unfold)
  with deduplicate_by_collector_spec(1) [of inputs] deduplicate_by_collector_spec(3) [of _ inputs] show ?thesis by blast
qed

lemma aggregate_group_distinct:
  "distinct (map obs_collector_id (eg_accepted_observations (aggregate_group env config epoch key inputs)))"
proof -
  have "distinct (map collector_of (deduplicate_by_collector inputs))"
    using deduplicate_by_collector_spec(4) [of inputs] by (simp add: strict_sorted_iff)
  from trim_subset(2) [OF this] show ?thesis
    by (simp add: aggregate_group_def Let_def case_prod_unfold comp_def)
qed

lemma aggregate_group_key:
  "(eg_slot_id (aggregate_group env config epoch key inputs), eg_app_id (aggregate_group env config epoch key inputs)) = key"
  "eg_total_observations (aggregate_group env config epoch key inputs) = word_of_nat (length inputs)"
  by (simp_all add: aggregate_group_def Let_def case_prod_unfold)

lemma group_totals:
  assumes "length inputs < 2 ^ 32"
  shows "(\<Sum>g\<leftarrow>map (\<lambda>key. aggregate_group env config epoch key (group_of key inputs)) (group_keys inputs).
    unat (eg_total_observations g)) = length inputs"
proof -
  have "unat (word_of_nat (length (group_of key inputs)) :: u32) = length (group_of key inputs)" for key
    unfolding group_of_def
    by (rule unat_of_nat_exact) (use assms le_less_trans [OF length_filter_le [of _ inputs]] in simp)
  then show ?thesis using sum_group_lengths [of inputs] by (simp add: comp_def aggregate_group_key(2))
qed

lemma epoch_inputs_epoch: "i \<in> set (epoch_inputs env epoch loaded) \<Longrightarrow> obs_epoch_id (ai_observation i) = epoch"
  by (auto simp: epoch_inputs_def batch_inputs_def)

lemma accepted_of_group:
  fixes inputs :: "aggregate_input list" and env :: aggregation_env and config :: node_config and epoch :: epoch_id and key :: group_key
  defines "g \<equiv> aggregate_group env config epoch key (group_of key inputs)"
  assumes "ob \<in> set (eg_accepted_observations g)"
  shows "(obs_slot_id ob, obs_app_id ob) = (eg_slot_id g, eg_app_id g)"
    and "\<exists>i \<in> set inputs. ai_observation i = ob
      \<and> list_all (\<lambda>j. candidate_rank i \<le> candidate_rank j)
          (filter (\<lambda>j. input_key j = input_key i \<and> collector_of j = collector_of i) inputs)"
proof -
  obtain i where i: "i \<in> set (group_of key inputs)" "ai_observation i = ob"
    "\<forall>j \<in> set (group_of key inputs). obs_collector_id (ai_observation j) = obs_collector_id ob \<longrightarrow> candidate_rank i \<le> candidate_rank j"
    using aggregate_group_accepted [OF assms(2) [unfolded g_def]] by blast
  then have "i \<in> set inputs" "input_key i = key" by (simp_all add: group_of_def)
  with i show "(obs_slot_id ob, obs_app_id ob) = (eg_slot_id g, eg_app_id g)"
    unfolding g_def aggregate_group_key by (auto simp: input_key_def)
  show "\<exists>i \<in> set inputs. ai_observation i = ob
      \<and> list_all (\<lambda>j. candidate_rank i \<le> candidate_rank j)
          (filter (\<lambda>j. input_key j = input_key i \<and> collector_of j = collector_of i) inputs)"
    using i \<open>i \<in> set inputs\<close> \<open>input_key i = key\<close> by (intro bexI [of _ i]) (auto simp: list_all_iff group_of_def)
qed

end
