(* ===== verification/Addresses.thy ===== *)
theory Addresses
  imports Rust_Text Records
begin

text \<open>
  Account addresses (\<open>src/src/cosmos/address.rs\<close>, \<open>RewardRecord::chain_recipient\<close> of
  \<open>src/src/records.rs\<close>): the 20-byte account of a public key, and the Bech32 text of accounts,
  addresses and node ids. The \<open>bech32\<close>, \<open>hex\<close> and \<open>sha2\<close> crates are the fields of the
  environment; a \<open>u5\<close> is a byte. The constructors of \<open>CosmosError\<close> for the HTTP client are left out.
\<close>

record address_env =
  sha256_digest :: "byte_vec \<Rightarrow> bytes32"
  bech32_encode :: "string \<Rightarrow> byte_vec \<Rightarrow> string + string"
  bech32_decode :: "string \<Rightarrow> string + (string \<times> byte_vec)"
  to_base32 :: "byte_vec \<Rightarrow> byte_vec"
  from_base32 :: "byte_vec \<Rightarrow> string + byte_vec"
  hex_decode :: "string \<Rightarrow> string + byte_vec"
  hex_encode_bytes :: "byte_vec \<Rightarrow> string"

datatype cosmos_error =
    InvalidHex string
  | InvalidBech32 string
  | Bech32PrefixMismatch string string

definition DEFAULT_BECH32_PREFIX :: string where "DEFAULT_BECH32_PREFIX = ''cosmos''"
definition POLE_BECH32_PREFIX :: string where "POLE_BECH32_PREFIX = ''pole''"
definition ACCOUNT_ADDRESS_LEN :: nat where "ACCOUNT_ADDRESS_LEN = 20"

record cosmos_address =
  ca_account :: byte_vec
  ca_bech32 :: string

definition cosmos_account_from_pubkey :: "address_env \<Rightarrow> byte_vec \<Rightarrow> byte_vec" where
  "cosmos_account_from_pubkey env public_key = take 20 (to_bytes32 (sha256_digest env public_key))"

text \<open>The first segment of \<open>split('1')\<close>.\<close>

definition before_one :: "string \<Rightarrow> string" where
  "before_one s = takeWhile (\<lambda>c. c \<noteq> CHR ''1'') s"

definition cosmos_address_prefix :: "cosmos_address \<Rightarrow> string" where
  "cosmos_address_prefix a = before_one (ca_bech32 a)"

definition encode_bech32 :: "address_env \<Rightarrow> string \<Rightarrow> byte_vec \<Rightarrow> cosmos_error + string" where
  "encode_bech32 env prefix bytes = map_sum InvalidBech32 id (bech32_encode env prefix (to_base32 env bytes))"

definition decode_bech32 :: "address_env \<Rightarrow> string \<Rightarrow> string \<Rightarrow> cosmos_error + byte_vec" where
  "decode_bech32 env expected_prefix addr =
     (case bech32_decode env addr of
        Inl e \<Rightarrow> Inl (InvalidBech32 e)
      | Inr (prefix, data) \<Rightarrow>
          if prefix \<noteq> expected_prefix then Inl (Bech32PrefixMismatch expected_prefix prefix)
          else map_sum InvalidBech32 id (from_base32 env data))"

definition cosmos_address_try_from :: "address_env \<Rightarrow> string \<Rightarrow> cosmos_error + cosmos_address" where
  "cosmos_address_try_from env s =
     map_sum id (\<lambda>account. \<lparr>ca_account = account, ca_bech32 = s\<rparr>) (decode_bech32 env (before_one s) s)"

text \<open>\<open>trim_start_matches("0x")\<close> removes the prefix as often as it occurs.\<close>

definition hex_to_bech32 :: "address_env \<Rightarrow> string \<Rightarrow> string \<Rightarrow> cosmos_error + string" where
  "hex_to_bech32 env prefix hex =
     (case hex_decode env (strip_while [''0x''] hex) of
        Inl e \<Rightarrow> Inl (InvalidHex e)
      | Inr bytes \<Rightarrow> encode_bech32 env prefix bytes)"

text \<open>The default prefix is tried first, then the one the text carries.\<close>

definition decode_any_prefix :: "address_env \<Rightarrow> string \<Rightarrow> cosmos_error + byte_vec" where
  "decode_any_prefix env addr =
     (case decode_bech32 env DEFAULT_BECH32_PREFIX addr of
        Inr bytes \<Rightarrow> Inr bytes
      | Inl _ \<Rightarrow> decode_bech32 env (before_one addr) addr)"

definition bech32_to_hex :: "address_env \<Rightarrow> string \<Rightarrow> cosmos_error + string" where
  "bech32_to_hex env addr = map_sum id (hex_encode_bytes env) (decode_any_prefix env addr)"

definition address_to_bech32 :: "address_env \<Rightarrow> string \<Rightarrow> address \<Rightarrow> cosmos_error + string" where
  "address_to_bech32 env prefix addr = encode_bech32 env prefix (take ACCOUNT_ADDRESS_LEN (to_bytes32 addr))"

definition node_id_to_bech32 :: "address_env \<Rightarrow> string \<Rightarrow> node_id \<Rightarrow> cosmos_error + string" where
  "node_id_to_bech32 env prefix nid = encode_bech32 env prefix (take ACCOUNT_ADDRESS_LEN (to_bytes32 nid))"

definition bech32_to_address :: "address_env \<Rightarrow> string \<Rightarrow> cosmos_error + address" where
  "bech32_to_address env addr =
     (case decode_any_prefix env addr of
        Inl e \<Rightarrow> Inl e
      | Inr bytes \<Rightarrow>
          if length bytes > 32
          then Inl (InvalidBech32 (''decoded length '' @ decimal (length bytes) @ '' exceeds 32''))
          else Inr (of_bytes32 (replicate (32 - length bytes) 0 @ bytes)))"

definition chain_recipient :: "address_env \<Rightarrow> reward_record \<Rightarrow> cosmos_error + string" where
  "chain_recipient env r =
     (if rw_recipient_address r \<noteq> [] then Inr (rw_recipient_address r)
      else node_id_to_bech32 env DEFAULT_BECH32_PREFIX (rw_node_id r))"

subsection \<open>Round trips\<close>

text \<open>What the documentation of the \<open>bech32\<close> crate promises.\<close>

definition bech32_laws :: "address_env \<Rightarrow> bool" where
  "bech32_laws env \<longleftrightarrow>
     (\<forall>prefix data s. bech32_encode env prefix data = Inr s \<longrightarrow> bech32_decode env s = Inr (prefix, data))
     \<and> (\<forall>bytes. from_base32 env (to_base32 env bytes) = Inr bytes)"

lemma decode_encode_bech32:
  assumes "bech32_laws env" "encode_bech32 env prefix bytes = Inr s"
  shows "decode_bech32 env prefix s = Inr bytes"
    and "prefix' \<noteq> prefix \<Longrightarrow> decode_bech32 env prefix' s = Inl (Bech32PrefixMismatch prefix' prefix)"
proof -
  obtain t where "bech32_encode env prefix (to_base32 env bytes) = Inr t" "t = s"
    using assms(2) by (cases "bech32_encode env prefix (to_base32 env bytes)") (simp_all add: encode_bech32_def)
  then have "bech32_decode env s = Inr (prefix, to_base32 env bytes)"
    using assms(1) by (simp add: bech32_laws_def)
  then show "decode_bech32 env prefix s = Inr bytes"
    and "prefix' \<noteq> prefix \<Longrightarrow> decode_bech32 env prefix' s = Inl (Bech32PrefixMismatch prefix' prefix)"
    using assms(1) by (simp_all add: decode_bech32_def bech32_laws_def)
qed

lemma decode_any_encode:
  assumes "bech32_laws env" "encode_bech32 env prefix bytes = Inr s" "prefix = DEFAULT_BECH32_PREFIX \<or> before_one s = prefix"
  shows "decode_any_prefix env s = Inr bytes"
  using decode_encode_bech32 [OF assms(1,2)] assms(3)
  by (cases "prefix = DEFAULT_BECH32_PREFIX") (auto simp: decode_any_prefix_def split: sum.split)

text \<open>
  An address keeps its first 20 bytes as text; read back, they are the \<^emph>\<open>last\<close> 20 bytes of the
  result.
\<close>

lemma of_be_bytes_snoc: "of_be_bytes (xs @ [y]) = of_be_bytes xs * 256 + uint y"
  by (simp add: of_be_bytes_def)

lemma of_be_bytes_append: "of_be_bytes (xs @ ys) = of_be_bytes xs * 256 ^ length ys + of_be_bytes ys"
proof (induction ys rule: rev_induct)
  case (snoc y ys)
  have "of_be_bytes (xs @ ys @ [y]) = of_be_bytes (xs @ ys) * 256 + uint y"
    using of_be_bytes_snoc [of "xs @ ys" y] by simp
  with snoc show ?case by (simp only: of_be_bytes_snoc length_append) (simp add: algebra_simps)
qed (simp add: of_be_bytes_def)

lemma of_be_bytes_zeros: "of_be_bytes (replicate n 0 @ ys) = of_be_bytes ys"
proof -
  have "of_be_bytes (replicate n 0) = 0" by (induction n) (simp_all add: of_be_bytes_def)
  then show ?thesis by (simp add: of_be_bytes_append)
qed

lemma right_aligned_prefix: "of_bytes32 (replicate 12 0 @ take 20 (to_bytes32 a)) = drop_bit 96 a"
proof -
  let ?p = "of_be_bytes (take 20 (to_bytes32 a))" and ?q = "of_be_bytes (drop 20 (to_bytes32 a))"
  have "of_be_bytes (take 20 (to_bytes32 a) @ drop 20 (to_bytes32 a)) = ?p * 256 ^ 12 + ?q"
    unfolding of_be_bytes_append by simp
  moreover have "of_be_bytes (to_bytes32 a) = uint a"
    by (simp add: of_be_bytes_def to_bytes32_def foldl_be_bytes [OF uint_bytes32_bound])
  moreover have "0 \<le> ?q" "?q < 256 ^ 12"
    using of_be_bytes_bounds [of "drop 20 (to_bytes32 a)"] by simp_all
  ultimately have "uint a div 256 ^ 12 = ?p" by simp
  moreover have "0 \<le> ?p" "?p < 256 ^ 20"
    using of_be_bytes_bounds [of "take 20 (to_bytes32 a)"] by simp_all
  ultimately have "word_of_int ?p = drop_bit 96 a"
    by (simp add: word_uint_eq_iff uint_word_of_int drop_bit_eq_div uint_div_distrib)
  then show ?thesis by (simp add: of_bytes32_def of_be_bytes_zeros)
qed

lemma address_text_round_trip:
  assumes "bech32_laws env" "address_to_bech32 env DEFAULT_BECH32_PREFIX a = Inr s"
  shows "bech32_to_address env s = Inr (drop_bit 96 a)"
  using decode_any_encode [OF assms(1) assms(2) [unfolded address_to_bech32_def]]
  by (simp add: bech32_to_address_def ACCOUNT_ADDRESS_LEN_def right_aligned_prefix)

end
