(* ===== verification/Mutual_Proof.thy ===== *)
theory Mutual_Proof
  imports Addresses Node_Config Transitions "HOL-Library.Multiset"
begin

text \<open>
  Mutual proof (\<open>src/src/mutual_proof.rs\<close>, \<open>KeyPair\<close> of \<open>src/src/wallet/keys.rs\<close>, the signing payloads
  of \<open>src/src/records.rs\<close>): a node's signed claim that it played, the heartbeats that cover the
  claim, and the attestation of an independent witness; the projection of all three to the
  chain's wire types; and the book-keeping on the stored ones. Reading and writing the JSON files
  is not modelled: the functions take the list that was read.

  The environment adds to the Ed25519 functions the derivation of the public key, signing, Borsh on
  the three records and the address functions.
\<close>

record proof_env = crypto_env +
  ed25519_public :: "bytes32 \<Rightarrow> pubkey"
  ed25519_sign :: "bytes32 \<Rightarrow> byte_vec \<Rightarrow> byte_vec"
  encode_session :: "play_session \<Rightarrow> byte_vec"
  encode_heartbeat :: "play_heartbeat \<Rightarrow> byte_vec"
  encode_attestation :: "witness_attestation \<Rightarrow> byte_vec"
  pr_addresses :: address_env

subsection \<open>Key pairs\<close>

record key_pair =
  kp_secret :: bytes32
  kp_public :: pubkey
  kp_address :: bytes32

definition key_pair_from_seed :: "proof_env \<Rightarrow> bytes32 \<Rightarrow> key_pair" where
  "key_pair_from_seed env seed =
     (let public_key = ed25519_public env seed
      in \<lparr>kp_secret = seed, kp_public = public_key, kp_address = stable_hash32 (to_bytes32 public_key)\<rparr>)"

definition key_pair_sign :: "proof_env \<Rightarrow> key_pair \<Rightarrow> byte_vec \<Rightarrow> byte_vec" where
  "key_pair_sign env k message = ed25519_sign env (kp_secret k) message"

definition key_pair_verify :: "proof_env \<Rightarrow> key_pair \<Rightarrow> byte_vec \<Rightarrow> byte_vec \<Rightarrow> bool" where
  "key_pair_verify env k message signature =
     (if \<not> verifying_key_ok env (kp_public k) then False
      else if length signature \<noteq> 64 then False
      else ed25519_verify env (kp_public k) message signature)"

subsection \<open>Types\<close>

record play_session_inputs =
  si_app_id :: app_id
  si_epoch_id :: epoch_id
  si_slot_id :: slot_id
  si_play_seconds :: u64
  si_collector_id :: node_id
  si_observation_cid :: string
  si_observed_players :: u64

datatype mutual_proof_error =
    WitnessIsPlayer
  | WitnessIsCollector
  | WitnessObservationReused
  | EmptyObservationCid
  | AddressError string

record play_session_wire =
  sw_session_id_hex :: string
  sw_node_address :: string
  sw_app_id :: u32
  sw_epoch_id :: u64
  sw_slot_id :: u64
  sw_play_seconds :: u64
  sw_collector_address :: string
  sw_observation_cid :: string
  sw_observed_players :: u64
  sw_submitted_at_height :: int
  sw_session_signature :: string

record play_heartbeat_wire =
  hw_session_id_hex :: string
  hw_node_address :: string
  hw_bucket_index :: u64
  hw_signed_at_millis :: int
  hw_heartbeat_signature :: string

record witness_attestation_wire =
  ww_session_id_hex :: string
  ww_witness_address :: string
  ww_observed_play_seconds :: u64
  ww_witness_observation_cid :: string
  ww_observed_players :: u64
  ww_attested_at_height :: int
  ww_witness_signature :: string

subsection \<open>Messages of errors\<close>

fun node_config_error_text :: "node_config_error \<Rightarrow> string" where
  "node_config_error_text (ConfigIo e) = ''io error: '' @ e"
| "node_config_error_text (ConfigJson e) = ''json error: '' @ e"
| "node_config_error_text (ConfigWallet e) = ''wallet error: '' @ e"
| "node_config_error_text (InvalidHexLength field expected actual) =
     ''invalid hex length for '' @ field @ '': expected '' @ decimal expected @ '', got '' @ decimal actual"
| "node_config_error_text (InvalidHexCharacter field index byte) =
     ''invalid hex character for '' @ field @ '' at '' @ decimal index @ '': 0x'' @ hex_byte byte"
| "node_config_error_text (InvalidValue field reason) = ''invalid value for '' @ field @ '': '' @ reason"

fun cosmos_error_text :: "cosmos_error \<Rightarrow> string" where
  "cosmos_error_text (InvalidHex e) = ''invalid hex address: '' @ e"
| "cosmos_error_text (InvalidBech32 e) = ''invalid bech32 address: '' @ e"
| "cosmos_error_text (Bech32PrefixMismatch expected actual) =
     ''bech32 prefix mismatch: expected '' @ expected @ '', got '' @ actual"

subsection \<open>Addresses\<close>

definition address_from_account20 :: "byte_vec \<Rightarrow> address" where
  "address_from_account20 account20 = of_bytes32 (account20 @ replicate 12 0)"

definition identity_account_address :: "proof_env \<Rightarrow> pubkey \<Rightarrow> address" where
  "identity_account_address env public_key =
     address_from_account20 (cosmos_account_from_pubkey (pr_addresses env) (to_bytes32 public_key))"

definition identity_account_bech32 :: "proof_env \<Rightarrow> pubkey \<Rightarrow> mutual_proof_error + string" where
  "identity_account_bech32 env public_key =
     map_sum (\<lambda>e. AddressError (cosmos_error_text e)) id
       (encode_bech32 (pr_addresses env) ''cosmos'' (cosmos_account_from_pubkey (pr_addresses env) (to_bytes32 public_key)))"

definition collector_address :: "node_id \<Rightarrow> address" where
  "collector_address nid = nid"

definition proof_address_to_bech32 :: "proof_env \<Rightarrow> address \<Rightarrow> mutual_proof_error + string" where
  "proof_address_to_bech32 env addr =
     map_sum (\<lambda>e. AddressError (cosmos_error_text e)) id
       (encode_bech32 (pr_addresses env) ''cosmos'' (take 20 (to_bytes32 addr)))"

subsection \<open>Building the proofs\<close>

definition session_payload :: "node_id \<Rightarrow> app_id \<Rightarrow> epoch_id \<Rightarrow> slot_id \<Rightarrow> string \<Rightarrow> byte_vec" where
  "session_payload nid app epoch slot cid =
     as_bytes ''pole-play-session-v1'' @ to_bytes32 nid @ le_bytes 4 (uint app) @ le_bytes 8 (uint epoch)
     @ le_bytes 8 (uint slot) @ as_bytes cid"

definition session_id_from_parts :: "node_id \<Rightarrow> app_id \<Rightarrow> epoch_id \<Rightarrow> slot_id \<Rightarrow> string \<Rightarrow> hash32" where
  "session_id_from_parts nid app epoch slot cid = stable_hash32 (session_payload nid app epoch slot cid)"

definition session_signing_payload :: "proof_env \<Rightarrow> play_session \<Rightarrow> byte_vec" where
  "session_signing_payload env s = encode_session env (s\<lparr>ps_session_signature := []\<rparr>)"

definition heartbeat_signing_payload :: "proof_env \<Rightarrow> play_heartbeat \<Rightarrow> byte_vec" where
  "heartbeat_signing_payload env h = encode_heartbeat env (h\<lparr>hb_heartbeat_signature := []\<rparr>)"

definition attestation_signing_payload :: "proof_env \<Rightarrow> witness_attestation \<Rightarrow> byte_vec" where
  "attestation_signing_payload env a = encode_attestation env (a\<lparr>wa_witness_signature := []\<rparr>)"

definition build_play_session ::
  "proof_env \<Rightarrow> node_config \<Rightarrow> key_pair \<Rightarrow> play_session_inputs \<Rightarrow> mutual_proof_error + play_session" where
  "build_play_session env config identity inputs =
     (if si_observation_cid inputs = [] then Inl EmptyObservationCid
      else
        case config_node_id config of
          Inl e \<Rightarrow> Inl (AddressError (node_config_error_text e))
        | Inr nid \<Rightarrow>
            let session =
              \<lparr>ps_session_id = session_id_from_parts nid (si_app_id inputs) (si_epoch_id inputs) (si_slot_id inputs)
                 (si_observation_cid inputs),
               ps_node_address = identity_account_address env (kp_public identity),
               ps_app_id = si_app_id inputs, ps_epoch_id = si_epoch_id inputs, ps_slot_id = si_slot_id inputs,
               ps_play_seconds = si_play_seconds inputs, ps_collector_address = collector_address (si_collector_id inputs),
               ps_observation_cid = si_observation_cid inputs, ps_observed_players = si_observed_players inputs,
               ps_submitted_at_height = 0, ps_session_signature = []\<rparr>
            in Inr (session\<lparr>ps_session_signature := key_pair_sign env identity (session_signing_payload env session)\<rparr>))"

definition build_play_heartbeat ::
  "proof_env \<Rightarrow> key_pair \<Rightarrow> play_session \<Rightarrow> u64 \<Rightarrow> unix_millis \<Rightarrow> mutual_proof_error + play_heartbeat" where
  "build_play_heartbeat env identity session bucket signed_at =
     (let heartbeat =
        \<lparr>hb_session_id = ps_session_id session, hb_node_address = ps_node_address session, hb_bucket_index = bucket,
         hb_signed_at_millis = signed_at, hb_heartbeat_signature = []\<rparr>
      in Inr (heartbeat\<lparr>hb_heartbeat_signature := key_pair_sign env identity (heartbeat_signing_payload env heartbeat)\<rparr>))"

definition build_witness_attestation ::
  "proof_env \<Rightarrow> node_config \<Rightarrow> key_pair \<Rightarrow> play_session \<Rightarrow> string \<Rightarrow> u64 \<Rightarrow> u64
    \<Rightarrow> mutual_proof_error + witness_attestation" where
  "build_witness_attestation env config identity session own_cid play_seconds players =
     (if own_cid = [] then Inl EmptyObservationCid
      else
        let witness_address = identity_account_address env (kp_public identity) in
        if witness_address = ps_node_address session then Inl WitnessIsPlayer
        else
          let witness_node_id = (case config_node_id config of
                Inr nid \<Rightarrow> nid | Inl _ \<Rightarrow> stable_hash32 (to_bytes32 (kp_public identity))) in
          if witness_node_id = ps_collector_address session then Inl WitnessIsCollector
          else if ps_observation_cid session \<noteq> [] \<and> own_cid = ps_observation_cid session
          then Inl WitnessObservationReused
          else
            let attestation =
              \<lparr>wa_session_id = ps_session_id session, wa_witness_address = witness_address,
               wa_observed_play_seconds = play_seconds, wa_witness_observation_cid = own_cid,
               wa_observed_players = players, wa_attested_at_height = 0, wa_witness_signature = []\<rparr>
            in Inr (attestation\<lparr>wa_witness_signature :=
                 key_pair_sign env identity (attestation_signing_payload env attestation)\<rparr>))"

subsection \<open>Wire types\<close>

text \<open>A cast \<open>as i64\<close> reads the same 64 bits with a sign.\<close>

definition play_session_to_wire :: "proof_env \<Rightarrow> play_session \<Rightarrow> mutual_proof_error + play_session_wire" where
  "play_session_to_wire env s =
     (case proof_address_to_bech32 env (ps_node_address s) of Inl e \<Rightarrow> Inl e | Inr node_address \<Rightarrow>
      case proof_address_to_bech32 env (ps_collector_address s) of Inl e \<Rightarrow> Inl e | Inr collector \<Rightarrow>
      Inr \<lparr>sw_session_id_hex = hex_32 (ps_session_id s), sw_node_address = node_address, sw_app_id = ps_app_id s,
        sw_epoch_id = ps_epoch_id s, sw_slot_id = ps_slot_id s, sw_play_seconds = ps_play_seconds s,
        sw_collector_address = collector, sw_observation_cid = ps_observation_cid s,
        sw_observed_players = ps_observed_players s, sw_submitted_at_height = sint (ps_submitted_at_height s),
        sw_session_signature = hex_encode_bytes (pr_addresses env) (ps_session_signature s)\<rparr>)"

definition play_heartbeat_to_wire :: "proof_env \<Rightarrow> play_heartbeat \<Rightarrow> mutual_proof_error + play_heartbeat_wire" where
  "play_heartbeat_to_wire env h =
     (case proof_address_to_bech32 env (hb_node_address h) of Inl e \<Rightarrow> Inl e | Inr node_address \<Rightarrow>
      Inr \<lparr>hw_session_id_hex = hex_32 (hb_session_id h), hw_node_address = node_address,
        hw_bucket_index = hb_bucket_index h, hw_signed_at_millis = sint (hb_signed_at_millis h),
        hw_heartbeat_signature = hex_encode_bytes (pr_addresses env) (hb_heartbeat_signature h)\<rparr>)"

definition witness_attestation_to_wire ::
  "proof_env \<Rightarrow> witness_attestation \<Rightarrow> mutual_proof_error + witness_attestation_wire" where
  "witness_attestation_to_wire env a =
     (case proof_address_to_bech32 env (wa_witness_address a) of Inl e \<Rightarrow> Inl e | Inr witness \<Rightarrow>
      Inr \<lparr>ww_session_id_hex = hex_32 (wa_session_id a), ww_witness_address = witness,
        ww_observed_play_seconds = wa_observed_play_seconds a,
        ww_witness_observation_cid = wa_witness_observation_cid a, ww_observed_players = wa_observed_players a,
        ww_attested_at_height = sint (wa_attested_at_height a),
        ww_witness_signature = hex_encode_bytes (pr_addresses env) (wa_witness_signature a)\<rparr>)"

subsection \<open>Stored proofs\<close>

text \<open>What \<open>save_play_heartbeat\<close> writes back for the list it read.\<close>

definition add_heartbeat :: "play_heartbeat \<Rightarrow> play_heartbeat list \<Rightarrow> play_heartbeat list" where
  "add_heartbeat heartbeat existing =
     (if \<not> list_ex (\<lambda>current. hb_bucket_index current = hb_bucket_index heartbeat) existing
      then sort_key hb_bucket_index (existing @ [heartbeat]) else existing)"

definition local_session_ids_for_slot ::
  "play_session list \<Rightarrow> epoch_id \<Rightarrow> slot_id \<Rightarrow> (app_id, string) btree_map" where
  "local_session_ids_for_slot sessions epoch slot =
     foldl (\<lambda>by_app s. if ps_epoch_id s = epoch \<and> ps_slot_id s = slot \<and> bt_get by_app (ps_app_id s) = None
              then bt_insert (ps_app_id s) (hex_32 (ps_session_id s)) by_app else by_app) bt_empty sessions"

subsection \<open>Session ids\<close>

text \<open>Every part but the last has a fixed width, so different claims hash different bytes.\<close>

lemma as_bytes_inject: "as_bytes s = as_bytes t \<longleftrightarrow> s = t"
proof -
  have "inj (of_char :: char \<Rightarrow> u8)"
    by (rule injI) (metis unat_of_char of_char_eq_iff)
  then show ?thesis by (simp add: as_bytes_def inj_map_eq_map)
qed

lemma le_bytes_word_inject:
  "le_bytes n (uint x) = le_bytes n (uint y) \<longleftrightarrow> x = y" if "LENGTH('a) = 8 * n" for x y :: "'a::len word"
proof
  assume eq: "le_bytes n (uint x) = le_bytes n (uint y)"
  have "(2::int) ^ LENGTH('a) = 256 ^ n" using that by (simp add: power_mult)
  then have "uint x < 256 ^ n" "uint y < 256 ^ n" by (metis uint_lt2p)+
  with eq show "x = y" using le_bytes_inj [of "uint x" n "uint y"] by (simp add: word_uint_eq_iff)
qed simp

lemma session_payload_inject:
  "session_payload nid app epoch slot cid = session_payload nid' app' epoch' slot' cid' \<longleftrightarrow>
     nid = nid' \<and> app = app' \<and> epoch = epoch' \<and> slot = slot' \<and> cid = cid'"
proof -
  have "to_bytes32 nid = to_bytes32 nid' \<longleftrightarrow> nid = nid'" by (metis of_to_bytes32)
  then show ?thesis
    unfolding session_payload_def
    by (auto simp: append_eq_append_conv le_bytes_word_inject as_bytes_inject)
qed

subsection \<open>Signatures\<close>

text \<open>What Ed25519 promises of a signature made with the key pair of a seed.\<close>

definition ed25519_laws :: "proof_env \<Rightarrow> bool" where
  "ed25519_laws env \<longleftrightarrow> (\<forall>seed message. verifying_key_ok env (ed25519_public env seed)
     \<and> length (ed25519_sign env seed message) = 64
     \<and> ed25519_verify env (ed25519_public env seed) message (ed25519_sign env seed message))"

lemma signed_by_key_pair:
  assumes "ed25519_laws env" "k = key_pair_from_seed env seed"
  shows "verify_signature (crypto_env.truncate env) (kp_public k) message (key_pair_sign env k message)"
    and "key_pair_verify env k message (key_pair_sign env k message)"
  using assms
  by (simp_all add: ed25519_laws_def verify_signature_def key_pair_verify_def key_pair_sign_def
      key_pair_from_seed_def Let_def crypto_env.truncate_def)

lemma signing_payloads_ignore_signature [simp]:
  "session_signing_payload env (s\<lparr>ps_session_signature := sig\<rparr>) = session_signing_payload env s"
  "heartbeat_signing_payload env (h\<lparr>hb_heartbeat_signature := sig\<rparr>) = heartbeat_signing_payload env h"
  "attestation_signing_payload env (a\<lparr>wa_witness_signature := sig\<rparr>) = attestation_signing_payload env a"
  by (simp_all add: session_signing_payload_def heartbeat_signing_payload_def attestation_signing_payload_def)

subsection \<open>Heartbeats\<close>

lemma add_heartbeat_sorted:
  assumes "sorted_wrt (<) (map hb_bucket_index existing)"
  shows "sorted_wrt (<) (map hb_bucket_index (add_heartbeat h existing))"
proof -
  have "distinct (map hb_bucket_index (sort_key hb_bucket_index (existing @ [h])))"
    if "\<forall>current \<in> set existing. hb_bucket_index current \<noteq> hb_bucket_index h"
  proof -
    have "mset (map hb_bucket_index (sort_key hb_bucket_index (existing @ [h]))) = mset (map hb_bucket_index (existing @ [h]))"
      by (simp only: mset_map mset_sort)
    moreover have "distinct (map hb_bucket_index (existing @ [h]))"
      using assms that by (auto simp: strict_sorted_iff)
    ultimately show ?thesis by (metis mset_eq_imp_distinct_iff)
  qed
  then show ?thesis
    using assms by (auto simp: add_heartbeat_def list_ex_iff strict_sorted_iff)
qed

lemma set_add_heartbeat:
  "set (add_heartbeat h existing) =
     (if hb_bucket_index h \<in> hb_bucket_index ` set existing then set existing else insert h (set existing))"
  by (auto simp: add_heartbeat_def list_ex_iff image_iff)

subsection \<open>Session of a slot\<close>

lemma local_session_ids_spec:
  "bt_get (local_session_ids_for_slot sessions epoch slot) app =
     map_option (\<lambda>s. hex_32 (ps_session_id s))
       (List.find (\<lambda>s. ps_epoch_id s = epoch \<and> ps_slot_id s = slot \<and> ps_app_id s = app) sessions)"
proof (induction sessions rule: rev_induct)
  case (snoc s sessions)
  have find_snoc: "List.find P (xs @ [x]) = (case List.find P xs of None \<Rightarrow> if P x then Some x else None | Some y \<Rightarrow> Some y)"
    for P and xs :: "play_session list" and x
    by (induction xs) auto
  show ?case
    using snoc unfolding local_session_ids_for_slot_def find_snoc
    by (cases "List.find (\<lambda>s. ps_epoch_id s = epoch \<and> ps_slot_id s = slot \<and> ps_app_id s = app) sessions")
      auto
qed (simp add: local_session_ids_for_slot_def)

end
