(* ===== verification/Reward_Tick.thy ===== *)
theory Reward_Tick
  imports Mutual_Proof Pipeline Persistence
begin

text \<open>
  Player rewards of one collection tick (\<open>src/src/node_rewards.rs\<close>): the parameters in force, the
  game mapping of the running process, the adjusted block reward, and
  \<open>record_player_reward_tick\<close>, which cuts the sampled time into reward blocks and pays each
  completed block out in proportion to the weight of the play.

  Arguments stand for what the code reads elsewhere: \<open>activated\<close> for the result of
  \<open>latest_activated_protocol_params\<close> (modelled below on a store), \<open>infer\<close> for the Steam directory
  lookup \<open>infer_reward_game_mapping\<close>, \<open>sessions\<close> for the stored play sessions. A slice of a string at a
  position inside a character panics; the functions that can panic return \<open>None\<close> for it. Writing the
  artifact file is not modelled.
\<close>

subsection \<open>Parameters in force\<close>

definition latest_activated_protocol_params ::
  "store_codec \<Rightarrow> io_faults \<Rightarrow> path_buf \<Rightarrow> disk \<Rightarrow> protocol_params option" where
  "latest_activated_protocol_params codec faults p d =
     (case open_store codec faults p d of
        Inl _ \<Rightarrow> None
      | Inr ps \<Rightarrow> map_option gp_params (max_by_key gp_effective_epoch
          (filter (\<lambda>proposal. gp_state proposal = ProposalActivated) (params_update_proposals_iter (ps_inner ps)))))"

definition effective_reward_block_secs :: "protocol_params option \<Rightarrow> node_config \<Rightarrow> u64" where
  "effective_reward_block_secs activated config =
     (case activated of Some p \<Rightarrow> reward_block_secs (pp_rewards p) | None \<Rightarrow> rc_reward_block_secs (nc_reward config))"

definition effective_player_block_reward_of :: "protocol_params option \<Rightarrow> node_config \<Rightarrow> amount" where
  "effective_player_block_reward_of activated config =
     (case activated of Some p \<Rightarrow> effective_player_block_reward (pp_rewards p)
      | None \<Rightarrow> base_player_block_reward (nc_reward config))"

definition effective_target_network_weight_units :: "protocol_params option \<Rightarrow> node_config \<Rightarrow> amount" where
  "effective_target_network_weight_units activated config =
     (case activated of Some p \<Rightarrow> target_network_weight_units (pp_rewards p)
      | None \<Rightarrow> rc_target_network_weight_units (nc_reward config))"

definition effective_reward_adjustment_cap_bps :: "protocol_params option \<Rightarrow> node_config \<Rightarrow> u16" where
  "effective_reward_adjustment_cap_bps activated config =
     (case activated of Some p \<Rightarrow> reward_adjustment_cap_bps (pp_rewards p)
      | None \<Rightarrow> rc_reward_adjustment_cap_bps (nc_reward config))"

definition effective_challenge_window_blocks :: "protocol_params option \<Rightarrow> node_config \<Rightarrow> u32" where
  "effective_challenge_window_blocks activated config =
     (case activated of Some p \<Rightarrow> challenge_window_blocks p | None \<Rightarrow> rt_challenge_window_blocks (nc_runtime config))"

definition effective_min_retention_epochs :: "protocol_params option \<Rightarrow> node_config \<Rightarrow> u32" where
  "effective_min_retention_epochs activated config =
     (case activated of Some p \<Rightarrow> min_retention_epochs p | None \<Rightarrow> sg_retention_epochs (nc_storage config))"

subsection \<open>Process names and game mappings\<close>

definition to_ascii_lowercase :: "string \<Rightarrow> string" where
  "to_ascii_lowercase s =
     map (\<lambda>c. if of_char c \<in> {65..90 :: nat} then char_of (of_char c + 32 :: nat) else c) s"

definition normalize_process_name :: "string \<Rightarrow> string" where
  "normalize_process_name name =
     rev (strip_while [rev ''.exe''] (rev (to_ascii_lowercase (trim name))))"

text \<open>\<open>is_char_boundary\<close> inside the string: the byte there does not continue a character.\<close>

definition char_boundary :: "string \<Rightarrow> nat \<Rightarrow> bool" where
  "char_boundary s i = (i = length s \<or> i < length s \<and> \<not> (of_char (s ! i) \<in> {0x80..0xBF :: nat}))"

definition canonical_process_name :: "string \<Rightarrow> string option" where
  "canonical_process_name name =
     (let trimmed = trim name in
      if trimmed = [] then Some []
      else if length trimmed \<ge> 4
      then
        if \<not> char_boundary trimmed (length trimmed - 4) then None
        else if to_ascii_lowercase (drop (length trimmed - 4) trimmed) = ''.exe''
        then Some (take (length trimmed - 4) trimmed @ ''.exe'')
        else Some (trimmed @ ''.exe'')
      else Some (trimmed @ ''.exe''))"

definition find_game_mapping :: "node_config \<Rightarrow> string \<Rightarrow> reward_game_mapping option" where
  "find_game_mapping config name =
     List.find (\<lambda>m. normalize_process_name (gm_process_name m) = normalize_process_name name)
       (rc_game_mappings (nc_reward config))"

definition activated_protocol_game_coefficient_ppm_for_app :: "protocol_params option \<Rightarrow> app_id \<Rightarrow> u32 option" where
  "activated_protocol_game_coefficient_ppm_for_app activated app =
     (case activated of
        None \<Rightarrow> None
      | Some p \<Rightarrow> map_option awo_game_coefficient_ppm
          (List.find (\<lambda>entry. awo_app_id entry = app) (app_weight_overrides (pp_rewards p))))"

definition game_coefficient_ppm_for_app :: "protocol_params option \<Rightarrow> node_config \<Rightarrow> app_id \<Rightarrow> u32" where
  "game_coefficient_ppm_for_app activated config app =
     (case activated_protocol_game_coefficient_ppm_for_app activated app of
        Some ppm \<Rightarrow> ppm
      | None \<Rightarrow>
          (case map gm_game_coefficient_ppm (filter (\<lambda>m. gm_app_id m = app) (rc_game_mappings (nc_reward config))) of
             [] \<Rightarrow> 1000000
           | ppm # rest \<Rightarrow> foldl max ppm rest))"

type_synonym game_lookup = "string \<Rightarrow> reward_game_mapping option"

definition mapping_of_process :: "game_lookup \<Rightarrow> node_config \<Rightarrow> string \<Rightarrow> reward_game_mapping option" where
  "mapping_of_process infer config name =
     (case find_game_mapping config name of Some m \<Rightarrow> Some m | None \<Rightarrow> infer name)"

definition credited_game ::
  "protocol_params option \<Rightarrow> node_config \<Rightarrow> reward_game_mapping \<Rightarrow> (string \<times> app_id \<times> u32) option" where
  "credited_game activated config m =
     map_option (\<lambda>name. (name, gm_app_id m, game_coefficient_ppm_for_app activated config (gm_app_id m)))
       (canonical_process_name (gm_process_name m))"

fun first_active_game ::
  "protocol_params option \<Rightarrow> game_lookup \<Rightarrow> node_config \<Rightarrow> string list \<Rightarrow> (string \<times> app_id \<times> u32) option option" where
  "first_active_game activated infer config [] = Some None"
| "first_active_game activated infer config (name # names) =
     (case mapping_of_process infer config name of
        None \<Rightarrow> first_active_game activated infer config names
      | Some m \<Rightarrow> map_option Some (credited_game activated config m))"

definition select_active_game_mapping ::
  "protocol_params option \<Rightarrow> game_lookup \<Rightarrow> node_config \<Rightarrow> string option \<Rightarrow> string list
    \<Rightarrow> (string \<times> app_id \<times> u32) option option" where
  "select_active_game_mapping activated infer config foreground active =
     (case foreground of
        None \<Rightarrow> first_active_game activated infer config active
      | Some name \<Rightarrow>
          (case mapping_of_process infer config name of
             None \<Rightarrow> first_active_game activated infer config active
           | Some m \<Rightarrow> map_option Some (credited_game activated config m)))"

fun collect_mapped_apps ::
  "game_lookup \<Rightarrow> node_config \<Rightarrow> string list \<Rightarrow> (string \<times> app_id) list \<Rightarrow> (string \<times> app_id) list option" where
  "collect_mapped_apps infer config [] apps = Some apps"
| "collect_mapped_apps infer config (name # names) apps =
     (case mapping_of_process infer config name of
        None \<Rightarrow> collect_mapped_apps infer config names apps
      | Some m \<Rightarrow>
          (case canonical_process_name (gm_process_name m) of
             None \<Rightarrow> None
           | Some canonical \<Rightarrow>
               let entry = (canonical, gm_app_id m)
               in collect_mapped_apps infer config names (if entry \<in> set apps then apps else apps @ [entry])))"

definition active_mapped_apps ::
  "game_lookup \<Rightarrow> node_config \<Rightarrow> string list \<Rightarrow> (string \<times> app_id) list option" where
  "active_mapped_apps infer config active = map_option sort (collect_mapped_apps infer config active [])"

subsection \<open>Weights and the adjusted reward\<close>

definition network_weight_units_for_duration ::
  "protocol_params option \<Rightarrow> node_config \<Rightarrow> activity_sample list \<Rightarrow> u64 \<Rightarrow> amount" where
  "network_weight_units_for_duration activated config samples duration_secs =
     (\<Sum>sample\<leftarrow>samples. saturating_mul (saturating_mul (ucast (as_observed_players sample)) (ucast duration_secs))
        (ucast (game_coefficient_ppm_for_app activated config (as_app_id sample))))"

definition current_network_weight_units_for_block ::
  "protocol_params option \<Rightarrow> node_config \<Rightarrow> activity_sample list \<Rightarrow> amount" where
  "current_network_weight_units_for_block activated config samples =
     network_weight_units_for_duration activated config samples (max (effective_reward_block_secs activated config) 1)"

definition weighted_share :: "amount \<Rightarrow> amount \<Rightarrow> amount \<Rightarrow> amount" where
  "weighted_share pool weight total_weight =
     (if pool = 0 \<or> weight = 0 \<or> total_weight = 0 then 0 else saturating_mul pool weight div total_weight)"

definition adjusted_player_block_reward :: "amount \<Rightarrow> amount \<Rightarrow> amount \<Rightarrow> u16 \<Rightarrow> amount option" where
  "adjusted_player_block_reward base target current cap =
     (if base = 0 then Some 0
      else if target = 0 \<or> current = 0 then Some base
      else
        let cap_bps = (ucast (min cap 10000) :: amount);
            lower_bound = saturating_mul base (saturating_sub 10000 cap_bps) div 10000;
            upper_bound = saturating_mul base (saturating_add 10000 cap_bps) div 10000;
            scaled_ratio = saturating_mul target 1000000000000 div current
        in map_option (\<lambda>ratio_sqrt. max (clamp (saturating_mul base ratio_sqrt div 1000000) lower_bound upper_bound) 1)
             (integer_sqrt scaled_ratio))"

subsection \<open>Blocks in progress and their records\<close>

record pending_player_reward_entry =
  pn_process_name :: string
  pn_app_id :: u32
  pn_game_coefficient_ppm :: u32
  pn_play_seconds :: u64

record pending_player_reward_block_state =
  pd_sampled_interval_secs :: u64
  pd_total_network_weight_units :: amount
  pd_total_adjustment_cycle_network_weight_units :: amount
  pd_fixed_block_reward :: amount
  pd_fixed_player_reward :: amount
  pd_reward_adjustment_period_index :: u64
  pd_adjustment_cycle_index :: u64
  pd_entries :: "pending_player_reward_entry list"

definition default_pending_state :: pending_player_reward_block_state where
  "default_pending_state =
     \<lparr>pd_sampled_interval_secs = 0, pd_total_network_weight_units = 0,
      pd_total_adjustment_cycle_network_weight_units = 0, pd_fixed_block_reward = 0, pd_fixed_player_reward = 0,
      pd_reward_adjustment_period_index = 0, pd_adjustment_cycle_index = 0, pd_entries = []\<rparr>"

text \<open>Each pair of fields holds one value under its old and its new name; zero means not set.\<close>

definition normalize_pending :: "pending_player_reward_block_state \<Rightarrow> pending_player_reward_block_state" where
  "normalize_pending s =
     (let weight = (if pd_total_adjustment_cycle_network_weight_units s = 0
            then pd_total_network_weight_units s else pd_total_adjustment_cycle_network_weight_units s);
          reward = (if pd_fixed_player_reward s = 0 then pd_fixed_block_reward s else pd_fixed_player_reward s);
          cycle = (if pd_adjustment_cycle_index s = 0
            then pd_reward_adjustment_period_index s else pd_adjustment_cycle_index s)
      in s\<lparr>pd_total_adjustment_cycle_network_weight_units := weight, pd_fixed_player_reward := reward,
           pd_adjustment_cycle_index := cycle, pd_total_network_weight_units := weight,
           pd_fixed_block_reward := reward, pd_reward_adjustment_period_index := cycle\<rparr>)"

record reward_tick_context =
  cx_epoch_id :: epoch_id
  cx_slot_id :: u64
  cx_session_id :: string
  cx_sampled_interval_secs :: u64
  cx_fixed_block_reward :: amount
  cx_fixed_player_reward :: amount
  cx_reward_adjustment_period_index :: u64
  cx_adjustment_cycle_index :: u64
  cx_fixed_block_reward_basis_period_index :: u64
  cx_fixed_player_reward_basis_cycle_index :: u64
  cx_fixed_block_reward_basis_network_weight_units :: amount
  cx_fixed_player_reward_basis_total_network_weight_units :: amount

record player_reward_block_record =
  br_epoch_id :: epoch_id
  br_slot_id :: u64
  br_block_index :: u32
  br_process_name :: string
  br_app_id :: u32
  br_session_id :: string
  br_play_seconds :: u64
  br_reward_block_secs :: u64
  br_sampled_interval_secs :: u64
  br_game_coefficient_ppm :: u32
  br_observed_network_players :: u64
  br_player_weight_units :: amount
  br_total_network_weight_units :: amount
  br_reward_adjustment_period_index :: u64
  br_adjustment_cycle_index :: u64
  br_reward_adjustment_period_blocks :: u64
  br_adjustment_cycle_blocks :: u64
  br_target_network_weight_units :: amount
  br_target_total_network_weight_units :: amount
  br_reward_adjustment_cap_bps :: u16
  br_fixed_block_reward_basis_period_index :: u64
  br_fixed_player_reward_basis_cycle_index :: u64
  br_fixed_block_reward_basis_network_weight_units :: amount
  br_fixed_player_reward_basis_total_network_weight_units :: amount
  br_block_reward :: amount
  br_fixed_player_reward :: amount
  br_player_reward :: amount

definition normalize_block_record :: "player_reward_block_record \<Rightarrow> player_reward_block_record" where
  "normalize_block_record r =
     (let cycle = (if br_adjustment_cycle_index r = 0
            then br_reward_adjustment_period_index r else br_adjustment_cycle_index r);
          blocks = (if br_adjustment_cycle_blocks r = 0
            then br_reward_adjustment_period_blocks r else br_adjustment_cycle_blocks r);
          target = (if br_target_total_network_weight_units r = 0
            then br_target_network_weight_units r else br_target_total_network_weight_units r);
          basis_cycle = (if br_fixed_player_reward_basis_cycle_index r = 0
            then br_fixed_block_reward_basis_period_index r else br_fixed_player_reward_basis_cycle_index r);
          basis_weight = (if br_fixed_player_reward_basis_total_network_weight_units r = 0
            then br_fixed_block_reward_basis_network_weight_units r
            else br_fixed_player_reward_basis_total_network_weight_units r);
          reward = (if br_fixed_player_reward r = 0 then br_block_reward r else br_fixed_player_reward r)
      in r\<lparr>br_adjustment_cycle_index := cycle, br_adjustment_cycle_blocks := blocks,
           br_target_total_network_weight_units := target, br_fixed_player_reward_basis_cycle_index := basis_cycle,
           br_fixed_player_reward_basis_total_network_weight_units := basis_weight, br_fixed_player_reward := reward,
           br_reward_adjustment_period_index := cycle, br_reward_adjustment_period_blocks := blocks,
           br_target_network_weight_units := target, br_fixed_block_reward_basis_period_index := basis_cycle,
           br_fixed_block_reward_basis_network_weight_units := basis_weight, br_block_reward := reward\<rparr>)"

record player_reward_tick_artifact =
  ta_epoch_id :: epoch_id
  ta_slot_id :: u64
  ta_sampled_interval_secs :: u64
  ta_reward_block_secs :: u64
  ta_reward_adjustment_period_index :: u64
  ta_adjustment_cycle_index :: u64
  ta_reward_adjustment_period_blocks :: u64
  ta_adjustment_cycle_blocks :: u64
  ta_completed_reward_block_count :: nat
  ta_fixed_block_reward_basis_period_index :: u64
  ta_fixed_player_reward_basis_cycle_index :: u64
  ta_fixed_block_reward_basis_network_weight_units :: amount
  ta_fixed_player_reward_basis_total_network_weight_units :: amount
  ta_block_reward :: amount
  ta_fixed_player_reward :: amount
  ta_foreground_process :: "string option"
  ta_active_game_processes :: "string list"
  ta_records :: "player_reward_block_record list"
  ta_total_player_reward :: amount

definition normalize_tick_artifact :: "player_reward_tick_artifact \<Rightarrow> player_reward_tick_artifact" where
  "normalize_tick_artifact t =
     (let cycle = (if ta_adjustment_cycle_index t = 0
            then ta_reward_adjustment_period_index t else ta_adjustment_cycle_index t);
          blocks = (if ta_adjustment_cycle_blocks t = 0
            then ta_reward_adjustment_period_blocks t else ta_adjustment_cycle_blocks t);
          basis_cycle = (if ta_fixed_player_reward_basis_cycle_index t = 0
            then ta_fixed_block_reward_basis_period_index t else ta_fixed_player_reward_basis_cycle_index t);
          basis_weight = (if ta_fixed_player_reward_basis_total_network_weight_units t = 0
            then ta_fixed_block_reward_basis_network_weight_units t
            else ta_fixed_player_reward_basis_total_network_weight_units t);
          reward = (if ta_fixed_player_reward t = 0 then ta_block_reward t else ta_fixed_player_reward t)
      in t\<lparr>ta_adjustment_cycle_index := cycle, ta_adjustment_cycle_blocks := blocks,
           ta_fixed_player_reward_basis_cycle_index := basis_cycle,
           ta_fixed_player_reward_basis_total_network_weight_units := basis_weight, ta_fixed_player_reward := reward,
           ta_reward_adjustment_period_index := cycle, ta_reward_adjustment_period_blocks := blocks,
           ta_fixed_block_reward_basis_period_index := basis_cycle,
           ta_fixed_block_reward_basis_network_weight_units := basis_weight, ta_block_reward := reward,
           ta_records := map normalize_block_record (ta_records t)\<rparr>)"

record player_reward_tick_computation =
  tc_artifact :: player_reward_tick_artifact
  tc_pending_state :: "pending_player_reward_block_state option"

subsection \<open>The loop over the reward blocks\<close>

text \<open>Play time goes to the entry of the credited game, which is appended when there is none.\<close>

fun add_play_seconds ::
  "string \<times> app_id \<times> u32 \<Rightarrow> u64 \<Rightarrow> pending_player_reward_entry list \<Rightarrow> pending_player_reward_entry list" where
  "add_play_seconds (name, app, ppm) secs [] =
     [\<lparr>pn_process_name = name, pn_app_id = app, pn_game_coefficient_ppm = ppm, pn_play_seconds = secs\<rparr>]"
| "add_play_seconds (name, app, ppm) secs (e # es) =
     (if pn_app_id e = app \<and> pn_game_coefficient_ppm e = ppm \<and> pn_process_name e = name
      then e\<lparr>pn_play_seconds := saturating_add (pn_play_seconds e) secs\<rparr> # es
      else e # add_play_seconds (name, app, ppm) secs es)"

definition entry_order :: "pending_player_reward_entry \<Rightarrow> string \<times> u32 \<times> u32" where
  "entry_order e = (pn_process_name e, pn_app_id e, pn_game_coefficient_ppm e)"

record tick_setup =
  tk_activated :: "protocol_params option"
  tk_config :: node_config
  tk_context :: reward_tick_context
  tk_samples :: "activity_sample list"
  tk_active_mapping :: "(string \<times> app_id \<times> u32) option"
  tk_session_ids :: "(app_id, string) btree_map"
  tk_block_secs :: u64

definition block_record ::
  "tick_setup \<Rightarrow> pending_player_reward_block_state \<Rightarrow> u32 \<Rightarrow> pending_player_reward_entry \<Rightarrow> player_reward_block_record" where
  "block_record t pending block_index e =
     (let cx = tk_context t;
          weight = saturating_mul (ucast (pn_play_seconds e) :: amount) (ucast (pn_game_coefficient_ppm e))
      in \<lparr>br_epoch_id = cx_epoch_id cx, br_slot_id = cx_slot_id cx, br_block_index = block_index,
          br_process_name = pn_process_name e, br_app_id = pn_app_id e,
          br_session_id = (if cx_session_id cx = []
            then (case bt_get (tk_session_ids t) (pn_app_id e) of None \<Rightarrow> [] | Some sid \<Rightarrow> sid)
            else cx_session_id cx),
          br_play_seconds = pn_play_seconds e, br_reward_block_secs = tk_block_secs t,
          br_sampled_interval_secs = tk_block_secs t, br_game_coefficient_ppm = pn_game_coefficient_ppm e,
          br_observed_network_players = (case List.find (\<lambda>sample. as_app_id sample = pn_app_id e) (tk_samples t) of
            None \<Rightarrow> 0 | Some sample \<Rightarrow> as_observed_players sample),
          br_player_weight_units = weight, br_total_network_weight_units = pd_total_network_weight_units pending,
          br_reward_adjustment_period_index = 0,
          br_adjustment_cycle_index = pd_reward_adjustment_period_index pending,
          br_reward_adjustment_period_blocks = 0,
          br_adjustment_cycle_blocks = rc_reward_adjustment_period_blocks (nc_reward (tk_config t)),
          br_target_network_weight_units = 0,
          br_target_total_network_weight_units = effective_target_network_weight_units (tk_activated t) (tk_config t),
          br_reward_adjustment_cap_bps = effective_reward_adjustment_cap_bps (tk_activated t) (tk_config t),
          br_fixed_block_reward_basis_period_index = 0,
          br_fixed_player_reward_basis_cycle_index = cx_fixed_player_reward_basis_cycle_index cx,
          br_fixed_block_reward_basis_network_weight_units = 0,
          br_fixed_player_reward_basis_total_network_weight_units =
            cx_fixed_player_reward_basis_total_network_weight_units cx,
          br_block_reward = 0, br_fixed_player_reward = pd_fixed_block_reward pending,
          br_player_reward = weighted_share (pd_fixed_block_reward pending) weight
            (pd_total_network_weight_units pending)\<rparr>)"

text \<open>The rewards of the context, taken over by a block that starts.\<close>

definition start_from_context ::
  "reward_tick_context \<Rightarrow> pending_player_reward_block_state \<Rightarrow> pending_player_reward_block_state" where
  "start_from_context cx s =
     s\<lparr>pd_fixed_block_reward := cx_fixed_block_reward cx, pd_fixed_player_reward := cx_fixed_player_reward cx,
       pd_reward_adjustment_period_index := cx_reward_adjustment_period_index cx,
       pd_adjustment_cycle_index := cx_adjustment_cycle_index cx\<rparr>"

definition chunk_of :: "u64 \<Rightarrow> pending_player_reward_block_state \<Rightarrow> u64 \<Rightarrow> u64" where
  "chunk_of block_secs s remaining =
     min remaining (max (saturating_sub block_secs (pd_sampled_interval_secs s)) 1)"

definition sample_chunk :: "tick_setup \<Rightarrow> u64 \<Rightarrow> pending_player_reward_block_state \<Rightarrow> pending_player_reward_block_state" where
  "sample_chunk t chunk s =
     (let weight = saturating_add (pd_total_network_weight_units s)
            (network_weight_units_for_duration (tk_activated t) (tk_config t) (tk_samples t) chunk)
      in s\<lparr>pd_sampled_interval_secs := saturating_add (pd_sampled_interval_secs s) chunk,
           pd_total_network_weight_units := weight, pd_total_adjustment_cycle_network_weight_units := weight,
           pd_entries := (case tk_active_mapping t of
             None \<Rightarrow> pd_entries s | Some game \<Rightarrow> add_play_seconds game chunk (pd_entries s))\<rparr>)"

record tick_progress =
  tp_pending :: pending_player_reward_block_state
  tp_records :: "player_reward_block_record list"
  tp_completed :: nat
  tp_next_block_index :: u32

definition complete_block :: "tick_setup \<Rightarrow> u64 \<Rightarrow> tick_progress \<Rightarrow> tick_progress" where
  "complete_block t remaining p =
     (let pending = (tp_pending p)\<lparr>pd_entries := sort_key entry_order (pd_entries (tp_pending p))\<rparr>
      in \<lparr>tp_pending = (if remaining > 0
            then normalize_pending (start_from_context (tk_context t) default_pending_state)
            else default_pending_state),
          tp_records = tp_records p @ map (block_record t pending (tp_next_block_index p)) (pd_entries pending),
          tp_completed = tp_completed p + 1, tp_next_block_index = tp_next_block_index p + 1\<rparr>)"

lemma chunk_positive:
  assumes "0 < remaining"
  shows "0 < unat (chunk_of secs s remaining)" "chunk_of secs s remaining \<le> remaining"
  using assms by (auto simp: chunk_of_def min_def max_def word_le_nat_alt word_less_nat_alt)

function tick_loop :: "tick_setup \<Rightarrow> u64 \<Rightarrow> tick_progress \<Rightarrow> tick_progress" where
  "tick_loop t remaining p =
     (if remaining > 0
      then
        let chunk = chunk_of (tk_block_secs t) (tp_pending p) remaining;
            pending = sample_chunk t chunk (tp_pending p);
            remaining' = saturating_sub remaining chunk
        in if pd_sampled_interval_secs pending < tk_block_secs t
           then tick_loop t remaining' (p\<lparr>tp_pending := pending\<rparr>)
           else tick_loop t remaining' (complete_block t remaining' (p\<lparr>tp_pending := pending\<rparr>))
      else p)"
  by pat_completeness auto
termination
proof (relation "measure (\<lambda>(t, remaining, p). unat remaining)", goal_cases)
  case (2 t remaining p chunk)
  then show ?case
    using chunk_positive [of remaining "tk_block_secs t" "tp_pending p"]
    by (simp add: unat_saturating_sub word_less_nat_alt)
next
  case (3 t remaining p chunk)
  then show ?case
    using chunk_positive [of remaining "tk_block_secs t" "tp_pending p"]
    by (simp add: unat_saturating_sub word_less_nat_alt)
qed simp

declare tick_loop.simps [simp del]

text \<open>The set-up and the block in progress with which \<open>record_player_reward_tick\<close> enters its loop.\<close>

definition tick_setup_of ::
  "protocol_params option \<Rightarrow> play_session list \<Rightarrow> node_config \<Rightarrow> reward_tick_context \<Rightarrow> activity_sample list
    \<Rightarrow> (string \<times> app_id \<times> u32) option \<Rightarrow> tick_setup" where
  "tick_setup_of activated sessions config cx samples mapping =
     \<lparr>tk_activated = activated, tk_config = config, tk_context = cx, tk_samples = samples,
      tk_active_mapping = mapping,
      tk_session_ids = (if cx_session_id cx = []
        then local_session_ids_for_slot sessions (cx_epoch_id cx) (cx_slot_id cx) else bt_empty),
      tk_block_secs = max (effective_reward_block_secs activated config) 1\<rparr>"

definition pending_or_default :: "pending_player_reward_block_state option \<Rightarrow> pending_player_reward_block_state" where
  "pending_or_default pending = (case pending of None \<Rightarrow> default_pending_state | Some s \<Rightarrow> s)"

definition tick_start :: "reward_tick_context \<Rightarrow> pending_player_reward_block_state option \<Rightarrow> tick_progress" where
  "tick_start cx pending =
     (let initial = normalize_pending (pending_or_default pending)
      in \<lparr>tp_pending = (if pd_fixed_block_reward initial = 0 \<or> pd_sampled_interval_secs initial = 0
            then start_from_context cx initial else initial),
          tp_records = [], tp_completed = 0, tp_next_block_index = 0\<rparr>)"

definition tick_artifact ::
  "protocol_params option \<Rightarrow> node_config \<Rightarrow> reward_tick_context \<Rightarrow> string option \<Rightarrow> string list \<Rightarrow> tick_progress
    \<Rightarrow> player_reward_tick_artifact" where
  "tick_artifact activated config cx foreground active final =
     \<lparr>ta_epoch_id = cx_epoch_id cx, ta_slot_id = cx_slot_id cx,
      ta_sampled_interval_secs = max (cx_sampled_interval_secs cx) 1,
      ta_reward_block_secs = max (effective_reward_block_secs activated config) 1,
      ta_reward_adjustment_period_index = 0, ta_adjustment_cycle_index = cx_adjustment_cycle_index cx,
      ta_reward_adjustment_period_blocks = 0,
      ta_adjustment_cycle_blocks = rc_reward_adjustment_period_blocks (nc_reward config),
      ta_completed_reward_block_count = tp_completed final, ta_fixed_block_reward_basis_period_index = 0,
      ta_fixed_player_reward_basis_cycle_index = cx_fixed_player_reward_basis_cycle_index cx,
      ta_fixed_block_reward_basis_network_weight_units = 0,
      ta_fixed_player_reward_basis_total_network_weight_units =
        cx_fixed_player_reward_basis_total_network_weight_units cx,
      ta_block_reward = 0,
      ta_fixed_player_reward = (case tp_records final of
          r # _ \<Rightarrow> br_fixed_player_reward r
        | [] \<Rightarrow> max (pd_fixed_block_reward (tp_pending final)) (cx_fixed_player_reward cx)),
      ta_foreground_process = foreground, ta_active_game_processes = active, ta_records = tp_records final,
      ta_total_player_reward = (\<Sum>r\<leftarrow>tp_records final. br_player_reward r)\<rparr>"

definition record_player_reward_tick ::
  "protocol_params option \<Rightarrow> game_lookup \<Rightarrow> play_session list \<Rightarrow> node_config \<Rightarrow> reward_tick_context
    \<Rightarrow> pending_player_reward_block_state option \<Rightarrow> string option \<Rightarrow> string list \<Rightarrow> activity_sample list
    \<Rightarrow> player_reward_tick_computation option" where
  "record_player_reward_tick activated infer sessions config cx pending foreground active samples =
     map_option (\<lambda>mapping.
       let final = tick_loop (tick_setup_of activated sessions config cx samples mapping)
             (max (cx_sampled_interval_secs cx) 1) (tick_start cx pending)
       in \<lparr>tc_artifact = normalize_tick_artifact (tick_artifact activated config cx foreground active final),
           tc_pending_state = (if pd_sampled_interval_secs (tp_pending final) > 0
             then Some (tp_pending final) else None)\<rparr>)
     (select_active_game_mapping activated infer config foreground active)"

subsection \<open>The band of the adjusted reward\<close>

lemma adjusted_reward_band:
  assumes "adjusted_player_block_reward base target current cap = Some r" "unat base * 20000 < 2 ^ 128"
  defines "m \<equiv> unat (min cap 10000)"
  shows "unat base * (10000 - m) div 10000 \<le> unat r" "unat r \<le> max (unat base * (10000 + m) div 10000) 1"
proof -
  have m: "m \<le> 10000" by (simp add: m_def min_def word_le_nat_alt)
  have cap: "unat (ucast (min cap 10000) :: amount) = m" by (simp add: m_def unat_ucast_up)
  have "unat (saturating_sub 10000 (ucast (min cap 10000)) :: amount) = 10000 - m"
    by (simp add: unat_saturating_sub cap)
  moreover have "unat (saturating_add 10000 (ucast (min cap 10000)) :: amount) = 10000 + m"
    using m by (simp add: unat_saturating_add cap)
  moreover have "unat base * (10000 - m) < 2 ^ 128" "unat base * (10000 + m) < 2 ^ 128"
    by (rule le_less_trans [OF mult_le_mono2 assms(2)], use m in simp)+
  ultimately have bounds:
    "unat (saturating_mul base (saturating_sub 10000 (ucast (min cap 10000))) div 10000) = unat base * (10000 - m) div 10000"
    "unat (saturating_mul base (saturating_add 10000 (ucast (min cap 10000))) div 10000) = unat base * (10000 + m) div 10000"
    by (simp_all add: unat_div_distrib unat_saturating_mul_exact)
  have mono: "unat base * (10000 - m) div 10000 \<le> unat base" "unat base \<le> unat base * (10000 + m) div 10000"
    using div_le_mono [of "unat base * (10000 - m)" "unat base * 10000" 10000]
      div_le_mono [of "unat base * 10000" "unat base * (10000 + m)" 10000] by simp_all
  consider "base = 0" "r = 0" | "base \<noteq> 0" "r = base" | x where
    "r = max (clamp x (saturating_mul base (saturating_sub 10000 (ucast (min cap 10000))) div 10000)
       (saturating_mul base (saturating_add 10000 (ucast (min cap 10000))) div 10000)) 1"
    using assms(1) by (auto simp: adjusted_player_block_reward_def Let_def split: if_splits)
  then have "unat base * (10000 - m) div 10000 \<le> unat r \<and> unat r \<le> max (unat base * (10000 + m) div 10000) 1"
  proof cases
    case (3 x)
    let ?lo = "saturating_mul base (saturating_sub 10000 (ucast (min cap 10000))) div 10000"
      and ?hi = "saturating_mul base (saturating_add 10000 (ucast (min cap 10000))) div 10000"
    have "?lo \<le> ?hi" unfolding word_le_nat_alt bounds using mono by (rule order.trans)
    from clamp_bounds [OF this, of x] have "unat ?lo \<le> unat (clamp x ?lo ?hi)" "unat (clamp x ?lo ?hi) \<le> unat ?hi"
      by (simp_all add: word_le_nat_alt)
    moreover have "unat r = max (unat (clamp x ?lo ?hi)) 1" unfolding 3 by (simp add: max_def word_le_nat_alt)
    ultimately show ?thesis unfolding bounds by linarith
  qed (use mono in \<open>auto simp: max_def\<close>)
  then show "unat base * (10000 - m) div 10000 \<le> unat r" "unat r \<le> max (unat base * (10000 + m) div 10000) 1"
    by simp_all
qed

subsection \<open>Process names\<close>

text \<open>A name in ASCII never panics; the two characters of the Chinese word for game do.\<close>

lemma canonical_process_name_ascii:
  assumes "\<forall>c \<in> set name. of_char c < (128 :: nat)"
  shows "canonical_process_name name \<noteq> None"
proof -
  have "char_boundary (trim name) (length (trim name) - 4)" if "4 \<le> length (trim name)"
  proof -
    have "trim name ! (length (trim name) - 4) \<in> set (trim name)" using that by (intro nth_mem) simp
    with set_trim [of name] assms have "of_char (trim name ! (length (trim name) - 4)) < (128 :: nat)" by blast
    then show ?thesis using that by (auto simp: char_boundary_def)
  qed
  then show ?thesis by (simp add: canonical_process_name_def Let_def)
qed

lemma canonical_process_name_panics: "canonical_process_name (utf8 [0xE6, 0xB8, 0xB8, 0xE6, 0x88, 0x8F]) = None"
  by code_simp

end
