(* ===== verification/Tick_Accounting.thy ===== *)
theory Tick_Accounting
  imports Reward_Tick
begin

text \<open>
  What a reward tick guarantees (\<open>record_player_reward_tick\<close>): every sampled second lands in exactly
  one reward block, the play time of a block never exceeds the length of the block, and, when the
  samples cover the credited game, the rewards of a block add up to at most its fixed reward. The
  invariant \<open>balanced\<close> of the block in progress carries the last two from tick to tick.
\<close>

definition played :: "pending_player_reward_entry list \<Rightarrow> nat" where
  "played es = (\<Sum>e\<leftarrow>es. unat (pn_play_seconds e))"

definition entry_weight :: "pending_player_reward_entry \<Rightarrow> nat" where
  "entry_weight e = unat (pn_play_seconds e) * unat (pn_game_coefficient_ppm e)"

definition balanced :: "u64 \<Rightarrow> pending_player_reward_block_state \<Rightarrow> bool" where
  "balanced secs s \<longleftrightarrow> pd_sampled_interval_secs s < secs
     \<and> played (pd_entries s) \<le> unat (pd_sampled_interval_secs s)
     \<and> (\<Sum>e\<leftarrow>pd_entries s. entry_weight e) \<le> unat (pd_total_network_weight_units s)
     \<and> pd_total_adjustment_cycle_network_weight_units s = pd_total_network_weight_units s"

subsection \<open>Adding play time\<close>

lemma played_add:
  assumes "played es + unat secs < 2 ^ 64"
  shows "played (add_play_seconds (name, app, ppm) secs es) = played es + unat secs"
    and "(\<Sum>e\<leftarrow>add_play_seconds (name, app, ppm) secs es. entry_weight e)
      = (\<Sum>e\<leftarrow>es. entry_weight e) + unat secs * unat ppm"
proof -
  have "played (add_play_seconds (name, app, ppm) secs es) = played es + unat secs
    \<and> (\<Sum>e\<leftarrow>add_play_seconds (name, app, ppm) secs es. entry_weight e)
      = (\<Sum>e\<leftarrow>es. entry_weight e) + unat secs * unat ppm"
    using assms
  proof (induction es)
    case (Cons e es)
    then have "unat (saturating_add (pn_play_seconds e) secs) = unat (pn_play_seconds e) + unat secs"
      by (simp add: unat_saturating_add played_def)
    with Cons show ?case by (auto simp: played_def entry_weight_def algebra_simps)
  qed (simp add: played_def entry_weight_def)
  then show "played (add_play_seconds (name, app, ppm) secs es) = played es + unat secs"
    and "(\<Sum>e\<leftarrow>add_play_seconds (name, app, ppm) secs es. entry_weight e)
      = (\<Sum>e\<leftarrow>es. entry_weight e) + unat secs * unat ppm" by simp_all
qed

lemma weights_bound: "(\<Sum>e\<leftarrow>es. entry_weight e) \<le> played es * (2 ^ 32 - 1)"
proof (induction es)
  case (Cons e es)
  have "unat (pn_game_coefficient_ppm e) \<le> 2 ^ 32 - 1"
    using unat_bound [of "pn_game_coefficient_ppm e"] by simp
  then have "entry_weight e \<le> unat (pn_play_seconds e) * (2 ^ 32 - 1)"
    unfolding entry_weight_def by (rule mult_le_mono2)
  with Cons show ?case by (simp add: played_def add_mult_distrib)
qed (simp add: played_def)

subsection \<open>The weight of the network\<close>

text \<open>The samples contain at least one player of the credited game, and no product overflows.\<close>

definition sample_weight :: "tick_setup \<Rightarrow> nat \<Rightarrow> activity_sample \<Rightarrow> nat" where
  "sample_weight t duration sample = unat (as_observed_players sample) * duration
     * unat (game_coefficient_ppm_for_app (tk_activated t) (tk_config t) (as_app_id sample))"

definition covered :: "tick_setup \<Rightarrow> bool" where
  "covered t \<longleftrightarrow> (\<Sum>sample\<leftarrow>tk_samples t. sample_weight t (unat (tk_block_secs t)) sample) < 2 ^ 128
     \<and> (case tk_active_mapping t of
          None \<Rightarrow> True
        | Some (name, app, ppm) \<Rightarrow> ppm = game_coefficient_ppm_for_app (tk_activated t) (tk_config t) app
            \<and> (\<exists>sample \<in> set (tk_samples t). as_app_id sample = app \<and> as_observed_players sample \<noteq> 0))"

lemma unat_sum_list_words:
  "(\<Sum>x\<leftarrow>xs. unat (f x)) < 2 ^ LENGTH('a) \<Longrightarrow> unat (\<Sum>x\<leftarrow>xs. f x) = (\<Sum>x\<leftarrow>xs. unat (f x :: 'a::len word))"
proof (induction xs)
  case (Cons x xs)
  then show ?case by (simp add: unat_add_exact)
qed simp

lemma sample_weight_word:
  fixes duration :: u64
  assumes "sample_weight t (unat duration) sample < 2 ^ 128"
  shows "unat (saturating_mul (saturating_mul (ucast (as_observed_players sample)) (ucast duration))
    (ucast (game_coefficient_ppm_for_app (tk_activated t) (tk_config t) (as_app_id sample))) :: amount)
    = sample_weight t (unat duration) sample"
proof -
  let ?p = "ucast (as_observed_players sample) :: amount" and ?d = "ucast duration :: amount"
  have "unat (as_observed_players sample) * unat duration < 2 ^ 64 * 2 ^ 64"
    using unat_bound [of "as_observed_players sample"] unat_bound [of duration]
    by (intro mult_strict_mono) simp_all
  then have "unat (saturating_mul ?p ?d) = unat (as_observed_players sample) * unat duration"
    by (subst unat_saturating_mul_exact) (simp_all add: unat_ucast_up)
  with assms show ?thesis
    by (subst unat_saturating_mul_exact) (simp_all add: unat_ucast_up sample_weight_def)
qed

lemma sum_list_pointwise: "(\<And>x. x \<in> set xs \<Longrightarrow> f x \<le> g x) \<Longrightarrow> (\<Sum>x\<leftarrow>xs. f x) \<le> (\<Sum>x\<leftarrow>xs. g x :: nat)"
  by (induction xs) (auto intro: add_mono)

lemma network_weight:
  assumes "covered t" "chunk \<le> tk_block_secs t"
  shows "unat (network_weight_units_for_duration (tk_activated t) (tk_config t) (tk_samples t) chunk)
      = (\<Sum>sample\<leftarrow>tk_samples t. sample_weight t (unat chunk) sample)"
    and "tk_active_mapping t = Some (name, app, ppm) \<Longrightarrow>
      unat chunk * unat ppm \<le> (\<Sum>sample\<leftarrow>tk_samples t. sample_weight t (unat chunk) sample)"
proof -
  have "(\<Sum>sample\<leftarrow>tk_samples t. sample_weight t (unat chunk) sample)
      \<le> (\<Sum>sample\<leftarrow>tk_samples t. sample_weight t (unat (tk_block_secs t)) sample)"
    using assms(2) by (intro sum_list_pointwise) (simp add: sample_weight_def word_le_nat_alt)
  with assms(1) have fits: "(\<Sum>sample\<leftarrow>tk_samples t. sample_weight t (unat chunk) sample) < 2 ^ 128"
    by (simp add: covered_def)
  have each: "unat (saturating_mul (saturating_mul (ucast (as_observed_players sample)) (ucast chunk))
      (ucast (game_coefficient_ppm_for_app (tk_activated t) (tk_config t) (as_app_id sample))) :: amount)
      = sample_weight t (unat chunk) sample" if "sample \<in> set (tk_samples t)" for sample
    using member_le_sum_list [of "sample_weight t (unat chunk) sample" "map (sample_weight t (unat chunk)) (tk_samples t)"]
      fits that by (intro sample_weight_word) simp
  then have "(\<Sum>sample\<leftarrow>tk_samples t. unat (saturating_mul (saturating_mul (ucast (as_observed_players sample)) (ucast chunk))
      (ucast (game_coefficient_ppm_for_app (tk_activated t) (tk_config t) (as_app_id sample))) :: amount))
      = (\<Sum>sample\<leftarrow>tk_samples t. sample_weight t (unat chunk) sample)"
    by (intro arg_cong [of _ _ sum_list] map_cong) simp_all
  with fits show "unat (network_weight_units_for_duration (tk_activated t) (tk_config t) (tk_samples t) chunk)
      = (\<Sum>sample\<leftarrow>tk_samples t. sample_weight t (unat chunk) sample)"
    unfolding network_weight_units_for_duration_def by (subst unat_sum_list_words) simp_all
  assume "tk_active_mapping t = Some (name, app, ppm)"
  with assms(1) obtain sample where s: "sample \<in> set (tk_samples t)" "as_observed_players sample \<noteq> 0"
    "ppm = game_coefficient_ppm_for_app (tk_activated t) (tk_config t) (as_app_id sample)"
    by (auto simp: covered_def)
  then have "1 \<le> unat (as_observed_players sample)" by (simp add: unat_gt_0 Suc_le_eq)
  then have "1 * (unat chunk * unat ppm) \<le> unat (as_observed_players sample) * (unat chunk * unat ppm)"
    by (rule mult_le_mono1)
  then have "unat chunk * unat ppm \<le> sample_weight t (unat chunk) sample"
    by (simp add: sample_weight_def s(3) mult.assoc)
  also have "\<dots> \<le> (\<Sum>sample\<leftarrow>tk_samples t. sample_weight t (unat chunk) sample)"
    using s(1) by (intro member_le_sum_list) simp_all
  finally show "unat chunk * unat ppm \<le> (\<Sum>sample\<leftarrow>tk_samples t. sample_weight t (unat chunk) sample)" .
qed

subsection \<open>One chunk\<close>

lemma chunk_fits:
  assumes "pd_sampled_interval_secs s < secs"
  shows "unat (pd_sampled_interval_secs s) + unat (chunk_of secs s remaining) \<le> unat secs"
    and "chunk_of secs s remaining \<le> secs"
    and "unat (saturating_add (pd_sampled_interval_secs s) (chunk_of secs s remaining))
      = unat (pd_sampled_interval_secs s) + unat (chunk_of secs s remaining)"
proof -
  have "unat (saturating_sub secs (pd_sampled_interval_secs s)) = unat secs - unat (pd_sampled_interval_secs s)"
    by (simp add: unat_saturating_sub)
  then show le: "unat (pd_sampled_interval_secs s) + unat (chunk_of secs s remaining) \<le> unat secs"
    using assms by (auto simp: chunk_of_def min_def max_def word_le_nat_alt word_less_nat_alt)
  then show "chunk_of secs s remaining \<le> secs" by (simp add: word_le_nat_alt)
  show "unat (saturating_add (pd_sampled_interval_secs s) (chunk_of secs s remaining))
      = unat (pd_sampled_interval_secs s) + unat (chunk_of secs s remaining)"
    using le unat_bound [of secs] by (simp add: unat_saturating_add)
qed

text \<open>Sampling a chunk keeps the play time and the weights within what was sampled.\<close>

lemma sample_chunk_balanced:
  fixes remaining :: u64
  assumes "balanced (tk_block_secs t) s"
  defines "chunk \<equiv> chunk_of (tk_block_secs t) s remaining"
  defines "s' \<equiv> sample_chunk t chunk s"
  shows "played (pd_entries s') \<le> unat (pd_sampled_interval_secs s')"
    and "pd_total_adjustment_cycle_network_weight_units s' = pd_total_network_weight_units s'"
    and "covered t \<Longrightarrow> (\<Sum>e\<leftarrow>pd_entries s'. entry_weight e) \<le> unat (pd_total_network_weight_units s')"
proof -
  show "pd_total_adjustment_cycle_network_weight_units s' = pd_total_network_weight_units s'"
    by (simp add: s'_def sample_chunk_def Let_def)
  have sampled: "pd_sampled_interval_secs s < tk_block_secs t" and old: "played (pd_entries s) \<le> unat (pd_sampled_interval_secs s)"
    and weights: "(\<Sum>e\<leftarrow>pd_entries s. entry_weight e) \<le> unat (pd_total_network_weight_units s)"
    using assms(1) by (auto simp: balanced_def)
  note c = chunk_fits [OF sampled, of remaining, folded chunk_def]
  have room: "played (pd_entries s) + unat chunk < 2 ^ 64"
    using old c(1) unat_bound [of "tk_block_secs t"] by simp
  have secs': "unat (pd_sampled_interval_secs s') = unat (pd_sampled_interval_secs s) + unat chunk"
    by (simp add: s'_def sample_chunk_def Let_def c(3))
  have entries': "played (pd_entries s') \<le> played (pd_entries s) + unat chunk
      \<and> (\<Sum>e\<leftarrow>pd_entries s'. entry_weight e) = (\<Sum>e\<leftarrow>pd_entries s. entry_weight e)
        + (case tk_active_mapping t of None \<Rightarrow> 0 | Some (name, app, ppm) \<Rightarrow> unat chunk * unat ppm)"
    using played_add [OF room] by (auto simp: s'_def sample_chunk_def Let_def split: option.split)
  then show within: "played (pd_entries s') \<le> unat (pd_sampled_interval_secs s')"
    using old secs' by linarith
  assume cov: "covered t"
  let ?n = "\<Sum>sample\<leftarrow>tk_samples t. sample_weight t (unat chunk) sample"
  have total': "unat (pd_total_network_weight_units s') = min (unat (pd_total_network_weight_units s) + ?n) (2 ^ 128 - 1)"
    by (simp add: s'_def sample_chunk_def Let_def unat_saturating_add network_weight(1) [OF cov c(2)])
  have "(case tk_active_mapping t of None \<Rightarrow> 0 | Some (name, app, ppm) \<Rightarrow> unat chunk * unat ppm) \<le> ?n"
    using network_weight(2) [OF cov c(2)] by (auto split: option.split)
  then have "(\<Sum>e\<leftarrow>pd_entries s'. entry_weight e) \<le> unat (pd_total_network_weight_units s) + ?n"
    using entries' weights by linarith
  moreover have "(\<Sum>e\<leftarrow>pd_entries s'. entry_weight e) \<le> 2 ^ 128 - 1"
  proof -
    have "played (pd_entries s') \<le> 2 ^ 64" using within unat_bound [of "pd_sampled_interval_secs s'"] by simp
    then have "played (pd_entries s') * (2 ^ 32 - 1) \<le> 2 ^ 64 * (2 ^ 32 - 1)" by (rule mult_le_mono1)
    with weights_bound [of "pd_entries s'"] show ?thesis by simp
  qed
  ultimately show "(\<Sum>e\<leftarrow>pd_entries s'. entry_weight e) \<le> unat (pd_total_network_weight_units s')"
    unfolding total' by simp
qed

subsection \<open>A completed block\<close>

definition fair_block :: "u64 \<Rightarrow> player_reward_block_record list \<Rightarrow> bool" where
  "fair_block secs rs \<longleftrightarrow> (\<Sum>r\<leftarrow>rs. unat (br_play_seconds r)) \<le> unat secs
     \<and> (\<exists>reward. (\<forall>r \<in> set rs. br_fixed_player_reward r = reward)
         \<and> (\<Sum>r\<leftarrow>rs. unat (br_player_reward r)) \<le> unat reward)"

lemma unat_weighted_share:
  "unat (weighted_share pool weight all) \<le> unat pool * unat weight div unat all"
  by (auto simp: weighted_share_def unat_div_distrib unat_saturating_mul intro: div_le_mono)

lemma sum_floors: "(\<Sum>x\<leftarrow>xs. p * w x div (n::nat)) \<le> p * (\<Sum>x\<leftarrow>xs. w x) div n"
proof (induction xs)
  case (Cons x xs)
  have "p * w x div n + p * (\<Sum>x\<leftarrow>xs. w x) div n \<le> (p * w x + p * (\<Sum>x\<leftarrow>xs. w x)) div n"
    unfolding div_add1_eq [of "p * w x"] by simp
  with Cons show ?case by (simp add: distrib_left)
qed simp

lemma block_records_fair:
  assumes "(\<Sum>e\<leftarrow>es. entry_weight e) \<le> unat (pd_total_network_weight_units s)"
    and "played es \<le> unat secs"
  shows "fair_block secs (map (block_record t s index) es)"
proof -
  let ?pool = "pd_fixed_block_reward s" and ?all = "pd_total_network_weight_units s"
  have weight: "unat (saturating_mul (ucast (pn_play_seconds e)) (ucast (pn_game_coefficient_ppm e)) :: amount) = entry_weight e" for e
  proof -
    have "unat (pn_play_seconds e) * unat (pn_game_coefficient_ppm e) < 2 ^ 64 * 2 ^ 32"
      using unat_bound [of "pn_play_seconds e"] unat_bound [of "pn_game_coefficient_ppm e"]
      by (intro mult_strict_mono) simp_all
    then show ?thesis
      by (subst unat_saturating_mul_exact) (simp_all add: unat_ucast_up entry_weight_def)
  qed
  have "(\<Sum>e\<leftarrow>es. unat (br_player_reward (block_record t s index e)))
      \<le> (\<Sum>e\<leftarrow>es. unat ?pool * entry_weight e div unat ?all)"
  proof (rule sum_list_pointwise)
    fix e
    show "unat (br_player_reward (block_record t s index e)) \<le> unat ?pool * entry_weight e div unat ?all"
      using unat_weighted_share [of ?pool "saturating_mul (ucast (pn_play_seconds e)) (ucast (pn_game_coefficient_ppm e))" ?all]
      by (simp add: block_record_def Let_def weight)
  qed
  also have "\<dots> \<le> unat ?pool * (\<Sum>e\<leftarrow>es. entry_weight e) div unat ?all" by (rule sum_floors)
  also have "\<dots> \<le> unat ?pool * unat ?all div unat ?all" using assms(1) by (intro div_le_mono mult_le_mono2)
  also have "\<dots> \<le> unat ?pool" by simp
  finally have "(\<Sum>e\<leftarrow>es. unat (br_player_reward (block_record t s index e))) \<le> unat ?pool" .
  then show ?thesis
    using assms(2) by (auto simp: fair_block_def comp_def played_def block_record_def Let_def)
qed

subsection \<open>The loop\<close>

lemma fresh_pending:
  "pd_sampled_interval_secs (tp_pending (complete_block t remaining p)) = 0"
  "0 < secs \<Longrightarrow> balanced secs (tp_pending (complete_block t remaining p))"
  by (simp_all add: complete_block_def Let_def normalize_pending_def start_from_context_def default_pending_state_def
      balanced_def played_def)

lemma completed_complete_block: "tp_completed (complete_block t remaining p) = tp_completed p + 1"
  by (simp add: complete_block_def Let_def)

lemma tick_loop_step:
  fixes t :: tick_setup and p :: tick_progress
  assumes "0 < remaining"
  defines "chunk \<equiv> chunk_of (tk_block_secs t) (tp_pending p) remaining"
  shows "tick_loop t remaining p = tick_loop t (saturating_sub remaining chunk)
    (if pd_sampled_interval_secs (sample_chunk t chunk (tp_pending p)) < tk_block_secs t
     then p\<lparr>tp_pending := sample_chunk t chunk (tp_pending p)\<rparr>
     else complete_block t (saturating_sub remaining chunk) (p\<lparr>tp_pending := sample_chunk t chunk (tp_pending p)\<rparr>))"
  using assms(1) by (subst tick_loop.simps) (simp add: Let_def chunk_def)

lemma tick_loop_time:
  assumes "pd_sampled_interval_secs (tp_pending p) < tk_block_secs t"
  defines "S \<equiv> unat (tk_block_secs t)"
  shows "pd_sampled_interval_secs (tp_pending (tick_loop t remaining p)) < tk_block_secs t
    \<and> tp_completed (tick_loop t remaining p) * S + unat (pd_sampled_interval_secs (tp_pending (tick_loop t remaining p)))
      = tp_completed p * S + unat (pd_sampled_interval_secs (tp_pending p)) + unat remaining"
  using assms(1)
proof (induction "unat remaining" arbitrary: remaining p rule: less_induct)
  case less
  show ?case
  proof (cases "0 < remaining")
    case False
    then have "remaining = 0" using word_neq_0_conv by blast
    with less.prems show ?thesis by (simp add: tick_loop.simps)
  next
    case True
    let ?chunk = "chunk_of (tk_block_secs t) (tp_pending p) remaining"
    let ?s = "sample_chunk t ?chunk (tp_pending p)"
    let ?p = "if pd_sampled_interval_secs ?s < tk_block_secs t then p\<lparr>tp_pending := ?s\<rparr>
      else complete_block t (saturating_sub remaining ?chunk) (p\<lparr>tp_pending := ?s\<rparr>)"
    note c = chunk_positive [OF True, of "tk_block_secs t" "tp_pending p"] and f = chunk_fits [OF less.prems, of remaining]
    have rest: "unat (saturating_sub remaining ?chunk) = unat remaining - unat ?chunk" by (simp add: unat_saturating_sub)
    have smaller: "unat (saturating_sub remaining ?chunk) < unat remaining"
      using c True by (simp add: rest word_less_nat_alt)
    have s: "unat (pd_sampled_interval_secs ?s) = unat (pd_sampled_interval_secs (tp_pending p)) + unat ?chunk"
      using f(3) by (simp add: sample_chunk_def Let_def)
    have start: "pd_sampled_interval_secs (tp_pending ?p) < tk_block_secs t"
      using less.prems by (auto simp: fresh_pending word_less_nat_alt)
    have "tp_completed ?p * S + unat (pd_sampled_interval_secs (tp_pending ?p))
        = tp_completed p * S + unat (pd_sampled_interval_secs (tp_pending p)) + unat ?chunk"
      using s f(1) by (auto simp: fresh_pending S_def completed_complete_block word_less_nat_alt)
    moreover have "unat ?chunk \<le> unat remaining" using c(2) by (simp add: word_le_nat_alt)
    ultimately show ?thesis
      using less.hyps [OF smaller start] unfolding tick_loop_step [OF True] rest by linarith
  qed
qed

lemma tick_loop_blocks:
  assumes "balanced (tk_block_secs t) (tp_pending p)" "covered t"
  shows "\<exists>bs. tp_records (tick_loop t remaining p) = tp_records p @ concat bs
    \<and> tp_completed (tick_loop t remaining p) = tp_completed p + length bs
    \<and> (\<forall>b \<in> set bs. fair_block (tk_block_secs t) b)
    \<and> balanced (tk_block_secs t) (tp_pending (tick_loop t remaining p))"
  using assms(1)
proof (induction "unat remaining" arbitrary: remaining p rule: less_induct)
  case less
  have S: "0 < tk_block_secs t" using less.prems by (auto simp: balanced_def word_less_nat_alt)
  show ?case
  proof (cases "0 < remaining")
    case False
    then have "remaining = 0" using word_neq_0_conv by blast
    with less.prems show ?thesis by (intro exI [of _ "[]"]) (simp add: tick_loop.simps)
  next
    case True
    let ?chunk = "chunk_of (tk_block_secs t) (tp_pending p) remaining"
    let ?r = "saturating_sub remaining ?chunk" and ?s = "sample_chunk t ?chunk (tp_pending p)"
    have smaller: "unat ?r < unat remaining"
      using chunk_positive [OF True, of "tk_block_secs t" "tp_pending p"] True
      by (simp add: unat_saturating_sub word_less_nat_alt)
    note kept = sample_chunk_balanced [OF less.prems, of remaining]
    show ?thesis
    proof (cases "pd_sampled_interval_secs ?s < tk_block_secs t")
      case more: True
      have "balanced (tk_block_secs t) ?s" using kept assms(2) more by (simp add: balanced_def)
      with less.hyps [OF smaller, of "p\<lparr>tp_pending := ?s\<rparr>"] more show ?thesis
        unfolding tick_loop_step [OF True] by simp
    next
      case full: False
      let ?p = "complete_block t ?r (p\<lparr>tp_pending := ?s\<rparr>)"
      let ?es = "sort_key entry_order (pd_entries ?s)"
      let ?b = "map (block_record t (?s\<lparr>pd_entries := ?es\<rparr>) (tp_next_block_index p)) ?es"
      have sampled: "unat (pd_sampled_interval_secs ?s) \<le> unat (tk_block_secs t)"
        using less.prems chunk_fits [of "tp_pending p" "tk_block_secs t" remaining]
        by (simp add: balanced_def sample_chunk_def Let_def)
      have "mset ?es = mset (pd_entries ?s)" by simp
      then have perm: "(\<Sum>e\<leftarrow>?es. f e) = (\<Sum>e\<leftarrow>pd_entries ?s. f e)" for f :: "pending_player_reward_entry \<Rightarrow> nat"
        by (metis mset_map sum_mset_sum_list)
      have fair: "fair_block (tk_block_secs t) ?b"
        by (rule block_records_fair) (use kept assms(2) sampled perm in \<open>simp_all add: played_def\<close>)
      obtain bs where "tp_records (tick_loop t ?r ?p) = tp_records ?p @ concat bs"
        "tp_completed (tick_loop t ?r ?p) = tp_completed ?p + length bs" "\<forall>b \<in> set bs. fair_block (tk_block_secs t) b"
        "balanced (tk_block_secs t) (tp_pending (tick_loop t ?r ?p))"
        using less.hyps [OF smaller fresh_pending(2) [OF S]] by blast
      with fair full show ?thesis
        unfolding tick_loop_step [OF True]
        by (intro exI [of _ "?b # bs"]) (simp add: complete_block_def Let_def)
    qed
  qed
qed

subsection \<open>The tick\<close>

lemma normalize_pending_balanced:
  assumes "balanced secs s"
  shows "balanced secs (normalize_pending s)" "balanced secs (start_from_context cx (normalize_pending s))"
proof -
  have "pd_total_network_weight_units (normalize_pending s) = pd_total_network_weight_units s"
    "pd_total_adjustment_cycle_network_weight_units (normalize_pending s) = pd_total_network_weight_units s"
    "pd_entries (normalize_pending s) = pd_entries s"
    "pd_sampled_interval_secs (normalize_pending s) = pd_sampled_interval_secs s"
    using assms by (simp_all add: balanced_def normalize_pending_def Let_def)
  then show "balanced secs (normalize_pending s)" "balanced secs (start_from_context cx (normalize_pending s))"
    using assms by (simp_all only: balanced_def start_from_context_def) simp_all
qed

lemma normalize_block_record_same [simp]:
  "br_play_seconds (normalize_block_record r) = br_play_seconds r"
  "br_player_reward (normalize_block_record r) = br_player_reward r"
  by (simp_all add: normalize_block_record_def Let_def)

lemma record_player_reward_tick_Some:
  assumes "record_player_reward_tick activated infer sessions config cx pending foreground active samples = Some c"
  obtains mapping where
    "select_active_game_mapping activated infer config foreground active = Some mapping"
    "ta_records (tc_artifact c) = map normalize_block_record (tp_records (tick_loop
       (tick_setup_of activated sessions config cx samples mapping) (max (cx_sampled_interval_secs cx) 1) (tick_start cx pending)))"
    "ta_completed_reward_block_count (tc_artifact c) = tp_completed (tick_loop
       (tick_setup_of activated sessions config cx samples mapping) (max (cx_sampled_interval_secs cx) 1) (tick_start cx pending))"
    "tc_pending_state c = (let s = tp_pending (tick_loop (tick_setup_of activated sessions config cx samples mapping)
       (max (cx_sampled_interval_secs cx) 1) (tick_start cx pending)) in if pd_sampled_interval_secs s > 0 then Some s else None)"
    "ta_total_player_reward (tc_artifact c) = (\<Sum>r\<leftarrow>ta_records (tc_artifact c). br_player_reward r)"
proof -
  obtain mapping where m: "select_active_game_mapping activated infer config foreground active = Some mapping"
    using assms by (auto simp: record_player_reward_tick_def)
  define final where "final = tick_loop (tick_setup_of activated sessions config cx samples mapping)
    (max (cx_sampled_interval_secs cx) 1) (tick_start cx pending)"
  have c: "c = \<lparr>tc_artifact = normalize_tick_artifact (tick_artifact activated config cx foreground active final),
      tc_pending_state = (if pd_sampled_interval_secs (tp_pending final) > 0 then Some (tp_pending final) else None)\<rparr>"
    using assms m by (auto simp: record_player_reward_tick_def Let_def final_def)
  show thesis
    by (rule that [OF m, folded final_def])
      (simp_all add: c normalize_tick_artifact_def tick_artifact_def Let_def comp_def)
qed

lemma tick_start_simps [simp]:
  "tp_records (tick_start cx pending) = []" "tp_completed (tick_start cx pending) = 0"
  by (simp_all add: tick_start_def Let_def)

lemma tick_start_pending:
  "pd_sampled_interval_secs (tp_pending (tick_start cx pending)) = pd_sampled_interval_secs (pending_or_default pending)"
  "balanced secs (pending_or_default pending) \<Longrightarrow> balanced secs (tp_pending (tick_start cx pending))"
  using normalize_pending_balanced [of secs "pending_or_default pending"]
  by (auto simp: tick_start_def Let_def normalize_pending_def start_from_context_def)

lemma fair_block_normalized:
  assumes "fair_block secs b" "\<forall>r \<in> set b. br_block_reward r = 0"
  shows "fair_block secs (map normalize_block_record b)"
proof -
  have "br_fixed_player_reward (normalize_block_record r) = br_fixed_player_reward r" if "r \<in> set b" for r
    using assms(2) that by (simp add: normalize_block_record_def Let_def)
  with assms(1) show ?thesis by (auto simp: fair_block_def comp_def)
qed

lemma tick_loop_unnormalized:
  "\<forall>r \<in> set (tp_records p). br_block_reward r = 0 \<Longrightarrow> \<forall>r \<in> set (tp_records (tick_loop t remaining p)). br_block_reward r = 0"
proof (induction "unat remaining" arbitrary: remaining p rule: less_induct)
  case less
  show ?case
  proof (cases "0 < remaining")
    case True
    let ?chunk = "chunk_of (tk_block_secs t) (tp_pending p) remaining"
    have smaller: "unat (saturating_sub remaining ?chunk) < unat remaining"
      using chunk_positive [OF True, of "tk_block_secs t" "tp_pending p"] True
      by (simp add: unat_saturating_sub word_less_nat_alt)
    show ?thesis
      unfolding tick_loop_step [OF True] using less.prems
      by (intro less.hyps [OF smaller]) (auto simp: complete_block_def Let_def block_record_def)
  qed (use less.prems in \<open>simp add: tick_loop.simps\<close>)
qed

text \<open>Every second of the tick and of the block in progress is accounted for exactly once.\<close>

lemma tick_time:
  assumes "record_player_reward_tick activated infer sessions config cx pending foreground active samples = Some c"
    and "pd_sampled_interval_secs (pending_or_default pending) < max (effective_reward_block_secs activated config) 1"
  defines "S \<equiv> unat (max (effective_reward_block_secs activated config) 1)"
    and "T \<equiv> unat (pd_sampled_interval_secs (pending_or_default pending)) + unat (max (cx_sampled_interval_secs cx) 1)"
  shows "ta_completed_reward_block_count (tc_artifact c) = T div S"
    and "unat (pd_sampled_interval_secs (pending_or_default (tc_pending_state c))) = T mod S"
proof -
  obtain mapping where c: "ta_completed_reward_block_count (tc_artifact c) = tp_completed (tick_loop
       (tick_setup_of activated sessions config cx samples mapping) (max (cx_sampled_interval_secs cx) 1) (tick_start cx pending))"
    "tc_pending_state c = (let s = tp_pending (tick_loop (tick_setup_of activated sessions config cx samples mapping)
       (max (cx_sampled_interval_secs cx) 1) (tick_start cx pending)) in if pd_sampled_interval_secs s > 0 then Some s else None)"
    by (rule record_player_reward_tick_Some [OF assms(1)])
  let ?f = "tick_loop (tick_setup_of activated sessions config cx samples mapping)
       (max (cx_sampled_interval_secs cx) 1) (tick_start cx pending)"
  have secs: "tk_block_secs (tick_setup_of activated sessions config cx samples mapping)
      = max (effective_reward_block_secs activated config) 1" by (simp add: tick_setup_of_def)
  have "pd_sampled_interval_secs (tp_pending ?f) < max (effective_reward_block_secs activated config) 1
      \<and> tp_completed ?f * S + unat (pd_sampled_interval_secs (tp_pending ?f)) = T"
    using tick_loop_time [of "tick_start cx pending" "tick_setup_of activated sessions config cx samples mapping"
        "max (cx_sampled_interval_secs cx) 1"] assms(2)
    by (simp add: secs tick_start_pending(1) S_def T_def)
  then have "unat (pd_sampled_interval_secs (tp_pending ?f)) < S" "T = S * tp_completed ?f + unat (pd_sampled_interval_secs (tp_pending ?f))"
    by (simp_all add: S_def word_less_nat_alt mult.commute)
  then have "T div S = tp_completed ?f" "T mod S = unat (pd_sampled_interval_secs (tp_pending ?f))" by simp_all
  moreover have "pd_sampled_interval_secs (pending_or_default (tc_pending_state c)) = pd_sampled_interval_secs (tp_pending ?f)"
  proof (cases "0 < pd_sampled_interval_secs (tp_pending ?f)")
    case False
    then have "pd_sampled_interval_secs (tp_pending ?f) = 0" using word_neq_0_conv by blast
    then show ?thesis by (simp add: c(2) pending_or_default_def default_pending_state_def)
  qed (simp add: c(2) pending_or_default_def)
  ultimately show "ta_completed_reward_block_count (tc_artifact c) = T div S"
    and "unat (pd_sampled_interval_secs (pending_or_default (tc_pending_state c))) = T mod S"
    using c(1) by simp_all
qed

lemma concat_eq_map: "map f (concat bs) = concat (map (map f) bs)"
  by (induction bs) simp_all

lemma tick_blocks:
  assumes "record_player_reward_tick activated infer sessions config cx pending foreground active samples = Some c"
    and "select_active_game_mapping activated infer config foreground active = Some mapping"
    and "covered (tick_setup_of activated sessions config cx samples mapping)"
    and "balanced (max (effective_reward_block_secs activated config) 1) (pending_or_default pending)"
  shows "\<exists>bs. ta_records (tc_artifact c) = concat bs \<and> length bs = ta_completed_reward_block_count (tc_artifact c)
    \<and> (\<forall>b \<in> set bs. fair_block (max (effective_reward_block_secs activated config) 1) b)"
    and "balanced (max (effective_reward_block_secs activated config) 1) (pending_or_default (tc_pending_state c))"
proof -
  let ?S = "max (effective_reward_block_secs activated config) 1"
  let ?t = "tick_setup_of activated sessions config cx samples mapping"
  let ?f = "tick_loop ?t (max (cx_sampled_interval_secs cx) 1) (tick_start cx pending)"
  have c: "ta_records (tc_artifact c) = map normalize_block_record (tp_records ?f)"
    "ta_completed_reward_block_count (tc_artifact c) = tp_completed ?f"
    "tc_pending_state c = (let s = tp_pending ?f in if pd_sampled_interval_secs s > 0 then Some s else None)"
    using assms(2) by (auto intro: record_player_reward_tick_Some [OF assms(1)])
  have secs: "tk_block_secs ?t = ?S" by (simp add: tick_setup_of_def)
  have start: "balanced (tk_block_secs ?t) (tp_pending (tick_start cx pending))"
    using tick_start_pending(2) [OF assms(4)] by (simp add: secs)
  obtain bs where bs: "tp_records ?f = tp_records (tick_start cx pending) @ concat bs"
    "tp_completed ?f = tp_completed (tick_start cx pending) + length bs" "\<forall>b \<in> set bs. fair_block ?S b"
    "balanced ?S (tp_pending ?f)"
    using tick_loop_blocks [OF start assms(3)] unfolding secs by blast
  have zero: "\<forall>r \<in> set (tp_records ?f). br_block_reward r = 0"
    by (rule tick_loop_unnormalized) simp
  have recs: "tp_records ?f = concat bs" "tp_completed ?f = length bs"
    using bs(1,2) by simp_all
  have "fair_block ?S (map normalize_block_record b)" if "b \<in> set bs" for b
    using bs(3) that zero by (intro fair_block_normalized) (auto simp: recs(1))
  then show "\<exists>bs. ta_records (tc_artifact c) = concat bs \<and> length bs = ta_completed_reward_block_count (tc_artifact c)
    \<and> (\<forall>b \<in> set bs. fair_block ?S b)"
    by (intro exI [of _ "map (map normalize_block_record) bs"]) (simp add: c recs concat_eq_map)
  have "balanced ?S default_pending_state"
    by (simp add: balanced_def default_pending_state_def played_def max_def word_le_nat_alt word_less_nat_alt)
  with bs(4) show "balanced ?S (pending_or_default (tc_pending_state c))"
    by (simp add: c(3) Let_def pending_or_default_def)
qed

end
