(* ===== verification/Epoch_Rewards.thy ===== *)
theory Epoch_Rewards
  imports Aggregator Reward_Tick Allocation Retention_Book
begin

text \<open>
  Rewards of an epoch (\<open>src/src/node_rewards.rs\<close>): which play sessions count as verified, the
  service pools, the scores of collectors and storers, and \<open>compute_local_epoch_rewards\<close>, which
  puts the components of every node's reward together and commits to them.

  What the code reads from disk or from the chain is collected in \<open>reward_inputs\<close>: the aggregation
  result, the retention book, the tick artifacts of the directory, the stored sessions and
  attestations, the chain's answers on settlements and witness credits, the identity of the
  node, and the verification credentials it stored for the epoch. The environment holds \<open>sha256\<close>, the JSON writer
  and the address functions. Saving the artifact is not modelled.
\<close>

record reward_env =
  re_sha256 :: "byte_vec \<Rightarrow> bytes32"
  re_json :: json_writer
  re_addresses :: address_env

subsection \<open>Types\<close>

record epoch_reward_entry =
  en_node_id_hex :: string
  en_player_block_count :: nat
  en_player_weight_units :: amount
  en_player_reward_units :: amount
  en_collect_score_units :: amount
  en_storage_score_units :: amount
  en_reward :: reward_record

record epoch_reward_artifact =
  er_epoch_id :: epoch_id
  er_reward_block_secs :: u64
  er_player_block_reward :: amount
  er_reward_adjustment_period_blocks :: u64
  er_target_network_weight_units :: amount
  er_reward_adjustment_cap_bps :: u16
  er_player_reward_block_count :: nat
  er_player_reward_pool :: amount
  er_local_player_weight_units :: amount
  er_total_network_weight_units :: amount
  er_local_player_reward_total :: amount
  er_pending_player_reward_total :: amount
  er_total_gvs_units :: amount
  er_collect_pool :: amount
  er_store_pool :: amount
  er_verify_pool :: amount
  er_propose_pool :: amount
  er_total_distributed :: amount
  er_reward_count :: nat
  er_reward_root_hex :: string
  er_records :: "epoch_reward_entry list"

record epoch_reward_computation =
  rc_artifact :: epoch_reward_artifact
  rc_records :: "reward_record list"

record service_reward_pools =
  sv_collect_pool :: amount
  sv_store_pool :: amount
  sv_verify_pool :: amount
  sv_propose_pool :: amount

datatype node_reward_error =
    RewardConfigError node_config_error
  | RewardAggregation node_aggregation_error
  | RewardStorage storage_book_error
  | RewardIo string
  | RewardJson string
  | RewardBorsh string

type_synonym node_scores = "(node_id, amount) btree_map"
type_synonym reward_map = "(node_id, reward_record) btree_map"

record verification_credential =
  vc_epoch_id :: u64
  vc_target_batch_root_hex :: string
  vc_target_collector_hex :: string
  vc_verifier_id_hex :: string
  vc_verifier_address :: string
  vc_target_collector_address :: string
  vc_is_player :: bool
  vc_verified :: bool
  vc_verified_at_millis :: u64
  vc_signature_hex :: string

record reward_inputs =
  ri_aggregation :: "node_aggregation_error + epoch_aggregation_computation"
  ri_retention_book :: "storage_book_error + local_retention_book"
  ri_tick_files :: "node_reward_error + player_reward_tick_artifact list"
  ri_sessions :: "play_session list"
  ri_attestations :: "witness_attestation list"
  ri_settlement_valid :: "string \<Rightarrow> bool option"
  ri_chain_credits :: "(string, u64) btree_map"
  ri_identity_address :: "address option"
  ri_local_account :: "string option"
  ri_credentials :: "verification_credential list"

subsection \<open>Loading\<close>

text \<open>The argument holds the tick artifacts of the directory in the order of their paths, or the first error.\<close>

definition load_player_reward_ticks_for_epoch ::
  "epoch_id \<Rightarrow> node_reward_error + player_reward_tick_artifact list \<Rightarrow> node_reward_error + player_reward_tick_artifact list" where
  "load_player_reward_ticks_for_epoch epoch tick_files =
     map_sum id (\<lambda>artifacts. filter (\<lambda>a. ta_epoch_id a = epoch) (map normalize_tick_artifact artifacts)) tick_files"

definition local_witness_attestation_count :: "node_config \<Rightarrow> epoch_id \<Rightarrow> verification_credential list \<Rightarrow> nat" where
  "local_witness_attestation_count config epoch credentials =
     (case config_node_id config of
        Inl _ \<Rightarrow> 0
      | Inr local_id \<Rightarrow> length (filter (\<lambda>cred. vc_epoch_id cred = epoch \<and> vc_verified cred
          \<and> vc_target_collector_hex cred \<noteq> hex_32 local_id) credentials))"

subsection \<open>Verified sessions and witness credits\<close>

definition session_witnesses :: "address option \<Rightarrow> witness_attestation list \<Rightarrow> play_session \<Rightarrow> address btree_set" where
  "session_witnesses local_account attestations session =
     foldl (\<lambda>s att. if wa_session_id att = ps_session_id session
         \<and> (case local_account of None \<Rightarrow> True | Some addr \<Rightarrow> addr \<noteq> wa_witness_address att)
       then bs_insert (wa_witness_address att) s else s) bt_empty attestations"

definition session_verified :: "reward_inputs \<Rightarrow> play_session \<Rightarrow> bool" where
  "session_verified inp session =
     (ri_settlement_valid inp (hex_32 (ps_session_id session)) = Some True
      \<or> bt_entries (session_witnesses (ri_identity_address inp) (ri_attestations inp) session) \<noteq> [])"

definition verified_session_ids_for_epoch :: "reward_inputs \<Rightarrow> epoch_id \<Rightarrow> string btree_set" where
  "verified_session_ids_for_epoch inp epoch =
     foldl (\<lambda>verified session.
         if ps_epoch_id session \<noteq> epoch then verified
         else if session_verified inp session then bs_insert (hex_32 (ps_session_id session)) verified
         else verified) bt_empty (ri_sessions inp)"

definition count_credit ::
  "reward_env \<Rightarrow> epoch_id \<Rightarrow> witness_attestation \<Rightarrow> (string, u64) btree_map \<Rightarrow> play_session \<Rightarrow> (string, u64) btree_map" where
  "count_credit env epoch att credits session =
     (if ps_session_id session = wa_session_id att \<and> ps_epoch_id session = epoch
      then (case encode_bech32 (re_addresses env) ''cosmos'' (take 20 (to_bytes32 (wa_witness_address att))) of
              Inl _ \<Rightarrow> credits
            | Inr bech32 \<Rightarrow> bt_insert bech32 ((case bt_get credits bech32 of None \<Rightarrow> 0 | Some n \<Rightarrow> n) + 1) credits)
      else credits)"

definition load_witness_credits :: "reward_env \<Rightarrow> reward_inputs \<Rightarrow> epoch_id \<Rightarrow> (string, u64) btree_map" where
  "load_witness_credits env inp epoch =
     (if bt_entries (ri_chain_credits inp) = []
      then foldl (\<lambda>credits att. foldl (count_credit env epoch att) credits (ri_sessions inp))
             (ri_chain_credits inp) (ri_attestations inp)
      else ri_chain_credits inp)"

subsection \<open>Pools and scores\<close>

definition reward_units_from_gvs :: "u64 \<Rightarrow> amount" where
  "reward_units_from_gvs gvs_microunits = ucast (gvs_microunits div 1000000)"

definition proportional_service_pool :: "amount \<Rightarrow> u16 \<Rightarrow> amount" where
  "proportional_service_pool base_service_pool bps =
     (if base_service_pool = 0 \<or> bps = 0 then 0
      else max (saturating_mul base_service_pool (ucast bps) div 10000) 1)"

definition service_reward_pools_for_epoch ::
  "node_config \<Rightarrow> nat \<Rightarrow> amount \<Rightarrow> bool \<Rightarrow> bool \<Rightarrow> bool \<Rightarrow> service_reward_pools" where
  "service_reward_pools_for_epoch config player_block_count total_gvs_units has_retention has_groups has_credits =
     (let r = nc_reward config; caps = nc_capabilities config in
      case rc_reward_source r of
        Static \<Rightarrow>
          \<lparr>sv_collect_pool = total_gvs_units,
           sv_store_pool = (if total_gvs_units > 0 \<and> has_retention then max (total_gvs_units div 5) 1 else 0),
           sv_verify_pool = (if total_gvs_units > 0 \<and> cc_verify caps \<and> has_groups then max (total_gvs_units div 10) 1
             else if has_credits \<and> player_block_count > 0 then max (word_of_nat player_block_count * 100) 1 else 0),
           sv_propose_pool = (if total_gvs_units > 0 \<and> cc_propose caps \<and> has_groups
             then max (total_gvs_units div 20) 1 else 0)\<rparr>
      | TokenomicsSource \<Rightarrow>
          let base_service_pool = saturating_mul (base_service_reward_per_block (rc_emission_year r) (rc_reward_block_secs r))
                (word_of_nat player_block_count)
          in \<lparr>sv_collect_pool = proportional_service_pool base_service_pool (rc_collect_reward_bps r),
              sv_store_pool = (if has_retention
                then proportional_service_pool base_service_pool (rc_store_reward_bps r) else 0),
              sv_verify_pool = (if cc_verify caps \<and> has_groups \<or> has_credits
                then proportional_service_pool base_service_pool (rc_verify_reward_bps r) else 0),
              sv_propose_pool = (if cc_propose caps \<and> has_groups
                then proportional_service_pool base_service_pool (rc_propose_reward_bps r) else 0)\<rparr>)"

definition add_score :: "node_id \<Rightarrow> amount \<Rightarrow> node_scores \<Rightarrow> node_scores" where
  "add_score nid w scores = bt_insert nid ((case bt_get scores nid of None \<Rightarrow> 0 | Some v \<Rightarrow> v) + w) scores"

definition collect_collect_scores :: "epoch_aggregation_group list \<Rightarrow> node_scores" where
  "collect_collect_scores groups =
     foldl (\<lambda>scores g.
         if eg_accepted_observations g = [] then scores
         else
           let group_units = reward_units_from_gvs (ar_gvs_microunits (eg_aggregate g)) in
           if group_units = 0 then scores
           else
             let weight = max (group_units div word_of_nat (length (eg_accepted_observations g))) 1
             in foldl (\<lambda>scores obs. add_score (obs_collector_id obs) weight scores) scores (eg_accepted_observations g))
       bt_empty groups"

definition collect_storage_scores :: "epoch_id \<Rightarrow> local_retention_book \<Rightarrow> node_scores" where
  "collect_storage_scores epoch book =
     foldl (\<lambda>scores r. add_score (rr_storer_id (sp_receipt r)) (ucast (max (sp_size_bytes r) 1)) scores)
       bt_empty (filter (\<lambda>r. sp_epoch_id r = epoch) (bt_values (rb_payloads book)))"

subsection \<open>Reward records\<close>

definition empty_reward_record :: "epoch_id \<Rightarrow> node_id \<Rightarrow> reward_record" where
  "empty_reward_record epoch nid =
     \<lparr>rw_epoch_id = epoch, rw_node_id = nid, rw_recipient_address = [], rw_player_reward = 0, rw_collect_reward = 0,
      rw_store_reward = 0, rw_verify_reward = 0, rw_propose_reward = 0, rw_slash_debit = 0, rw_net_reward = 0\<rparr>"

definition witness_node_id :: "string \<Rightarrow> node_id" where
  "witness_node_id recipient = stable_hash32 (as_bytes recipient)"

text \<open>\<open>reward_record_for_node\<close> followed by the update \<open>f\<close> that the caller makes through the reference.\<close>

definition reward_record_for_node ::
  "epoch_id \<Rightarrow> node_id \<Rightarrow> string option \<Rightarrow> (reward_record \<Rightarrow> reward_record) \<Rightarrow> reward_map \<Rightarrow> reward_map" where
  "reward_record_for_node epoch nid recipient f rewards =
     (let record = (case bt_get rewards nid of None \<Rightarrow> empty_reward_record epoch nid | Some r \<Rightarrow> r);
          stamped = (case recipient of
            Some addr \<Rightarrow> if addr \<noteq> [] then record\<lparr>rw_recipient_address := addr\<rparr> else record
          | None \<Rightarrow> record)
      in bt_insert nid (f stamped) rewards)"

datatype reward_component = CollectComponent | StoreComponent

fun add_component :: "reward_component \<Rightarrow> amount \<Rightarrow> reward_record \<Rightarrow> reward_record" where
  "add_component CollectComponent v r = r\<lparr>rw_collect_reward := rw_collect_reward r + v\<rparr>"
| "add_component StoreComponent v r = r\<lparr>rw_store_reward := rw_store_reward r + v\<rparr>"

definition merge_reward_component ::
  "epoch_id \<Rightarrow> node_scores \<Rightarrow> reward_component \<Rightarrow> reward_map \<Rightarrow> reward_map" where
  "merge_reward_component epoch component_rewards component rewards =
     foldl (\<lambda>m (nid, v). reward_record_for_node epoch nid None (add_component component v) m)
       rewards (bt_entries component_rewards)"

definition merge_witness_rewards ::
  "epoch_id \<Rightarrow> node_id \<Rightarrow> string option \<Rightarrow> (string, amount) btree_map \<Rightarrow> reward_map \<Rightarrow> reward_map" where
  "merge_witness_rewards epoch local_id local_recipient allocation rewards =
     foldl (\<lambda>m (recipient, v).
         reward_record_for_node epoch
           (if local_recipient = Some recipient then local_id else witness_node_id recipient) (Some recipient)
           (\<lambda>r. r\<lparr>rw_verify_reward := saturating_add (rw_verify_reward r) v\<rparr>) m)
       rewards (bt_entries allocation)"

definition with_net_reward :: "reward_record \<Rightarrow> reward_record" where
  "with_net_reward r =
     r\<lparr>rw_net_reward := saturating_sub (saturating_add (saturating_add (saturating_add (saturating_add
         (rw_player_reward r) (rw_collect_reward r)) (rw_store_reward r)) (rw_verify_reward r)) (rw_propose_reward r))
       (rw_slash_debit r)\<rparr>"

definition reward_record_root :: "reward_env \<Rightarrow> reward_record list \<Rightarrow> node_reward_error + hash32" where
  "reward_record_root env records =
     (case collect_results (map (\<lambda>r. map_sum (\<lambda>e. RewardIo (cosmos_error_text e)) (\<lambda>recipient. (rw_epoch_id r, recipient, r))
          (chain_recipient (re_addresses env) r)) records) of
        Inl e \<Rightarrow> Inl e
      | Inr with_recipient \<Rightarrow>
          let sorted = sort_key (\<lambda>(epoch, recipient, _). (epoch, recipient)) with_recipient;
              leaf_hashes = map (\<lambda>(_, recipient, r). map_sum RewardJson (merkle_leaf_sha256 (re_sha256 env))
                (reward_record_to_chain_json (re_json env) r recipient)) sorted
          in map_sum id (merkle_root (re_sha256 env)) (collect_results leaf_hashes))"

subsection \<open>The epoch\<close>

text \<open>The split of the tick rewards into verified and pending ones.\<close>

definition split_tick_rewards ::
  "string btree_set \<Rightarrow> amount \<times> amount \<Rightarrow> player_reward_tick_artifact \<Rightarrow> amount \<times> amount" where
  "split_tick_rewards verified acc tick =
     (let (v, p) = foldl (\<lambda>(v, p) r.
            if br_session_id r \<noteq> [] \<and> bs_contains verified (br_session_id r)
            then (saturating_add v (br_player_reward r), p) else (v, saturating_add p (br_player_reward r)))
          acc (ta_records tick)
      in if ta_records tick = [] \<and> ta_total_player_reward tick > 0
         then if bt_entries verified \<noteq> [] then (saturating_add v (ta_total_player_reward tick), p)
              else (v, saturating_add p (ta_total_player_reward tick))
         else (v, p))"

text \<open>The reward map before the net rewards are computed.\<close>

definition build_reward_map ::
  "epoch_id \<Rightarrow> node_id \<Rightarrow> string option \<Rightarrow> service_reward_pools \<Rightarrow> node_scores \<Rightarrow> node_scores \<Rightarrow> amount
    \<Rightarrow> (string, u64) btree_map \<Rightarrow> nat \<Rightarrow> reward_map" where
  "build_reward_map epoch local_id local_recipient pools collect_scores storage_scores verified_total credits
      local_attestations =
     (let m1 = merge_reward_component epoch (allocate_proportional collect_scores (sv_collect_pool pools)) CollectComponent bt_empty;
          m2 = merge_reward_component epoch (allocate_proportional storage_scores (sv_store_pool pools)) StoreComponent m1;
          m3 = (case local_recipient of
            None \<Rightarrow> m2
          | Some addr \<Rightarrow> bt_map (\<lambda>r. if rw_node_id r = local_id then r\<lparr>rw_recipient_address := addr\<rparr> else r) m2);
          m4 = (if verified_total > 0
            then reward_record_for_node epoch local_id local_recipient
              (\<lambda>r. r\<lparr>rw_player_reward := rw_player_reward r + verified_total\<rparr>) m3 else m3);
          m5 = (if bt_entries credits \<noteq> []
            then merge_witness_rewards epoch local_id local_recipient
              (allocate_witness_rewards credits (sv_verify_pool pools)) m4
            else if sv_verify_pool pools > 0 \<and> local_attestations > 0
            then reward_record_for_node epoch local_id local_recipient
              (\<lambda>r. r\<lparr>rw_verify_reward := rw_verify_reward r + sv_verify_pool pools\<rparr>) m4
            else m4)
      in if sv_propose_pool pools > 0
         then reward_record_for_node epoch local_id local_recipient
           (\<lambda>r. r\<lparr>rw_propose_reward := rw_propose_reward r + sv_propose_pool pools\<rparr>) m5
         else m5)"

definition sorted_reward_records :: "reward_env \<Rightarrow> reward_map \<Rightarrow> reward_record list" where
  "sorted_reward_records env m =
     map with_net_reward (sort_key (\<lambda>r. (rw_epoch_id r,
       case chain_recipient (re_addresses env) r of Inl _ \<Rightarrow> [] | Inr recipient \<Rightarrow> recipient)) (bt_values m))"

definition reward_entry ::
  "node_id \<Rightarrow> nat \<Rightarrow> amount \<Rightarrow> amount \<Rightarrow> node_scores \<Rightarrow> node_scores \<Rightarrow> reward_record \<Rightarrow> epoch_reward_entry" where
  "reward_entry local_id block_count weight verified_total collect_scores storage_scores r =
     (let own = (rw_node_id r = local_id);
          score = (\<lambda>scores. case bt_get scores (rw_node_id r) of None \<Rightarrow> 0 | Some v \<Rightarrow> v)
      in \<lparr>en_node_id_hex = hex_32 (rw_node_id r), en_player_block_count = (if own then block_count else 0),
          en_player_weight_units = (if own then if verified_total > 0 then weight else 0 else 0),
          en_player_reward_units = (if own then verified_total else 0),
          en_collect_score_units = score collect_scores, en_storage_score_units = score storage_scores,
          en_reward = r\<rparr>)"

definition compute_local_epoch_rewards ::
  "reward_env \<Rightarrow> protocol_params option \<Rightarrow> node_config \<Rightarrow> epoch_id \<Rightarrow> reward_inputs
    \<Rightarrow> node_reward_error + epoch_reward_computation" where
  "compute_local_epoch_rewards env activated config epoch inp =
     (case ri_aggregation inp of Inl e \<Rightarrow> Inl (RewardAggregation e) | Inr aggregation \<Rightarrow>
      case ri_retention_book inp of Inl e \<Rightarrow> Inl (RewardStorage e) | Inr book \<Rightarrow>
      case load_player_reward_ticks_for_epoch epoch (ri_tick_files inp) of Inl e \<Rightarrow> Inl e | Inr ticks \<Rightarrow>
      let records = concat (map ta_records ticks);
          player_block_count = (\<Sum>tick\<leftarrow>ticks. ta_completed_reward_block_count tick);
          verified_sessions = verified_session_ids_for_epoch inp epoch;
          (verified_total, pending_total) = foldl (split_tick_rewards verified_sessions) (0, 0) ticks;
          verified_block_count = (if bt_entries verified_sessions \<noteq> [] then player_block_count else 0);
          total_gvs_units = (\<Sum>g\<leftarrow>ec_groups aggregation. reward_units_from_gvs (ar_gvs_microunits (eg_aggregate g)));
          credits = load_witness_credits env inp epoch;
          pools = service_reward_pools_for_epoch config verified_block_count total_gvs_units
            (list_ex (\<lambda>r. sp_epoch_id r = epoch) (bt_values (rb_payloads book)))
            (ec_groups aggregation \<noteq> []) (bt_entries credits \<noteq> []);
          collect_scores = collect_collect_scores (ec_groups aggregation);
          storage_scores = collect_storage_scores epoch book
      in case config_node_id config of Inl e \<Rightarrow> Inl (RewardConfigError e) | Inr local_id \<Rightarrow>
         let reward_records = sorted_reward_records env (build_reward_map epoch local_id (ri_local_account inp) pools
               collect_scores storage_scores verified_total credits (local_witness_attestation_count config epoch (ri_credentials inp)));
             weight = (\<Sum>r\<leftarrow>records. br_player_weight_units r)
         in case reward_record_root env reward_records of Inl e \<Rightarrow> Inl e | Inr reward_root \<Rightarrow>
            Inr \<lparr>rc_artifact =
              \<lparr>er_epoch_id = epoch, er_reward_block_secs = effective_reward_block_secs activated config,
               er_player_block_reward = effective_player_block_reward_of activated config,
               er_reward_adjustment_period_blocks = rc_reward_adjustment_period_blocks (nc_reward config),
               er_target_network_weight_units = effective_target_network_weight_units activated config,
               er_reward_adjustment_cap_bps = effective_reward_adjustment_cap_bps activated config,
               er_player_reward_block_count = verified_block_count,
               er_player_reward_pool = (\<Sum>r\<leftarrow>records. br_block_reward r),
               er_local_player_weight_units = (if verified_total > 0 then weight else 0),
               er_total_network_weight_units = (\<Sum>r\<leftarrow>records. br_total_network_weight_units r),
               er_local_player_reward_total = verified_total, er_pending_player_reward_total = pending_total,
               er_total_gvs_units = total_gvs_units, er_collect_pool = sv_collect_pool pools,
               er_store_pool = sv_store_pool pools, er_verify_pool = sv_verify_pool pools,
               er_propose_pool = sv_propose_pool pools,
               er_total_distributed = (\<Sum>r\<leftarrow>reward_records. rw_net_reward r),
               er_reward_count = length reward_records, er_reward_root_hex = hex_32 reward_root,
               er_records = map (reward_entry local_id verified_block_count weight verified_total
                 collect_scores storage_scores) reward_records\<rparr>,
              rc_records = reward_records\<rparr>)"

end
