(* ===== verification/Reward_Conservation.thy ===== *)
theory Reward_Conservation
  imports Epoch_Rewards
begin

text \<open>
  What the rewards of an epoch guarantee (\<open>compute_local_epoch_rewards\<close>): the net rewards add up to
  exactly the verified player rewards and the service pools that were handed out, only verified
  sessions release player rewards, and the service pools stay within the budget of the epoch.
\<close>

subsection \<open>The components of a record\<close>

definition paid :: "reward_record \<Rightarrow> nat" where
  "paid r = unat (rw_player_reward r) + unat (rw_collect_reward r) + unat (rw_store_reward r)
     + unat (rw_verify_reward r) + unat (rw_propose_reward r)"

definition adds :: "amount \<Rightarrow> (reward_record \<Rightarrow> reward_record) \<Rightarrow> bool" where
  "adds v f \<longleftrightarrow> (\<forall>r. paid r + unat v < 2 ^ 128 \<longrightarrow> paid (f r) = paid r + unat v)
     \<and> (\<forall>r. rw_slash_debit (f r) = rw_slash_debit r)"

lemma adds_component [simp]:
  "adds v (add_component c v)"
  "adds v (\<lambda>r. r\<lparr>rw_verify_reward := saturating_add (rw_verify_reward r) v\<rparr>)"
  "adds v (\<lambda>r. r\<lparr>rw_verify_reward := rw_verify_reward r + v\<rparr>)"
  "adds v (\<lambda>r. r\<lparr>rw_player_reward := rw_player_reward r + v\<rparr>)"
  "adds v (\<lambda>r. r\<lparr>rw_propose_reward := rw_propose_reward r + v\<rparr>)"
  by (cases c) (auto simp: adds_def paid_def unat_add_exact unat_saturating_add)

definition no_slashes :: "reward_map \<Rightarrow> bool" where
  "no_slashes m \<longleftrightarrow> (\<forall>k r. bt_get m k = Some r \<longrightarrow> rw_slash_debit r = 0)"

lemma reward_record_for_node_total:
  assumes "adds v f" "bt_total paid m + unat v < 2 ^ 128" "no_slashes m"
  shows "bt_total paid (reward_record_for_node epoch nid recipient f m) = bt_total paid m + unat v"
    and "no_slashes (reward_record_for_node epoch nid recipient f m)"
proof -
  let ?old = "case bt_get m nid of None \<Rightarrow> empty_reward_record epoch nid | Some r \<Rightarrow> r"
  let ?new = "case recipient of Some addr \<Rightarrow> if addr \<noteq> [] then ?old\<lparr>rw_recipient_address := addr\<rparr> else ?old | None \<Rightarrow> ?old"
  have eq: "reward_record_for_node epoch nid recipient f m = bt_insert nid (f ?new) m"
    by (simp add: reward_record_for_node_def Let_def)
  have "paid ?new = paid ?old" "rw_slash_debit ?new = rw_slash_debit ?old"
    by (auto simp: paid_def split: option.split)
  moreover have old: "paid ?old = (case bt_get m nid of None \<Rightarrow> 0 | Some r \<Rightarrow> paid r)" "rw_slash_debit ?old = 0"
    using assms(3) by (auto simp: paid_def empty_reward_record_def no_slashes_def split: option.split)
  moreover have "(case bt_get m nid of None \<Rightarrow> 0 | Some r \<Rightarrow> paid r) \<le> bt_total paid m"
    using bt_total_ge [of m nid] by (auto split: option.split)
  ultimately have new: "paid (f ?new) = (case bt_get m nid of None \<Rightarrow> 0 | Some r \<Rightarrow> paid r) + unat v" "rw_slash_debit (f ?new) = 0"
    using assms(1,2) by (simp_all add: adds_def)
  then show "bt_total paid (reward_record_for_node epoch nid recipient f m) = bt_total paid m + unat v"
    using bt_total_insert [of paid nid "f ?new" m] by (simp add: eq)
  show "no_slashes (reward_record_for_node epoch nid recipient f m)"
    using assms(3) new(2) by (simp add: eq no_slashes_def)
qed

text \<open>Adding the entries of a list one by one, each to some record.\<close>

lemma fold_rewards_total:
  assumes "\<And>x. adds (snd x) (f x)"
    and "bt_total paid m + (\<Sum>x\<leftarrow>xs. unat (snd x)) < 2 ^ 128" "no_slashes m"
  shows "bt_total paid (foldl (\<lambda>m x. reward_record_for_node epoch (nid x) (recipient x) (f x) m) m xs)
      = bt_total paid m + (\<Sum>x\<leftarrow>xs. unat (snd x))
    \<and> no_slashes (foldl (\<lambda>m x. reward_record_for_node epoch (nid x) (recipient x) (f x) m) m xs)"
  using assms(2,3)
proof (induction xs arbitrary: m)
  case (Cons x xs)
  let ?m = "reward_record_for_node epoch (nid x) (recipient x) (f x) m"
  have "bt_total paid ?m = bt_total paid m + unat (snd x)" "no_slashes ?m"
    using reward_record_for_node_total [OF assms(1) _ Cons.prems(2)] Cons.prems(1) by simp_all
  with Cons show ?case by simp
qed simp

lemma merge_component_total:
  assumes "bt_total paid m + bt_total unat rewards < 2 ^ 128" "no_slashes m"
  shows "bt_total paid (merge_reward_component epoch rewards c m) = bt_total paid m + bt_total unat rewards"
    and "no_slashes (merge_reward_component epoch rewards c m)"
  using fold_rewards_total [of "\<lambda>x. add_component c (snd x)" m "bt_entries rewards" epoch fst "\<lambda>_. None"] assms
  by (simp_all add: merge_reward_component_def bt_total_entries case_prod_unfold)

lemma merge_witness_total:
  assumes "bt_total paid m + bt_total unat rewards < 2 ^ 128" "no_slashes m"
  shows "bt_total paid (merge_witness_rewards epoch local_id local_recipient rewards m) = bt_total paid m + bt_total unat rewards"
    and "no_slashes (merge_witness_rewards epoch local_id local_recipient rewards m)"
  using fold_rewards_total [of "\<lambda>x r. r\<lparr>rw_verify_reward := saturating_add (rw_verify_reward r) (snd x)\<rparr>" m "bt_entries rewards" epoch
      "\<lambda>x. if local_recipient = Some (fst x) then local_id else witness_node_id (fst x)" "\<lambda>x. Some (fst x)"] assms
  by (simp_all add: merge_witness_rewards_def bt_total_entries case_prod_unfold)

lemma restamp_total:
  "bt_total paid (bt_map (\<lambda>r. if rw_node_id r = nid then r\<lparr>rw_recipient_address := addr\<rparr> else r) m) = bt_total paid m"
  "no_slashes m \<Longrightarrow> no_slashes (bt_map (\<lambda>r. if rw_node_id r = nid then r\<lparr>rw_recipient_address := addr\<rparr> else r) m)"
proof -
  have "paid (if rw_node_id r = nid then r\<lparr>rw_recipient_address := addr\<rparr> else r) = paid r" for r
    by (simp add: paid_def)
  then show "bt_total paid (bt_map (\<lambda>r. if rw_node_id r = nid then r\<lparr>rw_recipient_address := addr\<rparr> else r) m) = bt_total paid m"
    by (simp add: bt_total_entries case_prod_unfold comp_def)
qed (auto simp: no_slashes_def)

subsection \<open>The pools that are handed out\<close>

text \<open>A pool is split without overflow when it is empty or its products with the weights fit.\<close>

definition splits :: "amount \<Rightarrow> node_scores \<Rightarrow> bool" where
  "splits pool weights \<longleftrightarrow> pool = 0 \<or> bt_total unat weights < 2 ^ 128
     \<and> (\<forall>k w. bt_get weights k = Some w \<longrightarrow> unat pool * unat w < 2 ^ 128)"

definition credits_split :: "amount \<Rightarrow> (string, u64) btree_map \<Rightarrow> bool" where
  "credits_split pool credits \<longleftrightarrow> pool = 0 \<or> bt_total unat credits < 2 ^ 64
     \<and> (\<forall>k c. bt_get credits k = Some c \<longrightarrow> unat pool * unat c < 2 ^ 128)"

definition handed_out :: "amount \<Rightarrow> ('k::linorder, 'a::len word) btree_map \<Rightarrow> nat" where
  "handed_out pool weights = (if 0 < bt_total unat weights then unat pool else 0)"

lemma allocate_proportional_handed_out:
  assumes "splits pool weights"
  shows "bt_total unat (allocate_proportional weights pool) = handed_out pool weights"
proof (cases "pool = 0 \<or> bt_total unat weights = 0")
  case True
  have "unat (sum_list (bt_values weights)) = bt_total unat weights" if "bt_total unat weights = 0"
    using unat_sum_list [of "bt_values weights"] that [symmetric] by (simp add: bt_total_def del: sum_list_eq_0_iff)
  with True show ?thesis
    by (auto simp: allocate_proportional_def handed_out_def unat_eq_zero Let_def)
next
  case False
  with assms have "fitting pool weights" by (auto simp: splits_def fitting_def)
  from allocate_proportional_total [OF this] False show ?thesis by (simp add: handed_out_def)
qed

lemma zero_loop_total: "bt_total unat (zero_loop ks a) \<le> bt_total unat a"
proof (induction ks a rule: zero_loop.induct)
  case (2 w rest a)
  have "bt_total unat (bt_insert w (0 :: amount) a) \<le> bt_total unat a"
    using bt_total_insert [of unat w "0 :: amount" a] by simp
  with 2 show ?case by simp
qed simp

lemma allocate_witness_handed_out:
  assumes "credits_split pool credits"
  shows "bt_total unat (allocate_witness_rewards credits pool) = handed_out pool credits"
proof (cases "pool = 0 \<or> bt_total unat credits = 0")
  case True
  have "unat (foldl saturating_add 0 (bt_values credits)) = bt_total unat credits" if "bt_total unat credits = 0"
    using foldl_saturating_add [of 0 "bt_values credits"] that [symmetric] by (simp add: bt_total_def del: sum_list_eq_0_iff)
  with True have "allocate_witness_rewards credits pool = zero_loop (bt_keys credits) bt_empty"
    by (auto simp: allocate_witness_rewards_def unat_eq_zero Let_def)
  then show ?thesis using True zero_loop_total [of "bt_keys credits" bt_empty] by (auto simp: handed_out_def)
next
  case False
  with assms have "witness_fitting pool credits" by (auto simp: credits_split_def witness_fitting_def)
  from allocate_witness_rewards_total [OF this] False show ?thesis by (simp add: handed_out_def)
qed

definition verify_payout :: "amount \<Rightarrow> (string, u64) btree_map \<Rightarrow> nat \<Rightarrow> nat" where
  "verify_payout pool credits attestations =
     (if bt_entries credits \<noteq> [] then handed_out pool credits else if attestations > 0 then unat pool else 0)"

definition payout ::
  "service_reward_pools \<Rightarrow> node_scores \<Rightarrow> node_scores \<Rightarrow> (string, u64) btree_map \<Rightarrow> nat \<Rightarrow> nat" where
  "payout pools collect_scores storage_scores credits attestations =
     handed_out (sv_collect_pool pools) collect_scores + handed_out (sv_store_pool pools) storage_scores
     + verify_payout (sv_verify_pool pools) credits attestations + unat (sv_propose_pool pools)"

lemma build_reward_map_total:
  assumes "splits (sv_collect_pool pools) collect_scores" "splits (sv_store_pool pools) storage_scores"
    and "credits_split (sv_verify_pool pools) credits"
    and "unat verified + payout pools collect_scores storage_scores credits n < 2 ^ 128"
  shows "bt_total paid (build_reward_map epoch nid recipient pools collect_scores storage_scores verified credits n)
      = unat verified + payout pools collect_scores storage_scores credits n"
    and "no_slashes (build_reward_map epoch nid recipient pools collect_scores storage_scores verified credits n)"
proof -
  define m1 where "m1 = merge_reward_component epoch (allocate_proportional collect_scores (sv_collect_pool pools)) CollectComponent bt_empty"
  define m2 where "m2 = merge_reward_component epoch (allocate_proportional storage_scores (sv_store_pool pools)) StoreComponent m1"
  define m3 where "m3 = (case recipient of None \<Rightarrow> m2
      | Some addr \<Rightarrow> bt_map (\<lambda>r. if rw_node_id r = nid then r\<lparr>rw_recipient_address := addr\<rparr> else r) m2)"
  define m4 where "m4 = (if verified > 0 then reward_record_for_node epoch nid recipient
      (\<lambda>r. r\<lparr>rw_player_reward := rw_player_reward r + verified\<rparr>) m3 else m3)"
  define m5 where "m5 = (if bt_entries credits \<noteq> []
      then merge_witness_rewards epoch nid recipient (allocate_witness_rewards credits (sv_verify_pool pools)) m4
      else if sv_verify_pool pools > 0 \<and> n > 0
      then reward_record_for_node epoch nid recipient (\<lambda>r. r\<lparr>rw_verify_reward := rw_verify_reward r + sv_verify_pool pools\<rparr>) m4
      else m4)"
  note alloc = allocate_proportional_handed_out [OF assms(1)] allocate_proportional_handed_out [OF assms(2)]
    allocate_witness_handed_out [OF assms(3)]
  note bound = assms(4) [unfolded payout_def]
  have "no_slashes bt_empty" by (simp add: no_slashes_def)
  then have 1: "bt_total paid m1 = handed_out (sv_collect_pool pools) collect_scores" "no_slashes m1"
    unfolding m1_def using merge_component_total [of bt_empty] bound by (simp_all add: alloc)
  have 2: "bt_total paid m2 = bt_total paid m1 + handed_out (sv_store_pool pools) storage_scores" "no_slashes m2"
    unfolding m2_def using merge_component_total [OF _ 1(2)] bound 1(1) by (simp_all add: alloc)
  have 3: "bt_total paid m3 = bt_total paid m2" "no_slashes m3"
    using restamp_total 2(2) by (simp_all add: m3_def split: option.split)
  have 4: "bt_total paid m4 = bt_total paid m3 + unat verified" "no_slashes m4"
    unfolding m4_def using reward_record_for_node_total [OF adds_component(4) _ 3(2)] bound 1(1) 2(1) 3
    by (simp_all add: word_gt_0)
  have room: "bt_total paid m4 + verify_payout (sv_verify_pool pools) credits n < 2 ^ 128"
    using bound 1(1) 2(1) 3(1) 4(1) by simp
  have 5: "bt_total paid m5 = bt_total paid m4 + verify_payout (sv_verify_pool pools) credits n \<and> no_slashes m5"
  proof (cases "bt_entries credits = []")
    case True
    with room reward_record_for_node_total [OF adds_component(3) _ 4(2), of "sv_verify_pool pools" epoch nid recipient] 4(2)
    show ?thesis by (auto simp: m5_def verify_payout_def word_gt_0)
  next
    case False
    with room merge_witness_total [OF _ 4(2)] show ?thesis by (simp add: m5_def verify_payout_def alloc)
  qed
  let ?m = "if sv_propose_pool pools > 0 then reward_record_for_node epoch nid recipient
      (\<lambda>r. r\<lparr>rw_propose_reward := rw_propose_reward r + sv_propose_pool pools\<rparr>) m5 else m5"
  have 6: "bt_total paid ?m = bt_total paid m5 + unat (sv_propose_pool pools)" "no_slashes ?m"
    using reward_record_for_node_total [OF adds_component(5) _ conjunct2 [OF 5]] bound 1(1) 2(1) 3 4 5
    by (simp_all add: word_gt_0)
  have eq: "build_reward_map epoch nid recipient pools collect_scores storage_scores verified credits n = ?m"
    by (simp only: build_reward_map_def Let_def m1_def m2_def m3_def m4_def m5_def)
  show "bt_total paid (build_reward_map epoch nid recipient pools collect_scores storage_scores verified credits n)
      = unat verified + payout pools collect_scores storage_scores credits n"
    unfolding eq 6 using 5 4 3 2 1 by (simp add: payout_def)
  show "no_slashes (build_reward_map epoch nid recipient pools collect_scores storage_scores verified credits n)"
    unfolding eq by (rule 6)
qed

subsection \<open>Net rewards\<close>

lemma with_net_reward_paid:
  assumes "paid r < 2 ^ 128" "rw_slash_debit r = 0"
  shows "unat (rw_net_reward (with_net_reward r)) = paid r"
  using assms by (simp add: with_net_reward_def paid_def unat_saturating_sub unat_saturating_add)

lemma net_rewards_total:
  assumes "bt_total paid m < 2 ^ 128" "no_slashes m"
  shows "unat (\<Sum>r\<leftarrow>sorted_reward_records env m. rw_net_reward r) = bt_total paid m"
proof -
  let ?key = "\<lambda>r. (rw_epoch_id r, case chain_recipient (re_addresses env) r of Inl _ \<Rightarrow> [] | Inr recipient \<Rightarrow> recipient)"
  let ?rs = "sort_key ?key (bt_values m)"
  have each: "unat (rw_net_reward (with_net_reward r)) = paid r" if "r \<in> set ?rs" for r
  proof -
    from that obtain k where k: "bt_get m k = Some r" by (auto simp: bt_values_def bt.ents_iff)
    then have "paid r \<le> bt_total paid m" by (rule bt_total_ge)
    with k assms show ?thesis by (intro with_net_reward_paid) (auto simp: no_slashes_def)
  qed
  have "(\<Sum>r\<leftarrow>?rs. unat (rw_net_reward (with_net_reward r))) = (\<Sum>r\<leftarrow>?rs. paid r)"
    by (intro arg_cong [of _ _ sum_list] map_cong refl each)
  also have "\<dots> = sum_mset (image_mset paid (mset ?rs))" by (simp only: mset_map [symmetric] sum_mset_sum_list)
  also have "\<dots> = sum_mset (image_mset paid (mset (bt_values m)))" by simp
  also have "\<dots> = (\<Sum>r\<leftarrow>bt_values m. paid r)" by (simp only: mset_map [symmetric] sum_mset_sum_list)
  also have "\<dots> = bt_total paid m" by (simp add: bt_total_def)
  finally have total: "(\<Sum>r\<leftarrow>?rs. unat (rw_net_reward (with_net_reward r))) = bt_total paid m" .
  with assms(1) unat_sum_list [of "map rw_net_reward (map with_net_reward ?rs)"] show ?thesis
    by (simp add: sorted_reward_records_def comp_def)
qed

subsection \<open>Verified and pending player rewards\<close>

definition counts_as_verified :: "string btree_set \<Rightarrow> player_reward_block_record \<Rightarrow> bool" where
  "counts_as_verified verified r \<longleftrightarrow> br_session_id r \<noteq> [] \<and> bs_contains verified (br_session_id r)"

text \<open>Ticks of older versions have no records but a total; they count when any session is verified.\<close>

definition tick_verified :: "string btree_set \<Rightarrow> player_reward_tick_artifact \<Rightarrow> nat" where
  "tick_verified verified tick =
     (\<Sum>r\<leftarrow>filter (counts_as_verified verified) (ta_records tick). unat (br_player_reward r))
     + (if ta_records tick = [] \<and> bt_entries verified \<noteq> [] then unat (ta_total_player_reward tick) else 0)"

definition tick_pending :: "string btree_set \<Rightarrow> player_reward_tick_artifact \<Rightarrow> nat" where
  "tick_pending verified tick =
     (\<Sum>r\<leftarrow>filter (\<lambda>r. \<not> counts_as_verified verified r) (ta_records tick). unat (br_player_reward r))
     + (if ta_records tick = [] \<and> bt_entries verified = [] then unat (ta_total_player_reward tick) else 0)"

lemma split_records:
  assumes "unat v + (\<Sum>r\<leftarrow>filter (counts_as_verified verified) rs. unat (br_player_reward r)) < 2 ^ 128"
    and "unat p + (\<Sum>r\<leftarrow>filter (\<lambda>r. \<not> counts_as_verified verified r) rs. unat (br_player_reward r)) < 2 ^ 128"
  shows "case foldl (\<lambda>(v, p) r. if counts_as_verified verified r
      then (saturating_add v (br_player_reward r), p) else (v, saturating_add p (br_player_reward r))) (v, p) rs of
    (v', p') \<Rightarrow> unat v' = unat v + (\<Sum>r\<leftarrow>filter (counts_as_verified verified) rs. unat (br_player_reward r))
      \<and> unat p' = unat p + (\<Sum>r\<leftarrow>filter (\<lambda>r. \<not> counts_as_verified verified r) rs. unat (br_player_reward r))"
  using assms
proof (induction rs arbitrary: v p)
  case (Cons r rs)
  show ?case
  proof (cases "counts_as_verified verified r")
    case True
    have "unat (saturating_add v (br_player_reward r)) = unat v + unat (br_player_reward r)"
      using Cons.prems(1) True by (simp add: unat_saturating_add)
    with True Cons.IH [of "saturating_add v (br_player_reward r)" p] Cons.prems show ?thesis
      by (simp add: add.assoc)
  next
    case False
    have "unat (saturating_add p (br_player_reward r)) = unat p + unat (br_player_reward r)"
      using Cons.prems(2) False by (simp add: unat_saturating_add)
    with False Cons.IH [of v "saturating_add p (br_player_reward r)"] Cons.prems show ?thesis
      by (simp add: add.assoc)
  qed
qed simp

lemma split_tick:
  assumes "unat v + tick_verified verified tick < 2 ^ 128" "unat p + tick_pending verified tick < 2 ^ 128"
  shows "case split_tick_rewards verified (v, p) tick of (v', p') \<Rightarrow>
    unat v' = unat v + tick_verified verified tick \<and> unat p' = unat p + tick_pending verified tick"
proof (cases "ta_records tick")
  case Nil
  with assms show ?thesis
    by (auto simp: split_tick_rewards_def tick_verified_def tick_pending_def unat_saturating_add word_gt_0)
next
  case (Cons r rs)
  with split_records [of v verified "ta_records tick" p] assms show ?thesis
    by (simp add: split_tick_rewards_def tick_verified_def tick_pending_def case_prod_unfold Let_def
        counts_as_verified_def [symmetric])
qed

lemma split_ticks:
  assumes "unat v + (\<Sum>tick\<leftarrow>ticks. tick_verified verified tick) < 2 ^ 128"
    and "unat p + (\<Sum>tick\<leftarrow>ticks. tick_pending verified tick) < 2 ^ 128"
  shows "case foldl (split_tick_rewards verified) (v, p) ticks of (v', p') \<Rightarrow>
    unat v' = unat v + (\<Sum>tick\<leftarrow>ticks. tick_verified verified tick)
    \<and> unat p' = unat p + (\<Sum>tick\<leftarrow>ticks. tick_pending verified tick)"
  using assms
proof (induction ticks arbitrary: v p)
  case (Cons tick ticks)
  obtain v1 p1 where run: "split_tick_rewards verified (v, p) tick = (v1, p1)" by force
  with split_tick [of v verified tick p] Cons.prems
  have "unat v1 = unat v + tick_verified verified tick" "unat p1 = unat p + tick_pending verified tick" by simp_all
  with Cons.IH [of v1 p1] Cons.prems run show ?case by (simp add: add.assoc)
qed simp

lemma nothing_verified:
  assumes "bt_entries verified = []"
  shows "fst (foldl (split_tick_rewards verified) acc ticks) = fst acc"
proof -
  have none: "\<not> bs_contains verified x" for x
    using assms bt.ents_iff [of x _ verified] by (auto simp: bs_contains_def)
  have "fst (foldl (\<lambda>p r. if br_session_id r \<noteq> [] \<and> bs_contains verified (br_session_id r)
      then (saturating_add (fst p) (br_player_reward r), snd p)
      else (fst p, saturating_add (snd p) (br_player_reward r))) acc rs) = fst acc"
    for acc :: "amount \<times> amount" and rs :: "player_reward_block_record list"
    by (induction rs arbitrary: acc) (simp_all add: none)
  then have "fst (split_tick_rewards verified acc tick) = fst acc" for acc tick
    using assms by (simp add: split_tick_rewards_def Let_def case_prod_unfold)
  then show ?thesis by (induction ticks arbitrary: acc) simp_all
qed

lemma bs_contains_fold:
  "bs_contains (foldl (\<lambda>s x. if P x then bs_insert (f x) s else s) m xs) y \<longleftrightarrow> bs_contains m y \<or> (\<exists>x \<in> set xs. P x \<and> f x = y)"
  by (induction xs arbitrary: m) auto

text \<open>A session is verified by its settlement or by an attestation of somebody else.\<close>

lemma session_verified_iff:
  "session_verified inp session \<longleftrightarrow>
     ri_settlement_valid inp (hex_32 (ps_session_id session)) = Some True
     \<or> (\<exists>att \<in> set (ri_attestations inp). wa_session_id att = ps_session_id session
          \<and> ri_identity_address inp \<noteq> Some (wa_witness_address att))"
proof -
  let ?w = "session_witnesses (ri_identity_address inp) (ri_attestations inp) session"
  have "bt_entries ?w \<noteq> [] \<longleftrightarrow> (\<exists>x. bs_contains ?w x)"
    using bt.ents_iff [of _ _ ?w] by (fastforce simp: bs_contains_def neq_Nil_conv)
  then show ?thesis
    by (auto simp: session_verified_def session_witnesses_def bs_contains_fold split: option.splits)
qed

lemma verified_session_ids_iff:
  "bs_contains (verified_session_ids_for_epoch inp epoch) sid \<longleftrightarrow>
     (\<exists>session \<in> set (ri_sessions inp). ps_epoch_id session = epoch \<and> hex_32 (ps_session_id session) = sid
       \<and> session_verified inp session)"
proof -
  have "verified_session_ids_for_epoch inp epoch = foldl (\<lambda>s session.
      if ps_epoch_id session = epoch \<and> session_verified inp session then bs_insert (hex_32 (ps_session_id session)) s else s)
    bt_empty (ri_sessions inp)"
    unfolding verified_session_ids_for_epoch_def by (rule arg_cong [of _ _ "\<lambda>f. foldl f _ _"]) (auto simp: fun_eq_iff)
  then show ?thesis by (auto simp: bs_contains_fold)
qed

subsection \<open>The budget of the service pools\<close>

text \<open>A pool is rounded down, but a positive share of a positive pool is at least one unit.\<close>

lemma proportional_service_pool_le:
  "unat (proportional_service_pool base_pool bps) * 10000 \<le> unat base_pool * unat bps + 9999"
proof (cases "base_pool = 0 \<or> bps = 0")
  case True
  then show ?thesis by (auto simp: proportional_service_pool_def)
next
  case False
  let ?p = "saturating_mul base_pool (ucast bps)"
  have round: "max q 1 * 10000 \<le> x + 9999" if "q * 10000 \<le> x" "0 < x" for q x :: nat
    using that by (auto simp: max_def)
  have "unat ?p div 10000 * 10000 \<le> unat base_pool * unat bps"
    using div_times_less_eq_dividend [of "unat ?p" 10000] by (simp add: unat_saturating_mul unat_ucast_up)
  moreover have "0 < unat base_pool * unat bps"
    using False by (simp add: unat_gt_0)
  moreover have "unat (max (?p div 10000) 1) = max (unat ?p div 10000) 1"
    by (simp add: max_def word_le_nat_alt unat_div_distrib)
  ultimately show ?thesis
    using False round [of "unat ?p div 10000"] by (simp add: proportional_service_pool_def)
qed

definition pool_total :: "service_reward_pools \<Rightarrow> nat" where
  "pool_total p = unat (sv_collect_pool p) + unat (sv_store_pool p) + unat (sv_verify_pool p) + unat (sv_propose_pool p)"

lemma service_pools_within_budget:
  fixes config :: node_config and blocks :: nat
  defines "base_pool \<equiv> saturating_mul (base_service_reward_per_block (rc_emission_year (nc_reward config))
    (rc_reward_block_secs (nc_reward config))) (word_of_nat blocks)"
  assumes "rc_reward_source (nc_reward config) = TokenomicsSource" "valid_reward_config poll (nc_reward config)"
  shows "pool_total (service_reward_pools_for_epoch config blocks gvs has_retention has_groups has_credits) \<le> unat base_pool + 3"
proof -
  let ?r = "nc_reward config" and ?p = "\<lambda>bps. unat (proportional_service_pool base_pool bps)"
  have "(?p (rc_collect_reward_bps ?r) + ?p (rc_store_reward_bps ?r) + ?p (rc_verify_reward_bps ?r)
      + ?p (rc_propose_reward_bps ?r)) * 10000 \<le> unat base_pool * (unat (rc_collect_reward_bps ?r)
      + unat (rc_store_reward_bps ?r) + unat (rc_verify_reward_bps ?r) + unat (rc_propose_reward_bps ?r)) + 4 * 9999"
    unfolding add_mult_distrib add_mult_distrib2
    using proportional_service_pool_le [of base_pool "rc_collect_reward_bps ?r"]
      proportional_service_pool_le [of base_pool "rc_store_reward_bps ?r"]
      proportional_service_pool_le [of base_pool "rc_verify_reward_bps ?r"]
      proportional_service_pool_le [of base_pool "rc_propose_reward_bps ?r"] by linarith
  also have "\<dots> < (unat base_pool + 4) * 10000" using assms(3) by (simp add: valid_reward_config_def)
  finally have "?p (rc_collect_reward_bps ?r) + ?p (rc_store_reward_bps ?r) + ?p (rc_verify_reward_bps ?r)
      + ?p (rc_propose_reward_bps ?r) \<le> unat base_pool + 3" by (simp del: add_mult_distrib)
  with assms(2) show ?thesis
    by (auto simp: service_reward_pools_for_epoch_def pool_total_def Let_def base_pool_def [symmetric])
qed

lemma handed_out_le: "handed_out pool weights \<le> unat pool"
  by (simp add: handed_out_def)

lemma payout_le: "payout pools collect_scores storage_scores credits n \<le> pool_total pools"
  using handed_out_le [of "sv_collect_pool pools" collect_scores] handed_out_le [of "sv_store_pool pools" storage_scores]
    handed_out_le [of "sv_verify_pool pools" credits]
  by (simp add: payout_def pool_total_def verify_payout_def)

subsection \<open>The epoch\<close>

definition epoch_pools :: "reward_env \<Rightarrow> node_config \<Rightarrow> epoch_id \<Rightarrow> reward_inputs \<Rightarrow> epoch_aggregation_computation
    \<Rightarrow> local_retention_book \<Rightarrow> player_reward_tick_artifact list \<Rightarrow> service_reward_pools" where
  "epoch_pools env config epoch inp aggregation book ticks =
     service_reward_pools_for_epoch config
       (if bt_entries (verified_session_ids_for_epoch inp epoch) \<noteq> []
        then \<Sum>tick\<leftarrow>ticks. ta_completed_reward_block_count tick else 0)
       (\<Sum>g\<leftarrow>ec_groups aggregation. reward_units_from_gvs (ar_gvs_microunits (eg_aggregate g)))
       (list_ex (\<lambda>r. sp_epoch_id r = epoch) (bt_values (rb_payloads book)))
       (ec_groups aggregation \<noteq> []) (bt_entries (load_witness_credits env inp epoch) \<noteq> [])"

lemma compute_local_epoch_rewards_Inr:
  assumes "compute_local_epoch_rewards env activated config epoch inp = Inr c"
    and "ri_aggregation inp = Inr aggregation" "ri_retention_book inp = Inr book" "load_player_reward_ticks_for_epoch epoch (ri_tick_files inp) = Inr ticks"
  obtains nid where
    "config_node_id config = Inr nid"
    "rc_records c = sorted_reward_records env (build_reward_map epoch nid (ri_local_account inp)
      (epoch_pools env config epoch inp aggregation book ticks) (collect_collect_scores (ec_groups aggregation))
      (collect_storage_scores epoch book) (er_local_player_reward_total (rc_artifact c))
      (load_witness_credits env inp epoch) (local_witness_attestation_count config epoch (ri_credentials inp)))"
    "er_total_distributed (rc_artifact c) = (\<Sum>r\<leftarrow>rc_records c. rw_net_reward r)"
    "(er_local_player_reward_total (rc_artifact c), er_pending_player_reward_total (rc_artifact c))
      = foldl (split_tick_rewards (verified_session_ids_for_epoch inp epoch)) (0, 0) ticks"
  using assms unfolding compute_local_epoch_rewards_def epoch_pools_def Let_def
  by (auto split: sum.splits prod.splits)

text \<open>The hypotheses under which no sum or product of the epoch leaves its width.\<close>

definition epoch_fits :: "reward_env \<Rightarrow> epoch_id \<Rightarrow> reward_inputs \<Rightarrow> epoch_aggregation_computation
    \<Rightarrow> local_retention_book \<Rightarrow> epoch_reward_artifact \<Rightarrow> bool" where
  "epoch_fits env epoch inp aggregation book a \<longleftrightarrow>
     splits (er_collect_pool a) (collect_collect_scores (ec_groups aggregation))
     \<and> splits (er_store_pool a) (collect_storage_scores epoch book)
     \<and> credits_split (er_verify_pool a) (load_witness_credits env inp epoch)
     \<and> unat (er_local_player_reward_total a) + unat (er_collect_pool a) + unat (er_store_pool a)
         + unat (er_verify_pool a) + unat (er_propose_pool a) < 2 ^ 128"

definition epoch_payout :: "reward_env \<Rightarrow> node_config \<Rightarrow> epoch_id \<Rightarrow> reward_inputs \<Rightarrow> epoch_aggregation_computation
    \<Rightarrow> local_retention_book \<Rightarrow> epoch_reward_artifact \<Rightarrow> nat" where
  "epoch_payout env config epoch inp aggregation book a =
     handed_out (er_collect_pool a) (collect_collect_scores (ec_groups aggregation))
     + handed_out (er_store_pool a) (collect_storage_scores epoch book)
     + verify_payout (er_verify_pool a) (load_witness_credits env inp epoch) (local_witness_attestation_count config epoch (ri_credentials inp))
     + unat (er_propose_pool a)"

lemma artifact_pools:
  assumes "compute_local_epoch_rewards env activated config epoch inp = Inr c"
    and "ri_aggregation inp = Inr aggregation" "ri_retention_book inp = Inr book" "load_player_reward_ticks_for_epoch epoch (ri_tick_files inp) = Inr ticks"
  shows "er_collect_pool (rc_artifact c) = sv_collect_pool (epoch_pools env config epoch inp aggregation book ticks)"
    "er_store_pool (rc_artifact c) = sv_store_pool (epoch_pools env config epoch inp aggregation book ticks)"
    "er_verify_pool (rc_artifact c) = sv_verify_pool (epoch_pools env config epoch inp aggregation book ticks)"
    "er_propose_pool (rc_artifact c) = sv_propose_pool (epoch_pools env config epoch inp aggregation book ticks)"
    "er_player_reward_block_count (rc_artifact c) = (if bt_entries (verified_session_ids_for_epoch inp epoch) \<noteq> []
      then \<Sum>tick\<leftarrow>ticks. ta_completed_reward_block_count tick else 0)"
  using assms unfolding compute_local_epoch_rewards_def epoch_pools_def Let_def
  by (auto split: sum.splits prod.splits)

lemma epoch_rewards_total:
  assumes run: "compute_local_epoch_rewards env activated config epoch inp = Inr c"
    and inputs: "ri_aggregation inp = Inr aggregation" "ri_retention_book inp = Inr book" "load_player_reward_ticks_for_epoch epoch (ri_tick_files inp) = Inr ticks"
    and fits: "epoch_fits env epoch inp aggregation book (rc_artifact c)"
  shows "unat (er_total_distributed (rc_artifact c))
    = unat (er_local_player_reward_total (rc_artifact c)) + epoch_payout env config epoch inp aggregation book (rc_artifact c)"
proof -
  obtain nid where records: "rc_records c = sorted_reward_records env (build_reward_map epoch nid (ri_local_account inp)
      (epoch_pools env config epoch inp aggregation book ticks) (collect_collect_scores (ec_groups aggregation))
      (collect_storage_scores epoch book) (er_local_player_reward_total (rc_artifact c))
      (load_witness_credits env inp epoch) (local_witness_attestation_count config epoch (ri_credentials inp)))"
    "er_total_distributed (rc_artifact c) = (\<Sum>r\<leftarrow>rc_records c. rw_net_reward r)"
    using compute_local_epoch_rewards_Inr [OF run inputs] by blast
  let ?pools = "epoch_pools env config epoch inp aggregation book ticks"
  let ?pay = "payout ?pools (collect_collect_scores (ec_groups aggregation)) (collect_storage_scores epoch book)
    (load_witness_credits env inp epoch) (local_witness_attestation_count config epoch (ri_credentials inp))"
  note pools = artifact_pools [OF run inputs]
  have pay: "?pay = epoch_payout env config epoch inp aggregation book (rc_artifact c)"
    by (simp add: payout_def epoch_payout_def pools)
  have "unat (er_local_player_reward_total (rc_artifact c)) + ?pay < 2 ^ 128"
    using fits payout_le [of ?pools "collect_collect_scores (ec_groups aggregation)" "collect_storage_scores epoch book"
      "load_witness_credits env inp epoch" "local_witness_attestation_count config epoch (ri_credentials inp)"]
    by (simp add: epoch_fits_def pools pool_total_def)
  with fits show ?thesis
    using build_reward_map_total [of ?pools "collect_collect_scores (ec_groups aggregation)" "collect_storage_scores epoch book"
        "load_witness_credits env inp epoch" "er_local_player_reward_total (rc_artifact c)"]
    by (simp add: records net_rewards_total epoch_fits_def pools pay)
qed

lemma epoch_player_rewards:
  assumes run: "compute_local_epoch_rewards env activated config epoch inp = Inr c"
    and inputs: "ri_aggregation inp = Inr aggregation" "ri_retention_book inp = Inr book" "load_player_reward_ticks_for_epoch epoch (ri_tick_files inp) = Inr ticks"
    and small: "(\<Sum>tick\<leftarrow>ticks. tick_verified (verified_session_ids_for_epoch inp epoch) tick) < 2 ^ 128"
      "(\<Sum>tick\<leftarrow>ticks. tick_pending (verified_session_ids_for_epoch inp epoch) tick) < 2 ^ 128"
  shows "unat (er_local_player_reward_total (rc_artifact c))
      = (\<Sum>tick\<leftarrow>ticks. tick_verified (verified_session_ids_for_epoch inp epoch) tick)"
    "unat (er_pending_player_reward_total (rc_artifact c))
      = (\<Sum>tick\<leftarrow>ticks. tick_pending (verified_session_ids_for_epoch inp epoch) tick)"
proof -
  have "(er_local_player_reward_total (rc_artifact c), er_pending_player_reward_total (rc_artifact c))
      = foldl (split_tick_rewards (verified_session_ids_for_epoch inp epoch)) (0, 0) ticks"
    using compute_local_epoch_rewards_Inr [OF run inputs] by blast
  with split_ticks [of 0 "verified_session_ids_for_epoch inp epoch" ticks 0] small
  show "unat (er_local_player_reward_total (rc_artifact c))
      = (\<Sum>tick\<leftarrow>ticks. tick_verified (verified_session_ids_for_epoch inp epoch) tick)"
    "unat (er_pending_player_reward_total (rc_artifact c))
      = (\<Sum>tick\<leftarrow>ticks. tick_pending (verified_session_ids_for_epoch inp epoch) tick)"
    by (metis (mono_tags, lifting) case_prod_conv add_0 unat_0)+
qed

text \<open>An epoch without a verified session releases nothing when the pools come from the emission.\<close>

lemma unverified_epoch_pays_nothing:
  assumes run: "compute_local_epoch_rewards env activated config epoch inp = Inr c"
    and none: "bt_entries (verified_session_ids_for_epoch inp epoch) = []"
    and src: "rc_reward_source (nc_reward config) = TokenomicsSource"
  shows "er_total_distributed (rc_artifact c) = 0 \<and> er_local_player_reward_total (rc_artifact c) = 0"
proof -
  obtain aggregation book ticks where inputs: "ri_aggregation inp = Inr aggregation"
      "ri_retention_book inp = Inr book" "load_player_reward_ticks_for_epoch epoch (ri_tick_files inp) = Inr ticks"
    using run by (auto simp: compute_local_epoch_rewards_def split: sum.splits)
  have player: "er_local_player_reward_total (rc_artifact c) = 0"
    using compute_local_epoch_rewards_Inr [OF run inputs] nothing_verified [OF none, of "(0, 0)" ticks] by (metis fst_conv)
  have "pool_total (epoch_pools env config epoch inp aggregation book ticks) = 0"
    using none src by (simp add: epoch_pools_def service_reward_pools_for_epoch_def Let_def pool_total_def
        saturating_mul_def proportional_service_pool_def)
  then have pools: "er_collect_pool (rc_artifact c) = 0" "er_store_pool (rc_artifact c) = 0"
      "er_verify_pool (rc_artifact c) = 0" "er_propose_pool (rc_artifact c) = 0"
    by (simp_all add: artifact_pools [OF run inputs] pool_total_def unat_eq_0)
  then have "epoch_fits env epoch inp aggregation book (rc_artifact c)"
    by (simp add: epoch_fits_def splits_def credits_split_def player)
  from epoch_rewards_total [OF run inputs this] have "unat (er_total_distributed (rc_artifact c)) = 0"
    by (simp add: player pools epoch_payout_def handed_out_def verify_payout_def)
  with player show ?thesis by (simp add: unat_eq_0)
qed

lemma epoch_rewards_within_budget:
  assumes run: "compute_local_epoch_rewards env activated config epoch inp = Inr c"
    and inputs: "ri_aggregation inp = Inr aggregation" "ri_retention_book inp = Inr book" "load_player_reward_ticks_for_epoch epoch (ri_tick_files inp) = Inr ticks"
    and fits: "epoch_fits env epoch inp aggregation book (rc_artifact c)"
    and config: "rc_reward_source (nc_reward config) = TokenomicsSource" "valid_reward_config poll (nc_reward config)"
  defines "budget \<equiv> saturating_mul (base_service_reward_per_block (rc_emission_year (nc_reward config))
      (rc_reward_block_secs (nc_reward config))) (word_of_nat (er_player_reward_block_count (rc_artifact c)))"
  shows "unat (er_total_distributed (rc_artifact c)) \<le> unat (er_local_player_reward_total (rc_artifact c)) + unat budget + 3"
proof -
  let ?pools = "epoch_pools env config epoch inp aggregation book ticks"
  have "pool_total ?pools \<le> unat budget + 3"
    unfolding epoch_pools_def budget_def artifact_pools(5) [OF run inputs] by (rule service_pools_within_budget [OF config])
  moreover have "epoch_payout env config epoch inp aggregation book (rc_artifact c) \<le> pool_total ?pools"
    using payout_le [of ?pools "collect_collect_scores (ec_groups aggregation)" "collect_storage_scores epoch book"
      "load_witness_credits env inp epoch" "local_witness_attestation_count config epoch (ri_credentials inp)"]
    by (simp add: payout_def epoch_payout_def artifact_pools [OF run inputs])
  ultimately show ?thesis using epoch_rewards_total [OF run inputs fits] by simp
qed

text \<open>The computation only fails when an input, the node id or an encoder does.\<close>

lemma reward_record_root_total:
  assumes "\<And>fs. \<exists>b. re_json env fs = Inr b" "\<And>prefix d. \<exists>s. bech32_encode (re_addresses env) prefix d = Inr s"
  shows "\<exists>root. reward_record_root env rs = Inr root"
proof -
  have "\<exists>s. chain_recipient (re_addresses env) r = Inr s" for r
  proof -
    obtain s where "bech32_encode (re_addresses env) DEFAULT_BECH32_PREFIX
        (to_base32 (re_addresses env) (take ACCOUNT_ADDRESS_LEN (to_bytes32 (rw_node_id r)))) = Inr s"
      using assms(2) by blast
    then show ?thesis by (simp add: chain_recipient_def node_id_to_bech32_def encode_bech32_def)
  qed
  then have "\<exists>y. map_sum (\<lambda>e. RewardIo (cosmos_error_text e)) (\<lambda>recipient. (rw_epoch_id r, recipient, r))
      (chain_recipient (re_addresses env) r) = Inr y" for r
    by (metis map_sum.simps(2))
  then have "\<exists>xs. collect_results (map (\<lambda>r. map_sum (\<lambda>e. RewardIo (cosmos_error_text e))
      (\<lambda>recipient. (rw_epoch_id r, recipient, r)) (chain_recipient (re_addresses env) r)) rs) = Inr xs"
    by (rule collect_results_total)
  then obtain xs where xs: "collect_results (map (\<lambda>r. map_sum (\<lambda>e. RewardIo (cosmos_error_text e))
      (\<lambda>recipient. (rw_epoch_id r, recipient, r)) (chain_recipient (re_addresses env) r)) rs) = Inr xs" ..
  have "\<exists>y. (\<lambda>(_, recipient, r). map_sum RewardJson (merkle_leaf_sha256 (re_sha256 env))
      (reward_record_to_chain_json (re_json env) r recipient)) x = Inr y" for x :: "epoch_id \<times> string \<times> reward_record"
    using assms(1) by (cases x) (metis case_prod_conv reward_record_to_chain_json_def map_sum.simps(2))
  then have "\<exists>ys. collect_results (map (\<lambda>(_, recipient, r). map_sum RewardJson (merkle_leaf_sha256 (re_sha256 env))
      (reward_record_to_chain_json (re_json env) r recipient)) (sort_key (\<lambda>(epoch, recipient, _). (epoch, recipient)) xs)) = Inr ys"
    by (rule collect_results_total)
  with xs show ?thesis by (auto simp: reward_record_root_def Let_def)
qed

lemma compute_local_epoch_rewards_total:
  assumes "ri_aggregation inp = Inr aggregation" "ri_retention_book inp = Inr book" "load_player_reward_ticks_for_epoch epoch (ri_tick_files inp) = Inr ticks"
    and "config_node_id config = Inr nid"
    and "\<And>fs. \<exists>b. re_json env fs = Inr b" "\<And>prefix d. \<exists>s. bech32_encode (re_addresses env) prefix d = Inr s"
  shows "\<exists>c. compute_local_epoch_rewards env activated config epoch inp = Inr c"
proof -
  have "\<exists>c. (case reward_record_root env rs of Inl e \<Rightarrow> Inl e | Inr root \<Rightarrow> Inr (f root)) = Inr c" for rs
    and f :: "hash32 \<Rightarrow> epoch_reward_computation"
    using reward_record_root_total [OF assms(5,6), of rs] by auto
  then show ?thesis
    unfolding compute_local_epoch_rewards_def assms(1-4) sum.case Let_def case_prod_unfold .
qed

end
