(* ===== verification/Node_Samples.thy ===== *)
theory Node_Samples
  imports Samples Tick_Accounting Reward_Conservation
begin

text \<open>
  Concrete inputs for the theorems on the node: encoders that never fail, a batch of one
  observation, three observations of one game, a reward tick and an epoch with one session.
\<close>

subsection \<open>Batches and observations\<close>

definition sample_pipeline_env :: pipeline_env where
  "sample_pipeline_env = \<lparr>encode_tx = (\<lambda>_. []), encode_params = (\<lambda>_. Inr []), verifying_key_ok = (\<lambda>_. True),
     ed25519_verify = (\<lambda>pk _ sig. sig = sample_signature pk), pe_sha256 = (\<lambda>_. 0), pe_hex = (\<lambda>_. []),
     encode_observation = (\<lambda>_. []), encode_observations = (\<lambda>_. [])\<rparr>"

definition sample_observation :: "node_id \<Rightarrow> u64 \<Rightarrow> observation_record" where
  "sample_observation collector players =
     \<lparr>obs_epoch_id = 1, obs_slot_id = 3, obs_app_id = 730, obs_source_kind = Steam,
      obs_source_confidence_ppm = 1000000, obs_observed_players = players, obs_observed_at_millis = 5,
      obs_collector_id = collector, obs_raw_body_cid = ''raw'', obs_raw_body_hash = 9,
      obs_collector_signature = sample_signature 1\<rparr>"

definition sample_builder :: batch_builder where
  "sample_builder = snd (push_observation (sample_observation alice 100) (new_builder 1 alice))"

definition sample_sealed :: assembled_batch where
  "sample_sealed = projr (finalize_batch sample_pipeline_env sample_builder 10)"

definition sample_sealed_tx :: submit_batch_tx where
  "sample_sealed_tx = \<lparr>sb_batch_commit = ab_batch_commit sample_sealed, sb_pubkey = 1, sb_signature = sample_signature 1\<rparr>"

lemma sample_builder_built: "built 1 alice sample_builder"
  unfolding sample_builder_def by (intro built_push built_new)

lemma sample_builder_observations: "bb_observations sample_builder = [sample_observation alice 100]"
  by (simp add: sample_builder_def push_observation_def new_builder_def sample_observation_def)

lemma sample_sealed_run: "finalize_batch sample_pipeline_env sample_builder 10 = Inr sample_sealed"
  by (simp add: sample_sealed_def finalize_batch_def sample_builder_observations Let_def)

definition sample_input :: "node_id \<Rightarrow> u64 \<Rightarrow> aggregate_input" where
  "sample_input collector players =
     \<lparr>ai_observation = sample_observation collector players, ai_batch_commit_hash = 4\<rparr>"

definition sample_aggregation_env :: aggregation_env where
  "sample_aggregation_env = \<lparr>ae_sha256 = (\<lambda>_. 0), ae_encode_batch_commit = (\<lambda>_. Inr []), ae_json = (\<lambda>_. Inr []),
     ae_activated = None\<rparr>"

definition sample_batch :: "observation_record list \<Rightarrow> assembled_batch" where
  "sample_batch obs = \<lparr>ab_batch_commit = ab_batch_commit sample_sealed, ab_payload_hash = 0, ab_payload_cid = [],
     ab_payload_bytes = [], ab_observations = obs\<rparr>"

definition sample_loaded :: "assembled_batch list" where
  "sample_loaded = [sample_batch [sample_observation 1 100, sample_observation 2 110],
     sample_batch [sample_observation 3 9999]]"

lemma sample_aggregation:
  "\<exists>result. compute_local_epoch_aggregation sample_aggregation_env default_node_config 1 sample_loaded = Inr result"
  by (rule compute_local_epoch_aggregation_total) (simp_all add: sample_aggregation_env_def)

lemma sample_epoch_inputs:
  "map ai_observation (epoch_inputs sample_aggregation_env 1 sample_loaded)
    = [sample_observation 1 100, sample_observation 2 110, sample_observation 3 9999]"
  by (simp add: epoch_inputs_def sample_loaded_def sample_batch_def batch_inputs_def sample_observation_def)

subsection \<open>A reward tick\<close>

text \<open>Blocks of 60 seconds; 20 seconds are pending and the tick samples 130 more.\<close>

definition sample_tick_config :: node_config where
  "sample_tick_config = default_node_config\<lparr>nc_reward := default_reward_config\<lparr>rc_reward_block_secs := 60,
     rc_game_mappings := [\<lparr>gm_process_name = ''cs2.exe'', gm_app_id = 730, gm_game_coefficient_ppm = 1000000\<rparr>]\<rparr>\<rparr>"

definition sample_context :: reward_tick_context where
  "sample_context = \<lparr>cx_epoch_id = 1, cx_slot_id = 3, cx_session_id = ''s'', cx_sampled_interval_secs = 130,
     cx_fixed_block_reward = 1000, cx_fixed_player_reward = 1000, cx_reward_adjustment_period_index = 0,
     cx_adjustment_cycle_index = 0, cx_fixed_block_reward_basis_period_index = 0,
     cx_fixed_player_reward_basis_cycle_index = 0, cx_fixed_block_reward_basis_network_weight_units = 0,
     cx_fixed_player_reward_basis_total_network_weight_units = 0\<rparr>"

definition sample_pending_block :: pending_player_reward_block_state where
  "sample_pending_block = default_pending_state\<lparr>pd_sampled_interval_secs := 20, pd_fixed_block_reward := 1000,
     pd_fixed_player_reward := 1000, pd_total_network_weight_units := 20000000,
     pd_total_adjustment_cycle_network_weight_units := 20000000,
     pd_entries := [\<lparr>pn_process_name = ''cs2.exe'', pn_app_id = 730, pn_game_coefficient_ppm = 1000000, pn_play_seconds = 20\<rparr>]\<rparr>"

definition sample_activity :: "activity_sample list" where
  "sample_activity = [steam_current_players 730 5 0 ''x'']"

lemma sample_coefficient: "game_coefficient_ppm_for_app None sample_tick_config 730 = 1000000"
  by (simp add: game_coefficient_ppm_for_app_def activated_protocol_game_coefficient_ppm_for_app_def sample_tick_config_def)

lemma sample_canonical: "canonical_process_name ''cs2.exe'' = Some ''cs2.exe''"
  by (simp add: canonical_process_name_def trim_visible visible_def char_boundary_def to_ascii_lowercase_def)

lemma sample_tick_mapping:
  "select_active_game_mapping None (\<lambda>_. None) sample_tick_config (Some ''cs2.exe'') [] = Some (Some (''cs2.exe'', 730, 1000000))"
  using sample_coefficient sample_canonical
  by (simp add: select_active_game_mapping_def mapping_of_process_def find_game_mapping_def)
    (simp add: sample_tick_config_def credited_game_def)

lemma sample_tick_secs: "max (effective_reward_block_secs None sample_tick_config) 1 = 60"
  by (simp add: effective_reward_block_secs_def sample_tick_config_def default_reward_config_def)

lemma sample_tick_run:
  "\<exists>c. record_player_reward_tick None (\<lambda>_. None) [] sample_tick_config sample_context (Some sample_pending_block)
      (Some ''cs2.exe'') [] sample_activity = Some c"
  by (simp add: record_player_reward_tick_def sample_tick_mapping)

lemma sample_tick_covered:
  "covered (tick_setup_of None [] sample_tick_config sample_context sample_activity (Some (''cs2.exe'', 730, 1000000)))"
  by (simp add: covered_def tick_setup_of_def sample_activity_def steam_current_players_def new_sample_def sample_weight_def
      sample_tick_secs sample_coefficient)

lemma sample_tick_balanced: "balanced 60 sample_pending_block"
  by (simp add: balanced_def sample_pending_block_def default_pending_state_def played_def entry_weight_def)

subsection \<open>The rewards of an epoch\<close>

definition sample_reward_env :: reward_env where
  "sample_reward_env = \<lparr>re_sha256 = (\<lambda>_. 0), re_json = (\<lambda>_. Inr []),
     re_addresses = \<lparr>sha256_digest = (\<lambda>_. 0), bech32_encode = (\<lambda>_ _. Inr ''a''), bech32_decode = (\<lambda>_. Inl []),
       to_base32 = (\<lambda>b. b), from_base32 = Inr, hex_decode = (\<lambda>_. Inl []), hex_encode_bytes = (\<lambda>_. [])\<rparr>\<rparr>"

definition sample_session :: play_session where
  "sample_session = \<lparr>ps_session_id = 6, ps_node_address = 0, ps_app_id = 730, ps_epoch_id = 1, ps_slot_id = 3,
     ps_play_seconds = 20, ps_collector_address = 0, ps_observation_cid = [], ps_observed_players = 5,
     ps_submitted_at_height = 0, ps_session_signature = []\<rparr>"

definition sample_block_record :: player_reward_block_record where
  "sample_block_record = block_record (tick_setup_of None [] sample_tick_config (sample_context\<lparr>cx_session_id := hex_32 6\<rparr>)
     sample_activity None) sample_pending_block 0 (hd (pd_entries sample_pending_block))"

definition sample_raw_tick :: player_reward_tick_artifact where
  "sample_raw_tick = tick_artifact None sample_tick_config sample_context None []
     \<lparr>tp_pending = default_pending_state, tp_records = [sample_block_record], tp_completed = 1, tp_next_block_index = 1\<rparr>"

definition sample_tick :: player_reward_tick_artifact where
  "sample_tick = normalize_tick_artifact sample_raw_tick"

definition sample_aggregation_result :: epoch_aggregation_computation where
  "sample_aggregation_result = \<lparr>ec_artifact = \<lparr>ea_epoch_id = 1, ea_aggregate_count = 0, ea_total_observation_count = 0,
     ea_deduped_observation_count = 0, ea_accepted_observation_count = 0, ea_aggregate_root_hex = [], ea_records = []\<rparr>,
     ec_groups = []\<rparr>"

text \<open>The session of the epoch is settled on the chain or has no proof at all.\<close>

definition sample_reward_inputs :: "bool \<Rightarrow> reward_inputs" where
  "sample_reward_inputs settled_on_chain =
     \<lparr>ri_aggregation = Inr sample_aggregation_result, ri_retention_book = Inr (with_quota_gb 1),
      ri_tick_files = Inr [sample_raw_tick], ri_sessions = [sample_session], ri_attestations = [],
      ri_settlement_valid = (\<lambda>_. if settled_on_chain then Some True else None), ri_chain_credits = bt_empty,
      ri_identity_address = None, ri_local_account = None, ri_credentials = []\<rparr>"

definition sample_reward_config :: node_config where
  "sample_reward_config = default_node_config\<lparr>nc_reward := default_reward_config\<lparr>rc_reward_source := TokenomicsSource\<rparr>\<rparr>"

lemma sample_block_record_fields:
  "br_player_reward sample_block_record = 1000" "br_session_id sample_block_record = hex_32 6"
proof -
  have "length (hex_32 6) = 64" by (rule length_hex_32)
  then have "hex_32 6 \<noteq> []" by auto
  then show "br_session_id sample_block_record = hex_32 6"
    by (simp add: sample_block_record_def block_record_def tick_setup_of_def Let_def)
  show "br_player_reward sample_block_record = 1000"
    by (simp add: sample_block_record_def block_record_def tick_setup_of_def Let_def sample_pending_block_def default_pending_state_def
        weighted_share_def saturating_mul_def)
qed

lemma sample_verified:
  "verified_session_ids_for_epoch (sample_reward_inputs True) 1 = bs_insert (hex_32 6) bt_empty"
  "bt_entries (verified_session_ids_for_epoch (sample_reward_inputs False) 1) = []"
  by (simp_all add: verified_session_ids_for_epoch_def sample_reward_inputs_def sample_session_def session_verified_def
      session_witnesses_def)

lemma sample_config_node_id: "config_node_id sample_reward_config = Inr (repeated_byte 0x11)"
  "config_node_id default_node_config = Inr (repeated_byte 0x11)"
  by (simp_all add: config_node_id_def sample_reward_config_def default_node_config_def decode_hex_32_hex_32)

lemma sample_inputs:
  "ri_aggregation (sample_reward_inputs settled_on_chain) = Inr sample_aggregation_result"
  "ri_retention_book (sample_reward_inputs settled_on_chain) = Inr (with_quota_gb 1)"
  "load_player_reward_ticks_for_epoch 1 (ri_tick_files (sample_reward_inputs settled_on_chain)) = Inr [sample_tick]"
  by (simp_all add: sample_reward_inputs_def load_player_reward_ticks_for_epoch_def sample_tick_def sample_raw_tick_def
      normalize_tick_artifact_def tick_artifact_def Let_def sample_context_def)

lemma sample_rewards_run:
  "\<exists>c. compute_local_epoch_rewards sample_reward_env None sample_reward_config 1 (sample_reward_inputs settled_on_chain) = Inr c"
  by (rule compute_local_epoch_rewards_total [OF _ _ _ sample_config_node_id(1)])
    (simp_all add: sample_inputs sample_reward_env_def)

lemma sample_static_run:
  "\<exists>c. compute_local_epoch_rewards sample_reward_env None default_node_config 1 (sample_reward_inputs settled_on_chain) = Inr c"
  by (rule compute_local_epoch_rewards_total [OF _ _ _ sample_config_node_id(2)])
    (simp_all add: sample_inputs sample_reward_env_def)

lemma sample_tick_split:
  "tick_verified (verified_session_ids_for_epoch (sample_reward_inputs True) 1) sample_tick = 1000"
  "tick_pending (verified_session_ids_for_epoch (sample_reward_inputs True) 1) sample_tick = 0"
proof -
  have "length (hex_32 6) = 64" by (rule length_hex_32)
  then have "hex_32 6 \<noteq> []" by auto
  then show "tick_verified (verified_session_ids_for_epoch (sample_reward_inputs True) 1) sample_tick = 1000"
    "tick_pending (verified_session_ids_for_epoch (sample_reward_inputs True) 1) sample_tick = 0"
    by (simp_all add: sample_verified tick_verified_def tick_pending_def sample_tick_def sample_raw_tick_def normalize_tick_artifact_def
        normalize_block_record_def Let_def tick_artifact_def
        counts_as_verified_def sample_block_record_fields)
qed

text \<open>Nothing was collected or stored, so every service pool of the static source is empty.\<close>

lemma sample_static_pools:
  assumes "compute_local_epoch_rewards sample_reward_env None default_node_config 1 (sample_reward_inputs settled_on_chain) = Inr c"
  shows "er_collect_pool (rc_artifact c) = 0" "er_store_pool (rc_artifact c) = 0"
    "er_verify_pool (rc_artifact c) = 0" "er_propose_pool (rc_artifact c) = 0"
  unfolding artifact_pools [OF assms sample_inputs]
  by (simp_all add: epoch_pools_def service_reward_pools_for_epoch_def Let_def default_node_config_def default_reward_config_def
      sample_aggregation_result_def load_witness_credits_def sample_reward_inputs_def)

lemma sample_epoch_fits:
  assumes "compute_local_epoch_rewards sample_reward_env None default_node_config 1 (sample_reward_inputs settled_on_chain) = Inr c"
  shows "epoch_fits sample_reward_env 1 (sample_reward_inputs settled_on_chain) sample_aggregation_result (with_quota_gb 1)
    (rc_artifact c)"
  using unat_bound [of "er_local_player_reward_total (rc_artifact c)"]
  by (simp add: epoch_fits_def splits_def credits_split_def sample_static_pools [OF assms])

lemma sample_epoch_payout:
  assumes "compute_local_epoch_rewards sample_reward_env None default_node_config 1 (sample_reward_inputs settled_on_chain) = Inr c"
  shows "epoch_payout sample_reward_env default_node_config 1 (sample_reward_inputs settled_on_chain) sample_aggregation_result (with_quota_gb 1)
    (rc_artifact c) = 0"
  by (simp add: epoch_payout_def handed_out_def verify_payout_def sample_static_pools [OF assms])

lemma sample_budget: "unat (base_service_reward_per_block 1 3600) < 2 ^ 100"
proof -
  have "base_service_reward_per_block 1 3600 < 1000000000000" by code_simp
  then show ?thesis by (simp add: word_less_nat_alt)
qed

lemma sample_texts: "trim ''pole-local'' \<noteq> []" "trim ''./pole-node-data'' \<noteq> []" "trim ''127.0.0.1:0'' \<noteq> []"
  by (simp_all add: trim_visible visible_def)

lemma sample_reward_config_valid: "validate_config sample_reward_config = Inr ()"
proof -
  have "config_reward_address sample_reward_config \<in> range Inr"
    by (auto simp: config_reward_address_def effective_reward_address_hex_def sample_reward_config_def default_node_config_def
        decode_hex_32_hex_32)
  then show ?thesis
    using sample_config_node_id(1) sample_texts unfolding validate_config_iff valid_config_def
    by (auto simp: sample_reward_config_def default_node_config_def default_reward_config_def valid_reward_config_def
        LONG_TERM_TAIL_START_YEAR_def LONG_TERM_TAIL_EMISSION_RATE_BPS_def default_p2p_socket_config_def)
qed

lemma sample_emission_fits:
  assumes run: "compute_local_epoch_rewards sample_reward_env None sample_reward_config 1 (sample_reward_inputs True) = Inr c"
  shows "er_player_reward_block_count (rc_artifact c) = 1"
    and "epoch_fits sample_reward_env 1 (sample_reward_inputs True) sample_aggregation_result (with_quota_gb 1) (rc_artifact c)"
proof -
  show blocks: "er_player_reward_block_count (rc_artifact c) = 1"
    by (simp add: artifact_pools(5) [OF run sample_inputs] sample_verified bs_insert_def sample_tick_def sample_raw_tick_def normalize_tick_artifact_def
        normalize_block_record_def Let_def tick_artifact_def)
  let ?pools = "epoch_pools sample_reward_env sample_reward_config 1 (sample_reward_inputs True) sample_aggregation_result
    (with_quota_gb 1) [sample_tick]"
  have "valid_reward_config 300 (nc_reward sample_reward_config)"
    using sample_reward_config_valid by (simp add: validate_config_iff valid_config_def sample_reward_config_def default_node_config_def)
  from service_pools_within_budget [OF _ this, of 1]
  have "pool_total ?pools \<le> unat (saturating_mul (base_service_reward_per_block 1 3600) (word_of_nat 1)) + 3"
    unfolding epoch_pools_def artifact_pools(5) [OF run sample_inputs, symmetric] blocks
    by (simp add: sample_reward_config_def default_reward_config_def)
  also have "\<dots> \<le> 2 ^ 100 + 3"
    using sample_budget by (simp add: unat_saturating_mul)
  finally have pools: "pool_total ?pools \<le> 2 ^ 100 + 3" .
  moreover have "unat (er_local_player_reward_total (rc_artifact c)) = 1000"
    using epoch_player_rewards(1) [OF run sample_inputs] by (simp add: sample_tick_split)
  ultimately show "epoch_fits sample_reward_env 1 (sample_reward_inputs True) sample_aggregation_result (with_quota_gb 1) (rc_artifact c)"
    by (simp add: epoch_fits_def splits_def credits_split_def artifact_pools [OF run sample_inputs] pool_total_def
        sample_aggregation_result_def collect_collect_scores_def collect_storage_scores_def with_quota_gb_def bt_values_def
        load_witness_credits_def sample_reward_inputs_def)
qed

end
