(* ===== verification/BTree_Ops.thy ===== *)
theory BTree_Ops
  imports BTree_Map
begin

text \<open>
  More of the ordered containers, for the peer tables of the node: \<open>retain\<close>, \<open>len\<close>, \<open>entry(..).or_default()\<close>,
  \<open>collect\<close> into a map or a set, and a sorted vector without repetitions (\<open>sort\<close> followed by \<open>dedup\<close>).
\<close>

lift_definition bt_retain :: "('k::linorder \<Rightarrow> 'v \<Rightarrow> bool) \<Rightarrow> ('k, 'v) btree_map \<Rightarrow> ('k, 'v) btree_map" is
  "\<lambda>p. filter (\<lambda>(k, v). p k v)"
  by (auto simp: sorted_wrt_map intro: sorted_wrt_filter)

lemma bt_entries_retain [simp]: "bt_entries (bt_retain p m) = filter (\<lambda>(k, v). p k v) (bt_entries m)"
  by transfer simp

lemma bt_get_retain:
  "bt_get (bt_retain p m) k = (case bt_get m k of None \<Rightarrow> None | Some v \<Rightarrow> if p k v then Some v else None)"
proof -
  let ?r = "case bt_get m k of None \<Rightarrow> None | Some v \<Rightarrow> if p k v then Some v else None"
  have "bt_get (bt_retain p m) k = Some v \<longleftrightarrow> ?r = Some v" for v
    using bt.ents_iff [of k v m] bt.ents_iff [of k v "bt_retain p m"] by (auto split: option.splits)
  then show ?thesis by (metis not_Some_eq)
qed

definition bt_size :: "('k::linorder, 'v) btree_map \<Rightarrow> nat" where
  "bt_size m = length (bt_entries m)"

lemma bt_size_total: "bt_size m = bt_total (\<lambda>_. 1) m"
  by (simp add: bt_size_def bt_total_def bt_values_def sum_list_triv comp_def)

lemma bt_size_insert: "bt_size (bt_insert k v m) = (if bt_get m k = None then Suc (bt_size m) else bt_size m)"
  using bt_total_insert [of "\<lambda>_. 1" k v m] by (auto simp: bt_size_total split: option.splits)

lemma bt_size_remove: "bt_size (bt_remove k m) \<le> bt_size m"
  using bt_total_remove [of "\<lambda>_. 1" k m] by (auto simp: bt_size_total)

lemma bt_size_retain: "bt_size (bt_retain p m) \<le> bt_size m"
  by (simp add: bt_size_def)

lemma bt_ext: "(\<And>k. bt_get m k = bt_get m' k) \<Longrightarrow> m = m'"
  by (rule bt.ents_ext) auto

lemma bt_retain_insert:
  "bt_retain (\<lambda>k _. p k) (bt_insert k v m) =
     (if p k then bt_insert k v (bt_retain (\<lambda>k _. p k) m) else bt_retain (\<lambda>k _. p k) m)"
  by (rule bt_ext) (simp add: bt_get_retain split: option.split)

lemma bt_retain_remove: "bt_retain (\<lambda>k _. p k) (bt_remove k m) = bt_remove k (bt_retain (\<lambda>k _. p k) m)"
  by (rule bt_ext) (simp add: bt_get_retain split: option.split)

lemma bt_retain_retain: "bt_retain p (bt_retain q m) = bt_retain (\<lambda>k v. p k v \<and> q k v) m"
  by (rule bt_ext) (simp add: bt_get_retain split: option.split)

lemma bt_size_retain_mono: "(\<And>k v. p k v \<Longrightarrow> q k v) \<Longrightarrow> bt_size (bt_retain p m) \<le> bt_size (bt_retain q m)"
proof -
  assume pq: "\<And>k v. p k v \<Longrightarrow> q k v"
  have "length (filter (\<lambda>(k, v). p k v) es) \<le> length (filter (\<lambda>(k, v). q k v) es)" for es
    by (induction es) (auto dest: pq)
  then show ?thesis by (simp add: bt_size_def)
qed

definition bt_or_default :: "('k::linorder, 'v) btree_map \<Rightarrow> 'k \<Rightarrow> 'v \<Rightarrow> 'v" where
  "bt_or_default m k d = (case bt_get m k of None \<Rightarrow> d | Some v \<Rightarrow> v)"

definition bt_of_list :: "('k::linorder \<times> 'v) list \<Rightarrow> ('k, 'v) btree_map" where
  "bt_of_list es = foldl (\<lambda>m (k, v). bt_insert k v m) bt_empty es"

definition bs_of_list :: "'k::linorder list \<Rightarrow> 'k btree_set" where
  "bs_of_list ks = foldl (\<lambda>s k. bs_insert k s) bt_empty ks"

definition bs_remove :: "'k::linorder \<Rightarrow> 'k btree_set \<Rightarrow> 'k btree_set" where
  "bs_remove k s = bt_remove k s"

lemma bs_contains_remove [simp]: "bs_contains (bs_remove k s) k' = (k' \<noteq> k \<and> bs_contains s k')"
  by (simp add: bs_contains_def bs_remove_def)

lemma bs_contains_foldl: "bs_contains (foldl (\<lambda>s k. bs_insert k s) s ks) k \<longleftrightarrow> k \<in> set ks \<or> bs_contains s k"
  by (induction ks arbitrary: s) auto

lemma bs_contains_of_list [simp]: "bs_contains (bs_of_list ks) k \<longleftrightarrow> k \<in> set ks"
  by (simp add: bs_of_list_def bs_contains_foldl)

definition sort_dedup :: "'a::linorder list \<Rightarrow> 'a list" where
  "sort_dedup xs = remdups_adj (sort xs)"

lemma set_sort_dedup [simp]: "set (sort_dedup xs) = set xs"
  by (simp add: sort_dedup_def)

lemma sorted_remdups_adj_strict: "sorted xs \<Longrightarrow> sorted_wrt (<) (remdups_adj xs)"
  by (induction xs rule: remdups_adj.induct) (auto simp: order_less_le)

lemma sort_dedup_sorted: "sorted_wrt (<) (sort_dedup xs)"
  by (simp add: sort_dedup_def sorted_remdups_adj_strict)

lemma set_bt_keys: "set (bt_keys s) = {k. bs_contains s k}"
  by (auto simp: bt_keys_set bs_contains_def)

lemma bt_get_of_list: "bt_get (bt_of_list es) = map_of (rev es)"
proof -
  have "bt_get (foldl (\<lambda>m (k, v). bt_insert k v m) m es) = (\<lambda>k. case map_of (rev es) k of None \<Rightarrow> bt_get m k | Some v \<Rightarrow> Some v)" for m :: "('a, 'b) btree_map"
    by (induction es rule: rev_induct) (auto simp: fun_eq_iff split: option.split prod.split)
  then show ?thesis by (auto simp: bt_of_list_def fun_eq_iff split: option.split)
qed

end
