(* ===== verification/P2p_Network.thy ===== *)
theory P2p_Network
  imports BTree_Ops Pipeline Retention_Book Node_Config
begin

text \<open>
  Messages between nodes and the in-memory network (\<open>src/src/p2p.rs\<close>). The operations of the trait
  \<open>P2pNetwork\<close> that a node calls are the fixed functions of the locale \<open>p2p_network\<close>, with what a caller
  relies on as its laws; \<open>InMemoryP2pNetwork\<close> is interpreted at the end of the theory.
\<close>

subsection \<open>Topics and messages\<close>

datatype p2p_topic = Observations | Batches | Receipts | Challenges | PlaySessions | Attestations

primrec topic_index :: "p2p_topic \<Rightarrow> nat" where
  "topic_index Observations = 0"
| "topic_index Batches = 1"
| "topic_index Receipts = 2"
| "topic_index Challenges = 3"
| "topic_index PlaySessions = 4"
| "topic_index Attestations = 5"

lemma topic_index_inj: "topic_index a = topic_index b \<longleftrightarrow> a = b"
  by (cases a; cases b) simp_all

instantiation p2p_topic :: linorder
begin
definition "a \<le> b \<longleftrightarrow> topic_index a \<le> topic_index b"
definition "a < b \<longleftrightarrow> topic_index a < topic_index b"
instance
  by standard (auto simp: less_eq_p2p_topic_def less_p2p_topic_def topic_index_inj intro: topic_index_inj [THEN iffD1])
end

record batch_announcement =
  ba_epoch_id :: epoch_id
  ba_collector_id :: node_id
  ba_collector_address :: string
  ba_payload_cid :: content_id
  ba_payload_hash :: hash32
  ba_payload_size_bytes :: u64
  ba_batch_root :: hash32
  ba_obs_count :: u32

record replica_receipt_announcement =
  ra_receipt :: replica_receipt
  ra_payload_hash :: hash32
  ra_payload_size_bytes :: u64

record challenge_announcement =
  ca_challenge_id :: hash32
  ca_epoch_id :: epoch_id
  ca_kind :: challenge_kind
  ca_target_node :: "node_id option"

datatype p2p_message =
    MsgObservation observation_record
  | MsgBatch batch_announcement
  | MsgReplicaReceipt replica_receipt_announcement
  | MsgChallenge challenge_announcement
  | MsgPlaySession play_session
  | MsgWitnessAttestation witness_attestation

fun message_topic :: "p2p_message \<Rightarrow> p2p_topic" where
  "message_topic (MsgObservation _) = Observations"
| "message_topic (MsgBatch _) = Batches"
| "message_topic (MsgReplicaReceipt _) = Receipts"
| "message_topic (MsgChallenge _) = Challenges"
| "message_topic (MsgPlaySession _) = PlaySessions"
| "message_topic (MsgWitnessAttestation _) = Attestations"

record p2p_envelope =
  en_from :: node_id
  en_topic :: p2p_topic
  en_message :: p2p_message

record payload_provider_record =
  pv_provider :: node_id
  pv_payload_cid :: content_id
  pv_payload_hash :: hash32
  pv_payload_bytes :: byte_vec

type_synonym payload_response = payload_provider_record

record in_memory_peer_profile =
  ip_peer_id :: node_id
  ip_topics :: "p2p_topic list"

datatype p2p_error =
    UnknownPeer node_id
  | MissingPayload content_id
  | NoSubscribers p2p_topic
  | P2pIo string
  | P2pJson string

definition batch_announcement_from_assembled :: "assembled_batch \<Rightarrow> string \<Rightarrow> batch_announcement" where
  "batch_announcement_from_assembled b collector_address =
     \<lparr>ba_epoch_id = bc_epoch_id (ab_batch_commit b), ba_collector_id = bc_collector_id (ab_batch_commit b),
      ba_collector_address = collector_address, ba_payload_cid = ab_payload_cid b,
      ba_payload_hash = ab_payload_hash b, ba_payload_size_bytes = word_of_nat (length (ab_payload_bytes b)),
      ba_batch_root = mc_root (bc_batch (ab_batch_commit b)), ba_obs_count = bc_obs_count (ab_batch_commit b)\<rparr>"

definition replica_receipt_announcement_from_record :: "stored_payload_record \<Rightarrow> replica_receipt_announcement" where
  "replica_receipt_announcement_from_record r =
     \<lparr>ra_receipt = sp_receipt r, ra_payload_hash = sp_payload_hash r, ra_payload_size_bytes = sp_size_bytes r\<rparr>"

definition challenge_announcement_from_challenge :: "challenge \<Rightarrow> challenge_announcement" where
  "challenge_announcement_from_challenge c =
     \<lparr>ca_challenge_id = ch_challenge_id c, ca_epoch_id = ch_epoch_id c, ca_kind = ch_kind c,
      ca_target_node = ch_target_node c\<rparr>"

definition new_peer_profile :: "node_id \<Rightarrow> p2p_topic list \<Rightarrow> in_memory_peer_profile" where
  "new_peer_profile peer topics = \<lparr>ip_peer_id = peer, ip_topics = bt_keys (bs_of_list topics)\<rparr>"

subsection \<open>The in-memory network\<close>

record in_memory_p2p_network =
  nw_peers :: "node_id btree_set"
  nw_subscriptions :: "(node_id, p2p_topic btree_set) btree_map"
  nw_inboxes :: "(node_id, p2p_envelope list) btree_map"
  nw_payloads :: "(content_id, payload_provider_record list) btree_map"

type_synonym 'a network_step = "in_memory_p2p_network \<Rightarrow> (p2p_error, 'a, in_memory_p2p_network) outcome"

definition default_network :: in_memory_p2p_network where
  "default_network = \<lparr>nw_peers = bt_empty, nw_subscriptions = bt_empty, nw_inboxes = bt_empty, nw_payloads = bt_empty\<rparr>"

definition register_peer :: "node_id \<Rightarrow> in_memory_p2p_network \<Rightarrow> in_memory_p2p_network" where
  "register_peer peer n =
     n\<lparr>nw_peers := bs_insert peer (nw_peers n),
       nw_subscriptions := bt_insert peer (bt_or_default (nw_subscriptions n) peer bt_empty) (nw_subscriptions n),
       nw_inboxes := bt_insert peer (bt_or_default (nw_inboxes n) peer []) (nw_inboxes n)\<rparr>"

definition subscribe :: "node_id \<Rightarrow> p2p_topic \<Rightarrow> unit network_step" where
  "subscribe peer topic n =
     (if \<not> bs_contains (nw_peers n) peer then (Inl (UnknownPeer peer), n)
      else (Inr (), n\<lparr>nw_subscriptions :=
        bt_insert peer (bs_insert topic (bt_or_default (nw_subscriptions n) peer bt_empty)) (nw_subscriptions n)\<rparr>))"

definition unsubscribe :: "node_id \<Rightarrow> p2p_topic \<Rightarrow> bool network_step" where
  "unsubscribe peer topic n =
     (if \<not> bs_contains (nw_peers n) peer then (Inl (UnknownPeer peer), n)
      else let topics = bt_or_default (nw_subscriptions n) peer bt_empty
      in (Inr (bs_contains topics topic),
          n\<lparr>nw_subscriptions := bt_insert peer (bs_remove topic topics) (nw_subscriptions n)\<rparr>))"

fun subscribe_all :: "node_id \<Rightarrow> p2p_topic list \<Rightarrow> unit network_step" where
  "subscribe_all peer [] n = (Inr (), n)"
| "subscribe_all peer (topic # topics) n = try_then (subscribe peer topic n) (\<lambda>_. subscribe_all peer topics)"

definition bootstrap_peer :: "node_id \<Rightarrow> p2p_topic list \<Rightarrow> unit network_step" where
  "bootstrap_peer peer topics n = subscribe_all peer topics (register_peer peer n)"

fun bootstrap_topology :: "in_memory_peer_profile list \<Rightarrow> unit network_step" where
  "bootstrap_topology [] n = (Inr (), n)"
| "bootstrap_topology (profile # profiles) n =
     try_then (bootstrap_peer (ip_peer_id profile) (ip_topics profile) n) (\<lambda>_. bootstrap_topology profiles)"

definition remove_peer :: "node_id \<Rightarrow> unit network_step" where
  "remove_peer peer n =
     (if \<not> bs_contains (nw_peers n) peer then (Inl (UnknownPeer peer), n)
      else (Inr (), n\<lparr>nw_peers := bs_remove peer (nw_peers n),
        nw_subscriptions := bt_remove peer (nw_subscriptions n),
        nw_inboxes := bt_remove peer (nw_inboxes n),
        nw_payloads := bt_retain (\<lambda>_ providers. providers \<noteq> [])
          (bt_map (filter (\<lambda>r. pv_provider r \<noteq> peer)) (nw_payloads n))\<rparr>))"

definition known_peers :: "in_memory_p2p_network \<Rightarrow> node_id list" where
  "known_peers n = bt_keys (nw_peers n)"

definition subscriptions_for :: "node_id \<Rightarrow> in_memory_p2p_network \<Rightarrow> p2p_error + p2p_topic list" where
  "subscriptions_for peer n =
     (if \<not> bs_contains (nw_peers n) peer then Inl (UnknownPeer peer)
      else Inr (case bt_get (nw_subscriptions n) peer of None \<Rightarrow> [] | Some topics \<Rightarrow> bt_keys topics))"

definition recipients_of :: "node_id \<Rightarrow> p2p_topic \<Rightarrow> in_memory_p2p_network \<Rightarrow> node_id list" where
  "recipients_of sender topic n =
     map fst (filter (\<lambda>(peer, topics). peer \<noteq> sender \<and> bs_contains topics topic) (bt_entries (nw_subscriptions n)))"

definition push_inbox :: "p2p_envelope \<Rightarrow> in_memory_p2p_network \<Rightarrow> node_id \<Rightarrow> in_memory_p2p_network" where
  "push_inbox env n recipient =
     n\<lparr>nw_inboxes := bt_insert recipient (bt_or_default (nw_inboxes n) recipient [] @ [env]) (nw_inboxes n)\<rparr>"

definition publish :: "node_id \<Rightarrow> p2p_message \<Rightarrow> nat network_step" where
  "publish sender message n =
     (if \<not> bs_contains (nw_peers n) sender then (Inl (UnknownPeer sender), n)
      else
        let topic = message_topic message;
            recipients = recipients_of sender topic n
        in if recipients = [] then (Inl (NoSubscribers topic), n)
           else (Inr (length recipients),
             foldl (push_inbox \<lparr>en_from = sender, en_topic = topic, en_message = message\<rparr>) n recipients))"

definition drain_inbox :: "node_id \<Rightarrow> p2p_envelope list network_step" where
  "drain_inbox peer n =
     (if \<not> bs_contains (nw_peers n) peer then (Inl (UnknownPeer peer), n)
      else (Inr (bt_or_default (nw_inboxes n) peer []), n\<lparr>nw_inboxes := bt_insert peer [] (nw_inboxes n)\<rparr>))"

text \<open>The update of the entry that \<open>find\<close> returns, or \<open>push\<close> when there is none.\<close>

fun upsert_provider :: "payload_provider_record \<Rightarrow> payload_provider_record list \<Rightarrow> payload_provider_record list" where
  "upsert_provider r [] = [r]"
| "upsert_provider r (existing # rest) =
     (if pv_provider existing = pv_provider r
      then existing\<lparr>pv_payload_hash := pv_payload_hash r, pv_payload_bytes := pv_payload_bytes r\<rparr> # rest
      else existing # upsert_provider r rest)"

definition advertise_payload :: "node_id \<Rightarrow> content_id \<Rightarrow> hash32 \<Rightarrow> byte_vec \<Rightarrow> unit network_step" where
  "advertise_payload provider cid hash bytes n =
     (if \<not> bs_contains (nw_peers n) provider then (Inl (UnknownPeer provider), n)
      else (Inr (), n\<lparr>nw_payloads := bt_insert cid
        (upsert_provider \<lparr>pv_provider = provider, pv_payload_cid = cid, pv_payload_hash = hash, pv_payload_bytes = bytes\<rparr>
          (bt_or_default (nw_payloads n) cid [])) (nw_payloads n)\<rparr>))"

definition request_payload :: "node_id \<Rightarrow> content_id \<Rightarrow> in_memory_p2p_network \<Rightarrow> p2p_error + payload_response" where
  "request_payload requester cid n =
     (if \<not> bs_contains (nw_peers n) requester then Inl (UnknownPeer requester)
      else case bt_get (nw_payloads n) cid of
        Some (provider # _) \<Rightarrow> Inr provider
      | _ \<Rightarrow> Inl (MissingPayload cid))"

subsection \<open>The simulation topology\<close>

definition inmemory_simulation_peer_id :: "u8 \<Rightarrow> nat \<Rightarrow> node_id" where
  "inmemory_simulation_peer_id group_tag index =
     of_bytes32 ((replicate 32 group_tag)[30 := word_of_nat (index div 256), 31 := word_of_nat index])"

definition inmemory_simulation_topology_profiles :: "p2p_simulation_config \<Rightarrow> in_memory_peer_profile list" where
  "inmemory_simulation_topology_profiles topology =
     map (\<lambda>i. new_peer_profile (inmemory_simulation_peer_id 0x91 i) [Batches]) [0..<ps_batch_listener_count topology]
     @ map (\<lambda>i. new_peer_profile (inmemory_simulation_peer_id 0x92 i) [Receipts]) [0..<ps_receipt_listener_count topology]
     @ map (\<lambda>i. new_peer_profile (inmemory_simulation_peer_id 0x93 i) [Batches, Receipts])
         [0..<ps_dual_listener_count topology]"

text \<open>\<open>None\<close> is the panic of \<open>expect\<close>.\<close>

definition build_inmemory_simulation_network :: "p2p_simulation_config \<Rightarrow> in_memory_p2p_network option" where
  "build_inmemory_simulation_network topology =
     (case bootstrap_topology (inmemory_simulation_topology_profiles topology) default_network of
        (Inl _, _) \<Rightarrow> None
      | (Inr _, n) \<Rightarrow> Some n)"

definition inmemory_simulation_listener_peer_ids :: "p2p_simulation_config \<Rightarrow> node_id list" where
  "inmemory_simulation_listener_peer_ids topology = map ip_peer_id (inmemory_simulation_topology_profiles topology)"

definition inmemory_simulation_retrieval_peer_id :: "p2p_simulation_config \<Rightarrow> node_id option" where
  "inmemory_simulation_retrieval_peer_id topology =
     (case inmemory_simulation_listener_peer_ids topology of [] \<Rightarrow> None | peer # _ \<Rightarrow> Some peer)"

subsection \<open>What a node relies on\<close>

text \<open>Publishing a list of messages, whatever the single calls return.\<close>

definition publish_all ::
  "(node_id \<Rightarrow> p2p_message \<Rightarrow> 'n \<Rightarrow> (p2p_error, nat, 'n) outcome) \<Rightarrow> (node_id \<times> p2p_message) list \<Rightarrow> 'n \<Rightarrow> 'n" where
  "publish_all pub ms n = foldl (\<lambda>n (sender, message). snd (pub sender message n)) n ms"

definition envelope_of :: "node_id \<times> p2p_message \<Rightarrow> p2p_envelope" where
  "envelope_of sm = \<lparr>en_from = fst sm, en_topic = message_topic (snd sm), en_message = snd sm\<rparr>"

locale p2p_network =
  fixes wf :: "'n \<Rightarrow> bool"
    and known :: "'n \<Rightarrow> node_id \<Rightarrow> bool"
    and subscribed :: "'n \<Rightarrow> node_id \<Rightarrow> p2p_topic \<Rightarrow> bool"
    and inbox :: "'n \<Rightarrow> node_id \<Rightarrow> p2p_envelope list"
    and pub :: "node_id \<Rightarrow> p2p_message \<Rightarrow> 'n \<Rightarrow> (p2p_error, nat, 'n) outcome"
    and drain :: "node_id \<Rightarrow> 'n \<Rightarrow> (p2p_error, p2p_envelope list, 'n) outcome"
  assumes pub_unknown: "\<not> known n a \<Longrightarrow> pub a m n = (Inl (UnknownPeer a), n)"
    and pub_result: "wf n \<Longrightarrow> known n a \<Longrightarrow> fst (pub a m n) =
      (let rs = {p. p \<noteq> a \<and> subscribed n p (message_topic m)} in
       if rs = {} then Inl (NoSubscribers (message_topic m)) else Inr (card rs))"
    and pub_wf: "wf n \<Longrightarrow> wf (snd (pub a m n))"
    and pub_known: "known (snd (pub a m n)) = known n"
    and pub_subscribed: "subscribed (snd (pub a m n)) = subscribed n"
    and pub_inbox: "wf n \<Longrightarrow> known n a \<Longrightarrow> inbox (snd (pub a m n)) p =
      inbox n p @ (if p \<noteq> a \<and> subscribed n p (message_topic m) then [envelope_of (a, m)] else [])"
    and drain_unknown: "\<not> known n p \<Longrightarrow> drain p n = (Inl (UnknownPeer p), n)"
    and drain_result: "known n p \<Longrightarrow> fst (drain p n) = Inr (inbox n p)"
    and drain_inbox_of: "known n p \<Longrightarrow> inbox (snd (drain p n)) q = (if q = p then [] else inbox n q)"
begin

lemma publish_all_keeps:
  assumes "wf n"
  shows "wf (publish_all pub ms n) \<and> known (publish_all pub ms n) = known n \<and> subscribed (publish_all pub ms n) = subscribed n"
  by (induction ms rule: rev_induct) (use assms in \<open>auto simp: publish_all_def pub_wf pub_known pub_subscribed\<close>)

lemma publish_all_inbox:
  assumes "wf n" "\<And>sm. sm \<in> set ms \<Longrightarrow> known n (fst sm)"
  shows "inbox (publish_all pub ms n) p =
    inbox n p @ map envelope_of (filter (\<lambda>(a, m). p \<noteq> a \<and> subscribed n p (message_topic m)) ms)"
  using assms(2)
proof (induction ms rule: rev_induct)
  case (snoc sm ms)
  obtain a m where sm: "sm = (a, m)" by fastforce
  have "publish_all pub (ms @ [sm]) n = snd (pub a m (publish_all pub ms n))"
    by (simp add: publish_all_def sm)
  moreover have "known n a" using snoc.prems [of sm] by (simp add: sm)
  moreover have "inbox (publish_all pub ms n) p =
      inbox n p @ map envelope_of (filter (\<lambda>(a, m). p \<noteq> a \<and> subscribed n p (message_topic m)) ms)"
    using snoc.prems by (intro snoc.IH) simp
  ultimately show ?case using publish_all_keeps [OF assms(1), of ms] by (simp add: sm pub_inbox)
qed (simp add: publish_all_def)

lemma drained_in_order:
  assumes "wf n" "\<And>sm. sm \<in> set ms \<Longrightarrow> known n (fst sm)" "known n p"
  shows "fst (drain p (publish_all pub ms n)) =
    Inr (inbox n p @ map envelope_of (filter (\<lambda>(a, m). p \<noteq> a \<and> subscribed n p (message_topic m)) ms))"
  using publish_all_keeps [OF assms(1), of ms] assms by (simp add: drain_result publish_all_inbox)

end

subsection \<open>The in-memory network keeps its tables in step\<close>

definition network_known :: "in_memory_p2p_network \<Rightarrow> node_id \<Rightarrow> bool" where
  "network_known n p = bs_contains (nw_peers n) p"

definition network_subscribed :: "in_memory_p2p_network \<Rightarrow> node_id \<Rightarrow> p2p_topic \<Rightarrow> bool" where
  "network_subscribed n p t = bs_contains (bt_or_default (nw_subscriptions n) p bt_empty) t"

definition network_inbox :: "in_memory_p2p_network \<Rightarrow> node_id \<Rightarrow> p2p_envelope list" where
  "network_inbox n p = bt_or_default (nw_inboxes n) p []"

definition providers_ok :: "in_memory_p2p_network \<Rightarrow> content_id \<Rightarrow> payload_provider_record list \<Rightarrow> bool" where
  "providers_ok n cid rs \<longleftrightarrow> rs \<noteq> [] \<and> distinct (map pv_provider rs)
     \<and> (\<forall>r \<in> set rs. network_known n (pv_provider r) \<and> pv_payload_cid r = cid)"

definition consistent :: "in_memory_p2p_network \<Rightarrow> bool" where
  "consistent n \<longleftrightarrow>
     (\<forall>p. bt_get (nw_subscriptions n) p \<noteq> None \<longleftrightarrow> network_known n p)
     \<and> (\<forall>p. bt_get (nw_inboxes n) p \<noteq> None \<longleftrightarrow> network_known n p)
     \<and> (\<forall>cid rs. bt_get (nw_payloads n) cid = Some rs \<longrightarrow> providers_ok n cid rs)"

lemmas network_views = network_known_def network_subscribed_def network_inbox_def

inductive network_reachable :: "in_memory_p2p_network \<Rightarrow> bool" where
  net_default: "network_reachable default_network"
| net_register: "network_reachable n \<Longrightarrow> network_reachable (register_peer p n)"
| net_subscribe: "network_reachable n \<Longrightarrow> network_reachable (snd (subscribe p t n))"
| net_unsubscribe: "network_reachable n \<Longrightarrow> network_reachable (snd (unsubscribe p t n))"
| net_remove: "network_reachable n \<Longrightarrow> network_reachable (snd (remove_peer p n))"
| net_publish: "network_reachable n \<Longrightarrow> network_reachable (snd (publish p m n))"
| net_drain: "network_reachable n \<Longrightarrow> network_reachable (snd (drain_inbox p n))"
| net_advertise: "network_reachable n \<Longrightarrow> network_reachable (snd (advertise_payload p cid h bytes n))"

lemma pv_provider_upsert:
  "map pv_provider (upsert_provider r rs) =
     (if pv_provider r \<in> pv_provider ` set rs then map pv_provider rs else map pv_provider rs @ [pv_provider r])"
  by (induction r rs rule: upsert_provider.induct) auto

lemma upsert_provider_elem:
  "x \<in> set (upsert_provider r rs) \<Longrightarrow> pv_payload_cid r = c \<Longrightarrow> \<forall>y \<in> set rs. pv_payload_cid y = c \<Longrightarrow> pv_payload_cid x = c"
  by (induction r rs rule: upsert_provider.induct) (auto split: if_splits)

lemma upsert_provider_not_Nil: "upsert_provider r rs \<noteq> []"
  by (cases rs) auto

lemma providers_ok_upsert:
  assumes "network_known n p" "\<And>rs. bt_get (nw_payloads n) cid = Some rs \<Longrightarrow> providers_ok n cid rs"
    and "pv_provider r = p" "pv_payload_cid r = cid"
  shows "providers_ok n cid (upsert_provider r (bt_or_default (nw_payloads n) cid []))"
proof -
  let ?rs = "bt_or_default (nw_payloads n) cid []"
  have rs: "distinct (map pv_provider ?rs)" "\<And>x. x \<in> set ?rs \<Longrightarrow> network_known n (pv_provider x) \<and> pv_payload_cid x = cid"
    using assms(2) by (auto simp: bt_or_default_def providers_ok_def split: option.splits dest: sym)
  let ?us = "upsert_provider r ?rs"
  have "distinct (map pv_provider ?us)" using rs(1) by (simp add: pv_provider_upsert image_image)
  moreover have "network_known n (pv_provider x)" if "x \<in> set ?us" for x
  proof -
    have "pv_provider x \<in> set (map pv_provider ?us)" using that by simp
    then show ?thesis using assms(1,3) rs(2) unfolding pv_provider_upsert by (auto split: if_splits)
  qed
  moreover have "pv_payload_cid x = cid" if "x \<in> set ?us" for x
    using upsert_provider_elem [OF that assms(4)] rs(2) by simp
  ultimately show ?thesis by (simp add: providers_ok_def upsert_provider_not_Nil)
qed

lemma push_inbox_fields [simp]:
  "nw_peers (push_inbox e n r) = nw_peers n" "nw_subscriptions (push_inbox e n r) = nw_subscriptions n"
  "nw_payloads (push_inbox e n r) = nw_payloads n"
  by (simp_all add: push_inbox_def)

lemma push_inbox_get:
  "bt_get (nw_inboxes (push_inbox e n r)) p = (if p = r then Some (network_inbox n r @ [e]) else bt_get (nw_inboxes n) p)"
  "network_inbox (push_inbox e n r) p = (if p = r then network_inbox n r @ [e] else network_inbox n p)"
  by (simp_all add: push_inbox_def network_inbox_def bt_or_default_def)

lemma foldl_push_fields [simp]:
  "nw_peers (foldl (push_inbox e) n rs) = nw_peers n"
  "nw_subscriptions (foldl (push_inbox e) n rs) = nw_subscriptions n"
  "nw_payloads (foldl (push_inbox e) n rs) = nw_payloads n"
  by (induction rs arbitrary: n) simp_all

lemma foldl_push_inbox:
  "distinct rs \<Longrightarrow> bt_get (nw_inboxes (foldl (push_inbox e) n rs)) p =
    (if p \<in> set rs then Some (network_inbox n p @ [e]) else bt_get (nw_inboxes n) p)"
proof (induction rs arbitrary: n)
  case (Cons r rs)
  then have "bt_get (nw_inboxes (foldl (push_inbox e) (push_inbox e n r) rs)) p =
    (if p \<in> set rs then Some (network_inbox (push_inbox e n r) p @ [e]) else bt_get (nw_inboxes (push_inbox e n r)) p)"
    by simp
  with Cons.prems show ?case by (auto simp: push_inbox_get)
qed simp

lemma distinct_recipients: "distinct (recipients_of a t n)"
  using bt.distinct_ents [of "nw_subscriptions n"] by (simp add: recipients_of_def distinct_map_filter)

lemma set_recipients: "set (recipients_of a t n) = {p. p \<noteq> a \<and> network_subscribed n p t}"
proof -
  have eq: "p \<in> set (recipients_of a t n) \<longleftrightarrow>
      p \<noteq> a \<and> (\<exists>ts. (p, ts) \<in> set (bt_entries (nw_subscriptions n)) \<and> bs_contains ts t)" for p
    by (force simp: recipients_of_def)
  show ?thesis by (simp add: set_eq_iff eq bt.ents_iff network_subscribed_def bt_or_default_def split: option.split)
qed

lemma publish_known:
  assumes "network_known n a"
  shows "publish a m n = (if recipients_of a (message_topic m) n = [] then (Inl (NoSubscribers (message_topic m)), n)
    else (Inr (length (recipients_of a (message_topic m) n)),
      foldl (push_inbox (envelope_of (a, m))) n (recipients_of a (message_topic m) n)))"
  using assms by (simp add: publish_def network_known_def envelope_of_def Let_def)

lemma providers_ok_same_peers: "nw_peers n' = nw_peers n \<Longrightarrow> providers_ok n' = providers_ok n"
  by (simp add: providers_ok_def network_known_def fun_eq_iff)

lemma register_consistent: "consistent n \<Longrightarrow> consistent (register_peer p n)"
  by (fastforce simp: consistent_def register_peer_def network_known_def providers_ok_def)

lemma subscribe_consistent: "consistent n \<Longrightarrow> consistent (snd (subscribe p t n))"
  by (auto simp: consistent_def subscribe_def network_known_def providers_ok_def)

lemma unsubscribe_consistent: "consistent n \<Longrightarrow> consistent (snd (unsubscribe p t n))"
  by (auto simp: consistent_def unsubscribe_def network_known_def providers_ok_def Let_def)

lemma drain_consistent: "consistent n \<Longrightarrow> consistent (snd (drain_inbox p n))"
  by (auto simp: consistent_def drain_inbox_def network_known_def providers_ok_def)

lemma publish_consistent:
  assumes "consistent n"
  shows "consistent (snd (publish a m n))"
proof (cases "network_known n a")
  case True
  have "network_known n p" if "p \<in> set (recipients_of a (message_topic m) n)" for p
    using that assms by (auto simp: set_recipients network_subscribed_def consistent_def bt_or_default_def split: option.splits)
  with True assms show ?thesis
    by (auto simp: publish_known consistent_def network_known_def providers_ok_def foldl_push_inbox distinct_recipients)
qed (use assms in \<open>simp add: publish_def network_known_def\<close>)

lemma advertise_consistent:
  assumes "consistent n"
  shows "consistent (snd (advertise_payload p cid h bytes n))"
proof (cases "network_known n p")
  case True
  let ?n = "snd (advertise_payload p cid h bytes n)"
  let ?r = "\<lparr>pv_provider = p, pv_payload_cid = cid, pv_payload_hash = h, pv_payload_bytes = bytes\<rparr>"
  have n: "?n = n\<lparr>nw_payloads := bt_insert cid (upsert_provider ?r (bt_or_default (nw_payloads n) cid [])) (nw_payloads n)\<rparr>"
    using True by (simp add: advertise_payload_def network_known_def)
  have "providers_ok n cid (upsert_provider ?r (bt_or_default (nw_payloads n) cid []))"
    using assms True by (intro providers_ok_upsert) (auto simp: consistent_def)
  with assms show ?thesis by (simp add: n consistent_def providers_ok_def network_known_def)
qed (use assms in \<open>simp add: advertise_payload_def network_known_def\<close>)

lemma remove_consistent:
  assumes "consistent n"
  shows "consistent (snd (remove_peer p n))"
proof (cases "network_known n p")
  case True
  let ?n = "snd (remove_peer p n)"
  have "providers_ok ?n cid rs" if get: "bt_get (nw_payloads ?n) cid = Some rs" for cid rs
  proof -
    obtain rs0 where rs0: "bt_get (nw_payloads n) cid = Some rs0" "rs = filter (\<lambda>r. pv_provider r \<noteq> p) rs0" "rs \<noteq> []"
      using get True by (auto simp: remove_peer_def network_known_def bt_get_retain split: option.splits if_splits)
    have "providers_ok n cid rs0" using assms rs0(1) by (simp add: consistent_def)
    with rs0 True show ?thesis by (auto simp: providers_ok_def remove_peer_def network_known_def distinct_map_filter)
  qed
  with assms True show ?thesis by (simp add: consistent_def remove_peer_def network_known_def)
qed (use assms in \<open>simp add: remove_peer_def network_known_def\<close>)

lemma default_consistent: "consistent default_network"
  by (simp add: consistent_def default_network_def network_known_def)

lemma network_reachable_consistent: "network_reachable n \<Longrightarrow> consistent n"
  by (induction rule: network_reachable.induct)
    (simp_all add: default_consistent register_consistent subscribe_consistent unsubscribe_consistent remove_consistent
      publish_consistent drain_consistent advertise_consistent)

lemma publish_inbox:
  assumes "network_known n a"
  shows "network_inbox (snd (publish a m n)) p =
    network_inbox n p @ (if p \<noteq> a \<and> network_subscribed n p (message_topic m) then [envelope_of (a, m)] else [])"
proof (cases "recipients_of a (message_topic m) n = []")
  case True
  then have "{p. p \<noteq> a \<and> network_subscribed n p (message_topic m)} = {}" by (simp flip: set_recipients)
  with True show ?thesis by (simp add: publish_known [OF assms])
next
  case False
  then have "snd (publish a m n) = foldl (push_inbox (envelope_of (a, m))) n (recipients_of a (message_topic m) n)"
    by (simp add: publish_known [OF assms])
  moreover have "p \<in> set (recipients_of a (message_topic m) n) \<longleftrightarrow> p \<noteq> a \<and> network_subscribed n p (message_topic m)"
    by (simp add: set_recipients)
  ultimately show ?thesis
    using foldl_push_inbox [OF distinct_recipients, of "envelope_of (a, m)" n a "message_topic m" n p]
    by (simp add: network_inbox_def bt_or_default_def)
qed

interpretation mem: p2p_network consistent network_known network_subscribed network_inbox publish drain_inbox
proof
  fix n a m p q
  show "\<not> network_known n a \<Longrightarrow> publish a m n = (Inl (UnknownPeer a), n)"
    by (simp add: publish_def network_known_def)
  show "\<not> network_known n p \<Longrightarrow> drain_inbox p n = (Inl (UnknownPeer p), n)"
    "network_known n p \<Longrightarrow> fst (drain_inbox p n) = Inr (network_inbox n p)"
    "network_known n p \<Longrightarrow> network_inbox (snd (drain_inbox p n)) q = (if q = p then [] else network_inbox n q)"
    by (simp_all add: drain_inbox_def network_known_def network_inbox_def bt_or_default_def)
  show "consistent n \<Longrightarrow> consistent (snd (publish a m n))" by (rule publish_consistent)
  show "network_known (snd (publish a m n)) = network_known n"
    "network_subscribed (snd (publish a m n)) = network_subscribed n"
    by (simp_all add: publish_def Let_def network_known_def network_subscribed_def fun_eq_iff)
  show "consistent n \<Longrightarrow> network_known n a \<Longrightarrow> network_inbox (snd (publish a m n)) p =
      network_inbox n p @ (if p \<noteq> a \<and> network_subscribed n p (message_topic m) then [envelope_of (a, m)] else [])"
    by (rule publish_inbox)
  show "consistent n \<Longrightarrow> network_known n a \<Longrightarrow> fst (publish a m n) =
      (let rs = {p. p \<noteq> a \<and> network_subscribed n p (message_topic m)} in
       if rs = {} then Inl (NoSubscribers (message_topic m)) else Inr (card rs))"
    using distinct_card [OF distinct_recipients, of a "message_topic m" n]
    by (simp add: publish_known Let_def flip: set_recipients)
qed

subsection \<open>Payloads and bootstrapping\<close>

lemma request_payload_sound:
  assumes "consistent n" "request_payload q cid n = Inr r"
  shows "pv_payload_cid r = cid \<and> network_known n (pv_provider r)"
  using assms by (auto simp: request_payload_def consistent_def providers_ok_def split: if_splits option.splits list.splits)

lemma upsert_provider_hd:
  "hd (upsert_provider r rs) =
     (if rs = [] then r else if pv_provider (hd rs) = pv_provider r
      then (hd rs)\<lparr>pv_payload_hash := pv_payload_hash r, pv_payload_bytes := pv_payload_bytes r\<rparr> else hd rs)"
  by (cases rs) auto

lemma request_after_advertise:
  assumes "network_known n p" "network_known n q" "bt_get (nw_payloads n) cid = None"
  shows "request_payload q cid (snd (advertise_payload p cid h bytes n)) =
    Inr \<lparr>pv_provider = p, pv_payload_cid = cid, pv_payload_hash = h, pv_payload_bytes = bytes\<rparr>"
  using assms by (simp add: request_payload_def advertise_payload_def network_known_def bt_or_default_def)

lemma request_after_remove:
  assumes "network_known n p" "request_payload q cid (snd (remove_peer p n)) = Inr r"
  shows "pv_provider r \<noteq> p"
  using assms by (auto simp: request_payload_def remove_peer_def network_known_def bt_get_retain filter_eq_Cons_iff
      split: if_splits option.splits list.splits)

lemma subscribe_all_total:
  "network_known n p \<Longrightarrow> \<exists>n'. subscribe_all p ts n = (Inr (), n') \<and> network_known n' = network_known n
    \<and> network_subscribed n' = (\<lambda>q t. q = p \<and> t \<in> set ts \<or> network_subscribed n q t)"
proof (induction ts arbitrary: n)
  case (Cons t ts)
  obtain n1 where "subscribe p t n = (Inr (), n1)" "network_known n1 = network_known n"
    "network_subscribed n1 = (\<lambda>q u. q = p \<and> u = t \<or> network_subscribed n q u)"
    using Cons.prems by (auto simp: subscribe_def network_known_def network_subscribed_def bt_or_default_def fun_eq_iff)
  with Cons.prems Cons.IH [of n1] show ?case by (auto simp: fun_eq_iff)
qed simp

lemma bootstrap_peer_total:
  "\<exists>n'. bootstrap_peer p ts n = (Inr (), n') \<and> network_known n' = (\<lambda>q. q = p \<or> network_known n q)
    \<and> network_subscribed n' = (\<lambda>q t. q = p \<and> t \<in> set ts \<or> network_subscribed n q t)"
proof -
  have r: "network_known (register_peer p n) = (\<lambda>q. q = p \<or> network_known n q)"
    "network_subscribed (register_peer p n) = network_subscribed n"
    by (auto simp: register_peer_def network_known_def network_subscribed_def bt_or_default_def fun_eq_iff)
  with subscribe_all_total [of "register_peer p n" p ts] show ?thesis by (simp add: bootstrap_peer_def)
qed

lemma bootstrap_topology_total:
  "\<exists>n'. bootstrap_topology ps n = (Inr (), n') \<and> network_known n' = (\<lambda>q. q \<in> ip_peer_id ` set ps \<or> network_known n q)
    \<and> network_subscribed n' = (\<lambda>q t. (\<exists>p \<in> set ps. ip_peer_id p = q \<and> t \<in> set (ip_topics p)) \<or> network_subscribed n q t)"
proof (induction ps arbitrary: n)
  case (Cons p ps)
  obtain n1 where n1: "bootstrap_peer (ip_peer_id p) (ip_topics p) n = (Inr (), n1)"
    "network_known n1 = (\<lambda>q. q = ip_peer_id p \<or> network_known n q)"
    "network_subscribed n1 = (\<lambda>q t. q = ip_peer_id p \<and> t \<in> set (ip_topics p) \<or> network_subscribed n q t)"
    using bootstrap_peer_total by blast
  with Cons.IH [of n1] show ?case by (auto simp: fun_eq_iff)
qed simp

lemma simulation_network_total:
  "\<exists>n. build_inmemory_simulation_network topology = Some n
     \<and> (\<forall>p. network_known n p \<longleftrightarrow> p \<in> set (inmemory_simulation_listener_peer_ids topology))"
proof -
  have "\<not> network_known default_network p" for p by (simp add: default_network_def network_known_def)
  then show ?thesis
    using bootstrap_topology_total [of "inmemory_simulation_topology_profiles topology" default_network]
    by (auto simp: build_inmemory_simulation_network_def inmemory_simulation_listener_peer_ids_def)
qed

end
