(* ===== verification/P2p_Socket.thy ===== *)
theory P2p_Socket
  imports P2p_Network
begin

text \<open>
  The UDP backend of the network (\<open>SocketP2pNetwork\<close> of \<open>src/src/p2p.rs\<close>). The mutexes disappear, because
  no function holds a guard across a call that takes the same lock. The socket and the clock are the
  argument \<open>socket_env\<close> of one call: the address of the socket, what sending a message to an address
  returns (\<open>None\<close> for success), the events that \<open>recv_from\<close> reports until the deadline of \<open>pump_incoming\<close>,
  with the time at which each is handled, and the time of pruning. A received datagram is the result of
  decoding it.
\<close>

subsection \<open>State\<close>

datatype socket_addr = V4 u32 u16 | V6 u128 u16 u32 u32

record socket_peer_profile =
  pf_peer_id :: node_id
  pf_addr :: socket_addr
  pf_topics :: "p2p_topic list"
  pf_last_seen_millis :: u64

datatype socket_wire_message =
    PeerHello socket_peer_profile
  | PeerHint socket_peer_profile
  | PeerGoodbye node_id
  | WirePublish node_id p2p_topic p2p_message
  | PayloadSync payload_provider_record

record p2p_coordination_stats =
  st_sent_count :: u64
  st_hello_sent_count :: u64
  st_hint_sent_count :: u64
  st_goodbye_sent_count :: u64
  st_received_count :: u64
  st_hello_received_count :: u64
  st_hint_received_count :: u64
  st_goodbye_received_count :: u64
  st_dropped_spoofed_count :: u64
  st_dropped_peer_cap_count :: u64

record socket_p2p_network =
  so_local_peer_id :: node_id
  so_local_topics :: "p2p_topic btree_set"
  so_configured_remote_peer_ids :: "node_id btree_set"
  so_remote_peers :: "(node_id, socket_peer_profile) btree_map"
  so_inbox :: "p2p_envelope list"
  so_payloads :: "(content_id, payload_provider_record) btree_map"
  so_coordination_stats :: p2p_coordination_stats

datatype socket_event =
    Received u64 socket_addr "string + socket_wire_message"
  | WouldBlock
  | RecvFailed string

record socket_env =
  se_local_addr :: "p2p_error + socket_addr"
  se_send :: "socket_addr \<Rightarrow> socket_wire_message \<Rightarrow> p2p_error option"
  se_events :: "socket_event list"
  se_now :: u64

type_synonym 'a socket_step = "socket_p2p_network \<Rightarrow> (p2p_error, 'a, socket_p2p_network) outcome"

definition stale_peer_millis :: u64 where
  "stale_peer_millis = 250"

definition max_remote_peers :: nat where
  "max_remote_peers = 128"

definition default_coordination_stats :: p2p_coordination_stats where
  "default_coordination_stats = \<lparr>st_sent_count = 0, st_hello_sent_count = 0, st_hint_sent_count = 0,
     st_goodbye_sent_count = 0, st_received_count = 0, st_hello_received_count = 0, st_hint_received_count = 0,
     st_goodbye_received_count = 0, st_dropped_spoofed_count = 0, st_dropped_peer_cap_count = 0\<rparr>"

definition new_socket_profile :: "node_id \<Rightarrow> socket_addr \<Rightarrow> p2p_topic list \<Rightarrow> socket_peer_profile" where
  "new_socket_profile peer addr topics =
     \<lparr>pf_peer_id = peer, pf_addr = addr, pf_topics = bt_keys (bs_of_list topics), pf_last_seen_millis = 0\<rparr>"

text \<open>The argument is the error of binding or configuring the socket, if any.\<close>

definition socket_bind :: "p2p_error option \<Rightarrow> node_id \<Rightarrow> socket_peer_profile list \<Rightarrow> p2p_error + socket_p2p_network" where
  "socket_bind failure local_peer remote_peers =
     (case failure of
        Some e \<Rightarrow> Inl e
      | None \<Rightarrow> Inr \<lparr>so_local_peer_id = local_peer, so_local_topics = bt_empty,
          so_configured_remote_peer_ids = bs_of_list (map pf_peer_id remote_peers),
          so_remote_peers = bt_of_list (map (\<lambda>p. (pf_peer_id p, p)) remote_peers),
          so_inbox = [], so_payloads = bt_empty, so_coordination_stats = default_coordination_stats\<rparr>)"

subsection \<open>Sending\<close>

fun count_sent :: "socket_wire_message \<Rightarrow> p2p_coordination_stats \<Rightarrow> p2p_coordination_stats" where
  "count_sent (PeerHello _) st = st\<lparr>st_sent_count := st_sent_count st + 1, st_hello_sent_count := st_hello_sent_count st + 1\<rparr>"
| "count_sent (PeerHint _) st = st\<lparr>st_sent_count := st_sent_count st + 1, st_hint_sent_count := st_hint_sent_count st + 1\<rparr>"
| "count_sent (PeerGoodbye _) st = st\<lparr>st_sent_count := st_sent_count st + 1, st_goodbye_sent_count := st_goodbye_sent_count st + 1\<rparr>"
| "count_sent _ st = st"

definition send_wire :: "socket_env \<Rightarrow> socket_addr \<Rightarrow> socket_wire_message \<Rightarrow> unit socket_step" where
  "send_wire env addr wire s =
     (case se_send env addr wire of
        Some e \<Rightarrow> (Inl e, s)
      | None \<Rightarrow> (Inr (), s\<lparr>so_coordination_stats := count_sent wire (so_coordination_stats s)\<rparr>))"

fun send_to_all :: "socket_env \<Rightarrow> socket_wire_message \<Rightarrow> socket_peer_profile list \<Rightarrow> unit socket_step" where
  "send_to_all env wire [] s = (Inr (), s)"
| "send_to_all env wire (peer # peers) s =
     try_then (send_wire env (pf_addr peer) wire s) (\<lambda>_. send_to_all env wire peers)"

definition announce_local_profile :: "socket_env \<Rightarrow> unit socket_step" where
  "announce_local_profile env s =
     try_with (se_local_addr env) s (\<lambda>addr.
       send_to_all env (PeerHello (new_socket_profile (so_local_peer_id s) addr (bt_keys (so_local_topics s))))
         (bt_values (so_remote_peers s)) s)"

definition announce_goodbye :: "socket_env \<Rightarrow> unit socket_step" where
  "announce_goodbye env s = send_to_all env (PeerGoodbye (so_local_peer_id s)) (bt_values (so_remote_peers s)) s"

definition announce_peer_hint :: "socket_env \<Rightarrow> socket_peer_profile \<Rightarrow> unit socket_step" where
  "announce_peer_hint env profile s =
     send_to_all env (PeerHint profile)
       (filter (\<lambda>peer. pf_peer_id peer \<noteq> pf_peer_id profile) (bt_values (so_remote_peers s))) s"

subsection \<open>Learning about peers\<close>

definition accept_remote_message :: "node_id \<Rightarrow> socket_addr \<Rightarrow> socket_p2p_network \<Rightarrow> bool" where
  "accept_remote_message peer sender_addr s =
     (if peer = so_local_peer_id s then False
      else case bt_get (so_remote_peers s) peer of
        Some profile \<Rightarrow> pf_addr profile = sender_addr
      | None \<Rightarrow> True)"

definition table_full_for :: "node_id \<Rightarrow> socket_p2p_network \<Rightarrow> bool" where
  "table_full_for peer s \<longleftrightarrow> bt_get (so_remote_peers s) peer = None
     \<and> \<not> bs_contains (so_configured_remote_peer_ids s) peer \<and> bt_size (so_remote_peers s) \<ge> max_remote_peers"

definition count_peer_cap :: "socket_p2p_network \<Rightarrow> socket_p2p_network" where
  "count_peer_cap s = s\<lparr>so_coordination_stats := (so_coordination_stats s)
     \<lparr>st_dropped_peer_cap_count := st_dropped_peer_cap_count (so_coordination_stats s) + 1\<rparr>\<rparr>"

definition count_spoofed :: "socket_p2p_network \<Rightarrow> socket_p2p_network" where
  "count_spoofed s = s\<lparr>so_coordination_stats := (so_coordination_stats s)
     \<lparr>st_dropped_spoofed_count := st_dropped_spoofed_count (so_coordination_stats s) + 1\<rparr>\<rparr>"

definition write_peer :: "socket_peer_profile \<Rightarrow> node_id \<Rightarrow> socket_p2p_network \<Rightarrow> socket_p2p_network" where
  "write_peer profile peer s = s\<lparr>so_remote_peers := bt_insert peer profile (so_remote_peers s)\<rparr>"

text \<open>The topics of \<open>new\<close> that \<open>old\<close> lacks are appended and the result is sorted.\<close>

definition merge_topics :: "p2p_topic list \<Rightarrow> p2p_topic list \<Rightarrow> p2p_topic list" where
  "merge_topics old new =
     (let topics = foldl (\<lambda>ts t. if t \<in> set ts then ts else ts @ [t]) old new
      in if set new \<subseteq> set old then old else sort_dedup topics)"

definition learn_remote_profile :: "socket_env \<Rightarrow> u64 \<Rightarrow> socket_peer_profile \<Rightarrow> socket_p2p_network \<Rightarrow> socket_p2p_network" where
  "learn_remote_profile env now profile s =
     (let peer = pf_peer_id profile; profile = profile\<lparr>pf_last_seen_millis := now\<rparr> in
      if peer = so_local_peer_id s then s
      else if table_full_for peer s then count_peer_cap s
      else case bt_get (so_remote_peers s) peer of
        Some existing \<Rightarrow>
          let topic_changed = (\<not> set (pf_topics profile) \<subseteq> set (pf_topics existing));
              learned = existing\<lparr>pf_addr := pf_addr profile, pf_topics := merge_topics (pf_topics existing) (pf_topics profile)\<rparr>;
              s = write_peer learned peer s
          in if topic_changed then snd (announce_peer_hint env learned (snd (announce_local_profile env s))) else s
      | None \<Rightarrow>
          snd (announce_peer_hint env profile (snd (announce_local_profile env (write_peer profile peer s)))))"

definition prune_stale_remote_peers :: "u64 \<Rightarrow> socket_p2p_network \<Rightarrow> socket_p2p_network" where
  "prune_stale_remote_peers now s =
     s\<lparr>so_remote_peers := bt_retain (\<lambda>peer profile. bs_contains (so_configured_remote_peer_ids s) peer
         \<or> saturating_sub now (pf_last_seen_millis profile) \<le> stale_peer_millis) (so_remote_peers s)\<rparr>"

definition learn_remote_peer :: "socket_env \<Rightarrow> u64 \<Rightarrow> node_id \<Rightarrow> socket_addr \<Rightarrow> socket_p2p_network \<Rightarrow> socket_p2p_network" where
  "learn_remote_peer env seen peer addr s =
     (if peer = so_local_peer_id s then s
      else if table_full_for peer s then count_peer_cap s
      else case bt_get (so_remote_peers s) peer of
        Some profile \<Rightarrow> write_peer (profile\<lparr>pf_addr := addr, pf_last_seen_millis := seen\<rparr>) peer s
      | None \<Rightarrow>
          let profile = (new_socket_profile peer addr [])\<lparr>pf_last_seen_millis := seen\<rparr>
          in snd (announce_peer_hint env profile (snd (announce_local_profile env (write_peer profile peer s)))))"

definition learn_remote_topic ::
  "socket_env \<Rightarrow> u64 \<Rightarrow> node_id \<Rightarrow> socket_addr \<Rightarrow> p2p_topic \<Rightarrow> socket_p2p_network \<Rightarrow> socket_p2p_network" where
  "learn_remote_topic env seen peer addr topic s =
     (if peer = so_local_peer_id s then s
      else if table_full_for peer s then count_peer_cap s
      else case bt_get (so_remote_peers s) peer of
        Some existing \<Rightarrow>
          let topic_changed = (topic \<notin> set (pf_topics existing));
              learned = existing\<lparr>pf_addr := addr, pf_last_seen_millis := seen,
                pf_topics := (if topic_changed then sort_dedup (pf_topics existing @ [topic]) else pf_topics existing)\<rparr>;
              s = write_peer learned peer s
          in if topic_changed then snd (announce_peer_hint env learned s) else s
      | None \<Rightarrow>
          let profile = (new_socket_profile peer addr [topic])\<lparr>pf_last_seen_millis := seen\<rparr>
          in snd (announce_peer_hint env profile (snd (announce_local_profile env (write_peer profile peer s)))))"

subsection \<open>Incoming messages\<close>

definition count_received :: "(p2p_coordination_stats \<Rightarrow> p2p_coordination_stats) \<Rightarrow> socket_p2p_network \<Rightarrow> socket_p2p_network" where
  "count_received kind s = s\<lparr>so_coordination_stats :=
     kind ((so_coordination_stats s)\<lparr>st_received_count := st_received_count (so_coordination_stats s) + 1\<rparr>)\<rparr>"

fun handle_wire :: "socket_env \<Rightarrow> u64 \<Rightarrow> socket_addr \<Rightarrow> socket_wire_message \<Rightarrow> socket_p2p_network \<Rightarrow> socket_p2p_network" where
  "handle_wire env now sender_addr (PeerHello profile) s =
     (let s = count_received (\<lambda>st. st\<lparr>st_hello_received_count := st_hello_received_count st + 1\<rparr>) s;
          profile = profile\<lparr>pf_addr := sender_addr, pf_last_seen_millis := now\<rparr>
      in if table_full_for (pf_peer_id profile) s then count_peer_cap s
         else write_peer profile (pf_peer_id profile) s)"
| "handle_wire env now sender_addr (PeerHint profile) s =
     learn_remote_profile env now profile
       (count_received (\<lambda>st. st\<lparr>st_hint_received_count := st_hint_received_count st + 1\<rparr>) s)"
| "handle_wire env now sender_addr (PeerGoodbye peer) s =
     (let s = count_received (\<lambda>st. st\<lparr>st_goodbye_received_count := st_goodbye_received_count st + 1\<rparr>) s
      in s\<lparr>so_remote_peers := bt_remove peer (so_remote_peers s),
           so_payloads := bt_retain (\<lambda>_ r. pv_provider r \<noteq> peer) (so_payloads s)\<rparr>)"
| "handle_wire env now sender_addr (WirePublish sender topic message) s =
     (if \<not> accept_remote_message sender sender_addr s then count_spoofed s
      else
        let s = learn_remote_topic env now sender sender_addr topic s
        in if bs_contains (so_local_topics s) topic \<and> sender \<noteq> so_local_peer_id s
           then s\<lparr>so_inbox := so_inbox s @ [\<lparr>en_from = sender, en_topic = topic, en_message = message\<rparr>]\<rparr> else s)"
| "handle_wire env now sender_addr (PayloadSync r) s =
     (if \<not> accept_remote_message (pv_provider r) sender_addr s then count_spoofed s
      else
        let s = learn_remote_peer env now (pv_provider r) sender_addr s
        in s\<lparr>so_payloads := bt_insert (pv_payload_cid r) r (so_payloads s)\<rparr>)"

fun pump_events :: "socket_env \<Rightarrow> socket_event list \<Rightarrow> unit socket_step" where
  "pump_events env [] s = (Inr (), s)"
| "pump_events env (WouldBlock # events) s = pump_events env events s"
| "pump_events env (RecvFailed e # events) s = (Inl (P2pIo e), s)"
| "pump_events env (Received now addr (Inl e) # events) s = (Inl (P2pJson e), s)"
| "pump_events env (Received now addr (Inr wire) # events) s = pump_events env events (handle_wire env now addr wire s)"

definition pump_incoming :: "socket_env \<Rightarrow> unit socket_step" where
  "pump_incoming env s = pump_events env (se_events env) s"

subsection \<open>The operations of the trait\<close>

definition socket_learned_remote_peer_count :: "socket_env \<Rightarrow> nat socket_step" where
  "socket_learned_remote_peer_count env s =
     try_then (pump_incoming env s) (\<lambda>_ s.
       let s = prune_stale_remote_peers (se_now env) s
       in (Inr (length (filter (\<lambda>peer. \<not> bs_contains (so_configured_remote_peer_ids s) peer) (bt_keys (so_remote_peers s)))), s))"

definition socket_coordination_stats :: "socket_env \<Rightarrow> p2p_coordination_stats socket_step" where
  "socket_coordination_stats env s = try_then (pump_incoming env s) (\<lambda>_ s. (Inr (so_coordination_stats s), s))"

definition socket_register_peer :: "node_id \<Rightarrow> unit socket_step" where
  "socket_register_peer peer s =
     (if peer = so_local_peer_id s \<or> bt_get (so_remote_peers s) peer \<noteq> None then (Inr (), s)
      else (Inl (UnknownPeer peer), s))"

definition socket_bootstrap_peer :: "socket_env \<Rightarrow> node_id \<Rightarrow> p2p_topic list \<Rightarrow> unit socket_step" where
  "socket_bootstrap_peer env peer topics s =
     (if peer \<noteq> so_local_peer_id s then (Inl (UnknownPeer peer), s)
      else try_then (pump_incoming env s) (\<lambda>_ s.
        announce_local_profile env (s\<lparr>so_local_topics := bs_of_list topics\<rparr>)))"

definition socket_subscribe :: "socket_env \<Rightarrow> node_id \<Rightarrow> p2p_topic \<Rightarrow> unit socket_step" where
  "socket_subscribe env peer topic s =
     (if peer \<noteq> so_local_peer_id s then (Inl (UnknownPeer peer), s)
      else try_then (pump_incoming env s) (\<lambda>_ s.
        announce_local_profile env (s\<lparr>so_local_topics := bs_insert topic (so_local_topics s)\<rparr>)))"

definition socket_unsubscribe :: "socket_env \<Rightarrow> node_id \<Rightarrow> p2p_topic \<Rightarrow> bool socket_step" where
  "socket_unsubscribe env peer topic s =
     (if peer \<noteq> so_local_peer_id s then (Inl (UnknownPeer peer), s)
      else try_then (pump_incoming env s) (\<lambda>_ s.
        let removed = bs_contains (so_local_topics s) topic;
            s = s\<lparr>so_local_topics := bs_remove topic (so_local_topics s)\<rparr>
        in if removed then try_then (announce_local_profile env s) (\<lambda>_ s. (Inr True, s)) else (Inr False, s)))"

definition socket_remove_peer :: "socket_env \<Rightarrow> node_id \<Rightarrow> unit socket_step" where
  "socket_remove_peer env peer s =
     (if peer = so_local_peer_id s
      then try_then (announce_goodbye env s) (\<lambda>_ s.
        (Inr (), s\<lparr>so_local_topics := bt_empty, so_inbox := [], so_payloads := bt_empty\<rparr>))
      else (if bt_get (so_remote_peers s) peer = None then Inl (UnknownPeer peer) else Inr (),
            s\<lparr>so_remote_peers := bt_remove peer (so_remote_peers s)\<rparr>))"

definition socket_known_peers :: "socket_env \<Rightarrow> node_id list socket_step" where
  "socket_known_peers env s =
     try_then (pump_incoming env s) (\<lambda>_ s.
       let s = prune_stale_remote_peers (se_now env) s
       in (Inr (sort (so_local_peer_id s # bt_keys (so_remote_peers s))), s))"

definition socket_subscriptions_for :: "socket_env \<Rightarrow> node_id \<Rightarrow> p2p_topic list socket_step" where
  "socket_subscriptions_for env peer s =
     try_then (pump_incoming env s) (\<lambda>_ s.
       if peer = so_local_peer_id s then (Inr (bt_keys (so_local_topics s)), s)
       else (ok_or (map_option pf_topics (bt_get (so_remote_peers s) peer)) (UnknownPeer peer), s))"

definition socket_publish :: "socket_env \<Rightarrow> node_id \<Rightarrow> p2p_message \<Rightarrow> nat socket_step" where
  "socket_publish env sender message s =
     (if sender \<noteq> so_local_peer_id s then (Inl (UnknownPeer sender), s)
      else try_then (pump_incoming env s) (\<lambda>_ s.
        let topic = message_topic message;
            recipients = filter (\<lambda>profile. topic \<in> set (pf_topics profile)) (bt_values (so_remote_peers s))
        in if recipients = [] then (Inl (NoSubscribers topic), s)
           else try_then (send_to_all env (WirePublish sender topic message) recipients s)
             (\<lambda>_ s. (Inr (length recipients), s))))"

definition socket_drain_inbox :: "socket_env \<Rightarrow> node_id \<Rightarrow> p2p_envelope list socket_step" where
  "socket_drain_inbox env peer s =
     (if peer \<noteq> so_local_peer_id s
      then (if bt_get (so_remote_peers s) peer \<noteq> None
            then try_then (pump_incoming env s) (\<lambda>_ s. (Inr [], s))
            else (Inl (UnknownPeer peer), s))
      else try_then (pump_incoming env s) (\<lambda>_ s. (Inr (so_inbox s), s\<lparr>so_inbox := []\<rparr>)))"

definition socket_advertise_payload ::
  "socket_env \<Rightarrow> node_id \<Rightarrow> content_id \<Rightarrow> hash32 \<Rightarrow> byte_vec \<Rightarrow> unit socket_step" where
  "socket_advertise_payload env provider cid hash bytes s =
     (if provider \<noteq> so_local_peer_id s then (Inl (UnknownPeer provider), s)
      else
        let r = \<lparr>pv_provider = provider, pv_payload_cid = cid, pv_payload_hash = hash, pv_payload_bytes = bytes\<rparr>;
            s = s\<lparr>so_payloads := bt_insert cid r (so_payloads s)\<rparr>
        in send_to_all env (PayloadSync r) (bt_values (so_remote_peers s)) s)"

definition socket_request_payload :: "socket_env \<Rightarrow> node_id \<Rightarrow> content_id \<Rightarrow> payload_response socket_step" where
  "socket_request_payload env requester cid s =
     (if requester \<noteq> so_local_peer_id s \<and> bt_get (so_remote_peers s) requester = None
      then (Inl (UnknownPeer requester), s)
      else try_then (pump_incoming env s) (\<lambda>_ s. (ok_or (bt_get (so_payloads s) cid) (MissingPayload cid), s)))"

subsection \<open>Which fields a call can change\<close>

text \<open>Sending only counts.\<close>

definition same_but_stats :: "socket_p2p_network \<Rightarrow> socket_p2p_network \<Rightarrow> bool" where
  "same_but_stats s s' \<longleftrightarrow> s' = s\<lparr>so_coordination_stats := so_coordination_stats s'\<rparr>"

lemma same_but_stats_refl [simp]: "same_but_stats s s"
  by (simp add: same_but_stats_def)

lemma same_but_stats_trans: "same_but_stats s s' \<Longrightarrow> same_but_stats s' s'' \<Longrightarrow> same_but_stats s s''"
  by (cases s; cases s'; cases s'') (simp add: same_but_stats_def)

lemma same_but_statsD:
  assumes "same_but_stats s s'"
  shows "so_local_peer_id s' = so_local_peer_id s" "so_local_topics s' = so_local_topics s"
    "so_configured_remote_peer_ids s' = so_configured_remote_peer_ids s" "so_remote_peers s' = so_remote_peers s"
    "so_inbox s' = so_inbox s" "so_payloads s' = so_payloads s"
  using assms by (cases s; cases s'; simp add: same_but_stats_def)+

lemma counting_same [simp]:
  "same_but_stats s (count_peer_cap s)" "same_but_stats s (count_spoofed s)" "same_but_stats s (count_received f s)"
  by (simp_all add: same_but_stats_def count_peer_cap_def count_spoofed_def count_received_def)

lemma send_wire_same: "same_but_stats s (snd (send_wire env addr wire s))"
  by (simp add: send_wire_def same_but_stats_def split: option.split)

lemma send_to_all_same: "same_but_stats s (snd (send_to_all env wire peers s))"
proof (induction peers arbitrary: s)
  case (Cons peer peers)
  show ?case
  proof (cases "send_wire env (pf_addr peer) wire s")
    case (Pair r s1)
    then have "same_but_stats s s1" using send_wire_same [of s env "pf_addr peer" wire] by simp
    with Pair Cons.IH [of s1] show ?thesis by (cases r) (auto intro: same_but_stats_trans)
  qed
qed simp

lemma announce_same [simp]:
  "same_but_stats s (snd (announce_local_profile env s))" "same_but_stats s (snd (announce_goodbye env s))"
  "same_but_stats s (snd (announce_peer_hint env profile s))"
  by (simp_all add: announce_local_profile_def announce_goodbye_def announce_peer_hint_def send_to_all_same
      split: try_with_split)

lemma announce_both_same: "same_but_stats s (snd (announce_peer_hint env profile (snd (announce_local_profile env' s))))"
  by (rule same_but_stats_trans [OF announce_same(1) announce_same(3)])

subsection \<open>The peer table stays bounded\<close>

definition unconfigured_count :: "socket_p2p_network \<Rightarrow> nat" where
  "unconfigured_count s =
     bt_size (bt_retain (\<lambda>peer _. \<not> bs_contains (so_configured_remote_peer_ids s) peer) (so_remote_peers s))"

definition socket_ok :: "socket_p2p_network \<Rightarrow> bool" where
  "socket_ok s \<longleftrightarrow> unconfigured_count s \<le> max_remote_peers
     \<and> (\<forall>peer profile. bt_get (so_remote_peers s) peer = Some profile \<longrightarrow> pf_peer_id profile = peer)
     \<and> (\<forall>cid r. bt_get (so_payloads s) cid = Some r \<longrightarrow> pv_payload_cid r = cid)"

lemma same_but_stats_ok: "same_but_stats s s' \<Longrightarrow> socket_ok s' = socket_ok s"
  by (simp add: socket_ok_def unconfigured_count_def same_but_statsD)

lemma table_full_for_same: "same_but_stats s s' \<Longrightarrow> table_full_for p s' = table_full_for p s"
  by (simp add: table_full_for_def same_but_statsD)

lemma write_peer_ok:
  assumes "socket_ok s" "\<not> table_full_for peer s" "pf_peer_id profile = peer"
  shows "socket_ok (write_peer profile peer s)"
proof -
  let ?un = "\<lambda>k _. \<not> bs_contains (so_configured_remote_peer_ids s) k"
  have "bt_size (bt_retain ?un (bt_insert peer profile (so_remote_peers s))) \<le> max_remote_peers"
  proof (cases "bs_contains (so_configured_remote_peer_ids s) peer \<or> bt_get (so_remote_peers s) peer \<noteq> None")
    case True
    with assms(1) show ?thesis
      by (auto simp: socket_ok_def unconfigured_count_def bt_retain_insert bt_size_insert bt_get_retain)
  next
    case False
    then have "bt_size (so_remote_peers s) < max_remote_peers" using assms(2) by (simp add: table_full_for_def)
    with bt_size_retain [of ?un "so_remote_peers s"] have "bt_size (bt_retain ?un (so_remote_peers s)) < max_remote_peers"
      by simp
    with False show ?thesis by (simp add: bt_retain_insert bt_size_insert bt_get_retain)
  qed
  with assms(1,3) show ?thesis by (auto simp: socket_ok_def unconfigured_count_def write_peer_def)
qed

lemma learn_ok:
  assumes "socket_ok s"
  shows "socket_ok (learn_remote_profile env now profile s)" "socket_ok (learn_remote_peer env now peer addr s)"
    "socket_ok (learn_remote_topic env now peer addr topic s)"
proof -
  note ok = same_but_stats_ok [OF announce_same(1)] same_but_stats_ok [OF announce_same(3)] same_but_stats_ok [OF counting_same(1)]
    write_peer_ok [OF assms]
  have known: "pf_peer_id x = k" if "bt_get (so_remote_peers s) k = Some x" for k x
    using assms that by (simp add: socket_ok_def)
  show "socket_ok (learn_remote_profile env now profile s)"
    using assms by (auto simp: learn_remote_profile_def Let_def ok known split: option.split)
  show "socket_ok (learn_remote_peer env now peer addr s)"
    using assms by (auto simp: learn_remote_peer_def new_socket_profile_def Let_def ok known split: option.split)
  show "socket_ok (learn_remote_topic env now peer addr topic s)"
    using assms by (auto simp: learn_remote_topic_def new_socket_profile_def Let_def ok known split: option.split)
qed

lemma remove_peer_ok: "socket_ok s \<Longrightarrow> socket_ok (s\<lparr>so_remote_peers := bt_remove peer (so_remote_peers s)\<rparr>)"
  using bt_size_remove [of peer "bt_retain (\<lambda>k _. \<not> bs_contains (so_configured_remote_peer_ids s) k) (so_remote_peers s)"]
  by (auto simp: socket_ok_def unconfigured_count_def bt_retain_remove)

lemma socket_ok_inbox: "socket_ok (s\<lparr>so_inbox := es\<rparr>) = socket_ok s"
  by (simp add: socket_ok_def unconfigured_count_def)

lemma socket_ok_payload:
  "socket_ok s \<Longrightarrow> socket_ok (s\<lparr>so_payloads := bt_insert (pv_payload_cid r) r (so_payloads s)\<rparr>)"
  by (simp add: socket_ok_def unconfigured_count_def)

lemma prune_ok: "socket_ok s \<Longrightarrow> socket_ok (prune_stale_remote_peers now s)"
proof -
  assume ok: "socket_ok s"
  have "unconfigured_count (prune_stale_remote_peers now s) \<le> unconfigured_count s"
    unfolding unconfigured_count_def prune_stale_remote_peers_def
    by (simp add: bt_retain_retain) (rule bt_size_retain_mono, simp)
  with ok show ?thesis
    by (auto simp: socket_ok_def prune_stale_remote_peers_def bt_get_retain split: option.splits if_splits)
qed

lemma handle_wire_ok: "socket_ok s \<Longrightarrow> socket_ok (handle_wire env now addr wire s)"
proof (cases wire)
  case (PeerHello profile)
  then show "socket_ok s \<Longrightarrow> socket_ok (handle_wire env now addr wire s)"
    by (simp add: Let_def same_but_stats_ok [OF counting_same(1)] same_but_stats_ok [OF counting_same(3)] write_peer_ok)
next
  case (PeerHint profile)
  then show "socket_ok s \<Longrightarrow> socket_ok (handle_wire env now addr wire s)"
    by (simp add: learn_ok same_but_stats_ok [OF counting_same(3)])
next
  case (PeerGoodbye peer)
  assume "socket_ok s"
  then have "socket_ok (count_received f s)" for f by (simp add: same_but_stats_ok [OF counting_same(3)])
  from remove_peer_ok [OF this] PeerGoodbye show ?thesis
    by (auto simp: Let_def socket_ok_def unconfigured_count_def bt_get_retain split: option.splits if_splits)
next
  case (WirePublish sender topic message)
  then show "socket_ok s \<Longrightarrow> socket_ok (handle_wire env now addr wire s)"
    by (simp add: Let_def same_but_stats_ok [OF counting_same(2)] socket_ok_inbox learn_ok)
next
  case (PayloadSync r)
  then show "socket_ok s \<Longrightarrow> socket_ok (handle_wire env now addr wire s)"
    by (simp add: Let_def same_but_stats_ok [OF counting_same(2)] socket_ok_payload learn_ok)
qed

lemma pump_events_ok: "socket_ok s \<Longrightarrow> socket_ok (snd (pump_events env events s))"
  by (induction env events s rule: pump_events.induct) (simp_all add: handle_wire_ok)

lemma try_then_ok:
  "socket_ok (snd r) \<Longrightarrow> (\<And>x s. socket_ok s \<Longrightarrow> socket_ok (snd (k x s))) \<Longrightarrow> socket_ok (snd (try_then r k))"
  by (cases r; cases "fst r") (auto simp: try_then_def)

lemma pump_ok: "socket_ok s \<Longrightarrow> socket_ok (snd (pump_incoming env s))"
  by (simp add: pump_incoming_def pump_events_ok)

lemma announce_ok: "socket_ok s \<Longrightarrow> socket_ok (snd (announce_local_profile env s))"
  "socket_ok s \<Longrightarrow> socket_ok (snd (send_to_all env wire peers s))"
  by (simp_all add: same_but_stats_ok [OF announce_same(1)] same_but_stats_ok [OF send_to_all_same])

lemma socket_ok_topics: "socket_ok (s\<lparr>so_local_topics := ts\<rparr>) = socket_ok s"
  by (simp add: socket_ok_def unconfigured_count_def)

text \<open>One call on the network, by the node itself or by the clock.\<close>

inductive socket_call :: "socket_p2p_network \<Rightarrow> socket_p2p_network \<Rightarrow> bool" where
  call_count: "socket_call s (snd (socket_learned_remote_peer_count env s))"
| call_stats: "socket_call s (snd (socket_coordination_stats env s))"
| call_register: "socket_call s (snd (socket_register_peer peer s))"
| call_bootstrap: "socket_call s (snd (socket_bootstrap_peer env peer topics s))"
| call_subscribe: "socket_call s (snd (socket_subscribe env peer topic s))"
| call_unsubscribe: "socket_call s (snd (socket_unsubscribe env peer topic s))"
| call_remove: "socket_call s (snd (socket_remove_peer env peer s))"
| call_known: "socket_call s (snd (socket_known_peers env s))"
| call_subscriptions: "socket_call s (snd (socket_subscriptions_for env peer s))"
| call_publish: "socket_call s (snd (socket_publish env sender message s))"
| call_drain: "socket_call s (snd (socket_drain_inbox env peer s))"
| call_advertise: "socket_call s (snd (socket_advertise_payload env provider cid hash bytes s))"
| call_request: "socket_call s (snd (socket_request_payload env requester cid s))"

lemmas socket_operation_defs =
  socket_learned_remote_peer_count_def socket_coordination_stats_def socket_register_peer_def socket_bootstrap_peer_def
  socket_subscribe_def socket_unsubscribe_def socket_remove_peer_def socket_known_peers_def socket_subscriptions_for_def
  socket_publish_def socket_drain_inbox_def socket_advertise_payload_def socket_request_payload_def

lemma socket_ok_cleared: "socket_ok s \<Longrightarrow> socket_ok (s\<lparr>so_local_topics := bt_empty, so_inbox := [], so_payloads := bt_empty\<rparr>)"
  by (simp add: socket_ok_def unconfigured_count_def)

lemma socket_ok_own_payload:
  "socket_ok s \<Longrightarrow> pv_payload_cid r = cid \<Longrightarrow> socket_ok (s\<lparr>so_payloads := bt_insert cid r (so_payloads s)\<rparr>)"
  by (simp add: socket_ok_def unconfigured_count_def)

lemma socket_call_ok: "socket_call s s' \<Longrightarrow> socket_ok s \<Longrightarrow> socket_ok s'"
  by (induction rule: socket_call.induct)
    (auto simp: socket_operation_defs Let_def announce_goodbye_def socket_ok_topics socket_ok_inbox
      intro!: try_then_ok pump_ok announce_ok prune_ok remove_peer_ok socket_ok_cleared socket_ok_own_payload)

text \<open>The states a bound socket goes through.\<close>

inductive socket_reachable :: "socket_p2p_network \<Rightarrow> bool" where
  reach_bind: "socket_bind None local_peer remote_peers = Inr s \<Longrightarrow> socket_reachable s"
| reach_call: "socket_reachable s \<Longrightarrow> socket_call s s' \<Longrightarrow> socket_reachable s'"

lemma socket_bind_ok:
  assumes "socket_bind failure local_peer remote_peers = Inr s"
  shows "socket_ok s"
proof -
  have get: "bt_get (so_remote_peers s) = map_of (rev (map (\<lambda>p. (pf_peer_id p, p)) remote_peers))"
    and conf: "so_configured_remote_peer_ids s = bs_of_list (map pf_peer_id remote_peers)" "so_payloads s = bt_empty"
    using assms by (auto simp: socket_bind_def bt_get_of_list split: option.splits)
  have known: "p = pf_peer_id x \<and> x \<in> set remote_peers" if "bt_get (so_remote_peers s) p = Some x" for p x
    using map_of_SomeD [of "rev (map (\<lambda>p. (pf_peer_id p, p)) remote_peers)" p x] that get by auto
  have "bt_retain (\<lambda>k _. \<not> bs_contains (so_configured_remote_peer_ids s) k) (so_remote_peers s) = bt_empty"
  proof (rule bt_ext)
    show "bt_get (bt_retain (\<lambda>k _. \<not> bs_contains (so_configured_remote_peer_ids s) k) (so_remote_peers s)) k = bt_get bt_empty k" for k
      by (cases "bt_get (so_remote_peers s) k") (use known [of k] conf in \<open>auto simp: bt_get_retain\<close>)
  qed
  with known conf show ?thesis by (auto simp: socket_ok_def unconfigured_count_def bt_size_def)
qed

lemma socket_reachable_ok: "socket_reachable s \<Longrightarrow> socket_ok s"
  by (induction rule: socket_reachable.induct) (auto intro: socket_bind_ok socket_call_ok)

subsection \<open>Sender binding\<close>

text \<open>The events that may move the recorded address of peer \<open>p\<close> away from \<open>a\<close> are excluded.\<close>

fun keeps_address :: "node_id \<Rightarrow> socket_addr \<Rightarrow> socket_event \<Rightarrow> bool" where
  "keeps_address p a (Received now addr (Inr (PeerHello profile))) = (pf_peer_id profile = p \<longrightarrow> addr = a)"
| "keeps_address p a (Received now addr (Inr (PeerHint profile))) = (pf_peer_id profile = p \<longrightarrow> pf_addr profile = a)"
| "keeps_address p a (Received now addr (Inr (PeerGoodbye peer))) = (peer \<noteq> p)"
| "keeps_address p a _ = True"

definition recorded_at :: "socket_p2p_network \<Rightarrow> node_id \<Rightarrow> socket_addr \<Rightarrow> bool" where
  "recorded_at s p a \<longleftrightarrow> (\<exists>profile. bt_get (so_remote_peers s) p = Some profile \<and> pf_addr profile = a)"

lemma recorded_same: "same_but_stats s s' \<Longrightarrow> recorded_at s' p a = recorded_at s p a"
  by (simp add: recorded_at_def same_but_statsD)

lemma recorded_write: "recorded_at (write_peer profile q s) p a = (if q = p then pf_addr profile = a else recorded_at s p a)"
  by (simp add: recorded_at_def write_peer_def)

lemma recorded_not_full: "recorded_at s p a \<Longrightarrow> \<not> table_full_for p s"
  by (auto simp: recorded_at_def table_full_for_def)

lemmas recorded_simps =
  recorded_same [OF announce_same(1)] recorded_same [OF announce_same(3)] recorded_same [OF counting_same(1)]
  recorded_same [OF counting_same(2)] recorded_same [OF counting_same(3)] recorded_write

lemma learn_recorded:
  assumes "recorded_at s p a"
  shows "(pf_peer_id profile = p \<longrightarrow> pf_addr profile = a) \<Longrightarrow> recorded_at (learn_remote_profile env now profile s) p a"
    and "(peer = p \<longrightarrow> addr = a) \<Longrightarrow> recorded_at (learn_remote_peer env now peer addr s) p a"
    and "(peer = p \<longrightarrow> addr = a) \<Longrightarrow> recorded_at (learn_remote_topic env now peer addr topic s) p a"
  using assms
  by (auto simp: learn_remote_profile_def learn_remote_peer_def learn_remote_topic_def new_socket_profile_def Let_def
      recorded_simps split: option.split)

lemma learn_keeps:
  "so_inbox (learn_remote_profile env now profile s) = so_inbox s"
  "so_inbox (learn_remote_peer env now peer addr s) = so_inbox s"
  "so_inbox (learn_remote_topic env now peer addr topic s) = so_inbox s"
  "so_local_topics (learn_remote_topic env now peer addr topic s) = so_local_topics s"
  "so_local_peer_id (learn_remote_topic env now peer addr topic s) = so_local_peer_id s"
  by (simp_all add: learn_remote_profile_def learn_remote_peer_def learn_remote_topic_def Let_def write_peer_def
      same_but_statsD [OF announce_same(1)] same_but_statsD [OF announce_same(3)] same_but_statsD [OF counting_same(1)]
      split: option.split)

lemma handle_wire_recorded:
  assumes "recorded_at s p a" "keeps_address p a (Received now addr (Inr wire))"
  shows "recorded_at (handle_wire env now addr wire s) p a"
proof (cases wire)
  case (WirePublish sender topic message)
  have "recorded_at (s'\<lparr>so_inbox := es\<rparr>) p a = recorded_at s' p a" for s' es by (simp add: recorded_at_def)
  moreover have "recorded_at (learn_remote_topic env now sender addr topic s) p a" if "accept_remote_message sender addr s"
    using assms(1) that
    by (intro learn_recorded(3)) (auto simp: accept_remote_message_def recorded_at_def split: if_splits)
  ultimately show ?thesis using assms(1) WirePublish by (auto simp: Let_def recorded_simps)
next
  case (PayloadSync r)
  have "recorded_at (s'\<lparr>so_payloads := ps\<rparr>) p a = recorded_at s' p a" for s' ps by (simp add: recorded_at_def)
  moreover have "recorded_at (learn_remote_peer env now (pv_provider r) addr s) p a" if "accept_remote_message (pv_provider r) addr s"
    using assms(1) that
    by (intro learn_recorded(2)) (auto simp: accept_remote_message_def recorded_at_def split: if_splits)
  ultimately show ?thesis using assms(1) PayloadSync by (auto simp: Let_def recorded_simps)
next
  case (PeerGoodbye peer)
  have "recorded_at (count_received f s) p a" for f using assms(1) by (simp add: recorded_simps)
  with assms(2) PeerGoodbye show ?thesis by (auto simp: Let_def recorded_at_def)
qed (use assms in \<open>auto simp: Let_def recorded_simps learn_recorded\<close>)

lemma handle_wire_inbox:
  "so_inbox (handle_wire env now addr wire s) = so_inbox s \<or>
   (\<exists>sender topic message. wire = WirePublish sender topic message \<and> accept_remote_message sender addr s
     \<and> bs_contains (so_local_topics s) topic
     \<and> so_inbox (handle_wire env now addr wire s) = so_inbox s @ [\<lparr>en_from = sender, en_topic = topic, en_message = message\<rparr>])"
  by (cases wire) (auto simp: Let_def learn_keeps write_peer_def same_but_statsD [OF counting_same(1)]
      same_but_statsD [OF counting_same(2)] same_but_statsD [OF counting_same(3)])

lemma pump_binding:
  assumes "recorded_at s p a" "\<And>ev. ev \<in> set events \<Longrightarrow> keeps_address p a ev"
  shows "\<exists>es. so_inbox (snd (pump_events env events s)) = so_inbox s @ es
    \<and> (\<forall>e \<in> set es. en_from e = p \<longrightarrow>
        (\<exists>now. Received now a (Inr (WirePublish p (en_topic e) (en_message e))) \<in> set events))"
  using assms
proof (induction env events s rule: pump_events.induct)
  case (5 env now addr wire events s)
  let ?s = "handle_wire env now addr wire s"
  have "recorded_at ?s p a" using 5(2,3) by (intro handle_wire_recorded) auto
  then obtain es where es: "so_inbox (snd (pump_events env events ?s)) = so_inbox ?s @ es"
    "\<And>e. e \<in> set es \<Longrightarrow> en_from e = p \<Longrightarrow> \<exists>now. Received now a (Inr (WirePublish p (en_topic e) (en_message e))) \<in> set events"
    using 5(1,3) by fastforce
  from handle_wire_inbox [of env now addr wire s] show ?case
  proof (elim disjE exE conjE)
    assume "so_inbox ?s = so_inbox s"
    with es show ?thesis by (intro exI [of _ es]) auto
  next
    fix sender topic message
    assume w: "wire = WirePublish sender topic message" "accept_remote_message sender addr s"
      "so_inbox ?s = so_inbox s @ [\<lparr>en_from = sender, en_topic = topic, en_message = message\<rparr>]"
    then have "sender = p \<Longrightarrow> addr = a"
      using 5(2) by (auto simp: accept_remote_message_def recorded_at_def split: if_splits)
    with w es show ?thesis
      by (intro exI [of _ "\<lparr>en_from = sender, en_topic = topic, en_message = message\<rparr> # es"]) auto
  qed
qed auto

text \<open>A greeting is not bound to an address: whoever sends it owns the name from then on.\<close>

lemma hello_takes_over_peer:
  assumes "recorded_at s p a" "p \<noteq> so_local_peer_id s" "bs_contains (so_local_topics s) topic" "pf_peer_id profile = p"
  shows "\<exists>s'. pump_events env [Received t b (Inr (PeerHello profile)), Received u b (Inr (WirePublish p topic message))] s = (Inr (), s')
    \<and> so_inbox s' = so_inbox s @ [\<lparr>en_from = p, en_topic = topic, en_message = message\<rparr>] \<and> recorded_at s' p b"
proof -
  let ?s = "handle_wire env t b (PeerHello profile) s"
  have full: "\<not> table_full_for p (count_received f s)" for f
    using recorded_not_full [OF assms(1)] by (simp add: table_full_for_same [OF counting_same(3)])
  have s1: "so_local_peer_id ?s = so_local_peer_id s" "so_local_topics ?s = so_local_topics s" "so_inbox ?s = so_inbox s"
    using assms(4) full by (simp_all add: Let_def write_peer_def same_but_statsD [OF counting_same(3)])
  have rec: "recorded_at ?s p b" using assms(4) full by (simp add: Let_def recorded_simps)
  then have acc: "accept_remote_message p b ?s"
    using assms(2) s1(1) by (auto simp: accept_remote_message_def recorded_at_def)
  have "recorded_at (handle_wire env u b (WirePublish p topic message) ?s) p b"
    by (rule handle_wire_recorded [OF rec]) simp
  moreover have "so_inbox (handle_wire env u b (WirePublish p topic message) ?s) =
      so_inbox s @ [\<lparr>en_from = p, en_topic = topic, en_message = message\<rparr>]"
    using acc assms(2,3) s1 by (simp add: learn_keeps Let_def del: handle_wire.simps(1))
  ultimately show ?thesis by (simp del: handle_wire.simps)
qed

text \<open>One datagram that is not a message of the protocol fails the call that reads it.\<close>

lemma malformed_datagram_fails_publish:
  assumes "se_events env = Received now addr (Inl e) # events"
  shows "socket_publish env (so_local_peer_id s) message s = (Inl (P2pJson e), s)"
  using assms by (simp add: socket_publish_def pump_incoming_def)

end
