(* ===== verification/Node_Runtime.thy ===== *)
theory Node_Runtime
  imports P2p_Network Mutual_Proof Reward_Tick
begin

text \<open>
  The local runtime of a node (\<open>src/src/node_runtime.rs\<close>): samples become a signed batch, the batch is
  stored and announced, and the batches of an epoch become an epoch commit. What \<open>identity_keypair\<close> reads
  from the key file is the argument \<open>identity\<close> (\<open>None\<close> when it fails), the parameters the chain has activated
  are \<open>activated\<close>. The network is a record of the two operations of the trait that the runtime calls.
\<close>

record runtime_env = pipeline_env +
  ne_proof :: proof_env
  ne_book :: book_env
  encode_batch_commit :: "batch_commit \<Rightarrow> byte_vec"
  encode_stored_payload :: "stored_payload_record \<Rightarrow> byte_vec"
  encode_seed :: "epoch_id \<Rightarrow> hash32 \<Rightarrow> hash32 \<Rightarrow> byte_vec"

record 'n network_operations =
  op_publish :: "node_id \<Rightarrow> p2p_message \<Rightarrow> 'n \<Rightarrow> (p2p_error, nat, 'n) outcome"
  op_advertise :: "node_id \<Rightarrow> content_id \<Rightarrow> hash32 \<Rightarrow> byte_vec \<Rightarrow> 'n \<Rightarrow> (p2p_error, unit, 'n) outcome"

definition in_memory_operations :: "in_memory_p2p_network network_operations" where
  "in_memory_operations = \<lparr>op_publish = publish, op_advertise = advertise_payload\<rparr>"

record collect_and_store_outcome =
  cs_assembled_batch :: assembled_batch
  cs_stored_payload :: "stored_payload_record option"
  cs_batch_recipients :: nat
  cs_receipt_recipients :: nat

record epoch_commit_inputs =
  ei_epoch_id :: epoch_id
  ei_current_height :: height
  ei_challenge_window_blocks :: u32
  ei_batches :: "assembled_batch list"
  ei_stored_payloads :: "stored_payload_record list"
  ei_aggregates_root :: hash32
  ei_rewards_root :: hash32

datatype node_runtime_error =
    RuntimeConfig node_config_error
  | RuntimePipeline node_pipeline_error
  | RuntimeStorage storage_book_error
  | RuntimeP2p p2p_error
  | RuntimeMissingCapability capability
  | EmptyBatchSet

record local_node_runtime =
  ln_config :: node_config
  ln_retention_book :: local_retention_book

subsection \<open>Collecting\<close>

definition ensure_collect_enabled :: "node_config \<Rightarrow> node_runtime_error + unit" where
  "ensure_collect_enabled config =
     (if \<not> cc_collect (nc_capabilities config) \<or> \<not> co_enabled (nc_collect config)
      then Inl (RuntimeMissingCapability Collect) else Inr ())"

definition ensure_propose_enabled :: "node_config \<Rightarrow> node_runtime_error + unit" where
  "ensure_propose_enabled config =
     (if \<not> cc_propose (nc_capabilities config) then Inl (RuntimeMissingCapability Propose) else Inr ())"

definition development_signature_placeholder :: "epoch_id \<Rightarrow> slot_id \<Rightarrow> app_id \<Rightarrow> u64 \<Rightarrow> byte_vec" where
  "development_signature_placeholder epoch slot app players =
     to_bytes32 (stable_hash32 (as_bytes (''dev-sig:'' @ decimal (unat epoch) @ '':'' @ decimal (unat slot) @ '':''
       @ decimal (unat app) @ '':'' @ decimal (unat players))))"

definition sign_observation :: "'e runtime_env_scheme \<Rightarrow> key_pair option \<Rightarrow> observation_record \<Rightarrow> observation_record" where
  "sign_observation env identity obs =
     (case identity of
        None \<Rightarrow> obs
      | Some k \<Rightarrow> obs\<lparr>obs_collector_signature := key_pair_sign (ne_proof env) k (observation_signing_payload env obs)\<rparr>)"

definition observe_sample ::
  "'e runtime_env_scheme \<Rightarrow> key_pair option \<Rightarrow> epoch_id \<Rightarrow> slot_id \<Rightarrow> node_id \<Rightarrow> activity_sample
    \<Rightarrow> node_pipeline_error + observation_record" where
  "observe_sample env identity epoch slot collector sample =
     map_sum id (sign_observation env identity)
       (into_observation env sample epoch slot collector
         (development_signature_placeholder epoch slot (as_app_id sample) (as_observed_players sample)))"

fun push_samples ::
  "'e runtime_env_scheme \<Rightarrow> key_pair option \<Rightarrow> epoch_id \<Rightarrow> slot_id \<Rightarrow> node_id \<Rightarrow> activity_sample list \<Rightarrow> batch_builder
    \<Rightarrow> node_pipeline_error + batch_builder" where
  "push_samples env identity epoch slot collector [] b = Inr b"
| "push_samples env identity epoch slot collector (sample # samples) b =
     (case observe_sample env identity epoch slot collector sample of
        Inl e \<Rightarrow> Inl e
      | Inr obs \<Rightarrow>
          (case push_observation obs b of
             (Inl e, _) \<Rightarrow> Inl e
           | (Inr _, b') \<Rightarrow> push_samples env identity epoch slot collector samples b'))"

definition collect_batch_from_samples ::
  "'e runtime_env_scheme \<Rightarrow> key_pair option \<Rightarrow> node_config \<Rightarrow> epoch_id \<Rightarrow> slot_id \<Rightarrow> activity_sample list
    \<Rightarrow> node_runtime_error + assembled_batch" where
  "collect_batch_from_samples env identity config epoch slot samples =
     (case ensure_collect_enabled config of Inl e \<Rightarrow> Inl e | Inr _ \<Rightarrow>
      case config_node_id config of Inl e \<Rightarrow> Inl (RuntimeConfig e) | Inr collector \<Rightarrow>
      case push_samples env identity epoch slot collector samples (new_builder epoch collector) of
        Inl e \<Rightarrow> Inl (RuntimePipeline e)
      | Inr b \<Rightarrow> map_sum RuntimePipeline id (finalize_batch env b 0))"

definition store_batch ::
  "'e runtime_env_scheme \<Rightarrow> protocol_params option \<Rightarrow> node_id \<Rightarrow> epoch_id \<Rightarrow> assembled_batch \<Rightarrow> local_node_runtime
    \<Rightarrow> (node_runtime_error, stored_payload_record option, local_node_runtime) outcome" where
  "store_batch env activated nid epoch b r =
     (if cc_store (nc_capabilities (ln_config r))
      then (case record_batch_payload (ne_book env) nid epoch
              (effective_min_retention_epochs activated (ln_config r)) (ab_payload_bytes b) (ln_retention_book r) of
              (Inl e, book) \<Rightarrow> (Inl (RuntimeStorage e), r\<lparr>ln_retention_book := book\<rparr>)
            | (Inr stored, book) \<Rightarrow> (Inr (Some stored), r\<lparr>ln_retention_book := book\<rparr>))
      else (Inr None, r))"

definition collect_and_store_samples ::
  "'e runtime_env_scheme \<Rightarrow> key_pair option \<Rightarrow> protocol_params option \<Rightarrow> epoch_id \<Rightarrow> slot_id \<Rightarrow> activity_sample list
    \<Rightarrow> local_node_runtime \<Rightarrow> (node_runtime_error, collect_and_store_outcome, local_node_runtime) outcome" where
  "collect_and_store_samples env identity activated epoch slot samples r =
     try_with (collect_batch_from_samples env identity (ln_config r) epoch slot samples) r (\<lambda>b.
     try_with (map_sum RuntimeConfig id (config_node_id (ln_config r))) r (\<lambda>nid.
     try_then (store_batch env activated nid epoch b r) (\<lambda>stored r.
       (Inr \<lparr>cs_assembled_batch = b, cs_stored_payload = stored, cs_batch_recipients = 0, cs_receipt_recipients = 0\<rparr>, r))))"

subsection \<open>Publishing\<close>

definition publish_best_effort ::
  "(node_id \<Rightarrow> p2p_message \<Rightarrow> 'n \<Rightarrow> (p2p_error, nat, 'n) outcome) \<Rightarrow> node_id \<Rightarrow> p2p_message \<Rightarrow> 'n
    \<Rightarrow> (node_runtime_error, nat, 'n) outcome" where
  "publish_best_effort pub sender message n =
     (case pub sender message n of
        (Inr recipients, n') \<Rightarrow> (Inr recipients, n')
      | (Inl (NoSubscribers _), n') \<Rightarrow> (Inr 0, n')
      | (Inl e, n') \<Rightarrow> (Inl (RuntimeP2p e), n'))"

text \<open>The state is the runtime and the network together.\<close>

definition collect_store_and_publish_samples ::
  "'e runtime_env_scheme \<Rightarrow> 'n network_operations \<Rightarrow> key_pair option \<Rightarrow> protocol_params option \<Rightarrow> epoch_id \<Rightarrow> slot_id
    \<Rightarrow> activity_sample list \<Rightarrow> local_node_runtime \<times> 'n
    \<Rightarrow> (node_runtime_error, collect_and_store_outcome, local_node_runtime \<times> 'n) outcome" where
  "collect_store_and_publish_samples env ops identity activated epoch slot samples = (\<lambda>(r, n).
     try_with (collect_batch_from_samples env identity (ln_config r) epoch slot samples) (r, n) (\<lambda>b.
     try_with (map_sum RuntimeConfig id (config_node_id (ln_config r))) (r, n) (\<lambda>nid.
     case op_advertise ops nid (ab_payload_cid b) (ab_payload_hash b) (ab_payload_bytes b) n of
       (Inl e, n) \<Rightarrow> (Inl (RuntimeP2p e), r, n)
     | (Inr _, n) \<Rightarrow>
         let collector_address =
           (case identity of
              None \<Rightarrow> []
            | Some k \<Rightarrow> (case identity_account_bech32 (ne_proof env) (kp_public k) of Inl _ \<Rightarrow> [] | Inr a \<Rightarrow> a))
         in case publish_best_effort (op_publish ops) nid
                (MsgBatch (batch_announcement_from_assembled b collector_address)) n of
              (Inl e, n) \<Rightarrow> (Inl e, r, n)
            | (Inr batch_recipients, n) \<Rightarrow>
                (case store_batch env activated nid epoch b r of
                   (Inl e, r) \<Rightarrow> (Inl e, r, n)
                 | (Inr None, r) \<Rightarrow>
                     (Inr \<lparr>cs_assembled_batch = b, cs_stored_payload = None,
                        cs_batch_recipients = batch_recipients, cs_receipt_recipients = 0\<rparr>, r, n)
                 | (Inr (Some stored), r) \<Rightarrow>
                     (case publish_best_effort (op_publish ops) nid
                         (MsgReplicaReceipt (replica_receipt_announcement_from_record stored)) n of
                        (Inl e, n) \<Rightarrow> (Inl e, r, n)
                      | (Inr receipt_recipients, n) \<Rightarrow>
                          (Inr \<lparr>cs_assembled_batch = b, cs_stored_payload = Some stored,
                             cs_batch_recipients = batch_recipients, cs_receipt_recipients = receipt_recipients\<rparr>, r, n))))))"

definition collect_store_and_publish ::
  "'e runtime_env_scheme \<Rightarrow> 'n network_operations \<Rightarrow> key_pair option \<Rightarrow> protocol_params option \<Rightarrow> epoch_id \<Rightarrow> slot_id
    \<Rightarrow> activity_sample \<Rightarrow> local_node_runtime \<times> 'n
    \<Rightarrow> (node_runtime_error, collect_and_store_outcome, local_node_runtime \<times> 'n) outcome" where
  "collect_store_and_publish env ops identity activated epoch slot sample =
     collect_store_and_publish_samples env ops identity activated epoch slot [sample]"

subsection \<open>The epoch commit\<close>

definition hash_observation :: "'e runtime_env_scheme \<Rightarrow> observation_record \<Rightarrow> hash32" where
  "hash_observation env obs = merkle_leaf_sha256 (pe_sha256 env) (encode_observation env obs)"

definition build_epoch_commit ::
  "'e runtime_env_scheme \<Rightarrow> node_config \<Rightarrow> epoch_commit_inputs \<Rightarrow> node_runtime_error + epoch_commit_rec" where
  "build_epoch_commit env config inputs =
     (case ensure_propose_enabled config of Inl e \<Rightarrow> Inl e | Inr _ \<Rightarrow>
      if ei_batches inputs = [] then Inl EmptyBatchSet
      else case config_node_id config of Inl e \<Rightarrow> Inl (RuntimeConfig e) | Inr proposer \<Rightarrow>
        let sha = pe_sha256 env;
            accepted_batches_root = merkle_root sha
              (map (\<lambda>b. merkle_leaf_sha256 sha (encode_batch_commit env (ab_batch_commit b))) (ei_batches inputs));
            observation_hashes = map (hash_observation env) (concat (map ab_observations (ei_batches inputs)));
            observations_root = merkle_root sha observation_hashes;
            availability_root = merkle_root sha
              (map (\<lambda>r. merkle_leaf_sha256 sha (encode_stored_payload env r)) (ei_stored_payloads inputs));
            randomness_seed = stable_hash32 (encode_seed env (ei_epoch_id inputs) accepted_batches_root observations_root)
        in Inr \<lparr>ec_epoch_id = ei_epoch_id inputs,
             ec_accepted_batches = \<lparr>mc_root = accepted_batches_root, mc_leaf_count = word_of_nat (length (ei_batches inputs))\<rparr>,
             ec_observations = \<lparr>mc_root = observations_root, mc_leaf_count = word_of_nat (length observation_hashes)\<rparr>,
             ec_aggregates = \<lparr>mc_root = ei_aggregates_root inputs,
               mc_leaf_count = (if ei_aggregates_root inputs \<noteq> 0 then 1 else 0)\<rparr>,
             ec_rewards = \<lparr>mc_root = ei_rewards_root inputs, mc_leaf_count = (if ei_rewards_root inputs \<noteq> 0 then 1 else 0)\<rparr>,
             ec_availability = \<lparr>mc_root = availability_root, mc_leaf_count = word_of_nat (length (ei_stored_payloads inputs))\<rparr>,
             ec_randomness_seed = randomness_seed, ec_proposer_id = proposer,
             ec_challenge_open_height = ei_current_height inputs,
             ec_challenge_deadline_height = ei_current_height inputs + ucast (ei_challenge_window_blocks inputs)\<rparr>)"

subsection \<open>What collecting produces\<close>

text \<open>The observation of a sample with a body, and the conditions under which collecting succeeds.\<close>

definition observation_of ::
  "'e runtime_env_scheme \<Rightarrow> key_pair option \<Rightarrow> epoch_id \<Rightarrow> slot_id \<Rightarrow> node_id \<Rightarrow> activity_sample \<Rightarrow> observation_record" where
  "observation_of env identity epoch slot collector sample =
     (let raw_body_hash = stable_hash32 (as_bytes (as_raw_body sample)) in
      sign_observation env identity
        \<lparr>obs_epoch_id = epoch, obs_slot_id = slot, obs_app_id = as_app_id sample,
         obs_source_kind = as_source_kind sample, obs_source_confidence_ppm = as_source_confidence_ppm sample,
         obs_observed_players = as_observed_players sample, obs_observed_at_millis = as_observed_at_millis sample,
         obs_collector_id = collector,
         obs_raw_body_cid = cid_from_hash (pe_hex env) raw_body_hash (source_namespace (as_source_kind sample)),
         obs_raw_body_hash = raw_body_hash,
         obs_collector_signature = development_signature_placeholder epoch slot (as_app_id sample) (as_observed_players sample)\<rparr>)"

definition collectable :: "node_config \<Rightarrow> activity_sample list \<Rightarrow> bool" where
  "collectable config samples \<longleftrightarrow> cc_collect (nc_capabilities config) \<and> co_enabled (nc_collect config)
     \<and> samples \<noteq> [] \<and> (\<forall>x \<in> set samples. as_raw_body x \<noteq> [])"

lemma placeholder_not_Nil: "development_signature_placeholder epoch slot app players \<noteq> []"
  using length_to_bytes32 by (metis development_signature_placeholder_def list.size(3) zero_neq_numeral)

lemma observe_sample_eq:
  "observe_sample env identity epoch slot collector x =
     (if as_raw_body x = [] then Inl EmptyRawBody else Inr (observation_of env identity epoch slot collector x))"
  by (simp add: observe_sample_def into_observation_def observation_of_def placeholder_not_Nil Let_def)

lemma observation_of_fields [simp]:
  "obs_epoch_id (observation_of env identity epoch slot collector x) = epoch"
  "obs_slot_id (observation_of env identity epoch slot collector x) = slot"
  "obs_collector_id (observation_of env identity epoch slot collector x) = collector"
  "obs_app_id (observation_of env identity epoch slot collector x) = as_app_id x"
  "obs_observed_players (observation_of env identity epoch slot collector x) = as_observed_players x"
  by (simp_all add: observation_of_def sign_observation_def Let_def split: option.split)

lemma push_samples_eq:
  assumes "bb_epoch_id b = epoch" "bb_collector_id b = collector"
  shows "push_samples env identity epoch slot collector samples b =
    (if \<forall>x \<in> set samples. as_raw_body x \<noteq> []
     then Inr (b\<lparr>bb_observations := bb_observations b @ map (observation_of env identity epoch slot collector) samples\<rparr>)
     else Inl EmptyRawBody)"
  using assms by (induction samples arbitrary: b) (simp_all add: observe_sample_eq push_observation_def)

definition collected ::
  "'e runtime_env_scheme \<Rightarrow> key_pair option \<Rightarrow> epoch_id \<Rightarrow> slot_id \<Rightarrow> node_id \<Rightarrow> activity_sample list \<Rightarrow> batch_builder" where
  "collected env identity epoch slot collector samples =
     \<lparr>bb_epoch_id = epoch, bb_collector_id = collector,
      bb_observations = map (observation_of env identity epoch slot collector) samples\<rparr>"

lemma collected_built: "built epoch collector (collected env identity epoch slot collector samples)"
proof (induction samples rule: rev_induct)
  case Nil
  then show ?case using built_new by (simp add: collected_def new_builder_def)
next
  case (snoc x xs)
  have "collected env identity epoch slot collector (xs @ [x]) =
    snd (push_observation (observation_of env identity epoch slot collector x) (collected env identity epoch slot collector xs))"
    by (simp add: collected_def push_observation_def)
  with built_push [OF snoc] show ?case by simp
qed

lemma map_sum_eq_Inr: "map_sum f g x = Inr y \<longleftrightarrow> (\<exists>z. x = Inr z \<and> y = g z)"
  by (cases x) auto

lemma collect_batch_iff:
  "collect_batch_from_samples env identity config epoch slot samples = Inr b \<longleftrightarrow>
     collectable config samples \<and> (\<exists>collector. config_node_id config = Inr collector
       \<and> finalize_batch env (collected env identity epoch slot collector samples) 0 = Inr b)"
proof -
  have p: "push_samples env identity epoch slot collector samples (new_builder epoch collector) =
    (if \<forall>x \<in> set samples. as_raw_body x \<noteq> [] then Inr (collected env identity epoch slot collector samples)
     else Inl EmptyRawBody)" for collector
    by (simp add: push_samples_eq new_builder_def collected_def)
  have e: "finalize_batch env (collected env identity epoch slot collector []) 0 \<noteq> Inr b" for collector
    by (simp add: finalize_batch_def collected_def)
  show ?thesis
    unfolding collect_batch_from_samples_def p
    by (cases "config_node_id config"; cases "samples = []")
      (auto simp: ensure_collect_enabled_def collectable_def e map_sum_eq_Inr)
qed

lemma finalize_collected_total:
  "samples \<noteq> [] \<Longrightarrow> \<exists>b. finalize_batch env (collected env identity epoch slot collector samples) h = Inr b"
  by (simp add: finalize_batch_def collected_def Let_def)

lemma collect_batch_total:
  "collectable config samples \<Longrightarrow> config_node_id config = Inr collector \<Longrightarrow>
     \<exists>b. collect_batch_from_samples env identity config epoch slot samples = Inr b"
  using finalize_collected_total [of samples env identity epoch slot collector 0]
  by (auto simp: collect_batch_iff collectable_def)

lemma set_collected_observations:
  assumes "finalize_batch env (collected env identity epoch slot collector samples) h = Inr b"
  shows "set (ab_observations b) = observation_of env identity epoch slot collector ` set samples"
  using finalize_batch_Inr(1) [OF assms] by (simp add: collected_def)

text \<open>A key whose signatures verify; a signature of the right key on an observation is valid.\<close>

definition signs_soundly :: "'e runtime_env_scheme \<Rightarrow> key_pair \<Rightarrow> bool" where
  "signs_soundly env k \<longleftrightarrow>
     (\<forall>m. verify_signature (crypto_env.truncate env) (kp_public k) m (key_pair_sign (ne_proof env) k m)
        \<and> key_pair_sign (ne_proof env) k m \<noteq> [])"

lemma signing_payload_unsigned [simp]:
  "observation_signing_payload env (obs\<lparr>obs_collector_signature := sig\<rparr>) = observation_signing_payload env obs"
  by (simp add: observation_signing_payload_def)

lemma signed_observation_valid:
  assumes "signs_soundly env k" "stable_hash32 (to_bytes32 (kp_public k)) = collector"
  shows "verify_collector_signature env (observation_of env (Some k) epoch slot collector x) (Some (kp_public k)) = SigValid"
proof -
  have "verify_collector_signature env (sign_observation env (Some k) obs) (Some (kp_public k)) = SigValid"
    if "obs_collector_id obs = collector" for obs
    using assms that by (simp add: sign_observation_def verify_collector_signature_def signs_soundly_def)
  then show ?thesis by (simp add: observation_of_def Let_def)
qed

subsection \<open>What publishing delivers\<close>

locale p2p_node_network = p2p_network +
  fixes adv :: "node_id \<Rightarrow> content_id \<Rightarrow> hash32 \<Rightarrow> byte_vec \<Rightarrow> 'a \<Rightarrow> (p2p_error, unit, 'a) outcome"
  assumes adv_result: "known n p \<Longrightarrow> fst (adv p cid h bytes n) = Inr ()"
    and adv_wf: "wf n \<Longrightarrow> wf (snd (adv p cid h bytes n))"
    and adv_known: "known (snd (adv p cid h bytes n)) = known n"
    and adv_subscribed: "subscribed (snd (adv p cid h bytes n)) = subscribed n"
    and adv_inbox: "inbox (snd (adv p cid h bytes n)) = inbox n"
begin

definition listeners :: "'a \<Rightarrow> node_id \<Rightarrow> p2p_topic \<Rightarrow> node_id set" where
  "listeners n a t = {p. p \<noteq> a \<and> subscribed n p t}"

lemma best_effort:
  assumes "wf n" "known n a"
  shows "publish_best_effort pub a m n = (Inr (card (listeners n a (message_topic m))), snd (pub a m n))"
proof (cases "pub a m n")
  case (Pair res n')
  with pub_result [OF assms, of m] show ?thesis
    by (auto simp: publish_best_effort_def listeners_def Let_def split: if_splits)
qed

lemma collect_publishes:
  assumes batch: "collect_batch_from_samples env identity (ln_config r) epoch slot samples = Inr b"
    and nid: "config_node_id (ln_config r) = Inr a" and ok: "wf n" "known n a"
    and stored: "store_batch env activated a epoch b r = (Inr st, r1)"
  shows "\<exists>n' address.
    collect_store_and_publish_samples env \<lparr>op_publish = pub, op_advertise = adv\<rparr> identity activated epoch slot samples (r, n) =
      (Inr \<lparr>cs_assembled_batch = b, cs_stored_payload = st, cs_batch_recipients = card (listeners n a Batches),
         cs_receipt_recipients = (if st = None then 0 else card (listeners n a Receipts))\<rparr>, r1, n')
    \<and> (\<forall>p. inbox n' p = inbox n p
        @ (if p \<in> listeners n a Batches then [envelope_of (a, MsgBatch (batch_announcement_from_assembled b address))] else [])
        @ (case st of None \<Rightarrow> [] | Some s \<Rightarrow> if p \<in> listeners n a Receipts
             then [envelope_of (a, MsgReplicaReceipt (replica_receipt_announcement_from_record s))] else []))"
proof -
  let ?adv = "adv a (ab_payload_cid b) (ab_payload_hash b) (ab_payload_bytes b) n"
  obtain n1 where n1: "?adv = (Inr (), n1)" using adv_result [OF ok(2)] by (metis prod.collapse)
  then have n1_ok: "wf n1" "known n1 = known n" "subscribed n1 = subscribed n" "inbox n1 = inbox n"
    using adv_wf [OF ok(1)] adv_known adv_subscribed adv_inbox by (metis snd_conv)+
  define address where "address = (case identity of None \<Rightarrow> [] | Some k \<Rightarrow>
    (case identity_account_bech32 (ne_proof env) (kp_public k) of Inl _ \<Rightarrow> [] | Inr a \<Rightarrow> a))"
  let ?m = "MsgBatch (batch_announcement_from_assembled b address)"
  define n2 where "n2 = snd (pub a ?m n1)"
  have k1: "known n1 a" using ok(2) n1_ok by simp
  have n2_ok: "wf n2" "known n2 = known n" "subscribed n2 = subscribed n"
    unfolding n2_def using n1_ok by (simp_all add: pub_wf pub_known pub_subscribed)
  have k2: "known n2 a" using ok(2) n2_ok by simp
  have l: "listeners n1 a t = listeners n a t" "listeners n2 a t = listeners n a t" for t
    by (simp_all add: listeners_def n1_ok n2_ok)
  have i2: "inbox n2 p = inbox n p @ (if p \<in> listeners n a Batches then [envelope_of (a, ?m)] else [])" for p
    unfolding n2_def using pub_inbox [OF n1_ok(1) k1, of ?m p] n1_ok by (simp add: listeners_def)
  note run = collect_store_and_publish_samples_def batch nid n1 best_effort [OF n1_ok(1) k1] best_effort [OF n2_ok(1) k2]
    l stored
  show ?thesis
  proof (cases st)
    case None
    then show ?thesis by (intro exI [of _ n2] exI [of _ address]) (simp add: run i2 flip: address_def n2_def)
  next
    case (Some s)
    let ?r = "MsgReplicaReceipt (replica_receipt_announcement_from_record s)"
    have "inbox (snd (pub a ?r n2)) p = inbox n2 p @ (if p \<in> listeners n a Receipts then [envelope_of (a, ?r)] else [])" for p
      using pub_inbox [OF n2_ok(1) k2, of ?r p] n2_ok by (simp add: listeners_def)
    with Some show ?thesis
      by (intro exI [of _ "snd (pub a ?r n2)"] exI [of _ address]) (simp add: run i2 flip: address_def n2_def)
  qed
qed

end

interpretation node_mem: p2p_node_network consistent network_known network_subscribed network_inbox publish drain_inbox advertise_payload
proof
  fix n p cid h bytes
  show "network_known n p \<Longrightarrow> fst (advertise_payload p cid h bytes n) = Inr ()"
    "network_known (snd (advertise_payload p cid h bytes n)) = network_known n"
    "network_subscribed (snd (advertise_payload p cid h bytes n)) = network_subscribed n"
    "network_inbox (snd (advertise_payload p cid h bytes n)) = network_inbox n"
    by (simp_all add: advertise_payload_def network_known_def network_subscribed_def network_inbox_def fun_eq_iff)
  show "consistent n \<Longrightarrow> consistent (snd (advertise_payload p cid h bytes n))" by (rule advertise_consistent)
qed

end
