(* ===== verification/Node_Disk.thy ===== *)
theory Node_Disk
  imports Node_Runtime Epoch_Rewards
begin

text \<open>
  What the daemon keeps in its data directory and how it names it (\<open>src/src/node_daemon.rs\<close>): payload
  files, batch artifacts, and reading the batches of an epoch back. A directory is a map from file names to
  contents, and its listing is in the order of the names, as \<open>sort_by_key(path)\<close> gives. A batch file holds the
  artifact that \<open>load_json\<close> returns for it, or the error; a session or attestation file that does not parse
  is \<open>None\<close>. A missing file is an I/O error when it is read.
  Writing succeeds: the errors of \<open>fs::write\<close> are not modelled here.
\<close>

subsection \<open>Text\<close>

text \<open>\<open>str::replace\<close> with a non-empty pattern.\<close>

function replace_all :: "string \<Rightarrow> string \<Rightarrow> string \<Rightarrow> string" where
  "replace_all pat rep [] = []"
| "replace_all pat rep (c # s) =
     (case (if pat = [] then None else strip_prefix pat (c # s)) of
        Some rest \<Rightarrow> rep @ replace_all pat rep rest
      | None \<Rightarrow> c # replace_all pat rep s)"
  by pat_completeness auto
termination
  by (relation "measure (\<lambda>(_, _, s). length s)") (auto dest: strip_prefix_length split: if_splits)

definition replace_char :: "char \<Rightarrow> char \<Rightarrow> string \<Rightarrow> string" where
  "replace_char old new s = map (\<lambda>c. if c = old then new else c) s"

definition decimal_padded :: "nat \<Rightarrow> nat \<Rightarrow> string" where
  "decimal_padded width n = replicate (width - length (decimal n)) CHR ''0'' @ decimal n"

text \<open>
  \<open>decode_hex_32\<close> and \<open>decode_nibble\<close> are copied in several files with the error type of each; the
  arguments are the constructors of the two errors.
\<close>

definition nibble_value :: "(nat \<Rightarrow> u8 \<Rightarrow> 'e) \<Rightarrow> u8 \<Rightarrow> nat \<Rightarrow> 'e + u8" where
  "nibble_value bad_char byte index =
     (if of_char CHR ''0'' \<le> byte \<and> byte \<le> of_char CHR ''9'' then Inr (byte - of_char CHR ''0'')
      else if of_char CHR ''a'' \<le> byte \<and> byte \<le> of_char CHR ''f'' then Inr (byte - of_char CHR ''a'' + 10)
      else if of_char CHR ''A'' \<le> byte \<and> byte \<le> of_char CHR ''F'' then Inr (byte - of_char CHR ''A'' + 10)
      else Inl (bad_char index byte))"

fun nibble_pairs :: "(nat \<Rightarrow> u8 \<Rightarrow> 'e) \<Rightarrow> nat \<Rightarrow> byte_vec \<Rightarrow> 'e + byte_vec" where
  "nibble_pairs bad_char index (h # l # rest) =
     (case nibble_value bad_char h (index * 2) of
        Inl e \<Rightarrow> Inl e
      | Inr hi \<Rightarrow>
          (case nibble_value bad_char l (index * 2 + 1) of
             Inl e \<Rightarrow> Inl e
           | Inr lo \<Rightarrow> map_sum id ((#) (or (push_bit 4 hi) lo)) (nibble_pairs bad_char (Suc index) rest)))"
| "nibble_pairs bad_char index _ = Inr []"

definition decode_hex_text :: "(nat \<Rightarrow> nat \<Rightarrow> 'e) \<Rightarrow> (nat \<Rightarrow> u8 \<Rightarrow> 'e) \<Rightarrow> string \<Rightarrow> 'e + bytes32" where
  "decode_hex_text bad_length bad_char input =
     (if length input \<noteq> 64 then Inl (bad_length 64 (length input))
      else map_sum id of_bytes32 (nibble_pairs bad_char 0 (as_bytes input)))"

lemma decode_nibble_value: "decode_nibble byte field index = nibble_value (InvalidHexCharacter field) byte index"
  by (simp add: decode_nibble_def nibble_value_def)

lemma nibble_value_map: "nibble_value bad byte index = map_sum (\<lambda>_. bad index byte) id (nibble_value (\<lambda>_ _. ()) byte index)"
  by (simp add: nibble_value_def)

lemma nibble_pairs_Inr:
  "nibble_pairs bad index bs = Inr vs \<longleftrightarrow> nibble_pairs bad' index bs = Inr vs"
proof (induction bad index bs arbitrary: vs rule: nibble_pairs.induct)
  case (1 bad index h l rest)
  show ?case
    using 1 by (auto simp: nibble_value_map [of bad] nibble_value_map [of bad'] map_sum_eq_Inr split: sum.splits)
qed auto

lemma decode_pairs_nibbles: "decode_pairs field index bs = nibble_pairs (InvalidHexCharacter field) index bs"
  by (induction field index bs rule: decode_pairs.induct) (simp_all add: decode_nibble_value split: sum.split)

lemma decode_hex_text_Inr:
  "decode_hex_text bl bc s = Inr w \<longleftrightarrow> decode_hex_32 s field = Inr w"
  by (auto simp: decode_hex_text_def decode_hex_32_def decode_pairs_nibbles map_sum_eq_Inr
      nibble_pairs_Inr [of bc _ _ _ "InvalidHexCharacter field"])

lemma decode_hex_text_hex_32 [simp]: "decode_hex_text bl bc (hex_32 w) = Inr w"
  by (simp add: decode_hex_text_Inr [of _ _ _ _ "[]"] decode_hex_32_hex_32)

subsection \<open>Artifacts and files\<close>

record collect_tick_artifact =
  ct_epoch_id :: epoch_id
  ct_slot_id :: slot_id
  ct_payload_cid :: content_id
  ct_payload_hash_hex :: string
  ct_batch_root_hex :: string
  ct_obs_count :: u32
  ct_collector_address :: string
  ct_player_reward_block_count :: nat
  ct_player_reward_total :: amount
  ct_reward_process_name :: "string option"
  ct_stored_payload_cid :: "string option"
  ct_retention_until_epoch :: "epoch_id option"

record node_env = runtime_env +
  decode_observations :: "byte_vec \<Rightarrow> string + observation_record list"

datatype node_verification_error =
    VerificationUpstream string
  | VerificationStorage storage_book_error
  | VerificationIo string
  | VerificationJson string
  | VerificationBorsh string
  | VerificationHexLength nat nat
  | VerificationHexCharacter nat u8

datatype node_storage_audit_error =
    AuditConfig node_config_error
  | AuditStorage storage_book_error
  | AuditIo string
  | AuditJson string

datatype node_daemon_error =
    DaemonConfig node_config_error
  | DaemonRuntime node_runtime_error
  | DaemonStorage storage_book_error
  | DaemonAggregation node_aggregation_error
  | DaemonReward node_reward_error
  | DaemonVerification node_verification_error
  | DaemonSettlement string
  | DaemonStorageAudit node_storage_audit_error
  | DaemonMutualProof mutual_proof_error
  | DaemonSteam string
  | DaemonIo string
  | DaemonJson string
  | DaemonNoTargetApps
  | DaemonHexLength nat nat
  | DaemonHexCharacter nat u8

record node_disk =
  dk_payloads :: "(string, byte_vec) btree_map"
  dk_batches_dir_exists :: bool
  dk_batches :: "(string, string + collect_tick_artifact) btree_map"
  dk_sessions :: "(string, play_session option) btree_map"
  dk_attestations :: "(string, witness_attestation option) btree_map"

definition empty_disk :: node_disk where
  "empty_disk = \<lparr>dk_payloads = bt_empty, dk_batches_dir_exists = False, dk_batches = bt_empty, dk_sessions = bt_empty,
     dk_attestations = bt_empty\<rparr>"

definition payload_filename_stub :: "content_id \<Rightarrow> string" where
  "payload_filename_stub cid = replace_char CHR ''/'' CHR ''_'' (replace_all ''cid://'' [] cid)"

definition payload_artifact_stub :: "content_id \<Rightarrow> string" where
  "payload_artifact_stub cid = replace_char CHR '':'' CHR ''_'' (payload_filename_stub cid)"

definition payload_path :: "content_id \<Rightarrow> string" where
  "payload_path cid = payload_filename_stub cid @ ''.bin''"

definition batch_artifact_path :: "epoch_id \<Rightarrow> slot_id \<Rightarrow> content_id \<Rightarrow> string" where
  "batch_artifact_path epoch slot cid =
     ''epoch-'' @ decimal_padded 6 (unat epoch) @ ''-slot-'' @ decimal_padded 6 (unat slot) @ ''-''
       @ payload_artifact_stub cid @ ''.json''"

definition write_payload_file :: "content_id \<Rightarrow> byte_vec \<Rightarrow> node_disk \<Rightarrow> node_disk" where
  "write_payload_file cid bytes d = d\<lparr>dk_payloads := bt_insert (payload_path cid) bytes (dk_payloads d)\<rparr>"

definition read_payload_file :: "content_id \<Rightarrow> node_disk \<Rightarrow> string + byte_vec" where
  "read_payload_file cid d = ok_or (bt_get (dk_payloads d) (payload_path cid)) ''No such file or directory''"

definition save_batch_artifact :: "collect_tick_artifact \<Rightarrow> string \<Rightarrow> node_disk \<Rightarrow> node_disk" where
  "save_batch_artifact artifact name d = d\<lparr>dk_batches_dir_exists := True, dk_batches := bt_insert name (Inr artifact) (dk_batches d)\<rparr>"

definition persist_collect_tick_artifact ::
  "'e runtime_env_scheme \<Rightarrow> key_pair option \<Rightarrow> epoch_id \<Rightarrow> slot_id \<Rightarrow> collect_and_store_outcome \<Rightarrow> player_reward_tick_artifact
    \<Rightarrow> node_disk \<Rightarrow> collect_tick_artifact \<times> node_disk" where
  "persist_collect_tick_artifact env identity next_epoch next_slot result tick d =
     (let b = cs_assembled_batch result;
          artifact =
            \<lparr>ct_epoch_id = next_epoch, ct_slot_id = next_slot, ct_payload_cid = ab_payload_cid b,
             ct_payload_hash_hex = hex_32 (ab_payload_hash b),
             ct_batch_root_hex = hex_32 (mc_root (bc_batch (ab_batch_commit b))),
             ct_obs_count = bc_obs_count (ab_batch_commit b),
             ct_collector_address = (case identity of None \<Rightarrow> []
               | Some k \<Rightarrow> (case identity_account_bech32 (ne_proof env) (kp_public k) of Inl _ \<Rightarrow> [] | Inr a \<Rightarrow> a)),
             ct_player_reward_block_count = ta_completed_reward_block_count tick,
             ct_player_reward_total = ta_total_player_reward tick,
             ct_reward_process_name = (case ta_records tick of [] \<Rightarrow> None | r # _ \<Rightarrow> Some (br_process_name r)),
             ct_stored_payload_cid = map_option sp_payload_cid (cs_stored_payload result),
             ct_retention_until_epoch = map_option sp_retention_until_epoch (cs_stored_payload result)\<rparr>
      in (artifact, save_batch_artifact artifact (batch_artifact_path next_epoch next_slot (ct_payload_cid artifact)) d))"

text \<open>\<open>load_directory\<close> of \<open>mutual_proof.rs\<close> leaves out what does not parse; sessions and attestations are saved under their session id.\<close>

definition load_directory :: "(string, 'a option) btree_map \<Rightarrow> 'a list" where
  "load_directory m = List.map_filter (\<lambda>x. x) (bt_values m)"

definition proof_file_name :: "hash32 \<Rightarrow> string" where
  "proof_file_name session_id = hex_32 session_id @ ''.json''"

definition save_play_session :: "play_session \<Rightarrow> node_disk \<Rightarrow> node_disk" where
  "save_play_session s d = d\<lparr>dk_sessions := bt_insert (proof_file_name (ps_session_id s)) (Some s) (dk_sessions d)\<rparr>"

definition load_play_sessions :: "node_disk \<Rightarrow> play_session list" where
  "load_play_sessions d = load_directory (dk_sessions d)"

definition save_witness_attestation :: "witness_attestation \<Rightarrow> node_disk \<Rightarrow> node_disk" where
  "save_witness_attestation a d =
     d\<lparr>dk_attestations := bt_insert (proof_file_name (wa_session_id a)) (Some a) (dk_attestations d)\<rparr>"

definition load_witness_attestations :: "node_disk \<Rightarrow> witness_attestation list" where
  "load_witness_attestations d = load_directory (dk_attestations d)"

lemma set_load_directory: "x \<in> set (load_directory m) \<longleftrightarrow> (\<exists>k. bt_get m k = Some (Some x))"
  by (force simp: load_directory_def map_filter_def bt_values_set)

subsection \<open>Reading the batches of an epoch\<close>

definition batch_from_artifact ::
  "node_env \<Rightarrow> node_id \<Rightarrow> node_disk \<Rightarrow> collect_tick_artifact \<Rightarrow> node_daemon_error + assembled_batch" where
  "batch_from_artifact env local_node_id d artifact =
     (case read_payload_file (ct_payload_cid artifact) d of Inl e \<Rightarrow> Inl (DaemonIo e) | Inr payload_bytes \<Rightarrow>
      case decode_observations env payload_bytes of Inl e \<Rightarrow> Inl (DaemonStorage (BookBorsh e)) | Inr observations \<Rightarrow>
      case decode_hex_text DaemonHexLength DaemonHexCharacter (ct_payload_hash_hex artifact) of
        Inl e \<Rightarrow> Inl e | Inr payload_hash \<Rightarrow>
      case decode_hex_text DaemonHexLength DaemonHexCharacter (ct_batch_root_hex artifact) of
        Inl e \<Rightarrow> Inl e | Inr batch_root \<Rightarrow>
      Inr \<lparr>ab_batch_commit = \<lparr>bc_epoch_id = ct_epoch_id artifact,
             bc_collector_id = (case observations of [] \<Rightarrow> local_node_id | obs # _ \<Rightarrow> obs_collector_id obs),
             bc_slot_start = ct_slot_id artifact, bc_slot_end = ct_slot_id artifact,
             bc_batch = \<lparr>mc_root = batch_root, mc_leaf_count = ct_obs_count artifact\<rparr>,
             bc_payload_cid = ct_payload_cid artifact, bc_obs_count = ct_obs_count artifact,
             bc_submitted_at_height = 0\<rparr>,
           ab_payload_hash = payload_hash, ab_payload_cid = ct_payload_cid artifact,
           ab_payload_bytes = payload_bytes, ab_observations = observations\<rparr>)"

fun load_batch_files ::
  "node_env \<Rightarrow> node_id \<Rightarrow> epoch_id \<Rightarrow> node_disk \<Rightarrow> (string + collect_tick_artifact) list
    \<Rightarrow> node_daemon_error + assembled_batch list" where
  "load_batch_files env nid epoch d [] = Inr []"
| "load_batch_files env nid epoch d (Inl e # rest) = Inl (DaemonJson e)"
| "load_batch_files env nid epoch d (Inr artifact # rest) =
     (if ct_epoch_id artifact \<noteq> epoch then load_batch_files env nid epoch d rest
      else case batch_from_artifact env nid d artifact of
        Inl e \<Rightarrow> Inl e
      | Inr b \<Rightarrow> map_sum id ((#) b) (load_batch_files env nid epoch d rest))"

definition load_batches_for_epoch ::
  "node_env \<Rightarrow> node_config \<Rightarrow> epoch_id \<Rightarrow> node_disk \<Rightarrow> node_daemon_error + assembled_batch list" where
  "load_batches_for_epoch env config epoch d =
     (if \<not> dk_batches_dir_exists d then Inr []
      else case config_node_id config of
        Inl e \<Rightarrow> Inl (DaemonConfig e)
      | Inr nid \<Rightarrow> load_batch_files env nid epoch d (bt_values (dk_batches d)))"

end
