(* ===== verification/Verifier.thy ===== *)
theory Verifier
  imports Node_Disk
begin

text \<open>
  The audit a node runs over the batches of an epoch it stores (\<open>src/src/node_verifier.rs\<close>): payload
  hash, batch root, observation count, retention record and collector signatures of each batch.
  \<open>book_file\<close> is what \<open>load_or_default_json\<close> returned for the retention book, \<open>identity\<close> the key pair of the node
  if it can be read.
\<close>

record batch_verification_report =
  vr_epoch_id :: u64
  vr_slot_id :: u64
  vr_payload_cid :: string
  vr_payload_hash_matches :: bool
  vr_batch_root_matches :: bool
  vr_obs_count_matches :: bool
  vr_retention_record_present :: bool
  vr_retention_hash_matches :: bool
  vr_signature_status :: string
  vr_signatures_present :: nat
  vr_signatures_verified :: nat
  vr_own_batch :: bool
  vr_signatures_audit_valid :: bool
  vr_collector_id_hex :: string

record epoch_verification_report =
  ev_epoch_id :: u64
  ev_batch_count :: nat
  ev_stored_payload_count :: nat
  ev_all_valid :: bool
  ev_reports :: "batch_verification_report list"

fun join_strings :: "string \<Rightarrow> string list \<Rightarrow> string" where
  "join_strings sep [] = []"
| "join_strings sep [x] = x"
| "join_strings sep (x # y # rest) = x @ sep @ join_strings sep (y # rest)"

text \<open>The label a status pushes and whether it counts as present.\<close>

fun signature_label :: "signature_status \<Rightarrow> string option" where
  "signature_label SigEmpty = None"
| "signature_label SigDevPlaceholder = Some ''dev''"
| "signature_label SigValid = Some ''ed25519''"
| "signature_label SigInvalid = Some ''invalid''"
| "signature_label SigUnverifiable = Some ''unverifiable''"

definition signature_present :: "signature_status \<Rightarrow> bool" where
  "signature_present status \<longleftrightarrow> status = SigDevPlaceholder \<or> status = SigValid \<or> status = SigUnverifiable"

definition verify_batch ::
  "node_env \<Rightarrow> key_pair option \<Rightarrow> node_config \<Rightarrow> local_retention_book \<Rightarrow> node_disk \<Rightarrow> collect_tick_artifact
    \<Rightarrow> node_verification_error + batch_verification_report" where
  "verify_batch env identity config book d artifact =
     (case read_payload_file (ct_payload_cid artifact) d of Inl e \<Rightarrow> Inl (VerificationIo e) | Inr payload_bytes \<Rightarrow>
      case decode_observations env payload_bytes of Inl e \<Rightarrow> Inl (VerificationBorsh e) | Inr observations \<Rightarrow>
      case decode_hex_text VerificationHexLength VerificationHexCharacter (ct_payload_hash_hex artifact) of
        Inl e \<Rightarrow> Inl e | Inr expected_payload_hash \<Rightarrow>
      case decode_hex_text VerificationHexLength VerificationHexCharacter (ct_batch_root_hex artifact) of
        Inl e \<Rightarrow> Inl e | Inr expected_batch_root \<Rightarrow>
      let payload_hash = stable_hash32 payload_bytes;
          batch_root = merkle_root (pe_sha256 env)
            (map (\<lambda>obs. merkle_leaf_sha256 (pe_sha256 env) (encode_observation env obs)) observations);
          retention_record = bt_get (rb_payloads book) (ct_payload_cid artifact);
          is_own_batch = (case observations of [] \<Rightarrow> False
            | obs # _ \<Rightarrow> config_node_id config = Inr (obs_collector_id obs));
          local_pubkey = (if is_own_batch then map_option kp_public identity else None);
          statuses = map (\<lambda>obs. verify_collector_signature env obs local_pubkey) observations;
          labels = sort_dedup (List.map_filter signature_label statuses)
      in Inr \<lparr>vr_epoch_id = ct_epoch_id artifact, vr_slot_id = ct_slot_id artifact,
           vr_payload_cid = ct_payload_cid artifact,
           vr_payload_hash_matches = (payload_hash = expected_payload_hash),
           vr_batch_root_matches = (batch_root = expected_batch_root),
           vr_obs_count_matches = (word_of_nat (length observations) = ct_obs_count artifact),
           vr_retention_record_present = (retention_record \<noteq> None),
           vr_retention_hash_matches = (case retention_record of None \<Rightarrow> False | Some r \<Rightarrow> sp_payload_hash r = payload_hash),
           vr_signature_status = (if labels = [] then ''empty'' else join_strings ''+'' labels),
           vr_signatures_present = length (filter signature_present statuses),
           vr_signatures_verified = length (filter (\<lambda>status. status = SigValid) statuses),
           vr_own_batch = is_own_batch,
           vr_signatures_audit_valid = (\<forall>status \<in> set statuses. \<not> (is_own_batch \<and> status \<noteq> SigValid)),
           vr_collector_id_hex = (case observations of [] \<Rightarrow> [] | obs # _ \<Rightarrow> hex_32 (obs_collector_id obs))\<rparr>)"

fun verify_batch_files ::
  "node_env \<Rightarrow> key_pair option \<Rightarrow> node_config \<Rightarrow> local_retention_book \<Rightarrow> node_disk \<Rightarrow> epoch_id
    \<Rightarrow> (string + collect_tick_artifact) list \<Rightarrow> node_verification_error + batch_verification_report list" where
  "verify_batch_files env identity config book d epoch [] = Inr []"
| "verify_batch_files env identity config book d epoch (Inl e # rest) = Inl (VerificationUpstream e)"
| "verify_batch_files env identity config book d epoch (Inr artifact # rest) =
     (if ct_epoch_id artifact \<noteq> epoch then verify_batch_files env identity config book d epoch rest
      else case verify_batch env identity config book d artifact of
        Inl e \<Rightarrow> Inl e
      | Inr r \<Rightarrow> map_sum id ((#) r) (verify_batch_files env identity config book d epoch rest))"

definition report_valid :: "batch_verification_report \<Rightarrow> bool" where
  "report_valid r \<longleftrightarrow> vr_payload_hash_matches r \<and> vr_batch_root_matches r \<and> vr_obs_count_matches r
     \<and> vr_retention_record_present r \<and> vr_retention_hash_matches r \<and> vr_signatures_audit_valid r"

definition verify_local_epoch ::
  "node_env \<Rightarrow> key_pair option \<Rightarrow> node_config \<Rightarrow> storage_book_error + local_retention_book \<Rightarrow> node_disk \<Rightarrow> epoch_id
    \<Rightarrow> node_verification_error + epoch_verification_report" where
  "verify_local_epoch env identity config book_file d epoch =
     (case book_file of Inl e \<Rightarrow> Inl (VerificationStorage e) | Inr book \<Rightarrow>
      case verify_batch_files env identity config book d epoch (bt_values (dk_batches d)) of Inl e \<Rightarrow> Inl e | Inr reports \<Rightarrow>
      Inr \<lparr>ev_epoch_id = epoch, ev_batch_count = length reports,
        ev_stored_payload_count = length (filter (\<lambda>r. sp_epoch_id r = epoch) (bt_values (rb_payloads book))),
        ev_all_valid = (reports \<noteq> [] \<and> list_all report_valid reports),
        ev_reports = reports\<rparr>)"

subsection \<open>What a valid report says\<close>

text \<open>
  The artifact matches the observations \<open>obss\<close> stored in its payload file: their encoding has the named hash,
  the Merkle root over them is the named root, their number is the named one, the retention book holds
  the payload under the same hash, and in a batch of this node every signature is valid.
\<close>

definition faithful ::
  "node_env \<Rightarrow> key_pair option \<Rightarrow> node_config \<Rightarrow> local_retention_book \<Rightarrow> node_disk \<Rightarrow> collect_tick_artifact \<Rightarrow> bool" where
  "faithful env identity config book d a \<longleftrightarrow>
     (\<exists>bytes obss r. read_payload_file (ct_payload_cid a) d = Inr bytes \<and> decode_observations env bytes = Inr obss
       \<and> decode_hex_32 (ct_payload_hash_hex a) [] = Inr (stable_hash32 bytes)
       \<and> decode_hex_32 (ct_batch_root_hex a) [] = Inr (merkle_root (pe_sha256 env)
           (map (\<lambda>obs. merkle_leaf_sha256 (pe_sha256 env) (encode_observation env obs)) obss))
       \<and> ct_obs_count a = word_of_nat (length obss)
       \<and> bt_get (rb_payloads book) (ct_payload_cid a) = Some r \<and> sp_payload_hash r = stable_hash32 bytes
       \<and> (obss \<noteq> [] \<and> config_node_id config = Inr (obs_collector_id (hd obss)) \<longrightarrow>
            (\<forall>obs \<in> set obss. verify_collector_signature env obs (map_option kp_public identity) = SigValid)))"

lemma verify_batch_valid_iff:
  "(\<exists>r. verify_batch env identity config book d a = Inr r \<and> report_valid r) \<longleftrightarrow> faithful env identity config book d a"
proof (cases "read_payload_file (ct_payload_cid a) d")
  case bytes: (Inr bytes)
  show ?thesis
  proof (cases "decode_observations env bytes")
    case obss: (Inr obss)
    show ?thesis
    proof (cases "decode_hex_text VerificationHexLength VerificationHexCharacter (ct_payload_hash_hex a)")
      case h: (Inr h)
      show ?thesis
      proof (cases "decode_hex_text VerificationHexLength VerificationHexCharacter (ct_batch_root_hex a)")
        case r: (Inr r)
        note hex = h [unfolded decode_hex_text_Inr [of _ _ _ _ "[]"]] r [unfolded decode_hex_text_Inr [of _ _ _ _ "[]"]]
        show ?thesis
          by (cases obss; cases "bt_get (rb_payloads book) (ct_payload_cid a)")
            (auto simp: verify_batch_def faithful_def report_valid_def bytes obss h r hex Let_def)
      next
        case r: (Inl e)
        then have "decode_hex_32 (ct_batch_root_hex a) [] \<noteq> Inr w" for w
          by (metis decode_hex_text_Inr sum.distinct(1))
        then show ?thesis by (simp add: verify_batch_def faithful_def bytes obss h r)
      qed
    next
      case h: (Inl e)
      then have "decode_hex_32 (ct_payload_hash_hex a) [] \<noteq> Inr w" for w
        by (metis decode_hex_text_Inr sum.distinct(1))
      then show ?thesis by (simp add: verify_batch_def faithful_def bytes obss h)
    qed
  qed (simp add: verify_batch_def faithful_def bytes)
qed (simp add: verify_batch_def faithful_def)

lemma verify_batch_files_valid_iff:
  "(\<exists>rs. verify_batch_files env identity config book d epoch fs = Inr rs \<and> list_all report_valid rs \<and> length rs = n) \<longleftrightarrow>
     (\<forall>f \<in> set fs. \<exists>a. f = Inr a \<and> (ct_epoch_id a = epoch \<longrightarrow> faithful env identity config book d a))
     \<and> n = length (filter (\<lambda>f. \<exists>a. f = Inr a \<and> ct_epoch_id a = epoch) fs)"
proof (induction fs arbitrary: n)
  case (Cons f fs)
  show ?case
  proof (cases f)
    case (Inr a)
    show ?thesis
    proof (cases "ct_epoch_id a = epoch")
      case True
      have "(\<exists>rs. verify_batch_files env identity config book d epoch (f # fs) = Inr rs \<and> list_all report_valid rs \<and> length rs = n)
        \<longleftrightarrow> (\<exists>r. verify_batch env identity config book d a = Inr r \<and> report_valid r)
          \<and> (\<exists>m. n = Suc m \<and> (\<exists>rs. verify_batch_files env identity config book d epoch fs = Inr rs \<and> list_all report_valid rs \<and> length rs = m))"
        using Inr True
        by (cases "verify_batch env identity config book d a"; cases "verify_batch_files env identity config book d epoch fs") auto
      also have "\<dots> \<longleftrightarrow> faithful env identity config book d a \<and> (\<exists>m. n = Suc m \<and>
          (\<forall>f \<in> set fs. \<exists>a. f = Inr a \<and> (ct_epoch_id a = epoch \<longrightarrow> faithful env identity config book d a))
          \<and> m = length (filter (\<lambda>f. \<exists>a. f = Inr a \<and> ct_epoch_id a = epoch) fs))"
        by (simp only: verify_batch_valid_iff Cons.IH)
      finally show ?thesis using Inr True by auto
    qed (use Inr Cons.IH in auto)
  qed simp
qed auto

lemma verify_local_epoch_all_valid_iff:
  "(\<exists>rep. verify_local_epoch env identity config (Inr book) d epoch = Inr rep \<and> ev_all_valid rep) \<longleftrightarrow>
     (\<forall>f \<in> set (bt_values (dk_batches d)). \<exists>a. f = Inr a \<and> (ct_epoch_id a = epoch \<longrightarrow> faithful env identity config book d a))
     \<and> (\<exists>a. Inr a \<in> set (bt_values (dk_batches d)) \<and> ct_epoch_id a = epoch)"
proof -
  let ?fs = "bt_values (dk_batches d)"
  have "(\<exists>rep. verify_local_epoch env identity config (Inr book) d epoch = Inr rep \<and> ev_all_valid rep) \<longleftrightarrow>
    (\<exists>n. n \<noteq> 0 \<and> (\<exists>rs. verify_batch_files env identity config book d epoch ?fs = Inr rs \<and> list_all report_valid rs \<and> length rs = n))"
    by (cases "verify_batch_files env identity config book d epoch ?fs") (auto simp: verify_local_epoch_def)
  also have "\<dots> \<longleftrightarrow> (\<forall>f \<in> set ?fs. \<exists>a. f = Inr a \<and> (ct_epoch_id a = epoch \<longrightarrow> faithful env identity config book d a))
     \<and> length (filter (\<lambda>f. \<exists>a. f = Inr a \<and> ct_epoch_id a = epoch) ?fs) \<noteq> 0"
    unfolding verify_batch_files_valid_iff by blast
  finally show ?thesis by (auto simp: filter_empty_conv)
qed

subsection \<open>A batch the node collected itself\<close>

text \<open>What the node relies on: Borsh decodes what it encoded (here for the observations of the batch), and both uses of \<open>hex::encode\<close> agree.\<close>

definition codecs_ok :: "node_env \<Rightarrow> observation_record list \<Rightarrow> bool" where
  "codecs_ok env xs \<longleftrightarrow> decode_observations env (encode_observations env xs) = Inr xs \<and> pe_hex env = hex_encode (ne_book env)"

lemma collect_and_store_Inr:
  assumes "collect_and_store_samples env identity activated epoch slot samples r = (Inr result, r')"
  obtains nid where "config_node_id (ln_config r) = Inr nid"
    "finalize_batch env (collected env identity epoch slot nid samples) 0 = Inr (cs_assembled_batch result)"
    "store_batch env activated nid epoch (cs_assembled_batch result) r = (Inr (cs_stored_payload result), r')"
  using assms by (auto simp: collect_and_store_samples_def collect_batch_iff try_with_Inr_iff try_then_Inr_iff map_sum_eq_Inr)

lemma record_payload_present:
  assumes "record_payload env storer epoch n cid hash size_bytes book = (Inr rec, book')"
    and "\<And>old. bt_get (rb_payloads book) cid = Some old \<Longrightarrow> sp_payload_hash old = hash"
  shows "bt_get (rb_payloads book') cid = Some rec \<and> sp_payload_hash rec = hash
    \<and> (\<forall>c. c \<noteq> cid \<longrightarrow> bt_get (rb_payloads book') c = bt_get (rb_payloads book) c)"
proof -
  let ?Q = "\<lambda>r. r = (Inr rec, book') \<longrightarrow> bt_get (rb_payloads book') cid = Some rec \<and> sp_payload_hash rec = hash
    \<and> (\<forall>c. c \<noteq> cid \<longrightarrow> bt_get (rb_payloads book') c = bt_get (rb_payloads book) c)"
  have "?Q (record_payload env storer epoch n cid hash size_bytes book)"
    by (rule record_payload_rule [where Q = ?Q]) (use assms(2) in auto)
  with assms(1) show ?thesis by simp
qed

lemma store_batch_stored:
  assumes "store_batch env activated nid epoch b r = (Inr st, r')" "cc_store (nc_capabilities (ln_config r))"
    and "cid = cid_from_hash (hex_encode (ne_book env)) (stable_hash32 (ab_payload_bytes b)) ''batch-payload''"
    and "\<And>old. bt_get (rb_payloads (ln_retention_book r)) cid = Some old \<Longrightarrow> sp_payload_hash old = stable_hash32 (ab_payload_bytes b)"
  shows "\<exists>rec. st = Some rec \<and> bt_get (rb_payloads (ln_retention_book r')) cid = Some rec
    \<and> sp_payload_hash rec = stable_hash32 (ab_payload_bytes b)
    \<and> (\<forall>c. c \<noteq> cid \<longrightarrow> bt_get (rb_payloads (ln_retention_book r')) c = bt_get (rb_payloads (ln_retention_book r)) c)"
proof -
  obtain rec book' where "record_payload (ne_book env) nid epoch (effective_min_retention_epochs activated (ln_config r)) cid
      (stable_hash32 (ab_payload_bytes b)) (word_of_nat (length (ab_payload_bytes b))) (ln_retention_book r) = (Inr rec, book')"
    and r': "st = Some rec" "r' = r\<lparr>ln_retention_book := book'\<rparr>"
    using assms(1-3) by (auto simp: store_batch_def record_batch_payload_def Let_def split: prod.splits sum.splits)
  from record_payload_present [OF this(1) assms(4)] r' show ?thesis by simp
qed

text \<open>The disk after the tick: the payload file and the artifact are written.\<close>

definition tick_disk ::
  "'e runtime_env_scheme \<Rightarrow> key_pair option \<Rightarrow> epoch_id \<Rightarrow> slot_id \<Rightarrow> collect_and_store_outcome \<Rightarrow> player_reward_tick_artifact
    \<Rightarrow> node_disk \<Rightarrow> node_disk" where
  "tick_disk env identity epoch slot result tick d =
     snd (persist_collect_tick_artifact env identity epoch slot result tick
       (write_payload_file (ab_payload_cid (cs_assembled_batch result)) (ab_payload_bytes (cs_assembled_batch result)) d))"

definition stored_tick ::
  "'e runtime_env_scheme \<Rightarrow> key_pair option \<Rightarrow> epoch_id \<Rightarrow> slot_id \<Rightarrow> collect_and_store_outcome \<Rightarrow> player_reward_tick_artifact
    \<Rightarrow> collect_tick_artifact" where
  "stored_tick env identity epoch slot result tick =
     fst (persist_collect_tick_artifact env identity epoch slot result tick empty_disk)"

lemma tick_disk_fields:
  "dk_payloads (tick_disk env identity epoch slot result tick d) =
     bt_insert (payload_path (ab_payload_cid (cs_assembled_batch result))) (ab_payload_bytes (cs_assembled_batch result)) (dk_payloads d)"
  "dk_batches (tick_disk env identity epoch slot result tick d) =
     bt_insert (batch_artifact_path epoch slot (ab_payload_cid (cs_assembled_batch result)))
       (Inr (stored_tick env identity epoch slot result tick)) (dk_batches d)"
  by (simp_all add: tick_disk_def stored_tick_def persist_collect_tick_artifact_def write_payload_file_def
      save_batch_artifact_def Let_def)

lemma tick_artifact_fields:
  "ct_epoch_id (stored_tick env identity epoch slot result tick) = epoch"
  "ct_payload_cid (stored_tick env identity epoch slot result tick) = ab_payload_cid (cs_assembled_batch result)"
  "ct_payload_hash_hex (stored_tick env identity epoch slot result tick) = hex_32 (ab_payload_hash (cs_assembled_batch result))"
  "ct_batch_root_hex (stored_tick env identity epoch slot result tick) =
     hex_32 (mc_root (bc_batch (ab_batch_commit (cs_assembled_batch result))))"
  "ct_obs_count (stored_tick env identity epoch slot result tick) = bc_obs_count (ab_batch_commit (cs_assembled_batch result))"
  by (simp_all add: stored_tick_def persist_collect_tick_artifact_def Let_def)

lemma finalize_batch_payload:
  assumes "finalize_batch env b h = Inr a"
  shows "ab_payload_hash a = stable_hash32 (ab_payload_bytes a)"
    "ab_payload_cid a = cid_from_hash (pe_hex env) (stable_hash32 (ab_payload_bytes a)) ''batch-payload''"
  using assms by (auto simp: finalize_batch_def Let_def split: if_splits)

lemma own_batch_faithful:
  assumes run: "collect_and_store_samples env (Some k) activated epoch slot samples r = (Inr result, r')"
    and store: "cc_store (nc_capabilities (ln_config r))" and codecs: "codecs_ok env (ab_observations (cs_assembled_batch result))"
    and key: "signs_soundly env k" "config_node_id (ln_config r) = Inr (stable_hash32 (to_bytes32 (kp_public k)))"
    and book: "\<And>old. bt_get (rb_payloads (ln_retention_book r)) (ab_payload_cid (cs_assembled_batch result)) = Some old \<Longrightarrow>
      sp_payload_hash old = ab_payload_hash (cs_assembled_batch result)"
  shows "faithful env (Some k) (ln_config r) (ln_retention_book r') (tick_disk env (Some k) epoch slot result tick d)
    (stored_tick env (Some k) epoch slot result tick)"
proof -
  let ?b = "cs_assembled_batch result" and ?nid = "stable_hash32 (to_bytes32 (kp_public k))"
  from run key(2) have fin: "finalize_batch env (collected env (Some k) epoch slot ?nid samples) 0 = Inr ?b"
    and st: "store_batch env activated ?nid epoch ?b r = (Inr (cs_stored_payload result), r')"
    by (auto elim: collect_and_store_Inr)
  note f = finalize_batch_Inr [OF fin] and p = finalize_batch_payload [OF fin]
  have cid: "ab_payload_cid ?b = cid_from_hash (hex_encode (ne_book env)) (stable_hash32 (ab_payload_bytes ?b)) ''batch-payload''"
    using codecs p(2) by (simp add: codecs_ok_def)
  obtain rec where rec: "bt_get (rb_payloads (ln_retention_book r')) (ab_payload_cid ?b) = Some rec"
    "sp_payload_hash rec = stable_hash32 (ab_payload_bytes ?b)"
    using store_batch_stored [OF st store cid] book p(1) by auto
  have valid: "verify_collector_signature env obs (Some (kp_public k)) = SigValid" if "obs \<in> set (ab_observations ?b)" for obs
    using that set_collected_observations [OF fin] signed_observation_valid [OF key(1)] by auto
  show ?thesis
    unfolding faithful_def
  proof (intro exI conjI impI ballI)
    show "read_payload_file (ct_payload_cid (stored_tick env (Some k) epoch slot result tick))
        (tick_disk env (Some k) epoch slot result tick d) = Inr (ab_payload_bytes ?b)"
      by (simp add: read_payload_file_def tick_disk_fields tick_artifact_fields)
    show "decode_observations env (ab_payload_bytes ?b) = Inr (ab_observations ?b)"
      using codecs f(11) by (simp add: codecs_ok_def)
  qed (use f p rec valid in \<open>simp_all add: tick_artifact_fields decode_hex_32_hex_32\<close>)
qed

text \<open>Another artifact is not affected by the tick, unless its payload lives in the same file.\<close>

lemma faithful_frame:
  assumes "faithful env identity config book d a"
    and "bt_get (dk_payloads d') (payload_path (ct_payload_cid a)) = bt_get (dk_payloads d) (payload_path (ct_payload_cid a))"
    and "bt_get (rb_payloads book') (ct_payload_cid a) = bt_get (rb_payloads book) (ct_payload_cid a)"
  shows "faithful env identity config book' d' a"
  using assms unfolding faithful_def read_payload_file_def by metis

lemma tick_keeps_valid:
  assumes run: "collect_and_store_samples env (Some k) activated epoch slot samples r = (Inr result, r')"
    and store: "cc_store (nc_capabilities (ln_config r))"
    and codecs: "codecs_ok env (ab_observations (cs_assembled_batch result))"
    and key: "signs_soundly env k" "config_node_id (ln_config r) = Inr (stable_hash32 (to_bytes32 (kp_public k)))"
    and book: "\<And>old. bt_get (rb_payloads (ln_retention_book r)) (ab_payload_cid (cs_assembled_batch result)) = Some old \<Longrightarrow>
      sp_payload_hash old = ab_payload_hash (cs_assembled_batch result)"
    and before: "\<And>f. f \<in> set (bt_values (dk_batches d)) \<Longrightarrow>
      \<exists>a. f = Inr a \<and> (ct_epoch_id a = epoch \<longrightarrow> faithful env (Some k) (ln_config r) (ln_retention_book r) d a)"
    and files: "\<And>a. Inr a \<in> set (bt_values (dk_batches d)) \<Longrightarrow> ct_epoch_id a = epoch \<Longrightarrow>
      payload_path (ct_payload_cid a) \<noteq> payload_path (ab_payload_cid (cs_assembled_batch result))"
  shows "\<exists>rep. verify_local_epoch env (Some k) (ln_config r) (Inr (ln_retention_book r'))
      (tick_disk env (Some k) epoch slot result tick d) epoch = Inr rep \<and> ev_all_valid rep"
proof -
  let ?d = "tick_disk env (Some k) epoch slot result tick d" and ?a = "stored_tick env (Some k) epoch slot result tick"
  let ?b = "cs_assembled_batch result" and ?nid = "stable_hash32 (to_bytes32 (kp_public k))"
  note own = own_batch_faithful [OF run store codecs key book]
  from run key(2) have fin: "finalize_batch env (collected env (Some k) epoch slot ?nid samples) 0 = Inr ?b"
    and st: "store_batch env activated ?nid epoch ?b r = (Inr (cs_stored_payload result), r')"
    by (auto elim: collect_and_store_Inr)
  have others: "bt_get (rb_payloads (ln_retention_book r')) c = bt_get (rb_payloads (ln_retention_book r)) c"
    if "c \<noteq> ab_payload_cid ?b" for c
  proof -
    have "ab_payload_cid ?b = cid_from_hash (hex_encode (ne_book env)) (stable_hash32 (ab_payload_bytes ?b)) ''batch-payload''"
      using codecs finalize_batch_payload(2) [OF fin] by (simp add: codecs_ok_def)
    from store_batch_stored [OF st store this] book finalize_batch_payload(1) [OF fin] that show ?thesis by auto
  qed
  have "\<exists>a. f = Inr a \<and> (ct_epoch_id a = epoch \<longrightarrow> faithful env (Some k) (ln_config r) (ln_retention_book r') ?d a)"
    if f: "f \<in> set (bt_values (dk_batches ?d))" for f
  proof (cases "f = Inr ?a")
    case False
    then have old: "f \<in> set (bt_values (dk_batches d))" using f by (auto simp: bt_values_set tick_disk_fields split: if_splits)
    with before obtain a where a: "f = Inr a" "ct_epoch_id a = epoch \<longrightarrow> faithful env (Some k) (ln_config r) (ln_retention_book r) d a"
      by blast
    have "faithful env (Some k) (ln_config r) (ln_retention_book r') ?d a" if "ct_epoch_id a = epoch"
    proof (rule faithful_frame)
      show "faithful env (Some k) (ln_config r) (ln_retention_book r) d a" using a(2) that by simp
      have ne: "payload_path (ct_payload_cid a) \<noteq> payload_path (ab_payload_cid ?b)" using files [of a] old a(1) that by simp
      then show "bt_get (dk_payloads ?d) (payload_path (ct_payload_cid a)) = bt_get (dk_payloads d) (payload_path (ct_payload_cid a))"
        by (simp add: tick_disk_fields)
      show "bt_get (rb_payloads (ln_retention_book r')) (ct_payload_cid a) = bt_get (rb_payloads (ln_retention_book r)) (ct_payload_cid a)"
        using ne by (intro others) auto
    qed
    with a(1) show ?thesis by blast
  qed (use own in auto)
  moreover have "Inr ?a \<in> set (bt_values (dk_batches ?d))" by (auto simp: bt_values_set tick_disk_fields)
  ultimately show ?thesis
    unfolding verify_local_epoch_all_valid_iff using tick_artifact_fields(1) by blast
qed

end
