(* ===== verification/Storage_Audit.thy ===== *)
theory Storage_Audit
  imports Verifier
begin

text \<open>
  The audit of the payloads a node must keep and the challenge it puts to itself
  (\<open>src/src/node_storage_audit.rs\<close>). The retention book as loaded is an argument; saving the two artifacts is
  file output.
\<close>

record retention_audit_record =
  au_payload_cid :: string
  au_epoch_id :: u64
  au_retention_until_epoch :: u64
  au_expected_size_bytes :: u64
  au_file_present :: bool
  au_size_matches :: bool
  au_payload_hash_matches :: bool

record retention_audit_artifact =
  aa_current_epoch :: u64
  aa_retained_payload_count :: nat
  aa_retrievable_payload_count :: nat
  aa_missing_payload_count :: nat
  aa_corrupted_payload_count :: nat
  aa_all_retrievable :: bool
  aa_records :: "retention_audit_record list"

record storage_challenge_record =
  cr_payload_cid :: string
  cr_epoch_id :: u64
  cr_retention_until_epoch :: u64
  cr_payload_retrievable :: bool
  cr_receipt_payload_matches :: bool
  cr_receipt_epoch_matches :: bool
  cr_receipt_storer_matches :: bool
  cr_receipt_retention_matches :: bool
  cr_receipt_signature_matches :: bool

record storage_challenge_artifact =
  sa_current_epoch :: u64
  sa_checked_payload_count :: nat
  sa_passed_payload_count :: nat
  sa_failed_payload_count :: nat
  sa_all_passed :: bool
  sa_records :: "storage_challenge_record list"

definition audit_record :: "node_disk \<Rightarrow> stored_payload_record \<Rightarrow> retention_audit_record" where
  "audit_record d r =
     (let file = bt_get (dk_payloads d) (payload_path (sp_payload_cid r)) in
      \<lparr>au_payload_cid = sp_payload_cid r, au_epoch_id = sp_epoch_id r,
       au_retention_until_epoch = sp_retention_until_epoch r, au_expected_size_bytes = sp_size_bytes r,
       au_file_present = (file \<noteq> None),
       au_size_matches = (case file of None \<Rightarrow> False | Some bytes \<Rightarrow> word_of_nat (length bytes) = sp_size_bytes r),
       au_payload_hash_matches = (case file of None \<Rightarrow> False | Some bytes \<Rightarrow> stable_hash32 bytes = sp_payload_hash r)\<rparr>)"

definition retained :: "epoch_id \<Rightarrow> local_retention_book \<Rightarrow> stored_payload_record list" where
  "retained current book = filter (\<lambda>r. current \<le> sp_retention_until_epoch r) (bt_values (rb_payloads book))"

definition record_retrievable :: "retention_audit_record \<Rightarrow> bool" where
  "record_retrievable r \<longleftrightarrow> au_file_present r \<and> au_size_matches r \<and> au_payload_hash_matches r"

definition audit_local_retention ::
  "epoch_id \<Rightarrow> storage_book_error + local_retention_book \<Rightarrow> node_disk \<Rightarrow> node_storage_audit_error + retention_audit_artifact" where
  "audit_local_retention current book_file d =
     (case book_file of
        Inl e \<Rightarrow> Inl (AuditStorage e)
      | Inr book \<Rightarrow>
          let records = sort_key au_payload_cid (map (audit_record d) (retained current book));
              missing = length (filter (\<lambda>r. \<not> au_file_present r) records);
              corrupted = length (filter (\<lambda>r. au_file_present r \<and> (\<not> au_size_matches r \<or> \<not> au_payload_hash_matches r)) records)
          in Inr \<lparr>aa_current_epoch = current, aa_retained_payload_count = length records,
               aa_retrievable_payload_count = length (filter record_retrievable records),
               aa_missing_payload_count = missing, aa_corrupted_payload_count = corrupted,
               aa_all_retrievable = (missing = 0 \<and> corrupted = 0), aa_records = records\<rparr>)"

definition challenge_record ::
  "book_env \<Rightarrow> node_id \<Rightarrow> retention_audit_artifact \<Rightarrow> stored_payload_record
    \<Rightarrow> node_storage_audit_error + storage_challenge_record" where
  "challenge_record env local_node_id audit r =
     map_sum AuditStorage (\<lambda>receipt.
       \<lparr>cr_payload_cid = sp_payload_cid r, cr_epoch_id = sp_epoch_id r,
        cr_retention_until_epoch = sp_retention_until_epoch r,
        cr_payload_retrievable =
          (case find (\<lambda>a. au_payload_cid a = sp_payload_cid r) (aa_records audit) of
             None \<Rightarrow> False | Some a \<Rightarrow> record_retrievable a),
        cr_receipt_payload_matches = payload_matches receipt,
        cr_receipt_epoch_matches = epoch_matches receipt,
        cr_receipt_storer_matches = (rr_storer_id (sp_receipt r) = local_node_id),
        cr_receipt_retention_matches = retention_matches receipt,
        cr_receipt_signature_matches = signature_matches receipt\<rparr>)
       (validate_stored_payload_record env r)"

definition challenge_passed :: "storage_challenge_record \<Rightarrow> bool" where
  "challenge_passed r \<longleftrightarrow> cr_payload_retrievable r \<and> cr_receipt_payload_matches r \<and> cr_receipt_epoch_matches r
     \<and> cr_receipt_storer_matches r \<and> cr_receipt_retention_matches r \<and> cr_receipt_signature_matches r"

definition run_local_storage_challenge ::
  "book_env \<Rightarrow> node_config \<Rightarrow> epoch_id \<Rightarrow> storage_book_error + local_retention_book \<Rightarrow> retention_audit_artifact
    \<Rightarrow> node_storage_audit_error + storage_challenge_artifact" where
  "run_local_storage_challenge env config current book_file audit =
     (case book_file of Inl e \<Rightarrow> Inl (AuditStorage e) | Inr book \<Rightarrow>
      case config_node_id config of Inl e \<Rightarrow> Inl (AuditConfig e) | Inr local_node_id \<Rightarrow>
      case collect_results (map (challenge_record env local_node_id audit) (retained current book)) of
        Inl e \<Rightarrow> Inl e
      | Inr unsorted \<Rightarrow>
          let records = sort_key cr_payload_cid unsorted;
              checked = length records;
              passed = length (filter challenge_passed records);
              failed = checked - passed
          in Inr \<lparr>sa_current_epoch = current, sa_checked_payload_count = checked, sa_passed_payload_count = passed,
               sa_failed_payload_count = failed, sa_all_passed = (failed = 0), sa_records = records\<rparr>)"

subsection \<open>What the audit and the challenge establish\<close>

definition retrievable :: "node_disk \<Rightarrow> stored_payload_record \<Rightarrow> bool" where
  "retrievable d r \<longleftrightarrow> (\<exists>bytes. bt_get (dk_payloads d) (payload_path (sp_payload_cid r)) = Some bytes
     \<and> word_of_nat (length bytes) = sp_size_bytes r \<and> stable_hash32 bytes = sp_payload_hash r)"

definition receipt_in_order :: "book_env \<Rightarrow> node_id \<Rightarrow> stored_payload_record \<Rightarrow> bool" where
  "receipt_in_order env storer r \<longleftrightarrow>
     rr_payload_cid (sp_receipt r) = sp_payload_cid r \<and> rr_epoch_id (sp_receipt r) = sp_epoch_id r
     \<and> rr_storer_id (sp_receipt r) = storer \<and> rr_retention_until_epoch (sp_receipt r) = sp_retention_until_epoch r
     \<and> development_receipt_signature env storer (sp_epoch_id r) (sp_retention_until_epoch r) (sp_payload_cid r)
         (sp_payload_hash r) (sp_size_bytes r) = Inr (rr_receipt_signature (sp_receipt r))"

definition keyed_by_cid :: "local_retention_book \<Rightarrow> bool" where
  "keyed_by_cid book \<longleftrightarrow> (\<forall>cid r. bt_get (rb_payloads book) cid = Some r \<longrightarrow> sp_payload_cid r = cid)"

lemma record_retrievable_iff: "record_retrievable (audit_record d r) \<longleftrightarrow> retrievable d r"
  by (auto simp: record_retrievable_def audit_record_def retrievable_def Let_def split: option.split)

lemma none_filtered_out: "length xs - length (filter P xs) = 0 \<longleftrightarrow> (\<forall>x \<in> set xs. P x)"
proof -
  have "length xs \<le> length (filter P xs) \<longleftrightarrow> (\<forall>x \<in> set xs. P x)"
    using length_filter_less [of _ xs P] by (auto simp: filter_True) (meson not_le)
  then show ?thesis by simp
qed

lemma audit_counts:
  assumes "audit_local_retention current book_file d = Inr a"
  shows "aa_retrievable_payload_count a + aa_missing_payload_count a + aa_corrupted_payload_count a = aa_retained_payload_count a"
proof -
  have "length (filter record_retrievable xs) + length (filter (\<lambda>r. \<not> au_file_present r) xs)
      + length (filter (\<lambda>r. au_file_present r \<and> (\<not> au_size_matches r \<or> \<not> au_payload_hash_matches r)) xs) = length xs" for xs
    by (induction xs) (auto simp: record_retrievable_def)
  with assms show ?thesis by (auto simp: audit_local_retention_def Let_def split: sum.splits)
qed

lemma audit_records:
  assumes "audit_local_retention current (Inr book) d = Inr a"
  shows "set (aa_records a) = audit_record d ` set (retained current book)"
  using assms by (auto simp: audit_local_retention_def Let_def)

lemma audit_all_retrievable:
  assumes "audit_local_retention current (Inr book) d = Inr a"
  shows "aa_all_retrievable a \<longleftrightarrow> (\<forall>r \<in> set (retained current book). retrievable d r)"
proof -
  have "aa_all_retrievable a \<longleftrightarrow> (\<forall>x \<in> set (aa_records a). record_retrievable x)"
  proof -
    let ?rs = "aa_records a"
    have "aa_all_retrievable a \<longleftrightarrow> filter (\<lambda>r. \<not> au_file_present r) ?rs = []
        \<and> filter (\<lambda>r. au_file_present r \<and> (\<not> au_size_matches r \<or> \<not> au_payload_hash_matches r)) ?rs = []"
      using assms by (auto simp: audit_local_retention_def Let_def)
    then show ?thesis unfolding filter_empty_conv record_retrievable_def by blast
  qed
  with audit_records [OF assms] show ?thesis by (simp add: record_retrievable_iff)
qed

lemma audited_lookup:
  assumes "audit_local_retention current (Inr book) d = Inr a" "keyed_by_cid book" "r \<in> set (retained current book)"
  shows "find (\<lambda>x. au_payload_cid x = sp_payload_cid r) (aa_records a) = Some (audit_record d r)"
proof -
  have uniq: "x = audit_record d r" if x: "x \<in> set (aa_records a)" "au_payload_cid x = sp_payload_cid r" for x
  proof -
    obtain r' where r': "r' \<in> set (retained current book)" "x = audit_record d r'"
      using x(1) unfolding audit_records [OF assms(1)] by blast
    then have "sp_payload_cid r' = sp_payload_cid r" using x(2) by (simp add: audit_record_def Let_def)
    with r'(1) assms(2,3) have "r' = r" by (auto simp: retained_def keyed_by_cid_def bt_values_set)
    with r'(2) show ?thesis by simp
  qed
  have mem: "audit_record d r \<in> set (aa_records a)" "au_payload_cid (audit_record d r) = sp_payload_cid r"
    using assms(3) audit_records [OF assms(1)] by (auto simp: audit_record_def Let_def)
  show ?thesis
  proof (cases "find (\<lambda>x. au_payload_cid x = sp_payload_cid r) (aa_records a)")
    case None
    with mem show ?thesis by (auto simp: find_None_iff)
  next
    case (Some x)
    then have "x \<in> set (aa_records a)" "au_payload_cid x = sp_payload_cid r"
      by (auto simp: find_Some_iff)
    with uniq Some show ?thesis by simp
  qed
qed

lemma challenge_record_passes_iff:
  assumes "audit_local_retention current (Inr book) d = Inr a" "keyed_by_cid book" "r \<in> set (retained current book)"
    and "challenge_record env storer a r = Inr c"
  shows "challenge_passed c \<longleftrightarrow> retrievable d r \<and> receipt_in_order env storer r"
  using assms(4) audited_lookup [OF assms(1-3)]
  by (auto simp: challenge_record_def challenge_passed_def receipt_in_order_def record_retrievable_iff map_sum_eq_Inr
      validate_stored_payload_record_def)

lemma challenge_all_passed:
  assumes "audit_local_retention current (Inr book) d = Inr a" "keyed_by_cid book"
    and "config_node_id config = Inr storer" "run_local_storage_challenge env config current (Inr book) a = Inr c"
  shows "sa_all_passed c \<longleftrightarrow> (\<forall>r \<in> set (retained current book). retrievable d r \<and> receipt_in_order env storer r)"
proof -
  obtain cs where cs: "map (challenge_record env storer a) (retained current book) = map Inr cs"
    and c: "sa_all_passed c \<longleftrightarrow> (\<forall>x \<in> set cs. challenge_passed x)"
    using assms(3,4)
    by (auto simp: run_local_storage_challenge_def collect_results_Inr_iff Let_def none_filtered_out simp del: diff_is_0_eq
        split: sum.splits)
  have "list_all2 (\<lambda>r x. challenge_record env storer a r = Inr x) (retained current book) cs"
    using cs by (auto simp: list_all2_conv_all_nth list_eq_iff_nth_eq)
  then have "(\<forall>x \<in> set cs. challenge_passed x) \<longleftrightarrow>
      (\<forall>r \<in> set (retained current book). retrievable d r \<and> receipt_in_order env storer r)"
    using challenge_record_passes_iff [OF assms(1,2)]
    by (auto simp: list_all2_conv_all_nth in_set_conv_nth Ball_def) (metis nth_mem)+
  with c show ?thesis by simp
qed

end
