(* ===== verification/Ingestion.thy ===== *)
theory Ingestion
  imports Verifier
begin

text \<open>
  What a node does with the messages in its inbox (\<open>ingest_peer_batch_announcements\<close> of
  \<open>src/src/node_daemon.rs\<close>): batches of other nodes are fetched, checked against their announcement and
  stored; announced play sessions are stored and, under conditions, attested; announced attestations are
  stored. The network is a record of the three operations of the trait that the function calls, each with
  the network as state; the terminal output is left out.
\<close>

record 'n inbox_operations =
  op_drain :: "node_id \<Rightarrow> 'n \<Rightarrow> (p2p_error, p2p_envelope list, 'n) outcome"
  op_request :: "node_id \<Rightarrow> content_id \<Rightarrow> 'n \<Rightarrow> (p2p_error, payload_response, 'n) outcome"
  op_announce :: "node_id \<Rightarrow> p2p_message \<Rightarrow> 'n \<Rightarrow> (p2p_error, nat, 'n) outcome"

definition in_memory_inbox :: "in_memory_p2p_network inbox_operations" where
  "in_memory_inbox = \<lparr>op_drain = drain_inbox, op_request = (\<lambda>q cid n. (request_payload q cid n, n)), op_announce = publish\<rparr>"

record peer_batch_ingestion_outcome =
  pi_announced :: nat
  pi_accepted :: nat
  pi_duplicates :: nat
  pi_rejected :: nat

definition default_ingestion_outcome :: peer_batch_ingestion_outcome where
  "default_ingestion_outcome = \<lparr>pi_announced = 0, pi_accepted = 0, pi_duplicates = 0, pi_rejected = 0\<rparr>"

record 'n ingest_state =
  is_runtime :: local_node_runtime
  is_network :: 'n
  is_disk :: node_disk
  is_outcome :: peer_batch_ingestion_outcome

fun topic_name :: "p2p_topic \<Rightarrow> string" where
  "topic_name Observations = ''Observations''"
| "topic_name Batches = ''Batches''"
| "topic_name Receipts = ''Receipts''"
| "topic_name Challenges = ''Challenges''"
| "topic_name PlaySessions = ''PlaySessions''"
| "topic_name Attestations = ''Attestations''"

fun p2p_error_text :: "p2p_error \<Rightarrow> string" where
  "p2p_error_text (UnknownPeer peer) = ''unknown peer '' @ hex_32 peer"
| "p2p_error_text (MissingPayload cid) = ''missing payload '' @ cid"
| "p2p_error_text (NoSubscribers topic) = ''no subscribers for topic '' @ topic_name topic"
| "p2p_error_text (P2pIo err) = ''io error: '' @ err"
| "p2p_error_text (P2pJson err) = ''json error: '' @ err"

subsection \<open>Announced sessions\<close>

definition max_auto_attestations_per_epoch :: nat where
  "max_auto_attestations_per_epoch = 64"

text \<open>The closure of \<open>find_map\<close> over the payloads of the retention book.\<close>

definition observation_in_payload ::
  "node_env \<Rightarrow> node_disk \<Rightarrow> play_session \<Rightarrow> stored_payload_record \<Rightarrow> (content_id \<times> u64) option" where
  "observation_in_payload env d session p =
     (if sp_epoch_id p = ps_epoch_id session
      then (case read_payload_file (sp_payload_cid p) d of
              Inl _ \<Rightarrow> None
            | Inr bytes \<Rightarrow>
                (case decode_observations env bytes of
                   Inl _ \<Rightarrow> None
                 | Inr obss \<Rightarrow> map_option (\<lambda>obs. (sp_payload_cid p, obs_observed_players obs))
                     (List.find (\<lambda>obs. obs_app_id obs = ps_app_id session) obss)))
      else None)"

fun find_map :: "('a \<Rightarrow> 'b option) \<Rightarrow> 'a list \<Rightarrow> 'b option" where
  "find_map f [] = None"
| "find_map f (x # xs) = (case f x of Some y \<Rightarrow> Some y | None \<Rightarrow> find_map f xs)"

definition deviation_ppm :: "u64 \<Rightarrow> u64 \<Rightarrow> u64" where
  "deviation_ppm a b =
     (let diff = (if a \<le> b then b - a else a - b); max_val = max a b
      in if max_val = 0 then 0 else saturating_mul diff 1000000 div max_val)"

definition may_auto_witness :: "proof_env \<Rightarrow> node_config \<Rightarrow> node_id \<Rightarrow> key_pair \<Rightarrow> node_disk \<Rightarrow> play_session \<Rightarrow> bool" where
  "may_auto_witness env config local_node_id identity d session \<longleftrightarrow>
     (let attested = map wa_session_id (load_witness_attestations d);
          sessions = load_play_sessions d
      in ps_node_address session \<noteq> identity_account_address env (kp_public identity)
         \<and> ps_collector_address session \<noteq> local_node_id
         \<and> cc_collect (nc_capabilities config)
         \<and> bt_get (dk_attestations d) (proof_file_name (ps_session_id session)) = None
         \<and> length (filter (\<lambda>s. ps_epoch_id s = ps_epoch_id session \<and> ps_session_id s \<in> set attested) sessions)
             < max_auto_attestations_per_epoch
         \<and> \<not> list_ex (\<lambda>s. ps_epoch_id s = ps_epoch_id session \<and> ps_node_address s = ps_node_address session
               \<and> ps_app_id s = ps_app_id session \<and> ps_session_id s \<in> set attested) sessions)"

definition ingest_session ::
  "node_env \<Rightarrow> 'n inbox_operations \<Rightarrow> node_config \<Rightarrow> key_pair option \<Rightarrow> node_id \<Rightarrow> play_session \<Rightarrow> 'n ingest_state \<Rightarrow> 'n ingest_state" where
  "ingest_session env ops config identity local_node_id session s =
     (let d = save_play_session session (is_disk s); s = s\<lparr>is_disk := d\<rparr> in
      case identity of
        None \<Rightarrow> s
      | Some k \<Rightarrow>
          if \<not> may_auto_witness (ne_proof env) config local_node_id k d session then s
          else case find_map (observation_in_payload env d session) (bt_values (rb_payloads (ln_retention_book (is_runtime s)))) of
            None \<Rightarrow> s
          | Some (own_cid, own_players) \<Rightarrow>
              if own_cid \<noteq> ps_observation_cid session
                \<and> deviation_ppm own_players (ps_observed_players session)
                    \<le> ucast (min_witness_observation_tolerance_ppm default_mutual_proof_params)
              then (case build_witness_attestation (ne_proof env) config k session own_cid (ps_play_seconds session) own_players of
                      Inl _ \<Rightarrow> s
                    | Inr attestation \<Rightarrow>
                        s\<lparr>is_disk := save_witness_attestation attestation d,
                          is_network := snd (op_announce ops local_node_id (MsgWitnessAttestation attestation) (is_network s))\<rparr>)
              else s)"

subsection \<open>Announced batches\<close>

definition count_outcome ::
  "(peer_batch_ingestion_outcome \<Rightarrow> peer_batch_ingestion_outcome) \<Rightarrow> 'n ingest_state \<Rightarrow> 'n ingest_state" where
  "count_outcome f s = s\<lparr>is_outcome := f (is_outcome s)\<rparr>"

definition count_rejected :: "'n ingest_state \<Rightarrow> 'n ingest_state" where
  "count_rejected = count_outcome (\<lambda>c. c\<lparr>pi_rejected := pi_rejected c + 1\<rparr>)"

definition response_matches :: "batch_announcement \<Rightarrow> payload_response \<Rightarrow> bool" where
  "response_matches ann response \<longleftrightarrow>
     \<not> (pv_payload_cid response \<noteq> ba_payload_cid ann \<or> pv_payload_hash response \<noteq> ba_payload_hash ann
        \<or> stable_hash32 (pv_payload_bytes response) \<noteq> ba_payload_hash ann
        \<or> word_of_nat (length (pv_payload_bytes response)) \<noteq> ba_payload_size_bytes ann)"

definition observations_match :: "'e runtime_env_scheme \<Rightarrow> batch_announcement \<Rightarrow> observation_record list \<Rightarrow> bool" where
  "observations_match env ann obss \<longleftrightarrow>
     (let collector_matches = (list_all (\<lambda>obs. obs_collector_id obs = ba_collector_id ann) obss
            \<and> (case obss of [] \<Rightarrow> False | obs # _ \<Rightarrow> obs_collector_id obs = ba_collector_id ann));
          epoch_matches = list_all (\<lambda>obs. obs_epoch_id obs = ba_epoch_id ann) obss;
          leaves = map (\<lambda>obs. merkle_leaf_sha256 (pe_sha256 env) (encode_observation env obs)) obss
      in \<not> (obss = [] \<or> word_of_nat (length obss) \<noteq> ba_obs_count ann \<or> \<not> collector_matches \<or> \<not> epoch_matches
            \<or> merkle_root (pe_sha256 env) leaves \<noteq> ba_batch_root ann))"

definition announced_artifact :: "batch_announcement \<Rightarrow> slot_id \<Rightarrow> stored_payload_record \<Rightarrow> collect_tick_artifact" where
  "announced_artifact ann slot stored =
     \<lparr>ct_epoch_id = ba_epoch_id ann, ct_slot_id = slot, ct_payload_cid = ba_payload_cid ann,
      ct_payload_hash_hex = hex_32 (ba_payload_hash ann), ct_batch_root_hex = hex_32 (ba_batch_root ann),
      ct_obs_count = ba_obs_count ann, ct_collector_address = ba_collector_address ann,
      ct_player_reward_block_count = 0, ct_player_reward_total = 0, ct_reward_process_name = None,
      ct_stored_payload_cid = Some (sp_payload_cid stored),
      ct_retention_until_epoch = Some (sp_retention_until_epoch stored)\<rparr>"

definition store_announced ::
  "node_env \<Rightarrow> node_id \<Rightarrow> u32 \<Rightarrow> batch_announcement \<Rightarrow> byte_vec \<Rightarrow> slot_id \<Rightarrow> 'n ingest_state
    \<Rightarrow> (node_daemon_error, unit, 'n ingest_state) outcome" where
  "store_announced env local_node_id retention_epochs ann bytes slot s =
     (let s = s\<lparr>is_disk := write_payload_file (ba_payload_cid ann) bytes (is_disk s)\<rparr>;
          r = is_runtime s
      in case record_payload (ne_book env) local_node_id (ba_epoch_id ann) retention_epochs (ba_payload_cid ann)
             (ba_payload_hash ann) (word_of_nat (length bytes)) (ln_retention_book r) of
           (Inr stored, book) \<Rightarrow>
             (Inr (), count_outcome (\<lambda>c. c\<lparr>pi_accepted := pi_accepted c + 1\<rparr>)
               (s\<lparr>is_runtime := r\<lparr>ln_retention_book := book\<rparr>,
                  is_disk := save_batch_artifact (announced_artifact ann slot stored)
                    (batch_artifact_path (ba_epoch_id ann) slot (ba_payload_cid ann)) (is_disk s)\<rparr>))
         | (Inl (QuotaExceeded _ _ _), book) \<Rightarrow> (Inr (), count_rejected (s\<lparr>is_runtime := r\<lparr>ln_retention_book := book\<rparr>\<rparr>))
         | (Inl e, book) \<Rightarrow> (Inl (DaemonStorage e), s\<lparr>is_runtime := r\<lparr>ln_retention_book := book\<rparr>\<rparr>))"

definition ingest_batch ::
  "node_env \<Rightarrow> 'n inbox_operations \<Rightarrow> node_id \<Rightarrow> u32 \<Rightarrow> batch_announcement \<Rightarrow> 'n ingest_state
    \<Rightarrow> (node_daemon_error, unit, 'n ingest_state) outcome" where
  "ingest_batch env ops local_node_id retention_epochs ann s =
     (let s = count_outcome (\<lambda>c. c\<lparr>pi_announced := pi_announced c + 1\<rparr>) s in
      if ba_collector_id ann = local_node_id then (Inr (), s)
      else case op_request ops local_node_id (ba_payload_cid ann) (is_network s) of
        (Inl _, n) \<Rightarrow> (Inr (), count_rejected (s\<lparr>is_network := n\<rparr>))
      | (Inr response, n) \<Rightarrow>
          let s = s\<lparr>is_network := n\<rparr> in
          if \<not> response_matches ann response then (Inr (), count_rejected s)
          else case decode_observations env (pv_payload_bytes response) of
            Inl _ \<Rightarrow> (Inr (), count_rejected s)
          | Inr obss \<Rightarrow>
              if \<not> observations_match env ann obss then (Inr (), count_rejected s)
              else
                let slot = (case obss of [] \<Rightarrow> 0 | obs # _ \<Rightarrow> obs_slot_id obs) in
                if bt_get (dk_batches (is_disk s)) (batch_artifact_path (ba_epoch_id ann) slot (ba_payload_cid ann)) \<noteq> None
                then (Inr (), count_outcome (\<lambda>c. c\<lparr>pi_duplicates := pi_duplicates c + 1\<rparr>) s)
                else store_announced env local_node_id retention_epochs ann (pv_payload_bytes response) slot s)"

fun ingest_messages ::
  "node_env \<Rightarrow> 'n inbox_operations \<Rightarrow> node_config \<Rightarrow> key_pair option \<Rightarrow> node_id \<Rightarrow> u32 \<Rightarrow> p2p_message list \<Rightarrow> 'n ingest_state
    \<Rightarrow> (node_daemon_error, unit, 'n ingest_state) outcome" where
  "ingest_messages env ops config identity nid retention [] s = (Inr (), s)"
| "ingest_messages env ops config identity nid retention (MsgBatch ann # rest) s =
     try_then (ingest_batch env ops nid retention ann s) (\<lambda>_. ingest_messages env ops config identity nid retention rest)"
| "ingest_messages env ops config identity nid retention (MsgPlaySession session # rest) s =
     ingest_messages env ops config identity nid retention rest (ingest_session env ops config identity nid session s)"
| "ingest_messages env ops config identity nid retention (MsgWitnessAttestation a # rest) s =
     ingest_messages env ops config identity nid retention rest
       (s\<lparr>is_disk := save_witness_attestation a (is_disk s)\<rparr>)"
| "ingest_messages env ops config identity nid retention (_ # rest) s =
     ingest_messages env ops config identity nid retention rest s"

definition ingest_peer_batch_announcements ::
  "node_env \<Rightarrow> 'n inbox_operations \<Rightarrow> protocol_params option \<Rightarrow> node_config \<Rightarrow> key_pair option \<Rightarrow> local_node_runtime \<Rightarrow> 'n
    \<Rightarrow> node_disk \<Rightarrow> (node_daemon_error, unit, 'n ingest_state) outcome" where
  "ingest_peer_batch_announcements env ops activated config identity r n d =
     (let s = \<lparr>is_runtime = r, is_network = n, is_disk = d, is_outcome = default_ingestion_outcome\<rparr> in
      case config_node_id config of
        Inl e \<Rightarrow> (Inl (DaemonConfig e), s)
      | Inr nid \<Rightarrow>
          (case op_drain ops nid n of
             (Inl e, n) \<Rightarrow> (Inl (DaemonIo (p2p_error_text e)), s\<lparr>is_network := n\<rparr>)
           | (Inr envelopes, n) \<Rightarrow>
               ingest_messages env ops config identity nid (effective_min_retention_epochs activated config)
                 (map en_message envelopes) (s\<lparr>is_network := n\<rparr>)))"

subsection \<open>Only reproducible batches are stored\<close>

text \<open>The bytes reproduce the announcement of another node.\<close>

definition reproduces :: "node_env \<Rightarrow> node_id \<Rightarrow> batch_announcement \<Rightarrow> byte_vec \<Rightarrow> observation_record list \<Rightarrow> bool" where
  "reproduces env nid ann bytes obss \<longleftrightarrow>
     ba_collector_id ann \<noteq> nid \<and> decode_observations env bytes = Inr obss \<and> obss \<noteq> []
     \<and> stable_hash32 bytes = ba_payload_hash ann \<and> word_of_nat (length bytes) = ba_payload_size_bytes ann
     \<and> word_of_nat (length obss) = ba_obs_count ann
     \<and> (\<forall>obs \<in> set obss. obs_collector_id obs = ba_collector_id ann \<and> obs_epoch_id obs = ba_epoch_id ann)
     \<and> merkle_root (pe_sha256 env) (map (\<lambda>obs. merkle_leaf_sha256 (pe_sha256 env) (encode_observation env obs)) obss)
         = ba_batch_root ann"

lemma observations_match_iff:
  "observations_match env ann obss \<longleftrightarrow> obss \<noteq> [] \<and> word_of_nat (length obss) = ba_obs_count ann
     \<and> (\<forall>obs \<in> set obss. obs_collector_id obs = ba_collector_id ann \<and> obs_epoch_id obs = ba_epoch_id ann)
     \<and> merkle_root (pe_sha256 env) (map (\<lambda>obs. merkle_leaf_sha256 (pe_sha256 env) (encode_observation env obs)) obss)
         = ba_batch_root ann"
  by (cases obss) (auto simp: observations_match_def Let_def list_all_iff)

lemma ingest_batch_rule:
  assumes unchanged: "\<And>s'. is_disk s' = is_disk s \<Longrightarrow> is_runtime s' = is_runtime s \<Longrightarrow> Q (Inr (), s')"
    and stored: "\<And>s' bytes obss. \<lbrakk>is_disk s' = is_disk s; is_runtime s' = is_runtime s; reproduces env nid ann bytes obss;
        bt_get (dk_batches (is_disk s)) (batch_artifact_path (ba_epoch_id ann) (obs_slot_id (hd obss)) (ba_payload_cid ann)) = None\<rbrakk>
      \<Longrightarrow> Q (store_announced env nid retention ann bytes (obs_slot_id (hd obss)) s')"
  shows "Q (ingest_batch env ops nid retention ann s)"
proof -
  let ?s = "count_outcome (\<lambda>c. c\<lparr>pi_announced := pi_announced c + 1\<rparr>) s"
  note counts = count_outcome_def count_rejected_def
  show ?thesis
  proof (cases "ba_collector_id ann = nid")
    case True
    then show ?thesis using unchanged by (simp add: ingest_batch_def counts)
  next
    case other: False
    obtain res n where req: "op_request ops nid (ba_payload_cid ann) (is_network s) = (res, n)" by fastforce
    show ?thesis
    proof (cases res)
      case (Inl e)
      with req other show ?thesis using unchanged by (simp add: ingest_batch_def counts)
    next
      case (Inr response)
      show ?thesis
      proof (cases "response_matches ann response \<and>
          (\<exists>obss. decode_observations env (pv_payload_bytes response) = Inr obss \<and> observations_match env ann obss)")
        case False
        with Inr req other show ?thesis
          using unchanged by (cases "decode_observations env (pv_payload_bytes response)") (auto simp: ingest_batch_def counts Let_def)
      next
        case True
        then obtain obss where obss: "response_matches ann response" "decode_observations env (pv_payload_bytes response) = Inr obss"
          "observations_match env ann obss" by blast
        let ?path = "batch_artifact_path (ba_epoch_id ann) (obs_slot_id (hd obss)) (ba_payload_cid ann)"
        have rep: "reproduces env nid ann (pv_payload_bytes response) obss"
          using obss other by (auto simp: reproduces_def response_matches_def observations_match_iff)
        have slot: "(case obss of [] \<Rightarrow> 0 | obs # _ \<Rightarrow> obs_slot_id obs) = obs_slot_id (hd obss)"
          using obss(3) by (cases obss) (auto simp: observations_match_iff)
        show ?thesis
        proof (cases "bt_get (dk_batches (is_disk s)) ?path")
          case None
          with Inr req other obss slot show ?thesis
            using stored [OF _ _ rep None, of "?s\<lparr>is_network := n\<rparr>"] by (simp add: ingest_batch_def counts Let_def)
        next
          case (Some f)
          with Inr req other obss slot show ?thesis using unchanged by (simp add: ingest_batch_def counts Let_def)
        qed
      qed
    qed
  qed
qed

lemma store_announced_batches:
  assumes "store_announced env nid retention ann bytes slot s = (res, s')"
  shows "dk_batches (is_disk s') = dk_batches (is_disk s) \<or> (\<exists>stored. dk_batches (is_disk s') =
    bt_insert (batch_artifact_path (ba_epoch_id ann) slot (ba_payload_cid ann)) (Inr (announced_artifact ann slot stored))
      (dk_batches (is_disk s)))"
  using assms
  by (auto simp: store_announced_def Let_def count_outcome_def count_rejected_def write_payload_file_def save_batch_artifact_def
      split: prod.splits sum.splits storage_book_error.splits)

text \<open>The batch files after handling a list of messages: the old ones, and one for each of some reproduced announcements.\<close>

definition batches_extend ::
  "node_env \<Rightarrow> node_id \<Rightarrow> p2p_message list \<Rightarrow> node_disk \<Rightarrow> node_disk \<Rightarrow> bool" where
  "batches_extend env nid ms d d' \<longleftrightarrow>
     (\<forall>name f. bt_get (dk_batches d) name = Some f \<longrightarrow> bt_get (dk_batches d') name = Some f)
     \<and> (\<forall>name f. bt_get (dk_batches d') name = Some f \<longrightarrow> bt_get (dk_batches d) name = Some f
         \<or> (\<exists>ann bytes obss stored. MsgBatch ann \<in> set ms \<and> reproduces env nid ann bytes obss
              \<and> f = Inr (announced_artifact ann (obs_slot_id (hd obss)) stored)))"

lemma batches_extend_refl: "dk_batches d' = dk_batches d \<Longrightarrow> batches_extend env nid ms d d'"
  by (simp add: batches_extend_def)

lemma batches_extend_trans:
  "batches_extend env nid ms d d' \<Longrightarrow> batches_extend env nid ms' d' d'' \<Longrightarrow> set ms \<subseteq> set ms'' \<Longrightarrow> set ms' \<subseteq> set ms''
    \<Longrightarrow> batches_extend env nid ms'' d d''"
  unfolding batches_extend_def by (meson subsetD)

lemma batches_extend_mono: "batches_extend env nid ms d d' \<Longrightarrow> set ms \<subseteq> set ms' \<Longrightarrow> batches_extend env nid ms' d d'"
  unfolding batches_extend_def by (meson subsetD)

lemma ingest_batch_extends:
  assumes "ingest_batch env ops nid retention ann s = (res, s')"
  shows "batches_extend env nid [MsgBatch ann] (is_disk s) (is_disk s')"
proof -
  let ?Q = "\<lambda>r. \<forall>res s'. r = (res, s') \<longrightarrow> batches_extend env nid [MsgBatch ann] (is_disk s) (is_disk s')"
  have "?Q (ingest_batch env ops nid retention ann s)"
  proof (rule ingest_batch_rule [where Q = ?Q], goal_cases)
    case (1 s')
    then show ?case by (simp add: batches_extend_refl)
  next
    case (2 s1 bytes obss)
    show ?case
    proof (intro allI impI)
      fix res s'
      assume "store_announced env nid retention ann bytes (obs_slot_id (hd obss)) s1 = (res, s')"
      from store_announced_batches [OF this] 2 show "batches_extend env nid [MsgBatch ann] (is_disk s) (is_disk s')"
        by (auto simp: batches_extend_def split: if_splits) blast
    qed
  qed
  with assms show ?thesis by blast
qed

lemma ingest_session_batches: "dk_batches (is_disk (ingest_session env ops config identity nid session s)) = dk_batches (is_disk s)"
  by (auto simp: ingest_session_def Let_def save_play_session_def save_witness_attestation_def split: option.split sum.split)

lemma ingest_messages_extends:
  "ingest_messages env ops config identity nid retention ms s = (res, s') \<Longrightarrow>
     batches_extend env nid ms (is_disk s) (is_disk s')"
proof (induction env ops config identity nid retention ms s arbitrary: res s' rule: ingest_messages.induct)
  case (2 env ops config identity nid retention ann rest s)
  obtain r1 s1 where step: "ingest_batch env ops nid retention ann s = (r1, s1)" by fastforce
  note ext = ingest_batch_extends [OF step]
  show ?case
  proof (cases r1)
    case (Inl e)
    with 2(2) step have "s' = s1" by simp
    with batches_extend_mono [OF ext] show ?thesis by simp
  next
    case (Inr u)
    with 2(2) step have "ingest_messages env ops config identity nid retention rest s1 = (res, s')" by simp
    from batches_extend_trans [OF ext 2(1) [OF this], of "MsgBatch ann # rest"] show ?thesis by auto
  qed
next
  case (3 env ops config identity nid retention session rest s)
  then have "batches_extend env nid rest (is_disk (ingest_session env ops config identity nid session s)) (is_disk s')" by simp
  then have "batches_extend env nid rest (is_disk s) (is_disk s')"
    by (simp only: batches_extend_def ingest_session_batches)
  then show ?case by (rule batches_extend_mono) auto
next
  case (4 env ops config identity nid retention a rest s)
  then have "batches_extend env nid rest (save_witness_attestation a (is_disk s)) (is_disk s')" by simp
  then have "batches_extend env nid rest (is_disk s) (is_disk s')"
    by (simp add: batches_extend_def save_witness_attestation_def)
  then show ?case by (rule batches_extend_mono) auto
qed (auto simp: batches_extend_refl intro: batches_extend_mono)

subsection \<open>A stored batch passes the audit\<close>

lemma accepted_batch_faithful:
  assumes rep: "reproduces env nid ann bytes obss"
    and run: "store_announced env nid retention ann bytes slot s = (Inr (), s')"
    and acc: "pi_accepted (is_outcome s') = pi_accepted (is_outcome s) + 1"
    and book: "\<And>old. bt_get (rb_payloads (ln_retention_book (is_runtime s))) (ba_payload_cid ann) = Some old \<Longrightarrow>
      sp_payload_hash old = ba_payload_hash ann"
    and nid: "config_node_id config = Inr nid"
  shows "\<exists>a. bt_get (dk_batches (is_disk s')) (batch_artifact_path (ba_epoch_id ann) slot (ba_payload_cid ann)) = Some (Inr a)
    \<and> ct_epoch_id a = ba_epoch_id ann \<and> faithful env identity config (ln_retention_book (is_runtime s')) (is_disk s') a"
proof -
  obtain stored book' where rec: "record_payload (ne_book env) nid (ba_epoch_id ann) retention (ba_payload_cid ann)
      (ba_payload_hash ann) (word_of_nat (length bytes)) (ln_retention_book (is_runtime s)) = (Inr stored, book')"
    using run acc
    by (auto simp: store_announced_def Let_def count_rejected_def count_outcome_def
        split: prod.splits sum.splits storage_book_error.splits)
  let ?a = "announced_artifact ann slot stored"
  have s': "is_disk s' = save_batch_artifact ?a (batch_artifact_path (ba_epoch_id ann) slot (ba_payload_cid ann))
      (write_payload_file (ba_payload_cid ann) bytes (is_disk s))"
    "ln_retention_book (is_runtime s') = book'"
    using run rec by (auto simp: store_announced_def Let_def count_outcome_def)
  have "faithful env identity config book' (is_disk s') ?a"
    unfolding faithful_def
  proof (intro exI conjI impI)
    show "read_payload_file (ct_payload_cid ?a) (is_disk s') = Inr bytes"
      by (simp add: s' read_payload_file_def announced_artifact_def save_batch_artifact_def write_payload_file_def)
    show "decode_observations env bytes = Inr obss" using rep by (simp add: reproduces_def)
    show "bt_get (rb_payloads book') (ct_payload_cid ?a) = Some stored"
      using record_payload_present [OF rec book] by (simp add: announced_artifact_def)
    assume own: "obss \<noteq> [] \<and> config_node_id config = Inr (obs_collector_id (hd obss))"
    then have "hd obss \<in> set obss" by simp
    with own rep nid show "\<forall>obs \<in> set obss. verify_collector_signature env obs (map_option kp_public identity) = SigValid"
      by (auto simp: reproduces_def)
  qed (use rep record_payload_present [OF rec book] in
      \<open>simp_all add: reproduces_def announced_artifact_def decode_hex_32_hex_32\<close>)
  then show ?thesis by (intro exI [of _ ?a]) (simp add: s' save_batch_artifact_def announced_artifact_def)
qed

subsection \<open>What the checks leave open\<close>

text \<open>
  The content id of an announcement is compared with the response only, not with the payload hash, and two
  ids can name one file; storing an announced batch replaces whatever payload is in that file.
\<close>

lemma stored_batch_replaces_payload:
  assumes "store_announced env nid retention ann bytes slot s = (res, s')"
    and "payload_path cid = payload_path (ba_payload_cid ann)"
  shows "read_payload_file cid (is_disk s') = Inr bytes"
  using assms
  by (auto simp: store_announced_def Let_def count_outcome_def count_rejected_def write_payload_file_def save_batch_artifact_def
      read_payload_file_def split: prod.splits sum.splits storage_book_error.splits)

lemma replaced_payload_fails_audit:
  assumes "read_payload_file (ct_payload_cid a) d = Inr bytes" "ct_payload_hash_hex a = hex_32 h" "stable_hash32 bytes \<noteq> h"
  shows "\<not> faithful env identity config book d a"
  using assms by (auto simp: faithful_def decode_hex_32_hex_32)

lemma strip_prefix_append: "strip_prefix p s = Some r \<Longrightarrow> s = p @ r"
  by (induction p s rule: strip_prefix.induct) (auto split: if_splits)

lemma underscore_names_same_file:
  "payload_path (''batch-payload_'' @ hex) = payload_path (''cid://batch-payload/'' @ hex)" if "list_all hex_char hex"
proof -
  have no_colon: "replace_all ''cid://'' [] xs = xs" if "CHR '':'' \<notin> set xs" for xs
    using that
  proof (induction xs)
    case (Cons c xs)
    have "strip_prefix ''cid://'' (c # xs) = None"
    proof (rule ccontr)
      assume "strip_prefix ''cid://'' (c # xs) \<noteq> None"
      then obtain r where "c # xs = ''cid://'' @ r" using strip_prefix_append by blast
      then have "CHR '':'' \<in> set (c # xs)" by simp
      with Cons.prems show False by simp
    qed
    with Cons show ?case by (simp del: strip_prefix.simps)
  qed simp
  have "\<not> hex_char CHR '':''" by (simp add: hex_char_def)
  with that have hex: "CHR '':'' \<notin> set hex" by (auto simp: list_all_iff)
  then have under: "replace_all ''cid://'' [] (''batch-payload_'' @ hex) = ''batch-payload_'' @ hex"
    by (intro no_colon) simp
  have "replace_all ''cid://'' [] (''cid://batch-payload/'' @ hex) = replace_all ''cid://'' [] (''batch-payload/'' @ hex)"
    by simp
  also have "\<dots> = ''batch-payload/'' @ hex" using hex by (intro no_colon) simp
  finally show ?thesis unfolding payload_path_def payload_filename_stub_def under by (simp add: replace_char_def)
qed

text \<open>A payload that is refused for lack of quota has already been written.\<close>

lemma refused_payload_stays_on_disk:
  assumes "saturating_add (rb_used_bytes (ln_retention_book (is_runtime s))) (word_of_nat (length bytes))
      > rb_quota_bytes (ln_retention_book (is_runtime s))"
    and "bt_get (rb_payloads (ln_retention_book (is_runtime s))) (ba_payload_cid ann) = None"
  shows "\<exists>s'. store_announced env nid retention ann bytes slot s = (Inr (), s')
    \<and> pi_rejected (is_outcome s') = pi_rejected (is_outcome s) + 1
    \<and> is_runtime s' = is_runtime s \<and> read_payload_file (ba_payload_cid ann) (is_disk s') = Inr bytes"
  using assms
  by (simp add: store_announced_def record_payload_def Let_def count_outcome_def count_rejected_def write_payload_file_def
      read_payload_file_def)

text \<open>
  An announced attestation is stored without looking at its signature, and one stored attestation by
  anybody else makes a session count as verified.
\<close>

lemma announced_attestation_verifies:
  assumes "ingest_messages env ops config identity nid retention [MsgWitnessAttestation a] s = (res, s')"
    and "ri_attestations inp = load_witness_attestations (is_disk s')"
    and "wa_session_id a = ps_session_id session" "ri_identity_address inp \<noteq> Some (wa_witness_address a)"
  shows "session_verified inp session"
proof -
  have "a \<in> set (ri_attestations inp)"
    using assms(1) unfolding assms(2) load_witness_attestations_def set_load_directory
    by (auto simp: save_witness_attestation_def)
  moreover have "bs_contains (session_witnesses acc atts session) (wa_witness_address a)"
    if "a \<in> set atts" "acc \<noteq> Some (wa_witness_address a)" for acc and atts :: "witness_attestation list"
    using that assms(3) unfolding session_witnesses_def
    by (induction atts rule: rev_induct) (auto split: option.split)
  ultimately have "bs_contains (session_witnesses (ri_identity_address inp) (ri_attestations inp) session) (wa_witness_address a)"
    using assms(4) by blast
  then have "bt_entries (session_witnesses (ri_identity_address inp) (ri_attestations inp) session) \<noteq> []"
    by (auto simp: bs_contains_def bt.get_ents)
  then show ?thesis by (simp add: session_verified_def)
qed

text \<open>An announced session enters the directory of the node's own sessions, whoever signed it.\<close>

lemma announced_session_becomes_local:
  assumes "ingest_messages env ops config identity nid retention [MsgPlaySession session] s = (res, s')"
    and "\<And>x. x \<in> set (load_play_sessions (is_disk s)) \<Longrightarrow>
      \<not> (ps_epoch_id x = ps_epoch_id session \<and> ps_slot_id x = ps_slot_id session \<and> ps_app_id x = ps_app_id session)"
  shows "bt_get (local_session_ids_for_slot (load_play_sessions (is_disk s')) (ps_epoch_id session) (ps_slot_id session))
    (ps_app_id session) = Some (hex_32 (ps_session_id session))"
proof -
  let ?P = "\<lambda>x. ps_epoch_id x = ps_epoch_id session \<and> ps_slot_id x = ps_slot_id session \<and> ps_app_id x = ps_app_id session"
  have d: "dk_sessions (is_disk s') = bt_insert (proof_file_name (ps_session_id session)) (Some session) (dk_sessions (is_disk s))"
    using assms(1) by (auto simp: ingest_session_def Let_def save_play_session_def save_witness_attestation_def
        split: option.splits sum.splits if_splits)
  have mem: "session \<in> set (load_play_sessions (is_disk s'))"
    by (auto simp: load_play_sessions_def set_load_directory d)
  have only: "x = session" if "x \<in> set (load_play_sessions (is_disk s'))" "?P x" for x
    using that assms(2) [of x] by (auto simp: load_play_sessions_def set_load_directory d split: if_splits)
  have "List.find ?P (load_play_sessions (is_disk s')) = Some session"
  proof (cases "List.find ?P (load_play_sessions (is_disk s'))")
    case None
    with mem show ?thesis by (auto simp: find_None_iff)
  next
    case (Some x)
    then have "x \<in> set (load_play_sessions (is_disk s'))" "?P x" by (auto simp: find_Some_iff)
    with only Some show ?thesis by simp
  qed
  then show ?thesis by (simp add: local_session_ids_spec)
qed

end
