(* ===== verification/Preparation.thy ===== *)
theory Preparation
  imports Verifier
begin

text \<open>
  From the files of a node to the commit of an epoch: \<open>build_epoch_commit_from_local_data\<close>
  (\<open>src/src/node_daemon.rs\<close>) and \<open>src/src/node_prepare.rs\<close>. \<open>local_data\<close> is what the functions read from the data
  directory; each component is what the loading function of that file returns. The text of a daemon error
  (\<open>describe_error\<close>) and what the chain answers about settlements and witness credits are in the environment.
  The artifacts that are only written, never read by the code modelled here, are returned and not stored.
\<close>

record local_chain_runtime_state =
  lr_height :: height
  lr_current_epoch :: epoch_id

record epoch_settlement_artifact =
  sa_epoch_id :: epoch_id
  sa_submission_height :: height
  sa_challenge_window_blocks :: u32
  sa_challenge_deadline_height :: height
  sa_finalization_height :: height
  sa_prepared_ready_for_submission :: bool
  sa_batch_count :: u32
  sa_payload_count :: u32
  sa_batch_submission_count :: nat
  sa_batch_already_present_count :: nat
  sa_reward_record_count :: nat
  sa_accepted_batches_root_hex :: string
  sa_observations_root_hex :: string
  sa_availability_root_hex :: string
  sa_aggregates_root_hex :: string
  sa_rewards_root_hex :: string
  sa_randomness_seed_hex :: string
  sa_commit_applied :: bool
  sa_commit_already_present :: bool
  sa_epoch_finalized :: bool
  sa_epoch_already_finalized :: bool
  sa_local_node_id_hex :: string
  sa_local_reward_available :: amount
  sa_local_reward_claimed :: bool
  sa_local_reward_already_claimed :: bool
  sa_local_reward_balance :: amount
  sa_current_epoch_after :: epoch_id

record local_data =
  ld_disk :: node_disk
  ld_book :: "storage_book_error + local_retention_book"
  ld_ticks :: "node_reward_error + player_reward_tick_artifact list"
  ld_credentials :: "(epoch_id, verification_credential list) btree_map"
  ld_runtime :: "(string + local_chain_runtime_state) option"
  ld_store :: "io_error + in_memory_store"
  ld_settlements :: "(epoch_id, epoch_settlement_artifact) btree_map"

record settlement_env =
  se_node :: node_env
  se_aggregation :: aggregation_env
  se_rewards :: reward_env
  se_settlement_valid :: "string \<Rightarrow> bool option"
  se_chain_credits :: "epoch_id \<Rightarrow> (string, u64) btree_map"
  describe_error :: "node_daemon_error \<Rightarrow> string"

datatype node_preparation_error =
    PrepAggregation node_aggregation_error
  | PrepReward node_reward_error
  | PrepVerification node_verification_error
  | PrepDaemon node_daemon_error
  | PrepIo string
  | PrepJson string

record epoch_commit_artifact =
  ca_epoch_id :: u64
  ca_current_height :: u64
  ca_challenge_deadline_height :: u64
  ca_batch_count :: u32
  ca_payload_count :: u32
  ca_accepted_batches_root_hex :: string
  ca_observations_root_hex :: string
  ca_availability_root_hex :: string
  ca_aggregates_root_hex :: string
  ca_rewards_root_hex :: string
  ca_randomness_seed_hex :: string

record epoch_preparation_artifact =
  pa_epoch_id :: epoch_id
  pa_current_height :: u64
  pa_challenge_window_blocks :: u32
  pa_challenge_deadline_height :: u64
  pa_batch_count :: u32
  pa_payload_count :: u32
  pa_verification_batch_count :: nat
  pa_stored_payload_count :: nat
  pa_aggregate_count :: nat
  pa_reward_count :: nat
  pa_player_reward_block_count :: nat
  pa_total_observation_count :: u32
  pa_deduped_observation_count :: u32
  pa_accepted_observation_count :: u32
  pa_local_player_reward_total :: amount
  pa_total_gvs_units :: amount
  pa_total_distributed :: amount
  pa_verification_all_valid :: bool
  pa_accepted_batches_root_hex :: string
  pa_observations_root_hex :: string
  pa_availability_root_hex :: string
  pa_aggregates_root_hex :: string
  pa_rewards_root_hex :: string
  pa_randomness_seed_hex :: string
  pa_ready_for_submission :: bool

record epoch_preparation_computation =
  pc_artifact :: epoch_preparation_artifact
  pc_aggregation_artifact :: epoch_aggregation_artifact
  pc_reward_artifact :: epoch_reward_artifact
  pc_verification_report :: epoch_verification_report
  pc_epoch_commit :: epoch_commit_rec
  pc_epoch_commit_artifact :: epoch_commit_artifact

subsection \<open>Reading the local data\<close>

definition latest_activated_protocol_params_from_store :: "in_memory_store \<Rightarrow> protocol_params option" where
  "latest_activated_protocol_params_from_store st =
     map_option gp_params (max_by_key gp_effective_epoch
       (filter (\<lambda>proposal. gp_state proposal = ProposalActivated) (params_update_proposals_iter st)))"

definition activated_params :: "local_data \<Rightarrow> protocol_params option" where
  "activated_params ld =
     (case ld_store ld of Inl _ \<Rightarrow> None | Inr st \<Rightarrow> latest_activated_protocol_params_from_store st)"

definition epoch_aggregation_of ::
  "settlement_env \<Rightarrow> node_config \<Rightarrow> epoch_id \<Rightarrow> local_data \<Rightarrow> node_aggregation_error + epoch_aggregation_computation" where
  "epoch_aggregation_of env config epoch ld =
     (case load_batches_for_epoch (se_node env) config epoch (ld_disk ld) of
        Inl e \<Rightarrow> Inl (AggregationUpstream (describe_error env e))
      | Inr bs \<Rightarrow>
          compute_local_epoch_aggregation ((se_aggregation env)\<lparr>ae_activated := activated_params ld\<rparr>) config epoch bs)"

definition aggregate_local_epoch ::
  "settlement_env \<Rightarrow> node_config \<Rightarrow> epoch_id \<Rightarrow> local_data \<Rightarrow> node_aggregation_error + epoch_aggregation_artifact" where
  "aggregate_local_epoch env config epoch ld = map_sum id ec_artifact (epoch_aggregation_of env config epoch ld)"

definition identity_option :: "'a + 'b \<Rightarrow> 'b option" where
  "identity_option r = (case r of Inl _ \<Rightarrow> None | Inr v \<Rightarrow> Some v)"

definition reward_inputs_of ::
  "settlement_env \<Rightarrow> node_config_error + key_pair \<Rightarrow> node_config \<Rightarrow> epoch_id \<Rightarrow> local_data \<Rightarrow> reward_inputs" where
  "reward_inputs_of env identity config epoch ld =
     \<lparr>ri_aggregation = epoch_aggregation_of env config epoch ld, ri_retention_book = ld_book ld,
      ri_tick_files = ld_ticks ld, ri_sessions = load_play_sessions (ld_disk ld),
      ri_attestations = load_witness_attestations (ld_disk ld), ri_settlement_valid = se_settlement_valid env,
      ri_chain_credits = se_chain_credits env epoch,
      ri_identity_address = map_option (\<lambda>k. identity_account_address (ne_proof (se_node env)) (kp_public k)) (identity_option identity),
      ri_local_account = Option.bind (identity_option identity)
        (\<lambda>k. identity_option (identity_account_bech32 (ne_proof (se_node env)) (kp_public k))),
      ri_credentials = bt_or_default (ld_credentials ld) epoch []\<rparr>"

definition reward_local_epoch ::
  "settlement_env \<Rightarrow> node_config_error + key_pair \<Rightarrow> node_config \<Rightarrow> epoch_id \<Rightarrow> local_data \<Rightarrow> node_reward_error + epoch_reward_artifact" where
  "reward_local_epoch env identity config epoch ld =
     map_sum id rc_artifact (compute_local_epoch_rewards (se_rewards env) (activated_params ld) config epoch
       (reward_inputs_of env identity config epoch ld))"

subsection \<open>The commit of an epoch\<close>

definition local_aggregates_root ::
  "settlement_env \<Rightarrow> epoch_aggregation_artifact \<Rightarrow> node_aggregation_error + hash32" where
  "local_aggregates_root env artifact = aggregate_record_root (se_aggregation env) (map ee_aggregate (ea_records artifact))"

definition epoch_commit_artifact_of :: "epoch_id \<Rightarrow> height \<Rightarrow> epoch_commit_rec \<Rightarrow> epoch_commit_artifact" where
  "epoch_commit_artifact_of epoch current_height commit =
     \<lparr>ca_epoch_id = epoch, ca_current_height = current_height,
      ca_challenge_deadline_height = ec_challenge_deadline_height commit,
      ca_batch_count = mc_leaf_count (ec_accepted_batches commit),
      ca_payload_count = mc_leaf_count (ec_availability commit),
      ca_accepted_batches_root_hex = hex_32 (mc_root (ec_accepted_batches commit)),
      ca_observations_root_hex = hex_32 (mc_root (ec_observations commit)),
      ca_availability_root_hex = hex_32 (mc_root (ec_availability commit)),
      ca_aggregates_root_hex = hex_32 (mc_root (ec_aggregates commit)),
      ca_rewards_root_hex = hex_32 (mc_root (ec_rewards commit)),
      ca_randomness_seed_hex = hex_32 (ec_randomness_seed commit)\<rparr>"

definition build_epoch_commit_from_local_data ::
  "settlement_env \<Rightarrow> node_config_error + key_pair \<Rightarrow> node_config \<Rightarrow> epoch_id \<Rightarrow> height \<Rightarrow> u32 \<Rightarrow> hash32 \<Rightarrow> hash32 \<Rightarrow> local_data
    \<Rightarrow> node_daemon_error + (epoch_commit_rec \<times> epoch_commit_artifact)" where
  "build_epoch_commit_from_local_data env identity config epoch current_height window aggregates_root rewards_root ld =
     (case load_batches_for_epoch (se_node env) config epoch (ld_disk ld) of Inl e \<Rightarrow> Inl e | Inr loaded \<Rightarrow>
      case (if aggregates_root = 0
            then (case aggregate_local_epoch env config epoch ld of
                    Inl e \<Rightarrow> Inl (DaemonAggregation e)
                  | Inr artifact \<Rightarrow> map_sum DaemonAggregation id (local_aggregates_root env artifact))
            else Inr aggregates_root) of Inl e \<Rightarrow> Inl e | Inr resolved_aggregates_root \<Rightarrow>
      case (if rewards_root = 0
            then (case reward_local_epoch env identity config epoch ld of
                    Inl e \<Rightarrow> Inl (DaemonReward e)
                  | Inr artifact \<Rightarrow> decode_hex_text DaemonHexLength DaemonHexCharacter (er_reward_root_hex artifact))
            else Inr rewards_root) of Inl e \<Rightarrow> Inl e | Inr resolved_rewards_root \<Rightarrow>
      case ld_book ld of Inl e \<Rightarrow> Inl (DaemonStorage e) | Inr book \<Rightarrow>
      case build_epoch_commit (se_node env) config
          \<lparr>ei_epoch_id = epoch, ei_current_height = current_height, ei_challenge_window_blocks = window,
           ei_batches = loaded,
           ei_stored_payloads = filter (\<lambda>r. sp_epoch_id r = epoch) (bt_values (rb_payloads book)),
           ei_aggregates_root = resolved_aggregates_root, ei_rewards_root = resolved_rewards_root\<rparr> of
        Inl e \<Rightarrow> Inl (DaemonRuntime e)
      | Inr commit \<Rightarrow> Inr (commit, epoch_commit_artifact_of epoch current_height commit))"

definition preparation_artifact_of ::
  "epoch_id \<Rightarrow> height \<Rightarrow> u32 \<Rightarrow> epoch_aggregation_artifact \<Rightarrow> epoch_reward_artifact \<Rightarrow> epoch_verification_report
    \<Rightarrow> epoch_commit_artifact \<Rightarrow> epoch_preparation_artifact" where
  "preparation_artifact_of epoch current_height window agg rew report ca =
     \<lparr>pa_epoch_id = epoch, pa_current_height = current_height, pa_challenge_window_blocks = window,
      pa_challenge_deadline_height = ca_challenge_deadline_height ca, pa_batch_count = ca_batch_count ca,
      pa_payload_count = ca_payload_count ca, pa_verification_batch_count = ev_batch_count report,
      pa_stored_payload_count = ev_stored_payload_count report, pa_aggregate_count = ea_aggregate_count agg,
      pa_reward_count = er_reward_count rew, pa_player_reward_block_count = er_player_reward_block_count rew,
      pa_total_observation_count = ea_total_observation_count agg,
      pa_deduped_observation_count = ea_deduped_observation_count agg,
      pa_accepted_observation_count = ea_accepted_observation_count agg,
      pa_local_player_reward_total = er_local_player_reward_total rew, pa_total_gvs_units = er_total_gvs_units rew,
      pa_total_distributed = er_total_distributed rew, pa_verification_all_valid = ev_all_valid report,
      pa_accepted_batches_root_hex = ca_accepted_batches_root_hex ca,
      pa_observations_root_hex = ca_observations_root_hex ca, pa_availability_root_hex = ca_availability_root_hex ca,
      pa_aggregates_root_hex = ca_aggregates_root_hex ca, pa_rewards_root_hex = ca_rewards_root_hex ca,
      pa_randomness_seed_hex = ca_randomness_seed_hex ca,
      pa_ready_for_submission = (ev_all_valid report \<and> ca_batch_count ca > 0 \<and> ca_payload_count ca > 0
        \<and> ca_challenge_deadline_height ca \<ge> current_height)\<rparr>"

definition compute_local_epoch_preparation ::
  "settlement_env \<Rightarrow> node_config_error + key_pair \<Rightarrow> node_config \<Rightarrow> epoch_id \<Rightarrow> height \<Rightarrow> u32 \<Rightarrow> local_data
    \<Rightarrow> node_preparation_error + epoch_preparation_computation" where
  "compute_local_epoch_preparation env identity config epoch current_height window ld =
     (case aggregate_local_epoch env config epoch ld of Inl e \<Rightarrow> Inl (PrepAggregation e) | Inr agg \<Rightarrow>
      case local_aggregates_root env agg of Inl e \<Rightarrow> Inl (PrepAggregation e) | Inr aggregates_root \<Rightarrow>
      case reward_local_epoch env identity config epoch ld of Inl e \<Rightarrow> Inl (PrepReward e) | Inr rew \<Rightarrow>
      case reward_record_root (se_rewards env) (map en_reward (er_records rew)) of Inl e \<Rightarrow> Inl (PrepReward e) | Inr rewards_root \<Rightarrow>
      case verify_local_epoch (se_node env) (identity_option identity) config (ld_book ld) (ld_disk ld) epoch of
        Inl e \<Rightarrow> Inl (PrepVerification e) | Inr report \<Rightarrow>
      case build_epoch_commit_from_local_data env identity config epoch current_height window aggregates_root rewards_root ld of
        Inl e \<Rightarrow> Inl (PrepDaemon e) | Inr (commit, ca) \<Rightarrow>
      Inr \<lparr>pc_artifact = preparation_artifact_of epoch current_height window agg rew report ca,
        pc_aggregation_artifact = agg, pc_reward_artifact = rew, pc_verification_report = report,
        pc_epoch_commit = commit, pc_epoch_commit_artifact = ca\<rparr>)"

subsection \<open>What a preparation says\<close>

lemma batch_from_artifact_epoch:
  "batch_from_artifact env nid d artifact = Inr b \<Longrightarrow> bc_epoch_id (ab_batch_commit b) = ct_epoch_id artifact"
  by (auto simp: batch_from_artifact_def split: sum.splits)

lemma load_batch_files_epoch:
  "load_batch_files env nid epoch d fs = Inr bs \<Longrightarrow> \<forall>b \<in> set bs. bc_epoch_id (ab_batch_commit b) = epoch"
proof (induction env nid epoch d fs arbitrary: bs rule: load_batch_files.induct)
  case (3 env nid epoch d artifact rest)
  show ?case
  proof (cases "ct_epoch_id artifact = epoch")
    case True
    from True obtain b where b: "batch_from_artifact env nid d artifact = Inr b"
      using 3(3) by (cases "batch_from_artifact env nid d artifact") simp_all
    obtain bs' where bs': "load_batch_files env nid epoch d rest = Inr bs'"
      using 3(3) True b by (cases "load_batch_files env nid epoch d rest") simp_all
    have "bs = b # bs'" using 3(3) True b bs' by simp
    then show ?thesis using 3(2) [OF _ b bs'] True batch_from_artifact_epoch [OF b] by simp
  next
    case False
    with 3 show ?thesis by simp
  qed
qed auto

lemma load_batches_epoch:
  "load_batches_for_epoch env config epoch d = Inr bs \<Longrightarrow> b \<in> set bs \<Longrightarrow> bc_epoch_id (ab_batch_commit b) = epoch"
  by (auto simp: load_batches_for_epoch_def dest: load_batch_files_epoch split: if_splits sum.splits)

lemma build_epoch_commit_Inr:
  assumes "build_epoch_commit env config inputs = Inr commit"
  obtains proposer where "config_node_id config = Inr proposer" "cc_propose (nc_capabilities config)"
    "ei_batches inputs \<noteq> []" "ec_proposer_id commit = proposer" "ec_epoch_id commit = ei_epoch_id inputs"
    "mc_leaf_count (ec_accepted_batches commit) = word_of_nat (length (ei_batches inputs))"
    "mc_leaf_count (ec_availability commit) = word_of_nat (length (ei_stored_payloads inputs))"
    "ec_challenge_open_height commit = ei_current_height inputs"
    "ec_challenge_deadline_height commit = ei_current_height inputs + ucast (ei_challenge_window_blocks inputs)"
  using assms
  by (auto simp: build_epoch_commit_def ensure_propose_enabled_def Let_def split: if_splits sum.splits)

text \<open>What a successful preparation was computed from: the loaded batches, the report and the commit over them.\<close>

definition prepared_from ::
  "settlement_env \<Rightarrow> node_config_error + key_pair \<Rightarrow> node_config \<Rightarrow> epoch_id \<Rightarrow> height \<Rightarrow> u32 \<Rightarrow> local_data
    \<Rightarrow> epoch_preparation_computation \<Rightarrow> assembled_batch list \<Rightarrow> bool" where
  "prepared_from env identity config epoch h window ld p loaded \<longleftrightarrow>
     load_batches_for_epoch (se_node env) config epoch (ld_disk ld) = Inr loaded \<and> loaded \<noteq> []
     \<and> verify_local_epoch (se_node env) (identity_option identity) config (ld_book ld) (ld_disk ld) epoch = Inr (pc_verification_report p)
     \<and> reward_local_epoch env identity config epoch ld = Inr (pc_reward_artifact p)
     \<and> cc_propose (nc_capabilities config)
     \<and> config_node_id config = Inr (ec_proposer_id (pc_epoch_commit p))
     \<and> ec_epoch_id (pc_epoch_commit p) = epoch
     \<and> ec_challenge_deadline_height (pc_epoch_commit p) = h + ucast window
     \<and> ca_batch_count (pc_epoch_commit_artifact p) = word_of_nat (length loaded)
     \<and> pc_epoch_commit_artifact p = epoch_commit_artifact_of epoch h (pc_epoch_commit p)
     \<and> pc_artifact p = preparation_artifact_of epoch h window (pc_aggregation_artifact p) (pc_reward_artifact p)
         (pc_verification_report p) (pc_epoch_commit_artifact p)"

lemma build_from_local_data_Inr:
  assumes "build_epoch_commit_from_local_data env identity config epoch h window ar rr ld = Inr (commit, ca)"
  obtains loaded where "load_batches_for_epoch (se_node env) config epoch (ld_disk ld) = Inr loaded" "loaded \<noteq> []"
    "cc_propose (nc_capabilities config)" "config_node_id config = Inr (ec_proposer_id commit)" "ec_epoch_id commit = epoch"
    "ec_challenge_deadline_height commit = h + ucast window" "ca = epoch_commit_artifact_of epoch h commit"
    "ca_batch_count ca = word_of_nat (length loaded)"
  using assms
  by (auto simp: build_epoch_commit_from_local_data_def epoch_commit_artifact_of_def
      split: sum.splits if_splits elim!: build_epoch_commit_Inr)

lemma preparation_Inr:
  assumes "compute_local_epoch_preparation env identity config epoch h window ld = Inr p"
  obtains loaded where "prepared_from env identity config epoch h window ld p loaded"
proof -
  from assms obtain ar rr where "build_epoch_commit_from_local_data env identity config epoch h window ar rr ld
      = Inr (pc_epoch_commit p, pc_epoch_commit_artifact p)"
    and rest: "verify_local_epoch (se_node env) (identity_option identity) config (ld_book ld) (ld_disk ld) epoch
        = Inr (pc_verification_report p)"
      "reward_local_epoch env identity config epoch ld = Inr (pc_reward_artifact p)"
      "pc_artifact p = preparation_artifact_of epoch h window (pc_aggregation_artifact p) (pc_reward_artifact p)
         (pc_verification_report p) (pc_epoch_commit_artifact p)"
    by (auto simp: compute_local_epoch_preparation_def split: sum.splits)
  from this(1) show ?thesis
    by (rule build_from_local_data_Inr) (rule that, simp add: prepared_from_def rest)
qed

end
