(* ===== verification/Settlement.thy ===== *)
theory Settlement
  imports Preparation Chain Guarantees
begin

text \<open>
  Settling an epoch on the node's own chain (\<open>src/src/node_settlement.rs\<close>): the batches of the epoch are
  submitted, the epoch is committed, its reward records are written, the epoch is finalised past the challenge
  window and the node's reward is claimed; and the automatic settlement of the daemon
  (\<open>src/src/node_daemon.rs\<close>). The runtime state, the chain store and the settlement artifacts are the last
  three components of \<open>local_data\<close>; they are written only at the end, and writing succeeds. The constructor
  \<open>SettlePanic\<close> is not one of the enum's: it stands for the \<open>expect\<close> of \<open>ProtocolState::with_store\<close>. The path
  texts of the settlement artifact are left out.
\<close>

datatype node_settlement_error =
    SettleConfig node_config_error
  | SettlePreparation node_preparation_error
  | SettleTransition transition_error
  | SettleIo io_error
  | SettleJson string
  | SubmissionHeightRegression height height
  | SettlePanic

subsection \<open>Parameters\<close>

definition clamp_u32 :: "u64 \<Rightarrow> u32" where
  "clamp_u32 v = ucast (min (max v 1) 0xFFFFFFFF)"

definition local_protocol_params :: "protocol_params option \<Rightarrow> node_config \<Rightarrow> u32 \<Rightarrow> protocol_params" where
  "local_protocol_params activated config window = \<lparr>
     slot_seconds = clamp_u32 (rt_poll_interval_secs (nc_runtime config)),
     epoch_slots = clamp_u32 (rt_slots_per_epoch (nc_runtime config)),
     committee_size = 21, unbonding_blocks = 5, min_verify_bond = 100, min_propose_bond = 10000,
     challenge_window_blocks = window, max_emergency_brake_blocks = 100,
     min_retention_epochs = effective_min_retention_epochs activated config,
     pp_fee = \<lparr>base_gas_price_nano = 100, max_gas_price_nano = 1000, gas_adjustment_ppm = 1150000,
       congestion_threshold_ppm = 500000, fee_burn_bps = 2500\<rparr>,
     pp_rewards = \<lparr>
       reward_source_is_tokenomics = (rc_reward_source (nc_reward config) = TokenomicsSource),
       emission_year = rc_emission_year (nc_reward config),
       reward_block_secs = effective_reward_block_secs activated config,
       initial_emission_rate_bps = INITIAL_EMISSION_RATE_BPS,
       tail_emission_start_year = rc_tail_emission_start_year (nc_reward config),
       tail_emission_rate_bps = rc_tail_emission_rate_bps (nc_reward config),
       player_reward_allocation_bps = PLAYER_REWARD_ALLOCATION_BPS,
       service_reward_allocation_bps = SERVICE_REWARD_ALLOCATION_BPS,
       collect_reward_bps = rc_collect_reward_bps (nc_reward config),
       store_reward_bps = rc_store_reward_bps (nc_reward config),
       verify_reward_bps = rc_verify_reward_bps (nc_reward config),
       propose_reward_bps = rc_propose_reward_bps (nc_reward config),
       configured_player_block_reward = rc_player_block_reward (nc_reward config),
       effective_player_block_reward = effective_player_block_reward_of activated config,
       target_network_weight_units = effective_target_network_weight_units activated config,
       reward_adjustment_cap_bps = effective_reward_adjustment_cap_bps activated config,
       tier1_weight_ppm = 1000000, tier2_weight_min_ppm = 300000, tier2_weight_max_ppm = 600000,
       tier3_weight_min_ppm = 50000, tier3_weight_max_ppm = 150000,
       app_weight_overrides = map (\<lambda>m. \<lparr>awo_app_id = gm_app_id m, awo_game_coefficient_ppm = gm_game_coefficient_ppm m\<rparr>)
         (rc_game_mappings (nc_reward config)),
       reward_burn_threshold = 10000, reward_burn_bps = 1000, governance_burn_bps = 100\<rparr>,
     pp_governance = \<lparr>params_update_bond = 10000, params_update_quorum_bps = 2500, params_update_approval_bps = 6000,
       slow_params_update_bond = 20000, slow_params_update_quorum_bps = 3300, slow_params_update_approval_bps = 7500\<rparr>,
     pp_slashing = \<lparr>double_sign_bps = 5000, offline_bps = 100, medium_deviation_bps = 500, severe_deviation_bps = 2000\<rparr>,
     pp_mutual_proof = default_mutual_proof_params\<rparr>"

subsection \<open>Opening the local chain\<close>

definition load_runtime_or_default ::
  "height \<Rightarrow> epoch_id \<Rightarrow> local_data \<Rightarrow> node_settlement_error + local_chain_runtime_state" where
  "load_runtime_or_default default_height default_epoch ld =
     (case ld_runtime ld of
        None \<Rightarrow> Inr \<lparr>lr_height = default_height, lr_current_epoch = default_epoch\<rparr>
      | Some r \<Rightarrow> map_sum SettleJson id r)"

definition suggested_settlement_height :: "node_config \<Rightarrow> local_data \<Rightarrow> node_settlement_error + height" where
  "suggested_settlement_height config ld =
     map_sum id (\<lambda>r. max (saturating_add (lr_height r) 1) 1)
       (load_runtime_or_default 0 (co_default_epoch_id (nc_collect config)) ld)"

definition enabled_capabilities :: "node_config \<Rightarrow> capability list" where
  "enabled_capabilities config =
     (let c = nc_capabilities config in
      (if cc_collect c then [Collect] else []) @ (if cc_store c then [Store] else [])
      @ (if cc_verify c then [Verify] else []) @ (if cc_propose c then [Propose] else [])
      @ (if cc_archive c then [Archive] else []))"

definition ensure_account_exists :: "address \<Rightarrow> protocol_state \<Rightarrow> protocol_state" where
  "ensure_account_exists a s =
     (if account (store s) a = None
      then upsert_account \<lparr>acc_address = a, acc_balance = 0, acc_staked = 0, acc_locked = 0, acc_nonce = 0\<rparr> s
      else s)"

definition local_registry :: "node_config \<Rightarrow> key_pair \<Rightarrow> node_id \<Rightarrow> protocol_params \<Rightarrow> node_registry" where
  "local_registry config identity nid p =
     \<lparr>nr_node_id = nid, nr_pubkey = to_bytes32 (kp_public identity), nr_reward_address = kp_address identity,
      nr_bond = max (min_propose_bond p) (min_verify_bond p), nr_status = NodeActive,
      nr_enabled_capabilities = enabled_capabilities config,
      nr_reputation = \<lparr>rep_score_ppm = 1000000, rep_successful_challenges = 0, rep_failed_challenges = 0,
        rep_challengeable_faults = 0, rep_collection_successes = 0, rep_collection_failures = 0,
        rep_storage_proofs_passed = 0, rep_storage_proofs_failed = 0,
        rep_last_updated_epoch = co_default_epoch_id (nc_collect config)\<rparr>,
      nr_joined_at_height = 1\<rparr>"

definition bootstrap_local_chain_state ::
  "node_config \<Rightarrow> key_pair \<Rightarrow> protocol_state \<Rightarrow> (node_settlement_error, unit, protocol_state) outcome" where
  "bootstrap_local_chain_state config identity s =
     try_with (map_sum SettleConfig id (config_node_id config)) s (\<lambda>nid.
       let s1 = (if node (store s) nid = None then upsert_node (local_registry config identity nid (params s)) s else s)
       in (Inr (), ensure_account_exists (kp_address identity) s1))"

definition open_local_protocol_state ::
  "node_config_error + key_pair \<Rightarrow> node_config \<Rightarrow> u32 \<Rightarrow> local_data
    \<Rightarrow> node_settlement_error + (local_chain_runtime_state \<times> protocol_state)" where
  "open_local_protocol_state identity config window ld =
     (case load_runtime_or_default 0 (co_default_epoch_id (nc_collect config)) ld of Inl e \<Rightarrow> Inl e | Inr runtime \<Rightarrow>
      case map_sum SettleIo id (ld_store ld) of Inl e \<Rightarrow> Inl e | Inr st \<Rightarrow>
      let p = (case latest_activated_protocol_params_from_store st of Some p \<Rightarrow> p
               | None \<Rightarrow> local_protocol_params (activated_params ld) config window) in
      case with_store p (lr_height runtime) (max (lr_current_epoch runtime) (co_default_epoch_id (nc_collect config))) st of
        None \<Rightarrow> Inl SettlePanic
      | Some s \<Rightarrow>
      case map_sum SettleConfig id identity of Inl e \<Rightarrow> Inl e | Inr k \<Rightarrow>
      case bootstrap_local_chain_state config k s of
        (Inl e, _) \<Rightarrow> Inl e
      | (Inr _, s') \<Rightarrow> Inr (runtime, s'))"

subsection \<open>Settling an epoch\<close>

abbreviation settlement_crypto :: "settlement_env \<Rightarrow> crypto_env" where
  "settlement_crypto env \<equiv> crypto_env.truncate (ne_proof (se_node env))"

definition sign_transaction :: "settlement_env \<Rightarrow> key_pair \<Rightarrow> transaction \<Rightarrow> byte_vec" where
  "sign_transaction env k tx =
     key_pair_sign (ne_proof (se_node env)) k (signing_payload (encode_tx (settlement_crypto env)) tx)"

definition submit_batch_of :: "settlement_env \<Rightarrow> key_pair \<Rightarrow> assembled_batch \<Rightarrow> submit_batch_tx" where
  "submit_batch_of env k b =
     (let tx = \<lparr>sb_batch_commit = ab_batch_commit b, sb_pubkey = kp_public k, sb_signature = []\<rparr>
      in tx\<lparr>sb_signature := sign_transaction env k (SubmitBatch tx)\<rparr>)"

fun submit_batches ::
  "settlement_env \<Rightarrow> key_pair \<Rightarrow> assembled_batch list \<Rightarrow> nat \<times> nat \<Rightarrow> protocol_state
    \<Rightarrow> (node_settlement_error, nat \<times> nat, protocol_state) outcome" where
  "submit_batches env k [] counts s = (Inr counts, s)"
| "submit_batches env k (b # bs) (submitted, present) s =
     (case apply_submit_batch (settlement_crypto env) (submit_batch_of env k b) s of
        (Inr _, s') \<Rightarrow> submit_batches env k bs (submitted + 1, present) s'
      | (Inl (DuplicateBatch _), s') \<Rightarrow> submit_batches env k bs (submitted, present + 1) s'
      | (Inl e, s') \<Rightarrow> (Inl (SettleTransition e), s'))"

definition apply_epoch_commit ::
  "settlement_env \<Rightarrow> key_pair \<Rightarrow> epoch_commit_rec \<Rightarrow> protocol_state \<Rightarrow> (node_settlement_error, bool \<times> bool, protocol_state) outcome" where
  "apply_epoch_commit env k commit s =
     (let tx = \<lparr>ce_epoch_commit = commit, ce_pubkey = kp_public k, ce_signature = []\<rparr> in
      case apply_commit_epoch (settlement_crypto env) (tx\<lparr>ce_signature := sign_transaction env k (CommitEpoch tx)\<rparr>) s of
        (Inr _, s') \<Rightarrow> (Inr (True, False), s')
      | (Inl (DuplicateEpochCommit _), s') \<Rightarrow> (Inr (False, True), s')
      | (Inl e, s') \<Rightarrow> (Inl (SettleTransition e), s'))"

definition finalize_local_epoch ::
  "epoch_id \<Rightarrow> protocol_state \<Rightarrow> (node_settlement_error, bool \<times> bool, protocol_state) outcome" where
  "finalize_local_epoch epoch s =
     (case finalize_epoch epoch s of
        (Inr _, s') \<Rightarrow> (Inr (True, False), s')
      | (Inl (EpochAlreadyFinalized _), s') \<Rightarrow> (Inr (False, True), s')
      | (Inl e, s') \<Rightarrow> (Inl (SettleTransition e), s'))"

definition claim_tx_of :: "settlement_env \<Rightarrow> key_pair \<Rightarrow> epoch_id \<Rightarrow> node_id \<Rightarrow> amount \<Rightarrow> protocol_state \<Rightarrow> claim_reward_tx" where
  "claim_tx_of env k epoch nid amt s =
     (let tx = \<lparr>ct_claimer = kp_address k, ct_epoch_id = epoch, ct_node_id = nid, ct_amount = amt, ct_merkle_proof = [],
            ct_nonce = (case account (store s) (kp_address k) of None \<Rightarrow> 0 | Some a \<Rightarrow> acc_nonce a),
            ct_pubkey = kp_public k, ct_signature = []\<rparr>
      in tx\<lparr>ct_signature := sign_transaction env k (ClaimReward tx)\<rparr>)"

definition claim_local_reward ::
  "settlement_env \<Rightarrow> key_pair \<Rightarrow> epoch_id \<Rightarrow> node_id \<Rightarrow> amount \<Rightarrow> protocol_state
    \<Rightarrow> (node_settlement_error, bool \<times> bool, protocol_state) outcome" where
  "claim_local_reward env k epoch nid amt s =
     (if amt > 0
      then (case apply_claim_reward (settlement_crypto env) (claim_tx_of env k epoch nid amt s) s of
              (Inr _, s') \<Rightarrow> (Inr (True, False), s')
            | (Inl (RewardAlreadyClaimed _), s') \<Rightarrow> (Inr (False, True), s')
            | (Inl e, s') \<Rightarrow> (Inl (SettleTransition e), s'))
      else (Inr (False, False), s))"

definition local_reward_of :: "node_id \<Rightarrow> epoch_reward_artifact \<Rightarrow> amount" where
  "local_reward_of nid rew =
     (case find (\<lambda>entry. rw_node_id (en_reward entry) = nid) (er_records rew) of
        None \<Rightarrow> 0 | Some entry \<Rightarrow> rw_net_reward (en_reward entry))"

definition upsert_reward_records :: "epoch_reward_artifact \<Rightarrow> protocol_state \<Rightarrow> protocol_state" where
  "upsert_reward_records rew s = foldl (\<lambda>s entry. upsert_reward_record (en_reward entry) s) s (er_records rew)"

text \<open>The steps on the chain state, from the bootstrapped state on.\<close>

record chain_steps =
  cs_submitted :: nat
  cs_present :: nat
  cs_commit :: "bool \<times> bool"
  cs_finalized :: "bool \<times> bool"
  cs_node_id :: node_id
  cs_reward :: amount
  cs_claimed :: "bool \<times> bool"

definition settle_on_chain ::
  "settlement_env \<Rightarrow> key_pair \<Rightarrow> node_config \<Rightarrow> epoch_id \<Rightarrow> height \<Rightarrow> epoch_preparation_computation \<Rightarrow> local_data
    \<Rightarrow> protocol_state \<Rightarrow> (node_settlement_error, chain_steps, protocol_state) outcome" where
  "settle_on_chain env k config epoch submission_height prep ld s =
     try_then (bootstrap_local_chain_state config k s) (\<lambda>_ s.
     let s = s\<lparr>height := submission_height\<rparr> in
     try_with (map_sum (\<lambda>e. SettlePreparation (PrepDaemon e)) id
         (load_batches_for_epoch (se_node env) config epoch (ld_disk ld))) s (\<lambda>loaded.
     try_then (submit_batches env k loaded (0, 0) s) (\<lambda>counts s.
     try_then (apply_epoch_commit env k (pc_epoch_commit prep) s) (\<lambda>committed s.
     let s = upsert_reward_records (pc_reward_artifact prep) s;
         s = s\<lparr>height := max (height s) (saturating_add (pa_challenge_deadline_height (pc_artifact prep)) 1)\<rparr> in
     try_then (finalize_local_epoch epoch s) (\<lambda>finalized s.
     try_with (map_sum SettleConfig id (config_node_id config)) s (\<lambda>nid.
     let reward = local_reward_of nid (pc_reward_artifact prep) in
     try_then (claim_local_reward env k epoch nid reward s) (\<lambda>claimed s.
       (Inr \<lparr>cs_submitted = fst counts, cs_present = snd counts, cs_commit = committed, cs_finalized = finalized, cs_node_id = nid,
         cs_reward = reward, cs_claimed = claimed\<rparr>, s))))))))"

definition settlement_artifact_of ::
  "epoch_id \<Rightarrow> height \<Rightarrow> u32 \<Rightarrow> epoch_preparation_computation \<Rightarrow> chain_steps \<Rightarrow> address \<Rightarrow> protocol_state \<Rightarrow> epoch_settlement_artifact" where
  "settlement_artifact_of epoch submission_height window prep c a s =
     (let ca = pc_epoch_commit_artifact prep in
      \<lparr>sa_epoch_id = epoch, sa_submission_height = submission_height, sa_challenge_window_blocks = window,
       sa_challenge_deadline_height = pa_challenge_deadline_height (pc_artifact prep),
       sa_finalization_height = saturating_add (pa_challenge_deadline_height (pc_artifact prep)) 1,
       sa_prepared_ready_for_submission = pa_ready_for_submission (pc_artifact prep),
       sa_batch_count = ca_batch_count ca, sa_payload_count = ca_payload_count ca,
       sa_batch_submission_count = cs_submitted c, sa_batch_already_present_count = cs_present c,
       sa_reward_record_count = er_reward_count (pc_reward_artifact prep),
       sa_accepted_batches_root_hex = ca_accepted_batches_root_hex ca,
       sa_observations_root_hex = ca_observations_root_hex ca, sa_availability_root_hex = ca_availability_root_hex ca,
       sa_aggregates_root_hex = ca_aggregates_root_hex ca, sa_rewards_root_hex = ca_rewards_root_hex ca,
       sa_randomness_seed_hex = ca_randomness_seed_hex ca,
       sa_commit_applied = fst (cs_commit c), sa_commit_already_present = snd (cs_commit c),
       sa_epoch_finalized = fst (cs_finalized c), sa_epoch_already_finalized = snd (cs_finalized c),
       sa_local_node_id_hex = hex_32 (cs_node_id c), sa_local_reward_available = cs_reward c,
       sa_local_reward_claimed = fst (cs_claimed c), sa_local_reward_already_claimed = snd (cs_claimed c),
       sa_local_reward_balance = (case account (store s) a of None \<Rightarrow> 0 | Some x \<Rightarrow> acc_balance x),
       sa_current_epoch_after = current_epoch s\<rparr>)"

text \<open>The runtime state, the store and the artifact are saved after the last step.\<close>

definition persist_settlement ::
  "epoch_id \<Rightarrow> height \<Rightarrow> u32 \<Rightarrow> epoch_preparation_computation \<Rightarrow> address \<Rightarrow> local_data
    \<Rightarrow> (node_settlement_error, chain_steps, protocol_state) outcome \<Rightarrow> (node_settlement_error, epoch_settlement_artifact, local_data) outcome" where
  "persist_settlement epoch submission_height window prep reward_address ld r =
     (case fst r of
        Inl e \<Rightarrow> (Inl e, ld)
      | Inr c \<Rightarrow>
          let s = snd r; artifact = settlement_artifact_of epoch submission_height window prep c reward_address s
          in (Inr artifact,
              ld\<lparr>ld_runtime := Some (Inr \<lparr>lr_height = height s, lr_current_epoch = current_epoch s\<rparr>),
                 ld_store := Inr (store s), ld_settlements := bt_insert epoch artifact (ld_settlements ld)\<rparr>))"

definition settle_local_epoch ::
  "settlement_env \<Rightarrow> node_config_error + key_pair \<Rightarrow> node_config \<Rightarrow> epoch_id \<Rightarrow> height \<Rightarrow> u32 \<Rightarrow> local_data
    \<Rightarrow> (node_settlement_error, epoch_settlement_artifact, local_data) outcome" where
  "settle_local_epoch env identity config epoch submission_height window ld =
     try_with (map_sum SettleConfig id identity) ld (\<lambda>k.
     try_with (map_sum SettlePreparation id
         (compute_local_epoch_preparation env identity config epoch submission_height window ld)) ld (\<lambda>prep.
     try_with (load_runtime_or_default (saturating_sub submission_height 1) epoch ld) ld (\<lambda>runtime.
     if submission_height \<le> lr_height runtime
     then (Inl (SubmissionHeightRegression submission_height (lr_height runtime)), ld)
     else
     try_with (map_sum SettleIo id (ld_store ld)) ld (\<lambda>st.
     try_with (ok_or (with_store (local_protocol_params (activated_params ld) config window) (lr_height runtime)
         (max (lr_current_epoch runtime) epoch) st) SettlePanic) ld (\<lambda>s.
       persist_settlement epoch submission_height window prep (kp_address k) ld
         (settle_on_chain env k config epoch submission_height prep ld s))))))"

subsection \<open>Automatic settlement\<close>

definition auto_settlement_enabled :: "node_config \<Rightarrow> bool" where
  "auto_settlement_enabled config = cc_propose (nc_capabilities config)"

definition pending_auto_settlement_epochs :: "node_config \<Rightarrow> epoch_id \<Rightarrow> local_data \<Rightarrow> epoch_id list" where
  "pending_auto_settlement_epochs config next_epoch ld =
     (let latest_completed_epoch = saturating_sub next_epoch 1; first_epoch = co_default_epoch_id (nc_collect config) in
      if latest_completed_epoch < first_epoch then []
      else filter (\<lambda>epoch. bt_get (ld_settlements ld) epoch = None)
        (map word_of_nat [unat first_epoch ..< Suc (unat latest_completed_epoch)]))"

record auto_settlement_outcome =
  ao_artifacts :: "epoch_settlement_artifact list"
  ao_error :: "(epoch_id \<times> node_settlement_error) option"

fun auto_settle_pending_epochs ::
  "settlement_env \<Rightarrow> node_config_error + key_pair \<Rightarrow> node_config \<Rightarrow> epoch_id list \<Rightarrow> epoch_settlement_artifact list \<Rightarrow> local_data
    \<Rightarrow> auto_settlement_outcome \<times> local_data" where
  "auto_settle_pending_epochs env identity config [] artifacts ld = (\<lparr>ao_artifacts = artifacts, ao_error = None\<rparr>, ld)"
| "auto_settle_pending_epochs env identity config (epoch # rest) artifacts ld =
     (case suggested_settlement_height config ld of
        Inl e \<Rightarrow> (\<lparr>ao_artifacts = artifacts, ao_error = Some (epoch, e)\<rparr>, ld)
      | Inr submission_height \<Rightarrow>
          (case settle_local_epoch env identity config epoch submission_height
              (effective_challenge_window_blocks (activated_params ld) config) ld of
             (Inl e, ld') \<Rightarrow> (\<lparr>ao_artifacts = artifacts, ao_error = Some (epoch, e)\<rparr>, ld')
           | (Inr artifact, ld') \<Rightarrow> auto_settle_pending_epochs env identity config rest (artifacts @ [artifact]) ld'))"

end
