(* ===== verification/Settlement_Laws.thy ===== *)
theory Settlement_Laws
  imports Settlement Reward_Conservation
begin

text \<open>
  What settling an epoch guarantees: a settlement that fails leaves the local chain alone, one that
  succeeds settles batches of the node's own key only, keeps the chain sound, and cannot be repeated.
\<close>

subsection \<open>The steps\<close>

lemma submit_passes:
  assumes "apply_submit_batch env tx s = (r, s')" "\<And>e. r = Inl e \<Longrightarrow> \<exists>key. e = DuplicateBatch key"
  shows "stable_hash32 (to_bytes32 (sb_pubkey tx)) = bc_collector_id (sb_batch_commit tx)"
    and "current_epoch s \<le> bc_epoch_id (sb_batch_commit tx)"
    and "\<exists>m. s' = s\<lparr>store := (store s)\<lparr>batches := m\<rparr>\<rparr>"
proof -
  from assms have "stable_hash32 (to_bytes32 (sb_pubkey tx)) = bc_collector_id (sb_batch_commit tx)
    \<and> current_epoch s \<le> bc_epoch_id (sb_batch_commit tx)"
    by (force simp: apply_submit_batch_def Let_def ensure_signature_def ensure_epoch_not_stale_def split: if_splits)
  moreover have "\<exists>m. snd (apply_submit_batch env tx s) = s\<lparr>store := (store s)\<lparr>batches := m\<rparr>\<rparr>"
    by (rule apply_submit_batch_rule) (auto simp: store_writes on_store_def intro: exI [of _ "batches (store s)"])
  ultimately show "stable_hash32 (to_bytes32 (sb_pubkey tx)) = bc_collector_id (sb_batch_commit tx)"
    "current_epoch s \<le> bc_epoch_id (sb_batch_commit tx)" "\<exists>m. s' = s\<lparr>store := (store s)\<lparr>batches := m\<rparr>\<rparr>"
    using assms(1) by simp_all
qed

lemma submit_batch_of_simps [simp]:
  "sb_batch_commit (submit_batch_of env k b) = ab_batch_commit b" "sb_pubkey (submit_batch_of env k b) = kp_public k"
  by (simp_all add: submit_batch_of_def Let_def)

lemma submit_batches_Cons_Inr:
  assumes "submit_batches env k (b # bs) counts s = (Inr c, s')"
  obtains r s1 counts' where "apply_submit_batch (settlement_crypto env) (submit_batch_of env k b) s = (r, s1)"
    "\<And>e. r = Inl e \<Longrightarrow> \<exists>key. e = DuplicateBatch key" "submit_batches env k bs counts' s1 = (Inr c, s')"
proof -
  obtain r s1 where step: "apply_submit_batch (settlement_crypto env) (submit_batch_of env k b) s = (r, s1)"
    by fastforce
  obtain n m where counts: "counts = (n, m)" by fastforce
  show ?thesis
  proof (cases r)
    case (Inr x)
    then show ?thesis using that [OF step] assms step counts by simp
  next
    case (Inl e)
    with assms step counts obtain key where "e = DuplicateBatch key" by (cases e) auto
    with assms step counts Inl have "submit_batches env k bs (n, Suc m) s1 = (Inr c, s')" by simp
    then show ?thesis by (rule that [OF step, rotated]) (use Inl \<open>e = DuplicateBatch key\<close> in blast)
  qed
qed

lemma submit_batches_Inr:
  assumes "submit_batches env k bs counts s = (Inr c, s')"
  shows "\<forall>b \<in> set bs. bc_collector_id (ab_batch_commit b) = stable_hash32 (to_bytes32 (kp_public k))
      \<and> current_epoch s \<le> bc_epoch_id (ab_batch_commit b)"
    and "\<exists>m. s' = s\<lparr>store := (store s)\<lparr>batches := m\<rparr>\<rparr>"
proof -
  from assms have "(\<forall>b \<in> set bs. bc_collector_id (ab_batch_commit b) = stable_hash32 (to_bytes32 (kp_public k))
      \<and> current_epoch s \<le> bc_epoch_id (ab_batch_commit b)) \<and> (\<exists>m. s' = s\<lparr>store := (store s)\<lparr>batches := m\<rparr>\<rparr>)"
  proof (induction bs arbitrary: counts s)
    case Nil
    then show ?case by (auto intro: exI [of _ "batches (store s)"])
  next
    case (Cons b bs)
    from Cons.prems show ?case
    proof (rule submit_batches_Cons_Inr)
      fix r s1 counts'
      assume step: "apply_submit_batch (settlement_crypto env) (submit_batch_of env k b) s = (r, s1)"
          "\<And>e. r = Inl e \<Longrightarrow> \<exists>key. e = DuplicateBatch key"
        and rest: "submit_batches env k bs counts' s1 = (Inr c, s')"
      from submit_passes(3) [OF step] obtain m where "s1 = s\<lparr>store := (store s)\<lparr>batches := m\<rparr>\<rparr>" by blast
      with Cons.IH [OF rest] submit_passes(1,2) [OF step] show ?thesis by auto
    qed
  qed
  then show "\<forall>b \<in> set bs. bc_collector_id (ab_batch_commit b) = stable_hash32 (to_bytes32 (kp_public k))
      \<and> current_epoch s \<le> bc_epoch_id (ab_batch_commit b)" "\<exists>m. s' = s\<lparr>store := (store s)\<lparr>batches := m\<rparr>\<rparr>"
    by blast+
qed

lemma apply_epoch_commit_state:
  "\<exists>m. snd (apply_epoch_commit env k commit s) = s\<lparr>store := (store s)\<lparr>epoch_commits := m\<rparr>\<rparr>"
proof -
  have "\<exists>m. snd (apply_commit_epoch e tx s) = s\<lparr>store := (store s)\<lparr>epoch_commits := m\<rparr>\<rparr>" for e tx
    by (rule apply_commit_epoch_rule) (auto simp: store_writes on_store_def intro: exI [of _ "epoch_commits (store s)"])
  then show ?thesis
    by (auto simp: apply_epoch_commit_def Let_def split: prod.split sum.split transition_error.split)
       (metis snd_conv)+
qed

text \<open>What a successful run of the chain steps went through.\<close>

lemma settle_on_chain_Inr:
  assumes "settle_on_chain env k config epoch h prep ld s = (Inr c, s')"
  obtains s1 loaded counts s2 s3 s4 nid where
    "bootstrap_local_chain_state config k s = (Inr (), s1)"
    "load_batches_for_epoch (se_node env) config epoch (ld_disk ld) = Inr loaded"
    "submit_batches env k loaded (0, 0) (s1\<lparr>height := h\<rparr>) = (Inr counts, s2)"
    "apply_epoch_commit env k (pc_epoch_commit prep) s2 = (Inr (cs_commit c), s3)"
    "finalize_local_epoch epoch ((upsert_reward_records (pc_reward_artifact prep) s3)
       \<lparr>height := max (height (upsert_reward_records (pc_reward_artifact prep) s3))
          (saturating_add (pa_challenge_deadline_height (pc_artifact prep)) 1)\<rparr>) = (Inr (cs_finalized c), s4)"
    "config_node_id config = Inr nid" "cs_node_id c = nid" "cs_reward c = local_reward_of nid (pc_reward_artifact prep)"
    "claim_local_reward env k epoch nid (cs_reward c) s4 = (Inr (cs_claimed c), s')"
    "cs_submitted c = fst counts" "cs_present c = snd counts"
  using assms
  by (auto simp: settle_on_chain_def Let_def try_then_Inr_iff try_with_Inr_iff map_sum_eq_Inr)

lemma with_store_Some_iff:
  "with_store p h epoch st = Some s \<longleftrightarrow>
     validate p = Inr () \<and> s = \<lparr>height = h, current_epoch = epoch, params = p, store = st\<rparr>"
  by (cases "validate p") (auto simp: with_store_def)

lemma persist_settlement_Inr_iff:
  "persist_settlement epoch h window prep a ld r = (Inr artifact, ld') \<longleftrightarrow>
     (\<exists>c s. r = (Inr c, s) \<and> artifact = settlement_artifact_of epoch h window prep c a s
       \<and> ld' = ld\<lparr>ld_runtime := Some (Inr \<lparr>lr_height = height s, lr_current_epoch = current_epoch s\<rparr>),
           ld_store := Inr (store s), ld_settlements := bt_insert epoch artifact (ld_settlements ld)\<rparr>)"
  by (cases r; cases "fst r") (auto simp: persist_settlement_def Let_def)

lemma persist_settlement_Inl:
  "persist_settlement epoch h window prep a ld r = (Inl e, ld') \<Longrightarrow> ld' = ld"
  by (cases r; cases "fst r") (auto simp: persist_settlement_def Let_def)

lemma settle_local_epoch_Inr:
  assumes "settle_local_epoch env identity config epoch h window ld = (Inr artifact, ld')"
  obtains k prep runtime st c s' where
    "identity = Inr k" "compute_local_epoch_preparation env identity config epoch h window ld = Inr prep"
    "load_runtime_or_default (saturating_sub h 1) epoch ld = Inr runtime" "lr_height runtime < h"
    "ld_store ld = Inr st" "validate (local_protocol_params (activated_params ld) config window) = Inr ()"
    "settle_on_chain env k config epoch h prep ld \<lparr>height = lr_height runtime,
       current_epoch = max (lr_current_epoch runtime) epoch,
       params = local_protocol_params (activated_params ld) config window, store = st\<rparr> = (Inr c, s')"
    "ld' = ld\<lparr>ld_runtime := Some (Inr \<lparr>lr_height = height s', lr_current_epoch = current_epoch s'\<rparr>),
       ld_store := Inr (store s'), ld_settlements := bt_insert epoch artifact (ld_settlements ld)\<rparr>"
    "artifact = settlement_artifact_of epoch h window prep c (kp_address k) s'"
  using assms
  by (force simp: settle_local_epoch_def try_with_Inr_iff map_sum_eq_Inr with_store_Some_iff persist_settlement_Inr_iff
      not_le split: if_splits)

lemma settle_local_epoch_error:
  "settle_local_epoch env identity config epoch h window ld = (Inl e, ld') \<Longrightarrow> ld' = ld"
  by (auto simp: settle_local_epoch_def try_with_Inl_iff persist_settlement_Inl split: if_splits)

subsection \<open>What the steps leave alone\<close>

lemma ensure_account_frame:
  "height (ensure_account_exists a s) = height s" "current_epoch (ensure_account_exists a s) = current_epoch s"
  "params (ensure_account_exists a s) = params s"
  by (simp_all add: ensure_account_exists_def upsert_account_def on_store_def)

lemma bootstrap_frame:
  assumes "bootstrap_local_chain_state config k s = (Inr u, s')"
  shows "height s' = height s" "current_epoch s' = current_epoch s" "params s' = params s"
  using assms
  by (auto simp: bootstrap_local_chain_state_def Let_def try_with_Inr_iff ensure_account_frame upsert_node_def on_store_def)

lemma upsert_reward_records_frame:
  "\<exists>m. upsert_reward_records rew s = s\<lparr>store := (store s)\<lparr>reward_records := m\<rparr>\<rparr>"
proof -
  have "\<exists>m. foldl (\<lambda>s entry. upsert_reward_record (en_reward entry) s) s entries
      = s\<lparr>store := (store s)\<lparr>reward_records := m\<rparr>\<rparr>" for entries
  proof (induction entries arbitrary: s)
    case Nil
    show ?case by (auto intro: exI [of _ "reward_records (store s)"])
  next
    case (Cons entry entries)
    obtain m where "foldl (\<lambda>s entry. upsert_reward_record (en_reward entry) s) (upsert_reward_record (en_reward entry) s) entries
        = (upsert_reward_record (en_reward entry) s)
            \<lparr>store := (store (upsert_reward_record (en_reward entry) s))\<lparr>reward_records := m\<rparr>\<rparr>"
      using Cons.IH by blast
    then show ?case by (auto simp: upsert_reward_record_def on_store_def store_writes)
  qed
  then show ?thesis by (simp add: upsert_reward_records_def)
qed

lemma expire_proposals_frame:
  "\<exists>accs props. snd (expire_proposals ps s) = s\<lparr>store := (store s)\<lparr>accounts := accs, params_update_proposals := props\<rparr>\<rparr>"
proof (induction ps arbitrary: s)
  case Nil
  show ?case
    by (intro exI [of _ "accounts (store s)"] exI [of _ "params_update_proposals (store s)"]) simp
next
  case (Cons p ps)
  have same: "\<exists>accs props. s = s\<lparr>store := (store s)\<lparr>accounts := accs, params_update_proposals := props\<rparr>\<rparr>" for s
    by (intro exI [of _ "accounts (store s)"] exI [of _ "params_update_proposals (store s)"]) simp
  have written: "\<exists>accs props. snd (expire_proposals ps (on_store (write_params_update_proposal pid rec)
      (on_store (write_account a x) s))) = s\<lparr>store := (store s)\<lparr>accounts := accs, params_update_proposals := props\<rparr>\<rparr>" for pid rec a x
    using Cons.IH [of "on_store (write_params_update_proposal pid rec) (on_store (write_account a x) s)"]
    by (auto simp: on_store_def store_writes)
  have first: "\<exists>accs props. on_store (write_account a x) s
      = s\<lparr>store := (store s)\<lparr>accounts := accs, params_update_proposals := props\<rparr>\<rparr>" for a x
    by (intro exI [of _ "bt_insert a x (accounts (store s))"] exI [of _ "params_update_proposals (store s)"])
      (simp add: on_store_def store_writes)
  show ?case
    using Cons.IH [of s] same [of s] written first
    by (simp only: expire_proposals.simps Let_def) (auto split: if_split simp: try_with_def split: sum.split)
qed

lemma activate_scheduled_frame: "current_epoch (activate_scheduled_protocol_params s) = current_epoch s"
  using activate_proposals_frame
  by (auto simp: activate_scheduled_protocol_params_def Let_def split: prod.split option.split)
     (metis protocol_state.ext_inject protocol_state.surjective protocol_state.update_convs)+

lemma finalize_epoch_current:
  assumes "finalize_epoch epoch s = (Inr e, s')" "current_epoch s \<le> epoch"
  shows "current_epoch s' = epoch + 1"
proof -
  have may: "may_close epoch s"
    using finalize_epoch_refuses [of epoch s] assms(1) by auto
  let ?s1 = "activate_scheduled_protocol_params (on_store (mark_epoch_finalized epoch) s\<lparr>current_epoch := epoch + 1\<rparr>)"
  from assms finalize_epoch_unfold [OF may] have "s' = snd (expire_stale_params_update_proposals ?s1)"
    by (auto simp: try_then_Inr_iff)
  moreover obtain accs props where "snd (expire_stale_params_update_proposals ?s1)
      = ?s1\<lparr>store := (store ?s1)\<lparr>accounts := accs, params_update_proposals := props\<rparr>\<rparr>"
    unfolding expire_stale_params_update_proposals_def using expire_proposals_frame by blast
  ultimately show ?thesis by (simp add: activate_scheduled_frame)
qed

lemma claim_frame:
  "\<exists>accs claims. snd (claim_local_reward env k epoch nid amt s)
     = s\<lparr>store := (store s)\<lparr>accounts := accs, claimed_rewards := claims\<rparr>\<rparr>"
proof -
  have same: "\<exists>accs claims. s = s\<lparr>store := (store s)\<lparr>accounts := accs, claimed_rewards := claims\<rparr>\<rparr>"
    by (intro exI [of _ "accounts (store s)"] exI [of _ "claimed_rewards (store s)"]) simp
  have "\<exists>accs claims. snd (apply_claim_reward e tx s)
      = s\<lparr>store := (store s)\<lparr>accounts := accs, claimed_rewards := claims\<rparr>\<rparr>" for e tx
    by (rule apply_claim_reward_rule) (use same in \<open>auto simp: on_store_def store_writes\<close>)
  then show ?thesis
    using same by (auto simp: claim_local_reward_def split: prod.split sum.split transition_error.split) (metis snd_conv)+
qed

subsection \<open>Which epochs are settled\<close>

lemma settle_on_chain_batches:
  assumes "settle_on_chain env k config epoch h prep ld s = (Inr c, s')"
    and "load_batches_for_epoch (se_node env) config epoch (ld_disk ld) = Inr loaded" "b \<in> set loaded"
  shows "bc_collector_id (ab_batch_commit b) = stable_hash32 (to_bytes32 (kp_public k))" "current_epoch s \<le> epoch"
proof -
  from assms(1) have "bc_collector_id (ab_batch_commit b) = stable_hash32 (to_bytes32 (kp_public k)) \<and> current_epoch s \<le> epoch"
  proof (rule settle_on_chain_Inr)
    fix s1 loaded' counts s2
    assume "bootstrap_local_chain_state config k s = (Inr (), s1)"
      and "load_batches_for_epoch (se_node env) config epoch (ld_disk ld) = Inr loaded'"
      and sub: "submit_batches env k loaded' (0, 0) (s1\<lparr>height := h\<rparr>) = (Inr counts, s2)"
    then show ?thesis
      using submit_batches_Inr(1) [OF sub] assms(2,3) load_batches_epoch [OF assms(2,3)] bootstrap_frame(2) by fastforce
  qed
  then show "bc_collector_id (ab_batch_commit b) = stable_hash32 (to_bytes32 (kp_public k))" "current_epoch s \<le> epoch"
    by simp_all
qed

text \<open>Only batches that the settling key collected are settled.\<close>

lemma settled_batches_own:
  assumes "settle_local_epoch env (Inr k) config epoch h window ld = (Inr artifact, ld')"
    and "load_batches_for_epoch (se_node env) config epoch (ld_disk ld) = Inr loaded" "b \<in> set loaded"
  shows "bc_collector_id (ab_batch_commit b) = stable_hash32 (to_bytes32 (kp_public k))"
  using assms(1)
  by (rule settle_local_epoch_Inr) (use settle_on_chain_batches(1) [OF _ assms(2,3)] in simp)

text \<open>An epoch before the current one of the local chain is not settled any more.\<close>

lemma settled_epoch_current:
  assumes "settle_local_epoch env identity config epoch h window ld = (Inr artifact, ld')"
    and "load_runtime_or_default (saturating_sub h 1) epoch ld = Inr runtime"
  shows "lr_current_epoch runtime \<le> epoch"
  using assms(1)
proof (rule settle_local_epoch_Inr)
  fix k prep runtime' st c s'
  assume prep: "compute_local_epoch_preparation env identity config epoch h window ld = Inr prep"
    and runtime': "load_runtime_or_default (saturating_sub h 1) epoch ld = Inr runtime'"
    and run: "settle_on_chain env k config epoch h prep ld \<lparr>height = lr_height runtime',
       current_epoch = max (lr_current_epoch runtime') epoch,
       params = local_protocol_params (activated_params ld) config window, store = st\<rparr> = (Inr c, s')"
  from prep obtain loaded where "prepared_from env identity config epoch h window ld prep loaded"
    by (rule preparation_Inr)
  then have "load_batches_for_epoch (se_node env) config epoch (ld_disk ld) = Inr loaded" "hd loaded \<in> set loaded"
    by (simp_all add: prepared_from_def)
  from settle_on_chain_batches(2) [OF run this] runtime' assms(2) show ?thesis by simp
qed

lemma past_epoch_refused:
  assumes "ld_runtime ld = Some (Inr runtime)" "epoch < lr_current_epoch runtime"
  shows "\<exists>e. settle_local_epoch env identity config epoch h window ld = (Inl e, ld)"
proof -
  obtain r ld' where run: "settle_local_epoch env identity config epoch h window ld = (r, ld')" by fastforce
  show ?thesis
  proof (cases r)
    case (Inl e)
    then show ?thesis using run settle_local_epoch_error by blast
  next
    case (Inr artifact)
    with run settled_epoch_current [of env identity config epoch h window ld artifact ld' runtime] assms
    show ?thesis by (simp add: load_runtime_or_default_def)
  qed
qed

lemma settlement_advances:
  assumes "settle_local_epoch env identity config epoch h window ld = (Inr artifact, ld')" "sa_epoch_finalized artifact"
  obtains runtime where "ld_runtime ld' = Some (Inr runtime)" "lr_current_epoch runtime = epoch + 1"
  using assms(1)
proof (rule settle_local_epoch_Inr)
  fix k prep runtime st c s'
  assume prep: "compute_local_epoch_preparation env identity config epoch h window ld = Inr prep"
    and runtime: "load_runtime_or_default (saturating_sub h 1) epoch ld = Inr runtime"
    and run: "settle_on_chain env k config epoch h prep ld \<lparr>height = lr_height runtime,
       current_epoch = max (lr_current_epoch runtime) epoch,
       params = local_protocol_params (activated_params ld) config window, store = st\<rparr> = (Inr c, s')"
    and ld': "ld' = ld\<lparr>ld_runtime := Some (Inr \<lparr>lr_height = height s', lr_current_epoch = current_epoch s'\<rparr>),
       ld_store := Inr (store s'), ld_settlements := bt_insert epoch artifact (ld_settlements ld)\<rparr>"
    and artifact: "artifact = settlement_artifact_of epoch h window prep c (kp_address k) s'"
  from run have "current_epoch s' = epoch + 1"
  proof (rule settle_on_chain_Inr)
    fix s1 loaded counts s2 s3 s4 nid
    assume boot: "bootstrap_local_chain_state config k \<lparr>height = lr_height runtime,
         current_epoch = max (lr_current_epoch runtime) epoch,
         params = local_protocol_params (activated_params ld) config window, store = st\<rparr> = (Inr (), s1)"
      and sub: "submit_batches env k loaded (0, 0) (s1\<lparr>height := h\<rparr>) = (Inr counts, s2)"
      and com: "apply_epoch_commit env k (pc_epoch_commit prep) s2 = (Inr (cs_commit c), s3)"
      and fin: "finalize_local_epoch epoch ((upsert_reward_records (pc_reward_artifact prep) s3)
         \<lparr>height := max (height (upsert_reward_records (pc_reward_artifact prep) s3))
            (saturating_add (pa_challenge_deadline_height (pc_artifact prep)) 1)\<rparr>) = (Inr (cs_finalized c), s4)"
        (is "finalize_local_epoch epoch ?s = _")
      and claim: "claim_local_reward env k epoch nid (cs_reward c) s4 = (Inr (cs_claimed c), s')"
    have "max (lr_current_epoch runtime) epoch = epoch"
      using settled_epoch_current [OF assms(1) runtime] by (simp add: max_def)
    then have cur: "current_epoch ?s = epoch"
      using bootstrap_frame(2) [OF boot] submit_batches_Inr(2) [OF sub] apply_epoch_commit_state [of env k "pc_epoch_commit prep" s2]
        upsert_reward_records_frame [of "pc_reward_artifact prep" s3] com by auto
    have "fst (cs_finalized c)"
      using assms(2) artifact by (simp add: settlement_artifact_of_def Let_def)
    with fin obtain e where closed: "finalize_epoch epoch ?s = (Inr e, s4)"
      by (cases "cs_finalized c") (auto simp: finalize_local_epoch_def split: prod.splits sum.splits transition_error.splits)
    from finalize_epoch_current [OF closed eq_refl [OF cur]] show ?thesis
      using claim_frame [of env k epoch nid "cs_reward c" s4] claim by auto
  qed
  then show ?thesis using that ld' by simp
qed

lemma settled_once:
  assumes "settle_local_epoch env identity config epoch h window ld = (Inr artifact, ld')" "sa_epoch_finalized artifact"
    and "epoch + 1 \<noteq> 0" "earlier \<le> epoch"
  shows "\<exists>e. settle_local_epoch env2 identity2 config2 earlier h2 window2 ld' = (Inl e, ld')"
  using assms(1,2)
proof (rule settlement_advances)
  fix runtime
  assume runtime: "ld_runtime ld' = Some (Inr runtime)" "lr_current_epoch runtime = epoch + 1"
  have "earlier < epoch + 1"
    using assms(3,4) unatSuc [of epoch] by (simp add: word_less_nat_alt word_le_nat_alt add.commute)
  then show ?thesis by (intro past_epoch_refused [OF runtime(1)]) (simp only: runtime(2))
qed

end
