(* ===== verification/Settlement_Ledger.thy ===== *)
theory Settlement_Ledger
  imports Settlement_Laws
begin

text \<open>
  The local chain stays sound over settlements, and a settlement mints exactly the reward it claims.
  \<open>local_chain_sound\<close> is the invariant of the chain files: without a runtime file the store is the empty one,
  otherwise the store is sound at the saved height.
\<close>

subsection \<open>Sound steps\<close>

lemma sound_later:
  assumes "sound s" "height s \<le> h"
  shows "sound (s\<lparr>height := h\<rparr>)"
  using assms by (fastforce simp: sound_def settled_def governed_def)

lemma ensure_account_sound:
  assumes "sound s"
  shows "sound (ensure_account_exists a s)" "total_supply (store (ensure_account_exists a s)) = total_supply (store s)"
    "outstanding (store (ensure_account_exists a s)) = outstanding (store s)"
proof -
  let ?new = "\<lparr>acc_address = a, acc_balance = 0, acc_staked = 0, acc_locked = 0, acc_nonce = 0\<rparr>"
  have supp: "total_supply (store (upsert_account ?new s)) = total_supply (store s)" if "account (store s) a = None"
    using bt_total_insert [of acc_total a ?new "accounts (store s)"] that
    by (simp add: upsert_account_def store_writes on_store_def total_supply_def account_def acc_total_def)
  have out: "outstanding (store (upsert_account ?new s)) = outstanding (store s)"
    by (simp add: upsert_account_def store_writes on_store_def outstanding_def)
  show "sound (ensure_account_exists a s)" "total_supply (store (ensure_account_exists a s)) = total_supply (store s)"
    "outstanding (store (ensure_account_exists a s)) = outstanding (store s)"
    using assms supp out soundD(1) [OF assms, THEN solvent_parts(1)]
    by (auto simp: ensure_account_exists_def intro!: upsert_account_sound simp: funded_def)
qed

lemma bootstrap_sound:
  assumes "sound s" "bootstrap_local_chain_state config k s = (Inr u, s')"
  shows "sound s'" "total_supply (store s') = total_supply (store s)" "outstanding (store s') = outstanding (store s)"
    "params_update_proposals (store s') = params_update_proposals (store s)"
proof -
  from assms(2) obtain s1 where s': "s' = ensure_account_exists (kp_address k) s1"
    and s1: "s1 = s \<or> (\<exists>n. s1 = upsert_node n s)"
    by (auto simp: bootstrap_local_chain_state_def Let_def try_with_Inr_iff split: if_splits)
  have "sound s1" using s1 assms(1) upsert_node_sound by blast
  moreover have "total_supply (store s1) = total_supply (store s)" "outstanding (store s1) = outstanding (store s)"
    "params_update_proposals (store s1) = params_update_proposals (store s)"
    using s1 by (auto simp: upsert_node_def on_store_def store_writes total_supply_def outstanding_def)
  ultimately show "sound s'" "total_supply (store s') = total_supply (store s)" "outstanding (store s') = outstanding (store s)"
    "params_update_proposals (store s') = params_update_proposals (store s)"
    by (simp_all add: s' ensure_account_sound)
      (simp add: ensure_account_exists_def upsert_account_def on_store_def store_writes)
qed

lemma submit_batches_sound:
  assumes "submit_batches env k bs counts s = (Inr c, s')" "sound s"
  shows "sound s'"
  using assms
proof (induction bs arbitrary: counts s)
  case Nil
  then show ?case by simp
next
  case (Cons b bs)
  from Cons.prems(1) show ?case
  proof (rule submit_batches_Cons_Inr)
    fix r s1 counts'
    assume step: "apply_submit_batch (settlement_crypto env) (submit_batch_of env k b) s = (r, s1)"
      and rest: "submit_batches env k bs counts' s1 = (Inr c, s')"
    have "sound s1"
      using sound_blocks.transaction_keeps [OF Cons.prems(2), of "settlement_crypto env" "SubmitBatch (submit_batch_of env k b)"] step
      by simp
    then show ?thesis by (rule Cons.IH [OF rest])
  qed
qed

lemma apply_epoch_commit_sound:
  assumes "sound s"
  shows "sound (snd (apply_epoch_commit env k commit s))"
proof -
  have "sound (snd (apply_commit_epoch (settlement_crypto env) tx s))" for tx
    using sound_blocks.transaction_keeps [OF assms, of "settlement_crypto env" "CommitEpoch tx"] by simp
  then show ?thesis
    by (auto simp: apply_epoch_commit_def Let_def split: prod.split sum.split transition_error.split) (metis snd_conv)+
qed

lemma outstanding_insert_reward:
  "outstanding (insert_reward_record key r st) \<le> outstanding st + unat (rw_net_reward r)"
proof -
  let ?f = "\<lambda>k r. if bs_contains (claimed_rewards st) k then 0 else unat (rw_net_reward r)"
  have "(\<Sum>(k, v)\<leftarrow>bt_entries (bt_insert key r (reward_records st)). ?f k v)
      \<le> (\<Sum>(k, v)\<leftarrow>bt_entries (reward_records st). ?f k v) + ?f key r"
    using bt.total_ins [of ?f key r "reward_records st"] by linarith
  also have "?f key r \<le> unat (rw_net_reward r)" by simp
  finally show ?thesis by (simp add: outstanding_def store_writes)
qed

definition rewards_total :: "epoch_reward_entry list \<Rightarrow> nat" where
  "rewards_total entries = (\<Sum>entry\<leftarrow>entries. unat (rw_net_reward (en_reward entry)))"

lemma upsert_rewards_sound:
  assumes "sound s" "total_supply (store s) + outstanding (store s) + rewards_total (er_records rew) < 2 ^ 128 - 1"
  shows "sound (upsert_reward_records rew s)"
proof -
  have "sound (foldl (\<lambda>s entry. upsert_reward_record (en_reward entry) s) s entries)"
    if "sound s" "total_supply (store s) + outstanding (store s) + rewards_total entries < 2 ^ 128 - 1" for entries
    using that
  proof (induction entries arbitrary: s)
    case (Cons entry entries)
    let ?s = "upsert_reward_record (en_reward entry) s"
    have "total_supply (store ?s) = total_supply (store s)"
      by (simp add: upsert_reward_record_def on_store_def store_writes total_supply_def)
    moreover have "outstanding (store ?s) \<le> outstanding (store s) + unat (rw_net_reward (en_reward entry))"
      using outstanding_insert_reward by (simp add: upsert_reward_record_def on_store_def)
    ultimately have room: "total_supply (store ?s) + outstanding (store ?s) + rewards_total entries < 2 ^ 128 - 1"
      using Cons.prems(2) by (simp add: rewards_total_def)
    then have "sound ?s" by (intro upsert_reward_sound [OF Cons.prems(1)]) (simp add: funded_def)
    then show ?case using Cons.IH room by simp
  qed simp
  with assms show ?thesis by (simp add: upsert_reward_records_def)
qed

subsection \<open>The last two steps\<close>

lemma finalize_local_epoch_ledger:
  assumes "finalize_local_epoch epoch s = (Inr flags, s')" "sound s" "current_epoch s \<le> epoch"
  shows "sound s'" "outstanding (store s') = outstanding (store s)" "height s' = height s"
    "total_supply (store s') + (if fst flags then stale_bonds (epoch + 1) (store s) else 0) = total_supply (store s)"
proof -
  obtain r t where run: "finalize_epoch epoch s = (r, t)" by fastforce
  have t: "t = s'" and flags: "fst flags \<longleftrightarrow> (\<exists>e. r = Inr e)"
    using assms(1) run by (auto simp: finalize_local_epoch_def split: sum.splits transition_error.splits)
  show "sound s'" using finalize_epoch_sound [OF assms(2), of epoch] run t by simp
  show "outstanding (store s') = outstanding (store s)" "height s' = height s"
    "total_supply (store s') + (if fst flags then stale_bonds (epoch + 1) (store s) else 0) = total_supply (store s)"
    using finalize_epoch_advances [OF soundD(1) [OF assms(2)] _ assms(3)] finalize_epoch_refuses [of epoch s] run t flags
    by (cases "may_close epoch s"; force simp: untouched_by_closing_def outstanding_def)+
qed

lemma claim_local_reward_ledger:
  assumes "claim_local_reward env k epoch nid amt s = (Inr flags, s')" "sound s"
  shows "sound s'" "height s' = height s"
    "total_supply (store s') = total_supply (store s) + (if fst flags then unat amt else 0)"
    "fst flags \<Longrightarrow> 0 < amt \<and> \<not> is_reward_claimed (store s) (epoch, nid) \<and> is_reward_claimed (store s') (epoch, nid)"
proof -
  let ?tx = "claim_tx_of env k epoch nid amt s"
  let ?run = "apply_claim_reward (settlement_crypto env) ?tx s"
  have tx: "Records.ct_epoch_id ?tx = epoch" "ct_node_id ?tx = nid" "ct_amount ?tx = amt"
    by (simp_all add: claim_tx_of_def Let_def)
  have sound: "sound (snd ?run)"
    using sound_blocks.transaction_keeps [OF assms(2), of "settlement_crypto env" "ClaimReward ?tx"] by simp
  have inr: "(\<exists>e. ?run = (Inl e, s)) \<or> (\<exists>a. ?run = (Inr (RewardClaimed epoch nid a amt), snd ?run)
      \<and> \<not> is_reward_claimed (store s) (epoch, nid) \<and> is_reward_claimed (store (snd ?run)) (epoch, nid))"
    by (rule apply_claim_reward_rule)
      (auto simp: tx store_writes on_store_def is_reward_claimed_def)
  have led: "accounted (store s) ?run"
    by (rule claim_reward_accounted [OF soundD(1) [OF assms(2), THEN solvent_parts(1)]])
  have "?run = (Inr e, t) \<Longrightarrow> effect_minted e = unat amt \<and> effect_fee e = 0" for e t
    using inr by auto
  then have minted: "?run = (Inr e, t) \<Longrightarrow> total_supply (store t) = total_supply (store s) + unat amt" for e t
    using led by simp
  consider (nothing) "amt = 0" "flags = (False, False)" "s' = s"
    | (claimed) e where "0 < amt" "?run = (Inr e, s')" "flags = (True, False)"
    | (already) e where "?run = (Inl e, s')" "flags = (False, True)"
    using assms(1)
    by (auto simp: claim_local_reward_def word_gt_0 split: if_splits prod.splits sum.splits transition_error.splits)
  then have "sound s' \<and> total_supply (store s') = total_supply (store s) + (if fst flags then unat amt else 0)
    \<and> (fst flags \<longrightarrow> 0 < amt \<and> \<not> is_reward_claimed (store s) (epoch, nid) \<and> is_reward_claimed (store s') (epoch, nid))"
  proof cases
    case nothing
    then show ?thesis using assms(2) by simp
  next
    case claimed
    then show ?thesis using sound inr minted [of e s'] by auto
  next
    case already
    then show ?thesis using sound inr by auto
  qed
  then show "sound s'" "total_supply (store s') = total_supply (store s) + (if fst flags then unat amt else 0)"
    "fst flags \<Longrightarrow> 0 < amt \<and> \<not> is_reward_claimed (store s) (epoch, nid) \<and> is_reward_claimed (store s') (epoch, nid)"
    by blast+
  show "height s' = height s"
    using claim_frame [of env k epoch nid amt s] assms(1) by auto
qed

subsection \<open>The chain files\<close>

definition store_sound :: "height \<Rightarrow> in_memory_store \<Rightarrow> bool" where
  "store_sound h st \<longleftrightarrow> solvent st \<and> settled \<lparr>height = h, current_epoch = 0, params = default_protocol_params, store = st\<rparr>
     \<and> (\<forall>epoch p. scheduled_params_for st epoch = Some p \<longrightarrow> validate p = Inr ())"

lemma store_sound_iff:
  "store_sound (height s) (store s) \<and> validate (params s) = Inr () \<longleftrightarrow> sound s"
  by (auto simp: store_sound_def sound_def settled_def governed_def)

definition local_chain_sound :: "local_data \<Rightarrow> bool" where
  "local_chain_sound ld \<longleftrightarrow> (case ld_runtime ld of
      None \<Rightarrow> ld_store ld = Inr default_store
    | Some (Inl e) \<Rightarrow> True
    | Some (Inr r) \<Rightarrow> (\<forall>st. ld_store ld = Inr st \<longrightarrow> store_sound (lr_height r) st))"

lemma default_store_sound: "store_sound h default_store"
proof -
  have "validate default_protocol_params = Inr ()" by code_simp
  then have "new_state default_protocol_params h 0 = Some \<lparr>height = h, current_epoch = 0, params = default_protocol_params, store = default_store\<rparr>"
    by (simp add: new_state_def)
  from new_state_sound [OF this] show ?thesis
    using store_sound_iff [of "\<lparr>height = h, current_epoch = 0, params = default_protocol_params, store = default_store\<rparr>"] by simp
qed

lemma local_chain_sound_store:
  assumes "local_chain_sound ld" "load_runtime_or_default h0 epoch ld = Inr runtime" "ld_store ld = Inr st"
  shows "store_sound (lr_height runtime) st"
  using assms default_store_sound
  by (auto simp: local_chain_sound_def load_runtime_or_default_def split: option.splits sum.splits)

lemma settle_on_chain_ledger:
  assumes run: "settle_on_chain env k config epoch h prep ld s = (Inr c, s')"
    and "sound s" "height s < h" "current_epoch s = epoch"
    and room: "total_supply (store s) + outstanding (store s) + rewards_total (er_records (pc_reward_artifact prep)) < 2 ^ 128 - 1"
  shows "sound s'" "h \<le> height s'"
    "total_supply (store s') + (if fst (cs_finalized c) then stale_bonds (epoch + 1) (store s) else 0)
      = total_supply (store s) + (if fst (cs_claimed c) then unat (cs_reward c) else 0)"
    "fst (cs_claimed c) \<Longrightarrow> is_reward_claimed (store s') (epoch, cs_node_id c)"
proof -
  from run have "sound s' \<and> h \<le> height s'
    \<and> total_supply (store s') + (if fst (cs_finalized c) then stale_bonds (epoch + 1) (store s) else 0)
        = total_supply (store s) + (if fst (cs_claimed c) then unat (cs_reward c) else 0)
    \<and> (fst (cs_claimed c) \<longrightarrow> is_reward_claimed (store s') (epoch, cs_node_id c))"
  proof (rule settle_on_chain_Inr)
    fix s1 loaded counts s2 s3 s4 nid
    let ?rew = "pc_reward_artifact prep"
    let ?s = "(upsert_reward_records ?rew s3)\<lparr>height := max (height (upsert_reward_records ?rew s3))
       (saturating_add (pa_challenge_deadline_height (pc_artifact prep)) 1)\<rparr>"
    assume boot: "bootstrap_local_chain_state config k s = (Inr (), s1)"
      and sub: "submit_batches env k loaded (0, 0) (s1\<lparr>height := h\<rparr>) = (Inr counts, s2)"
      and com: "apply_epoch_commit env k (pc_epoch_commit prep) s2 = (Inr (cs_commit c), s3)"
      and fin: "finalize_local_epoch epoch ?s = (Inr (cs_finalized c), s4)"
      and nid: "cs_node_id c = nid"
      and claim: "claim_local_reward env k epoch nid (cs_reward c) s4 = (Inr (cs_claimed c), s')"
    note b = bootstrap_sound [OF assms(2) boot] bootstrap_frame [OF boot]
    have "sound (s1\<lparr>height := h\<rparr>)" using sound_later [OF b(1), of h] b(5) assms(3) by simp
    then have "sound s2" by (rule submit_batches_sound [OF sub])
    from apply_epoch_commit_sound [OF this, of env k "pc_epoch_commit prep"] com have sound3: "sound s3" by simp
    obtain m where s2: "s2 = s1\<lparr>height := h, store := (store s1)\<lparr>batches := m\<rparr>\<rparr>"
      using submit_batches_Inr(2) [OF sub] by auto
    obtain m' where s3: "s3 = s2\<lparr>store := (store s2)\<lparr>epoch_commits := m'\<rparr>\<rparr>"
      using apply_epoch_commit_state [of env k "pc_epoch_commit prep" s2] com by auto
    obtain m'' where up: "upsert_reward_records ?rew s3 = s3\<lparr>store := (store s3)\<lparr>reward_records := m''\<rparr>\<rparr>"
      using upsert_reward_records_frame by blast
    have same3: "total_supply (store s3) = total_supply (store s)" "outstanding (store s3) = outstanding (store s)"
      using b(2,3) by (simp_all add: s2 s3 total_supply_def outstanding_def)
    have "sound (upsert_reward_records ?rew s3)"
      by (rule upsert_rewards_sound [OF sound3]) (use room same3 in simp)
    then have sound: "sound ?s" by (rule sound_later) simp
    have cur: "current_epoch ?s = epoch" and h: "h \<le> height ?s"
      unfolding up unfolding s3 s2 using assms(4) b(6) by simp_all
    have same: "total_supply (store ?s) = total_supply (store s)" "stale_bonds (epoch + 1) (store ?s) = stale_bonds (epoch + 1) (store s)"
      unfolding up unfolding s3 s2 using b(2,4) by (simp_all add: total_supply_def stale_bonds_def)
    note f = finalize_local_epoch_ledger [OF fin sound eq_refl [OF cur]]
    note cl = claim_local_reward_ledger [OF claim f(1)]
    have "total_supply (store s') + (if fst (cs_finalized c) then stale_bonds (epoch + 1) (store s) else 0)
        = total_supply (store s) + (if fst (cs_claimed c) then unat (cs_reward c) else 0)"
      using cl(3) f(4) same by (simp split: if_splits)
    with cl(1,4) f(3) cl(2) h nid show ?thesis by auto
  qed
  then show "sound s'" "h \<le> height s'"
    "total_supply (store s') + (if fst (cs_finalized c) then stale_bonds (epoch + 1) (store s) else 0)
      = total_supply (store s) + (if fst (cs_claimed c) then unat (cs_reward c) else 0)"
    "fst (cs_claimed c) \<Longrightarrow> is_reward_claimed (store s') (epoch, cs_node_id c)"
    by blast+
qed

text \<open>The rewards of the epoch fit into what the ledger can hold.\<close>

definition rewards_fit :: "settlement_env \<Rightarrow> node_config_error + key_pair \<Rightarrow> node_config \<Rightarrow> epoch_id \<Rightarrow> local_data \<Rightarrow> bool" where
  "rewards_fit env identity config epoch ld \<longleftrightarrow>
     (case (ld_store ld, reward_local_epoch env identity config epoch ld) of
        (Inr st, Inr rew) \<Rightarrow> total_supply st + outstanding st + rewards_total (er_records rew) < 2 ^ 128 - 1
      | _ \<Rightarrow> True)"

lemma settle_local_epoch_ledger:
  assumes run: "settle_local_epoch env identity config epoch h window ld = (Inr artifact, ld')"
    and inv: "local_chain_sound ld" and fit: "rewards_fit env identity config epoch ld"
  obtains st st' r' where "local_chain_sound ld'" "ld_store ld = Inr st" "ld_store ld' = Inr st'"
    "ld_runtime ld' = Some (Inr r')" "h \<le> lr_height r'"
    "total_supply st' + (if sa_epoch_finalized artifact then stale_bonds (epoch + 1) st else 0)
       = total_supply st + (if sa_local_reward_claimed artifact then unat (sa_local_reward_available artifact) else 0)"
  using run
proof (rule settle_local_epoch_Inr)
  fix k prep runtime st c s'
  let ?p = "local_protocol_params (activated_params ld) config window"
  assume prep: "compute_local_epoch_preparation env identity config epoch h window ld = Inr prep"
    and runtime: "load_runtime_or_default (saturating_sub h 1) epoch ld = Inr runtime" and h: "lr_height runtime < h"
    and st: "ld_store ld = Inr st" and valid: "validate ?p = Inr ()"
    and run: "settle_on_chain env k config epoch h prep ld \<lparr>height = lr_height runtime,
       current_epoch = max (lr_current_epoch runtime) epoch, params = ?p, store = st\<rparr> = (Inr c, s')" (is "settle_on_chain _ _ _ _ _ _ _ ?s = _")
    and ld': "ld' = ld\<lparr>ld_runtime := Some (Inr \<lparr>lr_height = height s', lr_current_epoch = current_epoch s'\<rparr>),
       ld_store := Inr (store s'), ld_settlements := bt_insert epoch artifact (ld_settlements ld)\<rparr>"
    and artifact: "artifact = settlement_artifact_of epoch h window prep c (kp_address k) s'"
  from prep obtain loaded where "prepared_from env identity config epoch h window ld prep loaded"
    by (rule preparation_Inr)
  then have "reward_local_epoch env identity config epoch ld = Inr (pc_reward_artifact prep)"
    by (simp add: prepared_from_def)
  with fit st have room: "total_supply (store ?s) + outstanding (store ?s) + rewards_total (er_records (pc_reward_artifact prep)) < 2 ^ 128 - 1"
    by (simp add: rewards_fit_def)
  have "sound ?s"
    using store_sound_iff [of ?s] local_chain_sound_store [OF inv runtime st] valid by simp
  moreover have "current_epoch ?s = epoch"
    using settled_epoch_current [OF assms(1) runtime] by (simp add: max_def)
  ultimately have led: "sound s'" "h \<le> height s'"
    "total_supply (store s') + (if fst (cs_finalized c) then stale_bonds (epoch + 1) st else 0)
      = total_supply st + (if fst (cs_claimed c) then unat (cs_reward c) else 0)"
    using settle_on_chain_ledger [OF run _ _ _ room] h by (simp_all split: if_splits)
  have fields: "sa_epoch_finalized artifact = fst (cs_finalized c)" "sa_local_reward_claimed artifact = fst (cs_claimed c)"
    "sa_local_reward_available artifact = cs_reward c"
    by (simp_all add: artifact settlement_artifact_of_def Let_def)
  have "local_chain_sound ld'"
    using led(1) store_sound_iff [of s'] by (simp add: ld' local_chain_sound_def)
  then show ?thesis
    using led fields st
    by (intro that [of st "store s'" "\<lparr>lr_height = height s', lr_current_epoch = current_epoch s'\<rparr>"])
      (simp_all add: ld' split: if_splits)
qed

end
