(* ===== verification/Settlement_Success.thy ===== *)
theory Settlement_Success
  imports Settlement_Ledger
begin

text \<open>
  When settling succeeds. On an empty local chain a node whose own batches were prepared settles the
  epoch: every batch is submitted, the commit is applied, the epoch is finalised and the reward is paid.
\<close>

subsection \<open>One reward record per node\<close>

definition keyed :: "epoch_id \<Rightarrow> reward_map \<Rightarrow> bool" where
  "keyed epoch m \<longleftrightarrow> (\<forall>k r. bt_get m k = Some r \<longrightarrow> rw_node_id r = k \<and> rw_epoch_id r = epoch)"

definition keeps_key :: "(reward_record \<Rightarrow> reward_record) \<Rightarrow> bool" where
  "keeps_key f \<longleftrightarrow> (\<forall>r. rw_node_id (f r) = rw_node_id r \<and> rw_epoch_id (f r) = rw_epoch_id r)"

lemma keeps_key_updates [simp]:
  "keeps_key (add_component c v)" "keeps_key (\<lambda>r. r\<lparr>rw_verify_reward := g r\<rparr>)"
  "keeps_key (\<lambda>r. r\<lparr>rw_player_reward := g r\<rparr>)" "keeps_key (\<lambda>r. r\<lparr>rw_propose_reward := g r\<rparr>)"
  by (cases c) (auto simp: keeps_key_def)

lemma keyed_empty [simp]: "keyed epoch bt_empty"
  by (simp add: keyed_def)

lemma keyed_record:
  assumes "keyed epoch m" "keeps_key f"
  shows "keyed epoch (reward_record_for_node epoch nid recipient f m)"
proof -
  let ?old = "case bt_get m nid of None \<Rightarrow> empty_reward_record epoch nid | Some r \<Rightarrow> r"
  let ?new = "case recipient of Some addr \<Rightarrow> if addr \<noteq> [] then ?old\<lparr>rw_recipient_address := addr\<rparr> else ?old | None \<Rightarrow> ?old"
  have "rw_node_id ?old = nid \<and> rw_epoch_id ?old = epoch"
    using assms(1) by (auto simp: keyed_def empty_reward_record_def split: option.split)
  then have "rw_node_id ?new = nid \<and> rw_epoch_id ?new = epoch" by (auto split: option.split)
  then show ?thesis
    using assms by (simp add: reward_record_for_node_def Let_def keyed_def keeps_key_def)
qed

lemma keyed_fold:
  "keyed epoch m \<Longrightarrow> (\<And>x. keeps_key (f x))
    \<Longrightarrow> keyed epoch (foldl (\<lambda>m x. reward_record_for_node epoch (nid x) (recipient x) (f x) m) m xs)"
  by (induction xs arbitrary: m) (simp_all add: keyed_record)

lemma keyed_merges:
  "keyed epoch m \<Longrightarrow> keyed epoch (merge_reward_component epoch rewards c m)"
  "keyed epoch m \<Longrightarrow> keyed epoch (merge_witness_rewards epoch local_id local_recipient allocation m)"
  by (simp_all add: merge_reward_component_def merge_witness_rewards_def case_prod_unfold keyed_fold)

lemma keyed_restamp:
  "keyed epoch m \<Longrightarrow> keyed epoch (bt_map (\<lambda>r. if rw_node_id r = nid then r\<lparr>rw_recipient_address := addr\<rparr> else r) m)"
  by (auto simp: keyed_def)

lemma keyed_branches:
  "keyed epoch a \<Longrightarrow> keyed epoch b \<Longrightarrow> keyed epoch (if c then a else b)"
  "keyed epoch a \<Longrightarrow> (\<And>x. keyed epoch (g x)) \<Longrightarrow> keyed epoch (case v of None \<Rightarrow> a | Some x \<Rightarrow> g x)"
  by (simp_all split: option.split)

lemma build_reward_map_keyed: "keyed epoch (build_reward_map epoch local_id local_recipient pools cs ss verified credits n)"
  unfolding build_reward_map_def Let_def
  by (intro keyed_branches keyed_record keyed_merges keyed_restamp keyed_empty keeps_key_updates)

lemma bt_values_node_ids:
  assumes "keyed epoch m"
  shows "map rw_node_id (bt_values m) = map fst (bt_entries m)"
proof -
  have "rw_node_id v = k" if "(k, v) \<in> set (bt_entries m)" for k v
    using that assms by (simp add: keyed_def bt.ents_iff)
  then show ?thesis by (auto simp: bt_values_def)
qed

definition one_per_node :: "epoch_id \<Rightarrow> reward_record list \<Rightarrow> bool" where
  "one_per_node epoch rs \<longleftrightarrow> distinct (map rw_node_id rs) \<and> (\<forall>r \<in> set rs. rw_epoch_id r = epoch)"

lemma sorted_records_one_per_node:
  assumes "keyed epoch m"
  shows "one_per_node epoch (sorted_reward_records env m)"
proof -
  have "distinct (map rw_node_id (bt_values m))"
    by (simp add: bt_values_node_ids [OF assms] bt.distinct_ents del: bt_entries_simps)
  then have "distinct (map rw_node_id (sort_key f (bt_values m)))" for f :: "reward_record \<Rightarrow> epoch_id \<times> string"
    by (simp add: distinct_map)
  moreover have "rw_epoch_id r = epoch" if "r \<in> set (bt_values m)" for r
    using that assms by (auto simp: bt_values_set keyed_def)
  ultimately show ?thesis
    by (simp add: one_per_node_def sorted_reward_records_def with_net_reward_def comp_def)
qed

lemma reward_local_epoch_one_per_node:
  assumes "reward_local_epoch env identity config epoch ld = Inr rew"
  shows "one_per_node epoch (map en_reward (er_records rew))"
proof -
  from assms obtain c where c: "compute_local_epoch_rewards (se_rewards env) (activated_params ld) config epoch
      (reward_inputs_of env identity config epoch ld) = Inr c" "rew = rc_artifact c"
    by (auto simp: reward_local_epoch_def map_sum_eq_Inr)
  from c(1) have "map en_reward (er_records (rc_artifact c)) = rc_records c
      \<and> (\<exists>m. keyed epoch m \<and> rc_records c = sorted_reward_records (se_rewards env) m)"
    unfolding compute_local_epoch_rewards_def Let_def
    by (auto simp: reward_entry_def Let_def comp_def split: sum.splits prod.splits intro!: exI build_reward_map_keyed)
  then show ?thesis using c(2) sorted_records_one_per_node by auto
qed

subsection \<open>Each step succeeds\<close>

definition reliable_signer :: "settlement_env \<Rightarrow> key_pair \<Rightarrow> bool" where
  "reliable_signer env k \<longleftrightarrow> (\<forall>m. verify_signature (settlement_crypto env) (kp_public k) m (key_pair_sign (ne_proof (se_node env)) k m))"

definition own_batch :: "node_id \<Rightarrow> epoch_id \<Rightarrow> assembled_batch \<Rightarrow> bool" where
  "own_batch nid epoch b \<longleftrightarrow> (let c = ab_batch_commit b in bc_collector_id c = nid \<and> bc_epoch_id c = epoch
     \<and> bc_payload_cid c \<noteq> [] \<and> bc_obs_count c \<noteq> 0 \<and> bc_slot_start c \<le> bc_slot_end c)"

definition ready_node :: "protocol_state \<Rightarrow> node_id \<Rightarrow> node_registry \<Rightarrow> bool" where
  "ready_node s nid n \<longleftrightarrow> node (store s) nid = Some n \<and> nr_node_id n = nid \<and> nr_status n = NodeActive
     \<and> Collect \<in> set (nr_enabled_capabilities n) \<and> Propose \<in> set (nr_enabled_capabilities n)
     \<and> min_propose_bond (params s) \<le> nr_bond n"

lemma ready_node_batches [simp]: "ready_node (s\<lparr>store := (store s)\<lparr>batches := m\<rparr>\<rparr>) nid n \<longleftrightarrow> ready_node s nid n"
  by (simp add: ready_node_def node_def)

lemma ensure_signature_ok:
  assumes "reliable_signer env k" "stable_hash32 (to_bytes32 (kp_public k)) = signer"
  shows "ensure_signature (settlement_crypto env) (kp_public k) signer m (key_pair_sign (ne_proof (se_node env)) k m) = Inr ()"
  using assms by (simp add: ensure_signature_def reliable_signer_def)

lemma submit_own_batch:
  assumes sig: "reliable_signer env k" "stable_hash32 (to_bytes32 (kp_public k)) = nid"
    and own: "own_batch nid epoch b" and cur: "current_epoch s \<le> epoch" and ready: "ready_node s nid n"
  defines "key \<equiv> (epoch, nid, mc_root (bc_batch (ab_batch_commit b)))"
  obtains m where "batch ((store s)\<lparr>batches := m\<rparr>) key \<noteq> None"
    "\<And>x. batch (store s) x \<noteq> None \<Longrightarrow> batch ((store s)\<lparr>batches := m\<rparr>) x \<noteq> None"
    "apply_submit_batch (settlement_crypto env) (submit_batch_of env k b) s
      = (if batch (store s) key = None then Inr (BatchAccepted key) else Inl (DuplicateBatch key), s\<lparr>store := (store s)\<lparr>batches := m\<rparr>\<rparr>)"
proof -
  let ?c = "ab_batch_commit b"
  have c: "bc_collector_id ?c = nid" "bc_epoch_id ?c = epoch" "bc_payload_cid ?c \<noteq> []" "bc_obs_count ?c \<noteq> 0"
      "\<not> bc_slot_end ?c < bc_slot_start ?c"
    using own by (simp_all add: own_batch_def not_less Let_def)
  have ok: "ensure_signature (settlement_crypto env) (kp_public k) nid
      (signing_payload (encode_tx (settlement_crypto env)) (SubmitBatch (submit_batch_of env k b)))
      (sb_signature (submit_batch_of env k b)) = Inr ()"
    using ensure_signature_ok [OF sig]
    by (simp add: submit_batch_of_def Let_def sign_transaction_def signing_payload_def)
  have run: "apply_submit_batch (settlement_crypto env) (submit_batch_of env k b) s =
      (if batch (store s) key \<noteq> None then (Inl (DuplicateBatch key), s)
       else (Inr (BatchAccepted key), on_store (insert_batch key (?c\<lparr>bc_submitted_at_height := height s\<rparr>)) s))"
    using ready leD [OF cur]
    by (simp add: apply_submit_batch_def Let_def ok c ensure_epoch_not_stale_def ensure_non_empty_payload_def
        require_active_node_with_capability_def require_active_node_def ready_node_def key_def)
  let ?m = "if batch (store s) key = None
    then bt_insert key (?c\<lparr>bc_submitted_at_height := height s\<rparr>) (batches (store s)) else batches (store s)"
  show ?thesis
    by (rule that [of ?m]) (simp_all add: run batch_def on_store_def store_writes)
qed

lemma submit_own_batches:
  assumes "reliable_signer env k" "stable_hash32 (to_bytes32 (kp_public k)) = nid"
    and "\<forall>b \<in> set bs. own_batch nid epoch b" "current_epoch s \<le> epoch" "ready_node s nid n"
  shows "\<exists>c m. submit_batches env k bs counts s = (Inr c, s\<lparr>store := (store s)\<lparr>batches := m\<rparr>\<rparr>)
    \<and> fst c + snd c = fst counts + snd counts + length bs
    \<and> (\<forall>x. batch (store s) x \<noteq> None \<longrightarrow> batch ((store s)\<lparr>batches := m\<rparr>) x \<noteq> None)
    \<and> (bs \<noteq> [] \<longrightarrow> (\<exists>x. fst x = epoch \<and> batch ((store s)\<lparr>batches := m\<rparr>) x \<noteq> None))"
  using assms(3-5)
proof (induction bs arbitrary: counts s)
  case Nil
  then show ?case by (intro exI [of _ counts] exI [of _ "batches (store s)"]) simp
next
  case (Cons b bs)
  let ?key = "(epoch, nid, mc_root (bc_batch (ab_batch_commit b)))"
  obtain p q where counts: "counts = (p, q)" by fastforce
  obtain m where m: "batch ((store s)\<lparr>batches := m\<rparr>) ?key \<noteq> None"
      "\<And>x. batch (store s) x \<noteq> None \<Longrightarrow> batch ((store s)\<lparr>batches := m\<rparr>) x \<noteq> None"
      "apply_submit_batch (settlement_crypto env) (submit_batch_of env k b) s = (if batch (store s) ?key = None
         then Inr (BatchAccepted ?key) else Inl (DuplicateBatch ?key), s\<lparr>store := (store s)\<lparr>batches := m\<rparr>\<rparr>)"
    using submit_own_batch [OF assms(1,2) _ Cons.prems(2,3), of b] Cons.prems(1) by auto
  let ?s = "s\<lparr>store := (store s)\<lparr>batches := m\<rparr>\<rparr>"
  define counts' where "counts' = (if batch (store s) ?key = None then (p + 1, q) else (p, q + 1))"
  have step: "submit_batches env k (b # bs) counts s = submit_batches env k bs counts' ?s"
    by (simp add: counts counts'_def m(3))
  have "\<forall>b \<in> set bs. own_batch nid epoch b" "current_epoch ?s \<le> epoch" "ready_node ?s nid n"
    using Cons.prems by simp_all
  from Cons.IH [OF this, of counts'] obtain c m' where
    m': "submit_batches env k bs counts' ?s = (Inr c, ?s\<lparr>store := (store ?s)\<lparr>batches := m'\<rparr>\<rparr>)"
      "fst c + snd c = fst counts' + snd counts' + length bs"
      "\<And>x. batch (store ?s) x \<noteq> None \<Longrightarrow> batch ((store ?s)\<lparr>batches := m'\<rparr>) x \<noteq> None"
    by blast
  have "batch ((store s)\<lparr>batches := m'\<rparr>) ?key \<noteq> None" using m(1) m'(3) [of ?key] by simp
  moreover have "\<And>x. batch (store s) x \<noteq> None \<Longrightarrow> batch ((store s)\<lparr>batches := m'\<rparr>) x \<noteq> None"
    using m(2) m'(3) by simp
  moreover have "fst c + snd c = fst counts + snd counts + length (b # bs)"
    using m'(2) by (simp add: counts counts'_def)
  moreover have "submit_batches env k (b # bs) counts s = (Inr c, s\<lparr>store := (store s)\<lparr>batches := m'\<rparr>\<rparr>)"
    using step m'(1) by simp
  ultimately show ?case by (intro exI [of _ c] exI [of _ m'] conjI allI impI exI [of _ ?key]) simp_all
qed

lemma unat_ucast_u32: "unat (ucast (w :: u32) :: u64) = unat w"
  by (rule unat_ucast_up) simp

lemma commit_own_epoch:
  assumes sig: "reliable_signer env k" "stable_hash32 (to_bytes32 (kp_public k)) = nid"
    and c: "ec_proposer_id commit = nid" "ec_epoch_id commit = epoch" "ec_challenge_deadline_height commit = height s + ucast window"
    and s: "current_epoch s \<le> epoch" "ready_node s nid n" "challenge_window_blocks (params s) = window"
      "epoch_commit (store s) epoch = None" "\<exists>x. fst x = epoch \<and> batch (store s) x \<noteq> None"
    and w: "window \<noteq> 0" "unat (height s) + unat window < 2 ^ 64"
  shows "apply_epoch_commit env k commit s
    = (Inr (True, False), on_store (insert_epoch_commit epoch (commit\<lparr>ec_challenge_open_height := height s\<rparr>)) s)"
proof -
  let ?tx = "\<lparr>ce_epoch_commit = commit, ce_pubkey = kp_public k, ce_signature = []\<rparr>"
  let ?signed = "?tx\<lparr>ce_signature := sign_transaction env k (CommitEpoch ?tx)\<rparr>"
  have ok: "ensure_signature (settlement_crypto env) (kp_public k) nid
      (signing_payload (encode_tx (settlement_crypto env)) (CommitEpoch ?signed)) (ce_signature ?signed) = Inr ()"
    using ensure_signature_ok [OF sig] by (simp add: sign_transaction_def signing_payload_def)
  have deadline: "unat (ec_challenge_deadline_height commit) = unat (height s) + unat window"
    using w(2) unat_add_exact [of "height s" "ucast window"] by (simp add: c(3) unat_ucast_u32)
  have neg: "\<not> ec_challenge_deadline_height commit \<le> height s" "\<not> epoch < current_epoch s"
      "\<not> nr_bond n < min_propose_bond (params s)"
    using w(1) deadline s(1,2) by (simp_all add: word_le_nat_alt unat_gt_0 ready_node_def not_less)
  have span: "ec_challenge_deadline_height commit - height s = ucast window" by (simp add: c(3))
  have any: "has_any_batch_for_epoch (store s) epoch"
    using s(5) by (fastforce simp: has_any_batch_for_epoch_def list_ex_iff bt_keys_set batch_def)
  have n: "node (store s) nid = Some n" "nr_node_id n = nid" "nr_status n = NodeActive" "Propose \<in> set (nr_enabled_capabilities n)"
    using s(2) by (simp_all add: ready_node_def)
  have req: "require_active_node_with_capability s nid Propose = Inr n"
    using n by (simp add: require_active_node_with_capability_def require_active_node_def)
  have "apply_commit_epoch (settlement_crypto env) ?signed s = (Inr (EpochCommitted epoch (ec_challenge_deadline_height commit)),
      on_store (insert_epoch_commit epoch (commit\<lparr>ec_challenge_open_height := height s\<rparr>)) s)"
    unfolding apply_commit_epoch_def Let_def ensure_epoch_not_stale_def ensure_bond_def
    using neg any span n(2) s(3,4) ok by (simp add: c(1,2) ok [simplified] req del: ensure_signature_Inr)
  then show ?thesis by (simp add: apply_epoch_commit_def Let_def)
qed

text \<open>With no proposals and nothing scheduled, closing an epoch only marks it and advances.\<close>

lemma finalize_quiet_epoch:
  assumes "epoch_commit (store s) epoch = Some commit" "ec_challenge_deadline_height commit < height s"
    and "\<not> is_epoch_finalized (store s) epoch" "open_challenges (store s) = bt_empty" "current_epoch s = epoch"
    and "params_update_proposals (store s) = bt_empty" "scheduled_protocol_params (store s) = bt_empty"
  shows "finalize_local_epoch epoch s
    = (Inr (True, False), s\<lparr>store := (store s)\<lparr>finalized_epochs := bs_insert epoch (finalized_epochs (store s)),
         scheduled_protocol_params := bt_remove (epoch + 1) bt_empty\<rparr>, current_epoch := epoch + 1\<rparr>)"
  using assms
  by (simp add: finalize_local_epoch_def finalize_epoch_def Let_def has_open_challenges_for_epoch_def not_le bt_values_def
      activate_scheduled_protocol_params_def take_scheduled_protocol_params_def expire_stale_params_update_proposals_def
      params_update_proposals_iter_def on_store_def store_writes)

lemma upsert_rewards_lookup:
  assumes "one_per_node epoch (map en_reward (er_records rew))"
    and "find (\<lambda>entry. rw_node_id (en_reward entry) = nid) (er_records rew) = Some entry"
  shows "reward_record_of (store (upsert_reward_records rew s)) (epoch, nid) = Some (en_reward entry)"
proof -
  let ?run = "foldl (\<lambda>s entry. upsert_reward_record (en_reward entry) s)"
  have other: "reward_record_of (store (?run s entries)) key = reward_record_of (store s) key"
    if "key \<notin> (\<lambda>e. (rw_epoch_id (en_reward e), rw_node_id (en_reward e))) ` set entries" for s entries key
    using that by (induction entries arbitrary: s)
      (auto simp: upsert_reward_record_def on_store_def store_writes reward_record_of_def)
  have "reward_record_of (store (?run s entries)) (epoch, nid) = Some (en_reward entry)"
    if "one_per_node epoch (map en_reward entries)" "find (\<lambda>entry. rw_node_id (en_reward entry) = nid) entries = Some entry" for entries
    using that
  proof (induction entries arbitrary: s)
    case (Cons x xs)
    show ?case
    proof (cases "rw_node_id (en_reward x) = nid")
      case True
      with Cons.prems have "entry = x" "(epoch, nid) \<notin> (\<lambda>e. (rw_epoch_id (en_reward e), rw_node_id (en_reward e))) ` set xs"
        by (auto simp: one_per_node_def image_iff)
      then show ?thesis
        using True Cons.prems(1) other [of "(epoch, nid)" xs "upsert_reward_record (en_reward x) s"]
        by (simp add: upsert_reward_record_def on_store_def store_writes reward_record_of_def one_per_node_def)
    next
      case False
      with Cons show ?thesis by (simp add: one_per_node_def)
    qed
  qed simp
  with assms show ?thesis by (simp add: upsert_reward_records_def)
qed

lemma claim_own_reward:
  assumes sig: "reliable_signer env k" "stable_hash32 (to_bytes32 (kp_public k)) = kp_address k"
    and s: "is_epoch_finalized (store s) epoch" "\<not> is_reward_claimed (store s) (epoch, nid)"
      "node (store s) nid = Some n" "nr_reward_address n = kp_address k" "account (store s) (kp_address k) = Some a"
    and r: "amt > 0 \<Longrightarrow> reward_record_of (store s) (epoch, nid) = Some r \<and> rw_net_reward r = amt"
  obtains s' where "claim_local_reward env k epoch nid amt s = (Inr (amt > 0, False), s')" "current_epoch s' = current_epoch s"
    "amt > 0 \<Longrightarrow> account (store s') (kp_address k) = Some (a\<lparr>acc_balance := acc_balance a + amt\<rparr>)"
    "amt = 0 \<Longrightarrow> s' = s"
proof (cases "amt > 0")
  case False
  then show ?thesis by (intro that [of s]) (simp_all add: claim_local_reward_def)
next
  case True
  let ?tx = "claim_tx_of env k epoch nid amt s"
  have tx: "Records.ct_epoch_id ?tx = epoch" "ct_node_id ?tx = nid" "ct_amount ?tx = amt" "ct_claimer ?tx = kp_address k"
      "ct_pubkey ?tx = kp_public k"
    by (simp_all add: claim_tx_of_def Let_def)
  have ok: "ensure_signature (settlement_crypto env) (kp_public k) (kp_address k)
      (signing_payload (encode_tx (settlement_crypto env)) (ClaimReward ?tx)) (ct_signature ?tx) = Inr ()"
    using ensure_signature_ok [OF sig] by (simp add: claim_tx_of_def Let_def sign_transaction_def signing_payload_def)
  let ?s' = "on_store (mark_reward_claimed (epoch, nid))
      (on_store (write_account (kp_address k) (a\<lparr>acc_balance := acc_balance a + amt\<rparr>)) s)"
  have "apply_claim_reward (settlement_crypto env) ?tx s = (Inr (RewardClaimed epoch nid (kp_address k) amt), ?s')"
    using s r [OF True] by (simp add: apply_claim_reward_def Let_def tx ok)
  then show ?thesis
    using True by (intro that [of ?s']) (simp_all add: claim_local_reward_def on_store_def store_writes account_def)
qed

subsection \<open>The first settlement\<close>

text \<open>The state after opening the empty chain: the node is registered and has an account with nothing in it.\<close>

lemma bootstrap_fresh:
  assumes "store s = default_store" "config_node_id config = Inr nid" "cc_collect (nc_capabilities config)"
    "cc_propose (nc_capabilities config)"
  obtains s1 where "bootstrap_local_chain_state config k s = (Inr (), s1)" "ready_node s1 nid (local_registry config k nid (params s))"
    "account (store s1) (kp_address k)
      = Some \<lparr>acc_address = kp_address k, acc_balance = 0, acc_staked = 0, acc_locked = 0, acc_nonce = 0\<rparr>"
    "\<exists>ns as. store s1 = default_store\<lparr>nodes := ns, accounts := as\<rparr>"
proof -
  let ?n = "local_registry config k nid (params s)"
  let ?a = "\<lparr>acc_address = kp_address k, acc_balance = 0, acc_staked = 0, acc_locked = 0, acc_nonce = 0\<rparr>"
  let ?s1 = "upsert_account ?a (upsert_node ?n s)"
  have "node (store s) nid = None" "account (store (upsert_node ?n s)) (kp_address k) = None"
    using assms(1) by (simp_all add: node_def account_def default_store_def upsert_node_def store_writes)
  then have "bootstrap_local_chain_state config k s = (Inr (), ?s1)"
    using assms(2) by (simp add: bootstrap_local_chain_state_def Let_def ensure_account_exists_def)
  moreover have "ready_node ?s1 nid ?n"
    using assms(3,4) by (simp add: ready_node_def upsert_account_def upsert_node_def store_writes node_def local_registry_def
        enabled_capabilities_def Let_def)
  moreover have "account (store ?s1) (kp_address k) = Some ?a"
    by (simp add: upsert_account_def upsert_node_def store_writes account_def)
  moreover have "\<exists>ns as. store ?s1 = default_store\<lparr>nodes := ns, accounts := as\<rparr>"
    using assms(1) by (auto simp: upsert_account_def upsert_node_def store_writes)
  ultimately show ?thesis by (rule that)
qed

lemma settle_on_fresh_chain:
  assumes sig: "reliable_signer env k" "stable_hash32 (to_bytes32 (kp_public k)) = nid" "kp_address k = nid"
    and config: "config_node_id config = Inr nid" "cc_collect (nc_capabilities config)"
    and prep: "prepared_from env identity config epoch h window ld prep loaded" "\<forall>b \<in> set loaded. own_batch nid epoch b"
    and fresh: "store s = default_store" "current_epoch s = epoch" "challenge_window_blocks (params s) = window"
    and bounds: "window \<noteq> 0" "unat h + unat window < 2 ^ 64 - 1"
  obtains c s' where "settle_on_chain env k config epoch h prep ld s = (Inr c, s')"
    "cs_submitted c + cs_present c = length loaded" "cs_commit c = (True, False)" "cs_finalized c = (True, False)"
    "cs_reward c = local_reward_of nid (pc_reward_artifact prep)" "cs_claimed c = (cs_reward c > 0, False)"
    "map_option acc_balance (account (store s') nid) = Some (cs_reward c)" "current_epoch s' = epoch + 1"
proof -
  let ?rew = "pc_reward_artifact prep" and ?commit = "pc_epoch_commit prep"
  from prep(1) have p: "load_batches_for_epoch (se_node env) config epoch (ld_disk ld) = Inr loaded" "loaded \<noteq> []"
    "reward_local_epoch env identity config epoch ld = Inr ?rew" "cc_propose (nc_capabilities config)"
    "ec_proposer_id ?commit = nid" "ec_epoch_id ?commit = epoch" "ec_challenge_deadline_height ?commit = h + ucast window"
    "pa_challenge_deadline_height (pc_artifact prep) = h + ucast window"
    using config(1) by (simp_all add: prepared_from_def preparation_artifact_of_def epoch_commit_artifact_of_def)
  let ?n = "local_registry config k nid (params s)"
  obtain s1 ns as where s1: "bootstrap_local_chain_state config k s = (Inr (), s1)" "ready_node s1 nid ?n"
      "account (store s1) nid = Some \<lparr>acc_address = nid, acc_balance = 0, acc_staked = 0, acc_locked = 0, acc_nonce = 0\<rparr>"
      and store1: "store s1 = default_store\<lparr>nodes := ns, accounts := as\<rparr>"
    using bootstrap_fresh [OF fresh(1) config p(4), of k] sig(3) by metis
  note frame = bootstrap_frame [OF s1(1)]
  let ?s1 = "s1\<lparr>height := h\<rparr>"
  have cur1: "current_epoch ?s1 \<le> epoch" and ready1: "ready_node ?s1 nid ?n"
    using frame(2) fresh(2) s1(2) by (simp_all add: ready_node_def)
  from submit_own_batches [OF sig(1,2) prep(2) cur1 ready1, of "(0, 0)"] obtain counts m where
    sub: "submit_batches env k loaded (0, 0) ?s1 = (Inr counts, ?s1\<lparr>store := (store ?s1)\<lparr>batches := m\<rparr>\<rparr>)"
      "fst counts + snd counts = fst (0 :: nat, 0 :: nat) + snd (0 :: nat, 0 :: nat) + length loaded"
      "\<exists>x. fst x = epoch \<and> batch ((store ?s1)\<lparr>batches := m\<rparr>) x \<noteq> None"
    using p(2) by blast
  define s2 where "s2 = ?s1\<lparr>store := (store ?s1)\<lparr>batches := m\<rparr>\<rparr>"
  let ?stored = "?commit\<lparr>ec_challenge_open_height := h\<rparr>"
  have s2: "height s2 = h" "current_epoch s2 \<le> epoch" "ready_node s2 nid ?n" "challenge_window_blocks (params s2) = window"
      "\<exists>x. fst x = epoch \<and> batch (store s2) x \<noteq> None"
    using cur1 ready1 frame(3) fresh(3) sub(3) by (simp_all add: s2_def ready_node_def node_def)
  have no_commit: "epoch_commit (store s2) epoch = None"
    by (simp add: s2_def epoch_commit_def store1 default_store_def)
  have "apply_epoch_commit env k ?commit s2 = (Inr (True, False), on_store (insert_epoch_commit epoch ?stored) s2)"
    using commit_own_epoch [OF sig(1,2) p(5,6) _ s2(2-4) no_commit s2(5) bounds(1)] p(7) s2(1) bounds(2) by simp
  moreover define s3 where "s3 = on_store (insert_epoch_commit epoch ?stored) s2"
  ultimately have com: "apply_epoch_commit env k ?commit s2 = (Inr (True, False), s3)" by simp
  obtain rs where up: "upsert_reward_records ?rew s3 = s3\<lparr>store := (store s3)\<lparr>reward_records := rs\<rparr>\<rparr>"
    using upsert_reward_records_frame by blast
  define s4 where "s4 = (upsert_reward_records ?rew s3)\<lparr>height := max (height (upsert_reward_records ?rew s3))
    (saturating_add (h + ucast window) 1)\<rparr>"
  have dl: "unat (h + ucast window :: u64) = unat h + unat window"
    using bounds(2) unat_add_exact [of h "ucast window"] by (simp add: unat_ucast_u32)
  have "h + ucast window < saturating_add (h + ucast window) 1"
    using bounds(2) by (simp add: word_less_nat_alt unat_saturating_add dl)
  then have late: "h + ucast window < height s4" by (simp add: s4_def less_max_iff_disj)
  have s4: "store s4 = default_store\<lparr>nodes := ns, accounts := as, batches := m,
      epoch_commits := bt_insert epoch ?stored bt_empty, reward_records := rs\<rparr>" "current_epoch s4 = epoch"
    unfolding s4_def up using frame(2) fresh(2) by (simp_all add: s3_def s2_def store1 store_writes default_store_def)
  let ?s5 = "s4\<lparr>store := (store s4)\<lparr>finalized_epochs := bs_insert epoch (finalized_epochs (store s4)),
         scheduled_protocol_params := bt_remove (epoch + 1) bt_empty\<rparr>, current_epoch := epoch + 1\<rparr>"
  have fin: "finalize_local_epoch epoch s4 = (Inr (True, False), ?s5)"
    by (rule finalize_quiet_epoch [of _ _ ?stored])
      (use late s4(2) in \<open>simp_all add: s4(1) epoch_commit_def default_store_def is_epoch_finalized_def p(7)\<close>)
  let ?amt = "local_reward_of nid ?rew"
  have rec: "\<exists>r. reward_record_of (store ?s5) (epoch, nid) = Some r \<and> rw_net_reward r = ?amt" if amt: "?amt > 0"
  proof -
    from amt obtain entry where entry: "find (\<lambda>entry. rw_node_id (en_reward entry) = nid) (er_records ?rew) = Some entry"
        "rw_net_reward (en_reward entry) = ?amt"
      by (auto simp: local_reward_of_def split: option.splits)
    have "reward_record_of (store (upsert_reward_records ?rew s3)) (epoch, nid) = Some (en_reward entry)"
      by (rule upsert_rewards_lookup [OF reward_local_epoch_one_per_node [OF p(3)] entry(1)])
    then show ?thesis using entry(2) by (simp add: reward_record_of_def s4_def)
  qed
  have facts: "is_epoch_finalized (store ?s5) epoch" "\<not> is_reward_claimed (store ?s5) (epoch, nid)"
      "node (store ?s5) nid = Some ?n" "nr_reward_address ?n = kp_address k"
      "account (store ?s5) (kp_address k) = Some \<lparr>acc_address = nid, acc_balance = 0, acc_staked = 0, acc_locked = 0, acc_nonce = 0\<rparr>"
    using s1(2,3) sig(3)
    by (simp_all add: is_epoch_finalized_def is_reward_claimed_def s4(1) default_store_def node_def account_def ready_node_def
        store1 local_registry_def)
  obtain r where r: "?amt > 0 \<Longrightarrow> reward_record_of (store ?s5) (epoch, nid) = Some r \<and> rw_net_reward r = ?amt"
    using rec by blast
  have addr: "stable_hash32 (to_bytes32 (kp_public k)) = kp_address k" using sig(2,3) by simp
  obtain s' where
    claim: "claim_local_reward env k epoch nid ?amt ?s5 = (Inr (?amt > 0, False), s')" "current_epoch s' = epoch + 1"
      "map_option acc_balance (account (store s') nid) = Some ?amt"
  proof (rule claim_own_reward [OF sig(1) addr facts r])
    fix s'
    assume "claim_local_reward env k epoch nid ?amt ?s5 = (Inr (?amt > 0, False), s')" "current_epoch s' = current_epoch ?s5"
      and paid: "?amt > 0 \<Longrightarrow> account (store s') (kp_address k)
          = Some (\<lparr>acc_address = nid, acc_balance = 0, acc_staked = 0, acc_locked = 0, acc_nonce = 0\<rparr>\<lparr>acc_balance :=
              acc_balance \<lparr>acc_address = nid, acc_balance = 0, acc_staked = 0, acc_locked = 0, acc_nonce = 0\<rparr> + ?amt\<rparr>)"
        "?amt = 0 \<Longrightarrow> s' = ?s5"
    moreover have "map_option acc_balance (account (store s') nid) = Some ?amt"
      using paid facts(5) sig(3) by (cases "?amt = 0") (simp_all add: word_gt_0)
    ultimately show thesis by (intro that) simp_all
  qed
  let ?c = "\<lparr>cs_submitted = fst counts, cs_present = snd counts, cs_commit = (True, False), cs_finalized = (True, False),
    cs_node_id = nid, cs_reward = ?amt, cs_claimed = (?amt > 0, False)\<rparr>"
  have "settle_on_chain env k config epoch h prep ld s = (Inr ?c, s')"
    using s1(1) p(1) sub(1) [folded s2_def] com fin claim(1) config(1)
    by (simp add: settle_on_chain_def Let_def s4_def [symmetric] p(8))
  then show ?thesis
    by (rule that) (use sub(2) claim in simp_all)
qed

text \<open>
  What the node needs for its first settlement: a key pair whose signatures verify and whose address is
  the node id, the two capabilities, own batches, parameters that validate, and room below the largest height.
\<close>

definition can_settle ::
  "settlement_env \<Rightarrow> key_pair \<Rightarrow> node_id \<Rightarrow> node_config \<Rightarrow> epoch_id \<Rightarrow> height \<Rightarrow> u32 \<Rightarrow> local_data \<Rightarrow> bool" where
  "can_settle env k nid config epoch h window ld \<longleftrightarrow>
     reliable_signer env k \<and> stable_hash32 (to_bytes32 (kp_public k)) = nid \<and> kp_address k = nid
     \<and> config_node_id config = Inr nid \<and> cc_collect (nc_capabilities config)
     \<and> validate (local_protocol_params (activated_params ld) config window) = Inr ()
     \<and> (\<forall>loaded. load_batches_for_epoch (se_node env) config epoch (ld_disk ld) = Inr loaded \<longrightarrow> (\<forall>b \<in> set loaded. own_batch nid epoch b))
     \<and> window \<noteq> 0 \<and> h \<noteq> 0 \<and> unat h + unat window < 2 ^ 64 - 1"

lemma first_settlement:
  assumes can: "can_settle env k nid config epoch h window ld"
    and fresh: "ld_runtime ld = None" "ld_store ld = Inr default_store"
    and prep: "compute_local_epoch_preparation env (Inr k) config epoch h window ld = Inr prep"
  obtains artifact ld' loaded where "settle_local_epoch env (Inr k) config epoch h window ld = (Inr artifact, ld')"
    "load_batches_for_epoch (se_node env) config epoch (ld_disk ld) = Inr loaded"
    "sa_batch_submission_count artifact + sa_batch_already_present_count artifact = length loaded"
    "sa_commit_applied artifact" "sa_epoch_finalized artifact"
    "sa_local_reward_available artifact = local_reward_of nid (pc_reward_artifact prep)"
    "sa_local_reward_claimed artifact \<longleftrightarrow> 0 < sa_local_reward_available artifact"
    "sa_local_reward_balance artifact = sa_local_reward_available artifact" "sa_current_epoch_after artifact = epoch + 1"
  using prep
proof (rule preparation_Inr)
  fix loaded
  assume prepared: "prepared_from env (Inr k) config epoch h window ld prep loaded"
  then have loaded: "load_batches_for_epoch (se_node env) config epoch (ld_disk ld) = Inr loaded"
    by (simp add: prepared_from_def)
  let ?p = "local_protocol_params (activated_params ld) config window"
  let ?s = "\<lparr>height = h - 1, current_epoch = epoch, params = ?p, store = default_store\<rparr>"
  from can have c: "reliable_signer env k" "stable_hash32 (to_bytes32 (kp_public k)) = nid" "kp_address k = nid"
    "config_node_id config = Inr nid" "cc_collect (nc_capabilities config)" "validate ?p = Inr ()"
    "\<forall>b \<in> set loaded. own_batch nid epoch b" "window \<noteq> 0" "h \<noteq> 0" "unat h + unat window < 2 ^ 64 - 1"
    using loaded by (auto simp: can_settle_def)
  have win: "challenge_window_blocks (params ?s) = window" by (simp add: local_protocol_params_def)
  obtain st s' where run: "settle_on_chain env k config epoch h prep ld ?s = (Inr st, s')"
    "cs_submitted st + cs_present st = length loaded" "cs_commit st = (True, False)" "cs_finalized st = (True, False)"
    "cs_reward st = local_reward_of nid (pc_reward_artifact prep)" "cs_claimed st = (cs_reward st > 0, False)"
    "map_option acc_balance (account (store s') nid) = Some (cs_reward st)" "current_epoch s' = epoch + 1"
    using settle_on_fresh_chain [OF c(1-5) prepared c(7), of ?s] c(8,10) win by auto
  have one: "1 \<le> h" using c(9) by (simp add: word_le_nat_alt Suc_le_eq unat_gt_0)
  have "h - 1 < h" using c(9) by (simp add: word_less_nat_alt unat_sub [OF one] unat_gt_0)
  then have "\<not> h \<le> h - 1" by (simp only: not_le)
  then have settled: "settle_local_epoch env (Inr k) config epoch h window ld
      = persist_settlement epoch h window prep (kp_address k) ld (Inr st, s')"
    using run(1) prep fresh c(6) one
    by (simp add: settle_local_epoch_def load_runtime_or_default_def saturating_sub_def with_store_def)
  let ?a = "settlement_artifact_of epoch h window prep st (kp_address k) s'"
  have art: "sa_batch_submission_count ?a = cs_submitted st" "sa_batch_already_present_count ?a = cs_present st"
    "sa_commit_applied ?a" "sa_epoch_finalized ?a" "sa_local_reward_available ?a = cs_reward st"
    "sa_local_reward_claimed ?a \<longleftrightarrow> 0 < cs_reward st" "sa_local_reward_balance ?a = cs_reward st"
    "sa_current_epoch_after ?a = epoch + 1"
    using run c(3) by (auto simp: settlement_artifact_of_def Let_def)
  show ?thesis
    by (rule that [of ?a _ loaded]) (use settled loaded run(2,5) art in \<open>simp_all add: persist_settlement_def Let_def\<close>)
qed

end
