(* ===== verification/Auto_Settlement.thy ===== *)
theory Auto_Settlement
  imports Settlement_Success
begin

text \<open>
  The parameters the local chain is opened with, and the automatic settlement of the completed
  epochs: it settles the pending epochs in order and stops at the first that fails.
\<close>

subsection \<open>Parameters of the local chain\<close>

lemma clamp_u32_nonzero: "clamp_u32 v \<noteq> 0"
proof -
  have "unat (min (max v 1) 0xFFFFFFFF) < 2 ^ 32"
    by (simp add: min_def word_le_nat_alt not_le)
  moreover have "unat (min (max v 1) 0xFFFFFFFF) \<noteq> 0"
    by (auto simp: min_def max_def word_le_nat_alt unat_eq_0 split: if_splits)
  ultimately show ?thesis
    by (simp add: clamp_u32_def unat_eq_0 [symmetric] unsigned_ucast_eq take_bit_nat_eq_self)
qed

lemma local_protocol_params_valid_iff:
  assumes "valid_config config" "window \<noteq> 0" "\<And>p. activated = Some p \<Longrightarrow> validate p = Inr ()"
  shows "validate (local_protocol_params activated config window) = Inr () \<longleftrightarrow>
    effective_player_block_reward_of activated config \<noteq> 0
    \<and> sorted_wrt (<) (map gm_app_id (rc_game_mappings (nc_reward config)))"
proof -
  have reward: "valid_reward_config (rt_poll_interval_secs (nc_runtime config)) (nc_reward config)"
    and storage: "sg_retention_epochs (nc_storage config) \<noteq> 0"
    using assms(1) by (simp_all add: valid_config_def)
  have act: "valid_params p" if "activated = Some p" for p
    using assms(3) [OF that] by (simp add: validate_iff)
  have secs: "effective_reward_block_secs activated config \<noteq> 0" "effective_min_retention_epochs activated config \<noteq> 0"
    using reward storage act
    by (auto simp: effective_reward_block_secs_def effective_min_retention_epochs_def valid_reward_config_def
        valid_params_def valid_rewards_def split: option.splits)
  show ?thesis
    using reward secs assms(2)
    by (auto simp: validate_iff valid_params_def local_protocol_params_def clamp_u32_nonzero valid_rewards_def valid_governance_def
        share_bps_def valid_mutual_proof_def default_mutual_proof_params_def valid_reward_config_def
        PLAYER_REWARD_ALLOCATION_BPS_def SERVICE_REWARD_ALLOCATION_BPS_def comp_def)
qed

subsection \<open>Settling the pending epochs\<close>

lemma u64_small: "unat (w :: u64) < 2 ^ 64"
  using unat_bound [of w] by simp

lemma pending_epochs_iff:
  assumes "next_epoch \<noteq> 0"
  shows "epoch \<in> set (pending_auto_settlement_epochs config next_epoch ld) \<longleftrightarrow>
     co_default_epoch_id (nc_collect config) \<le> epoch \<and> epoch < next_epoch \<and> bt_get (ld_settlements ld) epoch = None"
proof -
  let ?first = "co_default_epoch_id (nc_collect config)" and ?last = "saturating_sub next_epoch 1"
  have last: "unat ?last = unat next_epoch - 1" by (simp add: unat_saturating_sub)
  have inrange: "epoch \<in> set (map word_of_nat [unat ?first ..< Suc (unat ?last)]) \<longleftrightarrow> ?first \<le> epoch \<and> epoch \<le> ?last"
  proof
    assume "epoch \<in> set (map word_of_nat [unat ?first ..< Suc (unat ?last)])"
    then obtain i where i: "epoch = word_of_nat i" "unat ?first \<le> i" "i \<le> unat ?last" by auto
    have "i < 2 ^ 64" using i(3) u64_small [of ?last] by simp
    then have "unat epoch = i" by (simp add: i(1) unat_of_nat_exact)
    with i show "?first \<le> epoch \<and> epoch \<le> ?last" by (simp add: word_le_nat_alt)
  next
    assume "?first \<le> epoch \<and> epoch \<le> ?last"
    then show "epoch \<in> set (map word_of_nat [unat ?first ..< Suc (unat ?last)])"
      unfolding set_map by (intro image_eqI [of _ _ "unat epoch"]) (simp_all add: word_le_nat_alt less_Suc_eq_le del: upt_Suc)
  qed
  have "epoch \<le> ?last \<longleftrightarrow> epoch < next_epoch"
    using last assms by (auto simp: word_le_nat_alt word_less_nat_alt unat_eq_0 [symmetric])
  then show ?thesis
    using inrange by (auto simp: pending_auto_settlement_epochs_def Let_def)
qed

text \<open>With epoch 0 first, the daemon already takes epoch 0 for completed before it has advanced once.\<close>

lemma epoch_zero_pending:
  "co_default_epoch_id (nc_collect config) = 0 \<Longrightarrow> bt_get (ld_settlements ld) 0 = None
    \<Longrightarrow> pending_auto_settlement_epochs config 0 ld = [0]"
  by (simp add: pending_auto_settlement_epochs_def Let_def saturating_sub_def)

lemma pending_epochs_sorted: "sorted_wrt (<) (pending_auto_settlement_epochs config next_epoch ld)"
proof -
  let ?first = "co_default_epoch_id (nc_collect config)" and ?last = "saturating_sub next_epoch 1"
  have "sorted_wrt (\<lambda>i j. (word_of_nat i :: u64) < word_of_nat j) [unat ?first ..< Suc (unat ?last)]"
    using sorted_wrt_upt [of "unat ?first" "Suc (unat ?last)"]
  proof (rule sorted_wrt_mono_rel [rotated])
    fix i j
    assume "i \<in> set [unat ?first ..< Suc (unat ?last)]" "j \<in> set [unat ?first ..< Suc (unat ?last)]" "i < j"
    moreover have "unat ?last < 2 ^ 64" using u64_small [of ?last] by simp
    ultimately have "i < 2 ^ 64" "j < 2 ^ 64" by auto
    with \<open>i < j\<close> show "(word_of_nat i :: u64) < word_of_nat j"
      by (simp add: word_less_nat_alt unat_of_nat_exact)
  qed
  then show ?thesis
    by (simp add: pending_auto_settlement_epochs_def Let_def sorted_wrt_filter sorted_wrt_map)
qed

text \<open>The epochs that are settled are a prefix of the list; the rest is left for the next time.\<close>

lemma settled_artifact_epoch:
  "settle_local_epoch env identity config epoch h window ld = (Inr artifact, ld') \<Longrightarrow> sa_epoch_id artifact = epoch"
  by (erule settle_local_epoch_Inr) (simp add: settlement_artifact_of_def Let_def)

lemma auto_settle_Cons:
  assumes "auto_settle_pending_epochs env identity config (epoch # rest) artifacts ld = (out, ld')"
  obtains (stopped) e where "out = \<lparr>ao_artifacts = artifacts, ao_error = Some (epoch, e)\<rparr>" "ld' = ld"
  | (settled) h artifact ld1 where "suggested_settlement_height config ld = Inr h"
      "settle_local_epoch env identity config epoch h (effective_challenge_window_blocks (activated_params ld) config) ld = (Inr artifact, ld1)"
      "auto_settle_pending_epochs env identity config rest (artifacts @ [artifact]) ld1 = (out, ld')"
proof (cases "suggested_settlement_height config ld")
  case (Inl e)
  then show ?thesis using assms by (intro stopped [of e]) simp_all
next
  case (Inr h)
  obtain r ld1 where run: "settle_local_epoch env identity config epoch h
      (effective_challenge_window_blocks (activated_params ld) config) ld = (r, ld1)" by fastforce
  show ?thesis
  proof (cases r)
    case (Inl e)
    with run have "ld1 = ld" using settle_local_epoch_error by blast
    then show ?thesis using assms Inr run Inl by (intro stopped [of e]) simp_all
  next
    case (Inr artifact)
    then show ?thesis using assms settled \<open>suggested_settlement_height config ld = Inr h\<close> run by simp
  qed
qed

lemma auto_settle_prefix:
  assumes "auto_settle_pending_epochs env identity config epochs artifacts ld = (out, ld')"
  shows "\<exists>n. map sa_epoch_id (ao_artifacts out) = map sa_epoch_id artifacts @ take n epochs
    \<and> (case ao_error out of None \<Rightarrow> n = length epochs | Some (epoch, e) \<Rightarrow> n < length epochs \<and> epoch = epochs ! n)"
  using assms
proof (induction epochs arbitrary: artifacts ld)
  case Nil
  then show ?case by auto
next
  case (Cons epoch rest)
  from Cons.prems show ?case
  proof (cases rule: auto_settle_Cons)
    case (stopped e)
    then show ?thesis by (intro exI [of _ 0]) simp
  next
    case (settled h artifact ld1)
    from Cons.IH [OF settled(3)] obtain n where "map sa_epoch_id (ao_artifacts out) = map sa_epoch_id (artifacts @ [artifact]) @ take n rest"
      "case ao_error out of None \<Rightarrow> n = length rest | Some (epoch, e) \<Rightarrow> n < length rest \<and> epoch = rest ! n" by blast
    then show ?thesis
      using settled_artifact_epoch [OF settled(2)] by (intro exI [of _ "Suc n"]) (auto split: option.splits)
  qed
qed

text \<open>
  A pending epoch that the local chain has already left behind blocks the automatic settlement: nothing
  is settled, now or later. A crash between the two saves of a settlement leaves the files like that.
\<close>

lemma auto_settle_blocked:
  assumes "ld_runtime ld = Some (Inr runtime)" "epoch < lr_current_epoch runtime"
  shows "\<exists>e. auto_settle_pending_epochs env identity config (epoch # rest) [] ld
    = (\<lparr>ao_artifacts = [], ao_error = Some (epoch, e)\<rparr>, ld)"
proof -
  obtain out ld' where run: "auto_settle_pending_epochs env identity config (epoch # rest) [] ld = (out, ld')" by fastforce
  from run show ?thesis
  proof (cases rule: auto_settle_Cons)
    case (stopped e)
    then show ?thesis using run by simp
  next
    case (settled h artifact ld1)
    then show ?thesis
      using past_epoch_refused [OF assms, of env identity config h "effective_challenge_window_blocks (activated_params ld) config"] by auto
  qed
qed

lemma torn_settlement_blocks:
  assumes run: "settle_local_epoch env identity config epoch h window ld = (Inr artifact, ld')" "sa_epoch_finalized artifact"
    and "epoch + 1 \<noteq> 0" and "bt_get (ld_settlements ld) epoch = None"
  defines "torn \<equiv> ld\<lparr>ld_runtime := ld_runtime ld'\<rparr>"
  shows "\<exists>e. settle_local_epoch env identity config epoch h2 window2 torn = (Inl e, torn)"
    and "co_default_epoch_id (nc_collect config) = epoch \<Longrightarrow> epoch < next_epoch \<Longrightarrow>
      \<exists>e. auto_settle_pending_epochs env identity config (pending_auto_settlement_epochs config next_epoch torn) [] torn
        = (\<lparr>ao_artifacts = [], ao_error = Some (epoch, e)\<rparr>, torn)"
proof -
  from run obtain runtime where r: "ld_runtime ld' = Some (Inr runtime)" "lr_current_epoch runtime = epoch + 1"
    by (rule settlement_advances)
  have "epoch < epoch + 1"
    using assms(3) unatSuc [of epoch] by (simp add: word_less_nat_alt add.commute)
  then have past: "ld_runtime torn = Some (Inr runtime)" "epoch < lr_current_epoch runtime"
    unfolding r(2) by (simp_all add: torn_def r(1))
  show "\<exists>e. settle_local_epoch env identity config epoch h2 window2 torn = (Inl e, torn)"
    by (rule past_epoch_refused [OF past])
  assume first: "co_default_epoch_id (nc_collect config) = epoch" "epoch < next_epoch"
  have nz: "next_epoch \<noteq> 0" using first(2) by (auto simp: word_less_nat_alt)
  have "epoch \<in> set (pending_auto_settlement_epochs config next_epoch torn)"
    using pending_epochs_iff [OF nz, of epoch config torn] first assms(4) by (auto simp: torn_def)
  then obtain x xs where xs: "pending_auto_settlement_epochs config next_epoch torn = x # xs"
    by (cases "pending_auto_settlement_epochs config next_epoch torn") auto
  have "x = epoch"
  proof (rule ccontr)
    assume "x \<noteq> epoch"
    with xs \<open>epoch \<in> _\<close> pending_epochs_sorted [of config next_epoch torn] have "x < epoch" by auto
    moreover have "epoch \<le> x"
      using pending_epochs_iff [OF nz, of x config torn] xs first by auto
    ultimately show False by simp
  qed
  then show "\<exists>e. auto_settle_pending_epochs env identity config (pending_auto_settlement_epochs config next_epoch torn) [] torn
      = (\<lparr>ao_artifacts = [], ao_error = Some (epoch, e)\<rparr>, torn)"
    using auto_settle_blocked [OF past] xs by simp
qed

subsection \<open>Histories of the local chain\<close>

text \<open>Settlements, with anything the collector, the verifier and the network do to the other files in between.\<close>

inductive chain_history :: "local_data \<Rightarrow> local_data \<Rightarrow> bool" for ld where
  history_start: "chain_history ld ld"
| history_files: "chain_history ld ld1
    \<Longrightarrow> chain_history ld (ld1\<lparr>ld_disk := d, ld_book := b, ld_ticks := t, ld_credentials := c\<rparr>)"
| history_settle: "chain_history ld ld1 \<Longrightarrow> rewards_fit env identity config epoch ld1
    \<Longrightarrow> settle_local_epoch env identity config epoch h window ld1 = (r, ld2) \<Longrightarrow> chain_history ld ld2"

lemma chain_history_sound: "chain_history ld ld' \<Longrightarrow> local_chain_sound ld \<Longrightarrow> local_chain_sound ld'"
proof (induction rule: chain_history.induct)
  case (history_settle ld1 env identity config epoch h window r ld2)
  show ?case
  proof (cases r)
    case (Inl e)
    then show ?thesis using history_settle settle_local_epoch_error by blast
  next
    case (Inr artifact)
    with history_settle show ?thesis by (blast elim: settle_local_epoch_ledger)
  qed
qed (simp_all add: local_chain_sound_def split: option.splits sum.splits)

end
