(* ===== verification/Governance_Artifacts.thy ===== *)
theory Governance_Artifacts
  imports Settlement
begin

text \<open>
  The governance artifacts of the local chain (\<open>src/src/node_settlement.rs\<close>): one artifact per proposal with
  the summed voting power, one per scheduled parameter set, an index sorted by id and a summary. A path is given
  relative to the directory \<open>local-chain/governance\<close>. Written files are returned; only the index is read
  back, so it is the state.
\<close>

record governance_proposal_artifact =
  ga_proposal_id_hex :: string
  ga_proposer_hex :: string
  ga_effective_epoch :: u64
  ga_submitted_height :: u64
  ga_bond_amount :: u128
  ga_params_hash_hex :: string
  ga_proposal_state :: string
  ga_vote_record_count :: nat
  ga_yes_voting_power :: u128
  ga_no_voting_power :: u128
  ga_abstain_voting_power :: u128
  ga_params :: protocol_params

record governance_scheduled_params_artifact =
  gs_epoch_id :: u64
  gs_current_epoch :: u64
  gs_scheduled :: bool
  gs_params :: "protocol_params option"

record governance_proposal_index_entry =
  gi_proposal_id_hex :: string
  gi_proposal_state :: string
  gi_effective_epoch :: u64
  gi_artifact_path :: string

record governance_scheduled_index_entry =
  si_epoch_id :: u64
  si_scheduled :: bool
  si_artifact_path :: string

record governance_artifact_index =
  ix_proposal_artifacts :: "governance_proposal_index_entry list"
  ix_scheduled_artifacts :: "governance_scheduled_index_entry list"

record governance_artifact_summary =
  gy_pending_proposal_count :: nat
  gy_scheduled_proposal_count :: nat
  gy_activated_proposal_count :: nat
  gy_expired_proposal_count :: nat
  gy_proposal_artifact_count :: nat
  gy_scheduled_artifact_count :: nat
  gy_latest_effective_epoch :: "u64 option"

definition default_governance_index :: governance_artifact_index where
  "default_governance_index = \<lparr>ix_proposal_artifacts = [], ix_scheduled_artifacts = []\<rparr>"

subsection \<open>The index\<close>

text \<open>\<open>iter_mut().find(..)\<close>: the first element that satisfies the test is updated.\<close>

fun update_first :: "('a \<Rightarrow> bool) \<Rightarrow> ('a \<Rightarrow> 'a) \<Rightarrow> 'a list \<Rightarrow> 'a list option" where
  "update_first P f [] = None"
| "update_first P f (x # xs) = (if P x then Some (f x # xs) else map_option ((#) x) (update_first P f xs))"

definition upsert_by :: "('a \<Rightarrow> bool) \<Rightarrow> ('a \<Rightarrow> 'a) \<Rightarrow> 'a \<Rightarrow> 'a list \<Rightarrow> 'a list" where
  "upsert_by P f new xs = (case update_first P f xs of Some ys \<Rightarrow> ys | None \<Rightarrow> xs @ [new])"

definition upsert_proposal_artifact ::
  "string \<Rightarrow> string \<Rightarrow> u64 \<Rightarrow> string \<Rightarrow> governance_artifact_index \<Rightarrow> governance_artifact_index" where
  "upsert_proposal_artifact proposal_id_hex proposal_state effective_epoch artifact_path index =
     index\<lparr>ix_proposal_artifacts := sort_key gi_proposal_id_hex
       (upsert_by (\<lambda>entry. gi_proposal_id_hex entry = proposal_id_hex)
         (\<lambda>entry. entry\<lparr>gi_proposal_state := proposal_state, gi_effective_epoch := effective_epoch,
            gi_artifact_path := artifact_path\<rparr>)
         \<lparr>gi_proposal_id_hex = proposal_id_hex, gi_proposal_state = proposal_state,
          gi_effective_epoch = effective_epoch, gi_artifact_path = artifact_path\<rparr> (ix_proposal_artifacts index))\<rparr>"

definition upsert_scheduled_artifact ::
  "u64 \<Rightarrow> bool \<Rightarrow> string \<Rightarrow> governance_artifact_index \<Rightarrow> governance_artifact_index" where
  "upsert_scheduled_artifact epoch scheduled artifact_path index =
     index\<lparr>ix_scheduled_artifacts := sort_key si_epoch_id
       (upsert_by (\<lambda>entry. si_epoch_id entry = epoch)
         (\<lambda>entry. entry\<lparr>si_scheduled := scheduled, si_artifact_path := artifact_path\<rparr>)
         \<lparr>si_epoch_id = epoch, si_scheduled = scheduled, si_artifact_path = artifact_path\<rparr> (ix_scheduled_artifacts index))\<rparr>"

subsection \<open>Artifacts\<close>

fun summarize_governance_votes :: "governance_vote_record list \<Rightarrow> u128 \<times> u128 \<times> u128 \<Rightarrow> u128 \<times> u128 \<times> u128" where
  "summarize_governance_votes [] acc = acc"
| "summarize_governance_votes (v # vs) (yes, no, abstain) =
     summarize_governance_votes vs
       (case gv_choice v of
          VoteYes \<Rightarrow> (yes + gv_voting_power v, no, abstain)
        | VoteNo \<Rightarrow> (yes, no + gv_voting_power v, abstain)
        | VoteAbstain \<Rightarrow> (yes, no, abstain + gv_voting_power v))"

fun proposal_state_text :: "governance_proposal_state \<Rightarrow> string" where
  "proposal_state_text ProposalPending = ''Pending''"
| "proposal_state_text ProposalScheduled = ''Scheduled''"
| "proposal_state_text ProposalActivated = ''Activated''"
| "proposal_state_text ProposalExpired = ''Expired''"

definition governance_proposal_artifact_path :: "string \<Rightarrow> string" where
  "governance_proposal_artifact_path proposal_id_hex = ''proposals/'' @ proposal_id_hex @ ''.json''"

definition governance_scheduled_artifact_path :: "epoch_id \<Rightarrow> string" where
  "governance_scheduled_artifact_path epoch = ''scheduled/epoch-'' @ decimal_padded 6 (unat epoch) @ ''.json''"

definition build_governance_proposal_artifact ::
  "in_memory_store \<Rightarrow> governance_proposal \<Rightarrow> governance_proposal_artifact \<times> string" where
  "build_governance_proposal_artifact st proposal =
     (let vs = vote_records_for_proposal st (gp_proposal_id proposal);
          (yes, no, abstain) = summarize_governance_votes vs (0, 0, 0);
          proposal_id_hex = hex_32 (gp_proposal_id proposal)
      in (\<lparr>ga_proposal_id_hex = proposal_id_hex, ga_proposer_hex = hex_32 (gp_proposer proposal),
           ga_effective_epoch = gp_effective_epoch proposal, ga_submitted_height = gp_submitted_height proposal,
           ga_bond_amount = gp_bond_amount proposal, ga_params_hash_hex = hex_32 (gp_params_hash proposal),
           ga_proposal_state = proposal_state_text (gp_state proposal), ga_vote_record_count = length vs,
           ga_yes_voting_power = yes, ga_no_voting_power = no, ga_abstain_voting_power = abstain,
           ga_params = gp_params proposal\<rparr>,
          governance_proposal_artifact_path proposal_id_hex))"

definition index_proposal :: "in_memory_store \<Rightarrow> governance_artifact_index \<Rightarrow> governance_proposal \<Rightarrow> governance_artifact_index" where
  "index_proposal st index proposal =
     (let (artifact, path) = build_governance_proposal_artifact st proposal
      in upsert_proposal_artifact (ga_proposal_id_hex artifact) (ga_proposal_state artifact) (ga_effective_epoch artifact) path index)"

definition index_scheduled :: "governance_artifact_index \<Rightarrow> epoch_id \<times> protocol_params \<Rightarrow> governance_artifact_index" where
  "index_scheduled index scheduled =
     upsert_scheduled_artifact (fst scheduled) True (governance_scheduled_artifact_path (fst scheduled)) index"

definition count_state :: "string \<Rightarrow> governance_artifact_index \<Rightarrow> nat" where
  "count_state state index = length (filter (\<lambda>entry. gi_proposal_state entry = state) (ix_proposal_artifacts index))"

definition governance_summary :: "governance_artifact_index \<Rightarrow> governance_artifact_summary" where
  "governance_summary index =
     \<lparr>gy_pending_proposal_count = count_state ''Pending'' index, gy_scheduled_proposal_count = count_state ''Scheduled'' index,
      gy_activated_proposal_count = count_state ''Activated'' index, gy_expired_proposal_count = count_state ''Expired'' index,
      gy_proposal_artifact_count = length (ix_proposal_artifacts index),
      gy_scheduled_artifact_count = length (ix_scheduled_artifacts index),
      gy_latest_effective_epoch =
        (let epochs = map gi_effective_epoch (ix_proposal_artifacts index) in if epochs = [] then None else Some (Max (set epochs)))\<rparr>"

definition export_governance_artifacts :: "in_memory_store \<Rightarrow> governance_artifact_index \<times> governance_artifact_summary" where
  "export_governance_artifacts st =
     (let index = foldl index_scheduled (foldl (index_proposal st) default_governance_index (params_update_proposals_iter st))
            (bt_entries (scheduled_protocol_params st))
      in (index, governance_summary index))"

definition export_governance_proposal_artifact ::
  "in_memory_store \<Rightarrow> hash32 \<Rightarrow> governance_artifact_index \<Rightarrow> governance_proposal_artifact option \<times> governance_artifact_index" where
  "export_governance_proposal_artifact st proposal_id index =
     (case params_update_proposal st proposal_id of
        None \<Rightarrow> (None, index)
      | Some proposal \<Rightarrow>
          (let (artifact, path) = build_governance_proposal_artifact st proposal
           in (Some artifact, upsert_proposal_artifact (ga_proposal_id_hex artifact) (ga_proposal_state artifact)
                 (ga_effective_epoch artifact) path index)))"

definition export_governance_scheduled_artifact ::
  "epoch_id \<Rightarrow> epoch_id \<Rightarrow> protocol_params option \<Rightarrow> governance_artifact_index
    \<Rightarrow> governance_scheduled_params_artifact \<times> governance_artifact_index" where
  "export_governance_scheduled_artifact current epoch p index =
     (let artifact = \<lparr>gs_epoch_id = epoch, gs_current_epoch = current, gs_scheduled = (p \<noteq> None), gs_params = p\<rparr>
      in (artifact, upsert_scheduled_artifact epoch (gs_scheduled artifact) (governance_scheduled_artifact_path epoch) index))"

subsection \<open>The index mirrors the store\<close>

lemma update_first_None: "update_first P f xs = None \<longleftrightarrow> (\<forall>x \<in> set xs. \<not> P x)"
  by (induction xs) auto

lemma update_first_map:
  "distinct (map key xs) \<Longrightarrow> (\<And>x. key (f x) = key x) \<Longrightarrow> update_first (\<lambda>x. key x = k) f xs = Some ys
    \<Longrightarrow> ys = map (\<lambda>x. if key x = k then f x else x) xs"
proof (induction xs arbitrary: ys)
  case (Cons x xs)
  show ?case
  proof (cases "key x = k")
    case True
    with Cons.prems(1) have "key y \<noteq> k" if "y \<in> set xs" for y
      using imageI [OF that, of key] by auto
    then have "map (\<lambda>x. if key x = k then f x else x) xs = xs" by (intro map_idI) simp
    with True Cons.prems show ?thesis by simp
  qed (use Cons in auto)
qed simp

lemma upsert_by_fresh: "\<forall>x \<in> set xs. \<not> P x \<Longrightarrow> upsert_by P f new xs = xs @ [new]"
  by (simp add: upsert_by_def update_first_None [THEN iffD2])

lemma upsert_by_keys:
  assumes "distinct (map key xs)" "\<And>x. key (f x) = key x" "key new = k"
  shows "distinct (map key (upsert_by (\<lambda>x. key x = k) f new xs))"
    and "key ` set (upsert_by (\<lambda>x. key x = k) f new xs) = insert k (key ` set xs)"
proof -
  have "distinct (map key (upsert_by (\<lambda>x. key x = k) f new xs)) \<and> key ` set (upsert_by (\<lambda>x. key x = k) f new xs) = insert k (key ` set xs)"
  proof (cases "update_first (\<lambda>x. key x = k) f xs")
    case None
    then have "\<forall>x \<in> set xs. key x \<noteq> k" by (simp add: update_first_None)
    with upsert_by_fresh [OF this] show ?thesis using assms by auto
  next
    case (Some ys)
    have ys: "ys = map (\<lambda>x. if key x = k then f x else x) xs"
      by (rule update_first_map [OF assms(1,2) Some])
    have "map key ys = map key xs" using assms(2) by (simp add: ys comp_def if_distrib cong: if_cong)
    moreover have "k \<in> key ` set xs"
      using Some update_first_None [of "\<lambda>x. key x = k" f xs] by fastforce
    ultimately show ?thesis
      using assms(1) Some by (simp add: upsert_by_def insert_absorb flip: set_map)
  qed
  then show "distinct (map key (upsert_by (\<lambda>x. key x = k) f new xs))"
    and "key ` set (upsert_by (\<lambda>x. key x = k) f new xs) = insert k (key ` set xs)" by simp_all
qed

definition index_sorted :: "governance_artifact_index \<Rightarrow> bool" where
  "index_sorted index \<longleftrightarrow>
     sorted (map gi_proposal_id_hex (ix_proposal_artifacts index)) \<and> distinct (map gi_proposal_id_hex (ix_proposal_artifacts index))
     \<and> sorted (map si_epoch_id (ix_scheduled_artifacts index)) \<and> distinct (map si_epoch_id (ix_scheduled_artifacts index))"

lemma distinct_map_sort_key: "distinct (map g (sort_key f xs)) \<longleftrightarrow> distinct (map g xs)"
  by (simp add: distinct_map)

lemma index_operations_sorted:
  assumes "index_sorted index"
  shows "index_sorted (upsert_proposal_artifact pid state epoch path index)"
    and "index_sorted (upsert_scheduled_artifact epoch2 scheduled path2 index)"
  using assms
  by (simp_all add: index_sorted_def upsert_proposal_artifact_def upsert_scheduled_artifact_def distinct_map_sort_key upsert_by_keys)

text \<open>Each proposal of the store has exactly one entry, with the state and the epoch it has there.\<close>

definition entry_of :: "governance_proposal \<Rightarrow> governance_proposal_index_entry" where
  "entry_of p = \<lparr>gi_proposal_id_hex = hex_32 (gp_proposal_id p), gi_proposal_state = proposal_state_text (gp_state p),
     gi_effective_epoch = gp_effective_epoch p, gi_artifact_path = governance_proposal_artifact_path (hex_32 (gp_proposal_id p))\<rparr>"

lemma index_proposal_eq:
  "index_proposal st index p = upsert_proposal_artifact (hex_32 (gp_proposal_id p)) (proposal_state_text (gp_state p))
     (gp_effective_epoch p) (governance_proposal_artifact_path (hex_32 (gp_proposal_id p))) index"
  by (simp add: index_proposal_def build_governance_proposal_artifact_def Let_def split: prod.split)

lemma hex_32_inject: "hex_32 a = hex_32 b \<longleftrightarrow> a = b"
  using decode_hex_32_hex_32 [of a "[]"] decode_hex_32_hex_32 [of b "[]"] by (metis sum.inject(2))

lemma index_proposals_mset:
  assumes "distinct (map gp_proposal_id ps)" "\<forall>p \<in> set ps. hex_32 (gp_proposal_id p) \<notin> gi_proposal_id_hex ` set (ix_proposal_artifacts index)"
  shows "mset (ix_proposal_artifacts (foldl (index_proposal st) index ps)) = mset (ix_proposal_artifacts index) + mset (map entry_of ps)
    \<and> ix_scheduled_artifacts (foldl (index_proposal st) index ps) = ix_scheduled_artifacts index"
  using assms
proof (induction ps arbitrary: index)
  case (Cons p ps)
  let ?index = "index_proposal st index p"
  have fresh: "\<forall>x \<in> set (ix_proposal_artifacts index). gi_proposal_id_hex x \<noteq> hex_32 (gp_proposal_id p)"
    using Cons.prems(2) by force
  have artifacts: "ix_proposal_artifacts ?index = sort_key gi_proposal_id_hex (ix_proposal_artifacts index @ [entry_of p])"
    by (simp add: index_proposal_eq upsert_proposal_artifact_def upsert_by_fresh [OF fresh] entry_of_def)
  have "\<forall>q \<in> set ps. hex_32 (gp_proposal_id q) \<notin> gi_proposal_id_hex ` set (ix_proposal_artifacts ?index)"
    using Cons.prems by (auto simp: artifacts entry_of_def hex_32_inject) (metis imageI)
  with Cons.IH [of ?index] Cons.prems(1) show ?case
    by (simp add: artifacts) (simp add: index_proposal_eq upsert_proposal_artifact_def)
qed simp

lemma index_scheduled_proposals [simp]:
  "ix_proposal_artifacts (foldl index_scheduled index entries) = ix_proposal_artifacts index"
  by (induction entries arbitrary: index) (simp_all add: index_scheduled_def upsert_scheduled_artifact_def)

lemma index_scheduled_length:
  assumes "distinct (map fst entries)" "\<forall>e \<in> set entries. fst e \<notin> si_epoch_id ` set (ix_scheduled_artifacts index)"
  shows "length (ix_scheduled_artifacts (foldl index_scheduled index entries))
      = length (ix_scheduled_artifacts index) + length entries"
  using assms
proof (induction entries arbitrary: index)
  case (Cons e entries)
  have fresh: "\<forall>x \<in> set (ix_scheduled_artifacts index). si_epoch_id x \<noteq> fst e" using Cons.prems(2) by force
  let ?index = "index_scheduled index e"
  have artifacts: "ix_scheduled_artifacts ?index = sort_key si_epoch_id (ix_scheduled_artifacts index
      @ [\<lparr>si_epoch_id = fst e, si_scheduled = True, si_artifact_path = governance_scheduled_artifact_path (fst e)\<rparr>])"
    by (simp add: index_scheduled_def upsert_scheduled_artifact_def upsert_by_fresh [OF fresh])
  have "\<forall>x \<in> set entries. fst x \<notin> si_epoch_id ` set (ix_scheduled_artifacts ?index)"
    using Cons.prems by (auto simp: artifacts) (metis fst_conv imageI)
  with Cons.IH [of ?index] Cons.prems(1) show ?case by (simp add: artifacts)
qed simp

text \<open>
  The exported index lists the proposals and the scheduled parameters of the store, once each, and the
  four counts of the summary add up to the number of proposals.
\<close>

lemma filter_mset_length: "mset xs = mset ys \<Longrightarrow> length (filter P xs) = length (filter P ys)"
  by (metis mset_filter size_mset)

lemma export_governance_artifacts_ok:
  assumes "distinct (map gp_proposal_id (params_update_proposals_iter st))"
    and "export_governance_artifacts st = (index, summary)"
  shows "mset (ix_proposal_artifacts index) = mset (map entry_of (params_update_proposals_iter st))"
    and "gy_pending_proposal_count summary + gy_scheduled_proposal_count summary + gy_activated_proposal_count summary
      + gy_expired_proposal_count summary = length (params_update_proposals_iter st)"
    and "gy_proposal_artifact_count summary = length (params_update_proposals_iter st)"
    and "gy_scheduled_artifact_count summary = length (bt_entries (scheduled_protocol_params st))"
proof -
  let ?ps = "params_update_proposals_iter st"
  let ?first = "foldl (index_proposal st) default_governance_index ?ps"
  have index: "index = foldl index_scheduled ?first (bt_entries (scheduled_protocol_params st))" "summary = governance_summary index"
    using assms(2) by (auto simp: export_governance_artifacts_def Let_def)
  have first: "mset (ix_proposal_artifacts ?first) = mset (map entry_of ?ps)" "ix_scheduled_artifacts ?first = []"
    using index_proposals_mset [OF assms(1), of default_governance_index st] by (simp_all add: default_governance_index_def)
  then show entries: "mset (ix_proposal_artifacts index) = mset (map entry_of ?ps)" by (simp add: index(1))
  have "length (ix_scheduled_artifacts index) = length (bt_entries (scheduled_protocol_params st))"
    unfolding index(1) using first(2) by (subst index_scheduled_length) (simp_all add: bt.distinct_ents del: bt_entries_simps)
  then show "gy_scheduled_artifact_count summary = length (bt_entries (scheduled_protocol_params st))"
    by (simp add: index(2) governance_summary_def)
  have len: "length (ix_proposal_artifacts index) = length ?ps"
    using entries by (metis length_map size_mset)
  then show "gy_proposal_artifact_count summary = length ?ps" by (simp add: index(2) governance_summary_def)
  have "count_state state index = length (filter (\<lambda>p. proposal_state_text (gp_state p) = state) ?ps)" for state
    unfolding count_state_def filter_mset_length [OF entries] by (simp add: filter_map comp_def entry_of_def)
  moreover have "length (filter (\<lambda>p. proposal_state_text (gp_state p) = ''Pending'') ps)
      + length (filter (\<lambda>p. proposal_state_text (gp_state p) = ''Scheduled'') ps)
      + length (filter (\<lambda>p. proposal_state_text (gp_state p) = ''Activated'') ps)
      + length (filter (\<lambda>p. proposal_state_text (gp_state p) = ''Expired'') ps) = length ps" for ps
  proof (induction ps)
    case (Cons p ps)
    then show ?case by (cases "gp_state p") simp_all
  qed simp
  ultimately show "gy_pending_proposal_count summary + gy_scheduled_proposal_count summary + gy_activated_proposal_count summary
      + gy_expired_proposal_count summary = length ?ps"
    by (simp add: index(2) governance_summary_def)
qed

text \<open>The voting powers are the sums over the votes of each choice, as long as they fit.\<close>

lemma summarize_votes_sums:
  assumes "summarize_governance_votes vs (a, b, c) = (yes, no, abstain)"
  shows "yes = a + (\<Sum>v\<leftarrow>vs. if gv_choice v = VoteYes then gv_voting_power v else 0)"
    "no = b + (\<Sum>v\<leftarrow>vs. if gv_choice v = VoteNo then gv_voting_power v else 0)"
    "abstain = c + (\<Sum>v\<leftarrow>vs. if gv_choice v = VoteAbstain then gv_voting_power v else 0)"
proof -
  have "summarize_governance_votes vs (a, b, c) =
      (a + (\<Sum>v\<leftarrow>vs. if gv_choice v = VoteYes then gv_voting_power v else 0),
       b + (\<Sum>v\<leftarrow>vs. if gv_choice v = VoteNo then gv_voting_power v else 0),
       c + (\<Sum>v\<leftarrow>vs. if gv_choice v = VoteAbstain then gv_voting_power v else 0))"
  proof (induction vs arbitrary: a b c)
    case (Cons v vs)
    then show ?case by (cases "gv_choice v") (simp_all add: add.assoc)
  qed simp
  with assms show "yes = a + (\<Sum>v\<leftarrow>vs. if gv_choice v = VoteYes then gv_voting_power v else 0)"
    "no = b + (\<Sum>v\<leftarrow>vs. if gv_choice v = VoteNo then gv_voting_power v else 0)"
    "abstain = c + (\<Sum>v\<leftarrow>vs. if gv_choice v = VoteAbstain then gv_voting_power v else 0)" by simp_all
qed

end
