(* ===== verification/Node_Progress.thy ===== *)
theory Node_Progress
  imports Tick_Accounting Governance_Artifacts
begin

text \<open>
  The cursor of a node (\<open>LocalNodeProgress\<close> of \<open>src/src/node_daemon.rs\<close>): the next epoch and slot, the completed
  reward blocks, and the fixed block reward of the current adjustment cycle, which moves at most once per
  cycle. Each quantity of the cycle is stored under its old and its new name. Reading and writing the file is
  not modelled; loading normalises what was read, saving normalises what is written.
\<close>

record local_node_progress =
  np_next_epoch_id :: u64
  np_next_slot_id :: u64
  np_ticks_completed :: u64
  np_reward_blocks_completed :: u64
  np_current_reward_adjustment_period_index :: u64
  np_current_adjustment_cycle_index :: u64
  np_current_fixed_block_reward :: u128
  np_current_fixed_player_reward :: u128
  np_current_fixed_block_reward_basis_period_index :: u64
  np_current_fixed_player_reward_basis_cycle_index :: u64
  np_current_fixed_block_reward_basis_network_weight_units :: u128
  np_current_fixed_player_reward_basis_total_network_weight_units :: u128
  np_previous_reward_adjustment_period_network_weight_units :: u128
  np_previous_adjustment_cycle_total_network_weight_units :: u128
  np_current_reward_adjustment_period_network_weight_units :: u128
  np_current_adjustment_cycle_total_network_weight_units :: u128
  np_pending_reward_block :: "pending_player_reward_block_state option"

subsection \<open>Operations\<close>

definition sync_legacy_adjustment_fields :: "local_node_progress \<Rightarrow> local_node_progress" where
  "sync_legacy_adjustment_fields p =
     p\<lparr>np_current_reward_adjustment_period_index := np_current_adjustment_cycle_index p,
       np_current_fixed_block_reward := np_current_fixed_player_reward p,
       np_current_fixed_block_reward_basis_period_index := np_current_fixed_player_reward_basis_cycle_index p,
       np_current_fixed_block_reward_basis_network_weight_units :=
         np_current_fixed_player_reward_basis_total_network_weight_units p,
       np_previous_reward_adjustment_period_network_weight_units :=
         np_previous_adjustment_cycle_total_network_weight_units p,
       np_current_reward_adjustment_period_network_weight_units :=
         np_current_adjustment_cycle_total_network_weight_units p\<rparr>"

definition or_legacy :: "'a::zero \<Rightarrow> 'a \<Rightarrow> 'a" where
  "or_legacy v legacy = (if v = 0 then legacy else v)"

definition normalize_adjustment_cycle_fields :: "local_node_progress \<Rightarrow> local_node_progress" where
  "normalize_adjustment_cycle_fields p =
     sync_legacy_adjustment_fields
       (p\<lparr>np_current_adjustment_cycle_index :=
            or_legacy (np_current_adjustment_cycle_index p) (np_current_reward_adjustment_period_index p),
          np_current_fixed_player_reward :=
            or_legacy (np_current_fixed_player_reward p) (np_current_fixed_block_reward p),
          np_current_fixed_player_reward_basis_cycle_index :=
            or_legacy (np_current_fixed_player_reward_basis_cycle_index p) (np_current_fixed_block_reward_basis_period_index p),
          np_current_fixed_player_reward_basis_total_network_weight_units :=
            or_legacy (np_current_fixed_player_reward_basis_total_network_weight_units p)
              (np_current_fixed_block_reward_basis_network_weight_units p),
          np_previous_adjustment_cycle_total_network_weight_units :=
            or_legacy (np_previous_adjustment_cycle_total_network_weight_units p)
              (np_previous_reward_adjustment_period_network_weight_units p),
          np_current_adjustment_cycle_total_network_weight_units :=
            or_legacy (np_current_adjustment_cycle_total_network_weight_units p)
              (np_current_reward_adjustment_period_network_weight_units p),
          np_pending_reward_block := map_option normalize_pending (np_pending_reward_block p)\<rparr>)"

definition default_from_config :: "protocol_params option \<Rightarrow> node_config \<Rightarrow> local_node_progress" where
  "default_from_config activated config =
     normalize_adjustment_cycle_fields
       \<lparr>np_next_epoch_id = co_default_epoch_id (nc_collect config), np_next_slot_id = co_default_slot_id (nc_collect config),
        np_ticks_completed = 0, np_reward_blocks_completed = 0, np_current_reward_adjustment_period_index = 0,
        np_current_adjustment_cycle_index = 0,
        np_current_fixed_block_reward = effective_player_block_reward_of activated config,
        np_current_fixed_player_reward = effective_player_block_reward_of activated config,
        np_current_fixed_block_reward_basis_period_index = 0, np_current_fixed_player_reward_basis_cycle_index = 0,
        np_current_fixed_block_reward_basis_network_weight_units = 0,
        np_current_fixed_player_reward_basis_total_network_weight_units = 0,
        np_previous_reward_adjustment_period_network_weight_units = 0,
        np_previous_adjustment_cycle_total_network_weight_units = 0,
        np_current_reward_adjustment_period_network_weight_units = 0,
        np_current_adjustment_cycle_total_network_weight_units = 0, np_pending_reward_block = None\<rparr>"

definition advance :: "u64 \<Rightarrow> local_node_progress \<Rightarrow> local_node_progress" where
  "advance slots_per_epoch p =
     (let p = p\<lparr>np_ticks_completed := np_ticks_completed p + 1\<rparr> in
      if np_next_slot_id p \<ge> slots_per_epoch
      then p\<lparr>np_next_epoch_id := np_next_epoch_id p + 1, np_next_slot_id := 1\<rparr>
      else p\<lparr>np_next_slot_id := np_next_slot_id p + 1\<rparr>)"

definition reward_adjustment_period_index :: "u64 \<Rightarrow> local_node_progress \<Rightarrow> u64" where
  "reward_adjustment_period_index blocks_per_period p = np_reward_blocks_completed p div max blocks_per_period 1"

definition set_current_adjustment_cycle_index :: "u64 \<Rightarrow> local_node_progress \<Rightarrow> local_node_progress" where
  "set_current_adjustment_cycle_index i p =
     p\<lparr>np_current_adjustment_cycle_index := i, np_current_reward_adjustment_period_index := i\<rparr>"

definition set_current_fixed_player_reward :: "u128 \<Rightarrow> local_node_progress \<Rightarrow> local_node_progress" where
  "set_current_fixed_player_reward r p = p\<lparr>np_current_fixed_player_reward := r, np_current_fixed_block_reward := r\<rparr>"

definition set_fixed_player_reward_basis :: "u64 \<Rightarrow> u128 \<Rightarrow> local_node_progress \<Rightarrow> local_node_progress" where
  "set_fixed_player_reward_basis i w p =
     p\<lparr>np_current_fixed_player_reward_basis_cycle_index := i,
       np_current_fixed_player_reward_basis_total_network_weight_units := w,
       np_current_fixed_block_reward_basis_period_index := i,
       np_current_fixed_block_reward_basis_network_weight_units := w\<rparr>"

definition set_previous_cycle_weight :: "u128 \<Rightarrow> local_node_progress \<Rightarrow> local_node_progress" where
  "set_previous_cycle_weight w p =
     p\<lparr>np_previous_adjustment_cycle_total_network_weight_units := w,
       np_previous_reward_adjustment_period_network_weight_units := w\<rparr>"

definition set_current_cycle_weight :: "u128 \<Rightarrow> local_node_progress \<Rightarrow> local_node_progress" where
  "set_current_cycle_weight w p =
     p\<lparr>np_current_adjustment_cycle_total_network_weight_units := w,
       np_current_reward_adjustment_period_network_weight_units := w\<rparr>"

text \<open>
  The fixed reward of the block to come. The samples that the function takes are not used. The value is \<open>None\<close> where
  the square root of the adjustment overflows.
\<close>

definition current_fixed_block_reward ::
  "protocol_params option \<Rightarrow> node_config \<Rightarrow> u64 \<Rightarrow> local_node_progress \<Rightarrow> (u128 \<times> local_node_progress) option" where
  "current_fixed_block_reward activated config period_index p =
     (let base = max (effective_player_block_reward_of activated config) 1;
          p = (if np_current_fixed_player_reward p = 0 then set_current_fixed_player_reward base p else p) in
      if np_reward_blocks_completed p = 0
      then Some (base, set_fixed_player_reward_basis period_index 0
             (set_current_fixed_player_reward base (set_current_adjustment_cycle_index period_index p)))
      else if period_index \<noteq> np_current_adjustment_cycle_index p
      then
        let weight = np_current_adjustment_cycle_total_network_weight_units p;
            previous_period_index = np_current_adjustment_cycle_index p
        in map_option (\<lambda>reward.
             (max reward 1, set_fixed_player_reward_basis previous_period_index weight
               (set_current_fixed_player_reward (max reward 1)
                 (set_current_adjustment_cycle_index period_index
                   (set_current_cycle_weight 0 (set_previous_cycle_weight weight p))))))
             (if weight = 0 then Some base
              else adjusted_player_block_reward base (effective_target_network_weight_units activated config) weight
                (effective_reward_adjustment_cap_bps activated config))
      else Some (max (np_current_fixed_player_reward p) 1, p))"

fun distinct_block_weights :: "u32 list \<Rightarrow> player_reward_block_record list \<Rightarrow> amount list" where
  "distinct_block_weights seen [] = []"
| "distinct_block_weights seen (r # rs) =
     (if br_block_index r \<in> set seen then distinct_block_weights seen rs
      else br_total_network_weight_units r # distinct_block_weights (br_block_index r # seen) rs)"

definition completed_cycle_weight :: "player_reward_tick_artifact \<Rightarrow> amount" where
  "completed_cycle_weight artifact = sum_list (distinct_block_weights [] (ta_records artifact))"

definition account_tick :: "player_reward_tick_artifact \<Rightarrow> local_node_progress \<Rightarrow> local_node_progress" where
  "account_tick artifact p =
     (let p = set_current_cycle_weight
            (saturating_add (np_current_adjustment_cycle_total_network_weight_units p) (completed_cycle_weight artifact)) p
      in p\<lparr>np_reward_blocks_completed := saturating_add (np_reward_blocks_completed p)
             (word_of_nat (ta_completed_reward_block_count artifact))\<rparr>)"

definition effective_collect_interval_secs :: "node_config \<Rightarrow> string list \<Rightarrow> u64" where
  "effective_collect_interval_secs config active_game_processes =
     (if rt_low_impact_mode (nc_runtime config) \<and> active_game_processes \<noteq> []
      then max (rt_poll_interval_secs (nc_runtime config)) (rt_game_active_poll_interval_secs (nc_runtime config))
      else rt_poll_interval_secs (nc_runtime config))"

subsection \<open>The adjustment artifacts\<close>

record reward_adjustment_artifact =
  rj_adjustment_cycle_index :: u64
  rj_basis_cycle_index :: u64
  rj_basis_total_network_weight_units :: u128
  rj_target_total_network_weight_units :: u128
  rj_reward_adjustment_cap_bps :: u16
  rj_adjustment_cycle_blocks :: u64
  rj_reward_block_secs :: u64
  rj_base_fixed_player_reward :: u128
  rj_fixed_player_reward :: u128

record reward_adjustment_index_entry =
  ri_adjustment_cycle_index :: u64
  ri_basis_cycle_index :: u64
  ri_fixed_player_reward :: u128
  ri_artifact_path :: string

record reward_adjustment_artifact_summary =
  rs_adjustment_artifact_count :: nat
  rs_adjustment_cycle_artifact_count :: nat
  rs_latest_period_index :: "u64 option"
  rs_latest_adjustment_cycle_index :: "u64 option"
  rs_latest_basis_period_index :: "u64 option"
  rs_latest_basis_cycle_index :: "u64 option"
  rs_latest_adjusted_player_block_reward :: "u128 option"
  rs_latest_fixed_player_reward :: "u128 option"

definition upsert_adjustment_artifact ::
  "u64 \<Rightarrow> u64 \<Rightarrow> u128 \<Rightarrow> string \<Rightarrow> reward_adjustment_index_entry list \<Rightarrow> reward_adjustment_index_entry list" where
  "upsert_adjustment_artifact cycle_index basis_index reward path index =
     sort_key ri_adjustment_cycle_index
       (upsert_by (\<lambda>entry. ri_adjustment_cycle_index entry = cycle_index)
         (\<lambda>entry. entry\<lparr>ri_adjustment_cycle_index := cycle_index, ri_basis_cycle_index := basis_index,
            ri_fixed_player_reward := reward, ri_artifact_path := path\<rparr>)
         \<lparr>ri_adjustment_cycle_index = cycle_index, ri_basis_cycle_index = basis_index, ri_fixed_player_reward = reward,
          ri_artifact_path = path\<rparr> index)"

definition current_adjustment_cycle_artifact ::
  "protocol_params option \<Rightarrow> node_config \<Rightarrow> local_node_progress \<Rightarrow> reward_adjustment_artifact" where
  "current_adjustment_cycle_artifact activated config p =
     \<lparr>rj_adjustment_cycle_index = np_current_reward_adjustment_period_index p,
      rj_basis_cycle_index = np_current_fixed_block_reward_basis_period_index p,
      rj_basis_total_network_weight_units = np_current_fixed_block_reward_basis_network_weight_units p,
      rj_target_total_network_weight_units = effective_target_network_weight_units activated config,
      rj_reward_adjustment_cap_bps = effective_reward_adjustment_cap_bps activated config,
      rj_adjustment_cycle_blocks = rc_reward_adjustment_period_blocks (nc_reward config),
      rj_reward_block_secs = effective_reward_block_secs activated config,
      rj_base_fixed_player_reward = effective_player_block_reward_of activated config,
      rj_fixed_player_reward = np_current_fixed_block_reward p\<rparr>"

definition reward_adjustment_artifact_path :: "u64 \<Rightarrow> string" where
  "reward_adjustment_artifact_path period_index = ''period-'' @ decimal_padded 6 (unat period_index) @ ''.json''"

definition adjustment_summary :: "reward_adjustment_index_entry list \<Rightarrow> reward_adjustment_artifact_summary" where
  "adjustment_summary index =
     (let latest = (\<lambda>f. if index = [] then None else Some (f (last index))) in
      \<lparr>rs_adjustment_artifact_count = length index, rs_adjustment_cycle_artifact_count = length index,
       rs_latest_period_index = (if index = [] then None else Some (ri_adjustment_cycle_index (last index))),
       rs_latest_adjustment_cycle_index = (if index = [] then None else Some (ri_adjustment_cycle_index (last index))),
       rs_latest_basis_period_index = (if index = [] then None else Some (ri_basis_cycle_index (last index))),
       rs_latest_basis_cycle_index = (if index = [] then None else Some (ri_basis_cycle_index (last index))),
       rs_latest_adjusted_player_block_reward = latest ri_fixed_player_reward,
       rs_latest_fixed_player_reward = latest ri_fixed_player_reward\<rparr>)"

definition persist_adjustment_cycle_artifact ::
  "protocol_params option \<Rightarrow> node_config \<Rightarrow> local_node_progress \<Rightarrow> reward_adjustment_index_entry list
    \<Rightarrow> (reward_adjustment_artifact \<times> reward_adjustment_artifact_summary) \<times> reward_adjustment_index_entry list" where
  "persist_adjustment_cycle_artifact activated config p index =
     (let artifact = current_adjustment_cycle_artifact activated config p;
          index' = upsert_adjustment_artifact (rj_adjustment_cycle_index artifact) (rj_basis_cycle_index artifact)
            (rj_fixed_player_reward artifact)
            (reward_adjustment_artifact_path (np_current_reward_adjustment_period_index p)) index
      in ((artifact, adjustment_summary index'), index'))"

subsection \<open>The two names of a value agree\<close>

definition mirrored :: "local_node_progress \<Rightarrow> bool" where
  "mirrored p \<longleftrightarrow>
     np_current_reward_adjustment_period_index p = np_current_adjustment_cycle_index p
     \<and> np_current_fixed_block_reward p = np_current_fixed_player_reward p
     \<and> np_current_fixed_block_reward_basis_period_index p = np_current_fixed_player_reward_basis_cycle_index p
     \<and> np_current_fixed_block_reward_basis_network_weight_units p = np_current_fixed_player_reward_basis_total_network_weight_units p
     \<and> np_previous_reward_adjustment_period_network_weight_units p = np_previous_adjustment_cycle_total_network_weight_units p
     \<and> np_current_reward_adjustment_period_network_weight_units p = np_current_adjustment_cycle_total_network_weight_units p"

definition pending_normal :: "local_node_progress \<Rightarrow> bool" where
  "pending_normal p \<longleftrightarrow> (\<forall>s. np_pending_reward_block p = Some s \<longrightarrow> normalize_pending s = s)"

lemma normalize_pending_idem [simp]: "normalize_pending (normalize_pending s) = normalize_pending s"
  by (simp add: normalize_pending_def Let_def)

lemma or_legacy_same [simp]: "or_legacy v v = v"
  by (simp add: or_legacy_def)

lemma normalize_mirrored: "mirrored (normalize_adjustment_cycle_fields p)"
  by (simp add: mirrored_def normalize_adjustment_cycle_fields_def sync_legacy_adjustment_fields_def)

lemma normalize_pending_normal: "pending_normal (normalize_adjustment_cycle_fields p)"
  by (auto simp: pending_normal_def normalize_adjustment_cycle_fields_def sync_legacy_adjustment_fields_def)

text \<open>What is saved is what is loaded: a consistent state is not changed by either normalisation.\<close>

lemma normalize_fixed:
  assumes "mirrored p" "pending_normal p"
  shows "normalize_adjustment_cycle_fields p = p"
proof -
  have "map_option normalize_pending (np_pending_reward_block p) = np_pending_reward_block p"
    using assms(2) by (cases "np_pending_reward_block p") (simp_all add: pending_normal_def)
  then show ?thesis
    using assms(1) by (cases p) (simp add: mirrored_def normalize_adjustment_cycle_fields_def sync_legacy_adjustment_fields_def)
qed

lemma normalize_idem: "normalize_adjustment_cycle_fields (normalize_adjustment_cycle_fields p) = normalize_adjustment_cycle_fields p"
  by (intro normalize_fixed normalize_mirrored normalize_pending_normal)

lemmas progress_setters = set_current_adjustment_cycle_index_def set_current_fixed_player_reward_def
  set_fixed_player_reward_basis_def set_previous_cycle_weight_def set_current_cycle_weight_def

lemma operations_mirrored:
  assumes "mirrored p"
  shows "mirrored (advance n p)" "mirrored (account_tick artifact p)"
    "mirrored (p\<lparr>np_pending_reward_block := b\<rparr>)"
    "current_fixed_block_reward activated config i p = Some (r, p') \<Longrightarrow> mirrored p'"
  using assms
  by (auto simp: mirrored_def advance_def account_tick_def current_fixed_block_reward_def progress_setters Let_def split: if_splits)

lemma default_mirrored: "mirrored (default_from_config activated config)"
  by (simp add: default_from_config_def normalize_mirrored)

subsection \<open>The cursor\<close>

text \<open>The slots of an epoch are 1 to \<open>slots_per_epoch\<close>; each tick moves to the next one.\<close>

definition cursor :: "local_node_progress \<Rightarrow> nat \<times> nat" where
  "cursor p = (unat (np_next_epoch_id p), unat (np_next_slot_id p))"

lemma advance_cursor:
  assumes "unat (np_next_epoch_id p) + 1 < 2 ^ 64"
  shows "cursor (advance n p) = (if unat n \<le> snd (cursor p) then (fst (cursor p) + 1, 1) else (fst (cursor p), snd (cursor p) + 1))"
proof -
  have "unat (np_next_epoch_id p + 1) = unat (np_next_epoch_id p) + 1"
    using assms unat_add_exact [of "np_next_epoch_id p" 1] by simp
  moreover have "unat (np_next_slot_id p + 1) = unat (np_next_slot_id p) + 1" if "np_next_slot_id p < n"
    using that unat_bound [of n] unat_add_exact [of "np_next_slot_id p" 1] by (simp add: word_less_nat_alt)
  ultimately show ?thesis
    by (simp add: cursor_def advance_def Let_def word_le_nat_alt word_less_nat_alt not_le)
qed

lemma advance_later:
  assumes "unat (np_next_epoch_id p) + 1 < 2 ^ 64"
  shows "cursor p < cursor (advance n p)"
  by (simp add: advance_cursor [OF assms]) (simp add: cursor_def less_prod_def)

subsection \<open>The fixed reward\<close>

text \<open>The reward only moves when a cycle ends, and then stays in the band around the base reward.\<close>

lemma fixed_reward_steady:
  assumes "np_reward_blocks_completed p \<noteq> 0" "i = np_current_adjustment_cycle_index p" "np_current_fixed_player_reward p \<noteq> 0"
  shows "current_fixed_block_reward activated config i p = Some (np_current_fixed_player_reward p, p)"
proof -
  have "1 \<le> np_current_fixed_player_reward p"
    using assms(3) by (simp add: word_le_nat_alt Suc_le_eq unat_gt_0)
  then show ?thesis
    using assms by (simp add: current_fixed_block_reward_def Let_def max_absorb1)
qed

definition base_reward :: "protocol_params option \<Rightarrow> node_config \<Rightarrow> nat" where
  "base_reward activated config = max (unat (effective_player_block_reward_of activated config)) 1"

definition in_band :: "protocol_params option \<Rightarrow> node_config \<Rightarrow> u128 \<Rightarrow> bool" where
  "in_band activated config r \<longleftrightarrow> (let m = unat (min (effective_reward_adjustment_cap_bps activated config) 10000); b = base_reward activated config in
     0 < unat r \<and> b * (10000 - m) div 10000 \<le> unat r \<and> unat r \<le> max (b * (10000 + m) div 10000) 1)"

lemma base_in_band:
  assumes "unat r = base_reward activated config"
  shows "in_band activated config r"
proof -
  let ?m = "unat (min (effective_reward_adjustment_cap_bps activated config) 10000)" and ?b = "base_reward activated config"
  have "?b * (10000 - ?m) \<le> ?b * 10000" "?b * 10000 \<le> ?b * (10000 + ?m)" by simp_all
  then have "?b * (10000 - ?m) div 10000 \<le> ?b" "?b \<le> ?b * (10000 + ?m) div 10000"
    using div_le_mono [of "?b * (10000 - ?m)" "?b * 10000" 10000] div_le_mono [of "?b * 10000" "?b * (10000 + ?m)" 10000] by simp_all
  then show ?thesis using assms by (simp add: in_band_def Let_def base_reward_def)
qed

lemma max_one: "unat (max (w :: u128) 1) = max (unat w) 1"
  by (simp add: max_def word_le_nat_alt)

lemma fixed_reward_in_band:
  assumes run: "current_fixed_block_reward activated config i p = Some (r, p')"
    and room: "base_reward activated config * 20000 < 2 ^ 128"
    and inv: "np_current_fixed_player_reward p \<noteq> 0 \<Longrightarrow> in_band activated config (np_current_fixed_player_reward p)"
  shows "in_band activated config r" "np_current_fixed_player_reward p' = r"
proof -
  let ?base = "max (effective_player_block_reward_of activated config) 1"
  have base: "unat ?base = base_reward activated config" by (simp add: base_reward_def max_one)
  have bb: "in_band activated config ?base" by (rule base_in_band [OF base])
  have adj: "in_band activated config (max a 1)"
    if a: "adjusted_player_block_reward ?base target w (effective_reward_adjustment_cap_bps activated config) = Some a" for a target w
    using adjusted_reward_band [OF a] room base
    by (simp add: in_band_def Let_def max_one) (auto simp: max_def)
  have one: "max a 1 = a" if "in_band activated config a" for a
    using that by (intro max_absorb1) (simp add: in_band_def Let_def word_le_nat_alt)
  define q where "q = (if np_current_fixed_player_reward p = 0 then set_current_fixed_player_reward ?base p else p)"
  have q: "in_band activated config (np_current_fixed_player_reward q)"
    using inv bb by (auto simp: q_def set_current_fixed_player_reward_def)
  have "in_band activated config r \<and> np_current_fixed_player_reward p' = r"
  proof (cases "np_reward_blocks_completed q = 0")
    case True
    then show ?thesis using run bb
      by (simp add: current_fixed_block_reward_def Let_def q_def [symmetric]) (auto simp: progress_setters)
  next
    case moved: False
    show ?thesis
    proof (cases "i = np_current_adjustment_cycle_index q")
      case True
      then show ?thesis using run moved q one
        by (simp add: current_fixed_block_reward_def Let_def q_def [symmetric]) auto
    next
      case False
      then show ?thesis using run moved adj bb
        by (simp add: current_fixed_block_reward_def Let_def q_def [symmetric])
          (auto simp: progress_setters one split: if_splits)
    qed
  qed
  then show "in_band activated config r" "np_current_fixed_player_reward p' = r" by simp_all
qed

end
