(* ===== verification/Collectors.thy ===== *)
theory Collectors
  imports Verifier
begin

text \<open>
  Where the samples of a tick come from (\<open>src/src/activity_collector.rs\<close>, \<open>steam_collector.rs\<close>, and
  \<open>ActivitySourceHealthState\<close>, \<open>collect_activity_samples\<close> and \<open>collect_source_with_retry\<close> of
  \<open>node_daemon.rs\<close>): the sources of the configuration are asked one by one with retries, samples of the same
  game are compared with each other, and the failures of each source are counted. The HTTP client is a
  parameter with a state of its own, since the same request may fail once and succeed the next time; the
  three envelopes that \<open>serde_json\<close> reads are parameters too. The read is that of a release build.
\<close>

subsection \<open>Reading an answer\<close>

datatype steam_collector_error =
    SteamHttp string
  | SteamInvalidJson string
  | SteamMissingResult
  | SteamMissingPlayerCount
  | SteamClock string

fun steam_error_text :: "steam_collector_error \<Rightarrow> string" where
  "steam_error_text (SteamHttp e) = ''steam http error: '' @ e"
| "steam_error_text (SteamInvalidJson e) = ''invalid steam response json: '' @ e"
| "steam_error_text SteamMissingResult = ''steam response indicates failure''"
| "steam_error_text SteamMissingPlayerCount = ''steam response missing player_count''"
| "steam_error_text (SteamClock e) = ''clock error: '' @ e"

datatype activity_collector_error =
    ActivityHttp string
  | ActivityInvalidJson string
  | ActivityMissingPlayerCount
  | ActivityMissingConfidence
  | ActivityMissingEndpoint
  | ActivityMissingInlineJson
  | ActivityUntrustedEndpoint string

fun activity_error_text :: "activity_collector_error \<Rightarrow> string" where
  "activity_error_text (ActivityHttp e) = ''activity http error: '' @ e"
| "activity_error_text (ActivityInvalidJson e) = ''invalid activity response json: '' @ e"
| "activity_error_text ActivityMissingPlayerCount = ''activity response missing player count''"
| "activity_error_text ActivityMissingConfidence = ''activity response missing confidence ppm''"
| "activity_error_text ActivityMissingEndpoint = ''activity source missing endpoint url''"
| "activity_error_text ActivityMissingInlineJson = ''community activity source missing inline json''"
| "activity_error_text (ActivityUntrustedEndpoint url) =
     ''activity source endpoint url is not trusted for this source kind: '' @ url"

definition from_steam_error :: "steam_collector_error \<Rightarrow> activity_collector_error" where
  "from_steam_error e = ActivityHttp (steam_error_text e)"

record 'h collector_env =
  get_text :: "string \<Rightarrow> 'h \<Rightarrow> (steam_collector_error + string) \<times> 'h"
  parse_steam_envelope :: "string \<Rightarrow> string + (u32 option \<times> u64 option)"
  parse_third_party_envelope :: "string \<Rightarrow> string + (u64 option \<times> u32 option)"
  parse_community_envelope :: "string \<Rightarrow> string + (u64 option \<times> u32 option)"

definition parse_third_party_activity_response ::
  "'h collector_env \<Rightarrow> app_id \<Rightarrow> unix_millis \<Rightarrow> string \<Rightarrow> activity_source_kind \<Rightarrow> activity_collector_error + activity_sample" where
  "parse_third_party_activity_response env app now raw_body kind =
     (case parse_third_party_envelope env raw_body of Inl e \<Rightarrow> Inl (ActivityInvalidJson e) | Inr (player_count, confidence_ppm) \<Rightarrow>
      case player_count of None \<Rightarrow> Inl ActivityMissingPlayerCount | Some players \<Rightarrow>
      case confidence_ppm of None \<Rightarrow> Inl ActivityMissingConfidence | Some confidence \<Rightarrow>
      Inr (new_sample app players now raw_body kind confidence))"

definition parse_community_activity_response ::
  "'h collector_env \<Rightarrow> app_id \<Rightarrow> unix_millis \<Rightarrow> string \<Rightarrow> activity_collector_error + activity_sample" where
  "parse_community_activity_response env app now raw_body =
     (case parse_community_envelope env raw_body of Inl e \<Rightarrow> Inl (ActivityInvalidJson e) | Inr (estimated_players, confidence_ppm) \<Rightarrow>
      case estimated_players of None \<Rightarrow> Inl ActivityMissingPlayerCount | Some players \<Rightarrow>
      case confidence_ppm of None \<Rightarrow> Inl ActivityMissingConfidence | Some confidence \<Rightarrow>
      Inr (new_sample app players now raw_body Community (min confidence 500000)))"

definition parse_current_players_response ::
  "'h collector_env \<Rightarrow> app_id \<Rightarrow> unix_millis \<Rightarrow> string \<Rightarrow> steam_collector_error + activity_sample" where
  "parse_current_players_response env app now raw_body =
     (case parse_steam_envelope env raw_body of Inl e \<Rightarrow> Inl (SteamInvalidJson e) | Inr (result, player_count) \<Rightarrow>
      if result = Some 0 then Inl SteamMissingResult
      else case player_count of None \<Rightarrow> Inl SteamMissingPlayerCount | Some players \<Rightarrow>
        Inr (new_sample app players now raw_body Steam 1000000))"

definition current_players_url :: "app_id \<Rightarrow> string" where
  "current_players_url app =
     ''https://api.steampowered.com/ISteamUserStats/GetNumberOfCurrentPlayers/v1/?appid='' @ decimal (unat app)"

subsection \<open>Asking a source\<close>

definition starts_with :: "string \<Rightarrow> string \<Rightarrow> bool" where
  "starts_with s p \<longleftrightarrow> take (length p) s = p"

fun is_trusted_source_endpoint :: "activity_source_kind \<Rightarrow> string \<Rightarrow> bool" where
  "is_trusted_source_endpoint Steam url = starts_with (to_ascii_lowercase (trim url)) ''https://api.steampowered.com/''"
| "is_trusted_source_endpoint Epic url =
     (let lower = to_ascii_lowercase (trim url)
      in starts_with lower ''https://api.epicgames.dev/'' \<or> starts_with lower ''https://store.epicgames.com/''
         \<or> starts_with lower ''https://api.epicgames.com/'')"
| "is_trusted_source_endpoint Ea url = starts_with (to_ascii_lowercase (trim url)) ''https://api.ea.com/''"
| "is_trusted_source_endpoint Gog url = starts_with (to_ascii_lowercase (trim url)) ''https://api.gog.com/''"
| "is_trusted_source_endpoint Community url = True"

definition fetch_third_party ::
  "'h collector_env \<Rightarrow> activity_source_kind \<Rightarrow> app_id \<Rightarrow> unix_millis \<Rightarrow> string \<Rightarrow> 'h
    \<Rightarrow> (activity_collector_error, activity_sample, 'h) outcome" where
  "fetch_third_party env kind app now endpoint h =
     (case get_text env endpoint h of
        (Inl e, h) \<Rightarrow> (Inl (from_steam_error e), h)
      | (Inr raw_body, h) \<Rightarrow> (parse_third_party_activity_response env app now raw_body kind, h))"

definition fetch_steam ::
  "'h collector_env \<Rightarrow> app_id \<Rightarrow> unix_millis \<Rightarrow> string \<Rightarrow> 'h \<Rightarrow> (activity_collector_error, activity_sample, 'h) outcome" where
  "fetch_steam env app now endpoint h =
     (case get_text env endpoint h of
        (Inl e, h) \<Rightarrow> (Inl (from_steam_error e), h)
      | (Inr raw_body, h) \<Rightarrow> (map_sum from_steam_error id (parse_current_players_response env app now raw_body), h))"

definition collect_configured_activity_source ::
  "'h collector_env \<Rightarrow> activity_source_kind \<Rightarrow> app_id \<Rightarrow> unix_millis \<Rightarrow> string option \<Rightarrow> string option \<Rightarrow> 'h
    \<Rightarrow> (activity_collector_error, activity_sample, 'h) outcome" where
  "collect_configured_activity_source env kind app now endpoint_url inline_json h =
     (case endpoint_url of
        Some endpoint \<Rightarrow>
          if \<not> is_trusted_source_endpoint kind endpoint then (Inl (ActivityUntrustedEndpoint endpoint), h)
          else (case kind of
              Steam \<Rightarrow> fetch_steam env app now endpoint h
            | Community \<Rightarrow> try_with (ok_or inline_json ActivityMissingInlineJson) h
                (\<lambda>raw. (parse_community_activity_response env app now raw, h))
            | _ \<Rightarrow> fetch_third_party env kind app now endpoint h)
      | None \<Rightarrow>
          (case kind of
             Community \<Rightarrow> try_with (ok_or inline_json ActivityMissingInlineJson) h
               (\<lambda>raw. (parse_community_activity_response env app now raw, h))
           | _ \<Rightarrow> (Inl ActivityMissingEndpoint, h)))"

text \<open>The argument is the number of attempts left after this one; the pauses between them take time only.\<close>

fun collect_attempts ::
  "nat \<Rightarrow> ('h \<Rightarrow> (activity_collector_error, activity_sample, 'h) outcome) \<Rightarrow> 'h \<Rightarrow> (activity_collector_error, activity_sample, 'h) outcome" where
  "collect_attempts 0 attempt h = attempt h"
| "collect_attempts (Suc left) attempt h =
     (case attempt h of
        (Inr sample, h) \<Rightarrow> (Inr sample, h)
      | (Inl _, h) \<Rightarrow> collect_attempts left attempt h)"

definition collect_source_with_retry ::
  "'h collector_env \<Rightarrow> activity_source_kind \<Rightarrow> app_id \<Rightarrow> unix_millis \<Rightarrow> string option \<Rightarrow> string option \<Rightarrow> u32 \<Rightarrow> 'h
    \<Rightarrow> (activity_collector_error, activity_sample, 'h) outcome" where
  "collect_source_with_retry env kind app now endpoint_url inline_json retries =
     collect_attempts (unat retries) (collect_configured_activity_source env kind app now endpoint_url inline_json)"

subsection \<open>The health of the sources\<close>

record activity_source_health_state =
  sh_consecutive_failures :: "(string, u32) btree_map"
  sh_degraded :: "string btree_set"

definition degrade_threshold :: u32 where
  "degrade_threshold = 3"

definition default_health :: activity_source_health_state where
  "default_health = \<lparr>sh_consecutive_failures = bt_empty, sh_degraded = bt_empty\<rparr>"

definition record_success :: "string \<Rightarrow> activity_source_health_state \<Rightarrow> activity_source_health_state" where
  "record_success key h = \<lparr>sh_consecutive_failures = bt_remove key (sh_consecutive_failures h), sh_degraded = bs_remove key (sh_degraded h)\<rparr>"

definition record_failure :: "string \<Rightarrow> activity_source_health_state \<Rightarrow> activity_source_health_state" where
  "record_failure key h =
     (let failures = bt_or_default (sh_consecutive_failures h) key 0 + 1
      in \<lparr>sh_consecutive_failures = bt_insert key failures (sh_consecutive_failures h),
          sh_degraded = (if failures \<ge> degrade_threshold then bs_insert key (sh_degraded h) else sh_degraded h)\<rparr>)"

definition is_degraded :: "string \<Rightarrow> activity_source_health_state \<Rightarrow> bool" where
  "is_degraded key h = bs_contains (sh_degraded h) key"

definition summarize_health :: "activity_source_health_state \<Rightarrow> string list" where
  "summarize_health h =
     map (\<lambda>key.
       let failures = decimal (unat (bt_or_default (sh_consecutive_failures h) key 0)) in
       if bs_contains (sh_degraded h) key then key @ '': degraded ('' @ failures @ '' consecutive failures)''
       else key @ '': '' @ failures @ '' consecutive failures'')
     (bt_keys (bs_of_list (bt_keys (sh_consecutive_failures h) @ bt_keys (sh_degraded h))))"

subsection \<open>Comparing samples of one game\<close>

definition cross_validation_disagreement_threshold_ppm :: u64 where
  "cross_validation_disagreement_threshold_ppm = 250000"

definition cross_validation_confidence_downscale_ppm :: u32 where
  "cross_validation_confidence_downscale_ppm = 500000"

definition indexes_by_app :: "activity_sample list \<Rightarrow> (app_id, nat list) btree_map" where
  "indexes_by_app samples =
     foldl (\<lambda>m (i, sample). bt_insert (as_app_id sample) (bt_or_default m (as_app_id sample) [] @ [i]) m) bt_empty
       (enumerate 0 samples)"

definition difference_ppm :: "u64 \<Rightarrow> u64 \<Rightarrow> u64" where
  "difference_ppm players strongest =
     (let diff = (if players \<le> strongest then strongest - players else players - strongest)
      in ucast ((ucast diff :: u128) * 1000000 div ucast strongest))"

definition downscaled_confidence :: "u32 \<Rightarrow> u32" where
  "downscaled_confidence confidence =
     max (ucast ((ucast confidence :: u64) * ucast cross_validation_confidence_downscale_ppm div 1000000)) 100000"

definition validate_index :: "u64 \<Rightarrow> activity_sample list \<times> nat \<Rightarrow> nat \<Rightarrow> activity_sample list \<times> nat" where
  "validate_index strongest = (\<lambda>(samples, adjusted) index.
     if difference_ppm (as_observed_players (samples ! index)) strongest > cross_validation_disagreement_threshold_ppm
     then (samples[index := (samples ! index)\<lparr>as_source_confidence_ppm :=
             downscaled_confidence (as_source_confidence_ppm (samples ! index))\<rparr>], adjusted + 1)
     else (samples, adjusted))"

definition validate_group :: "activity_sample list \<times> nat \<Rightarrow> nat list \<Rightarrow> activity_sample list \<times> nat" where
  "validate_group acc indexes =
     (if length indexes < 2 then acc
      else foldl (validate_index (max (Max (set (map (\<lambda>i. as_observed_players (fst acc ! i)) indexes))) 1)) acc indexes)"

definition cross_validate_samples :: "activity_sample list \<Rightarrow> activity_sample list \<times> nat" where
  "cross_validate_samples samples = foldl validate_group (samples, 0) (bt_values (indexes_by_app samples))"

subsection \<open>The samples of a tick\<close>

record activity_collection_report =
  ar_samples :: "activity_sample list"
  ar_failed_sources :: "string list"
  ar_cross_validated_samples :: nat

record 'h collection_state =
  cn_client :: 'h
  cn_health :: activity_source_health_state
  cn_samples :: "activity_sample list"
  cn_failed :: "string list"

fun source_kind_debug :: "activity_source_kind \<Rightarrow> string" where
  "source_kind_debug Steam = ''Steam''"
| "source_kind_debug Epic = ''Epic''"
| "source_kind_debug Ea = ''Ea''"
| "source_kind_debug Gog = ''Gog''"
| "source_kind_debug Community = ''Community''"

text \<open>What both loops do with the result of a source; \<open>label\<close> starts the line of a failed source.\<close>

definition note_result ::
  "string \<Rightarrow> string \<Rightarrow> (activity_collector_error, activity_sample, 'h) outcome \<Rightarrow> 'h collection_state \<Rightarrow> 'h collection_state" where
  "note_result key label r c =
     (case r of
        (Inr sample, h) \<Rightarrow>
          c\<lparr>cn_client := h, cn_health := record_success key (cn_health c), cn_samples := cn_samples c @ [sample]\<rparr>
      | (Inl e, h) \<Rightarrow>
          let health = record_failure key (cn_health c)
          in c\<lparr>cn_client := h, cn_health := health,
               cn_failed := cn_failed c
                 @ [label @ '': '' @ activity_error_text e @ (if is_degraded key health then '' (degraded)'' else [])]\<rparr>)"

definition collect_target :: "'h collector_env \<Rightarrow> unix_millis \<Rightarrow> 'h collection_state \<Rightarrow> app_id \<Rightarrow> 'h collection_state" where
  "collect_target env now c app =
     note_result (decimal (unat app) @ '':Steam'') (''app_id='' @ decimal (unat app) @ '' steam'')
       (collect_source_with_retry env Steam app now (Some (current_players_url app)) None 0 (cn_client c)) c"

definition source_endpoint :: "activity_source_config \<Rightarrow> string option" where
  "source_endpoint source =
     (case ac_endpoint_url source of
        Some template \<Rightarrow> Some (replace_all ''{app_id}'' (decimal (unat (ac_app_id source))) template)
      | None \<Rightarrow> if ac_source_kind source = Steam then Some (current_players_url (ac_app_id source)) else None)"

definition source_key :: "activity_source_config \<Rightarrow> string" where
  "source_key source = decimal (unat (ac_app_id source)) @ '':'' @ source_kind_debug (ac_source_kind source)"

definition collect_source ::
  "'h collector_env \<Rightarrow> unix_millis \<Rightarrow> 'h collection_state \<Rightarrow> activity_source_config \<Rightarrow> 'h collection_state" where
  "collect_source env now c source =
     note_result (source_key source)
       (''app_id='' @ decimal (unat (ac_app_id source)) @ '' kind='' @ source_kind_debug (ac_source_kind source))
       (collect_source_with_retry env (ac_source_kind source) (ac_app_id source) now (source_endpoint source)
          (ac_inline_json source) (ac_retries source) (cn_client c)) c"

definition collect_sources ::
  "'h collector_env \<Rightarrow> node_config \<Rightarrow> unix_millis \<Rightarrow> activity_source_health_state \<Rightarrow> 'h \<Rightarrow> 'h collection_state" where
  "collect_sources env config now health h =
     (let c = \<lparr>cn_client = h, cn_health = health, cn_samples = [], cn_failed = []\<rparr> in
      if rt_activity_sources (nc_runtime config) = []
      then foldl (collect_target env now) c (rt_target_app_ids (nc_runtime config))
      else foldl (collect_source env now) c (rt_activity_sources (nc_runtime config)))"

definition collect_activity_samples ::
  "'h collector_env \<Rightarrow> node_config \<Rightarrow> unix_millis \<Rightarrow> activity_source_health_state \<Rightarrow> 'h
    \<Rightarrow> (node_daemon_error, activity_collection_report, activity_source_health_state \<times> 'h) outcome" where
  "collect_activity_samples env config now health h =
     (let c = collect_sources env config now health h in
      if cn_samples c = [] \<and> cn_failed c \<noteq> []
      then (Inl (DaemonSteam (steam_error_text (SteamHttp (''all activity sources failed: '' @ join_strings ''; '' (cn_failed c))))),
            cn_health c, cn_client c)
      else
        let (samples, adjusted) = cross_validate_samples (cn_samples c)
        in (Inr \<lparr>ar_samples = samples, ar_failed_sources = cn_failed c, ar_cross_validated_samples = adjusted\<rparr>,
            cn_health c, cn_client c))"

subsection \<open>Only trusted endpoints are asked\<close>

lemma parsed_sample:
  "parse_third_party_activity_response env app now raw kind = Inr s \<Longrightarrow> as_app_id s = app \<and> as_source_kind s = kind"
  "parse_current_players_response env app now raw = Inr s \<Longrightarrow> as_app_id s = app \<and> as_source_kind s = Steam"
  "parse_community_activity_response env app now raw = Inr s \<Longrightarrow>
     as_app_id s = app \<and> as_source_kind s = Community \<and> as_source_confidence_ppm s \<le> 500000"
  by (auto simp: parse_third_party_activity_response_def parse_current_players_response_def
      parse_community_activity_response_def new_sample_def split: sum.splits option.splits if_splits)

lemma fetched_sample:
  "fetch_third_party env kind app now endpoint h = (Inr s, h') \<Longrightarrow> as_app_id s = app \<and> as_source_kind s = kind"
  "fetch_steam env app now endpoint h = (Inr s, h') \<Longrightarrow> as_app_id s = app \<and> as_source_kind s = Steam"
  by (auto simp: fetch_third_party_def fetch_steam_def from_steam_error_def map_sum_eq_Inr dest: parsed_sample
      split: sum.splits prod.splits)

theorem sample_from_trusted_source:
  assumes "collect_configured_activity_source env kind app now endpoint inline h = (Inr s, h')"
  shows "as_app_id s = app \<and> as_source_kind s = kind
    \<and> (if kind = Community then as_source_confidence_ppm s \<le> 500000
       else \<exists>url. endpoint = Some url \<and> is_trusted_source_endpoint kind url)"
  using assms
  by (cases kind; cases endpoint)
    (auto simp: collect_configured_activity_source_def try_with_Inr_iff dest: fetched_sample parsed_sample split: if_splits)

subsection \<open>Retries\<close>

primrec client_after :: "('h \<Rightarrow> (activity_collector_error, activity_sample, 'h) outcome) \<Rightarrow> 'h \<Rightarrow> nat \<Rightarrow> 'h" where
  "client_after attempt h 0 = h"
| "client_after attempt h (Suc n) = snd (attempt (client_after attempt h n))"

lemma client_after_Suc: "client_after attempt h (Suc n) = client_after attempt (snd (attempt h)) n"
  by (induction n) simp_all

lemma ex_le_Suc_shift: "\<not> P 0 \<Longrightarrow> (\<exists>i \<le> Suc n. P i) \<longleftrightarrow> (\<exists>i \<le> n. P (Suc i))"
  by (metis Suc_le_mono not0_implies_Suc)

theorem retries_suffice:
  "fst (collect_attempts n attempt h) = Inr s \<longleftrightarrow>
     (\<exists>i \<le> n. (\<forall>j < i. isl (fst (attempt (client_after attempt h j)))) \<and> fst (attempt (client_after attempt h i)) = Inr s)"
proof (induction n arbitrary: h)
  case (Suc n)
  obtain r h1 where 1: "attempt h = (r, h1)" by (cases "attempt h")
  show ?case
  proof (cases r)
    case (Inr x)
    let ?P = "\<lambda>i. (\<forall>j < i. isl (fst (attempt (client_after attempt h j)))) \<and> fst (attempt (client_after attempt h i)) = Inr s"
    have "\<not> isl (fst (attempt (client_after attempt h 0)))" using 1 Inr by simp
    then have "\<not> ?P i" if "i \<noteq> 0" for i using that by blast
    then have "(\<exists>i \<le> Suc n. ?P i) \<longleftrightarrow> ?P 0" by (metis le0)
    also have "\<dots> \<longleftrightarrow> x = s" using 1 Inr by simp
    finally show ?thesis using 1 Inr by simp
  next
    case (Inl e)
    let ?P = "\<lambda>i. (\<forall>j < i. isl (fst (attempt (client_after attempt h j)))) \<and> fst (attempt (client_after attempt h i)) = Inr s"
    have "\<not> ?P 0" using 1 Inl by simp
    from ex_le_Suc_shift [of ?P, OF this] have shift: "(\<exists>i \<le> Suc n. ?P i) \<longleftrightarrow> (\<exists>i \<le> n. ?P (Suc i))" .
    have step: "client_after attempt h (Suc i) = client_after attempt h1 i" for i
      using client_after_Suc [of attempt h i] 1 by simp
    have "?P (Suc i) \<longleftrightarrow> (\<forall>j < i. isl (fst (attempt (client_after attempt h1 j)))) \<and> fst (attempt (client_after attempt h1 i)) = Inr s" for i
      unfolding All_less_Suc2 step using 1 Inl by simp
    then show ?thesis unfolding shift using 1 Inl Suc.IH [of h1] by simp
  qed
qed simp

subsection \<open>Health\<close>

lemma degraded_record:
  "is_degraded key (record_success k h) \<longleftrightarrow> is_degraded key h \<and> key \<noteq> k"
  "is_degraded key (record_failure k h) \<longleftrightarrow>
     is_degraded key h \<or> key = k \<and> bt_or_default (sh_consecutive_failures h) k 0 + 1 \<ge> degrade_threshold"
  by (auto simp: is_degraded_def record_success_def record_failure_def Let_def)

lemma failures_record:
  "bt_or_default (sh_consecutive_failures (record_success key h)) key 0 = 0"
  "bt_or_default (sh_consecutive_failures (record_failure key h)) key 0 = bt_or_default (sh_consecutive_failures h) key 0 + 1"
  by (simp_all add: record_success_def record_failure_def bt_or_default_def Let_def)

definition note_health :: "string \<Rightarrow> activity_source_health_state \<Rightarrow> bool \<Rightarrow> activity_source_health_state" where
  "note_health key h ok = (if ok then record_success key h else record_failure key h)"

definition failing_run :: "bool list \<Rightarrow> nat" where
  "failing_run rs = length (takeWhile Not (rev rs))"

lemma failing_run_snoc: "failing_run (rs @ [ok]) = (if ok then 0 else Suc (failing_run rs))"
  by (simp add: failing_run_def)

theorem degraded_after_three_failures:
  assumes "length rs < 2 ^ 32"
  shows "is_degraded key (foldl (note_health key) default_health rs) \<longleftrightarrow> 3 \<le> failing_run rs"
proof -
  have "unat (bt_or_default (sh_consecutive_failures (foldl (note_health key) default_health rs)) key 0) = failing_run rs
    \<and> (is_degraded key (foldl (note_health key) default_health rs) \<longleftrightarrow> 3 \<le> failing_run rs)"
    using assms
  proof (induction rs rule: rev_induct)
    case Nil
    show ?case by (simp add: default_health_def is_degraded_def bt_or_default_def failing_run_def)
  next
    case (snoc ok rs)
    let ?h = "foldl (note_health key) default_health rs"
    have "failing_run rs \<le> length rs" by (simp add: failing_run_def length_takeWhile_le [of Not "rev rs", simplified])
    then have suc: "unat (bt_or_default (sh_consecutive_failures ?h) key 0 + 1) = Suc (failing_run rs)"
      using snoc by (subst unat_add_exact) simp_all
    then show ?case
      using snoc by (cases ok) (auto simp: note_health_def [of _ ?h] failing_run_snoc degraded_record failures_record
          degrade_threshold_def word_le_nat_alt)
  qed
  then show ?thesis by simp
qed

subsection \<open>What the comparison does to a sample\<close>

definition sampled_players :: "app_id \<Rightarrow> activity_sample list \<Rightarrow> nat list" where
  "sampled_players app samples = map (\<lambda>s. unat (as_observed_players s)) (filter (\<lambda>s. as_app_id s = app) samples)"

text \<open>
  A sample is an outlier when its game has several samples and it lies more than a quarter (to the precision
  of one part per million) below the largest one.
\<close>

definition outlier :: "activity_sample list \<Rightarrow> activity_sample \<Rightarrow> bool" where
  "outlier samples s \<longleftrightarrow>
     (let strongest = max (Max (set (sampled_players (as_app_id s) samples))) 1
      in 2 \<le> length (sampled_players (as_app_id s) samples)
         \<and> 250000 < (strongest - unat (as_observed_players s)) * 1000000 div strongest)"

definition validated :: "activity_sample list \<Rightarrow> activity_sample \<Rightarrow> activity_sample" where
  "validated samples s =
     (if outlier samples s
      then s\<lparr>as_source_confidence_ppm := downscaled_confidence (as_source_confidence_ppm s)\<rparr> else s)"

lemma unat_ucast_small: "unat w < 2 ^ LENGTH('b) \<Longrightarrow> unat (ucast (w :: 'a::len word) :: 'b::len word) = unat w"
  by (simp add: unsigned_ucast_eq take_bit_nat_eq_self)

lemma unat_downscaled_confidence: "unat (downscaled_confidence c) = max (unat c div 2) 100000"
proof -
  have c: "unat c < 2 ^ 32" using unat_bound [of c] by simp
  have "unat ((ucast c :: u64) * ucast cross_validation_confidence_downscale_ppm) = unat c * 500000"
    using c by (subst unat_mult_exact) (simp_all add: unat_ucast_up cross_validation_confidence_downscale_ppm_def)
  then have half: "unat ((ucast c :: u64) * ucast cross_validation_confidence_downscale_ppm div 1000000) = unat c div 2"
    using div_mult2_eq [of "unat c * 500000" 500000 2] by (simp add: unat_div_distrib)
  have "unat (ucast ((ucast c :: u64) * ucast cross_validation_confidence_downscale_ppm div 1000000) :: u32) = unat c div 2"
    using c half by (simp add: unat_ucast_small)
  then show ?thesis by (simp add: downscaled_confidence_def max_def word_le_nat_alt)
qed

lemma unat_difference_ppm:
  assumes "players \<le> strongest" "0 < strongest"
  shows "unat (difference_ppm players strongest) = (unat strongest - unat players) * 1000000 div unat strongest"
proof -
  let ?d = "unat strongest - unat players" and ?S = "unat strongest"
  have d: "unat (strongest - players) = ?d" using assms(1) by (simp add: unat_sub)
  have S: "0 < ?S" "?S < 2 ^ 64" using assms(2) unat_bound [of strongest] by (simp_all add: word_less_nat_alt)
  have "unat ((ucast (strongest - players) :: u128) * 1000000) = ?d * 1000000"
    using S by (subst unat_mult_exact) (simp_all add: unat_ucast_up d)
  then have "unat ((ucast (strongest - players) :: u128) * 1000000 div ucast strongest) = ?d * 1000000 div ?S"
    by (simp add: unat_div_distrib unat_ucast_up)
  moreover have "?d * 1000000 div ?S \<le> 1000000"
    using div_le_mono [of "?d * 1000000" "?S * 1000000" ?S] S(1) by simp
  ultimately show ?thesis using assms(1) by (simp add: difference_ppm_def Let_def unat_ucast_small)
qed

subsection \<open>The loops over the indexes compute it\<close>

lemma indexes_by_app_get:
  "bt_get (indexes_by_app samples) app =
     (let ixs = filter (\<lambda>i. as_app_id (samples ! i) = app) [0..<length samples] in if ixs = [] then None else Some ixs)"
proof (induction samples rule: rev_induct)
  case Nil
  show ?case by (simp add: indexes_by_app_def)
next
  case (snoc s samples)
  have same: "filter (\<lambda>i. as_app_id ((samples @ [s]) ! i) = app) [0..<length samples]
      = filter (\<lambda>i. as_app_id (samples ! i) = app) [0..<length samples]" for app
    by (rule filter_cong) (simp_all add: nth_append)
  have "indexes_by_app (samples @ [s]) =
      bt_insert (as_app_id s) (bt_or_default (indexes_by_app samples) (as_app_id s) [] @ [length samples]) (indexes_by_app samples)"
    by (simp add: indexes_by_app_def enumerate_append_eq)
  then show ?case using snoc by (auto simp: bt_or_default_def Let_def same)
qed

text \<open>Groups share no index and together have every index.\<close>

lemma groups_of_indexes:
  "distinct (concat (bt_values (indexes_by_app samples)))"
  "set (concat (bt_values (indexes_by_app samples))) = {..<length samples}"
proof -
  let ?m = "indexes_by_app samples"
  have get: "bt_get ?m app = Some ixs \<longleftrightarrow>
      ixs = filter (\<lambda>i. as_app_id (samples ! i) = app) [0..<length samples] \<and> ixs \<noteq> []" for app ixs
    by (auto simp: indexes_by_app_get Let_def)
  have keys: "distinct (map fst (bt_entries ?m))" by (rule bt.distinct_ents)
  have ents: "(app, ixs) \<in> set (bt_entries ?m) \<longleftrightarrow> bt_get ?m app = Some ixs" for app ixs by (simp add: bt.ents_iff)
  show "set (concat (bt_values ?m)) = {..<length samples}"
  proof
    show "set (concat (bt_values ?m)) \<subseteq> {..<length samples}" by (auto simp: bt_values_set get)
    show "{..<length samples} \<subseteq> set (concat (bt_values ?m))"
    proof
      fix i assume "i \<in> {..<length samples}"
      then have "bt_get ?m (as_app_id (samples ! i)) =
          Some (filter (\<lambda>j. as_app_id (samples ! j) = as_app_id (samples ! i)) [0..<length samples])"
        by (auto simp: get filter_empty_conv)
      then have "filter (\<lambda>j. as_app_id (samples ! j) = as_app_id (samples ! i)) [0..<length samples] \<in> set (bt_values ?m)"
        unfolding bt_values_set by blast
      moreover have "i \<in> set (filter (\<lambda>j. as_app_id (samples ! j) = as_app_id (samples ! i)) [0..<length samples])"
        using \<open>i \<in> _\<close> by simp
      ultimately show "i \<in> set (concat (bt_values ?m))" unfolding set_concat by blast
    qed
  qed
  have "distinct (concat (map snd es))" if "distinct (map fst es)" "set es \<subseteq> set (bt_entries ?m)" for es
    using that
  proof (induction es)
    case (Cons e es)
    obtain app ixs where e: "e = (app, ixs)" by (cases e)
    have "bt_get ?m app = Some ixs" using Cons.prems(2) by (simp add: e ents [symmetric])
    then have is_eq: "ixs = filter (\<lambda>i. as_app_id (samples ! i) = app) [0..<length samples]" by (simp add: get)
    have "as_app_id (samples ! i) \<noteq> app" if "i \<in> set (concat (map snd es))" for i
    proof -
      obtain app' is' where "(app', is') \<in> set es" "i \<in> set is'" using \<open>i \<in> set (concat (map snd es))\<close> by auto
      then have "app' \<noteq> app" "as_app_id (samples ! i) = app'"
        using Cons.prems ents [of app' is'] get [of app' is'] by (auto simp: e image_iff)
      then show ?thesis by simp
    qed
    then have "set ixs \<inter> set (concat (map snd es)) = {}" by (auto simp: is_eq)
    then show ?case using Cons by (auto simp: e is_eq)
  qed simp
  from this [OF keys subset_refl] show "distinct (concat (bt_values ?m))" by (simp add: bt_values_def)
qed

lemma validate_indexes:
  assumes "distinct ixs" "\<forall>i \<in> set ixs. i < length xs"
  shows "foldl (validate_index S) (xs, n) ixs =
    (map (\<lambda>i. if i \<in> set ixs \<and> difference_ppm (as_observed_players (xs ! i)) S > cross_validation_disagreement_threshold_ppm
       then (xs ! i)\<lparr>as_source_confidence_ppm := downscaled_confidence (as_source_confidence_ppm (xs ! i))\<rparr> else xs ! i)
       [0..<length xs],
     n + length (filter (\<lambda>i. difference_ppm (as_observed_players (xs ! i)) S > cross_validation_disagreement_threshold_ppm) ixs))"
  using assms
proof (induction ixs arbitrary: xs n)
  case Nil
  show ?case by (simp add: map_nth)
next
  case (Cons i ixs)
  then show ?case
    by (simp add: validate_index_def) (auto simp: Cons.IH nth_list_update intro!: nth_equalityI filter_cong arg_cong [where f = length])
qed

definition group_outlier :: "activity_sample list \<Rightarrow> nat list \<Rightarrow> nat \<Rightarrow> bool" where
  "group_outlier xs g i \<longleftrightarrow> 2 \<le> length g
     \<and> difference_ppm (as_observed_players (xs ! i)) (max (Max (set (map (\<lambda>i. as_observed_players (xs ! i)) g))) 1)
         > cross_validation_disagreement_threshold_ppm"

definition mark :: "activity_sample \<Rightarrow> activity_sample" where
  "mark s = s\<lparr>as_source_confidence_ppm := downscaled_confidence (as_source_confidence_ppm s)\<rparr>"

lemma mark_players [simp]: "as_observed_players (mark s) = as_observed_players s"
  by (simp add: mark_def)

lemma validate_group_eq:
  assumes "distinct g" "\<forall>i \<in> set g. i < length xs"
  shows "validate_group (xs, n) g =
    (map (\<lambda>i. if i \<in> set g \<and> group_outlier xs g i then mark (xs ! i) else xs ! i) [0..<length xs],
     n + length (filter (group_outlier xs g) g))"
proof (cases "length g < 2")
  case True
  then show ?thesis by (simp add: validate_group_def group_outlier_def map_nth)
next
  case False
  then have out: "group_outlier xs g = (\<lambda>i. difference_ppm (as_observed_players (xs ! i))
      (max (Max (set (map (\<lambda>i. as_observed_players (xs ! i)) g))) 1) > cross_validation_disagreement_threshold_ppm)"
    by (simp add: fun_eq_iff group_outlier_def)
  show ?thesis using False unfolding out by (simp add: validate_group_def validate_indexes [OF assms] mark_def)
qed

lemma validate_groups_eq:
  assumes "distinct (concat gs)" "\<forall>i \<in> set (concat gs). i < length xs"
  shows "foldl validate_group (xs, n) gs =
    (map (\<lambda>i. if \<exists>g \<in> set gs. i \<in> set g \<and> group_outlier xs g i then mark (xs ! i) else xs ! i) [0..<length xs],
     n + (\<Sum>g \<leftarrow> gs. length (filter (group_outlier xs g) g)))"
  using assms
proof (induction gs arbitrary: xs n)
  case Nil
  show ?case by (simp add: map_nth)
next
  case (Cons g gs)
  define ys where "ys = map (\<lambda>i. if i \<in> set g \<and> group_outlier xs g i then mark (xs ! i) else xs ! i) [0..<length xs]"
  have step: "validate_group (xs, n) g = (ys, n + length (filter (group_outlier xs g) g))"
    unfolding ys_def using Cons.prems by (intro validate_group_eq) auto
  have len: "length ys = length xs" by (simp add: ys_def)
  have ys: "ys ! i = (if i \<in> set g \<and> group_outlier xs g i then mark (xs ! i) else xs ! i)" if "i < length xs" for i
    using that by (simp add: ys_def)
  have players: "as_observed_players (ys ! i) = as_observed_players (xs ! i)" if "i < length xs" for i
    using that by (simp add: ys)
  have same: "group_outlier ys h i \<longleftrightarrow> group_outlier xs h i" if "h \<in> set gs" "i \<in> set h" for h i
  proof -
    have "map (\<lambda>i. as_observed_players (ys ! i)) h = map (\<lambda>i. as_observed_players (xs ! i)) h" "i < length xs"
      using that Cons.prems(2) by (auto intro!: players)
    then show ?thesis unfolding group_outlier_def by (simp add: players)
  qed
  have sums: "(\<Sum>h \<leftarrow> gs. length (filter (group_outlier ys h) h)) = (\<Sum>h \<leftarrow> gs. length (filter (group_outlier xs h) h))"
    by (intro arg_cong [where f = sum_list] map_cong refl arg_cong [where f = length] filter_cong) (simp_all add: same)
  have apart: "i \<notin> set g" if "h \<in> set gs" "i \<in> set h" for h i using Cons.prems(1) that by auto
  have "foldl validate_group (xs, n) (g # gs) =
    (map (\<lambda>i. if \<exists>h \<in> set gs. i \<in> set h \<and> group_outlier ys h i then mark (ys ! i) else ys ! i) [0..<length xs],
     n + length (filter (group_outlier xs g) g) + (\<Sum>h \<leftarrow> gs. length (filter (group_outlier ys h) h)))"
    using Cons.IH [of ys] Cons.prems by (simp add: step len)
  moreover have "(if \<exists>h \<in> set gs. i \<in> set h \<and> group_outlier ys h i then mark (ys ! i) else ys ! i)
      = (if \<exists>h \<in> set (g # gs). i \<in> set h \<and> group_outlier xs h i then mark (xs ! i) else xs ! i)" if "i < length xs" for i
    using that by (auto simp: ys same dest: apart)
  ultimately show ?case by (simp add: sums cong: map_cong)
qed

lemma unat_max_word_one: "unat (max w 1) = max (unat w) 1"
  for w :: "'a::len word"
  by (simp add: max_def word_le_nat_alt)

lemma Max_players:
  "g \<noteq> [] \<Longrightarrow> unat (Max (set (map f g))) = Max (set (map (\<lambda>x. unat (f x)) g))"
  for f :: "'a \<Rightarrow> u64"
  using mono_Max_commute [of unat "set (map f g)"] by (simp add: mono_def word_le_nat_alt image_image)

lemma group_outlier_iff:
  assumes "i < length samples" "g = filter (\<lambda>j. as_app_id (samples ! j) = as_app_id (samples ! i)) [0..<length samples]"
  shows "group_outlier samples g i \<longleftrightarrow> outlier samples (samples ! i)"
proof -
  let ?p = "\<lambda>j. as_observed_players (samples ! j)" and ?S = "max (Max (set (map (\<lambda>j. as_observed_players (samples ! j)) g))) 1"
  have i: "i \<in> set g" using assms by simp
  have players: "sampled_players (as_app_id (samples ! i)) samples = map (\<lambda>j. unat (?p j)) g"
  proof -
    have "filter P samples = map ((!) samples) (filter (\<lambda>j. P (samples ! j)) [0..<length samples])" for P
      using filter_map [of P "(!) samples" "[0..<length samples]"] by (simp add: map_nth comp_def)
    then show ?thesis by (simp add: sampled_players_def assms(2))
  qed
  have "g \<noteq> []" using i by auto
  from Max_players [OF this, of ?p] have S: "unat ?S = max (Max (set (sampled_players (as_app_id (samples ! i)) samples))) 1"
    by (simp only: unat_max_word_one players)
  have "?p i \<le> ?S" using i by (auto intro!: max.coboundedI1 Max_ge)
  moreover have "0 < ?S" by (simp add: word_less_nat_alt max_def word_le_nat_alt)
  ultimately show ?thesis
    unfolding group_outlier_def outlier_def Let_def S [symmetric]
    by (simp add: word_less_nat_alt unat_difference_ppm cross_validation_disagreement_threshold_ppm_def players)
qed

theorem cross_validation_is_pointwise:
  "cross_validate_samples samples = (map (validated samples) samples, length (filter (outlier samples) samples))"
proof -
  let ?gs = "bt_values (indexes_by_app samples)"
  have group: "g \<in> set ?gs \<and> i \<in> set g \<longleftrightarrow>
      i < length samples \<and> g = filter (\<lambda>j. as_app_id (samples ! j) = as_app_id (samples ! i)) [0..<length samples]" for g i
  proof
    assume "g \<in> set ?gs \<and> i \<in> set g"
    then obtain app where "g = filter (\<lambda>j. as_app_id (samples ! j) = app) [0..<length samples]" "i \<in> set g"
      by (auto simp: bt_values_set indexes_by_app_get Let_def split: if_splits)
    then show "i < length samples \<and> g = filter (\<lambda>j. as_app_id (samples ! j) = as_app_id (samples ! i)) [0..<length samples]" by auto
  next
    assume g: "i < length samples \<and> g = filter (\<lambda>j. as_app_id (samples ! j) = as_app_id (samples ! i)) [0..<length samples]"
    then have i: "i \<in> set g" by simp
    then have "g \<noteq> []" by auto
    then have "bt_get (indexes_by_app samples) (as_app_id (samples ! i)) = Some g"
      using g by (simp add: indexes_by_app_get Let_def)
    then show "g \<in> set ?gs \<and> i \<in> set g" using i by (auto simp: bt_values_set)
  qed
  have out: "(\<exists>g \<in> set ?gs. i \<in> set g \<and> group_outlier samples g i) \<longleftrightarrow> outlier samples (samples ! i)" if "i < length samples" for i
    using that group group_outlier_iff [OF that] by metis
  have "cross_validate_samples samples =
    (map (\<lambda>i. if \<exists>g \<in> set ?gs. i \<in> set g \<and> group_outlier samples g i then mark (samples ! i) else samples ! i) [0..<length samples],
     0 + (\<Sum>g \<leftarrow> ?gs. length (filter (group_outlier samples g) g)))"
    unfolding cross_validate_samples_def
    using groups_of_indexes [of samples] by (intro validate_groups_eq) auto
  moreover have "map (\<lambda>i. if \<exists>g \<in> set ?gs. i \<in> set g \<and> group_outlier samples g i then mark (samples ! i) else samples ! i) [0..<length samples]
      = map (validated samples) samples"
    by (rule nth_equalityI) (simp_all add: out validated_def mark_def)
  moreover have "(\<Sum>g \<leftarrow> ?gs. length (filter (group_outlier samples g) g)) = length (filter (outlier samples) samples)"
  proof -
    have "filter (group_outlier samples g) g = filter (\<lambda>i. outlier samples (samples ! i)) g" if "g \<in> set ?gs" for g
      using that group group_outlier_iff by (intro filter_cong) metis+
    then have "(\<Sum>g \<leftarrow> ?gs. length (filter (group_outlier samples g) g)) = (\<Sum>g \<leftarrow> ?gs. length (filter (\<lambda>i. outlier samples (samples ! i)) g))"
      by (intro arg_cong [where f = sum_list] map_cong refl) simp
    also have "\<dots> = length (filter (\<lambda>i. outlier samples (samples ! i)) (concat ?gs))"
      by (simp add: filter_concat length_concat comp_def)
    also have "\<dots> = card {i. i < length samples \<and> outlier samples (samples ! i)}"
      using groups_of_indexes [of samples] distinct_length_filter [of "concat ?gs"] by (simp add: Int_def lessThan_def conj_commute)
    also have "\<dots> = length (filter (outlier samples) samples)" by (simp add: length_filter_conv_card)
    finally show ?thesis .
  qed
  ultimately show ?thesis by simp
qed

text \<open>The lower bound of the new confidence is above the confidence of a weak source.\<close>

lemma outlier_confidence_raised:
  assumes "as_source_confidence_ppm s < 100000" "outlier samples s"
  shows "as_source_confidence_ppm s < as_source_confidence_ppm (validated samples s)"
  using assms by (simp add: validated_def word_less_nat_alt unat_downscaled_confidence)

end
