(* ===== verification/Play_Proofs.thy ===== *)
theory Play_Proofs
  imports Node_Progress Ingestion Collectors
begin

text \<open>
  The proofs of play that a tick records (\<open>heartbeat_bucket_for_slot\<close> and \<open>record_play_heartbeats\<close> of
  \<open>src/src/node_daemon.rs\<close>, \<open>save_play_heartbeat\<close> of \<open>mutual_proof.rs\<close>): one session for each running mapped
  game and reward block, and one heartbeat for each bucket of the block. The heartbeats of a session are one
  file, \<open>None\<close> where it does not parse. What \<open>evaluate_game_engagement\<close> finds out from the operating system
  about a process is an argument: whether the process is at its main menu.
\<close>

subsection \<open>Files\<close>

record proof_files =
  pr_disk :: node_disk
  pr_heartbeats :: "(string, play_heartbeat list option) btree_map"

definition load_play_heartbeats :: "hash32 \<Rightarrow> proof_files \<Rightarrow> play_heartbeat list" where
  "load_play_heartbeats session_id d =
     (case bt_get (pr_heartbeats d) (proof_file_name session_id) of Some (Some hs) \<Rightarrow> hs | _ \<Rightarrow> [])"

definition save_play_heartbeat :: "play_heartbeat \<Rightarrow> proof_files \<Rightarrow> proof_files" where
  "save_play_heartbeat h d =
     d\<lparr>pr_heartbeats := bt_insert (proof_file_name (hb_session_id h))
         (Some (add_heartbeat h (load_play_heartbeats (hb_session_id h) d))) (pr_heartbeats d)\<rparr>"

definition write_session :: "play_session \<Rightarrow> proof_files \<Rightarrow> proof_files" where
  "write_session session d = d\<lparr>pr_disk := save_play_session session (pr_disk d)\<rparr>"

subsection \<open>Buckets\<close>

definition heartbeat_bucket_for_slot :: "u64 \<Rightarrow> u64 \<Rightarrow> u64 \<Rightarrow> u64 \<Rightarrow> u64 \<times> u64" where
  "heartbeat_bucket_for_slot slot block_secs bucket_seconds tick_interval_secs =
     (let slots_per_block = max (block_secs div max tick_interval_secs 1) 1;
          zero_based_slot = saturating_sub slot 1;
          block_index = zero_based_slot div slots_per_block;
          block_offset = zero_based_slot mod slots_per_block;
          elapsed_in_block_secs = saturating_mul block_offset tick_interval_secs
      in (block_index, elapsed_in_block_secs div max bucket_seconds 1))"

definition heartbeat_bucket_seconds_of :: "protocol_params option \<Rightarrow> u64" where
  "heartbeat_bucket_seconds_of activated =
     max (case map_option (\<lambda>p. heartbeat_bucket_seconds (pp_mutual_proof p)) activated of
            None \<Rightarrow> heartbeat_bucket_seconds default_mutual_proof_params
          | Some v \<Rightarrow> if v > 0 then v else heartbeat_bucket_seconds default_mutual_proof_params) 1"

subsection \<open>Recording\<close>

record play_heartbeat_tick_outcome =
  ho_sessions_created :: nat
  ho_sessions_reused :: nat
  ho_heartbeats_saved :: nat

definition default_heartbeat_outcome :: play_heartbeat_tick_outcome where
  "default_heartbeat_outcome = \<lparr>ho_sessions_created = 0, ho_sessions_reused = 0, ho_heartbeats_saved = 0\<rparr>"

text \<open>What the loop over the running games reads besides the files.\<close>

record heartbeat_context =
  hc_epoch_id :: epoch_id
  hc_slot_id :: slot_id
  hc_block_secs :: u64
  hc_slots_per_block :: u64
  hc_block_index :: u64
  hc_bucket_index :: u64
  hc_node_id :: node_id
  hc_observation_cid :: string
  hc_observed_players :: "(app_id, u64) btree_map"
  hc_signed_at_millis :: unix_millis

definition reusable_session :: "heartbeat_context \<Rightarrow> app_id \<Rightarrow> play_session \<Rightarrow> bool" where
  "reusable_session cx app session \<longleftrightarrow>
     ps_app_id session = app \<and> ps_epoch_id session = hc_epoch_id cx
     \<and> saturating_sub (ps_slot_id session) 1 div hc_slots_per_block cx = hc_block_index cx"

definition session_for_app ::
  "proof_env \<Rightarrow> node_config \<Rightarrow> key_pair \<Rightarrow> heartbeat_context \<Rightarrow> play_session list \<Rightarrow> app_id \<Rightarrow> proof_files
    \<Rightarrow> (node_daemon_error, play_session \<times> bool, proof_files) outcome" where
  "session_for_app env config identity cx stored app d =
     (case List.find (reusable_session cx app) stored of
        Some session \<Rightarrow> (Inr (session, False), d)
      | None \<Rightarrow>
          try_with (map_sum DaemonMutualProof id (build_play_session env config identity
              \<lparr>si_app_id = app, si_epoch_id = hc_epoch_id cx, si_slot_id = hc_slot_id cx,
               si_play_seconds = hc_block_secs cx, si_collector_id = hc_node_id cx,
               si_observation_cid = hc_observation_cid cx,
               si_observed_players = bt_or_default (hc_observed_players cx) app 0\<rparr>)) d
            (\<lambda>session. (Inr (session, True), write_session session d)))"

definition beat_for_app ::
  "proof_env \<Rightarrow> node_config \<Rightarrow> key_pair \<Rightarrow> heartbeat_context \<Rightarrow> play_session list \<Rightarrow> app_id \<Rightarrow> play_heartbeat_tick_outcome
    \<Rightarrow> proof_files \<Rightarrow> (node_daemon_error, play_heartbeat_tick_outcome, proof_files) outcome" where
  "beat_for_app env config identity cx stored app out d =
     try_then (session_for_app env config identity cx stored app d) (\<lambda>(session, created) d.
       if list_ex (\<lambda>h. hb_bucket_index h = hc_bucket_index cx) (load_play_heartbeats (ps_session_id session) d)
       then (Inr (if created then out else out\<lparr>ho_sessions_reused := ho_sessions_reused out + 1\<rparr>), d)
       else try_with (map_sum DaemonMutualProof id
            (build_play_heartbeat env identity session (hc_bucket_index cx) (hc_signed_at_millis cx))) d (\<lambda>h.
         let out = (if created then out\<lparr>ho_sessions_created := ho_sessions_created out + 1\<rparr>
                    else out\<lparr>ho_sessions_reused := ho_sessions_reused out + 1\<rparr>)
         in (Inr (out\<lparr>ho_heartbeats_saved := ho_heartbeats_saved out + 1\<rparr>), save_play_heartbeat h d)))"

fun beat_all ::
  "proof_env \<Rightarrow> node_config \<Rightarrow> key_pair \<Rightarrow> (string \<Rightarrow> bool) \<Rightarrow> heartbeat_context \<Rightarrow> play_session list \<Rightarrow> (string \<times> app_id) list
    \<Rightarrow> play_heartbeat_tick_outcome \<Rightarrow> proof_files \<Rightarrow> (node_daemon_error, play_heartbeat_tick_outcome, proof_files) outcome" where
  "beat_all env config identity main_menu cx stored [] out d = (Inr out, d)"
| "beat_all env config identity main_menu cx stored ((process, app) # apps) out d =
     (if main_menu process then beat_all env config identity main_menu cx stored apps out d
      else try_then (beat_for_app env config identity cx stored app out d)
        (beat_all env config identity main_menu cx stored apps))"

definition heartbeat_context_of ::
  "protocol_params option \<Rightarrow> node_config \<Rightarrow> node_id \<Rightarrow> epoch_id \<Rightarrow> slot_id \<Rightarrow> string list \<Rightarrow> (app_id, u64) btree_map \<Rightarrow> string
    \<Rightarrow> unix_millis \<Rightarrow> heartbeat_context" where
  "heartbeat_context_of activated config nid epoch slot active observed cid now =
     (let block_secs = max (effective_reward_block_secs activated config) 1;
          tick_interval_secs = max (effective_collect_interval_secs config active) 1;
          (block_index, bucket_index) =
            heartbeat_bucket_for_slot slot block_secs (heartbeat_bucket_seconds_of activated) tick_interval_secs
      in \<lparr>hc_epoch_id = epoch, hc_slot_id = slot, hc_block_secs = block_secs,
          hc_slots_per_block = max (block_secs div tick_interval_secs) 1, hc_block_index = block_index,
          hc_bucket_index = bucket_index, hc_node_id = nid, hc_observation_cid = cid, hc_observed_players = observed,
          hc_signed_at_millis = now\<rparr>)"

text \<open>\<open>None\<close> is the panic of \<open>canonical_process_name\<close>.\<close>

definition record_play_heartbeats ::
  "proof_env \<Rightarrow> protocol_params option \<Rightarrow> game_lookup \<Rightarrow> node_config_error + key_pair \<Rightarrow> (string \<Rightarrow> bool) \<Rightarrow> unix_millis
    \<Rightarrow> node_config \<Rightarrow> epoch_id \<Rightarrow> slot_id \<Rightarrow> string list \<Rightarrow> (app_id, u64) btree_map \<Rightarrow> string \<Rightarrow> proof_files
    \<Rightarrow> (node_daemon_error, play_heartbeat_tick_outcome, proof_files) outcome option" where
  "record_play_heartbeats env activated infer identity main_menu now config epoch slot active observed cid d =
     (if active = [] \<or> cid = [] then Some (Inr default_heartbeat_outcome, d)
      else map_option (\<lambda>apps.
        if apps = [] then (Inr default_heartbeat_outcome, d)
        else try_with (map_sum DaemonConfig id identity) d (\<lambda>k.
          try_with (map_sum DaemonConfig id (config_node_id config)) d (\<lambda>nid.
            beat_all env config k main_menu (heartbeat_context_of activated config nid epoch slot active observed cid now)
              (load_play_sessions (pr_disk d)) apps default_heartbeat_outcome d)))
        (active_mapped_apps infer config active))"

subsection \<open>Buckets spread over the block\<close>

lemma elapsed_in_block:
  fixes block tick :: u64
  assumes "0 < tick" "tick \<le> block"
  shows "unat (saturating_mul (z mod max (block div max tick 1) 1) tick)
           = unat z mod (unat block div unat tick) * unat tick"
    and "unat z mod (unat block div unat tick) * unat tick < unat block"
proof -
  have tick: "0 < unat tick" "unat tick \<le> unat block" using assms by (simp_all add: word_less_nat_alt word_le_nat_alt)
  then have pos: "0 < unat block div unat tick" by (simp add: div_greater_zero_iff)
  have slots: "unat (max (block div max tick 1) 1) = unat block div unat tick"
    using tick pos by (simp add: unat_max_word_one unat_div_distrib)
  have "unat z mod (unat block div unat tick) < unat block div unat tick" using pos by simp
  then have "Suc (unat z mod (unat block div unat tick)) * unat tick \<le> (unat block div unat tick) * unat tick"
    by (intro mult_le_mono1) simp
  also have "\<dots> \<le> unat block" by (simp add: div_times_less_eq_dividend)
  finally show less: "unat z mod (unat block div unat tick) * unat tick < unat block" using tick by simp
  then show "unat (saturating_mul (z mod max (block div max tick 1) 1) tick)
      = unat z mod (unat block div unat tick) * unat tick"
    using unat_bound [of block] by (subst unat_saturating_mul_exact) (simp_all add: unat_mod_distrib slots)
qed

lemma bucket_in_block:
  assumes "heartbeat_bucket_for_slot slot block bucket tick = (b, i)" "0 < tick" "tick \<le> block" "0 < bucket"
  shows "unat i * unat bucket < unat block"
proof -
  let ?e = "unat (saturating_sub slot 1) mod (unat block div unat tick) * unat tick"
  have "unat (max bucket 1) = unat bucket" using assms(4) by (simp add: unat_max_word_one word_less_nat_alt)
  then have "unat i = ?e div unat bucket"
    using assms(1) elapsed_in_block(1) [OF assms(2,3), of "saturating_sub slot 1"]
    by (auto simp: heartbeat_bucket_for_slot_def Let_def unat_div_distrib)
  then show ?thesis
    using elapsed_in_block(2) [OF assms(2,3), of "saturating_sub slot 1"]
    by (simp only:) (rule le_less_trans [OF div_times_less_eq_dividend])
qed

lemma later_tick_later_bucket:
  assumes first: "heartbeat_bucket_for_slot slot block bucket tick = (b, i)"
    and later: "heartbeat_bucket_for_slot slot' block bucket tick = (b, i')"
    and "1 \<le> slot" "slot < slot'" "0 < tick" "tick \<le> block" "0 < bucket" "bucket \<le> tick"
  shows "i < i'"
proof -
  let ?n = "unat block div unat tick" and ?z = "unat (saturating_sub slot 1)" and ?z' = "unat (saturating_sub slot' 1)"
  have tick: "0 < unat tick" "unat tick \<le> unat block" "unat bucket \<le> unat tick" "0 < unat bucket"
    using assms by (simp_all add: word_less_nat_alt word_le_nat_alt)
  then have pos: "0 < ?n" by (simp add: div_greater_zero_iff)
  have slots: "unat (max (block div max tick 1) 1) = ?n"
    using tick pos by (simp add: unat_max_word_one unat_div_distrib)
  have bucket: "unat (max bucket 1) = unat bucket" using tick by (simp add: unat_max_word_one)
  have z: "?z < ?z'" using assms(3,4) by (simp add: unat_saturating_sub word_less_nat_alt word_le_nat_alt)
  have i: "unat i = ?z mod ?n * unat tick div unat bucket" "unat i' = ?z' mod ?n * unat tick div unat bucket"
    using first later elapsed_in_block(1) [OF assms(5,6)] by (auto simp: heartbeat_bucket_for_slot_def Let_def unat_div_distrib bucket)
  have "?z div ?n = ?z' div ?n"
    using first later by (auto simp: heartbeat_bucket_for_slot_def Let_def unat_div_distrib slots dest!: arg_cong [where f = unat])
  then have "?z mod ?n < ?z' mod ?n"
    using z div_mult_mod_eq [of ?z ?n] div_mult_mod_eq [of ?z' ?n] by (metis add_less_cancel_left)
  then have "?z mod ?n * unat tick + unat bucket \<le> ?z' mod ?n * unat tick"
    using tick(3) mult_le_mono1 [of "Suc (?z mod ?n)" "?z' mod ?n" "unat tick"] by simp
  from div_le_mono [OF this, of "unat bucket"] have "Suc (unat i) \<le> unat i'"
    using tick(4) by (simp add: i div_add_self2)
  then show ?thesis by (simp add: word_less_nat_alt)
qed

subsection \<open>Every running game is recorded\<close>

definition recorded :: "hash32 \<Rightarrow> u64 \<Rightarrow> proof_files \<Rightarrow> bool" where
  "recorded session_id bucket d \<longleftrightarrow> list_ex (\<lambda>h. hb_bucket_index h = bucket) (load_play_heartbeats session_id d)"

lemma proof_file_name_inject [simp]: "proof_file_name a = proof_file_name b \<longleftrightarrow> a = b"
  by (simp add: proof_file_name_def hex_32_inject)

lemma load_heartbeats_save [simp]:
  "load_play_heartbeats sid (save_play_heartbeat h d) =
     (if sid = hb_session_id h then add_heartbeat h (load_play_heartbeats sid d) else load_play_heartbeats sid d)"
  by (simp add: save_play_heartbeat_def load_play_heartbeats_def)

lemma load_heartbeats_write_session [simp]: "load_play_heartbeats sid (write_session session d) = load_play_heartbeats sid d"
  by (simp add: write_session_def load_play_heartbeats_def)

lemma recorded_save:
  "recorded sid i (save_play_heartbeat h d) \<longleftrightarrow> recorded sid i d \<or> sid = hb_session_id h \<and> i = hb_bucket_index h"
  by (auto simp: recorded_def add_heartbeat_def list_ex_iff)

lemma recorded_write_session [simp]: "recorded sid i (write_session session d) \<longleftrightarrow> recorded sid i d"
  by (simp add: recorded_def)

definition context_ok :: "heartbeat_context \<Rightarrow> bool" where
  "context_ok cx \<longleftrightarrow> hc_observation_cid cx \<noteq> []
     \<and> saturating_sub (hc_slot_id cx) 1 div hc_slots_per_block cx = hc_block_index cx"

lemma context_of_ok: "cid \<noteq> [] \<Longrightarrow> context_ok (heartbeat_context_of activated config nid epoch slot active observed cid now)"
  by (simp add: context_ok_def heartbeat_context_of_def heartbeat_bucket_for_slot_def Let_def max.assoc)

lemma session_for_app_Inr:
  assumes "context_ok cx" "config_node_id config = Inr nid"
  obtains session created d' where "session_for_app env config k cx stored app d = (Inr (session, created), d')"
    "reusable_session cx app session" "pr_heartbeats d' = pr_heartbeats d"
    "created \<longleftrightarrow> (\<forall>s \<in> set stored. \<not> reusable_session cx app s)" "\<not> created \<longrightarrow> session \<in> set stored"
    "created \<longrightarrow> ps_node_address session = identity_account_address env (kp_public k)"
    "d' = (if created then write_session session d else d)"
proof (cases "List.find (reusable_session cx app) stored")
  case None
  let ?in = "\<lparr>si_app_id = app, si_epoch_id = hc_epoch_id cx, si_slot_id = hc_slot_id cx,
      si_play_seconds = hc_block_secs cx, si_collector_id = hc_node_id cx, si_observation_cid = hc_observation_cid cx,
      si_observed_players = bt_or_default (hc_observed_players cx) app 0\<rparr>"
  obtain session where built: "build_play_session env config k ?in = Inr session"
    "ps_app_id session = app" "ps_epoch_id session = hc_epoch_id cx" "ps_slot_id session = hc_slot_id cx"
    "ps_node_address session = identity_account_address env (kp_public k)"
    using assms by (simp add: build_play_session_def context_ok_def Let_def)
  show ?thesis
  proof (rule that [of session True "write_session session d"])
    show "session_for_app env config k cx stored app d = (Inr (session, True), write_session session d)"
      using None built(1) by (simp add: session_for_app_def)
  qed (use None built assms(1) in \<open>auto simp: find_None_iff reusable_session_def context_ok_def write_session_def\<close>)
next
  case (Some s)
  then have "reusable_session cx app s" "s \<in> set stored" by (auto simp: find_Some_iff)
  moreover from Some have "session_for_app env config k cx stored app d = (Inr (s, False), d)" by (simp add: session_for_app_def)
  ultimately show ?thesis using that [of s False d] by auto
qed

lemma beat_for_app_Inr:
  assumes "context_ok cx" "config_node_id config = Inr nid"
  obtains out' d' session where "beat_for_app env config k cx stored app out d = (Inr out', d')"
    "reusable_session cx app session" "recorded (ps_session_id session) (hc_bucket_index cx) d'"
    "session \<in> set stored \<or> ps_node_address session = identity_account_address env (kp_public k)"
    "\<And>sid i. recorded sid i d \<Longrightarrow> recorded sid i d'"
proof -
  obtain session created d1 where s: "session_for_app env config k cx stored app d = (Inr (session, created), d1)"
    "reusable_session cx app session" "pr_heartbeats d1 = pr_heartbeats d" "\<not> created \<longrightarrow> session \<in> set stored"
    "created \<longrightarrow> ps_node_address session = identity_account_address env (kp_public k)"
    using session_for_app_Inr [OF assms] by metis
  have same: "recorded sid i d1 \<longleftrightarrow> recorded sid i d" for sid i
    using s(3) by (simp add: recorded_def load_play_heartbeats_def)
  show ?thesis
  proof (cases "recorded (ps_session_id session) (hc_bucket_index cx) d1")
    case True
    have "\<exists>out'. beat_for_app env config k cx stored app out d = (Inr out', d1)"
      using True s(1) by (simp add: beat_for_app_def recorded_def)
    then show ?thesis using that [of _ d1 session] s True same by auto
  next
    case False
    define h where "h = (case build_play_heartbeat env k session (hc_bucket_index cx) (hc_signed_at_millis cx) of Inr h \<Rightarrow> h)"
    have h: "build_play_heartbeat env k session (hc_bucket_index cx) (hc_signed_at_millis cx) = Inr h"
      "hb_session_id h = ps_session_id session" "hb_bucket_index h = hc_bucket_index cx"
      by (simp_all add: h_def build_play_heartbeat_def Let_def)
    have "\<exists>out'. beat_for_app env config k cx stored app out d = (Inr out', save_play_heartbeat h d1)"
      using False s(1) h(1) by (simp add: beat_for_app_def recorded_def Let_def)
    then show ?thesis using that [of _ "save_play_heartbeat h d1" session] s h same by (auto simp: recorded_save)
  qed
qed

lemma beat_all_Inr:
  assumes "context_ok cx" "config_node_id config = Inr nid"
  shows "\<exists>out' d'. beat_all env config k menu cx stored apps out d = (Inr out', d')
     \<and> (\<forall>sid i. recorded sid i d \<longrightarrow> recorded sid i d')
     \<and> (\<forall>(process, app) \<in> set apps. \<not> menu process \<longrightarrow>
          (\<exists>session. reusable_session cx app session \<and> recorded (ps_session_id session) (hc_bucket_index cx) d'
             \<and> (session \<in> set stored \<or> ps_node_address session = identity_account_address env (kp_public k))))"
proof (induction apps arbitrary: out d)
  case (Cons pa apps)
  obtain process app where pa: "pa = (process, app)" by (cases pa)
  show ?case
  proof (cases "menu process")
    case True
    then show ?thesis using Cons.IH [of out d] pa by auto
  next
    case False
    obtain out1 d1 session where 1: "beat_for_app env config k cx stored app out d = (Inr out1, d1)"
      "reusable_session cx app session" "recorded (ps_session_id session) (hc_bucket_index cx) d1"
      "session \<in> set stored \<or> ps_node_address session = identity_account_address env (kp_public k)"
      "\<And>sid i. recorded sid i d \<Longrightarrow> recorded sid i d1"
      using beat_for_app_Inr [OF assms] by metis
    obtain out2 d2 where 2: "beat_all env config k menu cx stored apps out1 d1 = (Inr out2, d2)"
      "\<forall>sid i. recorded sid i d1 \<longrightarrow> recorded sid i d2"
      "\<forall>(process, app) \<in> set apps. \<not> menu process \<longrightarrow>
          (\<exists>session. reusable_session cx app session \<and> recorded (ps_session_id session) (hc_bucket_index cx) d2
             \<and> (session \<in> set stored \<or> ps_node_address session = identity_account_address env (kp_public k)))"
      using Cons.IH [of out1 d1] by blast
    show ?thesis using pa False 1 2 by auto
  qed
qed simp

theorem running_games_recorded:
  fixes activated :: "protocol_params option" and epoch :: epoch_id and slot :: slot_id
    and active :: "string list" and observed :: "(app_id, u64) btree_map" and cid :: string and now :: unix_millis
  assumes "config_node_id config = Inr nid" "cid \<noteq> []" "active_mapped_apps infer config active = Some apps"
  defines "cx \<equiv> heartbeat_context_of activated config nid epoch slot active observed cid now"
  shows "\<exists>out d'. record_play_heartbeats env activated infer (Inr k) menu now config epoch slot active observed cid d = Some (Inr out, d')
    \<and> (active \<noteq> [] \<longrightarrow> (\<forall>(process, app) \<in> set apps. \<not> menu process \<longrightarrow>
         (\<exists>session. reusable_session cx app session \<and> recorded (ps_session_id session) (hc_bucket_index cx) d'
            \<and> (session \<in> set (load_play_sessions (pr_disk d))
               \<or> ps_node_address session = identity_account_address env (kp_public k)))))"
proof (cases "active = [] \<or> apps = []")
  case True
  then show ?thesis using assms(2,3) by (auto simp: record_play_heartbeats_def)
next
  case False
  have "context_ok cx" unfolding cx_def by (rule context_of_ok [OF assms(2)])
  from beat_all_Inr [OF this assms(1), of env k menu "load_play_sessions (pr_disk d)" apps default_heartbeat_outcome d]
  show ?thesis using assms(1-3) False by (simp add: record_play_heartbeats_def cx_def) blast
qed

subsection \<open>Heartbeats of a session are in different buckets\<close>

definition heartbeats_ok :: "proof_files \<Rightarrow> bool" where
  "heartbeats_ok d \<longleftrightarrow> (\<forall>sid. sorted_wrt (\<lambda>a b. hb_bucket_index a < hb_bucket_index b) (load_play_heartbeats sid d)
     \<and> (\<forall>h \<in> set (load_play_heartbeats sid d). hb_session_id h = sid))"

lemma sorted_wrt_less_map: "sorted_wrt (\<lambda>a b. f a < f b) xs \<longleftrightarrow> sorted (map f xs) \<and> distinct (map f xs)"
  by (simp add: sorted_wrt_map [symmetric] strict_sorted_iff [symmetric])

lemma heartbeats_ok_save: "heartbeats_ok d \<Longrightarrow> heartbeats_ok (save_play_heartbeat h d)"
proof -
  assume ok: "heartbeats_ok d"
  have "distinct (map hb_bucket_index (sort_key hb_bucket_index (xs @ [h])))"
    if "distinct (map hb_bucket_index xs)" "\<not> list_ex (\<lambda>current. hb_bucket_index current = hb_bucket_index h) xs" for xs
    using that by (auto simp: distinct_map_sort_key list_ex_iff simp del: distinct_map)
  then show ?thesis using ok by (auto simp: heartbeats_ok_def sorted_wrt_less_map add_heartbeat_def)
qed

subsection \<open>Which sessions a tick adds\<close>

text \<open>A session that a tick adds is its own, for the slot of the tick, and for a game without a session in this block.\<close>

definition own_new_session :: "proof_env \<Rightarrow> key_pair \<Rightarrow> heartbeat_context \<Rightarrow> play_session list \<Rightarrow> play_session \<Rightarrow> bool" where
  "own_new_session env k cx stored s \<longleftrightarrow> ps_epoch_id s = hc_epoch_id cx \<and> ps_slot_id s = hc_slot_id cx
     \<and> ps_node_address s = identity_account_address env (kp_public k)
     \<and> (\<forall>t \<in> set stored. \<not> reusable_session cx (ps_app_id s) t)"

lemma load_sessions_save:
  "s \<in> set (load_play_sessions (save_play_session session d)) \<Longrightarrow> s = session \<or> s \<in> set (load_play_sessions d)"
  by (auto simp: load_play_sessions_def set_load_directory save_play_session_def split: if_splits)

lemma session_for_app_sessions:
  assumes "session_for_app env config k cx stored app d = (r, d')" "s \<in> set (load_play_sessions (pr_disk d'))"
  shows "s \<in> set (load_play_sessions (pr_disk d)) \<or> own_new_session env k cx stored s"
proof (cases "List.find (reusable_session cx app) stored")
  case None
  then have "\<forall>t \<in> set stored. \<not> reusable_session cx app t" by (auto simp: find_None_iff)
  then show ?thesis
    using assms unfolding session_for_app_def None
    by (auto simp: build_play_session_def write_session_def own_new_session_def Let_def split: if_splits sum.splits
        dest!: load_sessions_save)
qed (use assms in \<open>simp add: session_for_app_def\<close>)

lemma beat_for_app_disk: "pr_disk (snd (beat_for_app env config k cx stored app out d)) = pr_disk (snd (session_for_app env config k cx stored app d))"
proof -
  obtain r d1 where s: "session_for_app env config k cx stored app d = (r, d1)" by (cases "session_for_app env config k cx stored app d")
  show ?thesis
    by (cases r) (auto simp: beat_for_app_def s build_play_heartbeat_def save_play_heartbeat_def Let_def split: prod.splits)
qed

lemma beat_for_app_sessions:
  assumes "beat_for_app env config k cx stored app out d = (r, d')" "s \<in> set (load_play_sessions (pr_disk d'))"
  shows "s \<in> set (load_play_sessions (pr_disk d)) \<or> own_new_session env k cx stored s"
  using assms beat_for_app_disk [of env config k cx stored app out d]
    session_for_app_sessions [of env config k cx stored app d "fst (session_for_app env config k cx stored app d)"
      "snd (session_for_app env config k cx stored app d)" s] by simp

lemma beat_all_sessions:
  assumes "beat_all env config k menu cx stored apps out d = (r, d')" "s \<in> set (load_play_sessions (pr_disk d'))"
  shows "s \<in> set (load_play_sessions (pr_disk d)) \<or> own_new_session env k cx stored s"
  using assms
proof (induction apps arbitrary: out d)
  case (Cons pa apps)
  obtain process app where pa: "pa = (process, app)" by (cases pa)
  obtain r1 d1 where 1: "beat_for_app env config k cx stored app out d = (r1, d1)" by (cases "beat_for_app env config k cx stored app out d")
  show ?case
  proof (cases "menu process")
    case True
    then show ?thesis using Cons pa by auto
  next
    case False
    show ?thesis
    proof (cases r1)
      case (Inl e)
      then show ?thesis using Cons.prems False pa 1 beat_for_app_sessions [OF 1] by auto
    next
      case (Inr out1)
      then have "beat_all env config k menu cx stored apps out1 d1 = (r, d')" using Cons.prems False pa 1 by simp
      from Cons.IH [OF this Cons.prems(2)] show ?thesis using beat_for_app_sessions [OF 1] by blast
    qed
  qed
qed simp

theorem tick_sessions:
  fixes activated :: "protocol_params option" and epoch :: epoch_id and slot :: slot_id
    and active :: "string list" and observed :: "(app_id, u64) btree_map" and cid :: string and now :: unix_millis
  assumes run: "record_play_heartbeats env activated infer (Inr k) menu now config epoch slot active observed cid d = Some (r, d')"
    and nid: "config_node_id config = Inr nid" and s: "s \<in> set (load_play_sessions (pr_disk d'))"
  shows "s \<in> set (load_play_sessions (pr_disk d))
    \<or> own_new_session env k (heartbeat_context_of activated config nid epoch slot active observed cid now)
        (load_play_sessions (pr_disk d)) s"
  using run s nid by (auto simp: record_play_heartbeats_def dest: beat_all_sessions split: if_splits)

text \<open>
  A session that a peer announced for the same game and block is taken for the node's own: the tick adds no
  session for the game, and the heartbeat it signs is for the session of the peer.
\<close>

theorem foreign_session_is_reused:
  fixes activated :: "protocol_params option" and epoch :: epoch_id and slot :: slot_id
    and active :: "string list" and observed :: "(app_id, u64) btree_map" and cid :: string and now :: unix_millis
  assumes run: "record_play_heartbeats env activated infer (Inr k) menu now config epoch slot active observed cid d = Some (r, d')"
    and nid: "config_node_id config = Inr nid"
    and peer: "t \<in> set (load_play_sessions (pr_disk d))" 
      "reusable_session (heartbeat_context_of activated config nid epoch slot active observed cid now) app t"
    and s: "s \<in> set (load_play_sessions (pr_disk d'))" "ps_app_id s = app"
  shows "s \<in> set (load_play_sessions (pr_disk d))"
  using tick_sessions [OF run nid s(1)] peer s(2) by (auto simp: own_new_session_def)

end
