(* ===== verification/Pruning.thy ===== *)
theory Pruning
  imports Auto_Settlement Storage_Audit
begin

text \<open>
  What a node forgets (\<open>prune_retention\<close> and its helpers in \<open>src/src/node_daemon.rs\<close>): payloads past their
  retention with their files and batch artifacts, old audits, and the intermediate artifacts of settled
  epochs. The artifact directories are kept by file name, as pruning reads nothing else of them; the reward
  ticks and the credentials, which other parts read, are kept with their contents.
\<close>

subsection \<open>Names of artifacts\<close>

definition epoch_artifact_name :: "epoch_id \<Rightarrow> string" where
  "epoch_artifact_name epoch = ''epoch-'' @ decimal_padded 6 (unat epoch) @ ''.json''"

definition reward_tick_name :: "epoch_id \<Rightarrow> slot_id \<Rightarrow> string" where
  "reward_tick_name epoch slot = ''epoch-'' @ decimal_padded 6 (unat epoch) @ ''-slot-'' @ decimal_padded 6 (unat slot) @ ''.json''"

definition verification_credential_name :: "epoch_id \<Rightarrow> string" where
  "verification_credential_name epoch = ''epoch-'' @ decimal (unat epoch) @ ''.json''"

text \<open>\<open>Path::file_stem\<close> of a file name: what comes before the last dot, if that is not the first character.\<close>

definition file_stem :: "string \<Rightarrow> string" where
  "file_stem name =
     (let r = dropWhile (\<lambda>c. c \<noteq> CHR ''.'') (rev name) in if r = [] \<or> tl r = [] then name else rev (tl r))"

definition is_ascii_digit :: "char \<Rightarrow> bool" where
  "is_ascii_digit c \<longleftrightarrow> CHR ''0'' \<le> c \<and> c \<le> CHR ''9''"

definition digits_value :: "string \<Rightarrow> nat" where
  "digits_value ds = foldl (\<lambda>n c. n * 10 + (of_char c - 48)) 0 ds"

definition parse_u64 :: "string \<Rightarrow> u64 option" where
  "parse_u64 ds = (if digits_value ds < 2 ^ 64 then Some (word_of_nat (digits_value ds)) else None)"

definition epoch_id_from_artifact_path :: "string \<Rightarrow> epoch_id option" where
  "epoch_id_from_artifact_path name =
     (case strip_prefix ''epoch-'' (file_stem name) of
        None \<Rightarrow> None
      | Some epoch_suffix \<Rightarrow>
          let digits = takeWhile is_ascii_digit epoch_suffix
          in if digits = [] then None else parse_u64 digits)"

subsection \<open>Removing\<close>

record data_dir =
  dd_local :: local_data
  dd_ticks :: "(string, player_reward_tick_artifact) btree_map"
  dd_epoch_files :: "(string, string btree_set) btree_map"
  dd_audits :: "(string, string + retention_audit_artifact) btree_map"

type_synonym 'a dir_step = "data_dir \<Rightarrow> (node_daemon_error, 'a, data_dir) outcome"

definition on_disk :: "(node_disk \<Rightarrow> node_disk) \<Rightarrow> data_dir \<Rightarrow> data_dir" where
  "on_disk f dd = dd\<lparr>dd_local := (dd_local dd)\<lparr>ld_disk := f (ld_disk (dd_local dd))\<rparr>\<rparr>"

definition remove_payload_file :: "node_disk \<Rightarrow> stored_payload_record \<Rightarrow> node_disk" where
  "remove_payload_file d r = d\<lparr>dk_payloads := bt_remove (payload_path (sp_payload_cid r)) (dk_payloads d)\<rparr>"

fun prune_batch_files :: "content_id btree_set \<Rightarrow> (string \<times> (string + collect_tick_artifact)) list \<Rightarrow> unit dir_step" where
  "prune_batch_files cids [] dd = (Inr (), dd)"
| "prune_batch_files cids ((name, Inl e) # entries) dd = (Inl (DaemonJson e), dd)"
| "prune_batch_files cids ((name, Inr artifact) # entries) dd =
     prune_batch_files cids entries
       (if bs_contains cids (ct_payload_cid artifact)
        then on_disk (\<lambda>d. d\<lparr>dk_batches := bt_remove name (dk_batches d)\<rparr>) dd else dd)"

definition prune_batch_artifacts_for_payloads :: "content_id btree_set \<Rightarrow> unit dir_step" where
  "prune_batch_artifacts_for_payloads cids dd =
     (if bt_entries cids = [] \<or> \<not> dk_batches_dir_exists (ld_disk (dd_local dd)) then (Inr (), dd)
      else prune_batch_files cids (bt_entries (dk_batches (ld_disk (dd_local dd)))) dd)"

fun prune_audit_files :: "epoch_id \<Rightarrow> (string \<times> (string + retention_audit_artifact)) list \<Rightarrow> unit dir_step" where
  "prune_audit_files oldest [] dd = (Inr (), dd)"
| "prune_audit_files oldest ((name, Inl e) # entries) dd = (Inl (DaemonJson e), dd)"
| "prune_audit_files oldest ((name, Inr artifact) # entries) dd =
     prune_audit_files oldest entries
       (if aa_current_epoch artifact < oldest then dd\<lparr>dd_audits := bt_remove name (dd_audits dd)\<rparr> else dd)"

definition oldest_epoch_to_keep :: "protocol_params option \<Rightarrow> node_config \<Rightarrow> epoch_id \<Rightarrow> epoch_id" where
  "oldest_epoch_to_keep activated config current = saturating_sub current (ucast (effective_min_retention_epochs activated config))"

definition prune_expired_retention_audit_artifacts ::
  "protocol_params option \<Rightarrow> node_config \<Rightarrow> epoch_id \<Rightarrow> unit dir_step" where
  "prune_expired_retention_audit_artifacts activated config current dd =
     prune_audit_files (oldest_epoch_to_keep activated config current) (bt_entries (dd_audits dd)) dd"

text \<open>The condition under which a file of an artifact directory is removed.\<close>

definition prunable :: "epoch_id \<Rightarrow> local_data \<Rightarrow> string \<Rightarrow> bool" where
  "prunable oldest ld name \<longleftrightarrow>
     (case epoch_id_from_artifact_path name of
        None \<Rightarrow> False
      | Some epoch \<Rightarrow> epoch < oldest \<and> bt_get (ld_settlements ld) epoch \<noteq> None)"

definition intermediate_dirs :: "string list" where
  "intermediate_dirs = [''epochs'', ''prepared-epochs'', ''verifications'', ''aggregates'', ''rewards'']"

definition prune_expired_settled_epoch_artifacts_in_dir :: "epoch_id \<Rightarrow> data_dir \<Rightarrow> string \<Rightarrow> data_dir" where
  "prune_expired_settled_epoch_artifacts_in_dir oldest dd dir =
     (let dd = dd\<lparr>dd_epoch_files :=
          (case bt_get (dd_epoch_files dd) dir of
             None \<Rightarrow> dd_epoch_files dd
           | Some names \<Rightarrow> bt_insert dir (bt_retain (\<lambda>name _. \<not> prunable oldest (dd_local dd) name) names) (dd_epoch_files dd))\<rparr>
      in if dir = ''verifications''
         then dd\<lparr>dd_local := (dd_local dd)\<lparr>ld_credentials :=
             bt_retain (\<lambda>epoch _. \<not> prunable oldest (dd_local dd) (verification_credential_name epoch)) (ld_credentials (dd_local dd))\<rparr>\<rparr>
         else dd)"

definition prune_expired_settled_epoch_intermediate_artifacts ::
  "protocol_params option \<Rightarrow> node_config \<Rightarrow> epoch_id \<Rightarrow> data_dir \<Rightarrow> data_dir" where
  "prune_expired_settled_epoch_intermediate_artifacts activated config current dd =
     (let oldest = oldest_epoch_to_keep activated config current;
          dd = foldl (prune_expired_settled_epoch_artifacts_in_dir oldest) dd intermediate_dirs
      in dd\<lparr>dd_ticks := bt_retain (\<lambda>name _. \<not> prunable oldest (dd_local dd) name) (dd_ticks dd)\<rparr>)"

record prune_outcome =
  po_current_epoch :: epoch_id
  po_removed_payloads :: "content_id list"

text \<open>
  The parameters in force are read from the store of the local chain, which pruning does not touch.
\<close>

definition prune_retention :: "node_config \<Rightarrow> epoch_id \<Rightarrow> prune_outcome dir_step" where
  "prune_retention config current dd =
     try_with (map_sum DaemonStorage id (ld_book (dd_local dd))) dd (\<lambda>book.
       let (removed, book') = prune_expired current book;
           dd = dd\<lparr>dd_local := (dd_local dd)\<lparr>ld_book := Inr book', ld_disk := foldl remove_payload_file (ld_disk (dd_local dd)) removed\<rparr>\<rparr>
       in try_then (prune_batch_artifacts_for_payloads (bs_of_list (map sp_payload_cid removed)) dd) (\<lambda>_ dd.
          try_then (prune_expired_retention_audit_artifacts (activated_params (dd_local dd)) config current dd) (\<lambda>_ dd.
            (Inr \<lparr>po_current_epoch = current, po_removed_payloads = map sp_payload_cid removed\<rparr>,
             prune_expired_settled_epoch_intermediate_artifacts (activated_params (dd_local dd)) config current dd))))"

subsection \<open>A name says which epoch it belongs to\<close>

lemma of_char_digit: "n < 10 \<Longrightarrow> (of_char (char_of (48 + n) :: char) :: nat) = 48 + n"
  by simp

lemma digit_char: "n < 10 \<Longrightarrow> is_ascii_digit (char_of (48 + n))"
  for n :: nat
  by (simp add: is_ascii_digit_def less_eq_char_def)

lemma digits_value_snoc: "digits_value (ds @ [c]) = digits_value ds * 10 + (of_char c - 48)"
  by (simp add: digits_value_def)

lemma decimal_digits: "digits_value (decimal n) = n \<and> (\<forall>c \<in> set (decimal n). is_ascii_digit c) \<and> decimal n \<noteq> []"
proof (induction n rule: decimal.induct)
  case (1 n)
  show ?case
  proof (cases "n < 10")
    case True
    then show ?thesis by (simp add: decimal.simps [of n] digits_value_def digit_char)
  next
    case False
    then show ?thesis using 1 by (auto simp: decimal.simps [of n] digits_value_snoc digit_char)
  qed
qed

lemma digits_value_zeros: "digits_value (replicate w CHR ''0'' @ ds) = digits_value ds"
  by (induction w) (simp_all add: digits_value_def)

lemma padded_digits:
  "digits_value (decimal_padded w n) = n" "\<forall>c \<in> set (decimal_padded w n). is_ascii_digit c" "decimal_padded w n \<noteq> []"
  using decimal_digits [of n] by (auto simp: decimal_padded_def digits_value_zeros is_ascii_digit_def)

lemma file_stem_json: "s \<noteq> [] \<Longrightarrow> file_stem (s @ ''.json'') = s"
  by (simp add: file_stem_def Let_def)

lemma epoch_of_digits:
  assumes "digits_value ds = unat epoch" "\<forall>c \<in> set ds. is_ascii_digit c" "ds \<noteq> []" "rest = [] \<or> \<not> is_ascii_digit (hd rest)"
  shows "epoch_id_from_artifact_path (''epoch-'' @ ds @ rest @ ''.json'') = Some epoch"
proof -
  have stem: "file_stem (''epoch-'' @ ds @ rest @ ''.json'') = ''epoch-'' @ ds @ rest"
    using file_stem_json [of "''epoch-'' @ ds @ rest"] by simp
  have "takeWhile is_ascii_digit (ds @ rest) = ds"
    using assms(2,4) by (cases rest) (auto simp: takeWhile_append)
  then show ?thesis
    using assms(1,3) unat_bound [of epoch] unfolding epoch_id_from_artifact_path_def stem
    by (simp add: parse_u64_def Let_def)
qed

theorem artifact_names_round_trip:
  "epoch_id_from_artifact_path (epoch_artifact_name epoch) = Some epoch"
  "epoch_id_from_artifact_path (reward_tick_name epoch slot) = Some epoch"
  "epoch_id_from_artifact_path (verification_credential_name epoch) = Some epoch"
  using epoch_of_digits [of "decimal_padded 6 (unat epoch)" epoch "[]"]
    epoch_of_digits [of "decimal_padded 6 (unat epoch)" epoch "''-slot-'' @ decimal_padded 6 (unat slot)"]
    epoch_of_digits [of "decimal (unat epoch)" epoch "[]"] padded_digits [of 6 "unat epoch"] decimal_digits [of "unat epoch"]
  by (simp_all add: epoch_artifact_name_def reward_tick_name_def verification_credential_name_def is_ascii_digit_def less_eq_char_def)

text \<open>From epoch 100000 on the credentials and the verification report of an epoch are the same file.\<close>

lemma length_decimal: "10 ^ k \<le> n \<Longrightarrow> k < length (decimal n)"
proof (induction k arbitrary: n)
  case 0
  then show ?case using decimal_digits [of n] by simp
next
  case (Suc k)
  have k: "10 ^ k \<le> n div 10" using Suc.prems div_le_mono [of "10 ^ Suc k" n 10] by simp
  moreover have "(0::nat) < 10 ^ k" by simp
  ultimately have "\<not> n < 10" by (metis div_less leD)
  then show ?case using Suc.IH [OF k] by (subst decimal.simps) simp
qed

lemma credential_file_is_report_file:
  assumes "100000 \<le> epoch"
  shows "verification_credential_name epoch = epoch_artifact_name epoch"
  using assms length_decimal [of 5 "unat epoch"]
  by (simp add: verification_credential_name_def epoch_artifact_name_def decimal_padded_def word_le_nat_alt)

subsection \<open>What pruning removes\<close>

lemma on_disk_simps [simp]:
  "dd_ticks (on_disk f dd) = dd_ticks dd" "dd_epoch_files (on_disk f dd) = dd_epoch_files dd" "dd_audits (on_disk f dd) = dd_audits dd"
  "ld_disk (dd_local (on_disk f dd)) = f (ld_disk (dd_local dd))"
  by (simp_all add: on_disk_def)

lemma foldl_remove_payload:
  "bt_get (dk_payloads (foldl remove_payload_file d rs)) name =
     (if name \<in> (\<lambda>r. payload_path (sp_payload_cid r)) ` set rs then None else bt_get (dk_payloads d) name)"
  by (induction rs arbitrary: d) (auto simp: remove_payload_file_def)

lemma foldl_remove_payload_batches:
  "dk_batches (foldl remove_payload_file d rs) = dk_batches d"
  "dk_batches_dir_exists (foldl remove_payload_file d rs) = dk_batches_dir_exists d"
  by (induction rs arbitrary: d) (simp_all add: remove_payload_file_def)

lemma prune_batch_files_ok:
  assumes "\<forall>f \<in> snd ` set es. \<not> isl f"
  shows "\<exists>m. prune_batch_files cids es dd = (Inr (), on_disk (\<lambda>d. d\<lparr>dk_batches := m\<rparr>) dd)
    \<and> (\<forall>name. bt_get m name =
        (if \<exists>a. (name, Inr a) \<in> set es \<and> bs_contains cids (ct_payload_cid a) then None
         else bt_get (dk_batches (ld_disk (dd_local dd))) name))"
  using assms
proof (induction cids es dd rule: prune_batch_files.induct)
  case (1 cids dd)
  show ?case by (rule exI [of _ "dk_batches (ld_disk (dd_local dd))"]) (simp add: on_disk_def)
next
  case (3 cids name artifact entries dd)
  let ?dd = "if bs_contains cids (ct_payload_cid artifact)
      then on_disk (\<lambda>d. d\<lparr>dk_batches := bt_remove name (dk_batches d)\<rparr>) dd else dd"
  obtain m where m: "prune_batch_files cids entries ?dd = (Inr (), on_disk (\<lambda>d. d\<lparr>dk_batches := m\<rparr>) ?dd)"
    "\<forall>n. bt_get m n = (if \<exists>a. (n, Inr a) \<in> set entries \<and> bs_contains cids (ct_payload_cid a) then None
         else bt_get (dk_batches (ld_disk (dd_local ?dd))) n)"
    using 3 by auto
  show ?case by (rule exI [of _ m]) (use m in \<open>auto simp: on_disk_def\<close>)
qed simp

lemma prune_audit_files_ok:
  assumes "\<forall>f \<in> snd ` set es. \<not> isl f"
  shows "\<exists>m. prune_audit_files oldest es dd = (Inr (), dd\<lparr>dd_audits := m\<rparr>)
    \<and> (\<forall>name. bt_get m name =
        (if \<exists>a. (name, Inr a) \<in> set es \<and> aa_current_epoch a < oldest then None else bt_get (dd_audits dd) name))"
  using assms
proof (induction oldest es dd rule: prune_audit_files.induct)
  case (1 oldest dd)
  show ?case by (rule exI [of _ "dd_audits dd"]) simp
next
  case (3 oldest name artifact entries dd)
  let ?dd = "if aa_current_epoch artifact < oldest then dd\<lparr>dd_audits := bt_remove name (dd_audits dd)\<rparr> else dd"
  obtain m where m: "prune_audit_files oldest entries ?dd = (Inr (), ?dd\<lparr>dd_audits := m\<rparr>)"
    "\<forall>n. bt_get m n = (if \<exists>a. (n, Inr a) \<in> set entries \<and> aa_current_epoch a < oldest then None else bt_get (dd_audits ?dd) n)"
    using 3 by auto
  show ?case by (rule exI [of _ m]) (use m in auto)
qed simp

lemma prunable_names:
  "prunable oldest ld (reward_tick_name epoch slot) \<longleftrightarrow> epoch < oldest \<and> bt_get (ld_settlements ld) epoch \<noteq> None"
  "prunable oldest ld (epoch_artifact_name epoch) \<longleftrightarrow> epoch < oldest \<and> bt_get (ld_settlements ld) epoch \<noteq> None"
  "prunable oldest ld (verification_credential_name epoch) \<longleftrightarrow> epoch < oldest \<and> bt_get (ld_settlements ld) epoch \<noteq> None"
  by (simp_all add: prunable_def artifact_names_round_trip)

lemma prune_dirs_frame:
  "dd_ticks (foldl (prune_expired_settled_epoch_artifacts_in_dir oldest) dd dirs) = dd_ticks dd"
  "dd_audits (foldl (prune_expired_settled_epoch_artifacts_in_dir oldest) dd dirs) = dd_audits dd"
  "ld_disk (dd_local (foldl (prune_expired_settled_epoch_artifacts_in_dir oldest) dd dirs)) = ld_disk (dd_local dd)"
  "ld_book (dd_local (foldl (prune_expired_settled_epoch_artifacts_in_dir oldest) dd dirs)) = ld_book (dd_local dd)"
  "ld_store (dd_local (foldl (prune_expired_settled_epoch_artifacts_in_dir oldest) dd dirs)) = ld_store (dd_local dd)"
  "ld_runtime (dd_local (foldl (prune_expired_settled_epoch_artifacts_in_dir oldest) dd dirs)) = ld_runtime (dd_local dd)"
  "ld_settlements (dd_local (foldl (prune_expired_settled_epoch_artifacts_in_dir oldest) dd dirs)) = ld_settlements (dd_local dd)"
  by (induction dirs arbitrary: dd) (simp_all add: prune_expired_settled_epoch_artifacts_in_dir_def Let_def)

definition parses :: "data_dir \<Rightarrow> bool" where
  "parses dd \<longleftrightarrow> (\<forall>f \<in> set (bt_values (dk_batches (ld_disk (dd_local dd)))). \<not> isl f)
     \<and> (\<forall>f \<in> set (bt_values (dd_audits dd)). \<not> isl f)
     \<and> (dk_batches_dir_exists (ld_disk (dd_local dd)) \<or> dk_batches (ld_disk (dd_local dd)) = bt_empty)"

definition expired_payloads :: "epoch_id \<Rightarrow> local_retention_book \<Rightarrow> stored_payload_record list" where
  "expired_payloads current book = filter (\<lambda>r. current > sp_retention_until_epoch r) (bt_values (rb_payloads book))"

text \<open>The batch artifacts left once those of the payloads \<open>cids\<close> are removed.\<close>

definition without_payloads ::
  "content_id set \<Rightarrow> (string + collect_tick_artifact) option \<Rightarrow> (string + collect_tick_artifact) option" where
  "without_payloads cids f =
     (case f of Some (Inr a) \<Rightarrow> if ct_payload_cid a \<in> cids then None else Some (Inr a) | x \<Rightarrow> x)"

lemma bs_of_list_no_entries: "bt_entries (bs_of_list xs) = [] \<longleftrightarrow> xs = []"
proof
  assume "bt_entries (bs_of_list xs) = []"
  then have "set (bt_keys (bs_of_list xs)) = {}" by (simp add: bt_keys_def)
  then show "xs = []" by (auto simp: set_bt_keys bs_contains_of_list)
qed (simp add: bs_of_list_def)

lemma prune_batch_artifacts_ok:
  assumes "parses dd"
  obtains m where
    "prune_batch_artifacts_for_payloads (bs_of_list cids) dd = (Inr (), on_disk (\<lambda>d. d\<lparr>dk_batches := m\<rparr>) dd)"
    "\<And>name. bt_get m name = without_payloads (set cids) (bt_get (dk_batches (ld_disk (dd_local dd))) name)"
proof (cases "cids = [] \<or> \<not> dk_batches_dir_exists (ld_disk (dd_local dd))")
  case True
  have "prune_batch_artifacts_for_payloads (bs_of_list cids) dd
      = (Inr (), on_disk (\<lambda>d. d\<lparr>dk_batches := dk_batches (ld_disk (dd_local dd))\<rparr>) dd)"
    using True by (auto simp: prune_batch_artifacts_for_payloads_def on_disk_def bs_of_list_no_entries)
  then show ?thesis
    using True assms by (intro that [of "dk_batches (ld_disk (dd_local dd))"])
      (auto simp: without_payloads_def parses_def split: option.splits sum.splits)
next
  case False
  have "\<forall>f \<in> snd ` set (bt_entries (dk_batches (ld_disk (dd_local dd)))). \<not> isl f"
    using assms by (simp add: parses_def bt_values_def)
  from prune_batch_files_ok [OF this, of "bs_of_list cids"] obtain m where
    m: "prune_batch_files (bs_of_list cids) (bt_entries (dk_batches (ld_disk (dd_local dd)))) dd
        = (Inr (), on_disk (\<lambda>d. d\<lparr>dk_batches := m\<rparr>) dd)"
      "\<forall>name. bt_get m name = (if \<exists>a. (name, Inr a) \<in> set (bt_entries (dk_batches (ld_disk (dd_local dd))))
          \<and> bs_contains (bs_of_list cids) (ct_payload_cid a) then None else bt_get (dk_batches (ld_disk (dd_local dd))) name)"
    by blast
  show ?thesis
    using False m by (intro that [of m]) (auto simp: prune_batch_artifacts_for_payloads_def bs_of_list_no_entries bt.ents_iff
        bs_contains_of_list without_payloads_def split: option.splits sum.splits)
qed

text \<open>The steps of a successful pruning, as one update.\<close>

lemma prune_retention_steps:
  assumes book: "ld_book (dd_local dd) = Inr book" "prune_expired current book = (removed, book')" and files: "parses dd"
  obtains m au where
    "prune_retention config current dd = (Inr \<lparr>po_current_epoch = current, po_removed_payloads = map sp_payload_cid removed\<rparr>,
       prune_expired_settled_epoch_intermediate_artifacts (activated_params (dd_local dd)) config current
         (dd\<lparr>dd_local := (dd_local dd)\<lparr>ld_book := Inr book',
            ld_disk := (foldl remove_payload_file (ld_disk (dd_local dd)) removed)\<lparr>dk_batches := m\<rparr>\<rparr>, dd_audits := au\<rparr>))"
    "\<And>name. bt_get m name = without_payloads (set (map sp_payload_cid removed)) (bt_get (dk_batches (ld_disk (dd_local dd))) name)"
proof -
  define dd1 where "dd1 = dd\<lparr>dd_local := (dd_local dd)\<lparr>ld_book := Inr book', ld_disk := foldl remove_payload_file (ld_disk (dd_local dd)) removed\<rparr>\<rparr>"
  have same: "dk_batches (ld_disk (dd_local dd1)) = dk_batches (ld_disk (dd_local dd))"
    "dk_batches_dir_exists (ld_disk (dd_local dd1)) = dk_batches_dir_exists (ld_disk (dd_local dd))"
    unfolding dd1_def by (simp_all add: foldl_remove_payload_batches)
  have "parses dd1" using files unfolding parses_def same by (simp add: dd1_def)
  from prune_batch_artifacts_ok [OF this, of "map sp_payload_cid removed"] obtain m where
    m: "prune_batch_artifacts_for_payloads (bs_of_list (map sp_payload_cid removed)) dd1
      = (Inr (), on_disk (\<lambda>d. d\<lparr>dk_batches := m\<rparr>) dd1)"
    "\<And>name. bt_get m name = without_payloads (set (map sp_payload_cid removed)) (bt_get (dk_batches (ld_disk (dd_local dd1))) name)"
    by blast
  define dd2 where "dd2 = on_disk (\<lambda>d. d\<lparr>dk_batches := m\<rparr>) dd1"
  have audits: "\<forall>f \<in> snd ` set (bt_entries (dd_audits dd2)). \<not> isl f"
    using files by (simp add: parses_def dd2_def dd1_def bt_values_def)
  obtain au where au: "prune_expired_retention_audit_artifacts (activated_params (dd_local dd2)) config current dd2 = (Inr (), dd2\<lparr>dd_audits := au\<rparr>)"
    unfolding prune_expired_retention_audit_artifacts_def using prune_audit_files_ok [OF audits] by blast
  have act: "activated_params (dd_local (dd2\<lparr>dd_audits := au\<rparr>)) = activated_params (dd_local dd)"
    by (simp add: dd2_def dd1_def activated_params_def on_disk_def)
  have "prune_retention config current dd = (Inr \<lparr>po_current_epoch = current, po_removed_payloads = map sp_payload_cid removed\<rparr>,
      prune_expired_settled_epoch_intermediate_artifacts (activated_params (dd_local dd)) config current (dd2\<lparr>dd_audits := au\<rparr>))"
    using book m(1) au act by (simp add: prune_retention_def flip: dd1_def dd2_def)
  then show ?thesis using m(2) by (intro that [of au m]) (simp_all add: dd2_def dd1_def on_disk_def foldl_remove_payload_batches)
qed

text \<open>
  Pruning removes the payloads past their retention with their files and batch artifacts, and reward ticks
  only of old epochs that are settled; it leaves the local chain alone.
\<close>

theorem pruning_spec:
  assumes book: "ld_book (dd_local dd) = Inr book" "within_quota book" and files: "parses dd"
    and run: "prune_retention config current dd = (r, dd')"
  shows "r = Inr \<lparr>po_current_epoch = current, po_removed_payloads = map sp_payload_cid (expired_payloads current book)\<rparr>"
    "\<exists>book'. ld_book (dd_local dd') = Inr book' \<and> within_quota book'
      \<and> bt_values (rb_payloads book') = filter (\<lambda>r. \<not> current > sp_retention_until_epoch r) (bt_values (rb_payloads book))"
    "bt_get (dk_payloads (ld_disk (dd_local dd'))) file =
       (if file \<in> (\<lambda>r. payload_path (sp_payload_cid r)) ` set (expired_payloads current book) then None
        else bt_get (dk_payloads (ld_disk (dd_local dd))) file)"
    "bt_get (dk_batches (ld_disk (dd_local dd'))) name =
       without_payloads (sp_payload_cid ` set (expired_payloads current book)) (bt_get (dk_batches (ld_disk (dd_local dd))) name)"
    "bt_get (dd_ticks dd') (reward_tick_name epoch slot) =
       (if epoch < oldest_epoch_to_keep (activated_params (dd_local dd)) config current
          \<and> bt_get (ld_settlements (dd_local dd)) epoch \<noteq> None then None
        else bt_get (dd_ticks dd) (reward_tick_name epoch slot))"
    "ld_store (dd_local dd') = ld_store (dd_local dd) \<and> ld_runtime (dd_local dd') = ld_runtime (dd_local dd)
       \<and> ld_settlements (dd_local dd') = ld_settlements (dd_local dd)"
proof -
  obtain removed book' where pe: "prune_expired current book = (removed, book')" by fastforce
  note spec = prune_expired_spec [OF book(2) pe]
  have removed: "removed = expired_payloads current book" using spec(2) by (simp add: expired_payloads_def)
  obtain m au where steps: "prune_retention config current dd = (Inr \<lparr>po_current_epoch = current, po_removed_payloads = map sp_payload_cid removed\<rparr>,
       prune_expired_settled_epoch_intermediate_artifacts (activated_params (dd_local dd)) config current
         (dd\<lparr>dd_local := (dd_local dd)\<lparr>ld_book := Inr book',
            ld_disk := (foldl remove_payload_file (ld_disk (dd_local dd)) removed)\<lparr>dk_batches := m\<rparr>\<rparr>, dd_audits := au\<rparr>))"
    and m: "\<And>name. bt_get m name = without_payloads (set (map sp_payload_cid removed)) (bt_get (dk_batches (ld_disk (dd_local dd))) name)"
    using prune_retention_steps [OF book(1) pe files] by blast
  show "r = Inr \<lparr>po_current_epoch = current, po_removed_payloads = map sp_payload_cid (expired_payloads current book)\<rparr>"
    using run steps removed by simp
  let ?dd3 = "dd\<lparr>dd_local := (dd_local dd)\<lparr>ld_book := Inr book',
            ld_disk := (foldl remove_payload_file (ld_disk (dd_local dd)) removed)\<lparr>dk_batches := m\<rparr>\<rparr>, dd_audits := au\<rparr>"
  have dd': "dd' = prune_expired_settled_epoch_intermediate_artifacts (activated_params (dd_local dd)) config current ?dd3"
    using run steps by simp
  note frame = prune_dirs_frame [of "oldest_epoch_to_keep (activated_params (dd_local dd)) config current" ?dd3 intermediate_dirs]
  have local: "ld_disk (dd_local dd') = (foldl remove_payload_file (ld_disk (dd_local dd)) removed)\<lparr>dk_batches := m\<rparr>"
    "ld_book (dd_local dd') = Inr book'" "ld_store (dd_local dd') = ld_store (dd_local dd)"
    "ld_runtime (dd_local dd') = ld_runtime (dd_local dd)" "ld_settlements (dd_local dd') = ld_settlements (dd_local dd)"
    unfolding dd' prune_expired_settled_epoch_intermediate_artifacts_def Let_def using frame by simp_all
  have ticks: "dd_ticks dd' = bt_retain (\<lambda>name _. \<not> prunable (oldest_epoch_to_keep (activated_params (dd_local dd)) config current)
      (dd_local dd') name) (dd_ticks dd)"
    unfolding dd' prune_expired_settled_epoch_intermediate_artifacts_def Let_def using frame(1) by simp
  have "bt_values (rb_payloads book') = filter (\<lambda>r. \<not> current > sp_retention_until_epoch r) (bt_values (rb_payloads book))"
  proof -
    have "rb_payloads book' = bt_retain (\<lambda>_ r. \<not> current > sp_retention_until_epoch r) (rb_payloads book)"
      by (rule bt_ext) (auto simp: spec(3) bt_get_retain split: option.splits)
    then show ?thesis by (simp add: bt_values_def bt_entries_retain filter_map comp_def case_prod_unfold)
  qed
  then show "\<exists>book'. ld_book (dd_local dd') = Inr book' \<and> within_quota book'
      \<and> bt_values (rb_payloads book') = filter (\<lambda>r. \<not> current > sp_retention_until_epoch r) (bt_values (rb_payloads book))"
    using spec(1) by (simp add: local)
  show "bt_get (dk_payloads (ld_disk (dd_local dd'))) file =
       (if file \<in> (\<lambda>r. payload_path (sp_payload_cid r)) ` set (expired_payloads current book) then None
        else bt_get (dk_payloads (ld_disk (dd_local dd))) file)"
    by (simp add: local foldl_remove_payload removed)
  show "bt_get (dk_batches (ld_disk (dd_local dd'))) name =
       without_payloads (sp_payload_cid ` set (expired_payloads current book)) (bt_get (dk_batches (ld_disk (dd_local dd))) name)"
    by (simp add: local m removed)
  show set4: "ld_store (dd_local dd') = ld_store (dd_local dd) \<and> ld_runtime (dd_local dd') = ld_runtime (dd_local dd)
       \<and> ld_settlements (dd_local dd') = ld_settlements (dd_local dd)"
    by (simp add: local)
  show "bt_get (dd_ticks dd') (reward_tick_name epoch slot) =
       (if epoch < oldest_epoch_to_keep (activated_params (dd_local dd)) config current
          \<and> bt_get (ld_settlements (dd_local dd)) epoch \<noteq> None then None
        else bt_get (dd_ticks dd) (reward_tick_name epoch slot))"
    by (auto simp: ticks bt_get_retain prunable_names set4 split: option.splits)
qed

subsection \<open>A pruned epoch cannot be settled\<close>

text \<open>
  The batches of an epoch go with their payloads whether the epoch is settled or not. Without batches the epoch
  cannot be settled, and automatic settlement stops at it for good.
\<close>

lemma empty_epoch_refused:
  assumes "load_batches_for_epoch (se_node env) config epoch (ld_disk ld) = Inr []"
  shows "\<exists>e. settle_local_epoch env identity config epoch h window ld = (Inl e, ld)"
proof -
  obtain r ld' where run: "settle_local_epoch env identity config epoch h window ld = (r, ld')" by fastforce
  show ?thesis
  proof (cases r)
    case (Inl e)
    then show ?thesis using run settle_local_epoch_error by blast
  next
    case (Inr artifact)
    with run obtain prep where "compute_local_epoch_preparation env identity config epoch h window ld = Inr prep"
      by (metis settle_local_epoch_Inr)
    then obtain loaded where "prepared_from env identity config epoch h window ld prep loaded" by (rule preparation_Inr)
    then show ?thesis using assms by (auto simp: prepared_from_def)
  qed
qed

lemma load_no_batches:
  assumes "\<forall>f \<in> set fs. \<exists>a. f = Inr a \<and> collect_tick_artifact.ct_epoch_id a \<noteq> epoch"
  shows "load_batch_files env nid epoch d fs = Inr []"
  using assms by (induction env nid epoch d fs rule: load_batch_files.induct) auto

theorem pruned_epoch_blocks_settlement:
  assumes book: "ld_book (dd_local dd) = Inr book" "within_quota book" and files: "parses dd"
    and run: "prune_retention config current dd = (r, dd')" and nid: "config_node_id config = Inr nid"
    and gone: "\<And>a. Inr a \<in> set (bt_values (dk_batches (ld_disk (dd_local dd)))) \<Longrightarrow> collect_tick_artifact.ct_epoch_id a = epoch
      \<Longrightarrow> ct_payload_cid a \<in> sp_payload_cid ` set (expired_payloads current book)"
  shows "\<exists>e. auto_settle_pending_epochs env identity config (epoch # rest) [] (dd_local dd')
    = (\<lparr>ao_artifacts = [], ao_error = Some (epoch, e)\<rparr>, dd_local dd')"
proof -
  let ?fs = "bt_values (dk_batches (ld_disk (dd_local dd')))"
  have "\<exists>a. f = Inr a \<and> collect_tick_artifact.ct_epoch_id a \<noteq> epoch" if "f \<in> set ?fs" for f
  proof -
    have "\<exists>name. bt_get (dk_batches (ld_disk (dd_local dd'))) name = Some f" using that unfolding bt_values_set by blast
    then obtain name where "bt_get (dk_batches (ld_disk (dd_local dd'))) name = Some f" ..
    then have f: "without_payloads (sp_payload_cid ` set (expired_payloads current book))
        (bt_get (dk_batches (ld_disk (dd_local dd))) name) = Some f"
      using pruning_spec(4) [OF book files run, of name] by simp
    then obtain g where g: "bt_get (dk_batches (ld_disk (dd_local dd))) name = Some g"
      by (cases "bt_get (dk_batches (ld_disk (dd_local dd))) name") (simp_all add: without_payloads_def)
    then have "g \<in> set (bt_values (dk_batches (ld_disk (dd_local dd))))" by (auto simp: bt_values_set)
    moreover from this have "\<not> isl g" using files unfolding parses_def by blast
    then obtain a where "g = Inr a" by (cases g) simp_all
    ultimately show ?thesis using f g gone by (auto simp: without_payloads_def split: if_splits)
  qed
  then have "load_batches_for_epoch (se_node env) config epoch (ld_disk (dd_local dd')) = Inr []"
    using nid load_no_batches [of ?fs epoch] by (simp add: load_batches_for_epoch_def)
  note refused = empty_epoch_refused [OF this]
  obtain out ld' where auto_run: "auto_settle_pending_epochs env identity config (epoch # rest) [] (dd_local dd') = (out, ld')" by fastforce
  from auto_run show ?thesis
  proof (cases rule: auto_settle_Cons)
    case (stopped e)
    then show ?thesis using auto_run by simp
  next
    case (settled h artifact ld1)
    then show ?thesis using refused [of identity h] by (metis old.sum.distinct(2) prod.inject)
  qed
qed

end
