(* ===== verification/Network_Health.thy ===== *)
theory Network_Health
  imports Storage_Audit Ingestion P2p_Socket
begin

text \<open>
  What a tick does with the attached network besides publishing and reading its inbox (\<open>src/src/node_daemon.rs\<close>):
  the probe whether the batch just published can be retrieved, the announcement of a failed storage challenge
  and the summary of the topology. \<open>daemon_network\<close> holds the methods of the trait that are called here; they
  step the network because those of the socket network receive datagrams before they answer.
\<close>

record 'n daemon_network =
  dn_backend_kind :: string
  dn_register_peer :: "node_id \<Rightarrow> 'n \<Rightarrow> (p2p_error, unit, 'n) outcome"
  dn_publish :: "node_id \<Rightarrow> p2p_message \<Rightarrow> 'n \<Rightarrow> (p2p_error, nat, 'n) outcome"
  dn_known_peers :: "'n \<Rightarrow> (p2p_error, node_id list, 'n) outcome"
  dn_subscriptions_for :: "node_id \<Rightarrow> 'n \<Rightarrow> (p2p_error, p2p_topic list, 'n) outcome"
  dn_request_payload :: "node_id \<Rightarrow> content_id \<Rightarrow> 'n \<Rightarrow> (p2p_error, payload_response, 'n) outcome"
  dn_learned_remote_peer_count :: "'n \<Rightarrow> (p2p_error, nat, 'n) outcome"
  dn_coordination_stats :: "'n \<Rightarrow> (p2p_error, p2p_coordination_stats, 'n) outcome"

definition in_memory_daemon_network :: "in_memory_p2p_network daemon_network" where
  "in_memory_daemon_network =
     \<lparr>dn_backend_kind = ''inmemory-sim'', dn_register_peer = (\<lambda>peer n. (Inr (), register_peer peer n)), dn_publish = publish,
      dn_known_peers = (\<lambda>n. (Inr (known_peers n), n)), dn_subscriptions_for = (\<lambda>peer n. (subscriptions_for peer n, n)),
      dn_request_payload = (\<lambda>peer cid n. (request_payload peer cid n, n)),
      dn_learned_remote_peer_count = (\<lambda>n. (Inr 0, n)),
      dn_coordination_stats = (\<lambda>n. (Inr default_coordination_stats, n))\<rparr>"

definition socket_daemon_network :: "socket_env \<Rightarrow> socket_p2p_network daemon_network" where
  "socket_daemon_network env =
     \<lparr>dn_backend_kind = ''socket'', dn_register_peer = socket_register_peer, dn_publish = socket_publish env,
      dn_known_peers = socket_known_peers env, dn_subscriptions_for = socket_subscriptions_for env,
      dn_request_payload = socket_request_payload env, dn_learned_remote_peer_count = socket_learned_remote_peer_count env,
      dn_coordination_stats = socket_coordination_stats env\<rparr>"

definition lift_p2p :: "(p2p_error, 'a, 'n) outcome \<Rightarrow> (node_daemon_error, 'a, 'n) outcome" where
  "lift_p2p r = map_prod (map_sum (\<lambda>e. DaemonIo (p2p_error_text e)) id) id r"

subsection \<open>Retrieval\<close>

definition attached_network_retrieval_health ::
  "'n daemon_network \<Rightarrow> node_id \<Rightarrow> assembled_batch \<Rightarrow> 'n \<Rightarrow> (bool \<times> string option) \<times> 'n" where
  "attached_network_retrieval_health ops local_node_id b n =
     (let (peers, n) = dn_known_peers ops n;
          known = (case peers of Inl _ \<Rightarrow> [] | Inr ps \<Rightarrow> ps)
      in case List.find (\<lambda>peer. peer \<noteq> local_node_id) known of
           None \<Rightarrow> ((False, Some ''no remote retrieval peer available''), n)
         | Some requester \<Rightarrow>
             (case dn_request_payload ops requester (ab_payload_cid b) n of
                (Inl e, n) \<Rightarrow> ((False, Some (p2p_error_text e)), n)
              | (Inr response, n) \<Rightarrow>
                  (if pv_payload_cid response \<noteq> ab_payload_cid b
                   then (False, Some ''retrieved payload cid did not match published payload'')
                   else if pv_payload_hash response \<noteq> ab_payload_hash b
                   then (False, Some ''retrieved payload hash did not match published payload'')
                   else if pv_payload_bytes response \<noteq> ab_payload_bytes b
                   then (False, Some ''retrieved payload bytes did not match published payload'')
                   else (True, None), n)))"

subsection \<open>Storage challenges\<close>

fun challenge_kind_name :: "challenge_kind \<Rightarrow> string" where
  "challenge_kind_name KBadBatch = ''BadBatch''"
| "challenge_kind_name KOmission = ''Omission''"
| "challenge_kind_name KBadAggregate = ''BadAggregate''"
| "challenge_kind_name KBadReward = ''BadReward''"
| "challenge_kind_name KBadStorage = ''BadStorage''"

definition challenge_kind_matches_name :: "string \<Rightarrow> challenge_kind \<Rightarrow> bool" where
  "challenge_kind_matches_name name kind \<longleftrightarrow> name = challenge_kind_name kind"

record p2p_challenge_activity =
  pc_recipients :: nat
  pc_kind :: challenge_kind
  pc_epoch_id :: u64
  pc_payload_cid :: "string option"

definition publish_p2p_best_effort ::
  "'n daemon_network \<Rightarrow> node_id \<Rightarrow> p2p_message \<Rightarrow> 'n \<Rightarrow> (node_daemon_error, nat, 'n) outcome" where
  "publish_p2p_best_effort ops sender message n =
     (case dn_publish ops sender message n of
        (Inr recipients, n) \<Rightarrow> (Inr recipients, n)
      | (Inl (NoSubscribers _), n) \<Rightarrow> (Inr 0, n)
      | (Inl e, n) \<Rightarrow> (Inl (DaemonIo (p2p_error_text e)), n))"

definition storage_challenge :: "epoch_id \<Rightarrow> node_id \<Rightarrow> storage_challenge_record \<Rightarrow> challenge" where
  "storage_challenge current local_node_id failed =
     \<lparr>ch_challenge_id = stable_hash32 (as_bytes (''storage-challenge:'' @ decimal (unat current) @ '':''
        @ decimal (unat (cr_epoch_id failed)) @ '':'' @ cr_payload_cid failed)),
      ch_kind = KBadStorage, ch_epoch_id = cr_epoch_id failed, ch_target_node = Some local_node_id,
      ch_challenger = repeated_byte 0x55, ch_bond = 0, ch_opened_at_height = 0, ch_deadline_height = 0,
      ch_state = ChallengeOpen,
      ch_evidence = \<lparr>ev_batch_root = None, ev_aggregate_root = None, ev_reward_root = None,
        ev_payload_cid = Some (cr_payload_cid failed), ev_merkle_proof = []\<rparr>\<rparr>"

definition publish_storage_challenge_if_needed ::
  "'n daemon_network \<Rightarrow> node_config \<Rightarrow> epoch_id \<Rightarrow> storage_challenge_artifact \<Rightarrow> 'n
    \<Rightarrow> (node_daemon_error, p2p_challenge_activity option, 'n) outcome" where
  "publish_storage_challenge_if_needed ops config current artifact n =
     (if sa_failed_payload_count artifact = 0 then (Inr None, n)
      else case List.find (\<lambda>r. \<not> challenge_passed r) (sa_records artifact) of
        None \<Rightarrow> (Inr None, n)
      | Some failed \<Rightarrow>
          try_with (map_sum DaemonConfig id (config_node_id config)) n (\<lambda>local_node_id.
          try_then (lift_p2p (dn_register_peer ops local_node_id n)) (\<lambda>_ n.
          let challenge = storage_challenge current local_node_id failed
          in try_then (publish_p2p_best_effort ops local_node_id (MsgChallenge (challenge_announcement_from_challenge challenge)) n)
               (\<lambda>recipients n.
                 (Inr (Some \<lparr>pc_recipients = recipients, pc_kind = ch_kind challenge, pc_epoch_id = ch_epoch_id challenge,
                    pc_payload_cid = ev_payload_cid (ch_evidence challenge)\<rparr>), n)))))"

subsection \<open>Topology\<close>

record attached_network_topology_summary =
  tp_transport :: string
  tp_known_peer_count :: nat
  tp_learned_remote_peer_count :: nat
  tp_batch_listener_count :: nat
  tp_receipt_listener_count :: nat
  tp_challenge_listener_count :: nat
  tp_coordination_stats :: p2p_coordination_stats

fun listener_topics ::
  "'n daemon_network \<Rightarrow> node_id list \<Rightarrow> 'n \<Rightarrow> (node_daemon_error, p2p_topic list list, 'n) outcome" where
  "listener_topics ops [] n = (Inr [], n)"
| "listener_topics ops (peer # peers) n =
     try_then (lift_p2p (dn_subscriptions_for ops peer n)) (\<lambda>topics n.
     try_then (listener_topics ops peers n) (\<lambda>rest n. (Inr (topics # rest), n)))"

definition listener_count :: "p2p_topic \<Rightarrow> p2p_topic list list \<Rightarrow> nat" where
  "listener_count topic subscriptions = length (filter (\<lambda>topics. topic \<in> set topics) subscriptions)"

definition summarize_attached_network_topology ::
  "'n daemon_network \<Rightarrow> 'n \<Rightarrow> (node_daemon_error, attached_network_topology_summary, 'n) outcome" where
  "summarize_attached_network_topology ops n =
     try_then (lift_p2p (dn_known_peers ops n)) (\<lambda>peer_ids n.
     try_then (lift_p2p (dn_learned_remote_peer_count ops n)) (\<lambda>learned n.
     try_then (lift_p2p (dn_coordination_stats ops n)) (\<lambda>stats n.
     try_then (listener_topics ops peer_ids n) (\<lambda>subscriptions n.
       (Inr \<lparr>tp_transport = dn_backend_kind ops, tp_known_peer_count = length peer_ids,
          tp_learned_remote_peer_count = learned, tp_batch_listener_count = listener_count Batches subscriptions,
          tp_receipt_listener_count = listener_count Receipts subscriptions,
          tp_challenge_listener_count = listener_count Challenges subscriptions, tp_coordination_stats = stats\<rparr>, n)))))"

subsection \<open>What the functions establish\<close>

lemma challenge_kind_names_injective: "challenge_kind_matches_name (challenge_kind_name a) b \<longleftrightarrow> a = b"
  by (cases a; cases b) (simp_all add: challenge_kind_matches_name_def)

text \<open>
  A storage challenge that some payload failed is announced, against this node and for the first failed
  payload; one that all passed is not, and leaves the network alone.
\<close>

lemma challenge_fails_iff:
  assumes "run_local_storage_challenge env config current book audit = Inr artifact"
  shows "sa_failed_payload_count artifact = 0 \<longleftrightarrow> sa_all_passed artifact"
    "sa_all_passed artifact \<longleftrightarrow> list_all challenge_passed (sa_records artifact)"
  using assms none_filtered_out [of "sa_records artifact" challenge_passed, folded list_all_iff]
  by (auto simp: run_local_storage_challenge_def Let_def simp del: diff_is_0_eq diff_is_0_eq' split: sum.splits)

theorem storage_challenge_announced:
  assumes run: "run_local_storage_challenge env config current book audit = Inr artifact"
    and nid: "config_node_id config = Inr nid" and ok: "\<And>n. \<exists>n'. dn_register_peer ops nid n = (Inr (), n')"
    and pub: "\<And>m n. \<exists>r n'. dn_publish ops nid m n = (r, n') \<and> (\<forall>e. r = Inl e \<longrightarrow> (\<exists>t. e = NoSubscribers t))"
  shows "sa_all_passed artifact \<Longrightarrow> publish_storage_challenge_if_needed ops config current artifact n = (Inr None, n)"
    "\<not> sa_all_passed artifact \<Longrightarrow> \<exists>activity n' failed. publish_storage_challenge_if_needed ops config current artifact n = (Inr (Some activity), n')
      \<and> failed \<in> set (sa_records artifact) \<and> \<not> challenge_passed failed \<and> pc_kind activity = KBadStorage
      \<and> pc_epoch_id activity = cr_epoch_id failed \<and> pc_payload_cid activity = Some (cr_payload_cid failed)"
proof -
  show "sa_all_passed artifact \<Longrightarrow> publish_storage_challenge_if_needed ops config current artifact n = (Inr None, n)"
    using challenge_fails_iff [OF run] by (simp add: publish_storage_challenge_if_needed_def)
  assume "\<not> sa_all_passed artifact"
  then have failed: "sa_failed_payload_count artifact \<noteq> 0" "\<exists>r \<in> set (sa_records artifact). \<not> challenge_passed r"
    using challenge_fails_iff [OF run] by (simp_all add: list_all_iff)
  then obtain r where r: "List.find (\<lambda>r. \<not> challenge_passed r) (sa_records artifact) = Some r"
    by (cases "List.find (\<lambda>r. \<not> challenge_passed r) (sa_records artifact)") (auto simp: find_None_iff)
  obtain n1 where n1: "dn_register_peer ops nid n = (Inr (), n1)" using ok by blast
  let ?m = "MsgChallenge (challenge_announcement_from_challenge (storage_challenge current nid r))"
  obtain q n2 where n2: "dn_publish ops nid ?m n1 = (q, n2)" "\<forall>e. q = Inl e \<longrightarrow> (\<exists>t. e = NoSubscribers t)" using pub by blast
  have "\<exists>k. publish_p2p_best_effort ops nid ?m n1 = (Inr k, n2)"
    using n2 by (cases q) (auto simp: publish_p2p_best_effort_def)
  then obtain k where k: "publish_p2p_best_effort ops nid ?m n1 = (Inr k, n2)" ..
  have "r \<in> set (sa_records artifact)" "\<not> challenge_passed r" using r by (auto simp: find_Some_iff)
  then show "\<exists>activity n' failed. publish_storage_challenge_if_needed ops config current artifact n = (Inr (Some activity), n')
      \<and> failed \<in> set (sa_records artifact) \<and> \<not> challenge_passed failed \<and> pc_kind activity = KBadStorage
      \<and> pc_epoch_id activity = cr_epoch_id failed \<and> pc_payload_cid activity = Some (cr_payload_cid failed)"
    using failed(1) r nid n1 k
    by (simp add: publish_storage_challenge_if_needed_def lift_p2p_def Let_def) (auto simp: storage_challenge_def)
qed

text \<open>
  On the socket network the probe never leaves the node: whoever is asked, the answer comes from the table the
  node itself filled when it published. It therefore succeeds as soon as some other peer is known, whether any peer
  holds the payload or not.
\<close>

theorem socket_probe_is_local:
  assumes quiet: "se_events env = []" and peer: "peer \<noteq> so_local_peer_id s" "bt_get (so_remote_peers s) peer \<noteq> None"
    "bs_contains (so_configured_remote_peer_ids s) peer"
    and own: "bt_get (so_payloads s) (ab_payload_cid b) = Some \<lparr>pv_provider = so_local_peer_id s,
      pv_payload_cid = ab_payload_cid b, pv_payload_hash = ab_payload_hash b, pv_payload_bytes = ab_payload_bytes b\<rparr>"
  shows "fst (attached_network_retrieval_health (socket_daemon_network env) (so_local_peer_id s) b s) = (True, None)"
proof -
  let ?s = "prune_stale_remote_peers (se_now env) s"
  have kept: "so_local_peer_id ?s = so_local_peer_id s" "so_payloads ?s = so_payloads s" by (simp_all add: prune_stale_remote_peers_def)
  have pump: "pump_incoming env t = (Inr (), t)" for t by (simp add: pump_incoming_def quiet)
  have "peer \<in> set (bt_keys (so_remote_peers ?s))"
    using peer by (auto simp: prune_stale_remote_peers_def bt_keys_set bt_get_retain)
  then obtain q where q: "List.find (\<lambda>q. q \<noteq> so_local_peer_id s) (sort (so_local_peer_id s # bt_keys (so_remote_peers ?s))) = Some q"
    using peer(1) by (cases "List.find (\<lambda>q. q \<noteq> so_local_peer_id s) (sort (so_local_peer_id s # bt_keys (so_remote_peers ?s)))")
      (auto simp: find_None_iff set_insort_key)
  then have "q \<noteq> so_local_peer_id s" "q \<in> set (sort (so_local_peer_id s # bt_keys (so_remote_peers ?s)))"
    by (auto simp: find_Some_iff simp del: set_sort)
  then have "bt_get (so_remote_peers ?s) q \<noteq> None" by (simp add: bt_keys_set set_insort_key)
  then show ?thesis
    using q own unfolding attached_network_retrieval_health_def
    by (auto simp: Let_def socket_daemon_network_def socket_known_peers_def pump kept socket_request_payload_def ok_or_def)
qed

end
