(* ===== verification/Daemon_Tick.thy ===== *)
theory Daemon_Tick
  imports Play_Proofs Pruning Network_Health
begin

text \<open>
  One tick of the node (\<open>run_collect_tick_with_client_inner\<close> of \<open>src/src/node_daemon.rs\<close>) as the composition of
  the components: collect samples, account the reward tick, publish and store the batch, read the inbox, build
  the artifacts of the epoch, prove play, advance the cursor, settle, audit, challenge, prune and write the heartbeat.
  \<open>tick_env\<close> holds what the tick asks the operating system and the network for. The result is \<open>None\<close> where a
  component panics, and an error together with the state that was already written where one fails. Writing a
  file is taken to succeed, the intermediate artifacts of an epoch are returned and not stored, and terminal output is
  left out.
\<close>

subsection \<open>State\<close>

record p2p_challenge_history_entry =
  he_kind :: string
  he_epoch_id :: u64
  he_payload_cid :: "string option"
  he_recipients :: nat
  he_recorded_at_millis :: u64

text \<open>
  The heartbeat file. The fields on the last challenge, the topology, the audit and the storage challenge are each
  kept as the value they are copied from.
\<close>

record node_heartbeat =
  nh_tick_epoch_id :: u64
  nh_tick_slot_id :: u64
  nh_ticks_completed :: u64
  nh_last_payload_cid :: string
  nh_updated_at_millis :: u64
  nh_batch_recipients :: "nat option"
  nh_receipt_recipients :: "nat option"
  nh_retrieval_ok :: "bool option"
  nh_retrieval_error :: "string option"
  nh_topology :: "attached_network_topology_summary option"
  nh_challenge :: "p2p_challenge_activity option"
  nh_challenge_events_total :: "u64 option"
  nh_challenge_events_of :: "challenge_kind \<Rightarrow> u64 option"
  nh_challenge_delivered_total :: "u64 option"
  nh_challenge_zero_recipient_total :: "u64 option"
  nh_challenge_history :: "p2p_challenge_history_entry list"
  nh_retention_audit :: retention_audit_artifact
  nh_storage_challenge :: "storage_challenge_artifact option"
  nh_storage_challenge_error :: "node_storage_audit_error option"
  nh_pending_epoch_count :: nat
  nh_settled_epoch :: "u64 option"
  nh_reward_claimed :: "bool option"
  nh_settlement_error :: "(epoch_id \<times> node_settlement_error) option"

record ('n, 'h) node_state =
  ns_dir :: data_dir
  ns_heartbeats :: "(string, play_heartbeat list option) btree_map"
  ns_health :: "string + activity_source_health_state"
  ns_adjustments :: "string + reward_adjustment_index_entry list"
  ns_progress :: local_node_progress
  ns_saved_progress :: "local_node_progress option"
  ns_node_heartbeat :: "node_heartbeat option"
  ns_network :: "'n option"
  ns_client :: 'h

record ('n, 'h) tick_env =
  te_settlement :: settlement_env
  te_collector :: "'h collector_env"
  te_runtime_ops :: "'n network_operations"
  te_inbox_ops :: "'n inbox_operations"
  te_network_ops :: "'n daemon_network"
  te_identity :: "node_config_error + key_pair"
  te_infer :: game_lookup
  te_active_processes :: "string list"
  te_foreground_process :: "string option"
  te_main_menu :: "string \<Rightarrow> bool"
  te_observed_at :: "string + unix_millis"
  te_signed_at :: unix_millis
  te_updated_at :: unix_millis

type_synonym ('n, 'h, 'a) tick_step =
  "('n, 'h) node_state \<Rightarrow> (node_daemon_error, 'a, ('n, 'h) node_state) outcome option"

definition then_tick ::
  "('e, 'a, 's) outcome option \<Rightarrow> ('a \<Rightarrow> 's \<Rightarrow> ('e, 'b, 's) outcome option) \<Rightarrow> ('e, 'b, 's) outcome option" where
  "then_tick r k = (case r of None \<Rightarrow> None | Some (Inl e, s) \<Rightarrow> Some (Inl e, s) | Some (Inr x, s) \<Rightarrow> k x s)"

definition ns_local :: "('n, 'h) node_state \<Rightarrow> local_data" where
  "ns_local s = dd_local (ns_dir s)"

definition with_local :: "(local_data \<Rightarrow> local_data) \<Rightarrow> ('n, 'h) node_state \<Rightarrow> ('n, 'h) node_state" where
  "with_local f s = s\<lparr>ns_dir := (ns_dir s)\<lparr>dd_local := f (ns_local s)\<rparr>\<rparr>"

definition ns_activated :: "('n, 'h) node_state \<Rightarrow> protocol_params option" where
  "ns_activated s = activated_params (ns_local s)"

text \<open>The reward ticks as \<open>load_player_reward_ticks_for_epoch\<close> reads them back.\<close>

definition write_ticks :: "(string, player_reward_tick_artifact) btree_map \<Rightarrow> ('n, 'h) node_state \<Rightarrow> ('n, 'h) node_state" where
  "write_ticks ticks s =
     with_local (\<lambda>ld. ld\<lparr>ld_ticks := Inr (map normalize_tick_artifact (bt_values ticks))\<rparr>) (s\<lparr>ns_dir := (ns_dir s)\<lparr>dd_ticks := ticks\<rparr>\<rparr>)"

subsection \<open>Collecting\<close>

record tick_collection_context =
  tx_samples :: "activity_sample list"
  tx_failed_sources :: "string list"
  tx_cross_validated_samples :: nat
  tx_tick :: player_reward_tick_artifact
  tx_active_processes :: "string list"

definition reward_context_of :: "u64 \<Rightarrow> amount \<Rightarrow> u64 \<Rightarrow> local_node_progress \<Rightarrow> reward_tick_context" where
  "reward_context_of interval fixed period p =
     \<lparr>cx_epoch_id = np_next_epoch_id p, cx_slot_id = np_next_slot_id p, cx_session_id = [],
      cx_sampled_interval_secs = interval, cx_fixed_block_reward = fixed, cx_fixed_player_reward = fixed,
      cx_reward_adjustment_period_index = period, cx_adjustment_cycle_index = period,
      cx_fixed_block_reward_basis_period_index = np_current_fixed_block_reward_basis_period_index p,
      cx_fixed_player_reward_basis_cycle_index = np_current_fixed_block_reward_basis_period_index p,
      cx_fixed_block_reward_basis_network_weight_units = np_current_fixed_block_reward_basis_network_weight_units p,
      cx_fixed_player_reward_basis_total_network_weight_units = np_current_fixed_block_reward_basis_network_weight_units p\<rparr>"

definition collect_tick_context :: "('n, 'h) tick_env \<Rightarrow> node_config \<Rightarrow> ('n, 'h, tick_collection_context) tick_step" where
  "collect_tick_context env config s =
     (case ns_health s of Inl e \<Rightarrow> Some (Inl (DaemonJson e), s) | Inr health \<Rightarrow>
      case te_observed_at env of Inl e \<Rightarrow> Some (Inl (DaemonIo e), s) | Inr now \<Rightarrow>
      case collect_activity_samples (te_collector env) config now health (ns_client s) of
        (Inl e, _, client) \<Rightarrow> Some (Inl e, s\<lparr>ns_client := client\<rparr>)
      | (Inr report, health', client) \<Rightarrow>
        let s = s\<lparr>ns_client := client, ns_health := Inr health'\<rparr>;
            activated = ns_activated s; active = te_active_processes env;
            interval = max (effective_collect_interval_secs config active) 1;
            period = reward_adjustment_period_index (rc_reward_adjustment_period_blocks (nc_reward config)) (ns_progress s)
        in case current_fixed_block_reward activated config period (ns_progress s) of None \<Rightarrow> None | Some (fixed, p) \<Rightarrow>
           case ns_adjustments s of Inl e \<Rightarrow> Some (Inl (DaemonJson e), s\<lparr>ns_progress := p\<rparr>) | Inr index \<Rightarrow>
           let s = s\<lparr>ns_adjustments := Inr (snd (persist_adjustment_cycle_artifact activated config p index))\<rparr>
           in map_option (\<lambda>tick.
                (Inr \<lparr>tx_samples = ar_samples report, tx_failed_sources = ar_failed_sources report,
                   tx_cross_validated_samples = ar_cross_validated_samples report, tx_tick = tc_artifact tick,
                   tx_active_processes = active\<rparr>,
                 write_ticks (bt_insert (reward_tick_name (np_next_epoch_id p) (np_next_slot_id p)) (tc_artifact tick) (dd_ticks (ns_dir s)))
                   (s\<lparr>ns_progress := p\<lparr>np_pending_reward_block := tc_pending_state tick\<rparr>\<rparr>)))
              (record_player_reward_tick activated (te_infer env) (load_play_sessions (ld_disk (ns_local s))) config
                (reward_context_of interval fixed period p) (np_pending_reward_block p) (te_foreground_process env) active
                (ar_samples report)))"

definition observed_players_by_app :: "activity_sample list \<Rightarrow> (app_id, u64) btree_map" where
  "observed_players_by_app samples =
     foldl (\<lambda>observed sample. bt_insert (as_app_id sample)
         (max (bt_or_default observed (as_app_id sample) 0) (as_observed_players sample)) observed) bt_empty samples"

text \<open>Assembling, storing and publishing the batch. The retention book is kept in the runtime and not yet saved.\<close>

definition tick_batch ::
  "('n, 'h) tick_env \<Rightarrow> node_config \<Rightarrow> local_retention_book \<Rightarrow> activity_sample list
    \<Rightarrow> ('n, 'h, local_node_runtime \<times> collect_and_store_outcome) tick_step" where
  "tick_batch env config book samples s =
     (let runtime = \<lparr>ln_config = config, ln_retention_book = book\<rparr>; p = ns_progress s;
          node_environment = se_node (te_settlement env); k = identity_option (te_identity env)
      in Some (case ns_network s of
           Some n \<Rightarrow>
             try_with (map_sum DaemonConfig id (config_node_id config)) s (\<lambda>nid.
             case lift_p2p (dn_register_peer (te_network_ops env) nid n) of
               (Inl e, n) \<Rightarrow> (Inl e, s\<lparr>ns_network := Some n\<rparr>)
             | (Inr _, n) \<Rightarrow>
               (case collect_store_and_publish_samples node_environment (te_runtime_ops env) k (ns_activated s)
                    (np_next_epoch_id p) (np_next_slot_id p) samples (runtime, n) of
                  (r, runtime, n) \<Rightarrow> (map_sum DaemonRuntime (Pair runtime) r, s\<lparr>ns_network := Some n\<rparr>)))
         | None \<Rightarrow>
             (case collect_and_store_samples node_environment k (ns_activated s)
                  (np_next_epoch_id p) (np_next_slot_id p) samples runtime of
                (r, runtime) \<Rightarrow> (map_sum DaemonRuntime (Pair runtime) r, s))))"

definition tick_inbox ::
  "('n, 'h) tick_env \<Rightarrow> node_config \<Rightarrow> local_node_runtime
    \<Rightarrow> ('n, 'h, local_node_runtime \<times> peer_batch_ingestion_outcome) tick_step" where
  "tick_inbox env config runtime s =
     Some (case ns_network s of
       None \<Rightarrow> (Inr (runtime, default_ingestion_outcome), s)
     | Some n \<Rightarrow>
         (case ingest_peer_batch_announcements (se_node (te_settlement env)) (te_inbox_ops env) (ns_activated s) config
             (identity_option (te_identity env)) runtime n (ld_disk (ns_local s)) of
            (r, i) \<Rightarrow> (map_sum id (\<lambda>_. (is_runtime i, is_outcome i)) r,
              with_local (\<lambda>ld. ld\<lparr>ld_disk := is_disk i\<rparr>) (s\<lparr>ns_network := Some (is_network i)\<rparr>))))"

subsection \<open>The artifacts of the epoch\<close>

record tick_epoch_artifacts =
  tr_aggregation :: "epoch_aggregation_artifact option"
  tr_reward :: "epoch_reward_artifact option"
  tr_verification :: "epoch_verification_report option"
  tr_commit :: "epoch_commit_artifact option"

definition if_enabled :: "bool \<Rightarrow> 'e + 'a \<Rightarrow> 'e + 'a option" where
  "if_enabled enabled r = (if enabled then map_sum id Some r else Inr None)"

definition build_tick_epoch_artifacts ::
  "settlement_env \<Rightarrow> node_config_error + key_pair \<Rightarrow> node_config \<Rightarrow> local_node_progress \<Rightarrow> local_data
    \<Rightarrow> node_daemon_error + tick_epoch_artifacts" where
  "build_tick_epoch_artifacts env identity config p ld =
     (let epoch = np_next_epoch_id p; any = inline_verify_enabled config \<or> inline_propose_enabled config
      in case if_enabled any (map_sum DaemonAggregation id (aggregate_local_epoch env config epoch ld)) of
           Inl e \<Rightarrow> Inl e | Inr aggregation \<Rightarrow>
         case (case aggregation of None \<Rightarrow> Inr 0 | Some a \<Rightarrow> map_sum DaemonAggregation id (local_aggregates_root env a)) of
           Inl e \<Rightarrow> Inl e | Inr aggregates_root \<Rightarrow>
         case if_enabled any (map_sum DaemonReward id (reward_local_epoch env identity config epoch ld)) of
           Inl e \<Rightarrow> Inl e | Inr reward \<Rightarrow>
         case (case reward of None \<Rightarrow> Inr 0
               | Some a \<Rightarrow> decode_hex_text DaemonHexLength DaemonHexCharacter (er_reward_root_hex a)) of
           Inl e \<Rightarrow> Inl e | Inr rewards_root \<Rightarrow>
         case if_enabled (inline_verify_enabled config) (map_sum DaemonVerification id
             (verify_local_epoch (se_node env) (identity_option identity) config (ld_book ld) (ld_disk ld) epoch)) of
           Inl e \<Rightarrow> Inl e | Inr report \<Rightarrow>
         case if_enabled (inline_propose_enabled config) (map_sum id snd
             (build_epoch_commit_from_local_data env identity config epoch (np_ticks_completed p + 1)
               (effective_challenge_window_blocks (activated_params ld) config) aggregates_root rewards_root ld)) of
           Inl e \<Rightarrow> Inl e | Inr commit \<Rightarrow>
         Inr \<lparr>tr_aggregation = aggregation, tr_reward = reward, tr_verification = report, tr_commit = commit\<rparr>)"

subsection \<open>Proving play and moving on\<close>

text \<open>An error of the play proofs is printed and dropped; what they wrote before it stays.\<close>

definition announce_session ::
  "'n daemon_network \<Rightarrow> node_config \<Rightarrow> epoch_id \<Rightarrow> slot_id \<Rightarrow> 'n \<Rightarrow> play_session \<Rightarrow> 'n" where
  "announce_session ops config epoch slot n session =
     (if ps_epoch_id session = epoch \<and> ps_slot_id session = slot
      then snd (dn_publish ops (case config_node_id config of Inl _ \<Rightarrow> 0 | Inr nid \<Rightarrow> nid) (MsgPlaySession session) n) else n)"

definition proofs_written ::
  "('n, 'h) tick_env \<Rightarrow> node_config \<Rightarrow> ('n, 'h) node_state \<Rightarrow> (node_daemon_error, play_heartbeat_tick_outcome, proof_files) outcome
    \<Rightarrow> ('n, 'h) node_state" where
  "proofs_written env config s out =
     (let p = ns_progress s; d = snd out;
          s = (with_local (\<lambda>ld. ld\<lparr>ld_disk := pr_disk d\<rparr>) s)\<lparr>ns_heartbeats := pr_heartbeats d\<rparr>
      in case fst out of
           Inl _ \<Rightarrow> s
         | Inr proof_outcome \<Rightarrow>
             if ho_heartbeats_saved proof_outcome > 0 \<and> ho_sessions_created proof_outcome > 0
             then s\<lparr>ns_network := map_option (\<lambda>n. foldl (announce_session (te_network_ops env) config
                (np_next_epoch_id p) (np_next_slot_id p)) n (load_play_sessions (pr_disk d))) (ns_network s)\<rparr>
             else s)"

definition tick_proofs ::
  "('n, 'h) tick_env \<Rightarrow> node_config \<Rightarrow> tick_collection_context \<Rightarrow> content_id \<Rightarrow> ('n, 'h) node_state \<Rightarrow> ('n, 'h) node_state option" where
  "tick_proofs env config cx cid s =
     map_option (proofs_written env config s)
       (record_play_heartbeats (ne_proof (se_node (te_settlement env))) (ns_activated s) (te_infer env) (te_identity env)
         (te_main_menu env) (te_signed_at env) config (np_next_epoch_id (ns_progress s)) (np_next_slot_id (ns_progress s))
         (tx_active_processes cx) (observed_players_by_app (tx_samples cx)) cid
         \<lparr>pr_disk = ld_disk (ns_local s), pr_heartbeats = ns_heartbeats s\<rparr>)"

definition tick_advance :: "node_config \<Rightarrow> ('n, 'h) node_state \<Rightarrow> ('n, 'h) node_state" where
  "tick_advance config s =
     (let p = advance (rt_slots_per_epoch (nc_runtime config)) (ns_progress s)
      in s\<lparr>ns_progress := p, ns_saved_progress := Some (normalize_adjustment_cycle_fields p)\<rparr>)"

subsection \<open>Settling, auditing and challenging\<close>

definition tick_settle ::
  "('n, 'h) tick_env \<Rightarrow> node_config \<Rightarrow> ('n, 'h) node_state \<Rightarrow> (epoch_id list \<times> auto_settlement_outcome) \<times> ('n, 'h) node_state" where
  "tick_settle env config s =
     (let pending = pending_auto_settlement_epochs config (np_next_epoch_id (ns_progress s)) (ns_local s) in
      if auto_settlement_enabled config
      then (case auto_settle_pending_epochs (te_settlement env) (te_identity env) config pending [] (ns_local s) of
              (out, ld) \<Rightarrow> ((pending, out), with_local (\<lambda>_. ld) s))
      else ((pending, \<lparr>ao_artifacts = [], ao_error = None\<rparr>), s))"

definition unresolved :: "epoch_id list \<Rightarrow> epoch_settlement_artifact list \<Rightarrow> epoch_id list" where
  "unresolved pending artifacts = filter (\<lambda>epoch. epoch \<notin> set (map sa_epoch_id artifacts)) pending"

record tick_audit =
  ta_audit :: retention_audit_artifact
  ta_challenge :: "storage_challenge_artifact option"
  ta_challenge_error :: "node_storage_audit_error option"
  ta_activity :: "p2p_challenge_activity option"

definition tick_challenge :: "('n, 'h) tick_env \<Rightarrow> node_config \<Rightarrow> ('n, 'h, tick_audit) tick_step" where
  "tick_challenge env config s =
     (let epoch = np_next_epoch_id (ns_progress s); book = ld_book (ns_local s) in
      Some (try_with (map_sum DaemonStorageAudit id (audit_local_retention epoch book (ld_disk (ns_local s)))) s (\<lambda>audit.
        let s = s\<lparr>ns_dir := (ns_dir s)\<lparr>dd_audits := bt_insert (epoch_artifact_name epoch) (Inr audit) (dd_audits (ns_dir s))\<rparr>\<rparr>
        in case run_local_storage_challenge (ne_book (se_node (te_settlement env))) config epoch book audit of
             Inl e \<Rightarrow> (Inr \<lparr>ta_audit = audit, ta_challenge = None, ta_challenge_error = Some e, ta_activity = None\<rparr>, s)
           | Inr artifact \<Rightarrow>
               (case ns_network s of
                  None \<Rightarrow> (Inr \<lparr>ta_audit = audit, ta_challenge = Some artifact, ta_challenge_error = None, ta_activity = None\<rparr>, s)
                | Some n \<Rightarrow>
                    (case publish_storage_challenge_if_needed (te_network_ops env) config epoch artifact n of
                       (r, n) \<Rightarrow> (map_sum id (\<lambda>activity. \<lparr>ta_audit = audit, ta_challenge = Some artifact,
                            ta_challenge_error = None, ta_activity = activity\<rparr>) r, s\<lparr>ns_network := Some n\<rparr>))))))"

subsection \<open>The heartbeat\<close>

definition recent_p2p_challenge_history_limit :: nat where
  "recent_p2p_challenge_history_limit = 10"

definition previous_count :: "(node_heartbeat \<Rightarrow> u64 option) \<Rightarrow> node_heartbeat option \<Rightarrow> bool \<Rightarrow> u64 option" where
  "previous_count field previous event =
     Some ((case Option.bind previous field of None \<Rightarrow> 0 | Some c \<Rightarrow> c) + (if event then 1 else 0))"

definition challenge_history ::
  "node_heartbeat option \<Rightarrow> p2p_challenge_activity option \<Rightarrow> u64 \<Rightarrow> p2p_challenge_history_entry list" where
  "challenge_history previous activity now =
     (let entries = (case previous of None \<Rightarrow> [] | Some h \<Rightarrow> nh_challenge_history h) in
      case activity of
        None \<Rightarrow> entries
      | Some a \<Rightarrow>
          let entries = entries @ [\<lparr>he_kind = challenge_kind_name (pc_kind a), he_epoch_id = pc_epoch_id a,
                he_payload_cid = pc_payload_cid a, he_recipients = pc_recipients a, he_recorded_at_millis = now\<rparr>]
          in drop (length entries - recent_p2p_challenge_history_limit) entries)"

text \<open>The probe and the summary of the topology; both are absent without a network.\<close>

definition tick_network_health ::
  "('n, 'h) tick_env \<Rightarrow> node_config \<Rightarrow> assembled_batch
    \<Rightarrow> ('n, 'h, ((bool \<times> string option) \<times> attached_network_topology_summary) option) tick_step" where
  "tick_network_health env config b s =
     Some (case ns_network s of
       None \<Rightarrow> (Inr None, s)
     | Some n \<Rightarrow>
         try_with (map_sum DaemonConfig id (config_node_id config)) s (\<lambda>nid.
         case attached_network_retrieval_health (te_network_ops env) nid b n of (health, n) \<Rightarrow>
         case summarize_attached_network_topology (te_network_ops env) n of
           (r, n) \<Rightarrow> (map_sum id (\<lambda>topology. Some (health, topology)) r, s\<lparr>ns_network := Some n\<rparr>)))"

definition heartbeat_of ::
  "node_heartbeat option \<Rightarrow> u64 \<Rightarrow> bool \<Rightarrow> local_node_progress \<Rightarrow> collect_tick_artifact \<Rightarrow> collect_and_store_outcome
    \<Rightarrow> epoch_id list \<times> auto_settlement_outcome \<Rightarrow> tick_audit
    \<Rightarrow> ((bool \<times> string option) \<times> attached_network_topology_summary) option \<Rightarrow> node_heartbeat" where
  "heartbeat_of previous now attached p artifact result settling au health =
     (let activity = ta_activity au; settlements = ao_artifacts (snd settling);
          latest = (if settlements = [] then None else Some (last settlements)) in
      \<lparr>nh_tick_epoch_id = collect_tick_artifact.ct_epoch_id artifact, nh_tick_slot_id = ct_slot_id artifact,
       nh_ticks_completed = np_ticks_completed p, nh_last_payload_cid = ct_payload_cid artifact, nh_updated_at_millis = now,
       nh_batch_recipients = (if attached then Some (cs_batch_recipients result) else None),
       nh_receipt_recipients = (if attached then Some (cs_receipt_recipients result) else None),
       nh_retrieval_ok = map_option (fst \<circ> fst) health,
       nh_retrieval_error = Option.bind health (snd \<circ> fst),
       nh_topology = map_option snd health, nh_challenge = activity,
       nh_challenge_events_total = previous_count nh_challenge_events_total previous (activity \<noteq> None),
       nh_challenge_events_of = (\<lambda>kind. previous_count (\<lambda>h. nh_challenge_events_of h kind) previous
         (map_option pc_kind activity = Some kind)),
       nh_challenge_delivered_total = previous_count nh_challenge_delivered_total previous
         (case activity of None \<Rightarrow> False | Some a \<Rightarrow> pc_recipients a > 0),
       nh_challenge_zero_recipient_total = previous_count nh_challenge_zero_recipient_total previous
         (case activity of None \<Rightarrow> False | Some a \<Rightarrow> pc_recipients a = 0),
       nh_challenge_history = challenge_history previous activity now,
       nh_retention_audit = ta_audit au, nh_storage_challenge = ta_challenge au,
       nh_storage_challenge_error = ta_challenge_error au,
       nh_pending_epoch_count = length (unresolved (fst settling) settlements),
       nh_settled_epoch = map_option sa_epoch_id latest,
       nh_reward_claimed = map_option sa_local_reward_claimed latest,
       nh_settlement_error = ao_error (snd settling)\<rparr>)"

subsection \<open>The tick\<close>

record collect_tick_result =
  ctr_progress :: local_node_progress
  ctr_artifact :: collect_tick_artifact
  ctr_outcome :: collect_and_store_outcome
  ctr_tick :: player_reward_tick_artifact
  ctr_epoch_artifacts :: tick_epoch_artifacts
  ctr_settlement_artifacts :: "epoch_settlement_artifact list"
  ctr_pending_epochs :: "epoch_id list"
  ctr_settlement_enabled :: bool
  ctr_settlement_error :: "(epoch_id \<times> node_settlement_error) option"
  ctr_audit :: tick_audit
  ctr_prune_outcome :: prune_outcome
  ctr_ingestion :: peer_batch_ingestion_outcome

text \<open>What is collected, published, stored and read, up to the artifact of the tick.\<close>

record tick_stored =
  tz_context :: tick_collection_context
  tz_outcome :: collect_and_store_outcome
  tz_ingestion :: peer_batch_ingestion_outcome
  tz_artifact :: collect_tick_artifact

definition tick_store :: "('n, 'h) tick_env \<Rightarrow> node_config \<Rightarrow> ('n, 'h, tick_stored) tick_step" where
  "tick_store env config s =
     (case ld_book (ns_local s) of Inl e \<Rightarrow> Some (Inl (DaemonStorage e), s) | Inr book \<Rightarrow>
      then_tick (collect_tick_context env config s) (\<lambda>cx s.
      then_tick (tick_batch env config book (tx_samples cx) s) (\<lambda>(runtime, result) s.
      let b = cs_assembled_batch result;
          s = with_local (\<lambda>ld. ld\<lparr>ld_disk := write_payload_file (ab_payload_cid b) (ab_payload_bytes b) (ld_disk ld)\<rparr>) s
      in then_tick (tick_inbox env config runtime s) (\<lambda>(runtime, ingestion) s.
         let p = ns_progress s;
             (artifact, d) = persist_collect_tick_artifact (se_node (te_settlement env)) (identity_option (te_identity env))
               (np_next_epoch_id p) (np_next_slot_id p) result (tx_tick cx) (ld_disk (ns_local s))
         in Some (Inr \<lparr>tz_context = cx, tz_outcome = result, tz_ingestion = ingestion, tz_artifact = artifact\<rparr>,
              with_local (\<lambda>ld. ld\<lparr>ld_book := Inr (ln_retention_book runtime), ld_disk := d\<rparr>) s)))))"

definition tick_prune :: "node_config \<Rightarrow> ('n, 'h, prune_outcome) tick_step" where
  "tick_prune config s =
     (case prune_retention config (np_next_epoch_id (ns_progress s)) (ns_dir s) of
        (r, dd) \<Rightarrow> Some (r, write_ticks (dd_ticks dd) (s\<lparr>ns_dir := dd\<rparr>)))"

text \<open>What follows once the cursor has been advanced and saved.\<close>

definition tick_close ::
  "('n, 'h) tick_env \<Rightarrow> node_config \<Rightarrow> node_heartbeat option \<Rightarrow> bool \<Rightarrow> tick_stored \<Rightarrow> tick_epoch_artifacts
    \<Rightarrow> ('n, 'h, collect_tick_result) tick_step" where
  "tick_close env config previous attached stored epoch_artifacts s =
     (let (settling, s) = tick_settle env config s in
      then_tick (tick_challenge env config s) (\<lambda>au s.
      then_tick (tick_prune config s) (\<lambda>pruned s.
      then_tick (tick_network_health env config (cs_assembled_batch (tz_outcome stored)) s) (\<lambda>health s.
        Some (Inr \<lparr>ctr_progress = ns_progress s, ctr_artifact = tz_artifact stored, ctr_outcome = tz_outcome stored,
            ctr_tick = tx_tick (tz_context stored), ctr_epoch_artifacts = epoch_artifacts,
            ctr_settlement_artifacts = ao_artifacts (snd settling), ctr_pending_epochs = fst settling,
            ctr_settlement_enabled = auto_settlement_enabled config, ctr_settlement_error = ao_error (snd settling),
            ctr_audit = au, ctr_prune_outcome = pruned, ctr_ingestion = tz_ingestion stored\<rparr>,
          s\<lparr>ns_node_heartbeat := Some (heartbeat_of previous (te_updated_at env) attached (ns_progress s)
              (tz_artifact stored) (tz_outcome stored) settling au health)\<rparr>)))))"

definition run_collect_tick :: "('n, 'h) tick_env \<Rightarrow> node_config \<Rightarrow> ('n, 'h, collect_tick_result) tick_step" where
  "run_collect_tick env config s =
     (if rt_target_app_ids (nc_runtime config) = [] then Some (Inl DaemonNoTargetApps, s)
      else
        let previous = ns_node_heartbeat s; attached = (ns_network s \<noteq> None) in
        then_tick (tick_store env config s) (\<lambda>stored s.
        case build_tick_epoch_artifacts (te_settlement env) (te_identity env) config (ns_progress s) (ns_local s) of
          Inl e \<Rightarrow> Some (Inl e, s)
        | Inr epoch_artifacts \<Rightarrow>
          (case tick_proofs env config (tz_context stored) (ab_payload_cid (cs_assembled_batch (tz_outcome stored)))
              (s\<lparr>ns_progress := account_tick (tx_tick (tz_context stored)) (ns_progress s)\<rparr>) of
             None \<Rightarrow> None
           | Some s \<Rightarrow> tick_close env config previous attached stored epoch_artifacts (tick_advance config s))))"

end
