(* ===== verification/Collect_Loop.thy ===== *)
theory Collect_Loop
  imports Daemon_Tick
begin

text \<open>
  The loop over the ticks and its summary (\<open>run_collect_loop_with_client_inner\<close>, \<open>CollectLoopSummary\<close> and
  \<open>AutoSettlementSummary\<close> of \<open>src/src/node_daemon.rs\<close>), and what a tick does to the cursor and the files. Each tick
  has its own environment; sleeping and the hints to the operating system are left out. The loop without a limit
  runs every finite number of ticks.
\<close>

subsection \<open>The loop\<close>

definition load_progress_or_default ::
  "protocol_params option \<Rightarrow> node_config \<Rightarrow> local_node_progress option \<Rightarrow> local_node_progress" where
  "load_progress_or_default activated config file =
     (case file of None \<Rightarrow> default_from_config activated config | Some p \<Rightarrow> normalize_adjustment_cycle_fields p)"

fun collect_ticks ::
  "(nat \<Rightarrow> ('n, 'h) tick_env) \<Rightarrow> node_config \<Rightarrow> nat \<Rightarrow> nat \<Rightarrow> ('n, 'h, collect_tick_result list) tick_step" where
  "collect_ticks envs config i 0 s = Some (Inr [], s)"
| "collect_ticks envs config i (Suc n) s =
     then_tick (run_collect_tick (envs i) config s) (\<lambda>result s.
     then_tick (collect_ticks envs config (Suc i) n s) (\<lambda>results s. Some (Inr (result # results), s)))"

text \<open>The limit is checked after a tick, so the loop runs at least one.\<close>

definition run_collect_loop ::
  "(nat \<Rightarrow> ('n, 'h) tick_env) \<Rightarrow> node_config \<Rightarrow> nat \<Rightarrow> ('n, 'h, collect_tick_result list) tick_step" where
  "run_collect_loop envs config limit s =
     collect_ticks envs config 0 (max limit 1)
       (s\<lparr>ns_progress := load_progress_or_default (ns_activated s) config (ns_saved_progress s)\<rparr>)"

subsection \<open>The summary\<close>

definition unresolved_auto_settlement_epochs :: "collect_tick_result \<Rightarrow> epoch_id list" where
  "unresolved_auto_settlement_epochs r =
     filter (\<lambda>epoch. \<not> bs_contains (bs_of_list (map sa_epoch_id (ctr_settlement_artifacts r))) epoch) (ctr_pending_epochs r)"

definition auto_settlement_skipped :: "collect_tick_result \<Rightarrow> bool" where
  "auto_settlement_skipped r \<longleftrightarrow> \<not> ctr_settlement_enabled r \<and> unresolved_auto_settlement_epochs r \<noteq> []"

definition pruned_payload_count :: "collect_tick_result \<Rightarrow> nat" where
  "pruned_payload_count r = length (po_removed_payloads (ctr_prune_outcome r))"

definition retention_integrity_healthy :: "collect_tick_result \<Rightarrow> bool" where
  "retention_integrity_healthy r = aa_all_retrievable (ta_audit (ctr_audit r))"

definition storage_challenge_healthy :: "collect_tick_result \<Rightarrow> bool" where
  "storage_challenge_healthy r \<longleftrightarrow>
     (case ta_challenge (ctr_audit r) of None \<Rightarrow> False | Some a \<Rightarrow> sa_all_passed a) \<and> ta_challenge_error (ctr_audit r) = None"

record auto_settlement_summary =
  as_enabled :: bool
  as_pending_epochs :: "epoch_id list"
  as_settled_epoch_count :: nat
  as_last_settlement_artifact :: "epoch_settlement_artifact option"
  as_last_error :: "(epoch_id \<times> node_settlement_error) option"

definition summary_skipped :: "auto_settlement_summary \<Rightarrow> bool" where
  "summary_skipped m \<longleftrightarrow> \<not> as_enabled m \<and> as_pending_epochs m \<noteq> []"

definition update_auto_settlement_summary :: "auto_settlement_summary \<Rightarrow> collect_tick_result \<Rightarrow> auto_settlement_summary" where
  "update_auto_settlement_summary m r =
     (let pending = foldl (\<lambda>p epoch. bs_insert epoch p) (bs_of_list (as_pending_epochs m)) (ctr_pending_epochs r);
          m = m\<lparr>as_settled_epoch_count := as_settled_epoch_count m + length (ctr_settlement_artifacts r),
                as_last_error := (case ctr_settlement_error r of None \<Rightarrow> as_last_error m | Some e \<Rightarrow> Some e)\<rparr>;
          (pending, m) = foldl (\<lambda>(pending, m) artifact. (bs_remove (sa_epoch_id artifact) pending,
              m\<lparr>as_last_settlement_artifact := Some artifact, as_last_error := None\<rparr>)) (pending, m) (ctr_settlement_artifacts r)
      in m\<lparr>as_pending_epochs := bt_keys pending\<rparr>)"

definition new_auto_settlement_summary :: "node_config \<Rightarrow> auto_settlement_summary" where
  "new_auto_settlement_summary config =
     \<lparr>as_enabled = auto_settlement_enabled config, as_pending_epochs = [], as_settled_epoch_count = 0,
      as_last_settlement_artifact = None, as_last_error = None\<rparr>"

definition summarize_auto_settlement :: "node_config \<Rightarrow> collect_tick_result list \<Rightarrow> auto_settlement_summary" where
  "summarize_auto_settlement config results = foldl update_auto_settlement_summary (new_auto_settlement_summary config) results"

record collect_loop_summary =
  ls_ticks_completed :: u64
  ls_last_result :: "collect_tick_result option"
  ls_auto_settlement :: auto_settlement_summary
  ls_total_batch_recipients :: nat
  ls_total_receipt_recipients :: nat
  ls_total_ingested_peer_batches :: nat
  ls_total_pruned_payloads :: nat
  ls_last_audit :: "retention_audit_artifact option"
  ls_last_challenge :: "storage_challenge_artifact option"
  ls_last_challenge_error :: "node_storage_audit_error option"
  ls_last_prune_epoch :: u64

definition new_loop_summary :: "node_config \<Rightarrow> collect_loop_summary" where
  "new_loop_summary config =
     \<lparr>ls_ticks_completed = 0, ls_last_result = None, ls_auto_settlement = new_auto_settlement_summary config,
      ls_total_batch_recipients = 0, ls_total_receipt_recipients = 0, ls_total_ingested_peer_batches = 0,
      ls_total_pruned_payloads = 0, ls_last_audit = None, ls_last_challenge = None, ls_last_challenge_error = None,
      ls_last_prune_epoch = 0\<rparr>"

definition record_result :: "collect_loop_summary \<Rightarrow> collect_tick_result \<Rightarrow> collect_loop_summary" where
  "record_result m r =
     m\<lparr>ls_ticks_completed := ls_ticks_completed m + 1,
       ls_total_batch_recipients := ls_total_batch_recipients m + cs_batch_recipients (ctr_outcome r),
       ls_total_receipt_recipients := ls_total_receipt_recipients m + cs_receipt_recipients (ctr_outcome r),
       ls_total_ingested_peer_batches := ls_total_ingested_peer_batches m + pi_accepted (ctr_ingestion r),
       ls_total_pruned_payloads := ls_total_pruned_payloads m + pruned_payload_count r,
       ls_last_prune_epoch := po_current_epoch (ctr_prune_outcome r),
       ls_last_audit := Some (ta_audit (ctr_audit r)),
       ls_last_challenge := (case ta_challenge (ctr_audit r) of None \<Rightarrow> ls_last_challenge m | Some a \<Rightarrow> Some a),
       ls_last_challenge_error := (case ta_challenge_error (ctr_audit r) of None \<Rightarrow> ls_last_challenge_error m | Some e \<Rightarrow> Some e),
       ls_auto_settlement := update_auto_settlement_summary (ls_auto_settlement m) r,
       ls_last_result := Some r\<rparr>"

fun summarize_ticks ::
  "(nat \<Rightarrow> ('n, 'h) tick_env) \<Rightarrow> node_config \<Rightarrow> nat \<Rightarrow> nat \<Rightarrow> collect_loop_summary \<Rightarrow> ('n, 'h, collect_loop_summary) tick_step" where
  "summarize_ticks envs config i 0 m s = Some (Inr m, s)"
| "summarize_ticks envs config i (Suc n) m s =
     then_tick (run_collect_tick (envs i) config s) (\<lambda>result. summarize_ticks envs config (Suc i) n (record_result m result))"

definition run_collect_loop_summary ::
  "(nat \<Rightarrow> ('n, 'h) tick_env) \<Rightarrow> node_config \<Rightarrow> nat \<Rightarrow> ('n, 'h, collect_loop_summary) tick_step" where
  "run_collect_loop_summary envs config limit s =
     summarize_ticks envs config 0 (max limit 1) (new_loop_summary config)
       (s\<lparr>ns_progress := load_progress_or_default (ns_activated s) config (ns_saved_progress s)\<rparr>)"

subsection \<open>The summary is that of the results\<close>

lemma then_tick_simps [simp]:
  "then_tick None k = None" "then_tick (Some (Inl e, s)) k = Some (Inl e, s)" "then_tick (Some (Inr x, s)) k = k x s"
  by (simp_all add: then_tick_def)

lemma then_tick_Inr:
  "then_tick r k = Some (Inr y, s') \<longleftrightarrow> (\<exists>x s. r = Some (Inr x, s) \<and> k x s = Some (Inr y, s'))"
  by (cases r) (auto simp: then_tick_def split: sum.splits)

definition on_results :: "('a \<Rightarrow> 'b) \<Rightarrow> ('e, 'a, 's) outcome option \<Rightarrow> ('e, 'b, 's) outcome option" where
  "on_results f r = map_option (map_prod (map_sum id f) id) r"

lemma on_results_then: "on_results f (then_tick r k) = then_tick r (\<lambda>x s. on_results f (k x s))"
  by (cases r) (auto simp: on_results_def then_tick_def split: sum.splits)

lemma then_tick_on_results: "then_tick (on_results f r) k = then_tick r (\<lambda>x. k (f x))"
  by (cases r) (auto simp: on_results_def then_tick_def split: sum.splits)

lemma summarize_ticks_foldl:
  "summarize_ticks envs config i n m s = on_results (foldl record_result m) (collect_ticks envs config i n s)"
proof (induction n arbitrary: i m s)
  case (Suc n)
  then show ?case by (simp add: on_results_then) (simp add: on_results_def then_tick_def split: option.splits sum.splits prod.splits)
qed (simp add: on_results_def)

lemma loop_settlement_summary:
  "ls_auto_settlement (foldl record_result m results) = foldl update_auto_settlement_summary (ls_auto_settlement m) results"
  by (induction results arbitrary: m) (simp_all add: record_result_def)

theorem loop_summary_agrees:
  "run_collect_loop_summary envs config limit s =
     on_results (foldl record_result (new_loop_summary config)) (run_collect_loop envs config limit s)"
  "run_collect_loop envs config limit s = Some (Inr results, s') \<Longrightarrow>
     \<exists>m. run_collect_loop_summary envs config limit s = Some (Inr m, s')
       \<and> ls_auto_settlement m = summarize_auto_settlement config results"
  by (simp_all add: run_collect_loop_summary_def run_collect_loop_def summarize_ticks_foldl on_results_def
      loop_settlement_summary summarize_auto_settlement_def new_loop_summary_def)

text \<open>
  A tick that settles one epoch and fails at the next reports no error in the summary: the error is noted
  before the settled epochs are, and each of those clears it.
\<close>

lemma settled_clears_error:
  assumes "artifacts \<noteq> []"
  shows "as_last_error (snd (foldl (\<lambda>(pending, m) artifact. (bs_remove (sa_epoch_id artifact) pending,
      m\<lparr>as_last_settlement_artifact := Some artifact, as_last_error := None\<rparr>)) (pending, m) artifacts)) = None"
  using assms by (induction artifacts arbitrary: pending m rule: rev_induct) (simp_all add: case_prod_unfold)

theorem error_after_settlement_is_forgotten:
  assumes "ctr_settlement_error r = Some e" "ctr_settlement_artifacts r \<noteq> []"
  shows "as_last_error (update_auto_settlement_summary m r) = None"
  using assms settled_clears_error [OF assms(2)]
  by (simp add: update_auto_settlement_summary_def Let_def case_prod_unfold)

end
