(* ===== verification/Tick_Laws.thy ===== *)
theory Tick_Laws
  imports Collect_Loop
begin

text \<open>
  What a tick does to the cursor and to the sessions: the cursor moves by one slot exactly when it is saved,
  an error never loses it, and a node without a network never binds a reward to a session of play.
\<close>

subsection \<open>Which steps touch the cursor\<close>

definition same_cursor :: "('n, 'h) node_state \<Rightarrow> ('n, 'h) node_state \<Rightarrow> bool" where
  "same_cursor s s' \<longleftrightarrow> np_next_epoch_id (ns_progress s') = np_next_epoch_id (ns_progress s)
     \<and> np_next_slot_id (ns_progress s') = np_next_slot_id (ns_progress s)
     \<and> np_ticks_completed (ns_progress s') = np_ticks_completed (ns_progress s)
     \<and> ns_saved_progress s' = ns_saved_progress s \<and> ns_node_heartbeat s' = ns_node_heartbeat s"

definition same_progress :: "('n, 'h) node_state \<Rightarrow> ('n, 'h) node_state \<Rightarrow> bool" where
  "same_progress s s' \<longleftrightarrow> ns_progress s' = ns_progress s \<and> ns_saved_progress s' = ns_saved_progress s
     \<and> ns_node_heartbeat s' = ns_node_heartbeat s"

lemma same_cursor_trans: "same_cursor s s1 \<Longrightarrow> same_cursor s1 s2 \<Longrightarrow> same_cursor s s2"
  by (simp add: same_cursor_def)

lemma same_progress_cursor: "same_progress s s' \<Longrightarrow> same_cursor s s'"
  by (simp add: same_progress_def same_cursor_def)

lemma same_refl [simp]: "same_cursor s s" "same_progress s s"
  by (simp_all add: same_cursor_def same_progress_def)

lemma with_local_fields [simp]:
  "ns_progress (with_local f s) = ns_progress s" "ns_saved_progress (with_local f s) = ns_saved_progress s"
  "ns_node_heartbeat (with_local f s) = ns_node_heartbeat s" "ns_network (with_local f s) = ns_network s"
  "ns_heartbeats (with_local f s) = ns_heartbeats s" "ns_local (with_local f s) = f (ns_local s)"
  by (simp_all add: with_local_def ns_local_def)

lemma ns_local_progress [simp]: "ns_local (s\<lparr>ns_progress := p\<rparr>) = ns_local s"
  by (simp add: ns_local_def)

lemma write_ticks_fields [simp]:
  "ns_progress (write_ticks t s) = ns_progress s" "ns_saved_progress (write_ticks t s) = ns_saved_progress s"
  "ns_node_heartbeat (write_ticks t s) = ns_node_heartbeat s" "ns_network (write_ticks t s) = ns_network s"
  "ld_disk (ns_local (write_ticks t s)) = ld_disk (ns_local s)"
  by (simp_all add: write_ticks_def with_local_def ns_local_def)

lemma fixed_reward_cursor:
  assumes "current_fixed_block_reward activated config period p = Some (r, p')"
  shows "np_next_epoch_id p' = np_next_epoch_id p" "np_next_slot_id p' = np_next_slot_id p"
    "np_ticks_completed p' = np_ticks_completed p"
  using assms
  by (auto simp: current_fixed_block_reward_def Let_def set_current_fixed_player_reward_def set_current_adjustment_cycle_index_def
      set_fixed_player_reward_basis_def set_previous_cycle_weight_def set_current_cycle_weight_def split: if_splits)

text \<open>The outcome of a step is related to the state it started in.\<close>

definition step_rel :: "('s \<Rightarrow> 's \<Rightarrow> bool) \<Rightarrow> 's \<Rightarrow> ('e, 'a, 's) outcome option \<Rightarrow> bool" where
  "step_rel R s out \<longleftrightarrow> (case out of None \<Rightarrow> True | Some (_, s') \<Rightarrow> R s s')"

lemma step_relD: "step_rel R s out \<Longrightarrow> out = Some (r, s') \<Longrightarrow> R s s'"
  by (simp add: step_rel_def)

lemma step_rel_mono: "step_rel Q s out \<Longrightarrow> (\<And>s'. Q s s' \<Longrightarrow> R s s') \<Longrightarrow> step_rel R s out"
  by (auto simp: step_rel_def split: option.splits)

lemma step_rel_then:
  assumes "step_rel R s out" "\<And>x s1. step_rel R s1 (k x s1)" "\<And>a b c. R a b \<Longrightarrow> R b c \<Longrightarrow> R a c"
  shows "step_rel R s (then_tick out k)"
proof (cases out)
  case (Some rs)
  obtain r s1 where rs: "rs = (r, s1)" by (cases rs)
  show ?thesis
  proof (cases r)
    case (Inr x)
    show ?thesis
    proof (cases "k x s1")
      case (Some z)
      then show ?thesis
        using assms(1) assms(2) [of s1 x] Inr \<open>out = Some rs\<close> rs assms(3) by (cases z) (auto simp: step_rel_def)
    qed (simp add: step_rel_def Some rs Inr)
  qed (use assms(1) Some rs in \<open>simp add: step_rel_def\<close>)
qed (simp add: step_rel_def)

lemma context_cursor: "step_rel same_cursor s (collect_tick_context env config s)"
  by (auto simp: collect_tick_context_def Let_def step_rel_def same_cursor_def dest: fixed_reward_cursor
      split: sum.splits option.splits prod.splits)

lemma batch_cursor: "step_rel same_progress s (tick_batch env config book samples s)"
  by (auto simp: tick_batch_def Let_def step_rel_def same_progress_def try_with_def split: option.splits sum.splits prod.splits)

lemma inbox_cursor: "step_rel same_progress s (tick_inbox env config runtime s)"
  by (auto simp: tick_inbox_def step_rel_def same_progress_def split: option.splits prod.splits)

lemma proofs_written_fields [simp]:
  "ns_progress (proofs_written env config s out) = ns_progress s"
  "ns_saved_progress (proofs_written env config s out) = ns_saved_progress s"
  "ns_node_heartbeat (proofs_written env config s out) = ns_node_heartbeat s"
  "ns_local (proofs_written env config s out) = (ns_local s)\<lparr>ld_disk := pr_disk (snd out)\<rparr>"
  "ns_network (proofs_written env config s out) = None \<longleftrightarrow> ns_network s = None"
  by (simp_all add: proofs_written_def Let_def ns_local_def with_local_def split: sum.splits)

lemma proofs_cursor: "tick_proofs env config cx cid s = Some s' \<Longrightarrow> same_progress s s'"
  by (auto simp: tick_proofs_def same_progress_def)

lemma settle_cursor: "same_progress s (snd (tick_settle env config s))"
  by (simp add: tick_settle_def Let_def same_progress_def split: prod.splits)

lemma challenge_cursor: "step_rel same_progress s (tick_challenge env config s)"
  by (auto simp: tick_challenge_def Let_def step_rel_def same_progress_def try_with_def split: option.splits sum.splits prod.splits)

lemma prune_cursor: "step_rel same_progress s (tick_prune config s)"
  by (auto simp: tick_prune_def step_rel_def same_progress_def split: prod.splits)

lemma health_cursor: "step_rel same_progress s (tick_network_health env config b s)"
  by (auto simp: tick_network_health_def step_rel_def same_progress_def try_with_def split: option.splits sum.splits prod.splits)

lemma same_progress_step: "step_rel same_progress s out \<Longrightarrow> step_rel same_cursor s out"
  by (erule step_rel_mono) (rule same_progress_cursor)

lemma step_rel_from: "step_rel R t out \<Longrightarrow> (\<And>s'. R t s' \<Longrightarrow> R s s') \<Longrightarrow> step_rel R s out"
  by (auto simp: step_rel_def split: option.splits)

lemma store_cursor: "step_rel same_cursor s (tick_store env config s)"
proof (cases "ld_book (ns_local s)")
  case (Inr book)
  show ?thesis
    unfolding tick_store_def Inr sum.case Let_def case_prod_unfold
    by (intro step_rel_then context_cursor same_progress_step [OF batch_cursor]
        step_rel_from [OF step_rel_then [OF same_progress_step [OF inbox_cursor]]])
      (auto simp: same_cursor_def step_rel_def)
qed (simp add: tick_store_def step_rel_def)

subsection \<open>The cursor of a tick\<close>

lemma then_tick_Inl:
  "then_tick r k = Some (Inl e, s') \<longleftrightarrow> r = Some (Inl e, s') \<or> (\<exists>x s. r = Some (Inr x, s) \<and> k x s = Some (Inl e, s'))"
  by (cases r) (auto simp: then_tick_def split: sum.splits)

lemma run_tick_cases:
  assumes "run_collect_tick env config s = Some (r, s')"
  obtains (untouched) e where "r = Inl e" "s' = s"
    | (store) e where "r = Inl e" "tick_store env config s = Some (Inl e, s')"
    | (artifacts) stored e where "r = Inl e" "tick_store env config s = Some (Inr stored, s')"
    | (close) stored s1 arts s2 where "tick_store env config s = Some (Inr stored, s1)"
      "tick_proofs env config (tz_context stored) (ab_payload_cid (cs_assembled_batch (tz_outcome stored)))
         (s1\<lparr>ns_progress := account_tick (tx_tick (tz_context stored)) (ns_progress s1)\<rparr>) = Some s2"
      "tick_close env config (ns_node_heartbeat s) (ns_network s \<noteq> None) stored arts (tick_advance config s2) = Some (r, s')"
proof (cases "rt_target_app_ids (nc_runtime config) = []")
  case True
  then show ?thesis using assms untouched by (auto simp: run_collect_tick_def)
next
  case targets: False
  show ?thesis
  proof (cases "tick_store env config s")
    case None
    then show ?thesis using assms targets by (simp add: run_collect_tick_def)
  next
    case (Some out)
    obtain q s1 where out: "out = (q, s1)" by (cases out)
    show ?thesis
    proof (cases q)
      case (Inl e)
      then show ?thesis using assms targets Some out store by (auto simp add: run_collect_tick_def)
    next
      case (Inr stored)
      note st = Some [unfolded out Inr]
      let ?s = "s1\<lparr>ns_progress := account_tick (tx_tick (tz_context stored)) (ns_progress s1)\<rparr>"
      let ?cid = "ab_payload_cid (cs_assembled_batch (tz_outcome stored))"
      show ?thesis
      proof (cases "build_tick_epoch_artifacts (te_settlement env) (te_identity env) config (ns_progress s1) (ns_local s1)")
        case (Inl e)
        then show ?thesis using assms targets st artifacts by (auto simp add: run_collect_tick_def)
      next
        case (Inr arts)
        then show ?thesis
          using assms targets st close by (cases "tick_proofs env config (tz_context stored) ?cid ?s") (simp_all add: run_collect_tick_def)
      qed
    qed
  qed
qed

lemma close_Inr:
  assumes "tick_close env config previous attached stored arts s = Some (Inr res, s')"
  shows "ns_progress s' = ns_progress s" "ns_saved_progress s' = ns_saved_progress s" "ctr_progress res = ns_progress s'"
    "ctr_artifact res = tz_artifact stored" "ctr_tick res = tx_tick (tz_context stored)"
    "\<exists>h. ns_node_heartbeat s' = Some h \<and> nh_tick_epoch_id h = collect_tick_artifact.ct_epoch_id (tz_artifact stored)
      \<and> nh_tick_slot_id h = ct_slot_id (tz_artifact stored) \<and> nh_ticks_completed h = np_ticks_completed (ns_progress s)"
proof -
  obtain settling s1 where se: "tick_settle env config s = (settling, s1)" by fastforce
  from assms obtain au s2 pruned s3 health s4 where
    steps: "tick_challenge env config s1 = Some (Inr au, s2)" "tick_prune config s2 = Some (Inr pruned, s3)"
      "tick_network_health env config (cs_assembled_batch (tz_outcome stored)) s3 = Some (Inr health, s4)"
    and s': "s' = s4\<lparr>ns_node_heartbeat := Some (heartbeat_of previous (te_updated_at env) attached (ns_progress s4)
              (tz_artifact stored) (tz_outcome stored) settling au health)\<rparr>"
    and res: "ctr_progress res = ns_progress s4" "ctr_artifact res = tz_artifact stored" "ctr_tick res = tx_tick (tz_context stored)"
    by (auto simp: tick_close_def se then_tick_Inr)
  have same: "ns_progress s4 = ns_progress s" "ns_saved_progress s4 = ns_saved_progress s"
    using settle_cursor [of s env config] step_relD [OF challenge_cursor steps(1)] step_relD [OF prune_cursor steps(2)]
      step_relD [OF health_cursor steps(3)] by (simp_all add: same_progress_def se)
  then show "ns_progress s' = ns_progress s" "ns_saved_progress s' = ns_saved_progress s" "ctr_progress res = ns_progress s'"
    "ctr_artifact res = tz_artifact stored" "ctr_tick res = tx_tick (tz_context stored)"
    "\<exists>h. ns_node_heartbeat s' = Some h \<and> nh_tick_epoch_id h = collect_tick_artifact.ct_epoch_id (tz_artifact stored)
      \<and> nh_tick_slot_id h = ct_slot_id (tz_artifact stored) \<and> nh_ticks_completed h = np_ticks_completed (ns_progress s)"
    using res by (simp_all add: s' heartbeat_of_def Let_def)
qed

lemma close_Inl:
  assumes "tick_close env config previous attached stored arts s = Some (Inl e, s')"
  shows "same_progress s s'"
proof -
  obtain settling s1 where se: "tick_settle env config s = (settling, s1)" by fastforce
  have s1: "same_progress s s1" using settle_cursor [of s env config] by (simp add: se)
  have trans: "same_progress a b \<Longrightarrow> same_progress b c \<Longrightarrow> same_progress a c" for a b c :: "('a, 'b) node_state"
    by (simp add: same_progress_def)
  have "same_progress s1 s'"
    using assms
    by (auto simp: tick_close_def se then_tick_Inl dest!: step_relD [OF challenge_cursor] step_relD [OF prune_cursor]
        step_relD [OF health_cursor] dest: trans)
  then show ?thesis by (rule trans [OF s1])
qed

lemma account_tick_cursor [simp]:
  "np_next_epoch_id (account_tick a p) = np_next_epoch_id p" "np_next_slot_id (account_tick a p) = np_next_slot_id p"
  "np_ticks_completed (account_tick a p) = np_ticks_completed p"
  by (simp_all add: account_tick_def Let_def set_current_cycle_weight_def)

lemma store_artifact:
  assumes "tick_store env config s = Some (Inr stored, s1)"
  shows "collect_tick_artifact.ct_epoch_id (tz_artifact stored) = np_next_epoch_id (ns_progress s)"
    "ct_slot_id (tz_artifact stored) = np_next_slot_id (ns_progress s)"
proof -
  have "collect_tick_artifact.ct_epoch_id (tz_artifact stored) = np_next_epoch_id (ns_progress s1)
      \<and> ct_slot_id (tz_artifact stored) = np_next_slot_id (ns_progress s1)"
    using assms by (auto simp: tick_store_def then_tick_Inr persist_collect_tick_artifact_def Let_def split: sum.splits)
  then show "collect_tick_artifact.ct_epoch_id (tz_artifact stored) = np_next_epoch_id (ns_progress s)"
    "ct_slot_id (tz_artifact stored) = np_next_slot_id (ns_progress s)"
    using step_relD [OF store_cursor assms] by (simp_all add: same_cursor_def)
qed

definition cursor_of :: "local_node_progress \<Rightarrow> u64 \<times> u64 \<times> u64" where
  "cursor_of p = (np_next_epoch_id p, np_next_slot_id p, np_ticks_completed p)"

definition next_cursor :: "u64 \<Rightarrow> u64 \<times> u64 \<times> u64 \<Rightarrow> u64 \<times> u64 \<times> u64" where
  "next_cursor slots c =
     (case c of (epoch, slot, ticks) \<Rightarrow> if slot \<ge> slots then (epoch + 1, 1, ticks + 1) else (epoch, slot + 1, ticks + 1))"

lemma cursor_of_advance [simp]: "cursor_of (advance slots p) = next_cursor slots (cursor_of p)"
  by (simp add: cursor_of_def next_cursor_def advance_def Let_def)

lemma same_cursor_of: "same_cursor s s' \<Longrightarrow> cursor_of (ns_progress s') = cursor_of (ns_progress s)"
  by (simp add: same_cursor_def cursor_of_def)

lemma account_cursor_of [simp]: "cursor_of (account_tick a p) = cursor_of p"
  by (simp add: cursor_of_def)

lemma proofs_cursor_of:
  assumes "tick_store env config s = Some (Inr stored, s1)"
    "tick_proofs env config cx cid (s1\<lparr>ns_progress := account_tick a (ns_progress s1)\<rparr>) = Some s2"
  shows "cursor_of (ns_progress s2) = cursor_of (ns_progress s)"
  using same_cursor_of [OF step_relD [OF store_cursor assms(1)]] proofs_cursor [OF assms(2)] by (simp add: same_progress_def)

text \<open>
  A tick that succeeds has moved the cursor by one slot and saved it, and its artifact and heartbeat
  name the slot that it was for.
\<close>

theorem tick_moves_cursor:
  assumes run: "run_collect_tick env config s = Some (Inr res, s')"
  shows "cursor_of (ns_progress s') = next_cursor (rt_slots_per_epoch (nc_runtime config)) (cursor_of (ns_progress s))"
    "ns_saved_progress s' = Some (normalize_adjustment_cycle_fields (ns_progress s'))" "ctr_progress res = ns_progress s'"
    "(collect_tick_artifact.ct_epoch_id (ctr_artifact res), ct_slot_id (ctr_artifact res))
       = (np_next_epoch_id (ns_progress s), np_next_slot_id (ns_progress s))"
    "\<exists>h. ns_node_heartbeat s' = Some h \<and> nh_tick_epoch_id h = np_next_epoch_id (ns_progress s)
       \<and> nh_tick_slot_id h = np_next_slot_id (ns_progress s) \<and> nh_ticks_completed h = np_ticks_completed (ns_progress s) + 1"
proof -
  from run obtain stored s1 arts s2 where
    st: "tick_store env config s = Some (Inr stored, s1)"
    and pr: "tick_proofs env config (tz_context stored) (ab_payload_cid (cs_assembled_batch (tz_outcome stored)))
       (s1\<lparr>ns_progress := account_tick (tx_tick (tz_context stored)) (ns_progress s1)\<rparr>) = Some s2"
    and close: "tick_close env config (ns_node_heartbeat s) (ns_network s \<noteq> None) stored arts (tick_advance config s2) = Some (Inr res, s')"
    by (cases rule: run_tick_cases) simp_all
  have cursor2: "cursor_of (ns_progress s2) = cursor_of (ns_progress s)" by (rule proofs_cursor_of [OF st pr])
  note closed = close_Inr [OF close]
  show moved: "cursor_of (ns_progress s') = next_cursor (rt_slots_per_epoch (nc_runtime config)) (cursor_of (ns_progress s))"
    using closed(1) cursor2 by (simp add: tick_advance_def Let_def)
  show "ns_saved_progress s' = Some (normalize_adjustment_cycle_fields (ns_progress s'))" "ctr_progress res = ns_progress s'"
    using closed by (simp_all add: tick_advance_def Let_def)
  show "(collect_tick_artifact.ct_epoch_id (ctr_artifact res), ct_slot_id (ctr_artifact res))
       = (np_next_epoch_id (ns_progress s), np_next_slot_id (ns_progress s))"
    using store_artifact [OF st] closed(4) by simp
  show "\<exists>h. ns_node_heartbeat s' = Some h \<and> nh_tick_epoch_id h = np_next_epoch_id (ns_progress s)
       \<and> nh_tick_slot_id h = np_next_slot_id (ns_progress s) \<and> nh_ticks_completed h = np_ticks_completed (ns_progress s) + 1"
    using closed(6) store_artifact [OF st] cursor2
    by (auto simp: tick_advance_def advance_def Let_def cursor_of_def split: if_splits)
qed

text \<open>
  A tick that fails either has not touched the saved cursor, or has saved it moved by one slot. The heartbeat
  of the previous tick stays.
\<close>

theorem failed_tick_keeps_cursor:
  assumes run: "run_collect_tick env config s = Some (Inl e, s')"
  shows "ns_node_heartbeat s' = ns_node_heartbeat s"
    "ns_saved_progress s' = ns_saved_progress s \<and> cursor_of (ns_progress s') = cursor_of (ns_progress s)
     \<or> ns_saved_progress s' = Some (normalize_adjustment_cycle_fields (ns_progress s'))
       \<and> cursor_of (ns_progress s') = next_cursor (rt_slots_per_epoch (nc_runtime config)) (cursor_of (ns_progress s))"
proof -
  have "ns_node_heartbeat s' = ns_node_heartbeat s \<and> (ns_saved_progress s' = ns_saved_progress s \<and> cursor_of (ns_progress s') = cursor_of (ns_progress s)
     \<or> ns_saved_progress s' = Some (normalize_adjustment_cycle_fields (ns_progress s'))
       \<and> cursor_of (ns_progress s') = next_cursor (rt_slots_per_epoch (nc_runtime config)) (cursor_of (ns_progress s)))"
    using run
  proof (cases rule: run_tick_cases)
    case (close stored s1 arts s2)
    have s2: "ns_node_heartbeat s2 = ns_node_heartbeat s"
      using step_relD [OF store_cursor close(1)] proofs_cursor [OF close(2)] by (simp add: same_cursor_def same_progress_def)
    show ?thesis
      using close_Inl [OF close(3)] proofs_cursor_of [OF close(1,2)] s2 by (simp add: same_progress_def tick_advance_def Let_def)
  next
    case (store e')
    then show ?thesis using step_relD [OF store_cursor] by (fastforce simp: same_cursor_def cursor_of_def)
  next
    case (artifacts stored e')
    then show ?thesis using step_relD [OF store_cursor] by (fastforce simp: same_cursor_def cursor_of_def)
  qed simp
  then show "ns_node_heartbeat s' = ns_node_heartbeat s"
    "ns_saved_progress s' = ns_saved_progress s \<and> cursor_of (ns_progress s') = cursor_of (ns_progress s)
     \<or> ns_saved_progress s' = Some (normalize_adjustment_cycle_fields (ns_progress s'))
       \<and> cursor_of (ns_progress s') = next_cursor (rt_slots_per_epoch (nc_runtime config)) (cursor_of (ns_progress s))"
    by blast+
qed

subsection \<open>Rewards without a session\<close>

text \<open>
  The reward tick looks for a session of exactly the slot it is for, before the tick records its own. The
  sessions of a node are all of earlier slots by then.
\<close>

definition cursor_before :: "u64 \<times> u64 \<Rightarrow> u64 \<times> u64 \<Rightarrow> bool" where
  "cursor_before a b \<longleftrightarrow> fst a < fst b \<or> fst a = fst b \<and> snd a < snd b"

definition sessions_behind :: "('n, 'h) node_state \<Rightarrow> bool" where
  "sessions_behind s \<longleftrightarrow> (\<forall>t \<in> set (load_play_sessions (ld_disk (ns_local s))).
     cursor_before (ps_epoch_id t, ps_slot_id t) (np_next_epoch_id (ns_progress s), np_next_slot_id (ns_progress s)))"

definition unbound :: "player_reward_tick_artifact \<Rightarrow> bool" where
  "unbound a \<longleftrightarrow> (\<forall>r \<in> set (ta_records a). br_session_id r = [])"

lemma tick_loop_unbound:
  assumes "cx_session_id (tk_context t) = []" "\<And>app. bt_get (tk_session_ids t) app = None" "\<forall>r \<in> set (tp_records p). br_session_id r = []"
  shows "\<forall>r \<in> set (tp_records (tick_loop t remaining p)). br_session_id r = []"
  using assms
proof (induction t remaining p rule: tick_loop.induct)
  case (1 t remaining p)
  let ?c = "chunk_of (tk_block_secs t) (tp_pending p) remaining"
  let ?p = "p\<lparr>tp_pending := sample_chunk t ?c (tp_pending p)\<rparr>"
  have block: "\<forall>r \<in> set (tp_records (complete_block t m ?p)). br_session_id r = []" for m
    using 1(3-5) by (auto simp: complete_block_def block_record_def Let_def)
  show ?case
    by (subst tick_loop.simps) (use 1 block in \<open>auto simp: Let_def\<close>)
qed

lemma reward_tick_unbound:
  assumes "record_player_reward_tick activated infer sessions config cx pending foreground active samples = Some tick"
    "cx_session_id cx = []" "\<forall>t \<in> set sessions. ps_epoch_id t \<noteq> cx_epoch_id cx \<or> ps_slot_id t \<noteq> cx_slot_id cx"
  shows "unbound (tc_artifact tick)"
proof -
  obtain mapping where tick: "tc_artifact tick = normalize_tick_artifact (tick_artifact activated config cx foreground active
      (tick_loop (tick_setup_of activated sessions config cx samples mapping) (max (cx_sampled_interval_secs cx) 1) (tick_start cx pending)))"
    using assms(1) by (auto simp: record_player_reward_tick_def Let_def)
  have none: "bt_get (local_session_ids_for_slot sessions (cx_epoch_id cx) (cx_slot_id cx)) app = None" for app
    using assms(3) by (auto simp: local_session_ids_spec find_None_iff)
  have "\<forall>r \<in> set (tp_records (tick_loop (tick_setup_of activated sessions config cx samples mapping)
      (max (cx_sampled_interval_secs cx) 1) (tick_start cx pending))). br_session_id r = []"
    by (rule tick_loop_unbound) (simp_all add: tick_setup_of_def assms(2) none tick_start_def Let_def)
  then show ?thesis by (auto simp: unbound_def tick normalize_tick_artifact_def tick_artifact_def normalize_block_record_def Let_def)
qed

lemma context_unbound:
  assumes "collect_tick_context env config s = Some (Inr cx, s')" "sessions_behind s"
  shows "unbound (tx_tick cx)"
proof -
  from assms(1) obtain activated fixed p interval period samples tick where
    p: "current_fixed_block_reward activated config period (ns_progress s) = Some (fixed, p)"
    and run: "record_player_reward_tick activated (te_infer env) (load_play_sessions (ld_disk (ns_local s))) config
      (reward_context_of interval fixed period p) (np_pending_reward_block p) (te_foreground_process env) (te_active_processes env)
      samples = Some tick" and cx: "tx_tick cx = tc_artifact tick"
    by (auto simp: collect_tick_context_def Let_def ns_local_def split: sum.splits option.splits prod.splits)
  have "ps_epoch_id t \<noteq> np_next_epoch_id p \<or> ps_slot_id t \<noteq> np_next_slot_id p"
    if "t \<in> set (load_play_sessions (ld_disk (ns_local s)))" for t
    using assms(2) that fixed_reward_cursor [OF p] by (fastforce simp: sessions_behind_def cursor_before_def)
  then show ?thesis
    unfolding cx by (intro reward_tick_unbound [OF run]) (simp_all add: reward_context_of_def)
qed

text \<open>Of the steps of a node without a network, only the proofs of play write sessions.\<close>

definition same_sessions :: "('n, 'h) node_state \<Rightarrow> ('n, 'h) node_state \<Rightarrow> bool" where
  "same_sessions s s' \<longleftrightarrow> (ns_network s = None \<longrightarrow> ns_network s' = None
     \<and> dk_sessions (ld_disk (ns_local s')) = dk_sessions (ld_disk (ns_local s)))"

lemma same_sessions_trans: "same_sessions s s1 \<Longrightarrow> same_sessions s1 s2 \<Longrightarrow> same_sessions s s2"
  by (simp add: same_sessions_def)

lemma context_sessions: "step_rel same_sessions s (collect_tick_context env config s)"
  by (auto simp: collect_tick_context_def Let_def step_rel_def same_sessions_def ns_local_def write_ticks_def with_local_def
      split: sum.splits option.splits prod.splits)

lemma batch_sessions: "step_rel same_sessions s (tick_batch env config book samples s)"
  by (auto simp: tick_batch_def Let_def step_rel_def same_sessions_def split: option.splits prod.splits)

lemma inbox_sessions: "step_rel same_sessions s (tick_inbox env config runtime s)"
  by (auto simp: tick_inbox_def step_rel_def same_sessions_def split: option.splits prod.splits)

lemma store_sessions: "step_rel same_sessions s (tick_store env config s)"
proof (cases "ld_book (ns_local s)")
  case (Inr book)
  show ?thesis
    unfolding tick_store_def Inr sum.case Let_def case_prod_unfold
    by (intro step_rel_then context_sessions batch_sessions step_rel_from [OF step_rel_then [OF inbox_sessions]])
      (auto simp: same_sessions_def step_rel_def write_payload_file_def persist_collect_tick_artifact_def save_batch_artifact_def Let_def)
qed (simp add: tick_store_def step_rel_def same_sessions_def)

lemma auto_settle_disk:
  assumes "auto_settle_pending_epochs env identity config epochs artifacts ld = (out, ld')"
  shows "ld_disk ld' = ld_disk ld"
  using assms
proof (induction epochs arbitrary: artifacts ld)
  case (Cons epoch rest)
  from Cons.prems show ?case
  proof (cases rule: auto_settle_Cons)
    case (settled h artifact ld1)
    then have "ld_disk ld1 = ld_disk ld" by (auto elim: settle_local_epoch_Inr)
    with Cons.IH settled show ?thesis by metis
  qed simp
qed simp

lemma settle_sessions: "same_sessions s (snd (tick_settle env config s))"
  by (auto simp: tick_settle_def Let_def same_sessions_def dest!: auto_settle_disk split: prod.splits)

lemma challenge_sessions: "step_rel same_sessions s (tick_challenge env config s)"
  by (auto simp: tick_challenge_def Let_def step_rel_def same_sessions_def try_with_def ns_local_def split: option.splits sum.splits prod.splits)

lemma foldl_remove_payload_sessions: "dk_sessions (foldl remove_payload_file d rs) = dk_sessions d"
  by (induction rs arbitrary: d) (simp_all add: remove_payload_file_def)

lemma prune_batch_files_sessions:
  "prune_batch_files cids es dd = (r, dd') \<Longrightarrow> dk_sessions (ld_disk (dd_local dd')) = dk_sessions (ld_disk (dd_local dd))"
  by (induction cids es dd rule: prune_batch_files.induct) (auto split: if_splits)

lemma prune_audit_files_local: "prune_audit_files oldest es dd = (r, dd') \<Longrightarrow> dd_local dd' = dd_local dd"
  by (induction oldest es dd rule: prune_audit_files.induct) (auto split: if_splits)

lemma prune_retention_sessions:
  assumes "prune_retention config current dd = (r, dd')"
  shows "dk_sessions (ld_disk (dd_local dd')) = dk_sessions (ld_disk (dd_local dd))"
proof (cases "ld_book (dd_local dd)")
  case (Inr book)
  obtain removed book' where pe: "prune_expired current book = (removed, book')" by fastforce
  define dd1 where "dd1 = dd\<lparr>dd_local := (dd_local dd)\<lparr>ld_book := Inr book', ld_disk := foldl remove_payload_file (ld_disk (dd_local dd)) removed\<rparr>\<rparr>"
  obtain q dd2 where b: "prune_batch_artifacts_for_payloads (bs_of_list (map sp_payload_cid removed)) dd1 = (q, dd2)" by fastforce
  obtain q' dd3 where a: "prune_expired_retention_audit_artifacts (activated_params (dd_local dd2)) config current dd2 = (q', dd3)" by fastforce
  have 1: "dk_sessions (ld_disk (dd_local dd1)) = dk_sessions (ld_disk (dd_local dd))"
    by (simp add: dd1_def foldl_remove_payload_sessions)
  have 2: "dk_sessions (ld_disk (dd_local dd2)) = dk_sessions (ld_disk (dd_local dd1))"
    using b by (auto simp: prune_batch_artifacts_for_payloads_def dest: prune_batch_files_sessions split: if_splits)
  have 3: "dd_local dd3 = dd_local dd2"
    using a by (auto simp: prune_expired_retention_audit_artifacts_def dest: prune_audit_files_local)
  have 4: "ld_disk (dd_local (prune_expired_settled_epoch_intermediate_artifacts act config current d)) = ld_disk (dd_local d)" for act d
    by (simp add: prune_expired_settled_epoch_intermediate_artifacts_def Let_def prune_dirs_frame)
  have "prune_retention config current dd = try_then (q, dd2) (\<lambda>_ dd.
      try_then (prune_expired_retention_audit_artifacts (activated_params (dd_local dd)) config current dd) (\<lambda>_ dd.
        (Inr \<lparr>po_current_epoch = current, po_removed_payloads = map sp_payload_cid removed\<rparr>,
         prune_expired_settled_epoch_intermediate_artifacts (activated_params (dd_local dd)) config current dd)))"
    using Inr pe b by (simp add: prune_retention_def flip: dd1_def)
  then show ?thesis
    using assms a 1 2 3 4 by (cases q; cases q') auto
qed (use assms in \<open>simp add: prune_retention_def\<close>)

lemma prune_sessions: "step_rel same_sessions s (tick_prune config s)"
  using prune_retention_sessions
  by (fastforce simp: tick_prune_def step_rel_def same_sessions_def write_ticks_def with_local_def ns_local_def split: prod.splits)

lemma health_sessions: "step_rel same_sessions s (tick_network_health env config b s)"
  by (auto simp: tick_network_health_def step_rel_def same_sessions_def split: option.splits prod.splits)

lemma close_sessions: "step_rel same_sessions s (tick_close env config previous attached stored arts s)"
proof -
  obtain settling s1 where se: "tick_settle env config s = (settling, s1)" by fastforce
  have s1: "same_sessions s s1" using settle_sessions [of s env config] by (simp add: se)
  show ?thesis
    unfolding tick_close_def se Let_def prod.case
    by (rule step_rel_from [of _ s1], intro step_rel_then challenge_sessions prune_sessions health_sessions)
      (use s1 in \<open>auto simp: step_rel_def same_sessions_def ns_local_def\<close>)
qed

lemma proofs_sessions:
  assumes "record_play_heartbeats env activated infer identity menu now config epoch slot active observed cid d = Some (r, d')"
    "t \<in> set (load_play_sessions (pr_disk d'))"
  shows "t \<in> set (load_play_sessions (pr_disk d)) \<or> ps_epoch_id t = epoch \<and> ps_slot_id t = slot"
proof (cases identity)
  case (Inl e)
  then show ?thesis using assms by (auto simp: record_play_heartbeats_def split: if_splits)
next
  case k: (Inr k)
  show ?thesis
  proof (cases "config_node_id config")
    case (Inl e)
    then show ?thesis using assms k by (auto simp: record_play_heartbeats_def split: if_splits)
  next
    case (Inr nid)
    then show ?thesis
      using tick_sessions [OF assms(1) [unfolded k] Inr assms(2)]
      by (auto simp: own_new_session_def heartbeat_context_of_def Let_def split: prod.splits)
  qed
qed

lemma cursor_before_next:
  assumes "unat epoch + 1 < 2 ^ 64" "cursor_before a (epoch, slot) \<or> a = (epoch, slot)"
  shows "next_cursor slots (epoch, slot, ticks) = (e, v, w) \<Longrightarrow> cursor_before a (e, v)"
proof -
  have epoch: "unat (epoch + 1) = unat epoch + 1" using assms(1) unat_add_exact [of epoch 1] by simp
  have slot: "unat (slot + 1) = unat slot + 1" if "slot < slots"
    using that unat_bound [of slots] unat_add_exact [of slot 1] by (simp add: word_less_nat_alt)
  show "next_cursor slots (epoch, slot, ticks) = (e, v, w) \<Longrightarrow> cursor_before a (e, v)"
    using assms(2) epoch slot
    by (cases a) (auto simp: next_cursor_def cursor_before_def word_less_nat_alt word_le_nat_alt not_le split: if_splits)
qed

theorem solo_tick_unbound:
  assumes run: "run_collect_tick env config s = Some (Inr res, s')" and solo: "ns_network s = None"
    and behind: "sessions_behind s" and epoch: "unat (np_next_epoch_id (ns_progress s)) + 1 < 2 ^ 64"
  shows "unbound (ctr_tick res)" "ns_network s' = None" "sessions_behind s'"
proof -
  from run obtain stored s1 arts s2 where
    st: "tick_store env config s = Some (Inr stored, s1)"
    and pr: "tick_proofs env config (tz_context stored) (ab_payload_cid (cs_assembled_batch (tz_outcome stored)))
       (s1\<lparr>ns_progress := account_tick (tx_tick (tz_context stored)) (ns_progress s1)\<rparr>) = Some s2"
    and close: "tick_close env config (ns_node_heartbeat s) (ns_network s \<noteq> None) stored arts (tick_advance config s2) = Some (Inr res, s')"
    by (cases rule: run_tick_cases) simp_all
  from st obtain cx t where "collect_tick_context env config s = Some (Inr cx, t)" "tz_context stored = cx"
    by (auto simp: tick_store_def then_tick_Inr Let_def case_prod_unfold split: sum.splits)
  then show "unbound (ctr_tick res)" using context_unbound [OF _ behind] close_Inr(5) [OF close] by simp
  have s1: "ns_network s1 = None" "dk_sessions (ld_disk (ns_local s1)) = dk_sessions (ld_disk (ns_local s))"
    using step_relD [OF store_sessions st] solo by (simp_all add: same_sessions_def)
  have s2: "ns_network s2 = None" using pr s1 by (auto simp: tick_proofs_def)
  have s': "ns_network s' = None" "dk_sessions (ld_disk (ns_local s')) = dk_sessions (ld_disk (ns_local s2))"
    using step_relD [OF close_sessions close] s2 by (simp_all add: same_sessions_def tick_advance_def Let_def ns_local_def)
  then show "ns_network s' = None" by simp
  have cursor1: "np_next_epoch_id (ns_progress s1) = np_next_epoch_id (ns_progress s)" "np_next_slot_id (ns_progress s1) = np_next_slot_id (ns_progress s)"
    using step_relD [OF store_cursor st] by (simp_all add: same_cursor_def)
  have "cursor_before (ps_epoch_id t, ps_slot_id t) (np_next_epoch_id (ns_progress s'), np_next_slot_id (ns_progress s'))"
    if t: "t \<in> set (load_play_sessions (ld_disk (ns_local s')))" for t
  proof -
    have "t \<in> set (load_play_sessions (ld_disk (ns_local s2)))" using t s'(2) by (simp add: load_play_sessions_def)
    with pr have "t \<in> set (load_play_sessions (ld_disk (ns_local s1)))
        \<or> ps_epoch_id t = np_next_epoch_id (ns_progress s) \<and> ps_slot_id t = np_next_slot_id (ns_progress s)"
      by (auto simp: tick_proofs_def cursor1 dest: proofs_sessions)
    moreover have "load_play_sessions (ld_disk (ns_local s1)) = load_play_sessions (ld_disk (ns_local s))"
      using s1(2) by (simp add: load_play_sessions_def)
    ultimately have "cursor_before (ps_epoch_id t, ps_slot_id t) (np_next_epoch_id (ns_progress s), np_next_slot_id (ns_progress s))
        \<or> (ps_epoch_id t, ps_slot_id t) = (np_next_epoch_id (ns_progress s), np_next_slot_id (ns_progress s))"
      using behind by (auto simp: sessions_behind_def)
    then show ?thesis by (rule cursor_before_next [OF epoch _ tick_moves_cursor(1) [OF run, unfolded cursor_of_def, symmetric]])
  qed
  then show "sessions_behind s'" by (simp add: sessions_behind_def)
qed

lemma next_cursor_epoch: "unat (fst (next_cursor slots c)) \<le> unat (fst c) + 1"
  by (auto simp: next_cursor_def unat_word_ariths split: prod.splits)

text \<open>However long it runs, a node without a network binds no reward to a session of play.\<close>

theorem solo_rewards_unbound:
  assumes "collect_ticks envs config i n s = Some (Inr results, s')" "ns_network s = None" "sessions_behind s"
    "unat (np_next_epoch_id (ns_progress s)) + n < 2 ^ 64"
  shows "\<forall>r \<in> set results. unbound (ctr_tick r)"
  using assms
proof (induction n arbitrary: i s results)
  case (Suc n)
  from Suc.prems(1) obtain r s1 rest where r: "run_collect_tick (envs i) config s = Some (Inr r, s1)"
    and rest: "collect_ticks envs config (Suc i) n s1 = Some (Inr rest, s')" "results = r # rest"
    by (auto simp: then_tick_Inr)
  have "unat (np_next_epoch_id (ns_progress s)) + 1 < 2 ^ 64" using Suc.prems(4) by simp
  note one = solo_tick_unbound [OF r Suc.prems(2,3) this]
  have "unat (np_next_epoch_id (ns_progress s1)) + n < 2 ^ 64"
    using tick_moves_cursor(1) [OF r] Suc.prems(4) next_cursor_epoch [of "rt_slots_per_epoch (nc_runtime config)" "cursor_of (ns_progress s)"]
    by (simp add: cursor_of_def prod_eq_iff)
  from Suc.IH [OF rest(1) one(2,3) this] one(1) rest(2) show ?case by simp
qed simp

end
