(* ===== verification/Tick_Liveness.thy ===== *)
theory Tick_Liveness
  imports Tick_Laws Node_Samples
begin

text \<open>
  A node that only collects, runs no game and is attached to no network completes its tick whenever its sources
  answer. The theorem is the guard against vacuity for the laws of \<open>Tick_Laws\<close>; a concrete node that satisfies its
  conditions is at the end.
\<close>

subsection \<open>An idle collector\<close>

definition only_collects :: "node_config \<Rightarrow> bool" where
  "only_collects config \<longleftrightarrow> \<not> cc_store (nc_capabilities config) \<and> \<not> cc_verify (nc_capabilities config)
     \<and> \<not> cc_propose (nc_capabilities config)"

definition sources_answer :: "('n, 'h) tick_env \<Rightarrow> node_config \<Rightarrow> ('n, 'h) node_state \<Rightarrow> bool" where
  "sources_answer env config s \<longleftrightarrow> (\<exists>health now report health' client. ns_health s = Inr health \<and> te_observed_at env = Inr now
     \<and> collect_activity_samples (te_collector env) config now health (ns_client s) = (Inr report, health', client)
     \<and> collectable config (ar_samples report))"

definition data_in_order :: "node_config \<Rightarrow> ('n, 'h) node_state \<Rightarrow> bool" where
  "data_in_order config s \<longleftrightarrow> ns_network s = None \<and> parses (ns_dir s) \<and> (\<exists>index. ns_adjustments s = Inr index)
     \<and> (\<exists>book. ld_book (ns_local s) = Inr book \<and> within_quota book)
     \<and> current_fixed_block_reward (ns_activated s) config
         (reward_adjustment_period_index (rc_reward_adjustment_period_blocks (nc_reward config)) (ns_progress s)) (ns_progress s) \<noteq> None"

definition idle :: "('n, 'h) tick_env \<Rightarrow> bool" where
  "idle env \<longleftrightarrow> te_active_processes env = [] \<and> te_foreground_process env = None"

lemma idle_context:
  assumes "sources_answer env config s" "data_in_order config s" "idle env"
  obtains cx s1 where "collect_tick_context env config s = Some (Inr cx, s1)" "collectable config (tx_samples cx)"
    "tx_active_processes cx = []" "ns_network s1 = None" "ld_book (ns_local s1) = ld_book (ns_local s)"
    "ld_disk (ns_local s1) = ld_disk (ns_local s)" "dd_audits (ns_dir s1) = dd_audits (ns_dir s)"
proof -
  obtain health now report health' client where src: "ns_health s = Inr health" "te_observed_at env = Inr now"
      "collect_activity_samples (te_collector env) config now health (ns_client s) = (Inr report, health', client)"
      "collectable config (ar_samples report)"
    using assms(1) by (auto simp: sources_answer_def)
  obtain index fixed p where data: "ns_network s = None" "ns_adjustments s = Inr index"
      "current_fixed_block_reward (ns_activated s) config
         (reward_adjustment_period_index (rc_reward_adjustment_period_blocks (nc_reward config)) (ns_progress s)) (ns_progress s) = Some (fixed, p)"
    using assms(2) by (auto simp: data_in_order_def)
  let ?s = "s\<lparr>ns_client := client, ns_health := Inr health', ns_adjustments := Inr (snd (persist_adjustment_cycle_artifact (ns_activated s) config p index))\<rparr>"
  have same: "ns_activated (s\<lparr>ns_client := client, ns_health := Inr health'\<rparr>) = ns_activated s" "ns_local ?s = ns_local s"
    by (simp_all add: ns_activated_def ns_local_def)
  obtain tick where tick: "record_player_reward_tick (ns_activated s) (te_infer env) (load_play_sessions (ld_disk (ns_local s))) config
      (reward_context_of (max (effective_collect_interval_secs config []) 1) fixed
        (reward_adjustment_period_index (rc_reward_adjustment_period_blocks (nc_reward config)) (ns_progress s)) p)
      (np_pending_reward_block p) None [] (ar_samples report) = Some tick"
    by (simp add: record_player_reward_tick_def select_active_game_mapping_def)
  have "collect_tick_context env config s = Some (Inr \<lparr>tx_samples = ar_samples report, tx_failed_sources = ar_failed_sources report,
      tx_cross_validated_samples = ar_cross_validated_samples report, tx_tick = tc_artifact tick, tx_active_processes = []\<rparr>,
      write_ticks (bt_insert (reward_tick_name (np_next_epoch_id p) (np_next_slot_id p)) (tc_artifact tick) (dd_ticks (ns_dir s)))
        (?s\<lparr>ns_progress := p\<lparr>np_pending_reward_block := tc_pending_state tick\<rparr>\<rparr>))"
    using src data assms(3) same tick by (simp add: collect_tick_context_def Let_def idle_def)
  then show ?thesis
    by (rule that) (use src data in \<open>simp_all add: write_ticks_def with_local_def ns_local_def\<close>)
qed

lemma collect_without_storing:
  assumes "collectable config samples" "config_node_id config = Inr nid" "\<not> cc_store (nc_capabilities config)"
  shows "\<exists>result. collect_and_store_samples env identity activated epoch slot samples \<lparr>ln_config = config, ln_retention_book = book\<rparr>
    = (Inr result, \<lparr>ln_config = config, ln_retention_book = book\<rparr>)"
  using collect_batch_total [OF assms(1,2), of env identity epoch slot] assms(2,3)
  by (auto simp: collect_and_store_samples_def store_batch_def)

lemma bt_values_insert: "set (bt_values (bt_insert k v m)) \<subseteq> insert v (set (bt_values m))"
  by (auto simp: bt_values_set split: if_splits)

lemma idle_store:
  assumes "sources_answer env config s" "data_in_order config s" "idle env" "only_collects config" "config_node_id config = Inr nid"
  obtains stored s1 book where "tick_store env config s = Some (Inr stored, s1)" "tx_active_processes (tz_context stored) = []"
    "ns_network s1 = None" "ld_book (ns_local s1) = Inr book" "within_quota book" "parses (ns_dir s1)"
proof -
  obtain cx s1 where cx: "collect_tick_context env config s = Some (Inr cx, s1)" "collectable config (tx_samples cx)"
    "tx_active_processes cx = []" "ns_network s1 = None" "ld_book (ns_local s1) = ld_book (ns_local s)"
    "ld_disk (ns_local s1) = ld_disk (ns_local s)" "dd_audits (ns_dir s1) = dd_audits (ns_dir s)"
    using idle_context [OF assms(1-3)] by blast
  obtain book where book: "ld_book (ns_local s) = Inr book" "within_quota book" and files: "parses (ns_dir s)"
    using assms(2) by (auto simp: data_in_order_def)
  have "\<exists>result. tick_batch env config book (tx_samples cx) s1 = Some (Inr (\<lparr>ln_config = config, ln_retention_book = book\<rparr>, result), s1)"
    using collect_without_storing [OF cx(2) assms(5), of "se_node (te_settlement env)" "identity_option (te_identity env)" "ns_activated s1"
        "np_next_epoch_id (ns_progress s1)" "np_next_slot_id (ns_progress s1)" book] assms(4) cx(4)
    by (auto simp: tick_batch_def Let_def only_collects_def)
  then obtain result where batch: "tick_batch env config book (tx_samples cx) s1
      = Some (Inr (\<lparr>ln_config = config, ln_retention_book = book\<rparr>, result), s1)" ..
  let ?b = "cs_assembled_batch result" and ?written = "\<lambda>ld. ld\<lparr>ld_disk := write_payload_file (ab_payload_cid (cs_assembled_batch result))
      (ab_payload_bytes (cs_assembled_batch result)) (ld_disk ld)\<rparr>"
  obtain artifact d where persist: "persist_collect_tick_artifact (se_node (te_settlement env)) (identity_option (te_identity env))
      (np_next_epoch_id (ns_progress s1)) (np_next_slot_id (ns_progress s1)) result (tx_tick cx) (ld_disk (?written (ns_local s1))) = (artifact, d)"
    by fastforce
  then have d: "\<exists>name. dk_batches d = bt_insert name (Inr artifact) (dk_batches (ld_disk (ns_local s)))" "dk_batches_dir_exists d"
    using cx(6) by (auto simp: persist_collect_tick_artifact_def save_batch_artifact_def write_payload_file_def Let_def)
  have "tick_store env config s = Some (Inr \<lparr>tz_context = cx, tz_outcome = result, tz_ingestion = default_ingestion_outcome, tz_artifact = artifact\<rparr>,
      with_local (\<lambda>ld. ld\<lparr>ld_book := Inr book, ld_disk := d\<rparr>) (with_local ?written s1))"
    using cx(1,4) book(1) batch persist by (simp add: tick_store_def Let_def tick_inbox_def)
  then show ?thesis
  proof (rule that)
    have "\<not> isl f" if "f \<in> set (bt_values (dk_batches d))" for f
      using that d(1) bt_values_insert files unfolding parses_def ns_local_def by fastforce
    then show "parses (ns_dir (with_local (\<lambda>ld. ld\<lparr>ld_book := Inr book, ld_disk := d\<rparr>) (with_local ?written s1)))"
      using d(2) cx(7) files by (simp add: parses_def with_local_def)
  qed (use cx book in simp_all)
qed

lemma idle_close:
  assumes "ns_network s = None" "ld_book (ns_local s) = Inr book" "within_quota book" "parses (ns_dir s)" "only_collects config"
  shows "\<exists>res s'. tick_close env config previous attached stored arts s = Some (Inr res, s')"
proof -
  let ?epoch = "np_next_epoch_id (ns_progress s)"
  have se: "\<exists>settling. tick_settle env config s = (settling, s)"
    using assms(5) by (simp add: tick_settle_def Let_def auto_settlement_enabled_def only_collects_def)
  obtain audit where audit: "audit_local_retention ?epoch (Inr book) (ld_disk (ns_local s)) = Inr audit"
    by (simp add: audit_local_retention_def Let_def)
  let ?s = "s\<lparr>ns_dir := (ns_dir s)\<lparr>dd_audits := bt_insert (epoch_artifact_name ?epoch) (Inr audit) (dd_audits (ns_dir s))\<rparr>\<rparr>"
  have ch: "\<exists>au. tick_challenge env config s = Some (Inr au, ?s)"
    using assms(1,2) audit
    by (cases "run_local_storage_challenge (ne_book (se_node (te_settlement env))) config ?epoch (Inr book) audit")
      (auto simp: tick_challenge_def Let_def)
  have "parses (ns_dir ?s)"
    using assms(4) bt_values_insert [of "epoch_artifact_name ?epoch" "Inr audit" "dd_audits (ns_dir s)"]
    by (auto simp: parses_def)
  moreover have "ld_book (dd_local (ns_dir ?s)) = Inr book" using assms(2) by (simp add: ns_local_def)
  moreover obtain r dd where prune: "prune_retention config ?epoch (ns_dir ?s) = (r, dd)" by fastforce
  ultimately have "\<exists>out. r = Inr out" using pruning_spec(1) [OF _ assms(3) _ prune] by blast
  then have pn: "\<exists>out s5. tick_prune config ?s = Some (Inr out, s5) \<and> ns_network s5 = None"
    using prune assms(1) by (auto simp: tick_prune_def write_ticks_def with_local_def)
  from se ch pn show ?thesis
    by (auto simp: tick_close_def tick_network_health_def)
qed

theorem idle_tick_succeeds:
  assumes "sources_answer env config s" "data_in_order config s" "idle env" "only_collects config" "config_node_id config = Inr nid"
    "rt_target_app_ids (nc_runtime config) \<noteq> []"
  shows "\<exists>res s'. run_collect_tick env config s = Some (Inr res, s')"
proof -
  obtain stored s1 book where st: "tick_store env config s = Some (Inr stored, s1)" "tx_active_processes (tz_context stored) = []"
    "ns_network s1 = None" "ld_book (ns_local s1) = Inr book" "within_quota book" "parses (ns_dir s1)"
    using idle_store [OF assms(1-5)] by blast
  have arts: "\<exists>arts. build_tick_epoch_artifacts (te_settlement env) (te_identity env) config (ns_progress s1) (ns_local s1) = Inr arts"
    using assms(4) by (simp add: build_tick_epoch_artifacts_def if_enabled_def inline_verify_enabled_def inline_propose_enabled_def only_collects_def)
  let ?s = "s1\<lparr>ns_progress := account_tick (tx_tick (tz_context stored)) (ns_progress s1)\<rparr>"
  let ?cid = "ab_payload_cid (cs_assembled_batch (tz_outcome stored))"
  obtain s2 where s2: "tick_proofs env config (tz_context stored) ?cid ?s = Some s2"
    "ns_network s2 = None" "ns_dir s2 = ns_dir s1"
    using st(2,3)
    by (simp add: tick_proofs_def record_play_heartbeats_def proofs_written_def default_heartbeat_outcome_def with_local_def ns_local_def)
  have "\<exists>res s'. tick_close env config (ns_node_heartbeat s) (ns_network s \<noteq> None) stored arts (tick_advance config s2) = Some (Inr res, s')" for arts
    using s2 st assms(4) by (intro idle_close [of _ book]) (simp_all add: tick_advance_def Let_def ns_local_def)
  then show ?thesis using arts st(1) s2(1) assms(6) by (auto simp: run_collect_tick_def Let_def)
qed

subsection \<open>A concrete node\<close>

definition sample_node_env :: node_env where
  "sample_node_env = \<lparr>encode_tx = (\<lambda>_. []), encode_params = (\<lambda>_. Inr []), verifying_key_ok = (\<lambda>_. True),
     ed25519_verify = (\<lambda>_ _ _. True), pe_sha256 = (\<lambda>_. 0), pe_hex = (\<lambda>_. []), encode_observation = (\<lambda>_. []),
     encode_observations = (\<lambda>_. []),
     ne_proof = \<lparr>encode_tx = (\<lambda>_. []), encode_params = (\<lambda>_. Inr []), verifying_key_ok = (\<lambda>_. True), ed25519_verify = (\<lambda>_ _ _. True),
       ed25519_public = (\<lambda>_. 0), ed25519_sign = (\<lambda>_ _. []), encode_session = (\<lambda>_. []), encode_heartbeat = (\<lambda>_. []),
       encode_attestation = (\<lambda>_. []), pr_addresses = re_addresses sample_reward_env\<rparr>,
     ne_book = \<lparr>hex_encode = (\<lambda>_. []), receipt_encode = (\<lambda>_ _ _ _ _ _. Inr []), book_parse = (\<lambda>_. Inl [])\<rparr>,
     encode_batch_commit = (\<lambda>_. []), encode_stored_payload = (\<lambda>_. []), encode_seed = (\<lambda>_ _ _. []),
     decode_observations = (\<lambda>_. Inr [])\<rparr>"

definition sample_settlement_env :: settlement_env where
  "sample_settlement_env = \<lparr>se_node = sample_node_env, se_aggregation = sample_aggregation_env, se_rewards = sample_reward_env,
     se_settlement_valid = (\<lambda>_. None), se_chain_credits = (\<lambda>_. bt_empty), describe_error = (\<lambda>_. [])\<rparr>"

definition sample_collector_env :: "unit collector_env" where
  "sample_collector_env = \<lparr>get_text = (\<lambda>_ h. (Inr ''body'', h)), parse_steam_envelope = (\<lambda>_. Inr (Some 1, Some 500)),
     parse_third_party_envelope = (\<lambda>_. Inl []), parse_community_envelope = (\<lambda>_. Inl [])\<rparr>"

definition sample_tick_env :: "(in_memory_p2p_network, unit) tick_env" where
  "sample_tick_env = \<lparr>te_settlement = sample_settlement_env, te_collector = sample_collector_env,
     te_runtime_ops = in_memory_operations, te_inbox_ops = in_memory_inbox, te_network_ops = in_memory_daemon_network,
     te_identity = Inl (InvalidHexLength [] 0 0), te_infer = (\<lambda>_. None), te_active_processes = [], te_foreground_process = None,
     te_main_menu = (\<lambda>_. False), te_observed_at = Inr 1000, te_signed_at = 1000, te_updated_at = 1000\<rparr>"

definition sample_node_state :: "(in_memory_p2p_network, unit) node_state" where
  "sample_node_state = \<lparr>ns_dir = \<lparr>dd_local = \<lparr>ld_disk = empty_disk, ld_book = Inr (with_quota_gb 10), ld_ticks = Inr [],
       ld_credentials = bt_empty, ld_runtime = None, ld_store = Inl NotFound, ld_settlements = bt_empty\<rparr>,
       dd_ticks = bt_empty, dd_epoch_files = bt_empty, dd_audits = bt_empty\<rparr>,
     ns_heartbeats = bt_empty, ns_health = Inr \<lparr>sh_consecutive_failures = bt_empty, sh_degraded = bt_empty\<rparr>, ns_adjustments = Inr [],
     ns_progress = default_from_config None default_node_config, ns_saved_progress = None, ns_node_heartbeat = None,
     ns_network = None, ns_client = ()\<rparr>"


lemma sample_node_id: "config_node_id default_node_config = Inr (repeated_byte 0x11)"
  by (simp add: config_node_id_def default_node_config_def decode_hex_32_hex_32)

lemma sample_fetch:
  "collect_source_with_retry sample_collector_env Steam app now (Some (current_players_url app)) None 0 () =
     (Inr (new_sample app 500 now ''body'' Steam 1000000), ())"
proof -
  have "is_trusted_source_endpoint Steam (current_players_url app)"
  proof -
    have "is_ascii_digit (last (decimal (unat app)))" and nonempty: "decimal (unat app) \<noteq> []"
      using decimal_digits [of "unat app"] last_in_set [of "decimal (unat app)"] by blast+
    then have "visible (last (decimal (unat app)))" by (simp add: visible_def is_ascii_digit_def less_eq_char_def)
    then have "trim (current_players_url app) = current_players_url app"
      using nonempty by (intro trim_visible) (simp_all add: current_players_url_def, simp add: visible_def)
    then show ?thesis by (simp add: current_players_url_def starts_with_def to_ascii_lowercase_def)
  qed
  then show ?thesis
    by (simp add: collect_source_with_retry_def collect_configured_activity_source_def fetch_steam_def sample_collector_env_def
        parse_current_players_response_def)
qed

lemma sample_targets: "rt_activity_sources (nc_runtime default_node_config) = []" "rt_target_app_ids (nc_runtime default_node_config) = [730]"
  by (simp_all add: default_node_config_def)

lemma sample_sources: "sources_answer sample_tick_env default_node_config sample_node_state"
proof -
  let ?x = "new_sample 730 500 1000 ''body'' Steam 1000000"
  have "collectable default_node_config (map (validated [?x]) [?x])"
    by (simp add: collectable_def default_node_config_def validated_def new_sample_def)
  then show ?thesis
    by (simp add: sources_answer_def sample_node_state_def sample_tick_env_def collect_activity_samples_def collect_sources_def
        collect_target_def sample_fetch note_result_def cross_validation_is_pointwise Let_def sample_targets)
qed

lemma sample_data: "data_in_order default_node_config sample_node_state"
proof -
  have "within_quota (with_quota_gb 10)"
    by (simp add: within_quota_def with_quota_gb_def gigabytes_def stored_bytes_def)
  then show ?thesis
    by (simp add: data_in_order_def bt_values_def sample_node_state_def parses_def empty_disk_def ns_local_def current_fixed_block_reward_def Let_def
        default_from_config_def normalize_adjustment_cycle_fields_def sync_legacy_adjustment_fields_def set_current_fixed_player_reward_def)
qed

lemma sample_idle: "idle sample_tick_env" "only_collects default_node_config" "rt_target_app_ids (nc_runtime default_node_config) \<noteq> []"
  "sessions_behind sample_node_state" "ns_network sample_node_state = None"
  by (simp_all add: idle_def sample_tick_env_def only_collects_def default_node_config_def sessions_behind_def sample_node_state_def
      ns_local_def empty_disk_def load_play_sessions_def load_directory_def bt_values_def)

lemma sample_tick_succeeds: "\<exists>res s'. run_collect_tick sample_tick_env default_node_config sample_node_state = Some (Inr res, s')"
  by (rule idle_tick_succeeds [OF sample_sources sample_data sample_idle(1,2) sample_node_id sample_idle(3)])

end
