(* ===== verification/Credentials.thy ===== *)
theory Credentials
  imports Verifier "HOL-Library.Sublist"
begin

text \<open>
  Verification credentials (\<open>src/src/node_daemon.rs\<close>): what a node signs about the batches of other collectors
  it stores, once it has audited the epoch. The JSON encoding a credential is signed under (serde) and the clock
  are arguments.
\<close>

subsection \<open>Who counts as a player\<close>

fun player_blocks :: "epoch_id \<Rightarrow> string + collect_tick_artifact \<Rightarrow> nat" where
  "player_blocks epoch (Inl e) = 0"
| "player_blocks epoch (Inr artifact) = (if ct_epoch_id artifact = epoch then ct_player_reward_block_count artifact else 0)"

definition player_activity_blocks_for_epoch :: "node_disk \<Rightarrow> epoch_id \<Rightarrow> nat" where
  "player_activity_blocks_for_epoch d epoch =
     (if \<not> dk_batches_dir_exists d then 0 else sum_list (map (player_blocks epoch) (bt_values (dk_batches d))))"

definition is_player_verifier :: "node_disk \<Rightarrow> epoch_id \<Rightarrow> bool" where
  "is_player_verifier d epoch \<longleftrightarrow> player_activity_blocks_for_epoch d (saturating_sub epoch 1) > 0"

subsection \<open>Building the credentials\<close>

definition credential_signing_payload :: "(verification_credential \<Rightarrow> byte_vec) \<Rightarrow> verification_credential \<Rightarrow> byte_vec" where
  "credential_signing_payload to_json c = to_json (c\<lparr>vc_signature_hex := []\<rparr>)"

definition credential_verified :: "batch_verification_report \<Rightarrow> bool" where
  "credential_verified r \<longleftrightarrow> vr_payload_hash_matches r \<and> vr_batch_root_matches r \<and> vr_obs_count_matches r
     \<and> vr_retention_hash_matches r \<and> \<not> sublist ''invalid'' (vr_signature_status r) \<and> vr_signatures_audit_valid r"

record credential_context =
  cxt_epoch_id :: epoch_id
  cxt_verifier_hex :: string
  cxt_verifier_address :: string
  cxt_is_player :: bool
  cxt_verified_at :: u64

text \<open>The body of the loop over the batch artifacts: \<open>None\<close> where the code continues with the next one.\<close>

definition credential_for_batch ::
  "proof_env \<Rightarrow> (verification_credential \<Rightarrow> byte_vec) \<Rightarrow> key_pair \<Rightarrow> credential_context \<Rightarrow> batch_verification_report list
    \<Rightarrow> string + collect_tick_artifact \<Rightarrow> verification_credential option" where
  "credential_for_batch env to_json identity cx reports entry =
     (case entry of Inl _ \<Rightarrow> None | Inr artifact \<Rightarrow>
        if ct_epoch_id artifact \<noteq> cxt_epoch_id cx then None
        else let batch_report = List.find (\<lambda>r. vr_payload_cid r = ct_payload_cid artifact) reports;
                 verified = (case batch_report of None \<Rightarrow> False | Some r \<Rightarrow> credential_verified r)
          in case batch_report of None \<Rightarrow> None | Some r \<Rightarrow>
             if vr_collector_id_hex r = [] then None
             else if vr_collector_id_hex r = cxt_verifier_hex cx then None
             else if ct_collector_address artifact = [] then None
             else let credential = \<lparr>vc_epoch_id = cxt_epoch_id cx, vc_target_batch_root_hex = ct_batch_root_hex artifact,
                        vc_target_collector_hex = vr_collector_id_hex r, vc_verifier_id_hex = cxt_verifier_hex cx,
                        vc_verifier_address = cxt_verifier_address cx,
                        vc_target_collector_address = ct_collector_address artifact, vc_is_player = cxt_is_player cx,
                        vc_verified = verified, vc_verified_at_millis = cxt_verified_at cx, vc_signature_hex = []\<rparr>
               in Some (credential\<lparr>vc_signature_hex :=
                    hex_encode_bytes (pr_addresses env) (key_pair_sign env identity (credential_signing_payload to_json credential))\<rparr>))"

definition build_verification_credentials ::
  "node_env \<Rightarrow> (verification_credential \<Rightarrow> byte_vec) \<Rightarrow> string + u64 \<Rightarrow> key_pair option \<Rightarrow> node_config
    \<Rightarrow> storage_book_error + local_retention_book \<Rightarrow> node_disk \<Rightarrow> epoch_id \<Rightarrow> key_pair
    \<Rightarrow> node_daemon_error + verification_credential list" where
  "build_verification_credentials env to_json clock local_identity config book_file d epoch identity =
     (case verify_local_epoch env local_identity config book_file d epoch of
        Inl e \<Rightarrow> Inl (DaemonVerification e)
      | Inr report \<Rightarrow>
      case encode_bech32 (pr_addresses (ne_proof env)) ''cosmos''
             (cosmos_account_from_pubkey (pr_addresses (ne_proof env)) (to_bytes32 (kp_public identity))) of
        Inl e \<Rightarrow> Inl (DaemonIo (cosmos_error_text e))
      | Inr verifier_address \<Rightarrow>
      case clock of Inl e \<Rightarrow> Inl (DaemonIo e) | Inr verified_at \<Rightarrow>
      let cx = \<lparr>cxt_epoch_id = epoch, cxt_verifier_hex = nc_node_id_hex config, cxt_verifier_address = verifier_address,
            cxt_is_player = is_player_verifier d epoch, cxt_verified_at = verified_at\<rparr>
      in Inr (if dk_batches_dir_exists d
              then List.map_filter (credential_for_batch (ne_proof env) to_json identity cx (ev_reports report))
                (bt_values (dk_batches d))
              else []))"

subsection \<open>What a credential says\<close>

lemma credential_for_batch_Some:
  assumes "credential_for_batch env to_json identity cx reports entry = Some c"
  obtains artifact r where "entry = Inr artifact" "ct_epoch_id artifact = cxt_epoch_id cx"
    "List.find (\<lambda>r. vr_payload_cid r = ct_payload_cid artifact) reports = Some r"
    "vc_epoch_id c = ct_epoch_id artifact" "vc_target_batch_root_hex c = ct_batch_root_hex artifact"
    "vc_target_collector_hex c = vr_collector_id_hex r" "vc_target_collector_hex c \<noteq> cxt_verifier_hex cx"
    "vc_target_collector_hex c \<noteq> []" "vc_target_collector_address c = ct_collector_address artifact"
    "vc_target_collector_address c \<noteq> []" "vc_verifier_id_hex c = cxt_verifier_hex cx"
    "vc_verifier_address c = cxt_verifier_address cx" "vc_is_player c = cxt_is_player cx"
    "vc_verified c \<longleftrightarrow> credential_verified r"
    "vc_signature_hex c = hex_encode_bytes (pr_addresses env) (key_pair_sign env identity (credential_signing_payload to_json c))"
  using assms
  by (fastforce simp: credential_for_batch_def Let_def credential_signing_payload_def split: sum.splits option.splits if_splits)

lemma build_credentials_Inr:
  assumes "build_verification_credentials env to_json clock local_identity config book_file d epoch identity = Inr cs" "c \<in> set cs"
  obtains report entry cx where "verify_local_epoch env local_identity config book_file d epoch = Inr report"
    "entry \<in> set (bt_values (dk_batches d))" "cxt_epoch_id cx = epoch" "cxt_verifier_hex cx = nc_node_id_hex config"
    "cxt_is_player cx = is_player_verifier d epoch"
    "credential_for_batch (ne_proof env) to_json identity cx (ev_reports report) entry = Some c"
proof -
  from assms(1) obtain report addr at where report: "verify_local_epoch env local_identity config book_file d epoch = Inr report"
    and cs: "cs = (if dk_batches_dir_exists d then List.map_filter (credential_for_batch (ne_proof env) to_json identity
        \<lparr>cxt_epoch_id = epoch, cxt_verifier_hex = nc_node_id_hex config, cxt_verifier_address = addr,
          cxt_is_player = is_player_verifier d epoch, cxt_verified_at = at\<rparr> (ev_reports report)) (bt_values (dk_batches d)) else [])"
    by (auto simp: build_verification_credentials_def Let_def split: sum.splits)
  from assms(2) cs obtain entry where entry: "entry \<in> set (bt_values (dk_batches d))"
    "credential_for_batch (ne_proof env) to_json identity
        \<lparr>cxt_epoch_id = epoch, cxt_verifier_hex = nc_node_id_hex config, cxt_verifier_address = addr,
          cxt_is_player = is_player_verifier d epoch, cxt_verified_at = at\<rparr> (ev_reports report) entry = Some c"
    by (auto simp: List.map_filter_def split: if_splits)
  show ?thesis by (rule that [OF report entry(1) _ _ _ entry(2)]) simp_all
qed

lemma verify_batch_files_reports:
  assumes "verify_batch_files env identity config book d epoch fs = Inr rs" "r \<in> set rs"
  shows "\<exists>a. Inr a \<in> set fs \<and> ct_epoch_id a = epoch \<and> verify_batch env identity config book d a = Inr r"
  using assms
proof (induction fs arbitrary: rs)
  case (Cons f fs)
  then show ?case
    by (cases f) (fastforce split: if_splits sum.splits simp: map_sum_eq_Inr)+
qed simp

lemma verify_batch_cid: "verify_batch env identity config book d a = Inr r \<Longrightarrow> vr_payload_cid r = ct_payload_cid a"
  by (auto simp: verify_batch_def Let_def split: sum.splits)

lemma credential_verified_valid:
  assumes "verify_batch env identity config book d a = Inr r" "credential_verified r"
  shows "report_valid r"
  using assms by (auto simp: verify_batch_def Let_def credential_verified_def report_valid_def split: sum.splits option.splits)

text \<open>
  A credential is about a stored batch of the epoch whose collector and address it names, is signed by the given
  key, and never names the verifier as the collector. When it says verified, the payload the batch refers to
  stands behind a faithful artifact of the epoch; with one artifact to a payload this is the batch attested.
\<close>

theorem credential_attests:
  assumes built: "build_verification_credentials env to_json clock local_identity config (Inr book) d epoch identity = Inr cs"
    and c: "c \<in> set cs"
  shows "\<exists>artifact. Inr artifact \<in> set (bt_values (dk_batches d)) \<and> ct_epoch_id artifact = epoch \<and> vc_epoch_id c = epoch
      \<and> vc_target_batch_root_hex c = ct_batch_root_hex artifact \<and> vc_target_collector_address c = ct_collector_address artifact
      \<and> vc_target_collector_address c \<noteq> []
      \<and> (vc_verified c \<longrightarrow> (\<exists>a. Inr a \<in> set (bt_values (dk_batches d)) \<and> ct_epoch_id a = epoch
           \<and> ct_payload_cid a = ct_payload_cid artifact \<and> faithful env local_identity config book d a))"
    and "vc_verifier_id_hex c = nc_node_id_hex config" "vc_target_collector_hex c \<noteq> nc_node_id_hex config"
    and "vc_is_player c \<longleftrightarrow> player_activity_blocks_for_epoch d (saturating_sub epoch 1) > 0"
    and "vc_signature_hex c = hex_encode_bytes (pr_addresses (ne_proof env))
      (key_pair_sign (ne_proof env) identity (credential_signing_payload to_json c))"
proof -
  from built c obtain report entry cx where report: "verify_local_epoch env local_identity config (Inr book) d epoch = Inr report"
    and entry: "entry \<in> set (bt_values (dk_batches d))"
    and cx: "cxt_epoch_id cx = epoch" "cxt_verifier_hex cx = nc_node_id_hex config" "cxt_is_player cx = is_player_verifier d epoch"
    and made: "credential_for_batch (ne_proof env) to_json identity cx (ev_reports report) entry = Some c"
    by (rule build_credentials_Inr)
  from made obtain artifact r where a: "entry = Inr artifact" "ct_epoch_id artifact = cxt_epoch_id cx"
      "List.find (\<lambda>r. vr_payload_cid r = ct_payload_cid artifact) (ev_reports report) = Some r"
    and names: "vc_epoch_id c = ct_epoch_id artifact" "vc_target_batch_root_hex c = ct_batch_root_hex artifact"
      "vc_target_collector_hex c \<noteq> cxt_verifier_hex cx" "vc_target_collector_address c = ct_collector_address artifact"
      "vc_target_collector_address c \<noteq> []" "vc_verifier_id_hex c = cxt_verifier_hex cx" "vc_is_player c = cxt_is_player cx"
      "vc_verified c \<longleftrightarrow> credential_verified r"
      "vc_signature_hex c = hex_encode_bytes (pr_addresses (ne_proof env))
        (key_pair_sign (ne_proof env) identity (credential_signing_payload to_json c))"
    by (rule credential_for_batch_Some)
  from a(3) have r: "r \<in> set (ev_reports report)" "vr_payload_cid r = ct_payload_cid artifact"
    by (auto simp: find_Some_iff)
  have files: "verify_batch_files env local_identity config book d epoch (bt_values (dk_batches d)) = Inr (ev_reports report)"
    using report by (auto simp: verify_local_epoch_def split: sum.splits)
  obtain b where b: "Inr b \<in> set (bt_values (dk_batches d))" "ct_epoch_id b = epoch"
      "verify_batch env local_identity config book d b = Inr r"
    using verify_batch_files_reports [OF files r(1)] by blast
  have "faithful env local_identity config book d b" if "vc_verified c"
    using that names(8) b(3) credential_verified_valid verify_batch_valid_iff by metis
  moreover have "ct_payload_cid b = ct_payload_cid artifact" using verify_batch_cid [OF b(3)] r(2) by simp
  ultimately show "\<exists>artifact. Inr artifact \<in> set (bt_values (dk_batches d)) \<and> ct_epoch_id artifact = epoch \<and> vc_epoch_id c = epoch
      \<and> vc_target_batch_root_hex c = ct_batch_root_hex artifact \<and> vc_target_collector_address c = ct_collector_address artifact
      \<and> vc_target_collector_address c \<noteq> []
      \<and> (vc_verified c \<longrightarrow> (\<exists>a. Inr a \<in> set (bt_values (dk_batches d)) \<and> ct_epoch_id a = epoch
           \<and> ct_payload_cid a = ct_payload_cid artifact \<and> faithful env local_identity config book d a))"
    using entry a cx names b by (intro exI [of _ artifact]) auto
  show "vc_verifier_id_hex c = nc_node_id_hex config" "vc_target_collector_hex c \<noteq> nc_node_id_hex config"
    "vc_is_player c \<longleftrightarrow> player_activity_blocks_for_epoch d (saturating_sub epoch 1) > 0"
    "vc_signature_hex c = hex_encode_bytes (pr_addresses (ne_proof env))
      (key_pair_sign (ne_proof env) identity (credential_signing_payload to_json c))"
    using names cx by (simp_all add: is_player_verifier_def)
qed

text \<open>
  Reports are looked up by payload identifier: batches that share one get the verdict of the first, whatever
  root each of them names.
\<close>

lemma shared_payload_shares_verdict:
  assumes "credential_for_batch env to_json identity cx reports (Inr a) = Some c"
    "credential_for_batch env to_json identity cx reports (Inr b) = Some c'" "ct_payload_cid a = ct_payload_cid b"
  shows "vc_verified c \<longleftrightarrow> vc_verified c'" "vc_target_collector_hex c = vc_target_collector_hex c'"
  using assms by (auto simp: credential_for_batch_def Let_def split: option.splits if_splits)

text \<open>
  The verifier's own batches are told by comparing texts. Of a node identifier configured with capital digits
  the comparison fails, as reports carry small ones: the node attests its own batch.
\<close>

lemma own_batch_attested:
  assumes "List.find (\<lambda>r. vr_payload_cid r = ct_payload_cid a) reports = Some r" "vr_collector_id_hex r = hex_32 nid"
    "cxt_verifier_hex cx \<noteq> hex_32 nid" "ct_epoch_id a = cxt_epoch_id cx" "ct_collector_address a \<noteq> []" "hex_32 nid \<noteq> []"
  shows "\<exists>c. credential_for_batch env to_json identity cx reports (Inr a) = Some c \<and> vc_target_collector_hex c = hex_32 nid"
  using assms by (simp add: credential_for_batch_def Let_def)

end
