(* ===== verification/Node_Guarantees.thy ===== *)
theory Node_Guarantees
  imports Tick_Liveness Credentials
begin

text \<open>
  The properties of the running node: its ticks, its network, what it verifies, settles, attests and forgets.
  Where a statement is a case distinction on the outcome of an operation it covers every outcome, errors
  included.
\<close>

section \<open>Ticks\<close>




text \<open>
  C20. The records of player rewards are meant to name the session of play that justifies them, and only
  records that do are counted as verified. The reward tick looks for a session of exactly its own slot,
  and the tick writes that session only afterwards: in a node without a network, however many ticks it runs,
  no record ever names a session.
\<close>

theorem solo_rewards_never_name_a_session:
  assumes "collect_ticks envs config i n s = Some (Inr results, s')" "ns_network s = None" "sessions_behind s"
    "unat (np_next_epoch_id (ns_progress s)) + n < 2 ^ 64"
  shows "\<forall>result \<in> set results. \<forall>r \<in> set (ta_records (ctr_tick result)). br_session_id r = []"
  using solo_rewards_unbound [OF assms] by (simp add: unbound_def)

theorem solo_rewards_never_name_a_session_witness:
  "\<exists>result s'. collect_ticks (\<lambda>_. sample_tick_env) default_node_config 0 1 sample_node_state = Some (Inr [result], s')
    \<and> (\<forall>r \<in> set (ta_records (ctr_tick result)). br_session_id r = [])"
proof -
  obtain result s' where "run_collect_tick sample_tick_env default_node_config sample_node_state = Some (Inr result, s')"
    using sample_tick_succeeds by blast
  then have run: "collect_ticks (\<lambda>_. sample_tick_env) default_node_config 0 1 sample_node_state = Some (Inr [result], s')"
    by simp
  moreover have "unat (np_next_epoch_id (ns_progress sample_node_state)) + 1 < 2 ^ 64"
    by (simp add: sample_node_state_def default_from_config_def normalize_adjustment_cycle_fields_def
        sync_legacy_adjustment_fields_def default_node_config_def)
  ultimately show ?thesis
    using solo_rewards_never_name_a_session [OF run sample_idle(5,4)] by auto
qed

section \<open>Collecting and exchanging\<close>

text \<open>
  C22. Comparing the samples of a tick, a loop over the groups of indexes of each game that updates the
  samples in place, is the pointwise map that replaces the confidence of every sample whose number of players is
  more than a quarter below the highest of its game by half of it, but at least 100000 ppm, and it counts
  exactly those samples.
\<close>

theorem cross_validation_agrees_with_definition:
  "cross_validate_samples samples = (map (validated samples) samples, length (filter (outlier samples) samples))"
  by (rule cross_validation_is_pointwise)




section \<open>Verifying, attesting and settling\<close>

text \<open>
  C28. The audit of an epoch reports all valid exactly when the node stores a batch of the epoch, every batch
  artifact can be read, and each of the epoch is faithful to the payload it names: the payload file decodes to
  observations with the named hash, Merkle root and number, the retention book holds it under the same hash, and
  all signatures of a batch of the node's own are valid.
\<close>

theorem epoch_audit_is_exact:
  "(\<exists>rep. verify_local_epoch env identity config (Inr book) d epoch = Inr rep \<and> ev_all_valid rep)
    = (list_all (\<lambda>f. case f of Inl _ \<Rightarrow> False
         | Inr a \<Rightarrow> if collect_tick_artifact.ct_epoch_id a = epoch then faithful env identity config book d a else True)
         (bt_values (dk_batches d))
       \<and> (\<exists>a. Inr a \<in> set (bt_values (dk_batches d)) \<and> collect_tick_artifact.ct_epoch_id a = epoch))"
proof -
  have "(\<exists>a. f = Inr a \<and> (collect_tick_artifact.ct_epoch_id a = epoch \<longrightarrow> P a))
    = (case f of Inl _ \<Rightarrow> False | Inr a \<Rightarrow> if collect_tick_artifact.ct_epoch_id a = epoch then P a else True)"
    for f :: "string + collect_tick_artifact" and P by (cases f) simp_all
  then show ?thesis unfolding verify_local_epoch_all_valid_iff by (simp add: list_all_iff)
qed



section \<open>Forgetting\<close>

text \<open>
  C36. Pruning removes exactly the payloads past their retention, with their files and their batch artifacts, gives
  their bytes back to the quota, and removes the reward ticks only of old epochs that are settled; the local chain
  is left alone.
\<close>

theorem pruning_removes_the_expired:
  assumes "ld_book (dd_local dd) = Inr book" "within_quota book" "parses dd" "prune_retention config current dd = (r, dd')"
  shows "r = Inr \<lparr>po_current_epoch = current, po_removed_payloads = map sp_payload_cid (expired_payloads current book)\<rparr>
    \<and> (\<exists>book'. ld_book (dd_local dd') = Inr book' \<and> within_quota book'
        \<and> bt_values (rb_payloads book') = filter (\<lambda>r. \<not> current > sp_retention_until_epoch r) (bt_values (rb_payloads book)))
    \<and> bt_get (dk_payloads (ld_disk (dd_local dd'))) file =
        (if file \<in> (\<lambda>r. payload_path (sp_payload_cid r)) ` set (expired_payloads current book) then None
         else bt_get (dk_payloads (ld_disk (dd_local dd))) file)
    \<and> bt_get (dk_batches (ld_disk (dd_local dd'))) name =
        without_payloads (sp_payload_cid ` set (expired_payloads current book)) (bt_get (dk_batches (ld_disk (dd_local dd))) name)
    \<and> bt_get (dd_ticks dd') (reward_tick_name epoch slot) =
        (if epoch < oldest_epoch_to_keep (activated_params (dd_local dd)) config current
           \<and> bt_get (ld_settlements (dd_local dd)) epoch \<noteq> None then None
         else bt_get (dd_ticks dd) (reward_tick_name epoch slot))
    \<and> ld_store (dd_local dd') = ld_store (dd_local dd) \<and> ld_runtime (dd_local dd') = ld_runtime (dd_local dd)
    \<and> ld_settlements (dd_local dd') = ld_settlements (dd_local dd)"
  using pruning_spec [OF assms] by blast

text \<open>A node that collected a batch of epoch 2 and kept its payload until epoch 4.\<close>

definition sample_stored_payload :: stored_payload_record where
  "sample_stored_payload = \<lparr>sp_epoch_id = 2, sp_payload_cid = ''cid://a'', sp_payload_hash = 1, sp_size_bytes = 100,
     sp_retention_until_epoch = 4,
     sp_receipt = \<lparr>rr_epoch_id = 2, rr_payload_cid = ''cid://a'', rr_storer_id = 1, rr_retention_until_epoch = 4, rr_receipt_signature = []\<rparr>\<rparr>"

definition sample_old_dir :: data_dir where
  "sample_old_dir = (ns_dir sample_node_state)\<lparr>dd_local := (ns_local sample_node_state)\<lparr>ld_book := Inr \<lparr>rb_quota_bytes = 1000, rb_used_bytes = 100,
       rb_payloads = bt_insert ''cid://a'' sample_stored_payload bt_empty\<rparr>,
     ld_disk := empty_disk\<lparr>dk_payloads := bt_insert (payload_path ''cid://a'') [7] bt_empty, dk_batches_dir_exists := True,
       dk_batches := bt_insert ''b'' (Inr \<lparr>ct_epoch_id = 2, ct_slot_id = 1, ct_payload_cid = ''cid://a'', ct_payload_hash_hex = [],
         ct_batch_root_hex = [], ct_obs_count = 1, ct_collector_address = [], ct_player_reward_block_count = 0, ct_player_reward_total = 0,
         ct_reward_process_name = None, ct_stored_payload_cid = None, ct_retention_until_epoch = None\<rparr>) bt_empty\<rparr>\<rparr>\<rparr>"

theorem pruning_removes_the_expired_witness:
  "\<exists>r dd'. prune_retention default_node_config 5 sample_old_dir = (r, dd')
    \<and> r = Inr \<lparr>po_current_epoch = 5, po_removed_payloads = [''cid://a'']\<rparr>
    \<and> bt_get (dk_payloads (ld_disk (dd_local dd'))) (payload_path ''cid://a'') = None
    \<and> bt_get (dk_batches (ld_disk (dd_local dd'))) ''b'' = None"
proof -
  let ?book = "\<lparr>rb_quota_bytes = 1000, rb_used_bytes = 100, rb_payloads = bt_insert ''cid://a'' sample_stored_payload bt_empty\<rparr>"
  have one: "bt_values (bt_insert k v bt_empty) = [v]" for k :: string and v :: 'v
    by (simp add: bt_values_def)
  have book: "ld_book (dd_local sample_old_dir) = Inr ?book" by (simp add: sample_old_dir_def)
  have quota: "within_quota ?book"
    by (simp add: within_quota_def stored_bytes_def bt_total_def one sample_stored_payload_def)
  have files: "parses sample_old_dir"
    by (simp add: parses_def sample_old_dir_def one sample_node_state_def bt_values_def)
  have expired: "expired_payloads 5 ?book = [sample_stored_payload]"
    by (simp add: expired_payloads_def one sample_stored_payload_def)
  obtain r dd' where run: "prune_retention default_node_config 5 sample_old_dir = (r, dd')" by fastforce
  show ?thesis
    using pruning_removes_the_expired [OF book quota files run, of "payload_path ''cid://a''" "''b''"] run expired
    by (simp add: sample_stored_payload_def sample_old_dir_def without_payloads_def)
qed

end
