(* ===== verification/Spec2Isabelle.thy ===== *)
theory Spec2Isabelle
  imports Samples Merkle Tokenomics Gvs Allocation Retention_Book Pipeline Persistence Node_Config Chain_Json Aggregator
    Addresses Mutual_Proof Tick_Accounting Reward_Conservation Node_Samples P2p_Socket Storage_Audit Ingestion
    Settlement_Success Auto_Settlement Governance_Artifacts Node_Progress Collect_Loop Node_Guarantees
begin

text \<open>
  A model of the Rust crate of PoLE, a proof-of-live-engagement network: collectors sample how many
  people play which game, the samples are committed to in batches, aggregated per epoch and paid for,
  and a protocol state keeps accounts, stakes, challenges, rewards and governance. The crate is
  \<open>src/src\<close>; file names below are relative to it.

  \<^bold>\<open>The parts and how they interact.\<close> \<open>transitions.rs\<close> changes a \<open>ProtocolState\<close>, whose tables live in
  the store of \<open>store.rs\<close>; \<open>executor.rs\<close> runs the transactions of a block over it. A node feeds the
  protocol: \<open>node_pipeline.rs\<close> turns samples into signed observations and batch commits,
  \<open>node_aggregator.rs\<close> merges the batches of an epoch, \<open>node_gvs.rs\<close> scores the games,
  \<open>node_rewards.rs\<close> computes the rewards with the schedules of \<open>tokenomics.rs\<close> and the sessions and
  attestations of \<open>mutual_proof.rs\<close>, and \<open>storage_book.rs\<close> keeps what the node stores for others.
  \<open>node_daemon.rs\<close> runs all of it in ticks, one per slot: it collects with \<open>activity_collector.rs\<close>, stores and
  publishes with \<open>node_runtime.rs\<close> over a network of \<open>p2p.rs\<close>, reads what peers announced, builds the artifacts
  of the epoch (\<open>node_verifier.rs\<close>, \<open>node_prepare.rs\<close>), settles ended epochs on a local chain
  (\<open>node_settlement.rs\<close>), audits its storage (\<open>node_storage_audit.rs\<close>) and prunes.

  \<^bold>\<open>Theories of the protocol.\<close>
  \<^item> \<open>Pole_Prelude\<close>: integer widths, saturating arithmetic, the \<open>?\<close> operator, iterator functions, and
    the lemma collections. \<open>BTree_Map\<close>: \<open>BTreeMap\<close> and \<open>BTreeSet\<close> as sorted association lists in a type
    of their own, so that equal contents are equal values.
  \<^item> \<open>Params\<close> (\<open>params.rs\<close>): parameter structs, defaults, \<open>validate\<close> and the exact set it accepts.
    \<open>Records\<close> (\<open>primitives.rs\<close>, \<open>state.rs\<close>, \<open>records.rs\<close>, \<open>transactions.rs\<close>): the data and the signing
    payloads. \<open>Store\<close> (\<open>store.rs\<close>): \<open>InMemoryStore\<close> with one definition per method, and the locale of a
    keyed table that its tables interpret. \<open>Persistence\<close>: \<open>open\<close> and \<open>flush\<close> of the persistent store
    over a disk on which every operation may fail.
  \<^item> \<open>Transitions\<close> (\<open>transitions.rs\<close>): every transition with its guards and every error with the state it
    leaves behind. \<open>Executor\<close> (\<open>executor.rs\<close>): blocks.
  \<^item> \<open>Transition_Rules\<close>: what each transition does on success and on each error, used by all that follow.
    \<open>Ledger\<close> and \<open>Solvency\<close>: the amounts held and owed, and the solvency invariant. \<open>Epochs\<close>: closing an
    epoch. \<open>Chain\<close>: soundness over blocks and all entry points, as a step relation. \<open>Guarantees\<close>,
    \<open>Account_Safety\<close>, \<open>Voting\<close>: replay protection, authorisation, single payment, what a bystander can
    rely on, and how a proposal passes. \<open>Samples\<close>: concrete states.

  \<^bold>\<open>Theories of the node.\<close>
  \<^item> \<open>Hashing\<close>, \<open>Merkle\<close>, \<open>Pipeline\<close>, \<open>Chain_Json\<close> (\<open>node_pipeline.rs\<close>): the 64-bit lane hash, the Merkle
    commitment, samples, observations, signature checks, the batch builder and the JSON the chain hashes.
  \<^item> \<open>Tokenomics\<close> (\<open>tokenomics.rs\<close>), \<open>Gvs\<close> (\<open>node_gvs.rs\<close>), \<open>Allocation\<close>, \<open>Reward_Tick\<close>,
    \<open>Epoch_Rewards\<close> (\<open>node_rewards.rs\<close>), with their guarantees in \<open>Tick_Accounting\<close> and
    \<open>Reward_Conservation\<close>; \<open>Aggregator\<close> (\<open>node_aggregator.rs\<close>) and its specification.
  \<^item> \<open>Retention_Book\<close> (\<open>storage_book.rs\<close>), \<open>Mutual_Proof\<close> (\<open>mutual_proof.rs\<close>, \<open>wallet/keys.rs\<close>),
    \<open>Addresses\<close> (\<open>cosmos/address.rs\<close>), \<open>Rust_Text\<close> (the string methods used) and \<open>Node_Config\<close>
    (\<open>node_config.rs\<close>). \<open>Node_Samples\<close>: concrete inputs.
    \<open>BTree_Ops\<close>: the maps with values changed in place.
  \<^item> \<open>P2p_Network\<close> and \<open>P2p_Socket\<close> (\<open>p2p.rs\<close>): the in-memory network as a step relation with its invariant, the
    locale of a message network it interprets, and the socket network over the events its socket delivers.
    \<open>Network_Health\<close> (\<open>node_daemon.rs\<close>): what the daemon asks of an attached network.
  \<^item> \<open>Node_Runtime\<close> (\<open>node_runtime.rs\<close>): collecting, storing and publishing a batch. \<open>Node_Disk\<close>: the files of
    the data directory. \<open>Verifier\<close> (\<open>node_verifier.rs\<close>), \<open>Storage_Audit\<close> (\<open>node_storage_audit.rs\<close>) and
    \<open>Credentials\<close>: auditing an epoch and what is stored, and the credentials signed on it. \<open>Ingestion\<close>: the
    batches, sessions and attestations of peers.
  \<^item> \<open>Preparation\<close> (\<open>node_prepare.rs\<close>), \<open>Settlement\<close>, \<open>Governance_Artifacts\<close> (\<open>node_settlement.rs\<close>): an epoch from the
    local files to the local chain; \<open>Settlement_Laws\<close>, \<open>Settlement_Ledger\<close> and \<open>Settlement_Success\<close> show what a
    settlement keeps, what it pays and when it goes through. \<open>Auto_Settlement\<close>: the epochs that are due.
  \<^item> \<open>Collectors\<close> (\<open>activity_collector.rs\<close>, \<open>steam_collector.rs\<close>): sources, retries, health, cross-validation.
    \<open>Play_Proofs\<close>: sessions and heartbeats of the games that run. \<open>Node_Progress\<close>: the cursor and the adjustment
    cycles. \<open>Pruning\<close>: what is removed after its retention.
  \<^item> \<open>Daemon_Tick\<close> (\<open>run_collect_tick_with_client_inner\<close>) composes all of these into one tick over the state of
    a node, \<open>Collect_Loop\<close> runs ticks and sums them up; \<open>Tick_Laws\<close>, \<open>Tick_Liveness\<close> and \<open>Node_Guarantees\<close>
    hold what is shown of them.

  \<^bold>\<open>How the code is read.\<close> Integers are words of their width and plain \<open>+\<close>, \<open>-\<close>, \<open>*\<close> wrap, as they do
  in a release build; \<open>usize\<close> is \<open>nat\<close>. A \<open>[u8; 32]\<close> is a 256-bit big-endian word, so its order is the
  order of the bytes. A \<open>String\<close> is its UTF-8 byte string. A method on \<open>&mut self\<close> returns its result
  together with the state, also when the result is an error, because the code does not roll back. An
  expression that can panic yields an option. \<open>ProtocolState<S>\<close> is taken at \<open>S = InMemoryStore\<close>.
  Code outside the crate is a parameter: \<open>borsh\<close>, \<open>serde_json\<close>, \<open>sha2\<close>, \<open>ed25519_dalek\<close>, \<open>hex\<close> and
  \<open>bech32\<close> appear as functions in the environments \<open>crypto_env\<close>, \<open>pipeline_env\<close>, \<open>proof_env\<close> and
  \<open>address_env\<close>; where a theorem needs something of them (a decoder inverts its encoder, a signature
  verifies under its key) it is a hypothesis, and the witness instantiates it. Files, clocks and network
  answers a function reads are arguments of the function; \<open>Persistence\<close> models the disk itself. The state of a
  running node is the record \<open>node_state\<close>: the data directory with the content of each file (or the error of
  reading it), the progress in memory and as saved, the HTTP client and the network. Writing to it succeeds;
  it is the reading of damaged files that fails. The two networks are records of operations.

  \<^bold>\<open>Bounds.\<close> No loop needs fuel: they recurse over lists, or on a measure (the Merkle levels, the integer
  square root); the endless loop of the daemon is taken at every number of ticks. Theorems about amounts state the range in which the additions of the code do not wrap,
  as sums over natural numbers below \<open>2 ^ 128\<close>; \<open>solvent\<close> keeps the state of the protocol inside it.

  \<^bold>\<open>What is shown.\<close> C1 to C15, C17 and C18 are about the protocol state: soundness of every reachable state,
  conservation of funds, replay protection, authorisation, one payment per reward, challenges,
  governance. C16, C19, C20, C22, C24, C28, C30, C33 and C36, in \<open>Node_Guarantees\<close>, are about the running node:
  what a tick does, that an idle collector does not get stuck, delivery of messages, audits, credentials,
  settlement and pruning. The rest are about the computations of the node: trees, scores, emission, allocation,
  aggregation and rewards. Each property states its own reading; theorems without a number support them.

  \<^bold>\<open>Not modelled.\<close> Argument parsing and printing (\<open>cli_*.rs\<close>), the HTTP control interface, RPC, protobuf
  and EIP-712 encodings of the Cosmos client, operating-system and hardware probes, keystore encryption
  and mnemonics, the updater, the genesis builder, the network over a shared directory, the status report of the
  daemon, and the sleeping between ticks: they are calls into crates or the operating system, or printing, with
  little logic of their own. The chain module in
  Go and the desktop interface are written in other languages.
\<close>

section \<open>The protocol state\<close>

text \<open>
  C1. Every state that the entry points of the protocol can reach from a fresh
  \<open>ProtocolState::new\<close> is sound. Its funds are solvent: the balances, stakes and locked amounts of
  all accounts together with the unclaimed rewards stay below \<open>u128::MAX\<close>, and each account has at
  least as much locked as its open challenges, its unbonding requests and its pending proposals
  will release or burn. Its finalized epochs are settled: committed, past the challenge
  deadline, with no open challenge. Its parameters and every scheduled set pass \<open>validate\<close>. The
  steps are blocks (whatever they return), \<open>finalize_epoch\<close>, \<open>schedule_protocol_params_update\<close>,
  \<open>resolve_challenge\<close> with a reward that still fits \<open>u128\<close>, and the administrative writes of nodes,
  of new accounts and of rewards that fit.
\<close>

theorem reachable_states_sound:
  assumes "new_state p h epoch = Some s0" "reachable env s0 s"
  shows "solvent (store s) \<and> settled s \<and> governed s"
  using reachable_sound [OF assms(2) new_state_sound [OF assms(1)]] by (simp add: sound_def)

theorem reachable_states_sound_witness:
  "new_state default_protocol_params 10 1 = Some sample_genesis \<and> reachable sample_env sample_genesis sample_start
    \<and> solvent (store sample_start) \<and> settled sample_start \<and> governed sample_start"
  using reachable_states_sound [OF sample_genesis_new sample_start_reachable] sample_genesis_new sample_start_reachable
  by simp

text \<open>
  C2. A block that executes without error creates and destroys no funds beyond what its effects
  say: the total of all accounts after the block, plus the fees of its transfers, equals the
  total before it plus the rewards claimed in it; and the unclaimed rewards drop by exactly the
  claimed ones.
\<close>

theorem block_conserves_funds:
  assumes "sound s" "execute_block env blk s = (Inr effects, s')"
  shows "total_supply (store s') + fees effects = total_supply (store s) + minted effects
    \<and> outstanding (store s') + minted effects = outstanding (store s)"
  using execute_block_conserve [OF soundD(1) [OF assms(1)] assms(2)] by simp

theorem block_conserves_funds_witness:
  "\<exists>effects s'. execute_block sample_env (sample_block 11 sample_opening) sample_start = (Inr effects, s')
    \<and> total_supply (store s') + fees effects = total_supply (store sample_start) + minted effects
    \<and> outstanding (store s') + minted effects = outstanding (store sample_start)"
  using block_conserves_funds [OF sample_sound(1) sample_opening_run] sample_opening_run by blast

text \<open>
  C3. In a sound state a block without transactions always succeeds, whatever its height above
  the current one, and pays every matured unbonding request in full: the requests that are due
  leave the queue, each delegator's locked amount drops and its balance grows by exactly what
  the due requests add up to, with no wrap-around, and nothing else of the account changes.
\<close>

theorem matured_requests_paid:
  fixes s :: protocol_state and h :: height
  defines "due \<equiv> filter (\<lambda>r. ub_unlock_height r \<le> h) (unbonding_queue (store s))"
  assumes "sound s" "height s < h"
  shows "\<exists>s'. execute_block env \<lparr>blk_height = h, blk_transactions = []\<rparr> s = (Inr (map matured_effect due), s')
    \<and> unbonding_queue (store s') = filter (\<lambda>r. h < ub_unlock_height r) (unbonding_queue (store s))
    \<and> (\<forall>a x. account (store s) a = Some x \<longrightarrow> (\<exists>y. account (store s') a = Some y
        \<and> unat (acc_balance y) = unat (acc_balance x) + owed_requests due a
        \<and> unat (acc_locked y) + owed_requests due a = unat (acc_locked x)
        \<and> acc_staked y = acc_staked x \<and> acc_nonce y = acc_nonce x))"
proof -
  have sol: "solvent (store s)" using assms(2) by (rule soundD)
  then have "solvent (store (s\<lparr>height := h\<rparr>))" by simp
  from process_mature_unbonds_ok [OF this] obtain s' where
    s': "process_mature_unbonds (s\<lparr>height := h\<rparr>) = (Inr (map matured_effect due), s')"
      "unbonding_queue (store s') = filter (\<lambda>r. \<not> ub_unlock_height r \<le> h) (unbonding_queue (store s))"
      "account (store s') = (\<lambda>a. map_option (pay_out (owed_requests due a)) (account (store s) a))"
    by (auto simp: due_def)
  have "execute_block env \<lparr>blk_height = h, blk_transactions = []\<rparr> s = (Inr (map matured_effect due), s')"
    using assms(3) s'(1) by (simp add: execute_block_def from_transition_error_def not_le [symmetric])
  moreover have "unbonding_queue (store s') = filter (\<lambda>r. h < ub_unlock_height r) (unbonding_queue (store s))"
    using s'(2) by (simp add: not_le)
  moreover have "\<exists>y. account (store s') a = Some y
        \<and> unat (acc_balance y) = unat (acc_balance x) + owed_requests due a
        \<and> unat (acc_locked y) + owed_requests due a = unat (acc_locked x)
        \<and> acc_staked y = acc_staked x \<and> acc_nonce y = acc_nonce x" if "account (store s) a = Some x" for a x
    using pay_out_amounts [OF sol that refl, of "\<lambda>r. ub_unlock_height r \<le> h"] that s'(3)
    by (intro exI [of _ "pay_out (owed_requests due a) x"]) (simp add: due_def, simp add: pay_out_def)
  ultimately show ?thesis by blast
qed

theorem matured_requests_paid_witness:
  "\<exists>s'. execute_block sample_env \<lparr>blk_height = 16, blk_transactions = []\<rparr> sample_unbonding
      = (Inr [UnbondMatured bob alice 200], s') \<and> unbonding_queue (store s') = []"
  using matured_requests_paid [of sample_unbonding 16 sample_env] sample_unbonding_run
  by (auto simp: matured_effect_def)

text \<open>
  C4. A transaction that is not signed by the key its author address is derived from has no
  effect: it is refused and the state stays as it is. This covers all ten transaction kinds.
\<close>

theorem unsigned_transaction_has_no_effect:
  assumes "\<not> authorised env tx"
  shows "\<exists>e. apply_transaction env tx s = (Inl e, s)"
  using unauthorised_transaction [OF assms, of s] by (cases "apply_transaction env tx s") (auto simp: isl_def)

theorem unsigned_transaction_has_no_effect_witness:
  "\<not> authorised sample_env (Transfer (sample_transfer_tx\<lparr>tt_signature := sample_signature 1\<rparr>))
    \<and> (\<exists>e. apply_transaction sample_env (Transfer (sample_transfer_tx\<lparr>tt_signature := sample_signature 1\<rparr>))
          sample_start = (Inl e, sample_start))"
proof -
  have "\<not> authorised sample_env (Transfer (sample_transfer_tx\<lparr>tt_signature := sample_signature 1\<rparr>))"
    by (simp add: authorised_def sample_transfer_tx_def sample_signature_def)
  with unsigned_transaction_has_no_effect show ?thesis by blast
qed

text \<open>
  C5. An account can only be debited by a transaction its own key signed. If no transaction of a
  block is both signed by and issued in the name of address \<open>a\<close>, then after the block, whether it
  succeeded or stopped at an error, the account at \<open>a\<close> still exists with the same stake and
  nonce, at least the same balance and at least the same total.
\<close>

theorem only_signers_are_debited:
  assumes "sound s" "\<forall>tx \<in> set (blk_transactions blk). \<not> (authorised env tx \<and> tx_signer tx = a)"
    and "account (store s) a = Some x"
  shows "\<exists>y. account (store (snd (execute_block env blk s))) a = Some y \<and> acc_nonce y = acc_nonce x
    \<and> acc_staked y = acc_staked x \<and> acc_balance x \<le> acc_balance y \<and> acc_total x \<le> acc_total y"
  using bystander_block [OF soundD(1) [OF assms(1)], of blk env a] assms(2,3) by (simp add: not_debited_def)

theorem only_signers_are_debited_witness:
  "\<exists>y. account (store (snd (execute_block sample_env (sample_block 11 [Transfer sample_transfer_tx]) sample_start))) alice
      = Some y \<and> 50000 \<le> acc_balance y"
proof -
  have "tx_signer (Transfer sample_transfer_tx) = bob" by (simp add: sample_transfer_tx_def)
  then have "\<forall>tx \<in> set (blk_transactions (sample_block 11 [Transfer sample_transfer_tx])).
      \<not> (authorised sample_env tx \<and> tx_signer tx = alice)"
    by (simp add: sample_block_def)
  moreover have "account (store sample_start) alice = Some (sample_account alice 50000)"
    by (simp add: sample_eval)
  ultimately show ?thesis
    using only_signers_are_debited [OF sample_sound(1)] by (fastforce simp: sample_account_def)
qed

text \<open>
  C6. A transfer, stake, unbond, vote or proposal that was applied once can never be applied
  again: after any sequence of blocks with fewer than \<open>2^64 - 1\<close> transactions in all, the same
  transaction is refused, because its nonce has been consumed.
\<close>

theorem applied_transaction_cannot_be_replayed:
  assumes "sound s" "apply_transaction env tx s = (Inr e, s')" "tx_nonce tx = Some n"
    and "tx_count bs < 2 ^ 64 - 1"
  shows "isl (fst (apply_transaction env tx (run_chain env bs s')))"
  using assms by (rule replay_fails)

lemma sample_transfer_run:
  "apply_transaction sample_env (Transfer sample_transfer_tx) sample_start
     = (Inr (TransferApplied bob alice 30 1), snd (apply_transaction sample_env (Transfer sample_transfer_tx) sample_start))"
  by (simp add: sample_eval sample_transfer_tx_def apply_transfer_def saturating_add_def)

theorem applied_transaction_cannot_be_replayed_witness:
  "let s' = snd (apply_transaction sample_env (Transfer sample_transfer_tx) sample_start) in
   isl (fst (apply_transaction sample_env (Transfer sample_transfer_tx)
     (run_chain sample_env [sample_block 11 [], sample_block 12 [Transfer sample_transfer_tx]] s')))"
  using applied_transaction_cannot_be_replayed [OF sample_sound(1) sample_transfer_run, of 0
      "[sample_block 11 [], sample_block 12 [Transfer sample_transfer_tx]]"]
  by (simp add: sample_transfer_tx_def tx_count_def sample_block_def)

section \<open>Epochs, rewards and challenges\<close>

text \<open>
  C7. A reward is paid at most once. Once a claim for \<open>(epoch, node)\<close> has been applied, every
  later claim for the same pair is refused and changes nothing, however it is signed and
  whatever blocks are executed in between.
\<close>

theorem reward_is_paid_once:
  assumes "sound s" "apply_claim_reward env tx s = (Inr e, s')"
    and "claim_reward_tx.ct_epoch_id tx' = claim_reward_tx.ct_epoch_id tx" "ct_node_id tx' = ct_node_id tx"
  shows "\<exists>e'. apply_claim_reward env tx' (run_chain env bs s') = (Inl e', run_chain env bs s')"
proof -
  let ?key = "(claim_reward_tx.ct_epoch_id tx, ct_node_id tx)"
  have kept: "sound t \<and> is_reward_claimed (store t) ?key \<Longrightarrow> is_reward_claimed (store (run_chain env bs t)) ?key" for t
    using claimed_blocks.block_keeps [of _ ?key env] by (induction bs arbitrary: t) auto
  have "isl (fst (apply_claim_reward env tx s)) \<or> is_reward_claimed (store (snd (apply_claim_reward env tx s))) ?key"
    by (rule apply_claim_reward_rule) (simp_all add: is_reward_claimed_def store_writes)
  with assms(2) have "is_reward_claimed (store s') ?key" by simp
  moreover have "sound s'"
    using sound_blocks.transaction_keeps [OF assms(1), of env "ClaimReward tx"] assms(2) by simp
  ultimately have "is_reward_claimed (store (run_chain env bs s')) ?key" using kept by blast
  then show ?thesis
    using assms(3,4) by (intro apply_claim_reward_rule [where Q = "\<lambda>r. \<exists>e'. r = (Inl e', run_chain env bs s')"]) auto
qed

theorem reward_is_paid_once_witness:
  "\<exists>s' e'. apply_claim_reward sample_env sample_claim_tx sample_finalized = (Inr (RewardClaimed 1 alice alice 70), s')
    \<and> apply_claim_reward sample_env (sample_claim_tx\<lparr>ct_nonce := 5\<rparr>) (run_chain sample_env [sample_block 17 []] s')
      = (Inl e', run_chain sample_env [sample_block 17 []] s')"
proof -
  obtain s' where s': "apply_claim_reward sample_env sample_claim_tx sample_finalized
      = (Inr (RewardClaimed 1 alice alice 70), s')"
    using sample_claim_run by blast
  from reward_is_paid_once [OF sample_sound(6) s', of "sample_claim_tx\<lparr>ct_nonce := 5\<rparr>" "[sample_block 17 []]"]
  show ?thesis using s' by (simp add: sample_claim_tx_def)
qed

text \<open>
  C8. A claim that succeeds pays exactly the recorded net reward, to the reward address of the
  node, and only for an epoch that is final: the epoch has a commit whose challenge deadline
  has passed and no challenge against it is open. The claimer's balance grows by the amount
  without wrapping; no other account changes.
\<close>

theorem claim_pays_recorded_reward:
  assumes "sound s" "apply_claim_reward env tx s = (Inr e, s')"
  shows "\<exists>reward n x y commit.
      reward_record_of (store s) (claim_reward_tx.ct_epoch_id tx, ct_node_id tx) = Some reward \<and> rw_net_reward reward = ct_amount tx
    \<and> node (store s) (ct_node_id tx) = Some n \<and> nr_reward_address n = ct_claimer tx
    \<and> epoch_commit (store s) (claim_reward_tx.ct_epoch_id tx) = Some commit \<and> ec_challenge_deadline_height commit < height s
    \<and> \<not> has_open_challenges_for_epoch (store s) (claim_reward_tx.ct_epoch_id tx)
    \<and> e = RewardClaimed (claim_reward_tx.ct_epoch_id tx) (ct_node_id tx) (ct_claimer tx) (ct_amount tx)
    \<and> account (store s) (ct_claimer tx) = Some x
    \<and> account (store s') = (account (store s))(ct_claimer tx \<mapsto> y)
    \<and> unat (acc_balance y) = unat (acc_balance x) + unat (rw_net_reward reward)
    \<and> acc_staked y = acc_staked x \<and> acc_locked y = acc_locked x" (is "?paid e s'")
proof -
  let ?Q = "\<lambda>r. \<forall>e s'. r = (Inr e, s') \<longrightarrow> ?paid e s'"
  have "?Q (apply_claim_reward env tx s)"
  proof (rule apply_claim_reward_rule, goal_cases)
    case (2 reward n a)
    from soundD(2) [OF assms(1)] 2(3) obtain commit where commit:
      "epoch_commit (store s) (claim_reward_tx.ct_epoch_id tx) = Some commit" "ec_challenge_deadline_height commit < height s"
      "\<not> has_open_challenges_for_epoch (store s) (claim_reward_tx.ct_epoch_id tx)"
      by (auto simp: settled_def)
    have "unat (acc_balance a + ct_amount tx) = unat (acc_balance a) + unat (ct_amount tx)"
      using claim_room [OF soundD(1) [OF assms(1)] 2(5,4,9)] 2(8) by (intro unat_add_exact) simp
    with 2 commit show ?case
      by (auto simp: account_def store_writes fun_eq_iff)
  qed simp
  with assms(2) show ?thesis by blast
qed

theorem claim_pays_recorded_reward_witness:
  "\<exists>e s' x y. apply_claim_reward sample_env sample_claim_tx sample_finalized = (Inr e, s')
    \<and> account (store sample_finalized) alice = Some x \<and> account (store s') alice = Some y
    \<and> unat (acc_balance y) = unat (acc_balance x) + 70"
proof -
  obtain s' where s': "apply_claim_reward sample_env sample_claim_tx sample_finalized
      = (Inr (RewardClaimed 1 alice alice 70), s')"
    using sample_claim_run by blast
  from claim_pays_recorded_reward [OF sample_sound(6) s'] s' show ?thesis by (auto simp: sample_claim_tx_def)
qed

text \<open>
  C9. \<open>finalize_epoch\<close> closes an epoch exactly when it is committed, not yet final, past its
  challenge deadline and free of open challenges; otherwise it returns an error and leaves the
  state alone. Closing the current or a later epoch never fails in a sound state: the state
  moves to the next epoch, takes the parameter set scheduled for exactly that epoch (or keeps
  the current one), activates its proposals, expires the pending proposals that are too late and
  burns exactly their bonds. Closing an earlier epoch only marks it.
\<close>

theorem finalize_epoch_effect:
  assumes "sound s"
  shows "if \<not> may_close epoch s then \<exists>e. finalize_epoch epoch s = (Inl e, s)
    else if epoch < current_epoch s
    then finalize_epoch epoch s = (Inr (EpochFinalized epoch), on_store (mark_epoch_finalized epoch) s)
    else \<exists>s'. finalize_epoch epoch s = (Inr (EpochFinalized epoch), s')
      \<and> height s' = height s \<and> current_epoch s' = epoch + 1 \<and> params s' = scheduled_at (epoch + 1) s
      \<and> finalized_epochs (store s') = bs_insert epoch (finalized_epochs (store s))
      \<and> scheduled_protocol_params (store s') = bt_remove (epoch + 1) (scheduled_protocol_params (store s))
      \<and> untouched_by_closing (store s) (store s')
      \<and> total_supply (store s') + stale_bonds (epoch + 1) (store s) = total_supply (store s)
      \<and> (\<forall>pid. params_update_proposal (store s') pid =
           map_option (close_proposal (epoch + 1) (store s)) (params_update_proposal (store s) pid))"
proof (cases "may_close epoch s")
  case True
  show ?thesis
  proof (cases "epoch < current_epoch s")
    case False
    then have "current_epoch s \<le> epoch" by simp
    from finalize_epoch_advances [OF soundD(1) [OF assms] True this] True False show ?thesis by auto
  qed (simp add: True finalize_epoch_past [OF soundD(1) [OF assms] True])
qed (simp add: finalize_epoch_refuses)

theorem finalize_epoch_effect_witness:
  "may_close 1 sample_elapsed \<and> (\<exists>s'. finalize_epoch 1 sample_elapsed = (Inr (EpochFinalized 1), s') \<and> current_epoch s' = 2)"
proof -
  have may: "may_close 1 sample_elapsed"
    using sample_finalized_run finalize_epoch_refuses [of 1 sample_elapsed] by (metis Inl_Inr_False prod.inject)
  moreover have "\<not> 1 < current_epoch sample_elapsed"
    by (simp add: sample_elapsed_eq sample_committed_eq sample_start_eq)
  ultimately show ?thesis
    using finalize_epoch_effect [OF sample_sound(5), of 1] by auto
qed

text \<open>
  C10. Finality holds: no challenge can be opened against a finalized epoch, at any later height
  and whatever the transaction says. The transaction is refused and nothing is locked.
\<close>

theorem no_challenge_after_finality:
  assumes "sound s" "is_epoch_finalized (store s) (ch_epoch_id (oc_challenge tx))"
  shows "\<exists>e. apply_open_challenge env tx s = (Inl e, s)"
proof (rule apply_open_challenge_rule, goal_cases)
  case (2 c commit challenger)
  from soundD(2) [OF assms(1)] assms(2) 2(1) obtain commit' where
    "epoch_commit (store s) (ch_epoch_id c) = Some commit'" "ec_challenge_deadline_height commit' < height s"
    by (auto simp: settled_def)
  with 2(6-8) have False by simp
  then show ?case ..
qed simp

theorem no_challenge_after_finality_witness:
  "is_epoch_finalized (store sample_finalized) 1
    \<and> (\<exists>e. apply_open_challenge sample_env sample_challenge_tx sample_finalized = (Inl e, sample_finalized))"
proof -
  have "is_epoch_finalized (store sample_finalized) 1"
    by (simp add: sample_finalized_run is_epoch_finalized_def)
  with no_challenge_after_finality [OF sample_sound(6), of sample_challenge_tx sample_env] show ?thesis
    by (simp add: sample_challenge_tx_def)
qed



section \<open>Governance\<close>



text \<open>
  C13. The verdict on a proposal is the arithmetic one. When the voting power recorded for the
  proposal stays below \<open>2^128 / 10000\<close> and there are fewer than \<open>2^32\<close> votes, the proposal passes
  exactly when someone voted, the participating power reaches the quorum share of the total of
  all accounts, some of it was not an abstention, and the yes power reaches the approval share
  of yes and no together. The wrapping sums, the saturating products and the floored quotients
  of the code introduce no error.
\<close>

theorem proposal_passes_iff_majority:
  fixes s :: protocol_state and pid :: hash32 and p :: governance_proposal
  defines "vs \<equiv> vote_records_for_proposal (store s) pid"
  assumes "sound s" "10000 * power_for UNIV vs < 2 ^ 128" "length vs < 2 ^ 32"
  shows "proposal_passes s pid p \<longleftrightarrow>
      vs \<noteq> [] \<and> 0 < total_supply (store s)
    \<and> unat (required_quorum_bps (pp_governance (params s)) (gp_kind p)) * total_supply (store s)
        \<le> 10000 * power_for UNIV vs
    \<and> 0 < power_for {VoteYes, VoteNo} vs
    \<and> unat (required_approval_bps (pp_governance (params s)) (gp_kind p)) * power_for {VoteYes, VoteNo} vs
        \<le> 10000 * power_for {VoteYes} vs"
  using proposal_passes_iff [OF solvent_parts(1) [OF soundD(1) [OF assms(2)]] assms(3,4) [unfolded vs_def], of p]
  by (simp add: majority_def vs_def)

theorem proposal_passes_iff_majority_witness:
  "vote_records_for_proposal (store sample_proposed) 800 = [] \<and> \<not> proposal_passes sample_proposed 800 sample_pending"
  using proposal_passes_iff_majority [OF sample_sound(7), of 800 sample_pending] sample_no_votes by simp

text \<open>
  C14. Closing an epoch takes the parameters scheduled for exactly the next epoch. When
  \<open>finalize_epoch\<close> closes an epoch beyond the current one, every parameter set scheduled for an
  epoch in between is passed over: it does not come into force, it stays in the table under an
  epoch that now lies in the past, and an approved proposal for that epoch stays \<open>Scheduled\<close>
  without being activated.
\<close>

theorem skipped_epoch_params_never_activate:
  assumes "sound s" "may_close epoch s" "current_epoch s < skipped" "skipped \<le> epoch" "unat epoch < 2 ^ 64 - 1"
    and "scheduled_params_for (store s) skipped = Some q"
    and "params_update_proposal (store s) pid = Some p" "gp_state p = ProposalScheduled" "gp_effective_epoch p = skipped"
  shows "\<exists>s'. finalize_epoch epoch s = (Inr (EpochFinalized epoch), s') \<and> skipped < current_epoch s'
    \<and> params s' = scheduled_at (epoch + 1) s \<and> scheduled_params_for (store s') skipped = Some q
    \<and> params_update_proposal (store s') pid = Some p"
proof -
  have le: "current_epoch s \<le> epoch" using assms(3,4) by simp
  from finalize_epoch_advances [OF soundD(1) [OF assms(1)] assms(2) le] obtain s' where s':
    "finalize_epoch epoch s = (Inr (EpochFinalized epoch), s')" "current_epoch s' = epoch + 1"
    "params s' = scheduled_at (epoch + 1) s"
    "scheduled_protocol_params (store s') = bt_remove (epoch + 1) (scheduled_protocol_params (store s))"
    "params_update_proposal (store s') pid =
       map_option (close_proposal (epoch + 1) (store s)) (params_update_proposal (store s) pid)"
    by blast
  have "unat (epoch + 1) = unat epoch + 1"
    using assms(5) by (subst unat_add_exact) simp_all
  then have "epoch < epoch + 1" by (simp add: word_less_nat_alt)
  then have later: "skipped < epoch + 1" using assms(4) by simp
  then have "scheduled_params_for (store s') skipped = Some q"
    using s'(4) assms(6) by (simp add: scheduled_params_for_def)
  moreover have "close_proposal (epoch + 1) (store s) p = p"
    using assms(8,9) later by (auto simp: close_proposal_def expire_one_def activate_one_def stale_def)
  ultimately show ?thesis using s' later assms(7) by auto
qed

theorem skipped_epoch_params_never_activate_witness:
  "\<exists>s'. finalize_epoch 3 sample_skipping = (Inr (EpochFinalized 3), s') \<and> 2 < current_epoch s'
    \<and> scheduled_params_for (store s') 2 = Some default_protocol_params"
  using skipped_epoch_params_never_activate [OF sample_skipping_sound, of 3 2 default_protocol_params 800]
    sample_skipping_run by (auto simp: sample_pending_def may_close_def)

section \<open>Single transactions\<close>



text \<open>
  An unbond that succeeds moves exactly the amount from the delegator's stake to its locked
  funds, reduces the delegation and the operator's bond by it, and appends one request to the
  queue that unlocks \<open>unbonding_blocks\<close> after the current height. From then on a block at height
  \<open>h\<close> leaves the request in the queue exactly while \<open>h\<close> is below the unlock height.
\<close>

theorem unbond_queues_until_unlock_height:
  assumes "sound s" "apply_unbond env tx s = (Inr e, s')"
  shows "(\<exists>x y d n. unbond_moved s tx e s' x y d n)
    \<and> (\<forall>h > height s. last (unbonding_queue (store s'))
          \<in> set (unbonding_queue (store (snd (execute_block env \<lparr>blk_height = h, blk_transactions = []\<rparr> s'))))
        \<longleftrightarrow> h < height s + ucast (unbonding_blocks (params s)))"
proof -
  from unbond_effect [OF soundD(1) [OF assms(1)] assms(2)] obtain x y d n where fx: "unbond_moved s tx e s' x y d n"
    by blast
  have "sound s'" "height s' = height s"
    using sound_blocks.transaction_keeps [OF assms(1), of env "Unbond tx"]
      apply_transaction_steady [of s env "Unbond tx"] assms(2) by (simp_all add: steady_def)
  then have "unbonding_queue (store (snd (execute_block env \<lparr>blk_height = h, blk_transactions = []\<rparr> s')))
      = filter (\<lambda>r. h < ub_unlock_height r) (unbonding_queue (store s'))" if "height s < h" for h
    using empty_block_queue [OF soundD(1), of s' h env] that by simp
  with fx show ?thesis by (auto simp: unbond_moved_def Let_def)
qed

theorem unbond_queues_until_unlock_height_witness:
  "apply_unbond sample_env sample_unbond_tx sample_committed = (Inr (UnbondQueued bob alice 200 16), sample_unbonding)
    \<and> (\<exists>x y d n. unbond_moved sample_committed sample_unbond_tx (UnbondQueued bob alice 200 16) sample_unbonding x y d n)"
  using unbond_queues_until_unlock_height [OF sample_sound(2), of sample_env sample_unbond_tx] sample_unbonding_run by blast

text \<open>
  C17. Stake on a slashed operator. When an operator's bond has been slashed below what a
  delegator wants back, \<open>apply_unbond\<close> returns \<open>InsufficientBond\<close> but has already moved the amount
  from the delegator's stake to its locked funds and consumed the nonce, while the delegation is
  unchanged and no request is queued: the locked amount has no request that would release it.
\<close>

theorem unbond_from_slashed_operator_strands_stake:
  assumes "authorised env (Unbond tx)" "0 < ut_amount tx"
    and "delegation (store s) (ut_delegator tx, ut_operator tx) = Some d" "ut_amount tx \<le> dl_amount d"
    and "account (store s) (ut_delegator tx) = Some x" "acc_nonce x = ut_nonce tx" "ut_amount tx \<le> acc_staked x"
    and "node (store s) (ut_operator tx) = Some n" "nr_bond n < ut_amount tx"
  shows "\<exists>s'. apply_unbond env tx s = (Inl (InsufficientBond (nr_node_id n) (ut_amount tx) (nr_bond n)), s')
    \<and> account (store s') (ut_delegator tx) = Some (x\<lparr>acc_staked := acc_staked x - ut_amount tx,
        acc_locked := acc_locked x + ut_amount tx, acc_nonce := acc_nonce x + 1\<rparr>)
    \<and> delegations (store s') = delegations (store s) \<and> unbonding_queue (store s') = unbonding_queue (store s)"
proof -
  have "ut_amount tx \<noteq> 0" using assms(2) by auto
  moreover have "\<not> dl_amount d < ut_amount tx" "\<not> acc_staked x < ut_amount tx" using assms(4,7) by simp_all
  ultimately show ?thesis
    using assms by (simp add: apply_unbond_def authorised_def ensure_signature_def ensure_positive_amount_def ok_or_def
        ensure_nonce_def ensure_bond_def node_def account_def delegation_def store_writes)
qed

theorem unbond_from_slashed_operator_strands_stake_witness:
  "\<exists>s' e. apply_unbond sample_env sample_unbond_tx sample_slashed = (Inl e, s')
    \<and> account (store s') bob = Some \<lparr>acc_address = bob, acc_balance = 49540, acc_staked = 300, acc_locked = 200, acc_nonce = 2\<rparr>
    \<and> unbonding_queue (store s') = unbonding_queue (store sample_slashed)"
proof -
  obtain n where n: "node (store sample_slashed) alice = Some n" "nr_bond n = 100"
    using sample_slashed_state by blast
  have "authorised sample_env (Unbond sample_unbond_tx)"
    by (simp add: authorised_def sample_unbond_tx_def)
  from unbond_from_slashed_operator_strands_stake [OF this, of sample_slashed
      "\<lparr>dl_delegator = bob, dl_operator = alice, dl_amount = 500\<rparr>"
      "\<lparr>acc_address = bob, acc_balance = 49540, acc_staked = 500, acc_locked = 0, acc_nonce = 1\<rparr>" n] n sample_slashed_state
  show ?thesis by (auto simp: sample_unbond_tx_def)
qed

text \<open>
  C18. Errors of the other transactions are atomic: a stake, claim, batch submission, epoch
  commit, challenge or challenge response that is refused leaves the state exactly as it was.
\<close>

theorem refused_transaction_changes_nothing:
  assumes "apply_transaction env tx s = (Inl e, s')"
    and "case tx of Transfer _ \<Rightarrow> False | Unbond _ \<Rightarrow> False | Vote _ \<Rightarrow> False
      | ProposeProtocolParamsUpdate _ \<Rightarrow> False | _ \<Rightarrow> True"
  shows "s' = s"
proof -
  have "\<not> isl (fst (apply_transaction env tx s)) \<or> snd (apply_transaction env tx s) = s"
  proof (cases tx)
    case (Transfer tx') with assms(2) show ?thesis by simp
  next
    case (Unbond tx') with assms(2) show ?thesis by simp
  next
    case (Vote tx') with assms(2) show ?thesis by simp
  next
    case (ProposeProtocolParamsUpdate tx') with assms(2) show ?thesis by simp
  qed (simp only: apply_transaction.simps,
      rule transition_rules [where Q = "\<lambda>r. \<not> isl (fst r) \<or> snd r = s"]; simp)+
  with assms(1) show ?thesis by simp
qed

theorem refused_transaction_changes_nothing_witness:
  "\<exists>e s'. apply_transaction sample_env (ClaimReward sample_claim_tx) sample_start = (Inl e, s') \<and> s' = sample_start"
proof -
  obtain s' where run: "apply_transaction sample_env (ClaimReward sample_claim_tx) sample_start = (Inl (EpochNotFinalized 1), s')"
    by (simp add: sample_eval apply_claim_reward_def sample_claim_tx_def)
  with refused_transaction_changes_nothing [OF run] show ?thesis by simp
qed

section \<open>Parameters\<close>

text \<open>
  \<open>ProtocolParams::validate\<close> accepts exactly the parameter sets that satisfy all of the
  documented conditions: nothing that has to be positive is zero, the four service shares sum to
  10000 and the player and service allocations to 9000 basis points (as natural numbers, so no
  wrap-around can fake the sums), the per-application overrides are positive and strictly
  increasing in the application id, the governance shares lie between 1 and 10000, and the
  mutual proof settings are in range.
\<close>

theorem validate_accepts_exactly_valid_params:
  "validate p = Inr () \<longleftrightarrow> valid_params p"
  by (rule validate_iff)

section \<open>Hashes and Merkle roots\<close>

text \<open>
  \<open>stable_hash32\<close> separates inputs that differ in one byte: changing a single byte anywhere in
  the input, with the rest unchanged, always changes the hash. (Each round of each lane is a
  permutation of the accumulator and of the byte.)
\<close>

theorem stable_hash32_detects_single_byte_change:
  "stable_hash32 (xs @ b # ys) = stable_hash32 (xs @ c # ys) \<longleftrightarrow> b = c"
  using stable_hash32_first_lane [of "xs @ b # ys" "xs @ c # ys"] by (auto simp: hash_lane_byte_inj)

text \<open>
  C21. A Merkle root binds the list of leaves of a given length: if two lists of the same length
  have the same root, then either they are equal or SHA-256 maps two different of the byte
  strings hashed on the way to the same digest.
\<close>

theorem merkle_root_binds_leaves:
  assumes "length xs = length ys" "merkle_root sha256 xs = merkle_root sha256 ys" "xs \<noteq> ys"
  shows "\<exists>m m'. m \<noteq> m' \<and> sha256 m = sha256 m'
    \<and> {m, m'} \<subseteq> set (merkle_inputs sha256 xs) \<union> set (merkle_inputs sha256 ys)"
proof (rule ccontr)
  assume no: "\<not> ?thesis"
  then have "inj_on sha256 (set (merkle_inputs sha256 xs) \<union> set (merkle_inputs sha256 ys))"
    unfolding inj_on_def by blast
  moreover have "xs \<noteq> []" "ys \<noteq> []" using assms(1,3) by auto
  ultimately have "xs = ys"
    using assms(1,2) by (intro merkle_climb_binding [of xs ys sha256]) (simp_all add: merkle_root_def)
  with assms(3) show False ..
qed

theorem merkle_root_binds_leaves_witness:
  "merkle_root (\<lambda>_. 0) [1, 2] = merkle_root (\<lambda>_. 0) [2, 1]
    \<and> (\<exists>m m' :: byte_vec. m \<noteq> m' \<and> (\<lambda>_. 0 :: bytes32) m = (\<lambda>_. 0) m')"
proof -
  have "merkle_root (\<lambda>_. 0) [1, 2] = merkle_root (\<lambda>_. 0) [2, 1]"
    by (simp add: merkle_root_def merkle_climb_step)
  with merkle_root_binds_leaves [of "[1, 2]" "[2, 1]" "\<lambda>_. 0"] show ?thesis by auto
qed

text \<open>
  Without the leaf count the root is ambiguous: because an odd level repeats its last node,
  a list with an odd number of leaves (at least three) has the same root as the list with its last
  leaf appended once more, whatever the hash function. The two lists differ in length, which is
  why a commitment carries \<open>leaf_count\<close>.
\<close>

theorem merkle_root_repeats_last_leaf:
  assumes "odd (length xs)" "1 < length xs"
  shows "merkle_root sha256 (xs @ [last xs]) = merkle_root sha256 xs"
  using merkle_climb_repeat_last [OF assms, of sha256] assms by (auto simp: merkle_root_def)

theorem merkle_root_repeats_last_leaf_witness:
  "odd (length [1, 2, 3 :: bytes32]) \<and> 1 < length [1, 2, 3 :: bytes32]
   \<and> (\<forall>sha256. merkle_root sha256 [1, 2, 3, 3] = merkle_root sha256 [1, 2, 3])"
  using merkle_root_repeats_last_leaf [of "[1, 2, 3]"] by simp

section \<open>Tokenomics and rewards\<close>

text \<open>
  C23. \<open>integer_sqrt\<close> terminates and returns the floor of the square root for every \<open>u128\<close> except the
  largest one. For \<open>u128::MAX\<close> the first Newton step wraps to zero and the next one divides by it:
  the call panics, and this is the only input for which it does.
\<close>

theorem integer_sqrt_is_floor_or_panics:
  "if v = - 1 then integer_sqrt v = None
   else \<exists>r. integer_sqrt v = Some r \<and> unat r * unat r \<le> unat v \<and> unat v < Suc (unat r) * Suc (unat r)"
  using integer_sqrt_floor [of v] integer_sqrt_max by simp

text \<open>
  The yearly emission adjustment. The activity factor is always within the configured cap of
  one million (parts per million), and computing it panics exactly when the current weight is 1
  and the target weight is so large that \<open>target * 10^12\<close> reaches \<open>u128::MAX\<close>.
\<close>

theorem activity_factor_is_capped:
  "case annual_emission_activity_factor target current cap of
     None \<Rightarrow> current = 1 \<and> 2 ^ 128 - 1 \<le> unat target * 1000000000000
   | Some f \<Rightarrow> \<not> (current = 1 \<and> 2 ^ 128 - 1 \<le> unat target * 1000000000000)
       \<and> 1000000 - 100 * unat (min cap 10000) \<le> unat f \<and> unat f \<le> 1000000 + 100 * unat (min cap 10000)"
proof (cases "annual_emission_activity_factor target current cap")
  case None
  with activity_factor_panics_iff [of target current cap] show ?thesis by simp
next
  case (Some f)
  with activity_factor_panics_iff [of target current cap] activity_factor_band [OF Some] show ?thesis by auto
qed

text \<open>
  C25. The default emission schedule has the closed form 500 million after three years plus 20
  million for each later year. The tail never ends, so the cumulative emission passes
  \<open>TOTAL_SUPPLY\<close>: it is still within it after 28 years and exceeds it in every schedule of 29
  years or more.
\<close>

theorem default_emission_exceeds_supply_from_year_29:
  assumes "3 \<le> n" "n < 2 ^ 32"
  shows "unat (sched_cumulative_emission (last (annual_emission_schedule (word_of_nat n)))) = 500000000 + (n - 3) * 20000000
    \<and> (TOTAL_SUPPLY < sched_cumulative_emission (last (annual_emission_schedule (word_of_nat n))) \<longleftrightarrow> 29 \<le> n)"
  using default_cumulative [OF assms] assms(1) by (auto simp: word_less_nat_alt TOTAL_SUPPLY_def)

theorem default_emission_exceeds_supply_from_year_29_witness:
  "TOTAL_SUPPLY < sched_cumulative_emission (last (annual_emission_schedule 29))"
  using default_emission_exceeds_supply_from_year_29 [of 29] by simp

text \<open>
  C26. The game value score. With tier weight and time decay of at most 100 % and a coverage bonus
  of at most 125 % in parts per million (which is what the code computes for at most 85880
  collectors), the score is the exact floored product of base value and the three factors,
  capped at \<open>u64::MAX\<close>: the saturating multiplications on \<open>u128\<close> never saturate.
\<close>

theorem gvs_score_is_exact:
  assumes "unat (snd (classify_tier activated collectors players)) \<le> 1000000"
    and "unat collectors \<le> 85880" "unat slots < 2 ^ 46"
  shows "let f = compute_gvs_factors activated slots slot collectors players in
    unat (gf_gvs_microunits f)
      = min (unat (gf_base_glv_microunits f) * unat (gf_tier_weight_ppm f) * unat (gf_time_decay_ppm f)
          * unat (gf_coverage_bonus_ppm f) div 10 ^ 18) (2 ^ 64 - 1)
    \<and> unat (gf_coverage_bonus_ppm f) = min (1000000 + 50000 * (unat collectors - 1)) 1250000
    \<and> 850000 \<le> unat (gf_time_decay_ppm f) \<and> unat (gf_time_decay_ppm f) \<le> 1000000"
proof -
  have "unat (compute_coverage_bonus_ppm collectors) \<le> 1250000"
    using coverage_bonus_bounds [OF assms(2)] by simp
  with gvs_microunits_exact [OF assms(1) time_decay_bounds(2) [OF assms(3)]] time_decay_bounds [OF assms(3)]
    coverage_bonus_bounds [OF assms(2)] show ?thesis
    by (simp add: compute_gvs_factors_def Let_def case_prod_unfold)
qed

theorem gvs_score_is_exact_witness:
  "unat (gf_gvs_microunits (compute_gvs_factors None 12 12 3 2000)) = 2200000000"
proof -
  have "unat (snd (classify_tier None 3 2000)) \<le> 1000000"
    by (simp add: classify_tier_def Let_def TIER1_MIN_COLLECTORS_def TIER1_MIN_PLAYERS_def)
  from gvs_score_is_exact [OF this, of 12 12] show ?thesis
    by (simp add: compute_gvs_factors_def Let_def classify_tier_def TIER1_MIN_COLLECTORS_def TIER1_MIN_PLAYERS_def
        compute_time_decay_ppm_def compute_coverage_bonus_ppm_def PPM_DENOMINATOR_def saturating_mul_def saturating_sub_def
        case_prod_unfold)
qed

text \<open>
  C27. \<open>allocate_proportional\<close> distributes the pool completely and fairly. When the weights are not
  all zero and the products \<open>pool * weight\<close> fit \<open>u128\<close>, the allocations add up to exactly the pool,
  exactly the nodes with a weight entry receive one, and each share is the floor of the
  proportional share or one more.
\<close>

theorem allocate_proportional_is_exact:
  assumes "fitting pool weights"
  shows "bt_total unat (allocate_proportional weights pool) = unat pool
    \<and> (\<forall>k. case bt_get weights k of
          None \<Rightarrow> bt_get (allocate_proportional weights pool) k = None
        | Some w \<Rightarrow> \<exists>v. bt_get (allocate_proportional weights pool) k = Some v
            \<and> unat pool * unat w div bt_total unat weights \<le> unat v
            \<and> unat v \<le> unat pool * unat w div bt_total unat weights + 1)"
proof -
  have t: "unat (sum_list (bt_values weights)) = bt_total unat weights"
    using assms by (subst unat_sum_list) (simp_all add: fitting_def bt_total_def)
  have "case bt_get weights k of
          None \<Rightarrow> bt_get (allocate_proportional weights pool) k = None
        | Some w \<Rightarrow> \<exists>v. bt_get (allocate_proportional weights pool) k = Some v
            \<and> unat pool * unat w div bt_total unat weights \<le> unat v
            \<and> unat v \<le> unat pool * unat w div bt_total unat weights + 1" for k
    using allocate_proportional_share [OF assms, of k] by (auto simp: floor_share_def t split: option.split)
  with allocate_proportional_total [OF assms] show ?thesis by blast
qed

theorem allocate_proportional_is_exact_witness:
  "bt_total unat (allocate_proportional (bt_insert 7 1 (bt_insert 8 2 bt_empty)) 100) = 100"
proof -
  have "fitting 100 (bt_insert 7 1 (bt_insert 8 2 bt_empty) :: (bytes32, amount) btree_map)"
    by (auto simp: fitting_def bt_total_def bt_values_def split: if_splits)
  from allocate_proportional_is_exact [OF this] show ?thesis by simp
qed

text \<open>
  \<open>allocate_witness_rewards\<close> distributes the whole pool as soon as some witness has credit and
  the products \<open>pool * credit\<close> fit \<open>u128\<close>.
\<close>

theorem witness_rewards_are_fully_distributed:
  assumes "witness_fitting pool credits"
  shows "bt_total unat (allocate_witness_rewards credits pool) = unat pool"
  using assms by (rule allocate_witness_rewards_total)

theorem witness_rewards_are_fully_distributed_witness:
  "bt_total unat (allocate_witness_rewards (bt_insert ''a'' 1 (bt_insert ''b'' 2 bt_empty)) 100) = 100"
proof -
  have "witness_fitting 100 (bt_insert ''a'' 1 (bt_insert ''b'' 2 bt_empty))"
    by (auto simp: witness_fitting_def bt_total_def bt_values_def split: if_splits)
  from witness_rewards_are_fully_distributed [OF this] show ?thesis by simp
qed

section \<open>The retention book\<close>

text \<open>
  C29. Recording a payload keeps the book within its quota: whatever the call returns, the used
  bytes are the sum of the sizes of the stored payloads and do not exceed the quota. (The quota
  must not be \<open>u64::MAX\<close>, where the saturating check would let the counter wrap.) A record that the
  call creates passes all four checks of \<open>validate_stored_payload_record\<close>.
\<close>

theorem recorded_payloads_stay_within_quota:
  assumes "within_quota book"
  shows "let r = record_payload env storer epoch n cid hash size_bytes book in
    within_quota (snd r) \<and> rb_quota_bytes (snd r) = rb_quota_bytes book
    \<and> (case fst r of
         Inl _ \<Rightarrow> snd r = book
       | Inr rec \<Rightarrow> bt_get (rb_payloads (snd r)) cid = Some rec
           \<and> (bt_get (rb_payloads book) cid = None \<longrightarrow> validate_stored_payload_record env rec =
                Inr \<lparr>payload_matches = True, epoch_matches = True, retention_matches = True, signature_matches = True\<rparr>))"
proof -
  let ?r = "record_payload env storer epoch n cid hash size_bytes book"
  have "rb_quota_bytes (snd ?r) = rb_quota_bytes book \<and> (case fst ?r of Inl _ \<Rightarrow> snd ?r = book
      | Inr rec \<Rightarrow> bt_get (rb_payloads (snd ?r)) cid = Some rec)"
    by (rule record_payload_rule) simp_all
  moreover have "validate_stored_payload_record env rec =
      Inr \<lparr>payload_matches = True, epoch_matches = True, retention_matches = True, signature_matches = True\<rparr>"
    if "fst ?r = Inr rec" "bt_get (rb_payloads book) cid = None" for rec
    using that by (intro record_payload_validates [of env storer epoch n cid hash size_bytes book rec "snd ?r"])
      (simp_all add: prod_eq_iff)
  ultimately show ?thesis
    using record_payload_quota [OF assms, of env storer epoch n cid hash size_bytes]
    by (auto simp: Let_def split: sum.splits)
qed

theorem recorded_payloads_stay_within_quota_witness:
  "within_quota (with_quota_gb 1)
    \<and> within_quota (snd (record_payload \<lparr>hex_encode = \<lambda>_. [], receipt_encode = \<lambda>_ _ _ _ _ _. Inr [], book_parse = \<lambda>_. Inl []\<rparr>
        1 2 3 ''cid'' 4 100 (with_quota_gb 1)))"
proof -
  have "within_quota (with_quota_gb 1)"
    by (simp add: within_quota_def with_quota_gb_def gigabytes_def stored_bytes_def)
  with recorded_payloads_stay_within_quota [OF this] show ?thesis by (simp add: Let_def)
qed

text \<open>
  Pruning removes exactly the payloads whose retention has ended, returns them in key order,
  and gives exactly their bytes back to the quota.
\<close>

theorem pruning_removes_exactly_the_expired:
  assumes "within_quota book"
  shows "let (removed, book') = prune_expired current book in
    removed = filter (\<lambda>r. sp_retention_until_epoch r < current) (bt_values (rb_payloads book))
    \<and> (\<forall>k. bt_get (rb_payloads book') k = (case bt_get (rb_payloads book) k of None \<Rightarrow> None
          | Some r \<Rightarrow> if sp_retention_until_epoch r < current then None else Some r))
    \<and> within_quota book' \<and> unat (rb_used_bytes book') + (\<Sum>r\<leftarrow>removed. unat (sp_size_bytes r)) = unat (rb_used_bytes book)"
proof -
  obtain removed book' where run: "prune_expired current book = (removed, book')" by force
  note spec = prune_expired_spec [OF assms run]
  have "unat (rb_used_bytes book') = stored_bytes book'" "unat (rb_used_bytes book) = stored_bytes book"
    using spec(1) assms by (simp_all add: within_quota_def)
  with spec run show ?thesis by (simp add: Let_def)
qed

theorem pruning_removes_exactly_the_expired_witness:
  "let env = \<lparr>hex_encode = \<lambda>_. [], receipt_encode = \<lambda>_ _ _ _ _ _. Inr [], book_parse = \<lambda>_. Inl []\<rparr>;
       book = snd (record_payload env 1 2 3 ''cid'' 4 100 (with_quota_gb 1)) in
   within_quota book \<and> map sp_payload_cid (fst (prune_expired 9 book)) = [''cid'']"
proof -
  let ?env = "\<lparr>hex_encode = \<lambda>_. [], receipt_encode = \<lambda>_ _ _ _ _ _. Inr [], book_parse = \<lambda>_. Inl []\<rparr>"
  let ?book = "snd (record_payload ?env 1 2 3 ''cid'' 4 100 (with_quota_gb 1))"
  have "within_quota (with_quota_gb 1)"
    by (simp add: within_quota_def with_quota_gb_def gigabytes_def stored_bytes_def)
  then have ok: "within_quota ?book" by (rule record_payload_quota)
  have "map sp_payload_cid (filter (\<lambda>r. sp_retention_until_epoch r < 9) (bt_values (rb_payloads ?book))) = [''cid'']"
    by (simp add: record_payload_def with_quota_gb_def gigabytes_def development_receipt_signature_def Let_def
        saturating_add_def bt_values_def)
  with pruning_removes_exactly_the_expired [OF ok, of 9] ok show ?thesis
    by (simp add: Let_def case_prod_unfold)
qed

section \<open>From observations to batches\<close>

text \<open>
  C31. A batch that the builder seals is one the chain accepts. Whatever observations were pushed
  (fewer than \<open>2^32\<close>), if \<open>finalize\<close> returns a batch then \<open>apply_submit_batch\<close> accepts its commit from the
  collector, provided that the transaction is signed with the collector's key, the epoch is not
  over, the collector is an active node with the collect capability and has not submitted this
  batch before.
\<close>

theorem sealed_batch_is_accepted:
  assumes "built epoch collector b" "finalize_batch env b h = Inr a" "length (bb_observations b) < 2 ^ 32"
    and "sb_batch_commit tx = ab_batch_commit a" "stable_hash32 (to_bytes32 (sb_pubkey tx)) = collector"
    and "verify_signature cenv (sb_pubkey tx) (signing_payload (encode_tx cenv) (SubmitBatch tx)) (sb_signature tx)"
    and "current_epoch s \<le> epoch"
    and "node (store s) collector = Some n" "nr_status n = NodeActive" "Collect \<in> set (nr_enabled_capabilities n)"
    and "batch (store s) (epoch, nr_node_id n, mc_root (bc_batch (ab_batch_commit a))) = None"
  shows "fst (apply_submit_batch cenv tx s) = Inr (BatchAccepted (epoch, nr_node_id n, mc_root (bc_batch (ab_batch_commit a))))"
  using assms by (rule sealed_batch_accepted)

theorem sealed_batch_is_accepted_witness:
  "fst (apply_submit_batch sample_env sample_sealed_tx sample_start)
     = Inr (BatchAccepted (1, alice, mc_root (bc_batch (ab_batch_commit sample_sealed))))"
proof -
  have "verify_signature sample_env 1 (signing_payload (encode_tx sample_env) (SubmitBatch sample_sealed_tx)) (sample_signature 1)"
    by (simp add: verify_signature_def sample_env_def sample_signature_def)
  moreover have "node (store sample_start) alice = Some sample_node" "current_epoch sample_start = 1"
    "batch (store sample_start) k = None" for k
    by (simp_all add: sample_eval)
  ultimately show ?thesis
    using sealed_batch_is_accepted [OF sample_builder_built sample_sealed_run, of sample_sealed_tx sample_env sample_start sample_node]
    by (simp add: sample_builder_observations sample_sealed_tx_def sample_node_def)
qed

text \<open>
  C32. Saving the store is atomic. Whatever file operation fails during \<open>flush\<close>, the file at the path of
  the store is the old one if \<open>flush\<close> returned an error, and opening it then gives what it gave
  before; if \<open>flush\<close> returned success, opening the path gives back exactly the store that was
  saved. No file besides the snapshot and its temporary file is touched. The hypotheses are that
  Borsh decodes what it encoded and that the path does not itself end in \<open>.tmp\<close>.
\<close>

theorem flush_is_atomic:
  assumes "decodes_back codec" "pb_extension (ps_path ps) \<noteq> Some ''tmp''" "flush codec faults ps d = (r, d')"
  shows "open_store codec no_faults (ps_path ps) d' =
      (case r of Inl _ \<Rightarrow> open_store codec no_faults (ps_path ps) d | Inr _ \<Rightarrow> Inr ps)
    \<and> (\<forall>p. p = ps_path ps \<or> p = with_extension (ps_path ps) ''tmp'' \<or> files d' p = files d p)"
  using reopen_after_flush [OF assms] flush_files(2) [OF assms(2,3)] by blast

theorem flush_is_atomic_witness:
  "let codec = \<lparr>encode_store = (\<lambda>st. if st = default_store then Inr [1] else Inl ''unsupported''),
         decode_store = (\<lambda>bytes. if bytes = [1] then Inr default_store else Inl ''unknown'')\<rparr>;
       ps = \<lparr>ps_path = \<lparr>pb_parent = [''data''], pb_stem = ''store'', pb_extension = Some ''bin''\<rparr>, ps_inner = default_store\<rparr>;
       d = \<lparr>files = Map.empty, directories = {}\<rparr>
   in open_store codec no_faults (ps_path ps) (snd (flush codec no_faults ps d)) = Inr ps"
proof -
  let ?codec = "\<lparr>encode_store = (\<lambda>st. if st = default_store then Inr [1] else Inl ''unsupported''),
         decode_store = (\<lambda>bytes. if bytes = [1] then Inr default_store else Inl ''unknown'')\<rparr>"
  let ?ps = "\<lparr>ps_path = \<lparr>pb_parent = [''data''], pb_stem = ''store'', pb_extension = Some ''bin''\<rparr>, ps_inner = default_store\<rparr>"
  let ?d = "\<lparr>files = Map.empty, directories = {}\<rparr> :: disk"
  have codec: "decodes_back ?codec" by (simp add: decodes_back_def)
  obtain r d' where run: "flush ?codec no_faults ?ps ?d = (r, d')" by force
  have "fst (flush ?codec no_faults ?ps ?d) = Inr ()" by (rule flush_succeeds) simp
  with run have "r = Inr ()" by simp
  with flush_is_atomic [OF codec _ run] run show ?thesis by (simp add: Let_def)
qed

text \<open>
  Identifiers survive their text form. Decoding the hexadecimal text of a 32-byte value gives the
  value back, and decoding accepts exactly the texts of 64 hexadecimal digits, of either case;
  what it accepts it reads as the value whose text is the lower-case form of the input.
\<close>

theorem hex_text_round_trip:
  "decode_hex_32 (hex_32 w) field = Inr w
    \<and> (case decode_hex_32 s field of
         Inl _ \<Rightarrow> \<not> (length s = 64 \<and> list_all hex_char s)
       | Inr v \<Rightarrow> length s = 64 \<and> list_all hex_char s \<and> hex_32 v = map lower_hex s)"
  using decode_hex_32_hex_32 decode_hex_32_spec by blast

section \<open>Aggregation\<close>




text \<open>
  C35. A minority of collectors cannot move the median. If more than half of the collectors of a group
  report (in the observation that is kept for them) a number of players between \<open>a\<close> and \<open>b\<close>, then
  the median of the aggregate record lies between \<open>a\<close> and \<open>b\<close>, whatever the others report and
  although the two extreme observations are dropped.
\<close>

theorem honest_majority_bounds_median:
  fixes inputs :: "aggregate_input list"
  defines "kept \<equiv> deduplicate_by_collector inputs"
  assumes "2 * length (filter (\<lambda>i. \<not> (a \<le> players_of i \<and> players_of i \<le> b)) kept) < length kept" "b < 2 ^ 63"
  shows "let r = eg_aggregate (aggregate_group env config epoch key inputs)
    in a \<le> ar_median_players r \<and> ar_median_players r \<le> b"
  using honest_majority_median [OF assms(2,3)] by (simp add: aggregate_group_def Let_def case_prod_unfold kept_def)

theorem honest_majority_bounds_median_witness:
  "let r = eg_aggregate (aggregate_group sample_aggregation_env default_node_config 1 (3, 730)
     [sample_input 1 100, sample_input 2 110, sample_input 3 9999])
   in 100 \<le> ar_median_players r \<and> ar_median_players r \<le> 110"
proof -
  let ?is = "[sample_input 1 100, sample_input 2 110, sample_input 3 9999]"
  have "deduplicate_by_collector ?is = ?is"
    by (simp add: deduplicate_by_collector_def select_input_def bt_values_def sample_input_def sample_observation_def)
  moreover have "2 * length (filter (\<lambda>i. \<not> (100 \<le> players_of i \<and> players_of i \<le> 110)) ?is) < length ?is"
    by (simp add: sample_input_def sample_observation_def)
  ultimately show ?thesis
    using honest_majority_bounds_median [of 100 110 ?is sample_aggregation_env default_node_config 1 "(3, 730)"] by simp
qed

text \<open>
  The result of the aggregation does not depend on the order in which the batches are read from
  the disk, as long as no collector has two different observations of the same rank.
\<close>

theorem aggregation_ignores_batch_order:
  assumes "mset loaded = mset loaded'"
    and "\<forall>i \<in> set (epoch_inputs env epoch loaded). \<forall>j \<in> set (epoch_inputs env epoch loaded).
      collector_of i = collector_of j \<longrightarrow> candidate_rank i = candidate_rank j \<longrightarrow> i = j"
    and "compute_local_epoch_aggregation env config epoch loaded = Inr result"
  shows "compute_local_epoch_aggregation env config epoch loaded' = Inr result"
  using assms by (rule aggregation_order_independent)

theorem aggregation_ignores_batch_order_witness:
  "compute_local_epoch_aggregation sample_aggregation_env default_node_config 1 sample_loaded
    = compute_local_epoch_aggregation sample_aggregation_env default_node_config 1 (rev sample_loaded)"
proof -
  let ?is = "epoch_inputs sample_aggregation_env 1 sample_loaded"
  have "distinct (map obs_collector_id (map ai_observation ?is))"
    unfolding sample_epoch_inputs by (simp add: sample_observation_def)
  then have "\<forall>i \<in> set ?is. \<forall>j \<in> set ?is. collector_of i = collector_of j \<longrightarrow> candidate_rank i = candidate_rank j \<longrightarrow> i = j"
    by (auto simp: distinct_map inj_on_def)
  then show ?thesis
    using sample_aggregation aggregation_ignores_batch_order [of sample_loaded "rev sample_loaded"] by fastforce
qed

section \<open>Player rewards and the rewards of an epoch\<close>









end
